(* ===== verification/Dhcp_Prelude.thy ===== *)
theory Dhcp_Prelude
  imports Main "HOL-Library.Word"
begin

text \<open>
  The ground the components stand on: octets, the big-endian integer codecs of
  \<^verbatim>\<open>src/wire/codec.go\<close>, Go's fixed-width signed arithmetic, the part of Go's
  \<^verbatim>\<open>copy\<close> and octets expressions the sources use, and the named collections that
  carry the component proofs.
\<close>

unbundle bit_operations_syntax

named_theorems octet_simps \<open>round trips and lengths of the integer codecs\<close>
named_theorems clock_simps \<open>64-bit clock arithmetic without overflow\<close>

type_synonym byte = "8 word"

text \<open>A Go string is a sequence of octets; no text is decoded anywhere in the sources.\<close>
type_synonym gostring = "byte list"

lemma unat_byte_less [simp]: "unat (c :: byte) < 256"
  using unsigned_less [of c] by simp

lemma unat_byte_le [simp]: "unat (c :: byte) \<le> 255"
  using unat_byte_less [of c] by linarith

lemma unat_of_nat_byte [simp]: "n < 256 \<Longrightarrow> unat (of_nat n :: byte) = n"
  by (simp add: unat_of_nat take_bit_eq_mod)

section \<open>Sum results\<close>

text \<open>A fallible operation returns \<open>Inl\<close> of its error or \<open>Inr\<close> of its value.\<close>

definition bind_res :: "'e + 'a \<Rightarrow> ('a \<Rightarrow> 'e + 'b) \<Rightarrow> 'e + 'b" where
  "bind_res r f = (case r of Inl e \<Rightarrow> Inl e | Inr x \<Rightarrow> f x)"

lemma bind_res_simps [simp]:
  "bind_res (Inl e) f = Inl e"
  "bind_res (Inr x) f = f x"
  by (simp_all add: bind_res_def)

lemma bind_res_eq_Inr: "bind_res r f = Inr y \<longleftrightarrow> (\<exists>x. r = Inr x \<and> f x = Inr y)"
  by (cases r) auto

lemma bind_res_cong [fundef_cong]:
  "r = r' \<Longrightarrow> (\<And>x. r' = Inr x \<Longrightarrow> f x = g x) \<Longrightarrow> bind_res r f = bind_res r' g"
  by (cases r') auto

section \<open>Big-endian integers (src/wire/codec.go)\<close>

definition be16 :: "16 word \<Rightarrow> byte list" where
  "be16 v = [ucast (drop_bit 8 v), ucast v]"

definition be32 :: "32 word \<Rightarrow> byte list" where
  "be32 v = [ucast (drop_bit 24 v), ucast (drop_bit 16 v), ucast (drop_bit 8 v), ucast v]"

definition be64 :: "64 word \<Rightarrow> byte list" where
  "be64 v = map (\<lambda>i. ucast (drop_bit (56 - 8 * i) v)) [0..<8]"

definition ube16 :: "byte list \<Rightarrow> 16 word" where
  "ube16 b = push_bit 8 (ucast (b ! 0)) OR ucast (b ! 1)"

definition ube32 :: "byte list \<Rightarrow> 32 word" where
  "ube32 b = push_bit 24 (ucast (b ! 0)) OR push_bit 16 (ucast (b ! 1))
     OR push_bit 8 (ucast (b ! 2)) OR ucast (b ! 3)"

definition ube64 :: "byte list \<Rightarrow> 64 word" where
  "ube64 b = foldl (\<lambda>v i. push_bit 8 v OR ucast (b ! i)) 0 [0..<8]"

lemma length_be [simp, octet_simps]:
  "length (be16 v) = 2" "length (be32 w) = 4" "length (be64 x) = 8"
  by (simp_all add: be16_def be32_def be64_def)

lemma be_nonempty [simp]: "be16 v \<noteq> []" "be32 w \<noteq> []" "be64 x \<noteq> []"
  by (simp_all add: be16_def be32_def be64_def)

lemma ube16_be16 [simp, octet_simps]: "ube16 (be16 v) = v"
  by (rule bit_word_eqI) (auto simp: ube16_def be16_def bit_simps)

lemma ube32_be32 [simp, octet_simps]: "ube32 (be32 v) = v"
proof (rule bit_word_eqI)
  fix n assume "n < LENGTH(32)"
  then consider "n < 8" | "8 \<le> n" "n < 16" | "16 \<le> n" "n < 24" | "24 \<le> n" "n < 32"
    by fastforce
  then show "bit (ube32 (be32 v)) n = bit v n"
    by cases (auto simp: ube32_def be32_def bit_simps)
qed

lemma upt_8: "[0..<8] = [0, 1, 2, 3, 4, 5, 6, 7]"
  by code_simp

lemma ube64_unfold: "ube64 b = (let s = push_bit 8 in
  s (s (s (s (s (s (s (ucast (b ! 0)) OR ucast (b ! 1)) OR ucast (b ! 2)) OR ucast (b ! 3))
    OR ucast (b ! 4)) OR ucast (b ! 5)) OR ucast (b ! 6)) OR ucast (b ! 7))"
  unfolding ube64_def Let_def upt_8 by simp

lemma ube64_list: "ube64 [a, b, c, d, e, f, g, h] = (let s = push_bit 8 in
  s (s (s (s (s (s (s (ucast a) OR ucast b) OR ucast c) OR ucast d)
    OR ucast e) OR ucast f) OR ucast g) OR ucast h)"
  by (simp add: ube64_unfold)

lemma be64_unfold: "be64 v = [ucast (drop_bit 56 v), ucast (drop_bit 48 v), ucast (drop_bit 40 v),
  ucast (drop_bit 32 v), ucast (drop_bit 24 v), ucast (drop_bit 16 v), ucast (drop_bit 8 v), ucast v]"
  by (simp add: be64_def upt_conv_Cons)

lemma push_drop_octet:
  fixes v :: "64 word"
  shows "push_bit 8 (drop_bit (n + 8) v) OR ucast (ucast (drop_bit n v) :: byte) = drop_bit n v"
proof (rule bit_word_eqI)
  fix k assume "k < LENGTH(64)"
  then show "bit (push_bit 8 (drop_bit (n + 8) v) OR ucast (ucast (drop_bit n v) :: byte)) k
    = bit (drop_bit n v) k"
    by (cases "k < 8") (auto simp: bit_simps)
qed

lemma ube64_be64 [simp, octet_simps]: "ube64 (be64 v) = v"
proof -
  have top: "ucast (ucast (drop_bit 56 v) :: byte) = drop_bit 56 v"
    by (rule bit_word_eqI) (auto simp: bit_simps dest: bit_imp_le_length)
  have join: "push_bit 8 (drop_bit m v) OR ucast (ucast (drop_bit n v) :: byte) = drop_bit n v"
    if "m = n + 8" for m n
    using push_drop_octet [of n v] that by simp
  have last: "push_bit 8 (drop_bit 8 v) OR ucast (ucast v :: byte) = v"
    using push_drop_octet [of 0 v] by simp
  note joins = join [of 56 48] join [of 48 40] join [of 40 32] join [of 32 24]
    join [of 24 16] join [of 16 8]
  show ?thesis
    unfolding be64_unfold ube64_list Let_def top by (simp only: joins last arith_simps)
qed

lemma byte_bit_high [simp]: "8 \<le> n \<Longrightarrow> \<not> bit (b :: byte) n"
  by (auto dest: bit_imp_le_length)

lemma be16_ube16 [octet_simps]: "be16 (ube16 [a, b]) = [a, b]"
  by (auto simp: be16_def ube16_def bit_simps intro!: bit_word_eqI)

lemma be32_ube32 [octet_simps]: "be32 (ube32 [a, b, c, d]) = [a, b, c, d]"
  by (auto simp: be32_def ube32_def bit_simps intro!: bit_word_eqI)

lemma be32_inj [simp]: "be32 v = be32 w \<longleftrightarrow> v = w"
  by (metis ube32_be32)

lemma list_of_length4: "length xs = 4 \<Longrightarrow> \<exists>a b c d. xs = [a, b, c, d]"
  by (auto simp: numeral_eq_Suc length_Suc_conv)

lemma be32_ube32_length: "length xs = 4 \<Longrightarrow> be32 (ube32 xs) = xs"
  by (auto dest!: list_of_length4 simp: be32_ube32)

lemma be64_ube64 [octet_simps]: "be64 (ube64 [a, b, c, d, e, f, g, h]) = [a, b, c, d, e, f, g, h]"
  by (auto simp: be64_unfold ube64_list Let_def bit_simps intro!: bit_word_eqI)

lemma be64_ube64_length: "length xs = 8 \<Longrightarrow> be64 (ube64 xs) = xs"
  by (auto simp: numeral_eq_Suc [of "num.Bit0 (num.Bit0 (num.Bit0 num.One))"] numeral_eq_Suc length_Suc_conv
      be64_ube64)

section \<open>Slices\<close>

text \<open>
  \<open>octets off n b\<close> is Go's \<^verbatim>\<open>b[off:off+n]\<close> where it is in range, and
  \<open>copy_field n src\<close> is what \<^verbatim>\<open>copy(buf[off:off+n], src)\<close> leaves in a zeroed
  buffer: at most \<open>n\<close> octets, the rest zero.
\<close>

definition octets :: "nat \<Rightarrow> nat \<Rightarrow> 'a list \<Rightarrow> 'a list" where
  "octets off n b = take n (drop off b)"

definition copy_field :: "nat \<Rightarrow> byte list \<Rightarrow> byte list" where
  "copy_field n src = take n src @ replicate (n - length src) 0"

lemma length_copy_field [simp]: "length (copy_field n src) = n"
  by (simp add: copy_field_def)

lemma length_octets: "off + n \<le> length b \<Longrightarrow> length (octets off n b) = n"
  by (simp add: octets_def)

lemma take_copy_field: "length src \<le> n \<Longrightarrow> take (length src) (copy_field n src) = src"
  by (simp add: copy_field_def)

text \<open>Reading one field out of a buffer laid out as a concatenation of fields.\<close>

lemma octets_append_skip: "length xs \<le> off \<Longrightarrow> octets off n (xs @ ys) = octets (off - length xs) n ys"
  by (simp add: octets_def)

lemma octets_Cons_skip: "0 < off \<Longrightarrow> octets off n (x # xs) = octets (off - 1) n xs"
  by (cases off) (simp_all add: octets_def)

lemma octets_append_take: "length xs = n \<Longrightarrow> octets 0 n (xs @ ys) = xs"
  by (simp add: octets_def)

lemma octets_split: "take off b @ octets off n b @ drop (off + n) b = b"
  by (simp add: octets_def add.commute [of off] flip: drop_drop)

lemma octets_step: "i < length b \<Longrightarrow> 0 < n \<Longrightarrow> octets i n b = b ! i # octets (Suc i) (n - 1) b"
  by (cases n) (simp_all add: octets_def Cons_nth_drop_Suc [symmetric])

lemma drop_octets: "drop k (octets i n b) = octets (i + k) (n - k) b"
  by (simp add: octets_def drop_take add.commute)

lemma take_octets: "k \<le> n \<Longrightarrow> take k (octets i n b) = octets i k b"
  by (simp add: octets_def min_def)

lemma octets_to_end: "octets i (length b - i) b = drop i b"
  by (simp add: octets_def)

section \<open>Interfaces of the codecs\<close>

text \<open>
  A fixed-width integer codec: what every reader of a header field relies on. The
  client's lemma reads one field out of a buffer.
\<close>

locale octet_codec =
  fixes enc :: "'a \<Rightarrow> byte list"
    and dec :: "byte list \<Rightarrow> 'a"
    and width :: nat
  assumes enc_length: "length (enc v) = width"
    and dec_enc: "dec (enc v) = v"
begin

lemma enc_inj: "enc v = enc w \<longleftrightarrow> v = w"
  by (metis dec_enc)

lemma read_field: "length xs = off \<Longrightarrow> dec (octets off width (xs @ enc v @ ys)) = v"
  by (simp add: octets_def enc_length dec_enc)

lemma read_field_at: "off = length xs + k \<Longrightarrow> dec (octets off width (xs @ ys)) = dec (octets k width ys)"
  by (simp add: octets_def)

end

interpretation c16: octet_codec be16 ube16 2
  by unfold_locales simp_all

interpretation c32: octet_codec be32 ube32 4
  by unfold_locales simp_all

interpretation c64: octet_codec be64 ube64 8
  by unfold_locales simp_all

text \<open>
  A value that is a sequence of self-delimiting items, read by a loop. The provider
  gives the item writer, the one-item reader and the loop; the laws are that the loop
  is the iteration of the reader, and that the reader undoes the writer. The client
  gets the round trip over whole lists.
\<close>

locale item_reader =
  fixes enc1 :: "'a \<Rightarrow> byte list"
    and dec1 :: "byte list \<Rightarrow> 'e + 'a \<times> byte list"
    and decode_all :: "byte list \<Rightarrow> 'e + 'a list"
    and ok :: "'a \<Rightarrow> bool"
  assumes loop_end: "decode_all [] = Inr []"
    and loop_step: "b \<noteq> [] \<Longrightarrow>
      decode_all b = bind_res (dec1 b) (\<lambda>(x, r). bind_res (decode_all r) (\<lambda>xs. Inr (x # xs)))"
    and item_read: "ok x \<Longrightarrow> dec1 (enc1 x @ r) = Inr (x, r)"
    and item_nonempty: "ok x \<Longrightarrow> enc1 x \<noteq> []"
begin

lemma decode_concat: "list_all ok xs \<Longrightarrow> decode_all (concat (map enc1 xs)) = Inr xs"
proof (induction xs)
  case Nil
  then show ?case by (simp add: loop_end)
next
  case (Cons x xs)
  then have "ok x" and tail: "decode_all (concat (map enc1 xs)) = Inr xs"
    by simp_all
  then have "enc1 x @ concat (map enc1 xs) \<noteq> []" by (simp add: item_nonempty)
  with \<open>ok x\<close> tail show ?case by (simp add: loop_step item_read)
qed

end

text \<open>
  Where the reader accepts nothing but what the writer produces, a successful read
  determines the octets: the list is exactly what was sent, and nothing was skipped.
\<close>

locale item_list = item_reader +
  assumes item_canonical: "dec1 b = Inr (x, r) \<Longrightarrow> ok x \<and> b = enc1 x @ r"
begin

lemma concat_decode: "decode_all b = Inr xs \<Longrightarrow> list_all ok xs \<and> b = concat (map enc1 xs)"
proof (induction xs arbitrary: b)
  case Nil
  show ?case
  proof (cases "b = []")
    case False
    with Nil show ?thesis
      by (auto simp: loop_step bind_res_eq_Inr split: prod.splits)
  qed simp
next
  case (Cons x xs)
  then have "b \<noteq> []" by (auto simp: loop_end)
  with Cons.prems obtain r where "dec1 b = Inr (x, r)" and "decode_all r = Inr xs"
    by (auto simp: loop_step bind_res_eq_Inr split: prod.splits)
  with Cons.IH item_canonical show ?case by fastforce
qed

lemma decode_iff: "decode_all b = Inr xs \<longleftrightarrow> list_all ok xs \<and> b = concat (map enc1 xs)"
  using decode_concat concat_decode by blast

end

section \<open>Signed 64-bit arithmetic\<close>

text \<open>
  Go's int64: addition, subtraction and multiplication wrap around in two's
  complement. A value is an \<open>int\<close>, and every operation of the sources is followed by
  \<open>i64\<close>, which reduces into \<open>[-2^63, 2^63)\<close>. Division truncates towards zero.
\<close>

definition i64 :: "int \<Rightarrow> int" where
  "i64 x = (x + 9223372036854775808) mod 18446744073709551616 - 9223372036854775808"

abbreviation max_int64 :: int where
  "max_int64 \<equiv> 9223372036854775807"

definition in64 :: "int \<Rightarrow> bool" where
  "in64 x \<longleftrightarrow> - 9223372036854775808 \<le> x \<and> x \<le> max_int64"

lemma i64_in64: "in64 (i64 x)"
  unfolding in64_def i64_def by (simp add: pos_mod_bound pos_mod_sign algebra_simps)

lemma i64_id [clock_simps]: "in64 x \<Longrightarrow> i64 x = x"
  by (simp add: in64_def i64_def)

definition quot64 :: "int \<Rightarrow> int \<Rightarrow> int" where
  "quot64 a b = (if a \<ge> 0 then a div b else - ((- a) div b))"

lemma quot64_nonneg: "a \<ge> 0 \<Longrightarrow> quot64 a b = a div b"
  by (simp add: quot64_def)

end
