(* ===== verification/Wire_Md5.thy ===== *)
theory Wire_Md5
  imports Dhcp_Prelude
begin

text \<open>
  MD5 and HMAC-MD5 as written out in \<^verbatim>\<open>src/wire/hmacmd5.go\<close>: the padding loop, the
  64-step compression with its tables, the little-endian output, RFC 2104's HMAC, the
  constant-time comparison and the check of a digest over a buffer with its own octets
  zeroed.
\<close>

abbreviation (input) md5BlockSize :: nat where "md5BlockSize \<equiv> 64"
abbreviation (input) md5DigestSize :: nat where "md5DigestSize \<equiv> 16"

definition md5Table :: "32 word list" where
  "md5Table =
    [0xd76aa478, 0xe8c7b756, 0x242070db, 0xc1bdceee,
     0xf57c0faf, 0x4787c62a, 0xa8304613, 0xfd469501,
     0x698098d8, 0x8b44f7af, 0xffff5bb1, 0x895cd7be,
     0x6b901122, 0xfd987193, 0xa679438e, 0x49b40821,
     0xf61e2562, 0xc040b340, 0x265e5a51, 0xe9b6c7aa,
     0xd62f105d, 0x02441453, 0xd8a1e681, 0xe7d3fbc8,
     0x21e1cde6, 0xc33707d6, 0xf4d50d87, 0x455a14ed,
     0xa9e3e905, 0xfcefa3f8, 0x676f02d9, 0x8d2a4c8a,
     0xfffa3942, 0x8771f681, 0x6d9d6122, 0xfde5380c,
     0xa4beea44, 0x4bdecfa9, 0xf6bb4b60, 0xbebfbc70,
     0x289b7ec6, 0xeaa127fa, 0xd4ef3085, 0x04881d05,
     0xd9d4d039, 0xe6db99e5, 0x1fa27cf8, 0xc4ac5665,
     0xf4292244, 0x432aff97, 0xab9423a7, 0xfc93a039,
     0x655b59c3, 0x8f0ccc92, 0xffeff47d, 0x85845dd1,
     0x6fa87e4f, 0xfe2ce6e0, 0xa3014314, 0x4e0811a1,
     0xf7537e82, 0xbd3af235, 0x2ad7d2bb, 0xeb86d391]"

definition md5Shift :: "nat list" where
  "md5Shift =
    [7, 12, 17, 22, 7, 12, 17, 22, 7, 12, 17, 22, 7, 12, 17, 22,
     5, 9, 14, 20, 5, 9, 14, 20, 5, 9, 14, 20, 5, 9, 14, 20,
     4, 11, 16, 23, 4, 11, 16, 23, 4, 11, 16, 23, 4, 11, 16, 23,
     6, 10, 15, 21, 6, 10, 15, 21, 6, 10, 15, 21, 6, 10, 15, 21]"

text \<open>The loop that appends zeroes until the length is 56 modulo 64.\<close>

function md5_fill :: "byte list \<Rightarrow> byte list" where
  "md5_fill padded = (if length padded mod md5BlockSize = 56 then padded else md5_fill (padded @ [0]))"
  by pat_completeness auto
termination
  by (relation "measure (\<lambda>padded. let m = length padded mod 64 in
        if m \<le> 56 then 56 - m else 120 - m)")
    (auto simp: Let_def mod_Suc)

declare md5_fill.simps [simp del]

definition md5_padded :: "byte list \<Rightarrow> byte list" where
  "md5_padded msg =
     (let bits = of_nat (length msg) * 8 :: 64 word in
      md5_fill (msg @ [0x80]) @ map (\<lambda>i. ucast (drop_bit (8 * i) bits)) [0..<8])"

type_synonym md5_state = "32 word \<times> 32 word \<times> 32 word \<times> 32 word"

definition md5_words :: "byte list \<Rightarrow> 32 word list" where
  "md5_words block = map (\<lambda>i. let j = 4 * i in
     ucast (block ! j) OR push_bit 8 (ucast (block ! (j + 1)))
     OR push_bit 16 (ucast (block ! (j + 2))) OR push_bit 24 (ucast (block ! (j + 3)))) [0..<16]"

definition md5_step :: "32 word list \<Rightarrow> md5_state \<Rightarrow> nat \<Rightarrow> md5_state" where
  "md5_step x st i = (case st of (a, b, c, d) \<Rightarrow>
     let (f, g) =
       (if i < 16 then ((b AND c) OR (NOT b AND d), i)
        else if i < 32 then ((d AND b) OR (NOT d AND c), (5 * i + 1) mod 16)
        else if i < 48 then (b XOR c XOR d, (3 * i + 5) mod 16)
        else (c XOR (b OR NOT d), (7 * i) mod 16));
       sum = a + f + md5Table ! i + x ! g
     in (d, b + (push_bit (md5Shift ! i) sum OR drop_bit (32 - md5Shift ! i) sum), b, c))"

definition md5_block :: "md5_state \<Rightarrow> byte list \<Rightarrow> md5_state" where
  "md5_block st block = (case st of (aa, bb, cc, dd) \<Rightarrow>
     case foldl (md5_step (md5_words block)) st [0..<64] of
       (a, b, c, d) \<Rightarrow> (a + aa, b + bb, c + cc, d + dd))"

function md5_blocks :: "md5_state \<Rightarrow> byte list \<Rightarrow> md5_state" where
  "md5_blocks st padded =
     (if padded = [] then st
      else md5_blocks (md5_block st (take md5BlockSize padded)) (drop md5BlockSize padded))"
  by pat_completeness auto
termination
  by (relation "measure (\<lambda>(st, padded). length padded)") auto

declare md5_blocks.simps [simp del]

definition md5_out :: "32 word \<Rightarrow> byte list" where
  "md5_out v = [ucast v, ucast (drop_bit 8 v), ucast (drop_bit 16 v), ucast (drop_bit 24 v)]"

definition md5Sum :: "byte list \<Rightarrow> byte list" where
  "md5Sum msg =
     (case md5_blocks (0x67452301, 0xefcdab89, 0x98badcfe, 0x10325476) (md5_padded msg) of
        (a, b, c, d) \<Rightarrow> md5_out a @ md5_out b @ md5_out c @ md5_out d)"

definition hmacMD5 :: "byte list \<Rightarrow> byte list \<Rightarrow> byte list" where
  "hmacMD5 key text =
     (let k = copy_field md5BlockSize (if length key > md5BlockSize then md5Sum key else key);
          inner = map (\<lambda>v. v XOR 0x36) k @ text;
          outer = map (\<lambda>v. v XOR 0x5c) k @ md5Sum inner
      in md5Sum outer)"

definition equalConstantTime :: "byte list \<Rightarrow> byte list \<Rightarrow> bool" where
  "equalConstantTime a b =
     (if length a \<noteq> length b then False
      else foldl (\<lambda>diff (x, y). diff OR (x XOR y)) 0 (zip a b) = 0)"

text \<open>\<^verbatim>\<open>clear(buf[start:end])\<close> on a copy.\<close>

definition clear_range :: "nat \<Rightarrow> nat \<Rightarrow> byte list \<Rightarrow> byte list" where
  "clear_range start stop b = take start b @ replicate (stop - start) 0 @ drop stop b"

definition zeroedHMACMatches :: "byte list \<Rightarrow> byte list \<Rightarrow> nat \<Rightarrow> nat \<Rightarrow> bool" where
  "zeroedHMACMatches key raw start stop =
     equalConstantTime (octets start (stop - start) raw) (hmacMD5 key (clear_range start stop raw))"

section \<open>Properties\<close>

lemma md5_fill_spec:
  "(\<exists>k < 64. md5_fill p = p @ replicate k 0) \<and> length (md5_fill p) mod md5BlockSize = 56"
proof (induction p rule: md5_fill.induct)
  case (1 p)
  show ?case
  proof (cases "length p mod 64 = 56")
    case True
    then show ?thesis by (subst md5_fill.simps, subst (2) md5_fill.simps) (auto intro: exI [of _ 0])
  next
    case False
    then have step: "md5_fill p = md5_fill (p @ [0])" by (subst md5_fill.simps) simp
    from 1 False obtain k where k: "md5_fill (p @ [0]) = (p @ [0]) @ replicate k 0" "k < 64"
      and len: "length (md5_fill (p @ [0])) mod 64 = 56" by blast
    have eq: "md5_fill p = p @ replicate (Suc k) 0" using k(1) by (simp add: step replicate_app_Cons_same)
    moreover have "Suc k < 64"
    proof (rule ccontr)
      assume "\<not> Suc k < 64"
      with k(2) have "Suc k = 64" by simp
      with eq len have "(length p + 64) mod 64 = 56" by (simp add: step)
      with False show False by simp
    qed
    moreover have "length (md5_fill p) mod 64 = 56" using len by (simp add: step)
    ultimately show ?thesis by blast
  qed
qed

lemma md5_padded_spec:
  "\<exists>k < 64. md5_padded msg = msg @ [0x80] @ replicate k 0
     @ map (\<lambda>i. ucast (drop_bit (8 * i) (of_nat (length msg) * 8 :: 64 word))) [0..<8]"
  using md5_fill_spec [of "msg @ [0x80]"] by (auto simp: md5_padded_def Let_def)

lemma md5_padded_blocks: "length (md5_padded msg) mod md5BlockSize = 0"
proof -
  have "length (md5_fill (msg @ [0x80])) mod 64 = 56" using md5_fill_spec by blast
  then show ?thesis by (simp add: md5_padded_def Let_def mod_add_left_eq [symmetric])
qed

lemma length_md5Sum [simp]: "length (md5Sum msg) = md5DigestSize"
  by (simp add: md5Sum_def md5_out_def split: prod.splits)

lemma length_hmacMD5 [simp]: "length (hmacMD5 key txt) = md5DigestSize"
  by (simp add: hmacMD5_def Let_def)

lemma or_eq_0: "(x :: byte) OR y = 0 \<longleftrightarrow> x = 0 \<and> y = 0"
  by (auto simp: bit_eq_iff bit_or_iff)

lemma diff_fold:
  "length a = length b \<Longrightarrow>
   foldl (\<lambda>diff (x, y). diff OR (x XOR y)) acc (zip a b) = 0 \<longleftrightarrow> acc = 0 \<and> a = b"
  for acc :: byte
proof (induction a b arbitrary: acc rule: list_induct2)
  case (Cons x a y b)
  have "x XOR y = 0 \<longleftrightarrow> x = y" by (auto simp: bit_eq_iff bit_xor_iff)
  with Cons show ?case by (auto simp: or_eq_0)
qed simp

text \<open>
  The constant-time comparison decides equality: it accumulates every difference
  and still answers true exactly on equal octets, so no forged digest passes it.
\<close>

theorem equal_constant_time_iff: "equalConstantTime a b \<longleftrightarrow> a = b"
  using diff_fold [of a b 0] by (auto simp: equalConstantTime_def)

lemma zeroedHMACMatches_iff:
  "zeroedHMACMatches key raw start stop \<longleftrightarrow>
     octets start (stop - start) raw = hmacMD5 key (clear_range start stop raw)"
  using diff_fold [of "octets start (stop - start) raw" "hmacMD5 key (clear_range start stop raw)" 0]
  by (auto simp: zeroedHMACMatches_def equalConstantTime_def)

text \<open>
  The padded message is whole 64-octet blocks and holds the message unchanged, one
  0x80 octet, fewer than 64 zero octets and the bit length, low-order octet first.
\<close>

theorem md5_padding:
  "length (md5_padded msg) mod md5BlockSize = 0 \<and>
   (\<exists>k < 64. md5_padded msg = msg @ [0x80] @ replicate k 0
     @ map (\<lambda>i. ucast (drop_bit (8 * i) (of_nat (length msg) * 8 :: 64 word))) [0..<8])"
  using md5_padded_blocks md5_padded_spec by simp

end
