(* ===== verification/Wire_Md5_Vectors.thy ===== *)
theory Wire_Md5_Vectors
  imports Wire_Md5
begin

text \<open>
  Published test vectors evaluated in the kernel, in a theory of their own because the
  evaluation takes longer than the proofs of \<open>Wire_Md5\<close>.
\<close>

text \<open>
  The compression function computes MD5: RFC 1321's test vectors for the empty
  string and for "abc" come out of \<^verbatim>\<open>md5Sum\<close>.
\<close>

theorem md5_vectors:
  "md5Sum [] = [0xd4, 0x1d, 0x8c, 0xd9, 0x8f, 0x00, 0xb2, 0x04,
     0xe9, 0x80, 0x09, 0x98, 0xec, 0xf8, 0x42, 0x7e]
   \<and> md5Sum [97, 98, 99] = [0x90, 0x01, 0x50, 0x98, 0x3c, 0xd2, 0x4f, 0xb0,
     0xd6, 0x96, 0x3f, 0x7d, 0x28, 0xe1, 0x7f, 0x72]"
  by code_simp

text \<open>
  RFC 2202's second HMAC-MD5 vector, the key "Jefe" over "what do ya want for
  nothing?", comes out of \<^verbatim>\<open>hmacMD5\<close>.
\<close>

theorem hmac_vector:
  "hmacMD5 [74, 101, 102, 101]
     [119, 104, 97, 116, 32, 100, 111, 32, 121, 97, 32, 119, 97, 110, 116,
      32, 102, 111, 114, 32, 110, 111, 116, 104, 105, 110, 103, 63]
   = [0x75, 0x0c, 0x78, 0x3e, 0x6a, 0xb0, 0xb5, 0x03,
      0xea, 0xa8, 0x6e, 0x31, 0x0a, 0x5d, 0xb7, 0x38]"
  by code_simp

end
