(* ===== verification/Netip.thy ===== *)
theory Netip
  imports Dhcp_Prelude
begin

text \<open>
  The part of Go's standard package \<^verbatim>\<open>net/netip\<close> the sources use: \<^verbatim>\<open>netip.Addr\<close>
  (the invalid zero value, an IPv4 address or an IPv6 address without zone) and
  \<^verbatim>\<open>netip.Prefix\<close>. Equality of the model is Go's \<^verbatim>\<open>==\<close> on these values.
\<close>

datatype addr = NoAddr | Addr4 "32 word" | Addr6 "128 word"

fun IsValid :: "addr \<Rightarrow> bool" where
  "IsValid NoAddr = False"
| "IsValid _ = True"

fun Is4 :: "addr \<Rightarrow> bool" where
  "Is4 (Addr4 _) = True"
| "Is4 _ = False"

definition Is4In6 :: "addr \<Rightarrow> bool" where
  "Is4In6 a = (case a of Addr6 w \<Rightarrow> drop_bit 32 w = 65535 | _ \<Rightarrow> False)"

fun IsUnspecified :: "addr \<Rightarrow> bool" where
  "IsUnspecified NoAddr = False"
| "IsUnspecified (Addr4 w) = (w = 0)"
| "IsUnspecified (Addr6 w) = (w = 0)"

text \<open>As of Go 1.22.4 the multicast test looks through the 4-in-6 form.\<close>

fun IsMulticast :: "addr \<Rightarrow> bool" where
  "IsMulticast NoAddr = False"
| "IsMulticast (Addr4 w) = (drop_bit 28 w = 14)"
| "IsMulticast (Addr6 w) =
     (if drop_bit 32 w = 65535 then drop_bit 28 (ucast w :: 32 word) = 14 else drop_bit 120 w = 255)"

definition Unmap :: "addr \<Rightarrow> addr" where
  "Unmap a = (case a of Addr6 w \<Rightarrow> if drop_bit 32 w = 65535 then Addr4 (ucast w) else a | _ \<Rightarrow> a)"

text \<open>\<^verbatim>\<open>Addr.As4\<close> panics on the zero value and on an IPv6 address that is not 4-in-6: \<open>None\<close>.\<close>

definition As4 :: "addr \<Rightarrow> byte list option" where
  "As4 a = (case Unmap a of Addr4 w \<Rightarrow> Some (be32 w) | _ \<Rightarrow> None)"

lemma As4_Addr4 [simp]: "As4 (Addr4 w) = Some (be32 w)"
  by (simp add: As4_def Unmap_def)

lemma Is4E: "Is4 a \<Longrightarrow> \<exists>w. a = Addr4 w"
  by (cases a) auto

lemma Is4_As4: "Is4 a \<Longrightarrow> \<exists>b. As4 a = Some b \<and> length b = 4"
  by (cases a) auto

lemma Unmap_Is4 [simp]: "Is4 a \<Longrightarrow> Unmap a = a"
  by (cases a) (auto simp: Unmap_def)

text \<open>\<^verbatim>\<open>netip.AddrFrom4\<close> of a four-octet slice.\<close>

definition AddrFrom4 :: "byte list \<Rightarrow> addr" where
  "AddrFrom4 b = Addr4 (ube32 b)"

lemma AddrFrom4_be32 [simp]: "AddrFrom4 (be32 w) = Addr4 w"
  by (simp add: AddrFrom4_def)

lemma Is4_AddrFrom4 [simp]: "Is4 (AddrFrom4 b)"
  by (simp add: AddrFrom4_def)

text \<open>
  \<^verbatim>\<open>netip.Prefix\<close>: an address and a length, the zero value having length -1.
  \<^verbatim>\<open>PrefixFrom\<close> with a length the address family does not have keeps the address and
  is invalid; \<^verbatim>\<open>Masked\<close> of an invalid prefix is the zero prefix.
\<close>

record prefix =
  paddr :: addr
  pbits :: int

definition zero_prefix :: prefix where
  "zero_prefix = \<lparr>paddr = NoAddr, pbits = - 1\<rparr>"

fun BitLen :: "addr \<Rightarrow> int" where
  "BitLen NoAddr = 0"
| "BitLen (Addr4 _) = 32"
| "BitLen (Addr6 _) = 128"

definition PrefixFrom :: "addr \<Rightarrow> int \<Rightarrow> prefix" where
  "PrefixFrom a n =
     \<lparr>paddr = a, pbits = (if IsValid a \<and> 0 \<le> n \<and> n \<le> BitLen a then n else - 1)\<rparr>"

definition netmask32 :: "nat \<Rightarrow> 32 word" where
  "netmask32 n = NOT (mask (32 - n))"

definition Masked :: "prefix \<Rightarrow> prefix" where
  "Masked p =
     (if pbits p < 0 then zero_prefix
      else case paddr p of
        NoAddr \<Rightarrow> zero_prefix
      | Addr4 w \<Rightarrow> p\<lparr>paddr := Addr4 (w AND netmask32 (nat (pbits p)))\<rparr>
      | Addr6 w \<Rightarrow> p\<lparr>paddr := Addr6 (w AND NOT (mask (128 - nat (pbits p))))\<rparr>)"

lemma Masked_Masked [simp]: "Masked (Masked p) = Masked p"
  by (cases "paddr p") (auto simp: Masked_def zero_prefix_def and.assoc)

lemma Masked_PrefixFrom4:
  "0 \<le> n \<Longrightarrow> n \<le> 32 \<Longrightarrow>
     Masked (PrefixFrom (Addr4 w) n) = \<lparr>paddr = Addr4 (w AND netmask32 (nat n)), pbits = n\<rparr>"
  by (simp add: Masked_def PrefixFrom_def)

lemma bit_netmask32: "n \<le> 32 \<Longrightarrow> bit (netmask32 n) k \<longleftrightarrow> 32 - n \<le> k \<and> k < 32"
  by (auto simp: netmask32_def bit_simps)

end
