(* ===== verification/Netip6.thy ===== *)
theory Netip6
  imports Netip
begin

text \<open>
  The IPv6 side of \<^verbatim>\<open>net/netip\<close>: the sixteen octets of an address, the family tests and the
  validity of a prefix.
\<close>

section \<open>Octets of a word of any width\<close>

definition from_octets :: "byte list \<Rightarrow> 'a::len word" where
  "from_octets = foldl (\<lambda>v b. push_bit 8 v OR ucast b) 0"

lemma from_octets_snoc: "from_octets (xs @ [b]) = push_bit 8 (from_octets xs) OR ucast b"
  by (simp add: from_octets_def)

lemma bit_from_octets:
  "bit (from_octets xs :: 'a::len word) n \<longleftrightarrow>
     n < LENGTH('a) \<and> n < 8 * length xs \<and> bit (xs ! (length xs - 1 - n div 8)) (n mod 8)"
proof (induction xs arbitrary: n rule: rev_induct)
  case Nil
  show ?case by (simp add: from_octets_def)
next
  case (snoc b xs)
  show ?case
  proof (cases "n < 8")
    case True
    then show ?thesis
      by (auto simp: from_octets_snoc bit_simps nth_append dest: bit_imp_le_length)
  next
    case False
    then obtain m where m: "n = m + 8" by (metis add.commute le_Suc_ex not_less)
    have "n div 8 = m div 8 + 1" "n mod 8 = m mod 8" by (simp_all add: m)
    moreover have "m < 8 * length xs \<Longrightarrow> (xs @ [b]) ! (length xs - (m div 8 + 1)) = xs ! (length xs - 1 - m div 8)"
      by (auto simp: nth_append)
    moreover have "\<not> bit b n" using m by simp
    ultimately show ?thesis
      using snoc.IH [of m] by (auto simp: from_octets_snoc bit_simps m dest: bit_imp_le_length)
  qed
qed

section \<open>Addresses\<close>

definition be128 :: "128 word \<Rightarrow> byte list" where
  "be128 v = map (\<lambda>i. ucast (drop_bit (8 * (15 - i)) v)) [0..<16]"

definition ube128 :: "byte list \<Rightarrow> 128 word" where
  "ube128 b = from_octets (take 16 b)"

lemma length_be128 [simp, octet_simps]: "length (be128 v) = 16"
  by (simp add: be128_def)

lemma ube128_be128 [simp, octet_simps]: "ube128 (be128 v) = v"
proof (rule bit_word_eqI)
  fix n assume n: "n < LENGTH(128)"
  then have "15 - n div 8 < 16" "15 - (15 - n div 8) = n div 8" by simp_all
  then have "bit (be128 v ! (15 - n div 8)) (n mod 8) \<longleftrightarrow> bit v (8 * (n div 8) + n mod 8)"
    by (simp add: be128_def bit_simps del: upt_Suc)
  with n show "bit (ube128 (be128 v)) n \<longleftrightarrow> bit v n"
    by (simp add: ube128_def bit_from_octets)
qed

lemma be128_ube128_length: "length b = 16 \<Longrightarrow> be128 (ube128 b) = b"
proof (rule nth_equalityI)
  fix i assume i: "i < length (be128 (ube128 b))" and b: "length b = 16"
  show "be128 (ube128 b) ! i = b ! i"
  proof (rule bit_word_eqI)
    fix k assume "k < LENGTH(8)"
    then have k: "k < 8" by simp
    have "15 - (8 * (15 - i) + k) div 8 = i" "(8 * (15 - i) + k) mod 8 = k" "8 * (15 - i) + k < 128"
      using i k by auto
    then show "bit (be128 (ube128 b) ! i) k \<longleftrightarrow> bit (b ! i) k"
      using i k b by (simp add: be128_def bit_simps ube128_def bit_from_octets)
  qed
qed simp

interpretation c128: octet_codec be128 ube128 16
  by unfold_locales simp_all

definition AddrFrom16 :: "byte list \<Rightarrow> addr" where
  "AddrFrom16 b = Addr6 (ube128 b)"

fun Is6 :: "addr \<Rightarrow> bool" where
  "Is6 (Addr6 _) = True"
| "Is6 _ = False"

text \<open>\<^verbatim>\<open>Addr.As16\<close>: an IPv4 address maps into the 4-in-6 block, the zero value gives sixteen zeros.\<close>

definition As16 :: "addr \<Rightarrow> byte list" where
  "As16 a = (case a of
      NoAddr \<Rightarrow> replicate 16 0
    | Addr4 w \<Rightarrow> replicate 10 0 @ [0xFF, 0xFF] @ be32 w
    | Addr6 w \<Rightarrow> be128 w)"

lemma AddrFrom16_be128 [simp]: "AddrFrom16 (be128 w) = Addr6 w"
  by (simp add: AddrFrom16_def)

lemma As16_Addr6 [simp]: "As16 (Addr6 w) = be128 w"
  by (simp add: As16_def)

lemma Is6_AddrFrom16 [simp]: "Is6 (AddrFrom16 b)"
  by (simp add: AddrFrom16_def)

lemma As16_AddrFrom16: "length b = 16 \<Longrightarrow> As16 (AddrFrom16 b) = b"
  by (simp add: AddrFrom16_def be128_ube128_length)

lemma AddrFrom16_As16: "Is6 a \<Longrightarrow> AddrFrom16 (As16 a) = a"
  by (cases a) simp_all

lemma length_As16 [simp]: "length (As16 a) = 16"
  by (cases a) (simp_all add: As16_def)

definition PrefixIsValid :: "prefix \<Rightarrow> bool" where
  "PrefixIsValid p \<longleftrightarrow> 0 \<le> pbits p"

end
