(* ===== verification/Wire_Codec.thy ===== *)
theory Wire_Codec
  imports Netip
begin

text \<open>
  The DHCPv4 message and its codec: \<^verbatim>\<open>src/wire/message.go\<close>, \<^verbatim>\<open>src/wire/codec.go\<close> and
  the option map of \<^verbatim>\<open>src/wire/option.go\<close>. \<open>Encode\<close> and \<open>Decode\<close> are the whole
  functions of the source. The buffer writes of \<^verbatim>\<open>Encode\<close> go to disjoint, contiguous
  ranges of a zeroed buffer, so the buffer is written here as the concatenation of its
  fields.
\<close>

section \<open>Codes and constants\<close>

text \<open>The option codes of \<^verbatim>\<open>option.go\<close>.\<close>

abbreviation (input) OptPad :: byte where "OptPad \<equiv> 0"
abbreviation (input) OptSubnetMask :: byte where "OptSubnetMask \<equiv> 1"
abbreviation (input) OptTimeOffset :: byte where "OptTimeOffset \<equiv> 2"
abbreviation (input) OptRouter :: byte where "OptRouter \<equiv> 3"
abbreviation (input) OptDNSServer :: byte where "OptDNSServer \<equiv> 6"
abbreviation (input) OptHostName :: byte where "OptHostName \<equiv> 12"
abbreviation (input) OptDomainName :: byte where "OptDomainName \<equiv> 15"
abbreviation (input) OptInterfaceMTU :: byte where "OptInterfaceMTU \<equiv> 26"
abbreviation (input) OptBroadcastAddress :: byte where "OptBroadcastAddress \<equiv> 28"
abbreviation (input) OptStaticRoute :: byte where "OptStaticRoute \<equiv> 33"
abbreviation (input) OptNTPServer :: byte where "OptNTPServer \<equiv> 42"
abbreviation (input) OptVendorSpecific :: byte where "OptVendorSpecific \<equiv> 43"
abbreviation (input) OptRequestedIP :: byte where "OptRequestedIP \<equiv> 50"
abbreviation (input) OptLeaseTime :: byte where "OptLeaseTime \<equiv> 51"
abbreviation (input) OptOverload :: byte where "OptOverload \<equiv> 52"
abbreviation (input) OptMessageType :: byte where "OptMessageType \<equiv> 53"
abbreviation (input) OptServerID :: byte where "OptServerID \<equiv> 54"
abbreviation (input) OptParameterList :: byte where "OptParameterList \<equiv> 55"
abbreviation (input) OptMessage :: byte where "OptMessage \<equiv> 56"
abbreviation (input) OptMaxMessageSize :: byte where "OptMaxMessageSize \<equiv> 57"
abbreviation (input) OptRenewalTime :: byte where "OptRenewalTime \<equiv> 58"
abbreviation (input) OptRebindingTime :: byte where "OptRebindingTime \<equiv> 59"
abbreviation (input) OptVendorClassID :: byte where "OptVendorClassID \<equiv> 60"
abbreviation (input) OptClientID :: byte where "OptClientID \<equiv> 61"
abbreviation (input) OptTFTPServer :: byte where "OptTFTPServer \<equiv> 66"
abbreviation (input) OptBootfileName :: byte where "OptBootfileName \<equiv> 67"
abbreviation (input) OptUserClass :: byte where "OptUserClass \<equiv> 77"
abbreviation (input) OptRapidCommit :: byte where "OptRapidCommit \<equiv> 80"
abbreviation (input) OptFQDN :: byte where "OptFQDN \<equiv> 81"
abbreviation (input) OptAuthentication :: byte where "OptAuthentication \<equiv> 90"
abbreviation (input) OptPosixTimezone :: byte where "OptPosixTimezone \<equiv> 100"
abbreviation (input) OptTZDatabase :: byte where "OptTZDatabase \<equiv> 101"
abbreviation (input) OptIPv6OnlyPreferred :: byte where "OptIPv6OnlyPreferred \<equiv> 108"
abbreviation (input) OptDomainSearch :: byte where "OptDomainSearch \<equiv> 119"
abbreviation (input) OptClasslessStaticRte :: byte where "OptClasslessStaticRte \<equiv> 121"
abbreviation (input) OptVIVSO :: byte where "OptVIVSO \<equiv> 125"
abbreviation (input) OptForcerenewNonce :: byte where "OptForcerenewNonce \<equiv> 145"
abbreviation (input) OptMSClasslessStaticRte :: byte where "OptMSClasslessStaticRte \<equiv> 249"
abbreviation (input) OptWPAD :: byte where "OptWPAD \<equiv> 252"
abbreviation (input) OptEnd :: byte where "OptEnd \<equiv> 255"

text \<open>The BOOTP op field and the message types of option 53.\<close>

abbreviation (input) BootRequest :: byte where "BootRequest \<equiv> 1"
abbreviation (input) BootReply :: byte where "BootReply \<equiv> 2"

abbreviation (input) MsgDiscover :: byte where "MsgDiscover \<equiv> 1"
abbreviation (input) MsgOffer :: byte where "MsgOffer \<equiv> 2"
abbreviation (input) MsgRequest :: byte where "MsgRequest \<equiv> 3"
abbreviation (input) MsgDecline :: byte where "MsgDecline \<equiv> 4"
abbreviation (input) MsgAck :: byte where "MsgAck \<equiv> 5"
abbreviation (input) MsgNak :: byte where "MsgNak \<equiv> 6"
abbreviation (input) MsgRelease :: byte where "MsgRelease \<equiv> 7"
abbreviation (input) MsgInform :: byte where "MsgInform \<equiv> 8"
abbreviation (input) MsgForceRenew :: byte where "MsgForceRenew \<equiv> 9"

abbreviation (input) HTypeEthernet :: byte where "HTypeEthernet \<equiv> 1"
abbreviation (input) FlagBroadcast :: "16 word" where "FlagBroadcast \<equiv> 0x8000"

abbreviation (input) fixedLen :: nat where "fixedLen \<equiv> 236"
abbreviation (input) HeaderLen :: nat where "HeaderLen \<equiv> 240"
abbreviation (input) chaddrLen :: nat where "chaddrLen \<equiv> 16"
abbreviation (input) snameLen :: nat where "snameLen \<equiv> 64"
abbreviation (input) fileLen :: nat where "fileLen \<equiv> 128"
abbreviation (input) snameOff :: nat where "snameOff \<equiv> 44"
abbreviation (input) fileOff :: nat where "fileOff \<equiv> 108"
abbreviation (input) MinMessageLen :: nat where "MinMessageLen \<equiv> 300"

definition magicCookie :: "byte list" where
  "magicCookie = [99, 130, 83, 99]"

section \<open>Options and messages\<close>

text \<open>Every option of a message, keyed by code, values unparsed.\<close>
type_synonym options = "byte \<rightharpoonup> byte list"

definition all_codes :: "byte list" where
  "all_codes = map of_nat [0..<256]"

text \<open>
  \<^verbatim>\<open>Options.Codes\<close>: the keys of the map, sorted. Go collects the keys in map order
  and sorts them; the result is the ascending list of the codes present.
\<close>

definition Codes :: "options \<Rightarrow> byte list" where
  "Codes opts = filter (\<lambda>c. opts c \<noteq> None) all_codes"

record message =
  Op :: byte
  HType :: byte
  HLen :: byte
  Hops :: byte
  XID :: "32 word"
  Secs :: "16 word"
  Flags :: "16 word"
  CIAddr :: addr
  YIAddr :: addr
  SIAddr :: addr
  GIAddr :: addr
  CHAddr :: "byte list"
  SName :: "byte list"
  File :: "byte list"
  Options :: options

text \<open>The errors of \<^verbatim>\<open>codec.go\<close>, by the sentinel each wraps.\<close>

datatype codec_error = ErrShort | ErrBadCookie | ErrTruncatedOption | ErrOptionOverrun
  | ErrCHAddrTooLong | ErrOptionTooLong

definition Type :: "message \<Rightarrow> byte option" where
  "Type m = (case Options m OptMessageType of
     None \<Rightarrow> None
   | Some v \<Rightarrow> if length v \<noteq> 1 then None else Some (v ! 0))"

definition SetType :: "byte \<Rightarrow> message \<Rightarrow> message" where
  "SetType t m = m\<lparr>Options := (Options m)(OptMessageType \<mapsto> [t])\<rparr>"

section \<open>Encode\<close>

definition putAddr :: "addr \<Rightarrow> byte list" where
  "putAddr a = (case a of Addr4 w \<Rightarrow> be32 w | _ \<Rightarrow> [0, 0, 0, 0])"

definition getAddr :: "byte list \<Rightarrow> addr" where
  "getAddr b = AddrFrom4 (take 4 b)"

definition encode_header :: "message \<Rightarrow> byte list" where
  "encode_header m =
     [Op m, HType m, of_nat (length (CHAddr m)), Hops m]
     @ be32 (XID m) @ be16 (Secs m) @ be16 (Flags m)
     @ putAddr (CIAddr m) @ putAddr (YIAddr m) @ putAddr (SIAddr m) @ putAddr (GIAddr m)
     @ copy_field chaddrLen (CHAddr m)
     @ copy_field snameLen (SName m)
     @ copy_field fileLen (File m)
     @ magicCookie"

text \<open>The option loop: PAD and END are framing and are skipped; a long value stops it.\<close>

fun encode_options :: "options \<Rightarrow> byte list \<Rightarrow> codec_error + byte list" where
  "encode_options opts [] = Inr []"
| "encode_options opts (c # cs) =
     (if c = OptPad \<or> c = OptEnd then encode_options opts cs
      else let v = (case opts c of None \<Rightarrow> [] | Some v \<Rightarrow> v) in
        if length v > 255 then Inl ErrOptionTooLong
        else bind_res (encode_options opts cs) (\<lambda>rest. Inr ([c, of_nat (length v)] @ v @ rest)))"

definition pad_message :: "byte list \<Rightarrow> byte list" where
  "pad_message b = b @ replicate (MinMessageLen - length b) OptPad"

definition Encode :: "message \<Rightarrow> codec_error + byte list" where
  "Encode m =
     (if length (CHAddr m) > chaddrLen then Inl ErrCHAddrTooLong
      else bind_res (encode_options (Options m) (Codes (Options m)))
        (\<lambda>body. Inr (pad_message (encode_header m @ body @ [OptEnd]))))"

section \<open>Decode\<close>

text \<open>
  \<^verbatim>\<open>parseOptions\<close>: repeated codes are concatenated, a missing END ends at the end of
  the buffer, a truncated or overrunning option is an error.
\<close>

definition append_option :: "options \<Rightarrow> byte \<Rightarrow> byte list \<Rightarrow> options" where
  "append_option opts c v = opts(c \<mapsto> (case opts c of None \<Rightarrow> [] | Some u \<Rightarrow> u) @ v)"

fun parseOptions :: "byte list \<Rightarrow> options \<Rightarrow> codec_error + options" where
  "parseOptions [] out = Inr out"
| "parseOptions (c # b) out =
     (if c = OptPad then parseOptions b out
      else if c = OptEnd then Inr out
      else case b of
        [] \<Rightarrow> Inl ErrTruncatedOption
      | n # b' \<Rightarrow>
          if unat n > length b' then Inl ErrOptionOverrun
          else parseOptions (drop (unat n) b') (append_option out c (take (unat n) b')))"

definition trimNul :: "byte list \<Rightarrow> byte list" where
  "trimNul b = takeWhile (\<lambda>c. c \<noteq> 0) b"

definition overload_of :: "options \<Rightarrow> byte" where
  "overload_of opts = (case opts OptOverload of
     Some v \<Rightarrow> if length v = 1 then v ! 0 else 0
   | None \<Rightarrow> 0)"

definition decode_header :: "byte list \<Rightarrow> message" where
  "decode_header b =
     \<lparr>Op = b ! 0, HType = b ! 1, HLen = b ! 2, Hops = b ! 3,
      XID = ube32 (octets 4 4 b), Secs = ube16 (octets 8 2 b), Flags = ube16 (octets 10 2 b),
      CIAddr = getAddr (octets 12 4 b), YIAddr = getAddr (octets 16 4 b),
      SIAddr = getAddr (octets 20 4 b), GIAddr = getAddr (octets 24 4 b),
      CHAddr = octets 28 (min (unat (b ! 2)) chaddrLen) b,
      SName = [], File = [], Options = Map.empty\<rparr>"

text \<open>
  \<^verbatim>\<open>file\<close> and \<^verbatim>\<open>sname\<close>: options when the overload bit says so, text otherwise.
\<close>

definition parse_field :: "bool \<Rightarrow> byte list \<Rightarrow> options \<Rightarrow> codec_error + options \<times> byte list" where
  "parse_field overloaded area out =
     (if overloaded then bind_res (parseOptions area out) (\<lambda>out'. Inr (out', []))
      else Inr (out, trimNul area))"

definition Decode :: "byte list \<Rightarrow> codec_error + message" where
  "Decode b =
     (if length b < HeaderLen then Inl ErrShort
      else if octets fixedLen 4 b \<noteq> magicCookie then Inl ErrBadCookie
      else bind_res (parseOptions (drop HeaderLen b) Map.empty) (\<lambda>o1.
        let overload = overload_of o1 in
        bind_res (parse_field (overload AND 1 \<noteq> 0) (octets fileOff fileLen b) o1) (\<lambda>(o2, file).
        bind_res (parse_field (overload AND 2 \<noteq> 0) (octets snameOff snameLen b) o2) (\<lambda>(o3, sname).
        Inr ((decode_header b)\<lparr>SName := sname, File := file, Options := o3\<rparr>)))))"

section \<open>The option map\<close>

lemma set_all_codes [simp]: "set all_codes = UNIV"
proof -
  have "c \<in> of_nat ` {0..<256}" for c :: byte
    by (rule image_eqI [of _ _ "unat c"]) auto
  then show ?thesis by (auto simp: all_codes_def)
qed

lemma sorted_all_codes: "sorted_wrt (<) all_codes"
  unfolding all_codes_def sorted_wrt_map
  by (rule sorted_wrt_mono_rel [OF _ sorted_wrt_upt]) (auto simp: word_less_nat_alt)

lemma set_Codes [simp]: "set (Codes opts) = dom opts"
  by (auto simp: Codes_def)

lemma sorted_Codes: "sorted_wrt (<) (Codes opts)"
  unfolding Codes_def by (rule sorted_wrt_filter [OF sorted_all_codes])

lemma distinct_Codes [simp]: "distinct (Codes opts)"
  using sorted_Codes strict_sorted_iff by blast

lemma Codes_eq: "Codes opts = sorted_list_of_set (dom opts)"
  by (metis set_Codes sorted_Codes sorted_list_of_set.idem_if_sorted_distinct strict_sorted_iff)

section \<open>Instances of options in an octet area\<close>

text \<open>
  The type-length-value instances of an octet area, each with the offset of its value:
  the reading of RFC 2132 and RFC 3396 that the code's loops implement. Both walks of
  the sources, \<^verbatim>\<open>parseOptions\<close> and the one of \<^verbatim>\<open>forcerenewSpan\<close>, are related to it.
\<close>

fun tlvs :: "nat \<Rightarrow> byte list \<Rightarrow> codec_error + (nat \<times> byte \<times> byte list) list" where
  "tlvs off [] = Inr []"
| "tlvs off (c # b) =
     (if c = OptPad then tlvs (Suc off) b
      else if c = OptEnd then Inr []
      else case b of
        [] \<Rightarrow> Inl ErrTruncatedOption
      | n # b' \<Rightarrow>
          if unat n > length b' then Inl ErrOptionOverrun
          else bind_res (tlvs (off + 2 + unat n) (drop (unat n) b'))
            (\<lambda>ts. Inr ((off + 2, c, take (unat n) b') # ts)))"

definition add_instances :: "(nat \<times> byte \<times> byte list) list \<Rightarrow> options \<Rightarrow> options" where
  "add_instances ts out = fold (\<lambda>(_, c, v) opts. append_option opts c v) ts out"

lemma parseOptions_tlvs:
  "parseOptions b out = bind_res (tlvs off b) (\<lambda>ts. Inr (add_instances ts out))"
proof (induction b out arbitrary: off rule: parseOptions.induct)
  case (2 c b out)
  show ?case
  proof (cases "c = OptPad \<or> c = OptEnd")
    case False
    show ?thesis
    proof (cases b)
      case (Cons n b')
      show ?thesis
      proof (cases "unat n > length b'")
        case ok: False
        have "parseOptions (drop (unat n) b') (append_option out c (take (unat n) b'))
          = bind_res (tlvs (off + 2 + unat n) (drop (unat n) b'))
              (\<lambda>ts. Inr (add_instances ts (append_option out c (take (unat n) b'))))"
          using "2.IH"(2) False Cons ok by blast
        with False Cons ok show ?thesis
          by (cases "tlvs (off + 2 + unat n) (drop (unat n) b')") (auto simp: add_instances_def)
      qed (use False Cons in simp)
    qed (use False in simp)
  qed (use "2.IH"(1) [of "Suc off"] in \<open>auto simp: add_instances_def\<close>)
qed (simp add: add_instances_def)

text \<open>The value of a code is the concatenation of its instances, in order of arrival.\<close>

definition instances :: "byte \<Rightarrow> (nat \<times> byte \<times> byte list) list \<Rightarrow> byte list list" where
  "instances c ts = map (snd \<circ> snd) (filter (\<lambda>(_, d, _). d = c) ts)"

lemma add_instances_lookup:
  "add_instances ts out c =
     (if instances c ts = [] then out c
      else Some ((case out c of None \<Rightarrow> [] | Some u \<Rightarrow> u) @ concat (instances c ts)))"
  by (induction ts arbitrary: out)
    (auto simp: add_instances_def instances_def append_option_def split: option.splits)

section \<open>Encode and Decode\<close>

definition content_codes :: "byte set" where
  "content_codes = - {OptPad, OptEnd}"

lemma parse_encoded_options:
  "encode_options opts cs = Inr body \<Longrightarrow> distinct cs \<Longrightarrow> set cs \<subseteq> dom opts \<Longrightarrow>
   (\<forall>c \<in> set cs. out c = None) \<Longrightarrow>
   parseOptions (body @ OptEnd # rest) out = Inr (out ++ (opts |` (set cs \<inter> content_codes)))"
proof (induction cs arbitrary: body out)
  case Nil
  then show ?case by (simp add: restrict_map_def)
next
  case (Cons c cs)
  show ?case
  proof (cases "c = OptPad \<or> c = OptEnd")
    case True
    then have "opts |` (set (c # cs) \<inter> content_codes) = opts |` (set cs \<inter> content_codes)"
      by (auto simp: content_codes_def restrict_map_def)
    with True Cons show ?thesis by simp
  next
    case False
    from Cons.prems obtain v where v: "opts c = Some v" by auto
    with False Cons.prems obtain tail where tail: "encode_options opts cs = Inr tail"
      and len: "length v < 256" and body: "body = [c, of_nat (length v)] @ v @ tail"
      by (auto simp: Let_def bind_res_eq_Inr split: if_splits)
    have out: "append_option out c v = out(c \<mapsto> v)"
      using Cons.prems(4) by (simp add: append_option_def)
    have "parseOptions (tail @ OptEnd # rest) (out(c \<mapsto> v))
        = Inr (out(c \<mapsto> v) ++ (opts |` (set cs \<inter> content_codes)))"
      using Cons.prems tail by (intro Cons.IH) auto
    moreover have "out(c \<mapsto> v) ++ (opts |` (set cs \<inter> content_codes))
        = out ++ (opts |` (set (c # cs) \<inter> content_codes))"
      using False v Cons.prems(2)
      by (auto simp: content_codes_def map_add_def restrict_map_def fun_eq_iff split: option.splits)
    ultimately show ?thesis using False len by (simp add: body out)
  qed
qed

text \<open>When the encoder refuses, and what it refuses.\<close>

lemma encode_options_ok_iff:
  "set cs \<subseteq> dom opts \<Longrightarrow> (\<exists>body. encode_options opts cs = Inr body) \<longleftrightarrow>
     (\<forall>c \<in> set cs \<inter> content_codes. length (the (opts c)) \<le> 255)"
proof (induction cs)
  case (Cons c cs)
  then obtain v where "opts c = Some v" by auto
  with Cons show ?case by (auto simp: content_codes_def Let_def bind_res_eq_Inr)
qed simp

lemma encode_options_error: "encode_options opts cs = Inl e \<Longrightarrow> e = ErrOptionTooLong"
  by (induction cs)
    (auto simp: Let_def bind_res_def split: if_splits sum.splits option.splits)

definition encodable :: "message \<Rightarrow> bool" where
  "encodable m \<longleftrightarrow> length (CHAddr m) \<le> chaddrLen
     \<and> (\<forall>c v. Options m c = Some v \<longrightarrow> c \<in> content_codes \<longrightarrow> length v \<le> 255)"

lemma Encode_ok_iff: "(\<exists>b. Encode m = Inr b) \<longleftrightarrow> encodable m"
proof -
  have "(\<exists>b. Encode m = Inr b) \<longleftrightarrow> length (CHAddr m) \<le> chaddrLen \<and>
      (\<exists>body. encode_options (Options m) (Codes (Options m)) = Inr body)"
    by (auto simp: Encode_def bind_res_eq_Inr)
  also have "\<dots> \<longleftrightarrow> length (CHAddr m) \<le> chaddrLen \<and>
      (\<forall>c \<in> dom (Options m) \<inter> content_codes. length (the (Options m c)) \<le> 255)"
    by (subst encode_options_ok_iff) simp_all
  also have "\<dots> \<longleftrightarrow> encodable m"
    unfolding encodable_def by (metis (no_types, lifting) IntD1 IntD2 IntI domD domI option.sel)
  finally show ?thesis .
qed

section \<open>The header round trip\<close>

text \<open>The address a field reads back as: the zero address where none was set.\<close>

definition wire_addr :: "addr \<Rightarrow> addr" where
  "wire_addr a = (case a of Addr4 w \<Rightarrow> Addr4 w | _ \<Rightarrow> Addr4 0)"

text \<open>
  What a message is after a trip over the wire: the fields \<^verbatim>\<open>Encode\<close> does not carry
  (the caller's \<^verbatim>\<open>HLen\<close>, an unset address, octets after a NUL or beyond the field
  in \<^verbatim>\<open>sname\<close> and \<^verbatim>\<open>file\<close>, PAD and END in the map) are replaced by what arrives.
\<close>

definition wire_form :: "message \<Rightarrow> message" where
  "wire_form m = m\<lparr>HLen := of_nat (length (CHAddr m)),
     CIAddr := wire_addr (CIAddr m), YIAddr := wire_addr (YIAddr m),
     SIAddr := wire_addr (SIAddr m), GIAddr := wire_addr (GIAddr m),
     SName := trimNul (take snameLen (SName m)), File := trimNul (take fileLen (File m)),
     Options := Options m |` content_codes\<rparr>"

lemma length_putAddr [simp]: "length (putAddr a) = 4"
  by (cases a) (simp_all add: putAddr_def)

lemma getAddr_putAddr [simp]: "getAddr (putAddr a) = wire_addr a"
  by (cases a) (simp_all add: putAddr_def getAddr_def wire_addr_def AddrFrom4_def, simp_all add: ube32_def)

lemma length_magicCookie [simp]: "length magicCookie = 4"
  by (simp add: magicCookie_def)

lemma length_encode_header [simp]: "length (encode_header m) = HeaderLen"
  by (simp add: encode_header_def)

lemma trimNul_copy_field: "trimNul (copy_field n src) = trimNul (take n src)"
proof (cases "n \<le> length src")
  case False
  then obtain k where "n - length src = Suc k" by (cases "n - length src") auto
  with False show ?thesis
    by (cases "\<forall>x \<in> set src. x \<noteq> 0")
      (auto simp: trimNul_def copy_field_def takeWhile_append takeWhile_eq_all_conv [THEN iffD2])
qed (simp add: trimNul_def copy_field_def)

lemmas header_layout = encode_header_def octets_append_skip octets_append_take octets_Cons_skip

lemma header_octets:
  "octets fixedLen 4 (encode_header m @ r) = magicCookie"
  "octets snameOff snameLen (encode_header m @ r) = copy_field snameLen (SName m)"
  "octets fileOff fileLen (encode_header m @ r) = copy_field fileLen (File m)"
  "octets 4 4 (encode_header m @ r) = be32 (XID m)"
  "octets 8 2 (encode_header m @ r) = be16 (Secs m)"
  "octets 10 2 (encode_header m @ r) = be16 (Flags m)"
  "octets 12 4 (encode_header m @ r) = putAddr (CIAddr m)"
  "octets 16 4 (encode_header m @ r) = putAddr (YIAddr m)"
  "octets 20 4 (encode_header m @ r) = putAddr (SIAddr m)"
  "octets 24 4 (encode_header m @ r) = putAddr (GIAddr m)"
  by (simp_all add: header_layout)

lemma header_chaddr:
  "length (CHAddr m) \<le> chaddrLen \<Longrightarrow> octets 28 (length (CHAddr m)) (encode_header m @ r) = CHAddr m"
  by (simp add: encode_header_def octets_append_skip octets_Cons_skip)
    (simp add: octets_def copy_field_def)

lemma decode_encode_header:
  assumes "length (CHAddr m) \<le> chaddrLen"
  shows "decode_header (encode_header m @ r)
    = (wire_form m)\<lparr>SName := [], File := [], Options := Map.empty\<rparr>"
proof -
  have b: "(encode_header m @ r) ! 0 = Op m" "(encode_header m @ r) ! 1 = HType m"
    "(encode_header m @ r) ! 2 = of_nat (length (CHAddr m))" "(encode_header m @ r) ! 3 = Hops m"
    by (simp_all add: encode_header_def)
  with assms show ?thesis
    by (simp only: decode_header_def header_octets b)
      (simp add: wire_form_def header_chaddr)
qed

lemma decode_of_encode:
  assumes "Encode m = Inr b"
    and "overload_of (Options m) AND 3 = 0"
  shows "Decode b = Inr (wire_form m)"
proof -
  from assms(1) obtain body where body: "encode_options (Options m) (Codes (Options m)) = Inr body"
    and ch: "length (CHAddr m) \<le> chaddrLen"
    and b: "b = pad_message (encode_header m @ body @ [OptEnd])"
    by (auto simp: Encode_def bind_res_eq_Inr split: if_splits)
  then obtain pad where b': "b = encode_header m @ body @ OptEnd # pad"
    by (auto simp: pad_message_def)
  have restr: "Options m |` (dom (Options m) \<inter> content_codes) = Options m |` content_codes"
    by (auto simp: restrict_map_def fun_eq_iff)
  have parsed: "parseOptions (body @ OptEnd # pad) Map.empty = Inr (Options m |` content_codes)"
    using parse_encoded_options [OF body, of Map.empty pad] by (simp add: restr)
  have "overload_of (Options m |` content_codes) = overload_of (Options m)"
    by (simp add: overload_of_def content_codes_def)
  moreover have "x AND 1 = (x AND 3) AND 1" "x AND 2 = (x AND 3) AND 2" for x :: byte
    by (simp_all add: and.assoc)
  ultimately have ov: "overload_of (Options m |` content_codes) AND 1 = 0"
    "overload_of (Options m |` content_codes) AND 2 = 0"
    using assms(2) by (metis zero_and_eq)+
  show ?thesis
    by (simp add: Decode_def b' header_octets parsed ov trimNul_copy_field
        decode_encode_header [OF ch] Let_def parse_field_def)
      (simp add: wire_form_def)
qed

text \<open>A concrete DHCPDISCOVER, for the witnesses.\<close>

definition sample_message :: message where
  "sample_message =
     \<lparr>Op = BootRequest, HType = HTypeEthernet, HLen = 0, Hops = 0, XID = 0x12345678, Secs = 3,
      Flags = FlagBroadcast, CIAddr = NoAddr, YIAddr = NoAddr, SIAddr = NoAddr, GIAddr = NoAddr,
      CHAddr = [2, 66, 172, 17, 0, 2], SName = [], File = [97, 0, 98],
      Options = [OptMessageType \<mapsto> [MsgDiscover], OptRequestedIP \<mapsto> [10, 0, 0, 7], OptEnd \<mapsto> [1]]\<rparr>"

lemma sample_encodable: "encodable sample_message"
  by (auto simp: encodable_def sample_message_def split: if_splits)

text \<open>
  C28: A message that encodes and whose option-overload option does not redirect
  \<^verbatim>\<open>file\<close> or \<^verbatim>\<open>sname\<close> decodes back to exactly its wire form: every header field,
  every option and both text fields survive \<^verbatim>\<open>Encode\<close> followed by \<^verbatim>\<open>Decode\<close>.
\<close>

theorem decode_encode:
  assumes "Encode m = Inr b"
    and "overload_of (Options m) AND 3 = 0"
  shows "Decode b = Inr (wire_form m)"
  using assms by (rule decode_of_encode)

lemma decode_encode_witness:
  "\<exists>b. Encode sample_message = Inr b \<and> overload_of (Options sample_message) AND 3 = 0
     \<and> Decode b = Inr (wire_form sample_message)"
proof -
  from sample_encodable obtain b where b: "Encode sample_message = Inr b"
    using Encode_ok_iff by blast
  moreover have o: "overload_of (Options sample_message) AND 3 = 0"
    by (simp add: sample_message_def overload_of_def)
  ultimately show ?thesis using decode_encode [OF b o] by blast
qed

text \<open>
  C30: \<^verbatim>\<open>Encode\<close> succeeds exactly on a message whose hardware address has at most 16
  octets and whose every option other than PAD and END has at most 255; a message
  refused is refused with one of the two errors that name these bounds, and an encoded
  message has at least the 300 octets of RFC 951.
\<close>

theorem encode_classified:
  "case Encode m of
     Inr b \<Rightarrow> encodable m \<and> MinMessageLen \<le> length b
   | Inl e \<Rightarrow> \<not> encodable m \<and> (e = ErrCHAddrTooLong \<and> chaddrLen < length (CHAddr m)
       \<or> e = ErrOptionTooLong \<and> length (CHAddr m) \<le> chaddrLen)"
proof (cases "Encode m")
  case (Inl e)
  then have "\<not> encodable m" using Encode_ok_iff [of m] by auto
  moreover from Inl have "if chaddrLen < length (CHAddr m) then e = ErrCHAddrTooLong
      else encode_options (Options m) (Codes (Options m)) = Inl e"
    by (auto simp: Encode_def bind_res_def split: sum.splits if_splits)
  ultimately show ?thesis using Inl encode_options_error by (auto split: if_splits)
next
  case (Inr b)
  then have "encodable m" using Encode_ok_iff [of m] by auto
  moreover from Inr have "MinMessageLen \<le> length b"
    by (auto simp: Encode_def bind_res_eq_Inr pad_message_def split: if_splits)
  ultimately show ?thesis using Inr by simp
qed

definition decoded_instances :: "byte list \<Rightarrow> codec_error + (nat \<times> byte \<times> byte list) list" where
  "decoded_instances b = bind_res (tlvs HeaderLen (drop HeaderLen b)) (\<lambda>ts.
     let ov = overload_of (add_instances ts Map.empty) in
     bind_res (if ov AND 1 \<noteq> 0 then tlvs fileOff (octets fileOff fileLen b) else Inr []) (\<lambda>fs.
     bind_res (if ov AND 2 \<noteq> 0 then tlvs snameOff (octets snameOff snameLen b) else Inr []) (\<lambda>ss.
     Inr (ts @ fs @ ss))))"

lemma add_instances_append: "add_instances (ts @ us) out = add_instances us (add_instances ts out)"
  by (simp add: add_instances_def)

lemma parse_area: "parseOptions b out = Inr opts \<Longrightarrow>
  \<exists>ts. tlvs off b = Inr ts \<and> opts = add_instances ts out"
  using parseOptions_tlvs [of b out off] by (auto simp: bind_res_eq_Inr)

lemma parse_field_instances: "parse_field ovl area out = Inr (opts, txt) \<Longrightarrow>
  \<exists>ts. (if ovl then tlvs off area else Inr []) = Inr ts \<and> opts = add_instances ts out"
  using parse_area [of area out _ off]
  by (cases ovl) (auto simp: parse_field_def bind_res_eq_Inr add_instances_def)

lemma instances_parse_field: "(if ovl then tlvs off area else Inr []) = Inr ts \<Longrightarrow>
  \<exists>txt. parse_field ovl area out = Inr (add_instances ts out, txt)"
  using parseOptions_tlvs [of area out off]
  by (cases ovl) (auto simp: parse_field_def add_instances_def)

lemma Decode_ok:
  assumes "HeaderLen \<le> length b" "octets fixedLen 4 b = magicCookie"
    and "decoded_instances b = Inr us"
  shows "\<exists>m. Decode b = Inr m \<and> Options m = add_instances us Map.empty"
proof -
  from assms(3) obtain ts fs ss where
    ts: "tlvs HeaderLen (drop HeaderLen b) = Inr ts" and
    fs: "(if overload_of (add_instances ts Map.empty) AND 1 \<noteq> 0
      then tlvs fileOff (octets fileOff fileLen b) else Inr []) = Inr fs" and
    ss: "(if overload_of (add_instances ts Map.empty) AND 2 \<noteq> 0
      then tlvs snameOff (octets snameOff snameLen b) else Inr []) = Inr ss" and
    us: "us = ts @ fs @ ss"
    unfolding decoded_instances_def Let_def bind_res_eq_Inr by blast
  from ts have p: "parseOptions (drop HeaderLen b) Map.empty = Inr (add_instances ts Map.empty)"
    using parseOptions_tlvs [of "drop HeaderLen b" Map.empty HeaderLen] by simp
  from instances_parse_field [OF fs] instances_parse_field [OF ss] obtain t1 t2 where
    "parse_field (overload_of (add_instances ts Map.empty) AND 1 \<noteq> 0) (octets fileOff fileLen b)
      (add_instances ts Map.empty) = Inr (add_instances (ts @ fs) Map.empty, t1)"
    "parse_field (overload_of (add_instances ts Map.empty) AND 2 \<noteq> 0) (octets snameOff snameLen b)
      (add_instances (ts @ fs) Map.empty) = Inr (add_instances us Map.empty, t2)"
    by (metis us add_instances_append append_assoc)
  with p assms(1,2) show ?thesis by (simp add: Decode_def Let_def)
qed

lemma Decode_instances:
  assumes "Decode b = Inr m"
  shows "\<exists>ts. decoded_instances b = Inr ts \<and> Options m = add_instances ts Map.empty"
proof -
  from assms obtain o1 o2 fl o3 sn where
    o1: "parseOptions (drop HeaderLen b) Map.empty = Inr o1" and
    o2: "parse_field (overload_of o1 AND 1 \<noteq> 0) (octets fileOff fileLen b) o1 = Inr (o2, fl)" and
    o3: "parse_field (overload_of o1 AND 2 \<noteq> 0) (octets snameOff snameLen b) o2 = Inr (o3, sn)" and
    m: "m = (decode_header b)\<lparr>SName := sn, File := fl, Options := o3\<rparr>"
    unfolding Decode_def Let_def
    by (clarsimp simp: bind_res_eq_Inr split: if_split_asm prod.splits)
  from o1 obtain ts where ts: "tlvs HeaderLen (drop HeaderLen b) = Inr ts"
    and "o1 = add_instances ts Map.empty" using parse_area by blast
  moreover from parse_field_instances [OF o2] obtain fs where fs: "(if overload_of o1 AND 1 \<noteq> 0
      then tlvs fileOff (octets fileOff fileLen b) else Inr []) = Inr fs"
    and "o2 = add_instances fs o1" by blast
  moreover from parse_field_instances [OF o3] obtain ss where ss: "(if overload_of o1 AND 2 \<noteq> 0
      then tlvs snameOff (octets snameOff snameLen b) else Inr []) = Inr ss"
    and "o3 = add_instances ss o2" by blast
  ultimately have "decoded_instances b = Inr (ts @ fs @ ss)"
      "Options m = add_instances (ts @ fs @ ss) Map.empty"
    by (simp_all add: decoded_instances_def m add_instances_append Let_def)
  then show ?thesis by blast
qed

text \<open>
  The options of a decoded message are the instances found in the options area,
  then in \<^verbatim>\<open>file\<close>, then in \<^verbatim>\<open>sname\<close> when option 52 says they hold options, and the
  value of each code is the concatenation of its instances in that order (RFC 3396).
\<close>

theorem decode_concatenates_instances:
  assumes "Decode b = Inr m"
  shows "\<exists>ts. decoded_instances b = Inr ts \<and>
    (\<forall>c. Options m c = (if instances c ts = [] then None else Some (concat (instances c ts))))"
  using Decode_instances [OF assms] by (auto simp: add_instances_lookup)

lemma decode_concatenates_instances_witness:
  "\<exists>b ts. Encode sample_message = Inr b \<and> decoded_instances b = Inr ts
     \<and> concat (instances OptRequestedIP ts) = [10, 0, 0, 7]"
proof -
  from sample_encodable obtain b where b: "Encode sample_message = Inr b"
    using Encode_ok_iff by blast
  have "Decode b = Inr (wire_form sample_message)"
    by (rule decode_of_encode [OF b]) (simp add: sample_message_def overload_of_def)
  from decode_concatenates_instances [OF this] obtain ts where "decoded_instances b = Inr ts"
    and "Options (wire_form sample_message) OptRequestedIP =
      (if instances OptRequestedIP ts = [] then None
       else Some (concat (instances OptRequestedIP ts)))" by blast
  then show ?thesis using b
    by (auto simp: wire_form_def sample_message_def content_codes_def split: if_splits)
qed

end
