(* ===== verification/Wire_Values.thy ===== *)
theory Wire_Values
  imports Wire_Codec
begin

text \<open>
  The typed readers and writers of option values: \<^verbatim>\<open>src/wire/values.go\<close> and the second
  half of \<^verbatim>\<open>src/wire/option.go\<close>. A reader with a presence flag returns an \<open>option\<close>; a
  reader that also reports a malformed value returns \<open>Inl\<close> of the sentinel its error
  wraps, under the presence \<open>option\<close> where the source returns both.
\<close>

datatype value_error = ErrBadOptionValue | ErrMalformedRoutes | ErrMalformedNames
  | ErrBadFQDNFlags | ErrBadName | ErrMalformedVendor

section \<open>Fixed-size values\<close>

definition Addr4_opt :: "options \<Rightarrow> byte \<Rightarrow> addr option" where
  "Addr4_opt opts c = (case opts c of
     None \<Rightarrow> None
   | Some v \<Rightarrow> if length v \<noteq> 4 then None else Some (AddrFrom4 v))"

text \<open>The loop of \<^verbatim>\<open>Addrs4\<close> over whole four-octet groups.\<close>

function addr_groups :: "byte list \<Rightarrow> addr list" where
  "addr_groups v = (if 4 \<le> length v then AddrFrom4 (take 4 v) # addr_groups (drop 4 v) else [])"
  by pat_completeness auto
termination
  by (relation "measure length") auto

declare addr_groups.simps [simp del]

definition Addrs4 :: "options \<Rightarrow> byte \<Rightarrow> addr list option" where
  "Addrs4 opts c = (case opts c of
     None \<Rightarrow> None
   | Some v \<Rightarrow> if length v = 0 \<or> length v mod 4 \<noteq> 0 then None else Some (addr_groups v))"

definition Uint32 :: "options \<Rightarrow> byte \<Rightarrow> 32 word option" where
  "Uint32 opts c = (case opts c of
     None \<Rightarrow> None
   | Some v \<Rightarrow> if length v \<noteq> 4 then None else Some (ube32 v))"

definition Int32 :: "options \<Rightarrow> byte \<Rightarrow> int option" where
  "Int32 opts c = map_option sint (Uint32 opts c)"

definition Uint16 :: "options \<Rightarrow> byte \<Rightarrow> 16 word option" where
  "Uint16 opts c = (case opts c of
     None \<Rightarrow> None
   | Some v \<Rightarrow> if length v \<noteq> 2 then None else Some (ube16 v))"

definition Text :: "options \<Rightarrow> byte \<Rightarrow> gostring option" where
  "Text opts c = map_option (\<lambda>v. rev (dropWhile (\<lambda>x. x = 0) (rev v))) (opts c)"

section \<open>Option 77, user class\<close>

abbreviation (input) maxUserClassInstance :: nat where "maxUserClassInstance \<equiv> 254"

definition encode_class :: "byte list \<Rightarrow> byte list" where
  "encode_class c = of_nat (length c) # c"

definition EncodeUserClass :: "byte list list \<Rightarrow> value_error + byte list" where
  "EncodeUserClass classes =
     (if classes = [] then Inl ErrBadOptionValue
      else if list_ex (\<lambda>c. length c = 0 \<or> length c > maxUserClassInstance) classes
        then Inl ErrBadOptionValue
      else if sum_list (map (\<lambda>c. 1 + length c) classes) > 255 then Inl ErrBadOptionValue
      else Inr (concat (map encode_class classes)))"

text \<open>One instance, and the loop of \<^verbatim>\<open>UserClass\<close>.\<close>

fun read_class :: "byte list \<Rightarrow> value_error + byte list \<times> byte list" where
  "read_class [] = Inl ErrBadOptionValue"
| "read_class (n # b) =
     (if n = 0 then Inl ErrBadOptionValue
      else if unat n > length b then Inl ErrBadOptionValue
      else Inr (take (unat n) b, drop (unat n) b))"

fun user_classes :: "byte list \<Rightarrow> value_error + byte list list" where
  "user_classes [] = Inr []"
| "user_classes (n # b) =
     (if n = 0 then Inl ErrBadOptionValue
      else if unat n > length b then Inl ErrBadOptionValue
      else bind_res (user_classes (drop (unat n) b)) (\<lambda>cs. Inr (take (unat n) b # cs)))"

definition UserClass :: "options \<Rightarrow> (value_error + byte list list) option" where
  "UserClass opts = (case opts OptUserClass of
     None \<Rightarrow> None
   | Some v \<Rightarrow> Some (if v = [] then Inl ErrBadOptionValue else user_classes v))"

section \<open>Options 80, 108 and 145\<close>

definition EncodeRapidCommit :: "byte list" where
  "EncodeRapidCommit = []"

definition RapidCommit_opt :: "options \<Rightarrow> value_error + bool" where
  "RapidCommit_opt opts = (case opts OptRapidCommit of
     None \<Rightarrow> Inr False
   | Some v \<Rightarrow> if length v \<noteq> 0 then Inl ErrBadOptionValue else Inr True)"

definition EncodeIPv6OnlyPreferred :: "32 word \<Rightarrow> byte list" where
  "EncodeIPv6OnlyPreferred seconds = be32 seconds"

definition IPv6OnlyPreferred_opt :: "options \<Rightarrow> (value_error + 32 word) option" where
  "IPv6OnlyPreferred_opt opts = (case opts OptIPv6OnlyPreferred of
     None \<Rightarrow> None
   | Some v \<Rightarrow> Some (if length v \<noteq> 4 then Inl ErrBadOptionValue else Inr (ube32 v)))"

abbreviation (input) ForcerenewAlgorithmHMACMD5 :: byte where "ForcerenewAlgorithmHMACMD5 \<equiv> 1"

definition EncodeForcerenewNonceCapable :: "byte list" where
  "EncodeForcerenewNonceCapable = [ForcerenewAlgorithmHMACMD5]"

definition ForcerenewNonceAlgorithms :: "options \<Rightarrow> (value_error + byte list) option" where
  "ForcerenewNonceAlgorithms opts = (case opts OptForcerenewNonce of
     None \<Rightarrow> None
   | Some v \<Rightarrow> Some (if v = [] then Inl ErrBadOptionValue else Inr v))"

section \<open>Routes\<close>

record route =
  Dest :: prefix
  Router :: addr

definition OnLink :: "route \<Rightarrow> bool" where
  "OnLink r \<longleftrightarrow> \<not> IsValid (Router r) \<or> IsUnspecified (Router r)"

definition IsDefault :: "route \<Rightarrow> bool" where
  "IsDefault r \<longleftrightarrow> pbits (Dest r) = 0 \<and> Is4 (paddr (Dest r))"

definition ClasslessSource :: "options \<Rightarrow> byte" where
  "ClasslessSource opts =
     (if opts OptClasslessStaticRte = None \<and> opts OptMSClasslessStaticRte \<noteq> None
      then OptMSClasslessStaticRte else OptClasslessStaticRte)"

text \<open>One destination descriptor and router, as the body of the loop reads it.\<close>

definition read_route :: "byte list \<Rightarrow> value_error + route \<times> byte list" where
  "read_route b =
     (case b of [] \<Rightarrow> Inl ErrMalformedRoutes
      | w # v \<Rightarrow>
        let width = unat w; sig = (width + 7) div 8 in
        if width > 32 then Inl ErrMalformedRoutes
        else if sig + 4 > length v then Inl ErrMalformedRoutes
        else Inr (\<lparr>Dest = Masked (PrefixFrom (AddrFrom4 (copy_field 4 (take sig v))) (int width)),
                   Router = AddrFrom4 (octets sig 4 v)\<rparr>, drop (sig + 4) v))"

lemma read_route_shorter: "read_route b = Inr (x, r) \<Longrightarrow> length r < length b"
  by (auto simp: read_route_def Let_def split: list.splits if_splits)

function classless_routes :: "byte list \<Rightarrow> value_error + route list" where
  "classless_routes b =
     (if b = [] then Inr []
      else bind_res (read_route b) (\<lambda>xr.
        bind_res (classless_routes (snd xr)) (\<lambda>rs. Inr (fst xr # rs))))"
  by pat_completeness auto
termination
  by (relation "measure length") (auto dest: read_route_shorter)

declare classless_routes.simps [simp del]

definition ClasslessRoutes :: "options \<Rightarrow> value_error + route list" where
  "ClasslessRoutes opts = (case opts (ClasslessSource opts) of
     None \<Rightarrow> Inr []
   | Some v \<Rightarrow> if v = [] then Inl ErrMalformedRoutes else classless_routes v)"

text \<open>Option 33: pairs of destination and router, the destination a host route.\<close>

function route_pairs :: "byte list \<Rightarrow> route list" where
  "route_pairs v =
     (if 8 \<le> length v
      then \<lparr>Dest = PrefixFrom (AddrFrom4 (take 4 v)) 32, Router = AddrFrom4 (octets 4 4 v)\<rparr>
           # route_pairs (drop 8 v)
      else [])"
  by pat_completeness auto
termination
  by (relation "measure length") auto

declare route_pairs.simps [simp del]

definition StaticRoutes :: "options \<Rightarrow> value_error + route list" where
  "StaticRoutes opts = (case opts OptStaticRoute of
     None \<Rightarrow> Inr []
   | Some v \<Rightarrow> if length v = 0 \<or> length v mod 8 \<noteq> 0 then Inl ErrMalformedRoutes
               else Inr (route_pairs v))"

section \<open>Vendor options\<close>

record vendor_data =
  Enterprise :: "32 word"
  Data :: "byte list"

definition VendorSpecific :: "options \<Rightarrow> byte list option" where
  "VendorSpecific opts = opts OptVendorSpecific"

definition read_block :: "byte list \<Rightarrow> value_error + vendor_data \<times> byte list" where
  "read_block b =
     (if 5 > length b then Inl ErrMalformedVendor
      else let n = unat (b ! 4) in
        if 5 + n > length b then Inl ErrMalformedVendor
        else Inr (\<lparr>Enterprise = ube32 (take 4 b), Data = octets 5 n b\<rparr>, drop (5 + n) b))"

lemma read_block_shorter: "read_block b = Inr (x, r) \<Longrightarrow> length r < length b"
  by (auto simp: read_block_def Let_def split: if_splits)

function vendor_blocks :: "byte list \<Rightarrow> value_error + vendor_data list" where
  "vendor_blocks b =
     (if b = [] then Inr []
      else bind_res (read_block b) (\<lambda>xr.
        bind_res (vendor_blocks (snd xr)) (\<lambda>bs. Inr (fst xr # bs))))"
  by pat_completeness auto
termination
  by (relation "measure length") (auto dest: read_block_shorter)

declare vendor_blocks.simps [simp del]

definition VendorIdentifying :: "options \<Rightarrow> value_error + vendor_data list" where
  "VendorIdentifying opts = (case opts OptVIVSO of
     None \<Rightarrow> Inr []
   | Some v \<Rightarrow> vendor_blocks v)"

section \<open>Names: options 119 and 81\<close>

abbreviation (input) dot :: byte where "dot \<equiv> 46"
abbreviation (input) maxNameJumps :: nat where "maxNameJumps \<equiv> 128"

text \<open>Go's \<^verbatim>\<open>strings.Join(labels, ".")\<close>, \<^verbatim>\<open>strings.Split(s, ".")\<close> and the suffix functions.\<close>

fun join_dots :: "gostring list \<Rightarrow> gostring" where
  "join_dots [] = []"
| "join_dots [l] = l"
| "join_dots (l # ls) = l @ dot # join_dots ls"

fun split_dots :: "gostring \<Rightarrow> gostring list" where
  "split_dots [] = [[]]"
| "split_dots (c # s) =
     (if c = dot then [] # split_dots s
      else case split_dots s of [] \<Rightarrow> [[c]] | l # ls \<Rightarrow> (c # l) # ls)"

definition HasDotSuffix :: "gostring \<Rightarrow> bool" where
  "HasDotSuffix s \<longleftrightarrow> s \<noteq> [] \<and> last s = dot"

definition TrimDotSuffix :: "gostring \<Rightarrow> gostring" where
  "TrimDotSuffix s = (if HasDotSuffix s then butlast s else s)"

text \<open>
  The loop of \<^verbatim>\<open>readName\<close>: the labels read so far, the resume offset once a pointer
  has been followed, and the number of pointers followed.
\<close>

function read_name :: "byte list \<Rightarrow> nat \<Rightarrow> gostring list \<Rightarrow> nat option \<Rightarrow> nat \<Rightarrow>
    value_error + gostring \<times> nat" where
  "read_name v off labels next jumps =
     (if length v \<le> off then Inl ErrMalformedNames
      else let n = v ! off in
        if n = 0 then Inr (join_dots labels, case next of None \<Rightarrow> off + 1 | Some k \<Rightarrow> k)
        else if n AND 0xC0 = 0xC0 then
          if length v \<le> off + 1 then Inl ErrMalformedNames
          else let target = push_bit 8 (unat (n AND 0x3F)) OR unat (v ! (off + 1));
                   next' = (case next of None \<Rightarrow> Some (off + 2) | Some k \<Rightarrow> Some k) in
            if length v \<le> target then Inl ErrMalformedNames
            else if jumps + 1 > maxNameJumps then Inl ErrMalformedNames
            else read_name v target labels next' (jumps + 1)
        else if n AND 0xC0 \<noteq> 0 then Inl ErrMalformedNames
        else if off + 1 + unat n > length v then Inl ErrMalformedNames
        else read_name v (off + 1 + unat n) (labels @ [octets (off + 1) (unat n) v]) next jumps)"
  by pat_completeness auto
termination
  by (relation "measures [\<lambda>(v, off, labels, next, jumps). maxNameJumps + 1 - jumps,
      \<lambda>(v, off, labels, next, jumps). length v - off]") auto

declare read_name.simps [simp del]

definition readName :: "byte list \<Rightarrow> nat \<Rightarrow> value_error + gostring \<times> nat" where
  "readName v off = read_name v off [] None 0"

text \<open>
  The outer walk resumes strictly after the name it read and never past the block, so
  the loop of \<^verbatim>\<open>DomainSearch\<close> ends whatever the pointers do.
\<close>

lemma read_name_next:
  "read_name v off labels next jumps = Inr (s, k) \<Longrightarrow>
     (case next of None \<Rightarrow> off < k \<and> k \<le> length v | Some j \<Rightarrow> k = j)"
proof (induction v off labels "next" jumps rule: read_name.induct)
  case (1 v off labels "next" jumps)
  let ?n = "v ! off"
  from "1.prems" have off: "off < length v"
    by (subst (asm) read_name.simps) (auto split: if_splits)
  consider "?n = 0" | "?n \<noteq> 0" "?n AND 0xC0 = 0xC0" | "?n \<noteq> 0" "?n AND 0xC0 \<noteq> 0xC0" by blast
  then show ?case
  proof cases
    case 1
    with "1.prems" off show ?thesis
      by (subst (asm) read_name.simps) (auto split: option.splits)
  next
    case 2
    with "1.prems" off "1.IH"(1) [OF _ refl] show ?thesis
      by (subst (asm) read_name.simps) (auto simp: Let_def split: option.splits if_splits)
  next
    case 3
    with "1.prems" off "1.IH"(2) [OF _ refl] show ?thesis
      by (subst (asm) read_name.simps) (fastforce simp: Let_def split: option.splits if_splits)
  qed
qed

lemma readName_next: "readName v i = Inr (s, k) \<Longrightarrow> i < k \<and> k \<le> length v"
  unfolding readName_def by (drule read_name_next) simp

function search_list :: "byte list \<Rightarrow> nat \<Rightarrow> value_error + gostring list" where
  "search_list v i =
     (if length v \<le> i then Inr []
      else bind_res (readName v i) (\<lambda>nk.
        bind_res (search_list v (snd nk)) (\<lambda>names.
          Inr (if fst nk = [] then names else fst nk # names))))"
  by pat_completeness auto
termination
proof (relation "measure (\<lambda>(v, i). length v - i)")
  fix v i nk
  assume "\<not> length v \<le> i" and "readName v i = Inr nk"
  then show "((v, snd nk), v, i) \<in> measure (\<lambda>(v, i). length v - i)"
    using readName_next [of v i "fst nk" "snd nk"] by auto
qed simp

declare search_list.simps [simp del]

definition DomainSearch :: "options \<Rightarrow> value_error + gostring list" where
  "DomainSearch opts = (case opts OptDomainSearch of
     None \<Rightarrow> Inr []
   | Some v \<Rightarrow> if v = [] then Inl ErrMalformedNames else search_list v 0)"

fun encode_labels :: "gostring list \<Rightarrow> value_error + byte list" where
  "encode_labels [] = Inr []"
| "encode_labels (l # ls) =
     (if l = [] then Inl ErrBadName
      else if length l > 63 then Inl ErrBadName
      else bind_res (encode_labels ls) (\<lambda>rest. Inr (of_nat (length l) # l @ rest)))"

definition encodeName :: "gostring \<Rightarrow> value_error + byte list" where
  "encodeName name =
     (let trimmed = TrimDotSuffix name in
      bind_res (if trimmed = [] then Inr [] else encode_labels (split_dots trimmed)) (\<lambda>out.
        Inr (if HasDotSuffix name then out @ [0] else out)))"

abbreviation (input) FQDNFlagS :: byte where "FQDNFlagS \<equiv> 0x01"
abbreviation (input) FQDNFlagO :: byte where "FQDNFlagO \<equiv> 0x02"
abbreviation (input) FQDNFlagE :: byte where "FQDNFlagE \<equiv> 0x04"
abbreviation (input) FQDNFlagN :: byte where "FQDNFlagN \<equiv> 0x08"
abbreviation (input) FQDNFlagMBZ :: byte where "FQDNFlagMBZ \<equiv> 0xF0"

definition EncodeFQDN :: "byte \<Rightarrow> gostring \<Rightarrow> value_error + byte list" where
  "EncodeFQDN flags name =
     (if flags AND FQDNFlagO \<noteq> 0 then Inl ErrBadFQDNFlags
      else if flags AND FQDNFlagN \<noteq> 0 \<and> flags AND FQDNFlagS \<noteq> 0 then Inl ErrBadFQDNFlags
      else if flags AND FQDNFlagMBZ \<noteq> 0 then Inl ErrBadFQDNFlags
      else bind_res (if flags AND FQDNFlagE = 0 then Inr (TrimDotSuffix name) else encodeName name)
        (\<lambda>body. let out = [flags, 0, 0] @ body in
          if length out > 255 then Inl ErrBadName else Inr out))"

section \<open>The list-valued options as item lists\<close>

text \<open>
  Each list-valued option provides the \<open>item_list\<close> interface of the prelude with its
  own reader and loop: the octets determine the list and the list the octets.
\<close>

interpretation uc: item_list encode_class read_class user_classes
  "\<lambda>c. 1 \<le> length c \<and> length c \<le> 255"
proof (unfold_locales, goal_cases)
  case (2 b)
  then show ?case by (cases b) auto
next
  case (3 x r)
  then show ?case by (auto simp: encode_class_def unat_gt_0 [symmetric])
next
  case (5 b x r)
  then show ?case
    by (cases b) (auto simp: encode_class_def unat_gt_0 [symmetric] Suc_le_eq less_Suc_eq_le [symmetric]
        split: if_splits)
qed (auto simp: encode_class_def)

definition encode_block :: "vendor_data \<Rightarrow> byte list" where
  "encode_block d = be32 (Enterprise d) @ of_nat (length (Data d)) # Data d"

lemma five_split: "5 \<le> length b \<Longrightarrow> b = take 4 b @ b ! 4 # drop 5 b"
  by (rule trans [OF id_take_nth_drop [of 4 b]]) auto

interpretation vb: item_list encode_block read_block vendor_blocks "\<lambda>d. length (Data d) \<le> 255"
proof (unfold_locales, goal_cases)
  case 1
  show ?case by (simp add: vendor_blocks.simps)
next
  case (2 b)
  then show ?case
    by (subst vendor_blocks.simps) (auto simp: bind_res_def split: sum.splits)
next
  case (3 x r)
  then show ?case
    by (cases x) (auto simp: encode_block_def read_block_def Let_def nth_append octets_def)
next
  case (5 b x r)
  then have len: "5 \<le> length b" "5 + unat (b ! 4) \<le> length b"
    and x: "x = \<lparr>Enterprise = ube32 (take 4 b), Data = octets 5 (unat (b ! 4)) b\<rparr>"
    and r: "r = drop (5 + unat (b ! 4)) b"
    by (auto simp: read_block_def Let_def split: if_splits)
  have "length (Data x) = unat (b ! 4)" using len by (simp add: x length_octets)
  moreover have "b = take 4 b @ b ! 4 # octets 5 (unat (b ! 4)) b @ r"
  proof -
    have "drop 5 b = octets 5 (unat (b ! 4)) b @ r"
      by (simp add: octets_def r add.commute [of 5] flip: drop_drop)
    then show ?thesis using five_split [OF len(1)] by simp
  qed
  ultimately show ?case
    using len unat_byte_less [of "b ! 4"] by (simp add: x encode_block_def be32_ube32_length)
qed (simp add: encode_block_def)

definition read_addr :: "byte list \<Rightarrow> unit + addr \<times> byte list" where
  "read_addr b = (if length b < 4 then Inl () else Inr (AddrFrom4 (take 4 b), drop 4 b))"

interpretation al: item_list putAddr read_addr
  "\<lambda>b. if length b mod 4 = 0 then Inr (addr_groups b) else Inl ()" Is4
proof (unfold_locales, goal_cases)
  case 1
  show ?case by (simp add: addr_groups.simps)
next
  case (2 b)
  then show ?case
    by (subst addr_groups.simps)
      (auto simp: read_addr_def le_mod_geq not_le mod_less_divisor split: if_splits)
next
  case (3 x r)
  then show ?case by (cases x) (auto simp: putAddr_def read_addr_def)
next
  case (4 x)
  then show ?case by (cases x) (auto simp: putAddr_def)
next
  case (5 b x r)
  then show ?case
    by (auto simp: read_addr_def putAddr_def AddrFrom4_def be32_ube32_length split: if_splits)
qed

text \<open>RFC 3442's destination descriptor, written out: the reader undoes it.\<close>

definition encode_route :: "route \<Rightarrow> byte list" where
  "encode_route r = (let width = nat (pbits (Dest r)) in
     of_nat width # take ((width + 7) div 8) (putAddr (paddr (Dest r))) @ putAddr (Router r))"

definition route_ok :: "route \<Rightarrow> bool" where
  "route_ok r \<longleftrightarrow> 0 \<le> pbits (Dest r) \<and> pbits (Dest r) \<le> 32 \<and> Is4 (paddr (Dest r))
     \<and> Masked (Dest r) = Dest r \<and> Is4 (Router r)"

lemma bit_ube32:
  "bit (ube32 [a, b, c, e]) k \<longleftrightarrow>
     (if k < 8 then bit e k else if k < 16 then bit c (k - 8)
      else if k < 24 then bit b (k - 16) else k < 32 \<and> bit a (k - 24))"
proof -
  consider "k < 8" | "8 \<le> k" "k < 16" | "16 \<le> k" "k < 24" | "24 \<le> k" "k < 32" | "32 \<le> k"
    by fastforce
  then show ?thesis by cases (auto simp: ube32_def bit_simps)
qed

lemma bit_octet_of: "bit (ucast (drop_bit n (d :: 32 word)) :: byte) k \<longleftrightarrow> k < 8 \<and> bit d (n + k)"
  by (auto simp: bit_simps dest: bit_imp_le_length)

lemma ube32_prefix_bits:
  assumes "S \<le> 4"
  shows "bit (ube32 (copy_field 4 (take S (be32 d)))) k \<longleftrightarrow> 32 - 8 * S \<le> k \<and> k < 32 \<and> bit d k"
proof -
  have zeros: "replicate 4 (0 :: byte) = [0, 0, 0, 0]" "replicate 3 (0 :: byte) = [0, 0, 0]"
    "replicate 2 (0 :: byte) = [0, 0]" by (simp_all add: numeral_eq_Suc)
  have low: "bit (ucast d :: byte) k \<longleftrightarrow> k < 8 \<and> bit d k" for k
    using bit_octet_of [of 0 d k] by simp
  consider "k < 8" | "8 \<le> k" "k < 16" | "16 \<le> k" "k < 24" | "24 \<le> k" "k < 32" | "32 \<le> k"
    by fastforce
  moreover from assms have "S \<in> {0, 1, 2, 3, 4}" by auto
  ultimately show ?thesis
    by cases (auto simp: be32_def copy_field_def bit_ube32 bit_octet_of zeros low)
qed

lemma masked_prefix_octets:
  assumes "w \<le> 32"
  shows "ube32 (copy_field 4 (take ((w + 7) div 8) (be32 d))) AND netmask32 w = d AND netmask32 w"
proof (rule bit_word_eqI)
  fix k assume "k < LENGTH(32)"
  have "(w + 7) div 8 \<le> 4" using assms by linarith
  moreover have "32 - 8 * ((w + 7) div 8) \<le> 32 - w" by linarith
  ultimately show "bit (ube32 (copy_field 4 (take ((w + 7) div 8) (be32 d))) AND netmask32 w) k
    = bit (d AND netmask32 w) k"
    using assms by (auto simp: bit_and_iff bit_netmask32 ube32_prefix_bits)
qed

interpretation cr: item_reader encode_route read_route classless_routes route_ok
proof (unfold_locales, goal_cases)
  case 1
  show ?case by (simp add: classless_routes.simps)
next
  case (2 b)
  then show ?case
    by (subst classless_routes.simps) (auto simp: bind_res_def split: sum.splits)
next
  case (3 x r)
  then obtain w d g where x: "x = \<lparr>Dest = \<lparr>paddr = Addr4 d, pbits = int w\<rparr>, Router = Addr4 g\<rparr>"
    and w: "w \<le> 32" and m: "d AND netmask32 w = d"
    by (cases x; cases "Dest x"; cases "paddr (Dest x)"; cases "Router x";
        cases "pbits (Dest x)") (auto simp: route_ok_def Masked_def)
  let ?sig = "(w + 7) div 8"
  have sig: "?sig \<le> 4" using w by linarith
  have "Masked (PrefixFrom (AddrFrom4 (copy_field 4 (take ?sig (be32 d)))) (int w))
      = \<lparr>paddr = Addr4 d, pbits = int w\<rparr>"
    using w m masked_prefix_octets [OF w] by (simp add: AddrFrom4_def Masked_PrefixFrom4)
  then show ?case
    using w sig by (simp add: x encode_route_def read_route_def putAddr_def octets_def min_def Let_def)
qed (simp add: encode_route_def Let_def)

section \<open>Properties of the readers\<close>

text \<open>
  User classes survive the trip: a list \<^verbatim>\<open>EncodeUserClass\<close> accepts makes an option
  value of at most 255 octets, and \<^verbatim>\<open>UserClass\<close> reads exactly that list back.
\<close>

theorem user_class_roundtrip:
  assumes "EncodeUserClass cs = Inr v"
  shows "length v \<le> 255 \<and> UserClass (opts(OptUserClass \<mapsto> v)) = Some (Inr cs)"
proof -
  from assms have cs: "cs \<noteq> []" "list_all (\<lambda>c. 1 \<le> length c \<and> length c \<le> 255) cs"
    and total: "sum_list (map (\<lambda>c. 1 + length c) cs) \<le> 255" and v: "v = concat (map encode_class cs)"
    by (auto simp: EncodeUserClass_def list_all_iff list_ex_iff Suc_le_eq split: if_splits)
  have "length v = sum_list (map (\<lambda>c. 1 + length c) cs)"
    by (simp add: v length_concat encode_class_def comp_def)
  moreover have "user_classes v = Inr cs" using cs(2) by (simp add: v uc.decode_concat)
  moreover from cs(1) have "v \<noteq> []" by (cases cs) (simp_all add: v encode_class_def)
  ultimately show ?thesis using total by (simp add: UserClass_def)
qed

lemma user_class_roundtrip_witness:
  "EncodeUserClass [[97], [98, 99]] = Inr [1, 97, 2, 98, 99]
   \<and> UserClass [OptUserClass \<mapsto> [1, 97, 2, 98, 99]] = Some (Inr [[97], [98, 99]])"
proof -
  have e: "EncodeUserClass [[97], [98, 99]] = Inr [1, 97, 2, 98, 99]"
    by (simp add: EncodeUserClass_def encode_class_def)
  then show ?thesis using user_class_roundtrip [OF e, of Map.empty] by simp
qed

text \<open>
  \<^verbatim>\<open>Addrs4\<close> returns a list exactly when the option is present and its octets are
  those of that non-empty list of IPv4 addresses: nothing is truncated, and a value
  with octets left over is refused.
\<close>

theorem addrs4_iff:
  "Addrs4 opts c = Some as \<longleftrightarrow>
     as \<noteq> [] \<and> list_all Is4 as \<and> opts c = Some (concat (map putAddr as))"
proof -
  have step: "length v mod 4 = 0 \<and> addr_groups v = as \<longleftrightarrow>
      list_all Is4 as \<and> v = concat (map putAddr as)" for v
    using al.decode_iff [of v as] by (auto split: if_splits)
  have ne: "addr_groups v = [] \<longleftrightarrow> v = []" if "length v mod 4 = 0" for v
  proof (cases "length v < 4")
    case True
    with that have "v = []" by simp
    then show ?thesis by (simp add: addr_groups.simps)
  next
    case False
    then show ?thesis by (subst addr_groups.simps) auto
  qed
  show ?thesis
  proof (cases "opts c")
    case (Some v)
    have "Addrs4 opts c = Some as \<longleftrightarrow> v \<noteq> [] \<and> length v mod 4 = 0 \<and> addr_groups v = as"
      by (auto simp: Addrs4_def Some)
    also have "\<dots> \<longleftrightarrow> as \<noteq> [] \<and> list_all Is4 as \<and> v = concat (map putAddr as)"
      using step [of v] ne [of v] by (cases "as = []") auto
    finally show ?thesis using Some by simp
  qed (simp add: Addrs4_def)
qed

text \<open>
  \<^verbatim>\<open>VendorIdentifying\<close> returns a list of blocks exactly when the option is that list
  written out, block by block; a block cut short is an error, never a shorter list.
\<close>

theorem vendor_identifying_iff:
  "VendorIdentifying (opts(OptVIVSO \<mapsto> v)) = Inr ds \<longleftrightarrow>
     list_all (\<lambda>d. length (Data d) \<le> 255) ds \<and> v = concat (map encode_block ds)"
  by (simp add: VendorIdentifying_def vb.decode_iff)

lemma read_route_ok:
  assumes "read_route b = Inr (x, r)"
  shows "route_ok x"
proof -
  from assms obtain w v where b: "b = w # v"
    by (cases b) (simp_all add: read_route_def)
  define d where "d = ube32 (copy_field 4 (take ((unat w + 7) div 8) v))"
  define g where "g = ube32 (octets ((unat w + 7) div 8) 4 v)"
  from assms have w: "unat w \<le> 32"
    and x: "x = \<lparr>Dest = Masked (PrefixFrom (Addr4 d) (int (unat w))), Router = Addr4 g\<rparr>"
    by (auto simp: b d_def g_def read_route_def Let_def AddrFrom4_def simp del: of_nat_unat
        split: if_splits)
  then have "Masked (PrefixFrom (Addr4 d) (int (unat w)))
      = \<lparr>paddr = Addr4 (d AND netmask32 (unat w)), pbits = int (unat w)\<rparr>"
    using Masked_PrefixFrom4 [of "int (unat w)" d] by (simp del: of_nat_unat)
  with w show ?thesis
    by (simp add: x route_ok_def Masked_def and.assoc del: of_nat_unat)
qed

lemma classless_routes_ok: "classless_routes b = Inr rs \<Longrightarrow> list_all route_ok rs"
proof (induction b arbitrary: rs rule: classless_routes.induct)
  case (1 b)
  show ?case
  proof (cases "b = []")
    case True
    with "1.prems" show ?thesis by (simp add: classless_routes.simps)
  next
    case False
    with "1.prems" obtain xr qs where "read_route b = Inr xr" "classless_routes (snd xr) = Inr qs"
      "rs = fst xr # qs"
      by (subst (asm) classless_routes.simps) (auto simp: bind_res_eq_Inr)
    with "1.IH" False show ?thesis using read_route_ok [of b "fst xr" "snd xr"] by simp
  qed
qed

text \<open>
  Every route \<^verbatim>\<open>ClasslessRoutes\<close> returns has an IPv4 destination of width at most 32
  already masked to that width (RFC 3442's logical AND), and an IPv4 router; and every
  list of such routes, written in RFC 3442's form in option 121, is read back whole.
\<close>

theorem classless_routes_correct:
  "(\<forall>rs. ClasslessRoutes opts = Inr rs \<longrightarrow> list_all route_ok rs) \<and>
   (\<forall>rs. rs \<noteq> [] \<longrightarrow> list_all route_ok rs \<longrightarrow>
      ClasslessRoutes (opts(OptClasslessStaticRte \<mapsto> concat (map encode_route rs))) = Inr rs)"
proof -
  have "list_all route_ok rs" if "ClasslessRoutes opts = Inr rs" for rs
    using that classless_routes_ok
    by (auto simp: ClasslessRoutes_def split: option.splits if_splits)
  moreover have "ClasslessRoutes (opts(OptClasslessStaticRte \<mapsto> concat (map encode_route rs))) = Inr rs"
    if "rs \<noteq> []" "list_all route_ok rs" for rs
  proof -
    from that have "concat (map encode_route rs) \<noteq> []"
      by (cases rs) (simp_all add: encode_route_def Let_def)
    with that show ?thesis
      by (simp add: ClasslessRoutes_def ClasslessSource_def cr.decode_concat)
  qed
  ultimately show ?thesis by blast
qed

lemma classless_routes_correct_witness:
  "ClasslessRoutes [OptClasslessStaticRte \<mapsto> [25, 129, 210, 177, 132, 10, 0, 0, 1]]
     = Inr [\<lparr>Dest = \<lparr>paddr = Addr4 0x81D2B180, pbits = 25\<rparr>, Router = Addr4 0x0A000001\<rparr>]
   \<and> route_ok \<lparr>Dest = \<lparr>paddr = Addr4 0x81D2B180, pbits = 25\<rparr>, Router = Addr4 0x0A000001\<rparr>"
proof -
  let ?r = "\<lparr>Dest = \<lparr>paddr = Addr4 0x81D2B180, pbits = 25\<rparr>, Router = Addr4 0x0A000001\<rparr>"
  have "ClasslessRoutes [OptClasslessStaticRte \<mapsto> [25, 129, 210, 177, 132, 10, 0, 0, 1]] = Inr [?r]"
    by (simp add: ClasslessRoutes_def ClasslessSource_def classless_routes.simps read_route_def
        copy_field_def octets_def Masked_def PrefixFrom_def AddrFrom4_def ube32_def netmask32_def
        mask_eq_exp_minus_1)
  moreover from this have "list_all route_ok [?r]"
    using classless_routes_correct by blast
  ultimately show ?thesis by simp
qed

section \<open>Names\<close>

lemma join_dots_Cons: "ls \<noteq> [] \<Longrightarrow> join_dots (l # ls) = l @ dot # join_dots ls"
  by (cases ls) simp_all

lemma split_dots_nonempty [simp]: "split_dots s \<noteq> []"
  by (cases s) (auto split: list.splits)

lemma join_split_dots: "join_dots (split_dots s) = s"
proof (induction s)
  case (Cons c s)
  then show ?case
    by (cases "split_dots s"; cases "tl (split_dots s)")
      (auto simp: join_dots_Cons)
qed simp

lemma label_octet:
  assumes "0 < n" "n \<le> 63"
  shows "(of_nat n :: byte) \<noteq> 0" "(of_nat n :: byte) AND 0xC0 = 0" "unat (of_nat n :: byte) = n"
proof -
  show n: "unat (of_nat n :: byte) = n" using assms by simp
  with assms show "(of_nat n :: byte) \<noteq> 0" by (metis less_numeral_extra(3) unat_0)
  have "n AND 192 = take_bit 6 n AND 192" using assms by (simp add: take_bit_nat_eq_self)
  also have "\<dots> = n AND (63 AND 192)" by (simp add: take_bit_eq_mask mask_eq_exp_minus_1 and.assoc)
  finally have "unat (of_nat n AND 0xC0 :: byte) = 0" by (simp add: unsigned_and_eq n)
  then show "(of_nat n :: byte) AND 0xC0 = 0" by (simp add: unat_eq_zero)
qed

lemma read_name_labels:
  "encode_labels ls = Inr b \<Longrightarrow>
   read_name (pre @ b @ 0 # post) (length pre) acc None j
     = Inr (join_dots (acc @ ls), length pre + length b + 1)"
proof (induction ls arbitrary: b pre acc)
  case Nil
  then show ?case by (subst read_name.simps) simp
next
  case (Cons l ls)
  then obtain rest where rest: "encode_labels ls = Inr rest"
    and l: "0 < length l" "length l \<le> 63" and b: "b = of_nat (length l) # l @ rest"
    by (auto simp: bind_res_eq_Inr split: if_splits)
  let ?pre = "pre @ of_nat (length l) # l"
  have "read_name (?pre @ rest @ 0 # post) (length ?pre) (acc @ [l]) None j
      = Inr (join_dots ((acc @ [l]) @ ls), length ?pre + length rest + 1)"
    using Cons.IH [OF rest] .
  then show ?case
    by (subst read_name.simps) (simp add: b label_octet [OF l] octets_def Let_def)
qed

lemma encodeName_qualified:
  assumes "encodeName (s @ [dot]) = Inr b"
  shows "\<exists>ls body. encode_labels ls = Inr body \<and> b = body @ [0] \<and> join_dots ls = s"
proof (cases "s = []")
  case True
  with assms have "encode_labels [] = Inr [] \<and> b = [] @ [0] \<and> join_dots [] = s"
    by (simp add: encodeName_def TrimDotSuffix_def HasDotSuffix_def)
  then show ?thesis by blast
next
  case False
  with assms obtain body where "encode_labels (split_dots s) = Inr body \<and> b = body @ [0]"
    by (auto simp: encodeName_def TrimDotSuffix_def HasDotSuffix_def bind_res_eq_Inr)
  then show ?thesis using join_split_dots by blast
qed

lemma readName_encodeName:
  assumes "encodeName (s @ [dot]) = Inr b"
  shows "readName (pre @ b @ post) (length pre) = Inr (s, length pre + length b)"
proof -
  from encodeName_qualified [OF assms] obtain ls body where
    "encode_labels ls = Inr body" "b = body @ [0]" "join_dots ls = s" by blast
  then show ?thesis
    using read_name_labels [of ls body pre post "[]" 0] by (simp add: readName_def)
qed

text \<open>
  A fully qualified name written by \<^verbatim>\<open>encodeName\<close> anywhere in a block is read back by
  \<^verbatim>\<open>readName\<close> as the name without its final dot, and the walk resumes right after it.
\<close>

theorem name_roundtrip:
  assumes "encodeName (s @ [dot]) = Inr b"
  shows "readName (pre @ b @ post) (length pre) = Inr (s, length pre + length b)"
  using assms by (rule readName_encodeName)

lemma name_roundtrip_witness:
  "encodeName ([97, 46, 98] @ [dot]) = Inr [1, 97, 1, 98, 0]
   \<and> readName ([7] @ [1, 97, 1, 98, 0] @ [9]) 1 = Inr ([97, 46, 98], 6)"
proof -
  have e: "encodeName ([97, 46, 98] @ [dot]) = Inr [1, 97, 1, 98, 0]"
    by (simp add: encodeName_def TrimDotSuffix_def HasDotSuffix_def)
  then show ?thesis using name_roundtrip [OF e, of "[7]" "[9]"] by simp
qed

lemma search_list_names:
  "list_all2 (\<lambda>s b. s \<noteq> [] \<and> encodeName (s @ [dot]) = Inr b) names bs \<Longrightarrow>
   search_list (pre @ concat bs) (length pre) = Inr names"
proof (induction names bs arbitrary: pre rule: list_all2_induct)
  case Nil
  then show ?case by (subst search_list.simps) simp
next
  case (Cons s names b bs)
  then have b: "encodeName (s @ [dot]) = Inr b" and s: "s \<noteq> []" by simp_all
  have "b \<noteq> []" using encodeName_qualified [OF b] by auto
  moreover have "readName (pre @ b @ concat bs) (length pre) = Inr (s, length pre + length b)"
    by (rule readName_encodeName [OF b])
  moreover have "search_list ((pre @ b) @ concat bs) (length (pre @ b)) = Inr names"
    by (rule Cons.IH)
  ultimately show ?case using s by (subst search_list.simps) simp
qed

text \<open>
  The domain search list is read back name for name: option 119 holding fully
  qualified names written one after the other decodes to exactly those names.
\<close>

theorem domain_search_roundtrip:
  assumes "list_all2 (\<lambda>s b. s \<noteq> [] \<and> encodeName (s @ [dot]) = Inr b) names bs"
    and "names \<noteq> []"
  shows "DomainSearch (opts(OptDomainSearch \<mapsto> concat bs)) = Inr names"
proof -
  from assms obtain s b ns cs where "bs = b # cs" and "encodeName (s @ [dot]) = Inr b"
    by (cases names; cases bs) auto
  then have "concat bs \<noteq> []" using encodeName_qualified [of s b] by auto
  then show ?thesis
    using search_list_names [OF assms(1), of "[]"] by (simp add: DomainSearch_def)
qed

lemma domain_search_roundtrip_witness:
  "DomainSearch [OptDomainSearch \<mapsto> [1, 97, 1, 98, 0, 2, 99, 100, 0]]
     = Inr [[97, 46, 98], [99, 100]]"
proof -
  have "list_all2 (\<lambda>s b. s \<noteq> [] \<and> encodeName (s @ [dot]) = Inr b)
      [[97, 46, 98], [99, 100]] [[1, 97, 1, 98, 0], [2, 99, 100, 0]]"
    by (simp add: encodeName_def TrimDotSuffix_def HasDotSuffix_def)
  from domain_search_roundtrip [OF this, of Map.empty] show ?thesis by simp
qed

lemma read_name_error:
  "read_name v off labels nx jumps = Inl e \<Longrightarrow> e = ErrMalformedNames"
proof (induction v off labels nx jumps rule: read_name.induct)
  case (1 v off labels nx jumps)
  let ?n = "v ! off"
  consider "length v \<le> off \<or> ?n = 0" | "off < length v" "?n \<noteq> 0" "?n AND 0xC0 = 0xC0"
    | "off < length v" "?n \<noteq> 0" "?n AND 0xC0 \<noteq> 0xC0" by force
  then show ?case
  proof cases
    case 1
    with "1.prems" show ?thesis by (subst (asm) read_name.simps) (auto split: if_splits)
  next
    case 2
    with "1.prems" "1.IH"(1) [OF _ refl] show ?thesis
      by (subst (asm) read_name.simps) (auto simp: Let_def split: if_splits)
  next
    case 3
    with "1.prems" "1.IH"(2) [OF _ refl] show ?thesis
      by (subst (asm) read_name.simps) (auto simp: Let_def split: if_splits)
  qed
qed

text \<open>
  Reading a name never runs away: whatever pointers the block holds, \<^verbatim>\<open>readName\<close>
  returns, and a name it accepts ends strictly after its start and inside the block, so
  every round of \<^verbatim>\<open>DomainSearch\<close>'s loop advances. A block whose pointers loop is refused.
\<close>

theorem read_name_progress:
  "(case readName v i of Inr (s, k) \<Rightarrow> i < k \<and> k \<le> length v | Inl e \<Rightarrow> e = ErrMalformedNames)
   \<and> readName [0xC0, 0] 0 = Inl ErrMalformedNames"
proof -
  have "e = ErrMalformedNames" if "readName v i = Inl e" for e
    using that by (auto simp: readName_def dest: read_name_error)
  moreover have "readName [0xC0, 0] 0 = Inl ErrMalformedNames"
    unfolding readName_def by (simp add: read_name.simps [of "[0xC0, 0]" 0])
  ultimately show ?thesis
    using readName_next [of v i] by (auto simp: readName_def split: sum.splits)
qed

end
