(* ===== verification/Wire_V6.thy ===== *)
theory Wire_V6
  imports Netip6 Wire_Values
begin

text \<open>
  The DHCPv6 client codec, \<^verbatim>\<open>src/wire/dhcpv6.go\<close>: the message, the options area in wire order,
  the identity associations and the values inside them, names without compression, and the
  DUIDs. A fallible accessor with a presence flag gives \<open>None\<close> for absent and the sum for
  present. The \<^verbatim>\<open>String\<close> and \<^verbatim>\<open>Summary\<close> methods are left out.
\<close>

section \<open>Message types, option codes and errors\<close>

abbreviation (input) MsgSolicit :: byte where "MsgSolicit \<equiv> 1"
abbreviation (input) MsgAdvertise :: byte where "MsgAdvertise \<equiv> 2"
abbreviation (input) MsgRequest6 :: byte where "MsgRequest6 \<equiv> 3"
abbreviation (input) MsgConfirm :: byte where "MsgConfirm \<equiv> 4"
abbreviation (input) MsgRenew :: byte where "MsgRenew \<equiv> 5"
abbreviation (input) MsgRebind :: byte where "MsgRebind \<equiv> 6"
abbreviation (input) MsgReply :: byte where "MsgReply \<equiv> 7"
abbreviation (input) MsgRelease6 :: byte where "MsgRelease6 \<equiv> 8"
abbreviation (input) MsgDecline6 :: byte where "MsgDecline6 \<equiv> 9"
abbreviation (input) MsgReconfigure :: byte where "MsgReconfigure \<equiv> 10"
abbreviation (input) MsgInformationRequest :: byte where "MsgInformationRequest \<equiv> 11"
abbreviation (input) MsgRelayForw :: byte where "MsgRelayForw \<equiv> 12"
abbreviation (input) MsgRelayRepl :: byte where "MsgRelayRepl \<equiv> 13"

definition ForClient :: "byte \<Rightarrow> bool" where
  "ForClient t \<longleftrightarrow> MsgSolicit \<le> t \<and> t \<le> MsgInformationRequest"

abbreviation (input) OptV6ClientID :: "16 word" where "OptV6ClientID \<equiv> 1"
abbreviation (input) OptV6ServerID :: "16 word" where "OptV6ServerID \<equiv> 2"
abbreviation (input) OptV6IANA :: "16 word" where "OptV6IANA \<equiv> 3"
abbreviation (input) OptV6IATA :: "16 word" where "OptV6IATA \<equiv> 4"
abbreviation (input) OptV6IAAddr :: "16 word" where "OptV6IAAddr \<equiv> 5"
abbreviation (input) OptV6ORO :: "16 word" where "OptV6ORO \<equiv> 6"
abbreviation (input) OptV6Preference :: "16 word" where "OptV6Preference \<equiv> 7"
abbreviation (input) OptV6ElapsedTime :: "16 word" where "OptV6ElapsedTime \<equiv> 8"
abbreviation (input) OptV6StatusCode :: "16 word" where "OptV6StatusCode \<equiv> 13"
abbreviation (input) OptV6RapidCommit :: "16 word" where "OptV6RapidCommit \<equiv> 14"
abbreviation (input) OptV6VendorOpts :: "16 word" where "OptV6VendorOpts \<equiv> 17"
abbreviation (input) OptV6DNSServers :: "16 word" where "OptV6DNSServers \<equiv> 23"
abbreviation (input) OptV6DomainList :: "16 word" where "OptV6DomainList \<equiv> 24"
abbreviation (input) OptV6IAPD :: "16 word" where "OptV6IAPD \<equiv> 25"
abbreviation (input) OptV6IAPrefix :: "16 word" where "OptV6IAPrefix \<equiv> 26"
abbreviation (input) OptV6InfoRefresh :: "16 word" where "OptV6InfoRefresh \<equiv> 32"
abbreviation (input) OptV6ClientFQDN :: "16 word" where "OptV6ClientFQDN \<equiv> 39"
abbreviation (input) OptV6PosixTimezone :: "16 word" where "OptV6PosixTimezone \<equiv> 41"
abbreviation (input) OptV6TZDatabase :: "16 word" where "OptV6TZDatabase \<equiv> 42"
abbreviation (input) OptV6NTPServer :: "16 word" where "OptV6NTPServer \<equiv> 56"
abbreviation (input) OptV6SolMaxRTCode :: "16 word" where "OptV6SolMaxRTCode \<equiv> 82"
abbreviation (input) OptV6InfMaxRTCode :: "16 word" where "OptV6InfMaxRTCode \<equiv> 83"

datatype v6_error = ErrV6Short | ErrV6NotForClient | ErrV6UnknownType | ErrV6TruncatedOption
  | ErrV6OptionOverrun | ErrV6BadOption | ErrV6Encode | ErrV6Name | ErrMalformedVendor6
  | ErrMalformedNTP | ErrDUID | ErrV6Auth | ErrRKAPKey | ErrRKAPDigest

section \<open>The options area\<close>

record OptionV6 =
  Code6 :: "16 word"
  Data6 :: "byte list"

type_synonym OptionsV6 = "OptionV6 list"

fun First :: "OptionsV6 \<Rightarrow> 16 word \<Rightarrow> byte list option" where
  "First [] c = None"
| "First (opt # o6) c = (if Code6 opt = c then Some (Data6 opt) else First o6 c)"

definition All6 :: "OptionsV6 \<Rightarrow> 16 word \<Rightarrow> byte list list" where
  "All6 o6 c = map Data6 (filter (\<lambda>opt. Code6 opt = c) o6)"

definition Count6 :: "OptionsV6 \<Rightarrow> 16 word \<Rightarrow> nat" where
  "Count6 o6 c = length (filter (\<lambda>opt. Code6 opt = c) o6)"

definition encode_option6 :: "OptionV6 \<Rightarrow> byte list" where
  "encode_option6 opt = be16 (Code6 opt) @ be16 (of_nat (length (Data6 opt))) @ Data6 opt"

text \<open>One round of the loop of \<^verbatim>\<open>ParseOptionsV6\<close>, on the octets from its index on.\<close>

definition read_option6 :: "byte list \<Rightarrow> v6_error + OptionV6 \<times> byte list" where
  "read_option6 b =
     (if length b < 4 then Inl ErrV6TruncatedOption
      else let n = unat (ube16 (octets 2 2 b)) in
        if n > length b - 4 then Inl ErrV6OptionOverrun
        else Inr (\<lparr>Code6 = ube16 (octets 0 2 b), Data6 = octets 4 n b\<rparr>, drop (4 + n) b))"

lemma read_option6_shorter: "read_option6 b = Inr (x, r) \<Longrightarrow> length r < length b"
  by (auto simp: read_option6_def Let_def split: if_splits)

function ParseOptionsV6 :: "byte list \<Rightarrow> v6_error + OptionsV6" where
  "ParseOptionsV6 b =
     (if b = [] then Inr []
      else bind_res (read_option6 b) (\<lambda>xr. bind_res (ParseOptionsV6 (snd xr)) (\<lambda>xs. Inr (fst xr # xs))))"
  by pat_completeness auto
termination
  by (relation "measure length") (auto dest: read_option6_shorter)

declare ParseOptionsV6.simps [simp del]

fun EncodeOptionsV6 :: "OptionsV6 \<Rightarrow> v6_error + byte list" where
  "EncodeOptionsV6 [] = Inr []"
| "EncodeOptionsV6 (opt # o6) =
     (if length (Data6 opt) > 0xFFFF then Inl ErrV6Encode
      else bind_res (EncodeOptionsV6 o6) (\<lambda>rest. Inr (encode_option6 opt @ rest)))"

section \<open>The message\<close>

abbreviation (input) MaxXID6 :: "32 word" where "MaxXID6 \<equiv> 0x1000000"
abbreviation (input) V6HeaderLen :: nat where "V6HeaderLen \<equiv> 4"

record MessageV6 =
  Type6 :: byte
  XID6 :: "32 word"
  Options6 :: OptionsV6

definition DecodeV6 :: "byte list \<Rightarrow> v6_error + MessageV6" where
  "DecodeV6 b =
     (if length b < V6HeaderLen then Inl ErrV6Short
      else let t = b ! 0 in
        if \<not> ForClient t then Inl (if t = MsgRelayForw \<or> t = MsgRelayRepl then ErrV6NotForClient else ErrV6UnknownType)
        else bind_res (ParseOptionsV6 (drop V6HeaderLen b)) (\<lambda>opts.
          Inr \<lparr>Type6 = t,
               XID6 = push_bit 16 (ucast (b ! 1)) OR push_bit 8 (ucast (b ! 2)) OR ucast (b ! 3),
               Options6 = opts\<rparr>))"

definition EncodeV6 :: "MessageV6 option \<Rightarrow> v6_error + byte list" where
  "EncodeV6 msg =
     (case msg of None \<Rightarrow> Inl ErrV6Encode
      | Some m \<Rightarrow>
          if XID6 m \<ge> MaxXID6 then Inl ErrV6Encode
          else bind_res (EncodeOptionsV6 (Options6 m)) (\<lambda>body.
            Inr ([Type6 m, ucast (drop_bit 16 (XID6 m)), ucast (drop_bit 8 (XID6 m)), ucast (XID6 m)] @ body)))"

section \<open>Identity associations\<close>

text \<open>The loop of the list accessors: every instance decoded, the first error ends it.\<close>

fun decode_each :: "(byte list \<Rightarrow> 'e + 'a) \<Rightarrow> byte list list \<Rightarrow> 'e + 'a list" where
  "decode_each dec [] = Inr []"
| "decode_each dec (v # vs) = bind_res (dec v) (\<lambda>x. bind_res (decode_each dec vs) (\<lambda>xs. Inr (x # xs)))"

record IANA =
  naIAID :: "32 word"
  naT1 :: "32 word"
  naT2 :: "32 word"
  naOptions :: OptionsV6

abbreviation (input) IANAFixedLen :: nat where "IANAFixedLen \<equiv> 12"

definition DecodeIANA :: "byte list \<Rightarrow> v6_error + IANA" where
  "DecodeIANA v =
     (if length v < IANAFixedLen then Inl ErrV6BadOption
      else bind_res (ParseOptionsV6 (drop IANAFixedLen v)) (\<lambda>opts.
        Inr \<lparr>naIAID = ube32 (octets 0 4 v), naT1 = ube32 (octets 4 4 v), naT2 = ube32 (octets 8 4 v), naOptions = opts\<rparr>))"

definition EncodeIANA :: "IANA \<Rightarrow> v6_error + byte list" where
  "EncodeIANA ia = bind_res (EncodeOptionsV6 (naOptions ia)) (\<lambda>body.
     Inr (be32 (naIAID ia) @ be32 (naT1 ia) @ be32 (naT2 ia) @ body))"

definition IANAs :: "OptionsV6 \<Rightarrow> v6_error + IANA list" where
  "IANAs o6 = decode_each DecodeIANA (All6 o6 OptV6IANA)"

record IATA =
  taIAID :: "32 word"
  taOptions :: OptionsV6

abbreviation (input) IATAFixedLen :: nat where "IATAFixedLen \<equiv> 4"

definition DecodeIATA :: "byte list \<Rightarrow> v6_error + IATA" where
  "DecodeIATA v =
     (if length v < IATAFixedLen then Inl ErrV6BadOption
      else bind_res (ParseOptionsV6 (drop IATAFixedLen v)) (\<lambda>opts.
        Inr \<lparr>taIAID = ube32 (octets 0 4 v), taOptions = opts\<rparr>))"

definition EncodeIATA :: "IATA \<Rightarrow> v6_error + byte list" where
  "EncodeIATA ia = bind_res (EncodeOptionsV6 (taOptions ia)) (\<lambda>body. Inr (be32 (taIAID ia) @ body))"

definition IATAs :: "OptionsV6 \<Rightarrow> v6_error + IATA list" where
  "IATAs o6 = decode_each DecodeIATA (All6 o6 OptV6IATA)"

record IAPD =
  pdIAID :: "32 word"
  pdT1 :: "32 word"
  pdT2 :: "32 word"
  pdOptions :: OptionsV6

abbreviation (input) IAPDFixedLen :: nat where "IAPDFixedLen \<equiv> 12"

definition DecodeIAPD :: "byte list \<Rightarrow> v6_error + IAPD" where
  "DecodeIAPD v =
     (if length v < IAPDFixedLen then Inl ErrV6BadOption
      else bind_res (ParseOptionsV6 (drop IAPDFixedLen v)) (\<lambda>opts.
        Inr \<lparr>pdIAID = ube32 (octets 0 4 v), pdT1 = ube32 (octets 4 4 v), pdT2 = ube32 (octets 8 4 v), pdOptions = opts\<rparr>))"

definition EncodeIAPD :: "IAPD \<Rightarrow> v6_error + byte list" where
  "EncodeIAPD ia = bind_res (EncodeOptionsV6 (pdOptions ia)) (\<lambda>body.
     Inr (be32 (pdIAID ia) @ be32 (pdT1 ia) @ be32 (pdT2 ia) @ body))"

definition IAPDs :: "OptionsV6 \<Rightarrow> v6_error + IAPD list" where
  "IAPDs o6 = decode_each DecodeIAPD (All6 o6 OptV6IAPD)"

record IAPrefix =
  ipPrefix :: prefix
  ipPreferred :: "32 word"
  ipValid :: "32 word"
  ipOptions :: OptionsV6

abbreviation (input) IAPrefixFixedLen :: nat where "IAPrefixFixedLen \<equiv> 25"

definition DecodeIAPrefix :: "byte list \<Rightarrow> v6_error + IAPrefix" where
  "DecodeIAPrefix v =
     (if length v < IAPrefixFixedLen then Inl ErrV6BadOption
      else if v ! 8 > 128 then Inl ErrV6BadOption
      else bind_res (ParseOptionsV6 (drop IAPrefixFixedLen v)) (\<lambda>opts.
        Inr \<lparr>ipPrefix = PrefixFrom (AddrFrom16 (octets 9 16 v)) (uint (v ! 8)),
             ipPreferred = ube32 (octets 0 4 v), ipValid = ube32 (octets 4 4 v), ipOptions = opts\<rparr>))"

definition EncodeIAPrefix :: "IAPrefix \<Rightarrow> v6_error + byte list" where
  "EncodeIAPrefix p =
     (if \<not> PrefixIsValid (ipPrefix p) \<or> \<not> Is6 (paddr (ipPrefix p)) \<or> Is4In6 (paddr (ipPrefix p)) then Inl ErrV6Encode
      else bind_res (EncodeOptionsV6 (ipOptions p)) (\<lambda>body.
        Inr (be32 (ipPreferred p) @ be32 (ipValid p) @ [word_of_int (pbits (ipPrefix p))] @ As16 (paddr (ipPrefix p)) @ body)))"

definition IAPrefix_Valid :: "IAPrefix \<Rightarrow> bool" where
  "IAPrefix_Valid p \<longleftrightarrow> ipPreferred p \<le> ipValid p"

definition Prefixes :: "OptionsV6 \<Rightarrow> v6_error + IAPrefix list" where
  "Prefixes o6 = decode_each DecodeIAPrefix (All6 o6 OptV6IAPrefix)"

record IAAddr =
  iaAddr :: addr
  iaPreferred :: "32 word"
  iaValid :: "32 word"
  iaOptions :: OptionsV6

abbreviation (input) IAAddrFixedLen :: nat where "IAAddrFixedLen \<equiv> 24"

definition DecodeIAAddr :: "byte list \<Rightarrow> v6_error + IAAddr" where
  "DecodeIAAddr v =
     (if length v < IAAddrFixedLen then Inl ErrV6BadOption
      else bind_res (ParseOptionsV6 (drop IAAddrFixedLen v)) (\<lambda>opts.
        Inr \<lparr>iaAddr = AddrFrom16 (octets 0 16 v), iaPreferred = ube32 (octets 16 4 v), iaValid = ube32 (octets 20 4 v),
             iaOptions = opts\<rparr>))"

definition EncodeIAAddr :: "IAAddr \<Rightarrow> v6_error + byte list" where
  "EncodeIAAddr a =
     (if \<not> Is6 (iaAddr a) \<or> Is4In6 (iaAddr a) then Inl ErrV6Encode
      else bind_res (EncodeOptionsV6 (iaOptions a)) (\<lambda>body.
        Inr (As16 (iaAddr a) @ be32 (iaPreferred a) @ be32 (iaValid a) @ body)))"

definition IAAddr_Valid :: "IAAddr \<Rightarrow> bool" where
  "IAAddr_Valid a \<longleftrightarrow> iaPreferred a \<le> iaValid a"

definition Addrs :: "OptionsV6 \<Rightarrow> v6_error + IAAddr list" where
  "Addrs o6 = decode_each DecodeIAAddr (All6 o6 OptV6IAAddr)"

section \<open>Fixed values\<close>

definition RapidCommit6 :: "OptionsV6 \<Rightarrow> v6_error + bool" where
  "RapidCommit6 o6 =
     (let vs = All6 o6 OptV6RapidCommit in
      if list_ex (\<lambda>v. length v \<noteq> 0) vs then Inl ErrV6BadOption else Inr (vs \<noteq> []))"

definition RapidCommitOption :: OptionV6 where
  "RapidCommitOption = \<lparr>Code6 = OptV6RapidCommit, Data6 = []\<rparr>"

abbreviation (input) StatusSuccess :: "16 word" where "StatusSuccess \<equiv> 0"
abbreviation (input) StatusUnspecFail :: "16 word" where "StatusUnspecFail \<equiv> 1"
abbreviation (input) StatusNoAddrsAvail :: "16 word" where "StatusNoAddrsAvail \<equiv> 2"
abbreviation (input) StatusNoBinding :: "16 word" where "StatusNoBinding \<equiv> 3"
abbreviation (input) StatusNotOnLink :: "16 word" where "StatusNotOnLink \<equiv> 4"
abbreviation (input) StatusNoPrefixAvail :: "16 word" where "StatusNoPrefixAvail \<equiv> 6"
abbreviation (input) StatusMalformed :: "16 word" where "StatusMalformed \<equiv> 0xFFFF"

record Status =
  StCode :: "16 word"
  StMessage :: gostring

definition DecodeStatus :: "byte list \<Rightarrow> v6_error + Status" where
  "DecodeStatus v =
     (if length v < 2 then Inl ErrV6BadOption else Inr \<lparr>StCode = ube16 (octets 0 2 v), StMessage = drop 2 v\<rparr>)"

definition EncodeStatus :: "Status \<Rightarrow> byte list" where
  "EncodeStatus s = be16 (StCode s) @ StMessage s"

text \<open>The verdict of an area: the status, whether the option was there, and the error if it was malformed.\<close>

definition Status_of :: "OptionsV6 \<Rightarrow> Status \<times> bool \<times> v6_error option" where
  "Status_of o6 =
     (case First o6 OptV6StatusCode of
        None \<Rightarrow> (\<lparr>StCode = StatusSuccess, StMessage = []\<rparr>, False, None)
      | Some v \<Rightarrow> (case DecodeStatus v of
          Inl e \<Rightarrow> (\<lparr>StCode = StatusMalformed, StMessage = []\<rparr>, True, Some e)
        | Inr s \<Rightarrow> (s, True, None)))"

definition Preference :: "OptionsV6 \<Rightarrow> (v6_error + byte) option" where
  "Preference o6 = map_option (\<lambda>v. if length v \<noteq> 1 then Inl ErrV6BadOption else Inr (v ! 0)) (First o6 OptV6Preference)"

abbreviation (input) MaxElapsedHundredths :: "16 word" where "MaxElapsedHundredths \<equiv> 0xFFFF"

definition ElapsedHundredths :: "64 word \<Rightarrow> 16 word" where
  "ElapsedHundredths h = (if h > 0xFFFF then MaxElapsedHundredths else ucast h)"

definition ElapsedTime :: "OptionsV6 \<Rightarrow> (v6_error + 16 word) option" where
  "ElapsedTime o6 = map_option (\<lambda>v. if length v \<noteq> 2 then Inl ErrV6BadOption else Inr (ube16 v)) (First o6 OptV6ElapsedTime)"

definition Uint32V6 :: "OptionsV6 \<Rightarrow> 16 word \<Rightarrow> (v6_error + 32 word) option" where
  "Uint32V6 o6 c = map_option (\<lambda>v. if length v \<noteq> 4 then Inl ErrV6BadOption else Inr (ube32 v)) (First o6 c)"

function addr16_groups :: "byte list \<Rightarrow> addr list" where
  "addr16_groups v = (if length v < 16 then [] else AddrFrom16 (octets 0 16 v) # addr16_groups (drop 16 v))"
  by pat_completeness auto
termination by (relation "measure length") auto

declare addr16_groups.simps [simp del]

definition DNSServers6 :: "OptionsV6 \<Rightarrow> v6_error + addr list" where
  "DNSServers6 o6 =
     bind_res (decode_each (\<lambda>v. if length v mod 16 \<noteq> 0 then Inl ErrV6BadOption else Inr (addr16_groups v)) (All6 o6 OptV6DNSServers))
       (\<lambda>groups. Inr (concat groups))"

definition VendorOpts :: "OptionsV6 \<Rightarrow> v6_error + vendor_data list" where
  "VendorOpts o6 =
     decode_each (\<lambda>v. if length v < 4 then Inl ErrMalformedVendor6
       else Inr \<lparr>Enterprise = ube32 (octets 0 4 v), Data = drop 4 v\<rparr>) (All6 o6 OptV6VendorOpts)"

section \<open>Names without compression\<close>

abbreviation (input) MaxNameLen :: nat where "MaxNameLen \<equiv> 255"

text \<open>\<^verbatim>\<open>readNameUncompressed\<close>: the labels so far and the offset, which every label advances.\<close>

function read_labels6 :: "byte list \<Rightarrow> nat \<Rightarrow> gostring list \<Rightarrow> v6_error + gostring \<times> nat" where
  "read_labels6 v off labels =
     (if length v \<le> off then Inl ErrV6Name
      else let n = v ! off in
        if n = 0 then Inr (join_dots labels, off + 1)
        else if n AND 0xC0 = 0xC0 then Inl ErrV6Name
        else if n AND 0xC0 \<noteq> 0 then Inl ErrV6Name
        else if off + 1 + unat n > length v then Inl ErrV6Name
        else read_labels6 v (off + 1 + unat n) (labels @ [octets (off + 1) (unat n) v]))"
  by pat_completeness auto
termination by (relation "measure (\<lambda>(v, off, labels). length v - off)") auto

declare read_labels6.simps [simp del]

definition readNameUncompressed :: "byte list \<Rightarrow> nat \<Rightarrow> v6_error + gostring \<times> nat" where
  "readNameUncompressed v off = read_labels6 v off []"

lemma read_labels6_next: "read_labels6 v off labels = Inr (s, k) \<Longrightarrow> off < k \<and> k \<le> length v"
proof (induction v off labels rule: read_labels6.induct)
  case (1 v off labels)
  from "1.prems" have off: "off < length v" by (subst (asm) read_labels6.simps) (auto split: if_splits)
  with 1 show ?case by (subst (asm) (2) read_labels6.simps) (fastforce simp: Let_def split: if_splits)
qed

function search_list6 :: "byte list \<Rightarrow> nat \<Rightarrow> v6_error + gostring list" where
  "search_list6 v i =
     (if length v \<le> i then Inr []
      else bind_res (readNameUncompressed v i) (\<lambda>nk.
        bind_res (search_list6 v (snd nk)) (\<lambda>names. Inr (if fst nk = [] then names else fst nk # names))))"
  by pat_completeness auto
termination
proof (relation "measure (\<lambda>(v, i). length v - i)")
  fix v i nk
  assume "\<not> length v \<le> i" and "readNameUncompressed v i = Inr nk"
  then show "((v, snd nk), v, i) \<in> measure (\<lambda>(v, i). length v - i)"
    using read_labels6_next [of v i "[]" "fst nk" "snd nk"] by (auto simp: readNameUncompressed_def)
qed simp

declare search_list6.simps [simp del]

definition DomainSearch6 :: "OptionsV6 \<Rightarrow> v6_error + gostring list" where
  "DomainSearch6 o6 =
     bind_res (decode_each (\<lambda>v. search_list6 v 0) (All6 o6 OptV6DomainList)) (\<lambda>lists. Inr (concat lists))"

fun encode_labels6 :: "gostring list \<Rightarrow> v6_error + byte list" where
  "encode_labels6 [] = Inr []"
| "encode_labels6 (l # ls) =
     (if l = [] then Inl ErrV6Name
      else if length l > 63 then Inl ErrV6Name
      else bind_res (encode_labels6 ls) (\<lambda>rest. Inr (of_nat (length l) # l @ rest)))"

definition encodeNameUncompressed :: "gostring \<Rightarrow> v6_error + byte list" where
  "encodeNameUncompressed name =
     (let trimmed = TrimDotSuffix name in
      if trimmed = [] then Inl ErrV6Name
      else bind_res (encode_labels6 (split_dots trimmed)) (\<lambda>body.
        let out = body @ [0] in if length out > MaxNameLen then Inl ErrV6Name else Inr out))"

fun EncodeDomainSearch :: "gostring list \<Rightarrow> v6_error + byte list" where
  "EncodeDomainSearch [] = Inr []"
| "EncodeDomainSearch (n # ns) =
     bind_res (encodeNameUncompressed n) (\<lambda>enc. bind_res (EncodeDomainSearch ns) (\<lambda>rest. Inr (enc @ rest)))"

section \<open>The client's name, option 39\<close>

abbreviation (input) ClientFQDNFlagS :: byte where "ClientFQDNFlagS \<equiv> 0x01"
abbreviation (input) ClientFQDNFlagO :: byte where "ClientFQDNFlagO \<equiv> 0x02"
abbreviation (input) ClientFQDNFlagN :: byte where "ClientFQDNFlagN \<equiv> 0x04"
abbreviation (input) ClientFQDNFlagMBZ :: byte where "ClientFQDNFlagMBZ \<equiv> 0xF8"

record ClientFQDN =
  FqFlags :: byte
  FqName :: gostring

definition EncodeClientFQDN :: "byte \<Rightarrow> gostring \<Rightarrow> v6_error + byte list" where
  "EncodeClientFQDN flags name =
     (if flags AND ClientFQDNFlagO \<noteq> 0 then Inl ErrV6Encode
      else if flags AND ClientFQDNFlagN \<noteq> 0 \<and> flags AND ClientFQDNFlagS \<noteq> 0 then Inl ErrV6Encode
      else if flags AND ClientFQDNFlagMBZ \<noteq> 0 then Inl ErrV6Encode
      else let full = HasDotSuffix name; trimmed = TrimDotSuffix name in
        if full \<and> trimmed = [] then Inl ErrV6Name
        else bind_res (if trimmed = [] then Inr [] else encode_labels6 (split_dots trimmed)) (\<lambda>body.
          let out = [flags] @ body @ (if full then [0] else []) in
          if length out - 1 > MaxNameLen then Inl ErrV6Name else Inr out))"

text \<open>The loop of \<^verbatim>\<open>DecodeClientFQDN\<close>.\<close>

function fqdn_labels :: "byte list \<Rightarrow> nat \<Rightarrow> gostring list \<Rightarrow> v6_error + gostring" where
  "fqdn_labels v off labels =
     (if length v \<le> off then Inr (join_dots labels)
      else let n = v ! off in
        if n = 0 then (if off + 1 \<noteq> length v then Inl ErrV6Name else Inr (join_dots labels @ [dot]))
        else if n AND 0xC0 = 0xC0 then Inl ErrV6Name
        else if n AND 0xC0 \<noteq> 0 then Inl ErrV6Name
        else if off + 1 + unat n > length v then Inl ErrV6Name
        else let l = octets (off + 1) (unat n) v in
          if dot \<in> set l then Inl ErrV6Name
          else fqdn_labels v (off + 1 + unat n) (labels @ [l]))"
  by pat_completeness auto
termination by (relation "measure (\<lambda>(v, off, labels). length v - off)") auto

declare fqdn_labels.simps [simp del]

definition DecodeClientFQDN :: "byte list \<Rightarrow> v6_error + ClientFQDN" where
  "DecodeClientFQDN v =
     (if length v < 1 then Inl ErrV6BadOption
      else bind_res (fqdn_labels v 1 []) (\<lambda>name. Inr \<lparr>FqFlags = v ! 0, FqName = name\<rparr>))"

definition ClientFQDN_opt :: "OptionsV6 \<Rightarrow> (v6_error + ClientFQDN) option" where
  "ClientFQDN_opt o6 = map_option DecodeClientFQDN (First o6 OptV6ClientFQDN)"

section \<open>Time servers, option 56\<close>

abbreviation (input) ntpSubSrvAddr :: "16 word" where "ntpSubSrvAddr \<equiv> 1"
abbreviation (input) ntpSubMCAddr :: "16 word" where "ntpSubMCAddr \<equiv> 2"
abbreviation (input) ntpSubSrvFQDN :: "16 word" where "ntpSubSrvFQDN \<equiv> 3"

record NTPServer =
  NtpAddr :: addr
  NtpMulticast :: bool
  NtpFQDN :: gostring

text \<open>The loop over the sub-options: the record so far and the number of time sources seen.\<close>

function ntp_suboptions :: "byte list \<Rightarrow> NTPServer \<times> nat \<Rightarrow> v6_error + NTPServer \<times> nat" where
  "ntp_suboptions b acc =
     (if b = [] then Inr acc
      else if length b < 4 then Inl ErrMalformedNTP
      else let code = ube16 (octets 0 2 b); n = unat (ube16 (octets 2 2 b)) in
        if n > length b - 4 then Inl ErrMalformedNTP
        else let body = octets 4 n b; rest = drop (4 + n) b in
          if code = ntpSubSrvAddr \<or> code = ntpSubMCAddr then
            if n \<noteq> 16 then Inl ErrMalformedNTP
            else ntp_suboptions rest ((fst acc)\<lparr>NtpAddr := AddrFrom16 body, NtpMulticast := (code = ntpSubMCAddr)\<rparr>, snd acc + 1)
          else if code = ntpSubSrvFQDN then
            (case readNameUncompressed body 0 of
               Inl e \<Rightarrow> Inl ErrMalformedNTP
             | Inr (name, k) \<Rightarrow>
                 if name = [] \<or> k \<noteq> n then Inl ErrMalformedNTP
                 else ntp_suboptions rest ((fst acc)\<lparr>NtpFQDN := name\<rparr>, snd acc + 1))
          else ntp_suboptions rest acc)"
  by pat_completeness auto
termination by (relation "measure (\<lambda>(b, acc). length b)") auto

declare ntp_suboptions.simps [simp del]

definition readNTPServer :: "byte list \<Rightarrow> v6_error + NTPServer option" where
  "readNTPServer v = bind_res (ntp_suboptions v (\<lparr>NtpAddr = NoAddr, NtpMulticast = False, NtpFQDN = []\<rparr>, 0)) (\<lambda>acc.
     if snd acc > 1 then Inl ErrMalformedNTP else Inr (if snd acc = 1 then Some (fst acc) else None))"

definition NTPServers :: "OptionsV6 \<Rightarrow> v6_error + NTPServer list" where
  "NTPServers o6 = bind_res (decode_each readNTPServer (All6 o6 OptV6NTPServer)) (\<lambda>rs. Inr (map the (filter (\<lambda>r. r \<noteq> None) rs)))"

section \<open>DUIDs\<close>

abbreviation (input) DUIDTypeLL :: "16 word" where "DUIDTypeLL \<equiv> 3"
abbreviation (input) DUIDTypeUUID :: "16 word" where "DUIDTypeUUID \<equiv> 4"
abbreviation (input) UUIDLen :: nat where "UUIDLen \<equiv> 16"

definition DUIDLL :: "16 word \<Rightarrow> byte list \<Rightarrow> v6_error + byte list" where
  "DUIDLL hwType lladdr = (if lladdr = [] then Inl ErrDUID else Inr (be16 DUIDTypeLL @ be16 hwType @ lladdr))"

definition DUIDUUID :: "byte list \<Rightarrow> v6_error + byte list" where
  "DUIDUUID uuid = (if length uuid \<noteq> UUIDLen then Inl ErrDUID else Inr (be16 DUIDTypeUUID @ uuid))"

end
