(* ===== verification/Wire_V6_Properties.thy ===== *)
theory Wire_V6_Properties
  imports Wire_V6
begin

text \<open>
  What the DHCPv6 codec promises: messages, options and identity associations are determined
  by their octets and the octets by them; names are read back as they were written and a
  compression pointer is never followed.
\<close>

section \<open>Options\<close>

abbreviation fits_option :: "OptionV6 \<Rightarrow> bool" where
  "fits_option opt \<equiv> length (Data6 opt) < 65536"

lemma be16_ube16_octets: "i + 2 \<le> length b \<Longrightarrow> be16 (ube16 (octets i 2 b)) = octets i 2 b"
proof -
  assume "i + 2 \<le> length b"
  then have "length (octets i 2 b) = 2" by (simp add: length_octets)
  then obtain x y where "octets i 2 b = [x, y]" by (auto simp: numeral_eq_Suc length_Suc_conv)
  then show ?thesis by (simp add: be16_ube16)
qed

lemma unat_length16: "n < 65536 \<Longrightarrow> unat (of_nat n :: 16 word) = n"
  by (simp add: unat_of_nat take_bit_eq_mod)

lemma unat_16_less [simp]: "unat (w :: 16 word) < 65536"
  using unsigned_less [of w] by simp

lemma read_option6_iff:
  "read_option6 b = Inr (x, r) \<longleftrightarrow> fits_option x \<and> b = encode_option6 x @ r"
proof
  assume "read_option6 b = Inr (x, r)"
  then have len: "4 \<le> length b" "unat (ube16 (octets 2 2 b)) \<le> length b - 4"
    and x: "x = \<lparr>Code6 = ube16 (octets 0 2 b), Data6 = octets 4 (unat (ube16 (octets 2 2 b))) b\<rparr>"
    and r: "r = drop (4 + unat (ube16 (octets 2 2 b))) b"
    by (auto simp: read_option6_def Let_def split: if_splits)
  have n: "length (Data6 x) = unat (ube16 (octets 2 2 b))" using len by (simp add: x length_octets)
  have "take 4 b = octets 0 2 b @ octets 2 2 b" using take_add [of 2 2 b] by (simp add: octets_def)
  then have "b = octets 0 2 b @ octets 2 2 b @ octets 4 (unat (ube16 (octets 2 2 b))) b @ drop (4 + unat (ube16 (octets 2 2 b))) b"
    using octets_split [of 4 b "unat (ube16 (octets 2 2 b))"] by simp
  then show "fits_option x \<and> b = encode_option6 x @ r"
    using n len by (simp add: encode_option6_def x r be16_ube16_octets)
next
  assume "fits_option x \<and> b = encode_option6 x @ r"
  then show "read_option6 b = Inr (x, r)"
    by (simp add: read_option6_def encode_option6_def octets_append_skip octets_append_take unat_length16)
qed

interpretation o6: item_list encode_option6 read_option6 ParseOptionsV6 fits_option
proof (unfold_locales, goal_cases)
  case 1
  show ?case by (simp add: ParseOptionsV6.simps)
next
  case (2 b)
  then show ?case by (simp add: ParseOptionsV6.simps [of b] split_def)
qed (simp_all add: read_option6_iff encode_option6_def)

lemma EncodeOptionsV6_iff: "EncodeOptionsV6 opts = Inr b \<longleftrightarrow> list_all fits_option opts \<and> b = concat (map encode_option6 opts)"
  by (induction opts arbitrary: b) (auto simp: bind_res_eq_Inr)

lemma options6_exact: "ParseOptionsV6 b = Inr opts \<longleftrightarrow> EncodeOptionsV6 opts = Inr b"
  by (simp add: o6.decode_iff EncodeOptionsV6_iff)

section \<open>Messages\<close>

lemma xid6_octets:
  fixes a b c :: byte
  defines "x \<equiv> push_bit 16 (ucast a) OR push_bit 8 (ucast b) OR ucast c :: 32 word"
  shows "x < MaxXID6" "ucast (drop_bit 16 x) = a" "ucast (drop_bit 8 x) = b" "ucast x = c"
proof -
  have "x = take_bit 24 x" by (rule bit_word_eqI) (auto simp: x_def bit_simps)
  then have "unat x = take_bit 24 (unat x)" by (metis unsigned_take_bit_eq)
  also have "\<dots> < 2 ^ 24" by (rule take_bit_nat_less_exp)
  finally show "x < MaxXID6" by (simp add: word_less_nat_alt)
qed (auto simp: x_def bit_simps intro!: bit_word_eqI)

lemma xid6_value:
  fixes x :: "32 word"
  assumes "x < MaxXID6"
  shows "push_bit 16 (ucast (ucast (drop_bit 16 x) :: byte)) OR push_bit 8 (ucast (ucast (drop_bit 8 x) :: byte))
    OR ucast (ucast x :: byte) = x" (is "?l = x")
proof (rule bit_word_eqI)
  fix n assume "n < LENGTH(32)"
  have "unat (take_bit 24 x) = unat x" using assms by (simp add: unsigned_take_bit_eq word_less_nat_alt take_bit_nat_eq_self)
  then have "take_bit 24 x = x" by (rule unsigned_word_eqI)
  then have "\<not> bit x n" if "24 \<le> n" using that bit_take_bit_iff [of 24 x n] by (metis not_less)
  with \<open>n < LENGTH(32)\<close> show "bit ?l n = bit x n"
    by (cases "n < 8"; cases "n < 16"; cases "n < 24") (auto simp: bit_simps)
qed

lemma DecodeV6_iff: "DecodeV6 b = Inr m \<longleftrightarrow> ForClient (Type6 m) \<and> EncodeV6 (Some m) = Inr b"
proof
  assume dec: "DecodeV6 b = Inr m"
  then obtain t x y z body where b: "b = [t, x, y, z] @ body"
    by (cases b; cases "tl b"; cases "tl (tl b)"; cases "tl (tl (tl b))") (auto simp: DecodeV6_def)
  from dec obtain opts where "ForClient t" "ParseOptionsV6 body = Inr opts"
    "m = \<lparr>Type6 = t, XID6 = push_bit 16 (ucast x) OR push_bit 8 (ucast y) OR ucast z, Options6 = opts\<rparr>"
    by (auto simp: DecodeV6_def b bind_res_eq_Inr split: if_splits)
  with xid6_octets [where a = x and b = y and c = z] show "ForClient (Type6 m) \<and> EncodeV6 (Some m) = Inr b"
    by (auto simp: EncodeV6_def options6_exact b not_le)
next
  assume enc: "ForClient (Type6 m) \<and> EncodeV6 (Some m) = Inr b"
  then obtain body where "XID6 m < MaxXID6" "EncodeOptionsV6 (Options6 m) = Inr body"
    "b = [Type6 m, ucast (drop_bit 16 (XID6 m)), ucast (drop_bit 8 (XID6 m)), ucast (XID6 m)] @ body"
    by (auto simp: EncodeV6_def bind_res_eq_Inr not_le split: if_splits)
  with enc show "DecodeV6 b = Inr m"
    by (simp add: DecodeV6_def flip: options6_exact) (simp add: xid6_value)
qed


section \<open>Values made of a fixed head and an options area\<close>

text \<open>
  A writer and a reader of a value that determine each other, up to the values the writer
  refuses (\<open>ok\<close>) and the values the reader can produce (\<open>wf\<close>); the client reads whole lists of
  instances.
\<close>

locale value_codec =
  fixes enc :: "'a \<Rightarrow> 'e + byte list"
    and dec :: "byte list \<Rightarrow> 'e + 'a"
    and wf :: "'a \<Rightarrow> bool"
    and ok :: "'a \<Rightarrow> bool"
  assumes exact: "wf x \<Longrightarrow> enc x = Inr v \<longleftrightarrow> dec v = Inr x \<and> ok x"
    and dec_wf: "dec v = Inr x \<Longrightarrow> wf x"
begin

lemma enc_inj: "wf x \<Longrightarrow> wf y \<Longrightarrow> enc x = Inr v \<Longrightarrow> enc y = Inr v \<Longrightarrow> x = y"
  by (simp add: exact)

lemma each: "decode_each dec vs = Inr xs \<longleftrightarrow> list_all2 (\<lambda>v x. dec v = Inr x) vs xs"
  by (induction vs arbitrary: xs) (auto simp: bind_res_eq_Inr list_all2_Cons1)

lemma each_written: "list_all2 (\<lambda>x v. wf x \<and> enc x = Inr v) xs vs \<Longrightarrow> decode_each dec vs = Inr xs"
  by (induction rule: list_all2_induct) (auto simp: exact)

end

lemma octets_be32 [simp]: "octets 0 4 (be32 w @ r) = be32 w"
  by (simp add: octets_append_take)

lemma length4E: "4 \<le> length b \<Longrightarrow> \<exists>w r. b = be32 w @ r"
  by (metis append_take_drop_id be32_ube32_length length_take min.absorb2)

lemma length16E: "16 \<le> length b \<Longrightarrow> \<exists>w r. b = be128 w @ r"
  by (metis append_take_drop_id be128_ube128_length length_take min.absorb2)


text \<open>The three identity associations: words of 32 bits and the options area.\<close>

lemma DecodeIANA_iff: "DecodeIANA v = Inr ia \<longleftrightarrow> EncodeIANA ia = Inr v"
proof
  assume dec: "DecodeIANA v = Inr ia"
  then have "12 \<le> length v" by (auto simp: DecodeIANA_def split: if_splits)
  then obtain x r where v: "v = be32 x @ r" "8 \<le> length r" using length4E [of v] by auto
  then obtain y r2 where r: "r = be32 y @ r2" "4 \<le> length r2" using length4E [of r] by auto
  then obtain z body where "r2 = be32 z @ body" using length4E [of r2] by auto
  with v r dec show "EncodeIANA ia = Inr v"
    by (auto simp: DecodeIANA_def EncodeIANA_def octets_append_skip bind_res_eq_Inr options6_exact)
next
  assume "EncodeIANA ia = Inr v"
  then show "DecodeIANA v = Inr ia"
    by (auto simp: DecodeIANA_def EncodeIANA_def octets_append_skip bind_res_eq_Inr simp flip: options6_exact)
qed

lemma DecodeIAPD_iff: "DecodeIAPD v = Inr ia \<longleftrightarrow> EncodeIAPD ia = Inr v"
proof
  assume dec: "DecodeIAPD v = Inr ia"
  then have "12 \<le> length v" by (auto simp: DecodeIAPD_def split: if_splits)
  then obtain x r where v: "v = be32 x @ r" "8 \<le> length r" using length4E [of v] by auto
  then obtain y r2 where r: "r = be32 y @ r2" "4 \<le> length r2" using length4E [of r] by auto
  then obtain z body where "r2 = be32 z @ body" using length4E [of r2] by auto
  with v r dec show "EncodeIAPD ia = Inr v"
    by (auto simp: DecodeIAPD_def EncodeIAPD_def octets_append_skip bind_res_eq_Inr options6_exact)
next
  assume "EncodeIAPD ia = Inr v"
  then show "DecodeIAPD v = Inr ia"
    by (auto simp: DecodeIAPD_def EncodeIAPD_def octets_append_skip bind_res_eq_Inr simp flip: options6_exact)
qed

lemma DecodeIATA_iff: "DecodeIATA v = Inr ia \<longleftrightarrow> EncodeIATA ia = Inr v"
proof
  assume dec: "DecodeIATA v = Inr ia"
  then have "4 \<le> length v" by (auto simp: DecodeIATA_def split: if_splits)
  with dec length4E [of v] show "EncodeIATA ia = Inr v"
    by (auto simp: DecodeIATA_def EncodeIATA_def bind_res_eq_Inr options6_exact)
next
  assume "EncodeIATA ia = Inr v"
  then show "DecodeIATA v = Inr ia"
    by (auto simp: DecodeIATA_def EncodeIATA_def bind_res_eq_Inr simp flip: options6_exact)
qed

lemma DecodeIAAddr_iff: "EncodeIAAddr a = Inr v \<longleftrightarrow> DecodeIAAddr v = Inr a \<and> \<not> Is4In6 (iaAddr a)"
proof
  assume dec: "DecodeIAAddr v = Inr a \<and> \<not> Is4In6 (iaAddr a)"
  then have "24 \<le> length v" by (auto simp: DecodeIAAddr_def split: if_splits)
  then obtain x r where v: "v = be128 x @ r" "8 \<le> length r" using length16E [of v] by auto
  then obtain y r2 where r: "r = be32 y @ r2" "4 \<le> length r2" using length4E [of r] by auto
  then obtain z body where "r2 = be32 z @ body" using length4E [of r2] by auto
  with v r dec show "EncodeIAAddr a = Inr v"
    by (auto simp: DecodeIAAddr_def EncodeIAAddr_def octets_append_skip octets_append_take bind_res_eq_Inr options6_exact)
next
  assume "EncodeIAAddr a = Inr v"
  then show "DecodeIAAddr v = Inr a \<and> \<not> Is4In6 (iaAddr a)"
    by (cases "iaAddr a") (auto simp: DecodeIAAddr_def EncodeIAAddr_def octets_append_skip octets_append_take bind_res_eq_Inr
        split: if_splits simp flip: options6_exact)
qed

text \<open>A prefix a \<^verbatim>\<open>netip.Prefix\<close> can be has at most the bits of its address.\<close>

definition prefix6_wf :: "IAPrefix \<Rightarrow> bool" where
  "prefix6_wf p \<longleftrightarrow> pbits (ipPrefix p) \<le> BitLen (paddr (ipPrefix p))"

lemma DecodeIAPrefix_wf: "DecodeIAPrefix v = Inr p \<Longrightarrow> prefix6_wf p \<and> Is6 (paddr (ipPrefix p)) \<and> PrefixIsValid (ipPrefix p)"
  by (auto simp: DecodeIAPrefix_def prefix6_wf_def PrefixFrom_def AddrFrom16_def PrefixIsValid_def bind_res_eq_Inr
      word_le_def not_less split: if_splits)

lemma DecodeIAPrefix_iff:
  assumes "prefix6_wf p"
  shows "EncodeIAPrefix p = Inr v \<longleftrightarrow> DecodeIAPrefix v = Inr p \<and> \<not> Is4In6 (paddr (ipPrefix p))"
proof
  assume dec: "DecodeIAPrefix v = Inr p \<and> \<not> Is4In6 (paddr (ipPrefix p))"
  then have "25 \<le> length v" by (auto simp: DecodeIAPrefix_def split: if_splits)
  then obtain x r where v: "v = be32 x @ r" "21 \<le> length r" using length4E [of v] by auto
  then obtain y r2 where r: "r = be32 y @ r2" "17 \<le> length r2" using length4E [of r] by auto
  then obtain n r3 where r2: "r2 = n # r3" "16 \<le> length r3" by (cases r2) auto
  then obtain w body where "r3 = be128 w @ body" using length16E [of r3] by auto
  with v r r2 dec DecodeIAPrefix_wf [of v p] show "EncodeIAPrefix p = Inr v"
    by (auto simp: DecodeIAPrefix_def EncodeIAPrefix_def octets_append_skip octets_append_take octets_Cons_skip
        nth_append bind_res_eq_Inr options6_exact PrefixFrom_def word_le_def not_less split: if_splits)
next
  assume enc: "EncodeIAPrefix p = Inr v"
  then obtain w where w: "paddr (ipPrefix p) = Addr6 w" by (cases "paddr (ipPrefix p)") (auto simp: EncodeIAPrefix_def)
  then have n: "0 \<le> pbits (ipPrefix p)" "pbits (ipPrefix p) \<le> 128"
    using enc assms by (auto simp: EncodeIAPrefix_def prefix6_wf_def PrefixIsValid_def split: if_splits)
  then have "uint (word_of_int (pbits (ipPrefix p)) :: byte) = pbits (ipPrefix p)"
    by (simp add: unsigned_of_int take_bit_int_eq_self)
  moreover from this have "\<not> 128 < (word_of_int (pbits (ipPrefix p)) :: byte)" using n by (simp add: word_less_def)
  ultimately show "DecodeIAPrefix v = Inr p \<and> \<not> Is4In6 (paddr (ipPrefix p))"
    using enc w n
    by (auto simp: DecodeIAPrefix_def EncodeIAPrefix_def octets_append_skip octets_append_take octets_Cons_skip
        nth_append bind_res_eq_Inr PrefixFrom_def split: if_splits simp flip: options6_exact)
qed

interpretation na: value_codec EncodeIANA DecodeIANA "\<lambda>_. True" "\<lambda>_. True"
  by unfold_locales (simp_all add: DecodeIANA_iff)

interpretation ta: value_codec EncodeIATA DecodeIATA "\<lambda>_. True" "\<lambda>_. True"
  by unfold_locales (simp_all add: DecodeIATA_iff)

interpretation pd: value_codec EncodeIAPD DecodeIAPD "\<lambda>_. True" "\<lambda>_. True"
  by unfold_locales (simp_all add: DecodeIAPD_iff)

interpretation ia: value_codec EncodeIAAddr DecodeIAAddr "\<lambda>_. True" "\<lambda>a. \<not> Is4In6 (iaAddr a)"
  by unfold_locales (simp_all add: DecodeIAAddr_iff)

interpretation ip: value_codec EncodeIAPrefix DecodeIAPrefix prefix6_wf "\<lambda>p. \<not> Is4In6 (paddr (ipPrefix p))"
  by unfold_locales (simp_all add: DecodeIAPrefix_iff DecodeIAPrefix_wf)


section \<open>Names\<close>

lemma label_octets:
  fixes v :: "byte list"
  assumes "0 < length l" "length l \<le> 63" "v = pre @ of_nat (length l) # l @ post"
  shows "v ! length pre \<noteq> 0" "v ! length pre AND 0xC0 = 0" "unat (v ! length pre) = length l"
    "octets (length pre + 1) (length l) v = l" "length pre + 1 + length l \<le> length v"
  using label_octet [OF assms(1,2)] by (simp_all add: assms(3) octets_def)

lemma read_labels6_encoded:
  "encode_labels6 ls = Inr b \<Longrightarrow>
   read_labels6 (pre @ b @ 0 # post) (length pre) acc = Inr (join_dots (acc @ ls), length pre + length b + 1)"
proof (induction ls arbitrary: b pre acc)
  case Nil
  then show ?case by (subst read_labels6.simps) simp
next
  case (Cons l ls)
  then obtain rest where rest: "encode_labels6 ls = Inr rest"
    and l: "0 < length l" "length l \<le> 63" and b: "b = of_nat (length l) # l @ rest"
    by (auto simp: bind_res_eq_Inr split: if_splits)
  let ?pre = "pre @ of_nat (length l) # l"
  have "read_labels6 (?pre @ rest @ 0 # post) (length ?pre) (acc @ [l])
      = Inr (join_dots ((acc @ [l]) @ ls), length ?pre + length rest + 1)"
    using Cons.IH [OF rest] .
  moreover have "pre @ b @ 0 # post = pre @ of_nat (length l) # l @ rest @ 0 # post" by (simp add: b)
  note f = label_octets [OF l this]
  ultimately show ?case using f by (subst read_labels6.simps) (simp add: Let_def b)
qed

lemma search_list6_encoded:
  "EncodeDomainSearch names = Inr b \<Longrightarrow> search_list6 (pre @ b) (length pre) = Inr (map TrimDotSuffix names)"
proof (induction names arbitrary: b pre)
  case Nil
  then show ?case by (simp add: search_list6.simps)
next
  case (Cons n names)
  then obtain body rest where e: "TrimDotSuffix n \<noteq> []" "encode_labels6 (split_dots (TrimDotSuffix n)) = Inr body"
    "EncodeDomainSearch names = Inr rest" "b = (body @ [0]) @ rest"
    by (auto simp: encodeNameUncompressed_def bind_res_eq_Inr Let_def split: if_splits)
  have "readNameUncompressed (pre @ b) (length pre) = Inr (TrimDotSuffix n, length (pre @ body @ [0]))"
    using read_labels6_encoded [OF e(2), of pre rest "[]"] by (simp add: readNameUncompressed_def e(4) join_split_dots)
  moreover have "search_list6 ((pre @ body @ [0]) @ rest) (length (pre @ body @ [0])) = Inr (map TrimDotSuffix names)"
    using Cons.IH [OF e(3)] .
  ultimately show ?case using e(1) by (subst search_list6.simps) (simp add: e(4))
qed

text \<open>
  The search lists a server sends are the lists the client reads: for every instance of option 24
  written by \<^verbatim>\<open>EncodeDomainSearch\<close>, \<^verbatim>\<open>DomainSearch\<close> gives its names, final dots dropped, in wire order.
\<close>

theorem domain_search6_roundtrip:
  assumes "list_all2 (\<lambda>ns v. EncodeDomainSearch ns = Inr v) nss (All6 opts OptV6DomainList)"
  shows "DomainSearch6 opts = Inr (map TrimDotSuffix (concat nss))"
proof -
  have "decode_each (\<lambda>v. search_list6 v 0) vs = Inr (map (map TrimDotSuffix) nss)"
    if "list_all2 (\<lambda>ns v. EncodeDomainSearch ns = Inr v) nss vs" for nss vs
    using that by (induction rule: list_all2_induct) (use search_list6_encoded [of _ _ "[]"] in auto)
  from this [OF assms] show ?thesis by (simp add: DomainSearch6_def map_concat)
qed

theorem domain_search6_roundtrip_witness:
  "DomainSearch6 [\<lparr>Code6 = OptV6DomainList, Data6 = [1, 97, 1, 98, 0, 1, 99, 0]\<rparr>] = Inr [[97, 46, 98], [99]]"
proof -
  have "EncodeDomainSearch [[97, 46, 98, 46], [99]] = Inr [1, 97, 1, 98, 0, 1, 99, 0]"
    by (simp add: encodeNameUncompressed_def TrimDotSuffix_def HasDotSuffix_def)
  then have "list_all2 (\<lambda>ns v. EncodeDomainSearch ns = Inr v) [[[97, 46, 98, 46], [99]]]
      (All6 [\<lparr>Code6 = OptV6DomainList, Data6 = [1, 97, 1, 98, 0, 1, 99, 0]\<rparr>] OptV6DomainList)"
    by (simp add: All6_def)
  from domain_search6_roundtrip [OF this] show ?thesis by (simp add: TrimDotSuffix_def HasDotSuffix_def)
qed

section \<open>The client's name\<close>

lemma split_dots_no_dot: "l \<in> set (split_dots s) \<Longrightarrow> dot \<notin> set l"
  by (induction s arbitrary: l) (auto split: list.splits if_splits)

lemma split_dots_append: "dot \<notin> set l \<Longrightarrow> split_dots (l @ dot # s) = l # split_dots s"
  by (induction l) auto

lemma split_dots_single: "dot \<notin> set l \<Longrightarrow> split_dots l = [l]"
  by (induction l) auto

lemma split_join_dots: "ls \<noteq> [] \<Longrightarrow> (\<And>l. l \<in> set ls \<Longrightarrow> dot \<notin> set l) \<Longrightarrow> split_dots (join_dots ls) = ls"
  by (induction ls rule: join_dots.induct) (simp_all add: split_dots_single split_dots_append)

definition labels_ok :: "gostring list \<Rightarrow> bool" where
  "labels_ok ls \<longleftrightarrow> list_all (\<lambda>l. l \<noteq> [] \<and> length l \<le> 63 \<and> dot \<notin> set l) ls"

lemma encode_labels6_iff:
  "encode_labels6 ls = Inr b \<longleftrightarrow> list_all (\<lambda>l. l \<noteq> [] \<and> length l \<le> 63) ls
     \<and> b = concat (map (\<lambda>l. of_nat (length l) # l) ls)"
  by (induction ls arbitrary: b) (auto simp: bind_res_eq_Inr)

lemma fqdn_labels_encoded:
  "labels_ok ls \<Longrightarrow> encode_labels6 ls = Inr b \<Longrightarrow>
   fqdn_labels (pre @ b @ post) (length pre) acc = fqdn_labels (pre @ b @ post) (length pre + length b) (acc @ ls)"
proof (induction ls arbitrary: b pre acc)
  case (Cons l ls)
  then obtain rest where rest: "encode_labels6 ls = Inr rest"
    and l: "0 < length l" "length l \<le> 63" and b: "b = of_nat (length l) # l @ rest"
    by (auto simp: bind_res_eq_Inr split: if_splits)
  let ?pre = "pre @ of_nat (length l) # l"
  have ok: "labels_ok ls" "dot \<notin> set l" using Cons.prems(1) by (simp_all add: labels_ok_def)
  have "fqdn_labels (?pre @ rest @ post) (length ?pre) (acc @ [l])
      = fqdn_labels (?pre @ rest @ post) (length ?pre + length rest) ((acc @ [l]) @ ls)"
    using Cons.IH [OF ok(1) rest] .
  moreover have "pre @ b @ post = pre @ of_nat (length l) # l @ rest @ post" by (simp add: b)
  note f = label_octets [OF l this]
  ultimately show ?case using f ok(2) by (subst fqdn_labels.simps) (simp add: Let_def b add.assoc)
qed simp

text \<open>What the loop accepts: labels, then the end or a root label that is the end.\<close>

lemma high_bits: "n AND 0xC0 = 0 \<Longrightarrow> unat (n :: byte) \<le> 63"
proof -
  assume "n AND 0xC0 = 0"
  then have "\<not> bit n k" if "6 \<le> k" for k
    using that bit_and_iff [of n "0xC0" k] by (cases "k = 6"; cases "k = 7") (auto simp: bit_simps dest: bit_imp_le_length)
  then have "n = take_bit 6 n" by (intro bit_word_eqI) (auto simp: bit_simps, metis not_less)
  then have "unat n = take_bit 6 (unat n)" by (metis unsigned_take_bit_eq)
  also have "\<dots> < 2 ^ 6" by (rule take_bit_nat_less_exp)
  finally show ?thesis by simp
qed

lemma fqdn_labels_accepts:
  "fqdn_labels v off acc = Inr name \<Longrightarrow> off \<le> length v \<Longrightarrow>
   \<exists>ls b. labels_ok ls \<and> encode_labels6 ls = Inr b \<and>
     (drop off v = b \<and> name = join_dots (acc @ ls) \<or> drop off v = b @ [0] \<and> name = join_dots (acc @ ls) @ [dot])"
proof (induction v off acc rule: fqdn_labels.induct)
  case (1 v off acc)
  let ?n = "v ! off" and ?l = "octets (off + 1) (unat (v ! off)) v"
  note res = "1.prems"(1) [unfolded fqdn_labels.simps [of v off acc]]
  consider (stop) "length v \<le> off" | (root) "off < length v" "?n = 0"
    | (label) "off < length v" "?n \<noteq> 0" "?n AND 0xC0 = 0" "off + 1 + unat ?n \<le> length v" "dot \<notin> set ?l"
        "fqdn_labels v (off + 1 + unat ?n) (acc @ [?l]) = Inr name"
    using res by (auto simp: Let_def split: if_splits)
  then show ?case
  proof cases
    case stop
    with res "1.prems"(2) show ?thesis by (intro exI [of _ "[]"]) (auto simp: labels_ok_def)
  next
    case root
    with res have "off + 1 = length v" "name = join_dots acc @ [dot]" by (auto split: if_splits)
    with root show ?thesis
      by (intro exI [of _ "[]"]) (auto simp: labels_ok_def Cons_nth_drop_Suc [symmetric])
  next
    case label
    have len: "length ?l = unat ?n" using label(4) by (simp add: length_octets)
    have n: "?l \<noteq> []" "length ?l \<le> 63" "of_nat (length ?l) = ?n"
      using label(2) high_bits [OF label(3)] len by (auto simp: unat_eq_zero)
    have "drop off v = ?n # drop (off + 1) v" using label(1) by (simp add: Cons_nth_drop_Suc)
    also have "drop (off + 1) v = ?l @ drop (off + 1 + unat ?n) v"
      using append_take_drop_id [of "unat ?n" "drop (off + 1) v"] by (simp add: octets_def ac_simps)
    finally have d: "drop off v = of_nat (length ?l) # ?l @ drop (off + 1 + unat ?n) v" by (simp only: n(3))
    have "\<not> length v \<le> off" "\<not> ?n AND 0xC0 = 0xC0" "\<not> ?n AND 0xC0 \<noteq> 0" "\<not> length v < off + 1 + unat ?n" using label by auto
    from "1.IH" [OF this(1) refl label(2) this(2-4) refl label(5,6)] label(4) obtain ls b where
      ls: "labels_ok ls" "encode_labels6 ls = Inr b"
      "drop (off + 1 + unat ?n) v = b \<and> name = join_dots ((acc @ [?l]) @ ls)
        \<or> drop (off + 1 + unat ?n) v = b @ [0] \<and> name = join_dots ((acc @ [?l]) @ ls) @ [dot]" by blast
    have "labels_ok (?l # ls)" using ls(1) n label(5) by (simp add: labels_ok_def)
    moreover have "encode_labels6 (?l # ls) = Inr (of_nat (length ?l) # ?l @ b)" using ls(2) n by simp
    ultimately show ?thesis using ls(3) d by (intro exI [of _ "?l # ls"] exI [of _ "of_nat (length ?l) # ?l @ b"]) auto
  qed
qed


lemma TrimDotSuffix_split: "s = (if HasDotSuffix s then TrimDotSuffix s @ [dot] else TrimDotSuffix s)"
proof (cases "HasDotSuffix s")
  case True
  then have "butlast s @ [dot] = s" unfolding HasDotSuffix_def by (metis append_butlast_last_id)
  with True show ?thesis by (simp add: TrimDotSuffix_def)
qed (simp add: TrimDotSuffix_def)

lemma encode_split_labels:
  "encode_labels6 (split_dots s) = Inr b \<Longrightarrow> labels_ok (split_dots s)"
  using split_dots_no_dot by (auto simp: encode_labels6_iff labels_ok_def list_all_iff)

definition fqdn_flags_ok :: "byte \<Rightarrow> bool" where
  "fqdn_flags_ok fl \<longleftrightarrow> fl AND ClientFQDNFlagO = 0 \<and> fl AND ClientFQDNFlagMBZ = 0
     \<and> \<not> (fl AND ClientFQDNFlagN \<noteq> 0 \<and> fl AND ClientFQDNFlagS \<noteq> 0)"

lemma join_labels_last:
  "labels_ok ls \<Longrightarrow> \<not> HasDotSuffix (join_dots ls) \<and> (join_dots ls = [] \<longrightarrow> ls = [])"
proof (induction ls rule: join_dots.induct)
  case (2 l)
  then have "l \<noteq> []" "dot \<notin> set l" by (simp_all add: labels_ok_def)
  then have "last l \<noteq> dot" using last_in_set [of l] by metis
  with 2 show ?case by (simp add: labels_ok_def HasDotSuffix_def)
next
  case (3 l l' ls)
  then have "join_dots (l' # ls) \<noteq> []" by (auto simp: labels_ok_def)
  with 3 show ?case by (auto simp: labels_ok_def HasDotSuffix_def)
qed (simp add: HasDotSuffix_def)

text \<open>
  Option 39 says the name that was put in: \<^verbatim>\<open>DecodeClientFQDN\<close> reads back the flags and the name,
  full or partial, that \<^verbatim>\<open>EncodeClientFQDN\<close> wrote, and the encoder writes every value the decoder
  accepts but those a client may not send: reserved flags, the root alone, and names above 255 octets.
\<close>

theorem client_fqdn_exact:
  "EncodeClientFQDN fl name = Inr b \<longleftrightarrow> DecodeClientFQDN b = Inr \<lparr>FqFlags = fl, FqName = name\<rparr>
     \<and> fqdn_flags_ok fl \<and> name \<noteq> [dot] \<and> length b \<le> MaxNameLen + 1"
proof
  assume enc: "EncodeClientFQDN fl name = Inr b"
  let ?t = "TrimDotSuffix name"
  obtain ls body where ls: "labels_ok ls" "encode_labels6 ls = Inr body" "join_dots ls = ?t"
    and b: "b = [fl] @ body @ (if HasDotSuffix name then [0] else [])"
  proof (cases "?t = []")
    case True
    with enc that [of "[]" "[]"] show ?thesis
      by (auto simp: EncodeClientFQDN_def Let_def labels_ok_def split: if_splits)
  next
    case False
    with enc obtain body where "encode_labels6 (split_dots ?t) = Inr body"
      "b = [fl] @ body @ (if HasDotSuffix name then [0] else [])"
      by (auto simp: EncodeClientFQDN_def Let_def bind_res_eq_Inr split: if_splits)
    then show ?thesis using that encode_split_labels join_split_dots by blast
  qed
  have ok: "fqdn_flags_ok fl" "name \<noteq> [dot]" "length b \<le> MaxNameLen + 1"
    using enc by (auto simp: EncodeClientFQDN_def fqdn_flags_ok_def Let_def bind_res_eq_Inr HasDotSuffix_def TrimDotSuffix_def
        split: if_splits)
  have "fqdn_labels b 1 [] = Inr name"
    using fqdn_labels_encoded [OF ls(1,2), of "[fl]" "if HasDotSuffix name then [0] else []" "[]"]
      ls(3) TrimDotSuffix_split [of name]
    by (auto simp: b fqdn_labels.simps split: if_splits)
  with ok show "DecodeClientFQDN b = Inr \<lparr>FqFlags = fl, FqName = name\<rparr> \<and> fqdn_flags_ok fl \<and> name \<noteq> [dot]
      \<and> length b \<le> MaxNameLen + 1"
    by (simp add: DecodeClientFQDN_def b)
next
  assume dec: "DecodeClientFQDN b = Inr \<lparr>FqFlags = fl, FqName = name\<rparr> \<and> fqdn_flags_ok fl \<and> name \<noteq> [dot]
      \<and> length b \<le> MaxNameLen + 1"
  then obtain v where b: "b = fl # v" "fqdn_labels b 1 [] = Inr name"
    by (cases b) (auto simp: DecodeClientFQDN_def bind_res_eq_Inr)
  from fqdn_labels_accepts [OF b(2)] obtain ls body where ls: "labels_ok ls" "encode_labels6 ls = Inr body"
    "v = body \<and> name = join_dots ls \<or> v = body @ [0] \<and> name = join_dots ls @ [dot]" by (auto simp: b(1))
  have sp: "ls \<noteq> [] \<Longrightarrow> split_dots (join_dots ls) = ls"
    by (rule split_join_dots) (use ls(1) in \<open>auto simp: labels_ok_def list_all_iff\<close>)
  note j = join_labels_last [OF ls(1)]
  from ls(3) show "EncodeClientFQDN fl name = Inr b"
  proof
    assume "v = body \<and> name = join_dots ls"
    with j sp ls(2) dec b(1) show ?thesis
      by (cases "ls = []") (auto simp: EncodeClientFQDN_def fqdn_flags_ok_def TrimDotSuffix_def Let_def)
  next
    assume v: "v = body @ [0] \<and> name = join_dots ls @ [dot]"
    then have "ls \<noteq> []" using dec by auto
    moreover have "HasDotSuffix name" "TrimDotSuffix name = join_dots ls" using v by (simp_all add: HasDotSuffix_def TrimDotSuffix_def)
    ultimately show ?thesis
      using v j sp ls(2) dec b(1) by (auto simp: EncodeClientFQDN_def fqdn_flags_ok_def Let_def)
  qed
qed

section \<open>Time servers\<close>

definition one_source :: "NTPServer \<Rightarrow> bool" where
  "one_source r \<longleftrightarrow> (Is6 (NtpAddr r) \<and> NtpFQDN r = []) \<or> (NtpAddr r = NoAddr \<and> \<not> NtpMulticast r \<and> NtpFQDN r \<noteq> [])"

lemma ntp_suboptions_source:
  "ntp_suboptions b acc = Inr acc' \<Longrightarrow>
   snd acc \<le> snd acc' \<and> (snd acc' = snd acc \<longrightarrow> fst acc' = fst acc)
   \<and> (snd acc' = snd acc + 1 \<longrightarrow> (\<exists>w mc. fst acc' = (fst acc)\<lparr>NtpAddr := Addr6 w, NtpMulticast := mc\<rparr>)
        \<or> (\<exists>s. s \<noteq> [] \<and> fst acc' = (fst acc)\<lparr>NtpFQDN := s\<rparr>))"
proof (induction b acc rule: ntp_suboptions.induct)
  case (1 b acc)
  let ?code = "ube16 (octets 0 2 b)" and ?n = "unat (ube16 (octets 2 2 b))"
  let ?body = "octets 4 ?n b" and ?rest = "drop (4 + ?n) b"
  show ?case
  proof (cases "b = []")
    case True
    with "1.prems" show ?thesis by (simp add: ntp_suboptions.simps)
  next
    case False
    note eq = "1.prems" [unfolded ntp_suboptions.simps [of b acc]]
    have g: "\<not> length b < 4" "\<not> length b - 4 < ?n" using eq False by (simp_all add: Let_def split: if_splits)
    note eq = eq [simplified False g Let_def if_False]
    note ih = "1.IH" [OF False g(1) refl refl g(2) refl refl]
    consider (ad) "?code = 1 \<or> ?code = 2" | (nm) "\<not> (?code = 1 \<or> ?code = 2)" "?code = 3"
      | (other) "\<not> (?code = 1 \<or> ?code = 2)" "?code \<noteq> 3" by blast
    then show ?thesis
    proof cases
      case ad
      with eq have "?n = 16" "ntp_suboptions ?rest ((fst acc)\<lparr>NtpAddr := AddrFrom16 ?body, NtpMulticast := (?code = 2)\<rparr>, snd acc + 1) = Inr acc'"
        by (auto split: if_splits)
      with ih(1) ad show ?thesis by (fastforce simp: AddrFrom16_def)
    next
      case nm
      with eq obtain name k where r: "readNameUncompressed ?body 0 = Inr (name, k)" "\<not> (name = [] \<or> k \<noteq> ?n)"
        "ntp_suboptions ?rest ((fst acc)\<lparr>NtpFQDN := name\<rparr>, snd acc + 1) = Inr acc'"
        by (auto split: if_splits sum.splits)
      from ih(2) [OF nm r(1) refl r(2,3)] r(2) show ?thesis by fastforce
    next
      case other
      with eq have "ntp_suboptions ?rest acc = Inr acc'" by auto
      with ih(3) [OF other] show ?thesis by blast
    qed
  qed
qed

lemma decode_each_all: "decode_each dec vs = Inr xs \<Longrightarrow> (\<And>v x. dec v = Inr x \<Longrightarrow> P x) \<Longrightarrow> list_all P xs"
  by (induction vs arbitrary: xs) (auto simp: bind_res_eq_Inr)

text \<open>
  A record of \<^verbatim>\<open>NTPServers\<close> is one time source: an address, unicast or multicast, or a name, never
  both and never neither.
\<close>

theorem ntp_one_source: "NTPServers opts = Inr rs \<Longrightarrow> list_all one_source rs"
proof -
  assume "NTPServers opts = Inr rs"
  then obtain ss where ss: "decode_each readNTPServer (All6 opts OptV6NTPServer) = Inr ss" "rs = map the (filter (\<lambda>r. r \<noteq> None) ss)"
    by (auto simp: NTPServers_def bind_res_eq_Inr)
  have "list_all (\<lambda>r. \<forall>s. r = Some s \<longrightarrow> one_source s) ss"
    using ss(1)
  proof (rule decode_each_all)
    fix v r assume "readNTPServer v = Inr r"
    then obtain acc where "ntp_suboptions v (\<lparr>NtpAddr = NoAddr, NtpMulticast = False, NtpFQDN = []\<rparr>, 0) = Inr acc"
      "r = (if snd acc = 1 then Some (fst acc) else None)"
      by (auto simp: readNTPServer_def bind_res_eq_Inr split: if_splits)
    with ntp_suboptions_source [OF this(1)] show "\<forall>s. r = Some s \<longrightarrow> one_source s"
      by (auto simp: one_source_def)
  qed
  then show ?thesis by (auto simp: ss(2) list_all_iff)
qed

lemma ntp_one_source_witness:
  "list_all one_source [\<lparr>NtpAddr = Addr6 0x20010DB8000000000000000000000001, NtpMulticast = False, NtpFQDN = []\<rparr>]"
proof -
  have "NTPServers [\<lparr>Code6 = OptV6NTPServer, Data6 = [0, 1, 0, 16, 0x20, 1, 0x0D, 0xB8, 0, 0, 0, 0, 0, 0, 0, 0, 0, 0, 0, 1]\<rparr>]
      = Inr [\<lparr>NtpAddr = Addr6 0x20010DB8000000000000000000000001, NtpMulticast = False, NtpFQDN = []\<rparr>]"
    by code_simp
  then show ?thesis by (rule ntp_one_source)
qed

end
