(* ===== verification/Wire_Auth.thy ===== *)
theory Wire_Auth
  imports Wire_Values Wire_Md5
begin

text \<open>
  The Forcerenew Nonce authentication of \<^verbatim>\<open>src/wire/option_auth.go\<close>: the Authentication
  option, the span of its digest in the octets that arrived, and the check of a
  DHCPFORCERENEW.
\<close>

abbreviation (input) AuthFixedLen :: nat where "AuthFixedLen \<equiv> 11"
abbreviation (input) AuthProtocolRKAP :: byte where "AuthProtocolRKAP \<equiv> 3"
abbreviation (input) AuthAlgorithmHMAC :: byte where "AuthAlgorithmHMAC \<equiv> 1"
abbreviation (input) AuthRDMMonotonic :: byte where "AuthRDMMonotonic \<equiv> 0"

abbreviation (input) ForcerenewTypeNonce :: byte where "ForcerenewTypeNonce \<equiv> 1"
abbreviation (input) ForcerenewTypeDigest :: byte where "ForcerenewTypeDigest \<equiv> 2"
abbreviation (input) ForcerenewNonceLen :: nat where "ForcerenewNonceLen \<equiv> 16"
abbreviation (input) hopsOff :: nat where "hopsOff \<equiv> 3"
abbreviation (input) giaddrOff :: nat where "giaddrOff \<equiv> 24"
abbreviation (input) forcerenewInfoLen :: nat where "forcerenewInfoLen \<equiv> 17"

datatype auth_error = ErrCodec codec_error | ErrForcerenewAuth | ErrForcerenewNonce
  | ErrForcerenewDigest

record forcerenew_auth =
  AType :: byte
  Replay :: "64 word"
  Value :: "byte list"

definition decodeForcerenewAuth :: "byte list \<Rightarrow> auth_error + forcerenew_auth" where
  "decodeForcerenewAuth v =
     (if length v < AuthFixedLen then Inl ErrForcerenewAuth
      else if v ! 0 \<noteq> AuthProtocolRKAP then Inl ErrForcerenewAuth
      else if v ! 1 \<noteq> AuthAlgorithmHMAC then Inl ErrForcerenewAuth
      else if v ! 2 \<noteq> AuthRDMMonotonic then Inl ErrForcerenewAuth
      else if length v - AuthFixedLen \<noteq> forcerenewInfoLen then Inl ErrForcerenewAuth
      else if v ! AuthFixedLen \<noteq> ForcerenewTypeNonce \<and> v ! AuthFixedLen \<noteq> ForcerenewTypeDigest
        then Inl ErrForcerenewAuth
      else Inr \<lparr>AType = v ! AuthFixedLen, Replay = ube64 (octets 3 8 v),
                Value = drop (AuthFixedLen + 1) v\<rparr>)"

definition ForcerenewAuth_opt :: "options \<Rightarrow> (auth_error + forcerenew_auth) option" where
  "ForcerenewAuth_opt opts = map_option decodeForcerenewAuth (opts OptAuthentication)"

definition EncodeForcerenewAuth :: "byte \<Rightarrow> byte list \<Rightarrow> 64 word \<Rightarrow> auth_error + byte list" where
  "EncodeForcerenewAuth typ value replay =
     (if length value \<noteq> ForcerenewNonceLen then Inl ErrForcerenewNonce
      else if typ \<noteq> ForcerenewTypeNonce \<and> typ \<noteq> ForcerenewTypeDigest then Inl ErrForcerenewAuth
      else Inr ([AuthProtocolRKAP, AuthAlgorithmHMAC, AuthRDMMonotonic] @ be64 replay
        @ [typ] @ value))"

text \<open>
  The \<^verbatim>\<open>walk\<close> closure of \<^verbatim>\<open>forcerenewSpan\<close> over \<^verbatim>\<open>raw[i:end]\<close>: the start and length of
  every option 90 and the concatenated value of option 52, both accumulated across
  calls. The recursion follows the index, which every round advances.
\<close>

type_synonym walk_state = "(nat \<times> nat) list \<times> byte list"

function walk :: "byte list \<Rightarrow> nat \<Rightarrow> nat \<Rightarrow> walk_state \<Rightarrow> codec_error + walk_state" where
  "walk raw i stop acc =
     (if stop \<le> i then Inr acc
      else let c = raw ! i in
        if c = OptPad then walk raw (i + 1) stop acc
        else if c = OptEnd then Inr acc
        else if stop \<le> i + 1 then Inl ErrTruncatedOption
        else let n = unat (raw ! (i + 1)) in
          if i + 2 + n > stop then Inl ErrOptionOverrun
          else let acc' = (case acc of (auth, overload) \<Rightarrow>
                 if c = OptAuthentication then (auth @ [(i + 2, n)], overload)
                 else if c = OptOverload then (auth, overload @ octets (i + 2) n raw)
                 else acc)
            in walk raw (i + 2 + n) stop acc')"
  by pat_completeness auto
termination
  by (relation "measure (\<lambda>(raw, i, stop, acc). stop - i)") auto

declare walk.simps [simp del]

text \<open>The end of \<^verbatim>\<open>forcerenewSpan\<close>: the one instance there may be, and the octet after its type.\<close>

definition only_digest :: "byte list \<Rightarrow> (nat \<times> nat) list \<Rightarrow> auth_error + nat" where
  "only_digest raw auth =
     (case auth of
        [(start, n)] \<Rightarrow>
          bind_res (decodeForcerenewAuth (octets start n raw)) (\<lambda>a.
            if AType a \<noteq> ForcerenewTypeDigest then Inl ErrForcerenewAuth
            else Inr (start + AuthFixedLen + 1))
      | _ \<Rightarrow> Inl ErrForcerenewAuth)"

definition forcerenewSpan :: "byte list \<Rightarrow> auth_error + nat" where
  "forcerenewSpan raw =
     (if length raw < HeaderLen then Inl (ErrCodec ErrShort)
      else if octets fixedLen 4 raw \<noteq> magicCookie then Inl (ErrCodec ErrBadCookie)
      else case walk raw HeaderLen (length raw) ([], []) of
        Inl e \<Rightarrow> Inl (ErrCodec e)
      | Inr acc1 \<Rightarrow>
        let ov = (if length (snd acc1) = 1 then snd acc1 ! 0 else 0) in
        case (if ov AND 1 \<noteq> 0 then walk raw fileOff (fileOff + fileLen) acc1 else Inr acc1) of
          Inl e \<Rightarrow> Inl (ErrCodec e)
        | Inr acc2 \<Rightarrow>
          case (if ov AND 2 \<noteq> 0 then walk raw snameOff (snameOff + snameLen) acc2 else Inr acc2) of
            Inl e \<Rightarrow> Inl (ErrCodec e)
          | Inr acc3 \<Rightarrow>
            only_digest raw (fst acc3))"

definition VerifyForcerenew :: "byte list \<Rightarrow> byte list \<Rightarrow> auth_error + unit" where
  "VerifyForcerenew raw nonce =
     (if length nonce \<noteq> ForcerenewNonceLen then Inl ErrForcerenewNonce
      else bind_res (forcerenewSpan raw) (\<lambda>start.
        let masked = clear_range giaddrOff (giaddrOff + 4) (raw[hopsOff := 0]) in
        if \<not> zeroedHMACMatches nonce masked start (start + ForcerenewNonceLen)
        then Inl ErrForcerenewDigest else Inr ()))"

section \<open>Properties\<close>

text \<open>
  The Authentication option round-trips: what \<^verbatim>\<open>EncodeForcerenewAuth\<close> writes decodes
  to the same type, replay value and nonce or digest, and nothing else decodes.
\<close>

theorem forcerenew_auth_iff:
  "decodeForcerenewAuth v = Inr a \<longleftrightarrow> EncodeForcerenewAuth (AType a) (Value a) (Replay a) = Inr v"
proof
  assume enc: "EncodeForcerenewAuth (AType a) (Value a) (Replay a) = Inr v"
  then have "length (Value a) = 16" "AType a = 1 \<or> AType a = 2"
    and v: "v = [3, 1, 0] @ be64 (Replay a) @ [AType a] @ Value a"
    by (auto simp: EncodeForcerenewAuth_def split: if_splits)
  moreover have "octets 3 8 v = be64 (Replay a)"
    by (simp add: v octets_Cons_skip octets_append_take)
  ultimately show "decodeForcerenewAuth v = Inr a"
    by (cases a) (auto simp: decodeForcerenewAuth_def nth_append)
next
  assume dec: "decodeForcerenewAuth v = Inr a"
  then have len: "length v = 28" and hd: "v ! 0 = 3" "v ! 1 = 1" "v ! 2 = 0"
    and ty: "v ! 11 = 1 \<or> v ! 11 = 2"
    and a: "a = \<lparr>AType = v ! 11, Replay = ube64 (octets 3 8 v), Value = drop 12 v\<rparr>"
    by (auto simp: decodeForcerenewAuth_def split: if_splits)
  have "be64 (ube64 (octets 3 8 v)) = octets 3 8 v"
    by (rule be64_ube64_length) (simp add: length_octets len)
  moreover have "v = take 3 v @ octets 3 8 v @ drop 11 v"
    using octets_split [of 3 v 8] by simp
  moreover have "take 3 v = [3, 1, 0]"
    using len hd by (auto simp: list_eq_iff_nth_eq less_Suc_eq numeral_eq_Suc)
  moreover have "drop 11 v = v ! 11 # drop 12 v"
    using Cons_nth_drop_Suc [of 11 v] len by simp
  ultimately show "EncodeForcerenewAuth (AType a) (Value a) (Replay a) = Inr v"
    using ty len by (auto simp: EncodeForcerenewAuth_def a)
qed

text \<open>The walk and the option parser read the same instances.\<close>

definition auth_spans :: "(nat \<times> byte \<times> byte list) list \<Rightarrow> (nat \<times> nat) list" where
  "auth_spans ts = map (\<lambda>(p, _, v). (p, length v)) (filter (\<lambda>(_, c, _). c = OptAuthentication) ts)"

lemma tlvs_octets:
  assumes "stop \<le> length raw"
  shows "tlvs i (octets i (stop - i) raw) =
    (if stop \<le> i then Inr []
     else if raw ! i = OptPad then tlvs (i + 1) (octets (i + 1) (stop - (i + 1)) raw)
     else if raw ! i = OptEnd then Inr []
     else if stop \<le> i + 1 then Inl ErrTruncatedOption
     else let n = unat (raw ! (i + 1)) in
       if i + 2 + n > stop then Inl ErrOptionOverrun
       else bind_res (tlvs (i + 2 + n) (octets (i + 2 + n) (stop - (i + 2 + n)) raw))
         (\<lambda>ts. Inr ((i + 2, raw ! i, octets (i + 2) n raw) # ts)))"
proof (cases "stop \<le> i")
  case False
  then have hd: "octets i (stop - i) raw = raw ! i # octets (i + 1) (stop - (i + 1)) raw"
    using assms by (simp add: octets_step)
  show ?thesis
  proof (cases "stop \<le> i + 1")
    case True
    then have "octets (i + 1) (stop - (i + 1)) raw = []" by (simp add: octets_def)
    with False True hd show ?thesis by simp
  next
    case rest: False
    then have tl: "octets (i + 1) (stop - (i + 1)) raw
        = raw ! (i + 1) # octets (i + 2) (stop - (i + 2)) raw"
      using assms by (simp add: octets_step)
    moreover have "length (octets (i + 2) (stop - (i + 2)) raw) = stop - (i + 2)"
      using assms by (simp add: octets_def)
    ultimately show ?thesis
      using False rest by (simp add: hd Let_def drop_octets take_octets) (auto simp: octets_def)
  qed
qed (simp add: octets_def)

lemma walk_tlvs:
  "stop \<le> length raw \<Longrightarrow>
   walk raw i stop acc = bind_res (tlvs i (octets i (stop - i) raw))
     (\<lambda>ts. Inr (fst acc @ auth_spans ts, snd acc @ concat (instances OptOverload ts)))"
proof (induction raw i stop acc rule: walk.induct)
  case (1 raw i stop acc)
  let ?c = "raw ! i" and ?n = "unat (raw ! (i + 1))"
  note none = auth_spans_def [of "[]"] instances_def [of _ "[]"]
  show ?case
  proof (cases "stop \<le> i \<or> ?c = OptPad \<or> ?c = OptEnd \<or> stop \<le> i + 1 \<or> stop < i + 2 + ?n")
    case True
    with "1.IH"(1) "1.prems" show ?thesis
      by (subst walk.simps, subst tlvs_octets) (auto simp: none Let_def)
  next
    case False
    let ?v = "octets (i + 2) ?n raw"
    define acc' where "acc' = (case acc of (auth, overload) \<Rightarrow>
      if ?c = OptAuthentication then (auth @ [(i + 2, ?n)], overload)
      else if ?c = OptOverload then (auth, overload @ ?v) else acc)"
    have "walk raw i stop acc = walk raw (i + 2 + ?n) stop acc'"
      using False by (subst walk.simps) (auto simp: Let_def acc'_def split: prod.splits)
    also have "\<dots> = bind_res (tlvs (i + 2 + ?n) (octets (i + 2 + ?n) (stop - (i + 2 + ?n)) raw))
          (\<lambda>ts. Inr (fst acc' @ auth_spans ts, snd acc' @ concat (instances OptOverload ts)))"
      using "1.IH"(2) [OF _ refl _ _ _ refl _ acc'_def] False "1.prems" by simp
    finally have w: "walk raw i stop acc = \<dots>" .
    have "length ?v = ?n" using False "1.prems" by (auto simp: octets_def)
    then have acc: "fst acc' @ auth_spans ts = fst acc @ auth_spans ((i + 2, ?c, ?v) # ts)"
        "snd acc' @ concat (instances OptOverload ts)
          = snd acc @ concat (instances OptOverload ((i + 2, ?c, ?v) # ts))" for ts
      by (auto simp: acc'_def auth_spans_def instances_def split: prod.splits)
    show ?thesis unfolding w using False "1.prems"
      by (subst (2) tlvs_octets)
        (auto simp: Let_def acc bind_res_def split: sum.splits)
  qed
qed

text \<open>An instance is where its offset says.\<close>

lemma tlvs_at:
  "stop \<le> length raw \<Longrightarrow> tlvs i (octets i (stop - i) raw) = Inr ts \<Longrightarrow> (p, c, v) \<in> set ts \<Longrightarrow>
     octets p (length v) raw = v \<and> p + length v \<le> stop"
proof (induction "stop - i" arbitrary: i ts rule: less_induct)
  case less
  from less.prems(2,3) have i: "i < stop"
    by (subst (asm) tlvs_octets [OF less.prems(1)]) (auto split: if_splits)
  show ?case
  proof (cases "raw ! i = OptPad")
    case True
    with i less.prems show ?thesis
      by (intro less.hyps [of "i + 1" ts]) (auto simp: tlvs_octets [OF less.prems(1), of i])
  next
    case False
    let ?n = "unat (raw ! (i + 1))"
    from False i less.prems obtain us where
      us: "tlvs (i + 2 + ?n) (octets (i + 2 + ?n) (stop - (i + 2 + ?n)) raw) = Inr us"
      and fit: "i + 2 + ?n \<le> stop"
      and ts: "ts = (i + 2, raw ! i, octets (i + 2) ?n raw) # us"
      by (subst (asm) tlvs_octets [OF less.prems(1)])
        (auto simp: Let_def bind_res_eq_Inr split: if_splits)
    have "length (octets (i + 2) ?n raw) = ?n"
      using fit less.prems(1) by (auto simp: octets_def)
    with less.hyps [OF _ less.prems(1) us] less.prems(3) fit i show ?thesis
      by (auto simp: ts)
  qed
qed

lemma auth_spans_append: "auth_spans (ts @ us) = auth_spans ts @ auth_spans us"
  by (simp add: auth_spans_def)

lemma overload_of_instances:
  "overload_of (add_instances ts Map.empty) =
     (let v = concat (instances OptOverload ts) in if length v = 1 then v ! 0 else 0)"
  by (auto simp: overload_of_def add_instances_lookup Let_def)

lemma walk_area: "walk raw off stop acc = Inr acc' \<Longrightarrow> stop \<le> length raw \<Longrightarrow>
  \<exists>ts. tlvs off (octets off (stop - off) raw) = Inr ts \<and> fst acc' = fst acc @ auth_spans ts
    \<and> snd acc' = snd acc @ concat (instances OptOverload ts)"
  by (auto simp: walk_tlvs bind_res_eq_Inr)

lemma walk_field:
  assumes "(if ovl then walk raw off (off + n) acc else Inr acc) = Inr acc'" "off + n \<le> length raw"
  shows "\<exists>ts. (if ovl then tlvs off (octets off n raw) else Inr []) = Inr ts
    \<and> fst acc' = fst acc @ auth_spans ts"
  using assms walk_area [of raw off "off + n" acc acc']
  by (cases ovl) (auto simp: auth_spans_def)

text \<open>
  The spans the check works on are those of the instances \<^verbatim>\<open>Decode\<close> reads, in the same
  order, and there is exactly one.
\<close>

lemma forcerenewSpan_instances:
  assumes "forcerenewSpan raw = Inr k"
  shows "HeaderLen \<le> length raw \<and> octets fixedLen 4 raw = magicCookie \<and>
    (\<exists>us start n a. decoded_instances raw = Inr us \<and> auth_spans us = [(start, n)]
       \<and> decodeForcerenewAuth (octets start n raw) = Inr a \<and> AType a = ForcerenewTypeDigest
       \<and> k = start + AuthFixedLen + 1)"
proof -
  from assms have len: "HeaderLen \<le> length raw" and ck: "octets fixedLen 4 raw = magicCookie"
    by (auto simp: forcerenewSpan_def split: if_splits)
  define ov where "ov acc = (if length (snd acc) = 1 then snd acc ! 0 else 0)" for acc :: walk_state
  from assms obtain acc1 acc2 acc3 start n a where
    w1: "walk raw HeaderLen (length raw) ([], []) = Inr acc1" and
    w2: "(if ov acc1 AND 1 \<noteq> 0 then walk raw fileOff (fileOff + fileLen) acc1 else Inr acc1) = Inr acc2" and
    w3: "(if ov acc1 AND 2 \<noteq> 0 then walk raw snameOff (snameOff + snameLen) acc2 else Inr acc2) = Inr acc3" and
    one: "fst acc3 = [(start, n)]" and
    fin: "decodeForcerenewAuth (octets start n raw) = Inr a" "AType a = ForcerenewTypeDigest"
      "k = start + AuthFixedLen + 1"
    unfolding forcerenewSpan_def only_digest_def Let_def ov_def
    by (clarsimp simp: bind_res_eq_Inr split: if_split_asm sum.splits list.splits prod.splits)
  from walk_area [OF w1] obtain ts where
    ts: "tlvs HeaderLen (drop HeaderLen raw) = Inr ts" and s1: "fst acc1 = auth_spans ts"
    and o1: "snd acc1 = concat (instances OptOverload ts)"
    by (auto simp: octets_to_end)
  from walk_field [OF w2] len obtain fs where fs: "(if ov acc1 AND 1 \<noteq> 0
      then tlvs fileOff (octets fileOff fileLen raw) else Inr []) = Inr fs"
    and s2: "fst acc2 = fst acc1 @ auth_spans fs" by auto
  from walk_field [OF w3] len obtain ss where ss: "(if ov acc1 AND 2 \<noteq> 0
      then tlvs snameOff (octets snameOff snameLen raw) else Inr []) = Inr ss"
    and s3: "fst acc3 = fst acc2 @ auth_spans ss" by auto
  have "ov acc1 = overload_of (add_instances ts Map.empty)"
    by (simp add: ov_def o1 overload_of_instances Let_def)
  then have "decoded_instances raw = Inr (ts @ fs @ ss)"
    using ts fs ss by (simp add: decoded_instances_def Let_def)
  moreover have "auth_spans (ts @ fs @ ss) = [(start, n)]"
    using one s1 s2 s3 by (simp add: auth_spans_append)
  ultimately show ?thesis using len ck fin by blast
qed

lemma tlvs_field_at:
  assumes "(if ovl then tlvs off (octets off n raw) else Inr []) = Inr ts"
    and "(p, c, v) \<in> set ts" and "off + n \<le> length raw"
  shows "octets p (length v) raw = v \<and> p + length v \<le> length raw"
proof -
  from assms(1,2) have "tlvs off (octets off (off + n - off) raw) = Inr ts"
    by (auto split: if_splits)
  from tlvs_at [OF assms(3) this assms(2)] assms(3) show ?thesis by simp
qed

lemma decoded_instances_at:
  assumes "decoded_instances raw = Inr us" "(p, c, v) \<in> set us" "HeaderLen \<le> length raw"
  shows "octets p (length v) raw = v \<and> p + length v \<le> length raw"
proof -
  from assms(1) obtain ts fs ss o1 o2 where us: "us = ts @ fs @ ss" and
    ts: "tlvs HeaderLen (drop HeaderLen raw) = Inr ts" and
    fs: "(if o1 then tlvs fileOff (octets fileOff fileLen raw) else Inr []) = Inr fs" and
    ss: "(if o2 then tlvs snameOff (octets snameOff snameLen raw) else Inr []) = Inr ss"
    unfolding decoded_instances_def Let_def bind_res_eq_Inr by blast
  have ts': "(if True then tlvs HeaderLen (octets HeaderLen (length raw - HeaderLen) raw) else Inr [])
      = Inr ts"
    using ts by (simp add: octets_to_end)
  from assms(2,3) show ?thesis
    using tlvs_field_at [OF ts'] tlvs_field_at [OF fs] tlvs_field_at [OF ss] by (auto simp: us)
qed

lemma span_is_decoded_option:
  assumes "forcerenewSpan raw = Inr k"
  shows "\<exists>m a. Decode raw = Inr m \<and> ForcerenewAuth_opt (Options m) = Some (Inr a)
    \<and> AType a = ForcerenewTypeDigest \<and> octets k ForcerenewNonceLen raw = Value a
    \<and> k + ForcerenewNonceLen \<le> length raw"
proof -
  from forcerenewSpan_instances [OF assms] obtain us start n a where
    hd: "HeaderLen \<le> length raw" "octets fixedLen 4 raw = magicCookie" and
    us: "decoded_instances raw = Inr us" and one: "auth_spans us = [(start, n)]" and
    dec: "decodeForcerenewAuth (octets start n raw) = Inr a" and
    ty: "AType a = ForcerenewTypeDigest" and k: "k = start + AuthFixedLen + 1" by blast
  from one obtain v where flt: "filter (\<lambda>(_, c, _). c = OptAuthentication) us = [(start, OptAuthentication, v)]"
    and n: "n = length v"
    by (auto simp: auth_spans_def map_eq_Cons_conv filter_eq_Cons_iff)
  then have "(start, OptAuthentication, v) \<in> set (filter (\<lambda>(_, c, _). c = OptAuthentication) us)"
    by simp
  then have "(start, OptAuthentication, v) \<in> set us" by simp
  from decoded_instances_at [OF us this hd(1)]
  have v: "octets start (length v) raw = v" and fit: "start + length v \<le> length raw" by auto
  obtain m where m: "Decode raw = Inr m" and opts: "Options m = add_instances us Map.empty"
    using Decode_ok [OF hd us] by blast
  have "instances OptAuthentication us = [v]" using flt by (simp add: instances_def)
  then have "Options m OptAuthentication = Some v" by (simp add: opts add_instances_lookup)
  moreover have dv: "decodeForcerenewAuth v = Inr a" using dec by (simp add: n v)
  moreover from dv have len: "length v = 28" and val: "Value a = drop 12 v"
    by (auto simp: decodeForcerenewAuth_def split: if_splits)
  moreover have "octets k 16 raw = drop 12 v"
    using len arg_cong [OF v, of "drop 12"] by (simp add: k drop_octets add.commute)
  ultimately show ?thesis
    using m ty fit by (auto simp: ForcerenewAuth_opt_def k val intro!: exI [of _ m] exI [of _ a])
qed

text \<open>The walk, and so the span, reads nothing below its first index.\<close>

lemma walk_agree:
  "lo \<le> i \<Longrightarrow> (\<forall>j \<ge> lo. raw ! j = raw' ! j) \<Longrightarrow> drop lo raw = drop lo raw' \<Longrightarrow>
     walk raw i stop acc = walk raw' i stop acc"
proof (induction raw i stop acc rule: walk.induct)
  case (1 raw i stop acc)
  let ?c = "raw ! i" and ?n = "unat (raw ! (i + 1))"
  from "1.prems" have at: "raw' ! i = ?c" "raw' ! (i + 1) = raw ! (i + 1)"
    "raw' ! Suc i = raw ! Suc i" by auto
  have "octets (i + 2) n raw = octets (i + 2) n raw'" for n
    using "1.prems"(1) arg_cong [OF "1.prems"(3), of "drop (i + 2 - lo)"] by (simp add: octets_def)
  note oc = this
  show ?case
  proof (cases "stop \<le> i \<or> ?c = OptPad \<or> ?c = OptEnd \<or> stop \<le> i + 1 \<or> stop < i + 2 + ?n")
    case True
    moreover have "?c = OptPad \<Longrightarrow> i < stop \<Longrightarrow> walk raw (i + 1) stop acc = walk raw' (i + 1) stop acc"
      by (rule "1.IH"(1) [OF _ refl]) (use "1.prems" in auto)
    ultimately show ?thesis
      by (auto simp: walk.simps [of raw i stop acc] walk.simps [of raw' i stop acc] at Let_def)
  next
    case False
    define acc' where "acc' = (case acc of (auth, overload) \<Rightarrow>
      if ?c = OptAuthentication then (auth @ [(i + 2, ?n)], overload)
      else if ?c = OptOverload then (auth, overload @ octets (i + 2) ?n raw) else acc)"
    have "walk raw i stop acc = walk raw (i + 2 + ?n) stop acc'"
      using False by (subst walk.simps) (auto simp: Let_def acc'_def split: prod.splits)
    also have "\<dots> = walk raw' (i + 2 + ?n) stop acc'"
      by (rule "1.IH"(2) [OF _ refl _ _ _ refl _ acc'_def]) (use False "1.prems" in auto)
    also have "\<dots> = walk raw' i stop acc"
      using False by (subst (2) walk.simps)
        (auto simp: Let_def acc'_def at oc [simplified] split: prod.splits)
    finally show ?thesis .
  qed
qed

lemma drop_eq_nth: "drop lo raw = drop lo raw' \<Longrightarrow> length raw = length raw' \<Longrightarrow> lo \<le> j \<Longrightarrow>
  raw ! j = raw' ! j"
proof (cases "j < length raw")
  case True
  assume "drop lo raw = drop lo raw'" "length raw = length raw'" "lo \<le> j"
  with True show ?thesis
    using nth_drop [of lo raw "j - lo"] nth_drop [of lo raw' "j - lo"] by simp
next
  case False
  assume "drop lo raw = drop lo raw'" "length raw = length raw'" "lo \<le> j"
  then have "raw ! j = [] ! (j - length raw)" "raw' ! j = [] ! (j - length raw')"
    using False nth_append_right [of raw j "[]"] nth_append_right [of raw' j "[]"] by auto
  with \<open>length raw = length raw'\<close> show ?thesis by simp
qed

lemma tlvs_from: "tlvs i b = Inr ts \<Longrightarrow> \<forall>t \<in> set ts. i \<le> fst t"
proof (induction i b arbitrary: ts rule: tlvs.induct)
  case (2 off c b)
  show ?case
  proof (cases "c = OptPad \<or> c = OptEnd \<or> b = []")
    case True
    with "2.prems" "2.IH"(1) [of ts] show ?thesis
      by (cases b) (force split: if_splits)+
  next
    case False
    then obtain n b' where b: "b = n # b'" by (cases b) auto
    with False "2.prems" obtain us where fit: "unat n \<le> length b'"
      and us: "tlvs (off + 2 + unat n) (drop (unat n) b') = Inr us"
      and ts: "ts = (off + 2, c, take (unat n) b') # us"
      by (auto simp: bind_res_eq_Inr split: if_splits)
    have "\<forall>t \<in> set us. off + 2 + unat n \<le> fst t"
      by (rule "2.IH"(2) [OF _ _ b _ us]) (use False fit in auto)
    then show ?thesis by (auto simp: ts)
  qed
qed simp

definition spans_from :: "nat \<Rightarrow> walk_state \<Rightarrow> bool" where
  "spans_from lo acc \<longleftrightarrow> (\<forall>t \<in> set (fst acc). lo \<le> fst t)"

lemma walk_spans_from:
  assumes "walk raw i stop acc = Inr acc'" "stop \<le> length raw" "lo \<le> i" "spans_from lo acc"
  shows "spans_from lo acc'"
proof -
  from walk_area [OF assms(1,2)] obtain ts where
    ts: "tlvs i (octets i (stop - i) raw) = Inr ts" and "fst acc' = fst acc @ auth_spans ts" by blast
  with tlvs_from [OF ts] assms(3,4) show ?thesis
    by (force simp: spans_from_def auth_spans_def)
qed

lemma forcerenewSpan_agree:
  assumes "drop 28 raw = drop 28 raw'" "length raw = length raw'"
  shows "forcerenewSpan raw = forcerenewSpan raw'"
proof (cases "length raw < HeaderLen")
  case False
  have at: "\<forall>j \<ge> 28. raw ! j = raw' ! j" using drop_eq_nth [OF assms] by blast
  have w: "28 \<le> i \<Longrightarrow> walk raw' i stop acc = walk raw i stop acc" for i stop acc
    using walk_agree [OF _ at assms(1)] by simp
  have oc: "28 \<le> off \<Longrightarrow> octets off n raw' = octets off n raw" for off n
    using arg_cong [OF assms(1), of "drop (off - 28)"] by (simp add: octets_def)
  have W: "walk raw i stop acc = Inr acc' \<Longrightarrow> spans_from 28 acc \<Longrightarrow> spans_from 28 acc'"
    if "(i, stop) \<in> {(HeaderLen, length raw), (fileOff, fixedLen), (snameOff, fileOff)}" for i stop acc acc'
    using walk_spans_from [of raw i stop acc acc' 28] that False by auto
  have z: "spans_from 28 ([], [])" by (simp add: spans_from_def)
  have fin: "only_digest raw (fst acc) = only_digest raw' (fst acc)" if "spans_from 28 acc" for acc
    using that by (auto simp: spans_from_def only_digest_def oc split: list.splits)
  show ?thesis
    unfolding forcerenewSpan_def Let_def assms(2) [symmetric]
    by (intro if_cong sum.case_cong refl fin) (use False in \<open>auto simp: w oc z split: if_splits intro: W [OF _ _ W [OF _ _ W [OF _ _ z]]] W [OF _ _ W [OF _ _ z]] W [OF _ _ z]\<close>)
qed (simp add: forcerenewSpan_def assms(2))

lemma span_after_giaddr:
  assumes "forcerenewSpan raw = Inr k"
  shows "28 \<le> k"
proof -
  from forcerenewSpan_instances [OF assms] obtain us start n where
    us: "decoded_instances raw = Inr us" "auth_spans us = [(start, n)]" and k: "k = start + 12"
    by auto
  from us(2) have "start \<in> fst ` set us"
    by (force simp: auth_spans_def map_eq_Cons_conv filter_eq_Cons_iff)
  then obtain c v where "(start, c, v) \<in> set us" by auto
  moreover from us(1) obtain ts fs ss o1 o2 where "us = ts @ fs @ ss" and
    "tlvs HeaderLen (drop HeaderLen raw) = Inr ts" and
    "(if o1 then tlvs fileOff (octets fileOff fileLen raw) else Inr []) = Inr fs" and
    "(if o2 then tlvs snameOff (octets snameOff snameLen raw) else Inr []) = Inr ss"
    unfolding decoded_instances_def Let_def bind_res_eq_Inr by blast
  ultimately have "44 \<le> start"
    by (auto dest!: tlvs_from split: if_splits)
  with k show ?thesis by simp
qed

text \<open>What the digest is computed over: hops, giaddr and the digest itself read as zero.\<close>

definition relay_mask :: "byte list \<Rightarrow> byte list" where
  "relay_mask raw = clear_range giaddrOff (giaddrOff + 4) (raw[hopsOff := 0])"

lemma octets_relay_mask: "28 \<le> length raw \<Longrightarrow> 28 \<le> off \<Longrightarrow> octets off n (relay_mask raw) = octets off n raw"
  by (simp add: relay_mask_def clear_range_def octets_def)

lemma VerifyForcerenew_relay_mask:
  "VerifyForcerenew raw nonce =
     (if length nonce \<noteq> ForcerenewNonceLen then Inl ErrForcerenewNonce
      else bind_res (forcerenewSpan raw) (\<lambda>k.
        if octets k ForcerenewNonceLen raw
          = hmacMD5 nonce (clear_range k (k + ForcerenewNonceLen) (relay_mask raw))
        then Inr () else Inl ErrForcerenewDigest))"
proof -
  have "octets k 16 (relay_mask raw) = octets k 16 raw" if "forcerenewSpan raw = Inr k" for k
    using forcerenewSpan_instances [OF that] span_after_giaddr [OF that]
    by (intro octets_relay_mask) auto
  then show ?thesis
    unfolding VerifyForcerenew_def Let_def zeroedHMACMatches_iff relay_mask_def [symmetric]
    by (cases "forcerenewSpan raw") simp_all
qed

text \<open>
  C29: A DHCPFORCERENEW verifies exactly when the nonce has 16 octets, the message carries
  one well-formed digest option, and the digest is the HMAC-MD5 of the received octets with
  hops, giaddr and the digest zeroed. The option checked is the one the client reads:
  \<^verbatim>\<open>Decode\<close> of the same octets succeeds and its Authentication option holds the octets at
  the span, so a second instance in any of the three areas can never carry another digest.
\<close>

theorem verify_forcerenew_iff:
  "VerifyForcerenew raw nonce = Inr () \<longleftrightarrow> length nonce = ForcerenewNonceLen
     \<and> (\<exists>k m a. forcerenewSpan raw = Inr k \<and> Decode raw = Inr m
          \<and> ForcerenewAuth_opt (Options m) = Some (Inr a) \<and> AType a = ForcerenewTypeDigest
          \<and> octets k ForcerenewNonceLen raw = Value a
          \<and> Value a = hmacMD5 nonce (clear_range k (k + ForcerenewNonceLen) (relay_mask raw)))"
proof (cases "forcerenewSpan raw")
  case (Inr k)
  from span_is_decoded_option [OF Inr] Inr show ?thesis
    by (auto simp: VerifyForcerenew_relay_mask)
qed (simp add: VerifyForcerenew_relay_mask)

text \<open>
  What a relay agent may rewrite does not matter: any hops octet and any four giaddr
  octets give the same verdict, errors included.
\<close>

theorem verify_forcerenew_relay:
  "VerifyForcerenew (raw[hopsOff := h, giaddrOff := a, giaddrOff + 1 := b, giaddrOff + 2 := c,
       giaddrOff + 3 := d]) nonce = VerifyForcerenew raw nonce"
    (is "VerifyForcerenew ?raw' nonce = _")
proof -
  have dr: "drop 28 ?raw' = drop 28 raw" by simp
  have sp: "forcerenewSpan ?raw' = forcerenewSpan raw"
    by (rule forcerenewSpan_agree) simp_all
  have mask: "relay_mask ?raw' = relay_mask raw"
    by (simp add: relay_mask_def clear_range_def take_update_swap list_update_swap list_update_beyond)
  have oc: "octets k n ?raw' = octets k n raw" if "28 \<le> k" for k n
    using that arg_cong [OF dr, of "drop (k - 28)"] by (simp add: octets_def)
  show ?thesis
  proof (cases "forcerenewSpan raw")
    case (Inr k)
    then show ?thesis
      using oc [OF span_after_giaddr [OF Inr]] by (simp only: VerifyForcerenew_relay_mask sp mask bind_res_simps)
  qed (simp only: VerifyForcerenew_relay_mask sp bind_res_simps)
qed

end
