(* ===== verification/Wire_Rkap.thy ===== *)
theory Wire_Rkap
  imports Wire_V6_Properties Wire_Auth
begin

text \<open>
  The Reconfigure options and their authentication, \<^verbatim>\<open>src/wire/dhcpv6_reconfigure.go\<close>: the
  Authentication option, the span of the digest in the octets that arrived, \<^verbatim>\<open>RKAPVerify\<close>, and the
  Reconfigure Message and Accept options.
\<close>

abbreviation (input) OptV6Auth :: "16 word" where "OptV6Auth \<equiv> 11"
abbreviation (input) OptV6ReconfMsg :: "16 word" where "OptV6ReconfMsg \<equiv> 19"
abbreviation (input) OptV6ReconfAccept :: "16 word" where "OptV6ReconfAccept \<equiv> 20"
abbreviation (input) RKAPTypeKey :: byte where "RKAPTypeKey \<equiv> 1"
abbreviation (input) RKAPTypeDigest :: byte where "RKAPTypeDigest \<equiv> 2"
abbreviation (input) RKAPValueLen :: nat where "RKAPValueLen \<equiv> 16"
abbreviation (input) rkapInfoLen :: nat where "rkapInfoLen \<equiv> 17"

record Auth6 =
  AuProtocol :: byte
  AuAlgorithm :: byte
  AuRDM :: byte
  AuReplay :: "64 word"
  AuInfo :: "byte list"

definition DecodeAuth :: "byte list \<Rightarrow> v6_error + Auth6" where
  "DecodeAuth v =
     (if length v < AuthFixedLen then Inl ErrV6BadOption
      else Inr \<lparr>AuProtocol = v ! 0, AuAlgorithm = v ! 1, AuRDM = v ! 2, AuReplay = ube64 (octets 3 8 v),
                AuInfo = drop AuthFixedLen v\<rparr>)"

definition EncodeAuth :: "Auth6 \<Rightarrow> byte list" where
  "EncodeAuth a = [AuProtocol a, AuAlgorithm a, AuRDM a] @ be64 (AuReplay a) @ AuInfo a"

definition Auth_opt6 :: "OptionsV6 \<Rightarrow> (v6_error + Auth6) option" where
  "Auth_opt6 o6 =
     (if Count6 o6 OptV6Auth = 0 then None
      else if Count6 o6 OptV6Auth > 1 then Some (Inl ErrV6Auth)
      else map_option DecodeAuth (First o6 OptV6Auth))"

definition RKAP :: "Auth6 \<Rightarrow> v6_error + byte \<times> byte list" where
  "RKAP a =
     (if AuProtocol a \<noteq> AuthProtocolRKAP then Inl ErrV6Auth
      else if AuAlgorithm a \<noteq> AuthAlgorithmHMAC then Inl ErrV6Auth
      else if AuRDM a \<noteq> AuthRDMMonotonic then Inl ErrV6Auth
      else if length (AuInfo a) \<noteq> rkapInfoLen then Inl ErrV6Auth
      else Inr (AuInfo a ! 0, drop 1 (AuInfo a)))"

definition EncodeRKAPAuth :: "byte \<Rightarrow> byte list \<Rightarrow> 64 word \<Rightarrow> v6_error + byte list" where
  "EncodeRKAPAuth typ value replay =
     (if length value \<noteq> RKAPValueLen then Inl ErrRKAPKey
      else Inr (EncodeAuth \<lparr>AuProtocol = AuthProtocolRKAP, AuAlgorithm = AuthAlgorithmHMAC, AuRDM = AuthRDMMonotonic,
        AuReplay = replay, AuInfo = typ # value\<rparr>))"

text \<open>The walk of \<^verbatim>\<open>rkapDigestSpan\<close>: the index, which every round advances, and the span found.\<close>

function rkap_walk :: "byte list \<Rightarrow> nat \<Rightarrow> nat option \<Rightarrow> v6_error + nat option" where
  "rkap_walk raw i found =
     (if length raw \<le> i then Inr found
      else if length raw - i < 4 then Inl ErrV6TruncatedOption
      else let code = ube16 (octets i 2 raw); n = unat (ube16 (octets (i + 2) 2 raw)) in
        if n > length raw - (i + 4) then Inl ErrV6OptionOverrun
        else if code = OptV6Auth then
          if found \<noteq> None then Inl ErrV6Auth
          else bind_res (DecodeAuth (octets (i + 4) n raw)) (\<lambda>a.
            bind_res (RKAP a) (\<lambda>_. rkap_walk raw (i + 4 + n) (Some (i + 4 + AuthFixedLen + 1))))
        else rkap_walk raw (i + 4 + n) found)"
  by pat_completeness auto
termination by (relation "measure (\<lambda>(raw, i, found). length raw - i)") auto

declare rkap_walk.simps [simp del]

definition rkapDigestSpan :: "byte list \<Rightarrow> v6_error + nat" where
  "rkapDigestSpan raw =
     (if length raw < V6HeaderLen then Inl ErrV6Short
      else bind_res (rkap_walk raw V6HeaderLen None) (\<lambda>found.
        case found of None \<Rightarrow> Inl ErrV6Auth | Some start \<Rightarrow> Inr start))"

definition RKAPVerify :: "byte list \<Rightarrow> byte list \<Rightarrow> v6_error + unit" where
  "RKAPVerify raw key =
     (if length key \<noteq> RKAPValueLen then Inl ErrRKAPKey
      else bind_res (rkapDigestSpan raw) (\<lambda>start.
        let stop = start + RKAPValueLen; sent = octets start RKAPValueLen raw; buf = clear_range start stop raw in
        if \<not> equalConstantTime sent (hmacMD5 key buf) then Inl ErrRKAPDigest else Inr ()))"

definition ReconfigurableBy :: "byte \<Rightarrow> bool" where
  "ReconfigurableBy t \<longleftrightarrow> t = MsgRenew \<or> t = MsgRebind \<or> t = MsgInformationRequest"

definition ReconfigureMessage :: "OptionsV6 \<Rightarrow> (v6_error + byte) option" where
  "ReconfigureMessage o6 =
     (if Count6 o6 OptV6ReconfMsg = 0 then None
      else if Count6 o6 OptV6ReconfMsg > 1 then Some (Inl ErrV6BadOption)
      else map_option (\<lambda>v. if length v \<noteq> 1 then Inl ErrV6BadOption
          else if \<not> ReconfigurableBy (v ! 0) then Inl ErrV6BadOption else Inr (v ! 0)) (First o6 OptV6ReconfMsg))"

definition EncodeReconfigureMessage :: "byte \<Rightarrow> v6_error + byte list" where
  "EncodeReconfigureMessage t = (if \<not> ReconfigurableBy t then Inl ErrV6Encode else Inr [t])"

text \<open>Whether the option is there, and the error when it is not empty.\<close>

definition ReconfigureAccept :: "OptionsV6 \<Rightarrow> bool \<times> v6_error option" where
  "ReconfigureAccept o6 =
     (case First o6 OptV6ReconfAccept of
        None \<Rightarrow> (False, None)
      | Some v \<Rightarrow> (True, if length v \<noteq> 0 then Some ErrV6BadOption else None))"

section \<open>What is authenticated\<close>

lemma DecodeAuth_iff: "DecodeAuth v = Inr a \<longleftrightarrow> v = EncodeAuth a"
proof
  assume dec: "DecodeAuth v = Inr a"
  then have len: "11 \<le> length v" by (auto simp: DecodeAuth_def split: if_splits)
  then obtain x y z r where v: "v = x # y # z # r" "8 \<le> length r"
    by (cases v; cases "tl v"; cases "tl (tl v)") auto
  moreover have "be64 (ube64 (take 8 r)) = take 8 r" using v(2) by (simp add: be64_ube64_length)
  ultimately show "v = EncodeAuth a"
    using dec by (auto simp: DecodeAuth_def EncodeAuth_def octets_def)
next
  assume "v = EncodeAuth a"
  then show "DecodeAuth v = Inr a"
    by (simp add: DecodeAuth_def EncodeAuth_def octets_Cons_skip octets_append_take)
qed

text \<open>The walk reads the options the parser reads.\<close>

fun spans6 :: "nat \<Rightarrow> OptionsV6 \<Rightarrow> nat option \<Rightarrow> v6_error + nat option" where
  "spans6 i [] found = Inr found"
| "spans6 i (opt # opts) found =
     (if Code6 opt = OptV6Auth then
        if found \<noteq> None then Inl ErrV6Auth
        else bind_res (DecodeAuth (Data6 opt)) (\<lambda>a. bind_res (RKAP a) (\<lambda>_.
          spans6 (i + 4 + length (Data6 opt)) opts (Some (i + 4 + AuthFixedLen + 1))))
      else spans6 (i + 4 + length (Data6 opt)) opts found)"

lemma rkap_walk_spans:
  "i \<le> length raw \<Longrightarrow>
   rkap_walk raw i found = Inr r \<longleftrightarrow> (\<exists>opts. ParseOptionsV6 (drop i raw) = Inr opts \<and> spans6 i opts found = Inr r)"
proof (induction raw i found arbitrary: r rule: rkap_walk.induct)
  case (1 raw i found)
  let ?code = "ube16 (octets i 2 raw)" and ?n = "unat (ube16 (octets (i + 2) 2 raw))"
  show ?case
  proof (cases "i = length raw")
    case True
    then show ?thesis by (simp add: rkap_walk.simps ParseOptionsV6.simps)
  next
    case False
    with "1.prems" have i: "\<not> length raw \<le> i" "drop i raw \<noteq> []" by simp_all
    have oc: "octets k n (drop i raw) = octets (i + k) n raw" for k n by (simp add: octets_def add.commute)
    show ?thesis
    proof (cases "length raw - i < 4 \<or> length raw - (i + 4) < ?n")
      case True
      then show ?thesis
        using i by (auto simp: rkap_walk.simps [of raw i] ParseOptionsV6.simps [of "drop i raw"] read_option6_def oc Let_def)
    next
      case fits: False
      let ?opt = "\<lparr>Code6 = ?code, Data6 = octets (i + 4) ?n raw\<rparr>"
      have p: "ParseOptionsV6 (drop i raw) = bind_res (ParseOptionsV6 (drop (i + 4 + ?n) raw)) (\<lambda>xs. Inr (?opt # xs))"
        using i fits by (simp add: ParseOptionsV6.simps [of "drop i raw"] read_option6_def oc Let_def ac_simps)
      have len: "length (octets (i + 4) ?n raw) = ?n" "i + 4 + ?n \<le> length raw" using fits i by (auto simp: octets_def)
      have parsed: "(\<exists>opts. ParseOptionsV6 (drop i raw) = Inr opts \<and> Q opts)
          \<longleftrightarrow> (\<exists>xs. ParseOptionsV6 (drop (i + 4 + ?n) raw) = Inr xs \<and> Q (?opt # xs))" for Q
        by (auto simp: p bind_res_eq_Inr)
      note ih = "1.IH" [OF i(1) _ refl refl]
      have g: "\<not> length raw - i < 4" "\<not> length raw - (i + 4) < ?n" using fits by auto
      show ?thesis
      proof (cases "?code = OptV6Auth")
        case True
        have "rkap_walk raw i found = Inr r \<longleftrightarrow> found = None \<and> (\<exists>a t. DecodeAuth (Data6 ?opt) = Inr a \<and> RKAP a = Inr t
            \<and> rkap_walk raw (i + 4 + ?n) (Some (i + 4 + AuthFixedLen + 1)) = Inr r)"
          using True i g by (subst rkap_walk.simps) (simp add: Let_def bind_res_eq_Inr)
        also have "\<dots> \<longleftrightarrow> found = None \<and> (\<exists>a t. DecodeAuth (Data6 ?opt) = Inr a \<and> RKAP a = Inr t
            \<and> (\<exists>opts. ParseOptionsV6 (drop (i + 4 + ?n) raw) = Inr opts
              \<and> spans6 (i + 4 + ?n) opts (Some (i + 4 + AuthFixedLen + 1)) = Inr r))"
          (is "_ \<longleftrightarrow> found = None \<and> (\<exists>a t. _ \<and> _ \<and> ?Y)")
        proof -
          have "rkap_walk raw (i + 4 + ?n) (Some (i + 4 + AuthFixedLen + 1)) = Inr r \<longleftrightarrow> ?Y"
            if "found = None" "DecodeAuth (octets (i + 4) ?n raw) = Inr a" "RKAP a = Inr t" for a t
            using ih(1) [OF g True _ that(2,3) len(2)] that(1) by simp
          then show ?thesis unfolding OptionV6.select_convs by (intro conj_cong ex_cong1 refl)
        qed
        also have "\<dots> \<longleftrightarrow> (\<exists>xs. ParseOptionsV6 (drop (i + 4 + ?n) raw) = Inr xs \<and> spans6 i (?opt # xs) found = Inr r)"
          using True len(1) by (cases found) (simp_all add: bind_res_eq_Inr, blast)
        finally show ?thesis unfolding parsed .
      next
        case False
        have "rkap_walk raw i found = Inr r \<longleftrightarrow> rkap_walk raw (i + 4 + ?n) found = Inr r"
          using False i g by (subst rkap_walk.simps) (simp add: Let_def)
        also have "\<dots> \<longleftrightarrow> (\<exists>opts. ParseOptionsV6 (drop (i + 4 + ?n) raw) = Inr opts \<and> spans6 (i + 4 + ?n) opts found = Inr r)"
          using ih(2) [OF g False len(2)] .
        finally show ?thesis unfolding parsed using False len(1) by simp
      qed
    qed
  qed
qed

lemma length_encode_option6 [simp]: "length (encode_option6 opt) = 4 + length (Data6 opt)"
  by (simp add: encode_option6_def)

lemma spans6_found: "spans6 i opts (Some k) = Inr r \<longleftrightarrow> All6 opts OptV6Auth = [] \<and> r = Some k"
  by (induction opts arbitrary: i) (auto simp: All6_def)

lemma spans6_iff:
  "spans6 i opts None = Inr (Some k) \<longleftrightarrow>
     (\<exists>pre v post a t. opts = pre @ \<lparr>Code6 = OptV6Auth, Data6 = v\<rparr> # post \<and> All6 pre OptV6Auth = [] \<and> All6 post OptV6Auth = []
        \<and> DecodeAuth v = Inr a \<and> RKAP a = Inr t \<and> k = i + length (concat (map encode_option6 pre)) + 4 + AuthFixedLen + 1)"
  (is "_ \<longleftrightarrow> ?R i opts")
proof (induction opts arbitrary: i)
  case (Cons opt opts)
  show ?case
  proof (cases "Code6 opt = OptV6Auth")
    case True
    have "?R i (opt # opts) \<longleftrightarrow> (\<exists>a t. DecodeAuth (Data6 opt) = Inr a \<and> RKAP a = Inr t \<and> All6 opts OptV6Auth = []
        \<and> k = i + 4 + AuthFixedLen + 1)" (is "_ \<longleftrightarrow> ?S")
    proof
      assume "?R i (opt # opts)"
      then obtain pre v post a t where o: "opt # opts = pre @ \<lparr>Code6 = OptV6Auth, Data6 = v\<rparr> # post"
        "All6 pre OptV6Auth = []" "All6 post OptV6Auth = []" "DecodeAuth v = Inr a" "RKAP a = Inr t"
        "k = i + length (concat (map encode_option6 pre)) + 4 + AuthFixedLen + 1" by blast
      from o(1,2) True have "pre = []" by (cases pre) (auto simp: All6_def)
      with o show ?S by auto
    next
      assume ?S
      with True show "?R i (opt # opts)"
        by (intro exI [of _ "[]"] exI [of _ "Data6 opt"] exI [of _ opts]) (cases opt, auto simp: All6_def)
    qed
    with True show ?thesis by (auto simp: bind_res_eq_Inr spans6_found)
  next
    case False
    have "?R i (opt # opts) \<longleftrightarrow> ?R (i + 4 + length (Data6 opt)) opts"
    proof
      assume "?R i (opt # opts)"
      then obtain pre v post a t where o: "opt # opts = pre @ \<lparr>Code6 = OptV6Auth, Data6 = v\<rparr> # post"
        "All6 pre OptV6Auth = []" "All6 post OptV6Auth = []" "DecodeAuth v = Inr a" "RKAP a = Inr t"
        "k = i + length (concat (map encode_option6 pre)) + 4 + AuthFixedLen + 1" by blast
      with False obtain pre' where "pre = opt # pre'" by (cases pre) auto
      with o have "opts = pre' @ \<lparr>Code6 = OptV6Auth, Data6 = v\<rparr> # post" "All6 pre' OptV6Auth = []"
        "k = i + 4 + length (Data6 opt) + length (concat (map encode_option6 pre')) + 4 + AuthFixedLen + 1"
        by (auto simp: All6_def split: if_splits)
      with o(3-5) show "?R (i + 4 + length (Data6 opt)) opts" by blast
    next
      assume "?R (i + 4 + length (Data6 opt)) opts"
      then obtain pre v post a t where o: "opts = pre @ \<lparr>Code6 = OptV6Auth, Data6 = v\<rparr> # post"
        "All6 pre OptV6Auth = []" "All6 post OptV6Auth = []" "DecodeAuth v = Inr a" "RKAP a = Inr t"
        "k = i + 4 + length (Data6 opt) + length (concat (map encode_option6 pre)) + 4 + AuthFixedLen + 1" by blast
      then have "opt # opts = (opt # pre) @ \<lparr>Code6 = OptV6Auth, Data6 = v\<rparr> # post" "All6 (opt # pre) OptV6Auth = []"
        "k = i + length (concat (map encode_option6 (opt # pre))) + 4 + AuthFixedLen + 1"
        using False by (auto simp: All6_def)
      with o(3-5) show "?R i (opt # opts)" by blast
    qed
    with False Cons.IH show ?thesis by simp
  qed
qed simp

lemma slice3:
  "length xs = k \<Longrightarrow> length d = n \<Longrightarrow>
     octets k n (xs @ d @ ys) = d \<and> take k (xs @ d @ ys) = xs \<and> drop (k + n) (xs @ d @ ys) = ys"
  by (auto simp: octets_def)

lemma encode_options_auth:
  assumes "length (AuInfo a) = 17"
  shows "encode_option6 \<lparr>Code6 = OptV6Auth, Data6 = EncodeAuth a\<rparr>
    = (be16 11 @ be16 28 @ [AuProtocol a, AuAlgorithm a, AuRDM a] @ be64 (AuReplay a) @ [AuInfo a ! 0]) @ drop 1 (AuInfo a)"
  using assms by (cases "AuInfo a") (simp_all add: encode_option6_def EncodeAuth_def)

text \<open>
  C32: A Reconfigure verifies under a key exactly when the key has 16 octets, the options of the received
  octets contain one Authentication option, it has the RKAP shape, and its value is the HMAC-MD5 of the
  received message with sixteen zeros in the place of that value and nothing else changed.
\<close>

theorem rkap_verify_iff:
  "RKAPVerify raw key = Inr () \<longleftrightarrow> length key = RKAPValueLen \<and> V6HeaderLen \<le> length raw
     \<and> (\<exists>pre a post t d. ParseOptionsV6 (drop V6HeaderLen raw) = Inr (pre @ \<lparr>Code6 = OptV6Auth, Data6 = EncodeAuth a\<rparr> # post)
          \<and> All6 (pre @ post) OptV6Auth = [] \<and> RKAP a = Inr (t, d)
          \<and> d = hmacMD5 key (take V6HeaderLen raw @ concat (map encode_option6
              (pre @ \<lparr>Code6 = OptV6Auth, Data6 = EncodeAuth (a\<lparr>AuInfo := t # replicate RKAPValueLen 0\<rparr>)\<rparr> # post))))"
proof (cases "length key = RKAPValueLen \<and> V6HeaderLen \<le> length raw")
  case False
  then show ?thesis by (auto simp: RKAPVerify_def rkapDigestSpan_def)
next
  case True
  let ?enc = "\<lambda>os. concat (map encode_option6 os)"
  have at: "octets k 16 raw = d \<and> clear_range k (k + 16) raw = take 4 raw @ ?enc
      (pre @ \<lparr>Code6 = OptV6Auth, Data6 = EncodeAuth (a\<lparr>AuInfo := t # replicate 16 0\<rparr>)\<rparr> # post)"
    if p: "ParseOptionsV6 (drop 4 raw) = Inr (pre @ \<lparr>Code6 = OptV6Auth, Data6 = EncodeAuth a\<rparr> # post)" and r: "RKAP a = Inr (t, d)"
      and k: "k = 4 + length (?enc pre) + 4 + AuthFixedLen + 1" for pre a post t d k
  proof -
    have i: "length (AuInfo a) = 17" "t = AuInfo a ! 0" "d = drop 1 (AuInfo a)"
      using r by (auto simp: RKAP_def split: if_splits)
    let ?h = "be16 11 @ be16 28 @ [AuProtocol a, AuAlgorithm a, AuRDM a] @ be64 (AuReplay a) @ [t]"
    have "raw = take 4 raw @ drop 4 raw" by simp
    also have "drop 4 raw = ?enc pre @ (?h @ d) @ ?enc post"
      using o6.concat_decode [OF p] encode_options_auth [OF i(1)] i by simp
    finally have raw: "raw = (take 4 raw @ ?enc pre @ ?h) @ d @ ?enc post" by simp
    have "length (take 4 raw @ ?enc pre @ ?h) = k" "length d = 16" using True i(1,3) by (simp_all add: k)
    then have "octets k 16 raw = d" "take k raw = take 4 raw @ ?enc pre @ ?h" "drop (k + 16) raw = ?enc post"
      using slice3 [of "take 4 raw @ ?enc pre @ ?h" k d 16 "?enc post", folded raw] by simp_all
    moreover have "encode_option6 \<lparr>Code6 = OptV6Auth, Data6 = EncodeAuth (a\<lparr>AuInfo := t # replicate 16 0\<rparr>)\<rparr> = ?h @ replicate 16 0"
      by (subst encode_options_auth) simp_all
    ultimately show ?thesis by (simp add: clear_range_def)
  qed
  have "RKAPVerify raw key = Inr () \<longleftrightarrow>
      (\<exists>k. rkapDigestSpan raw = Inr k \<and> octets k 16 raw = hmacMD5 key (clear_range k (k + 16) raw))"
    using True by (auto simp: RKAPVerify_def equal_constant_time_iff bind_res_eq_Inr Let_def)
  also have "\<dots> \<longleftrightarrow> (\<exists>k opts. ParseOptionsV6 (drop 4 raw) = Inr opts \<and> spans6 4 opts None = Inr (Some k)
      \<and> octets k 16 raw = hmacMD5 key (clear_range k (k + 16) raw))"
  proof -
    have "rkapDigestSpan raw = Inr k \<longleftrightarrow> rkap_walk raw 4 None = Inr (Some k)" for k
      using True by (auto simp: rkapDigestSpan_def bind_res_eq_Inr split: option.splits)
    then show ?thesis using True rkap_walk_spans [of 4 raw None] by metis
  qed
  also have "\<dots> \<longleftrightarrow> (\<exists>pre a post t d. ParseOptionsV6 (drop 4 raw) = Inr (pre @ \<lparr>Code6 = OptV6Auth, Data6 = EncodeAuth a\<rparr> # post)
        \<and> All6 (pre @ post) OptV6Auth = [] \<and> RKAP a = Inr (t, d)
        \<and> d = hmacMD5 key (take 4 raw @ ?enc (pre @ \<lparr>Code6 = OptV6Auth, Data6 = EncodeAuth (a\<lparr>AuInfo := t # replicate 16 0\<rparr>)\<rparr> # post)))"
    unfolding spans6_iff DecodeAuth_iff using at by (fastforce simp: All6_def)
  finally show ?thesis using True by simp
qed

end
