(* ===== verification/Wire_Icmp6.thy ===== *)
theory Wire_Icmp6
  imports Wire_V6
begin

text \<open>
  Neighbor discovery, \<^verbatim>\<open>src/wire/icmpv6.go\<close>: the ICMPv6 checksum, the Router Solicitation and the
  Neighbor Solicitation a client sends, and the decoders of Router Advertisements, Neighbor
  Solicitations and Neighbor Advertisements. The \<^verbatim>\<open>String\<close> methods are left out.
\<close>

section \<open>Constants and errors\<close>

abbreviation (input) ICMPv6RouterSolicit :: byte where "ICMPv6RouterSolicit \<equiv> 133"
abbreviation (input) ICMPv6RouterAdvert :: byte where "ICMPv6RouterAdvert \<equiv> 134"
abbreviation (input) ICMPv6NeighborSolicit :: byte where "ICMPv6NeighborSolicit \<equiv> 135"
abbreviation (input) ICMPv6NeighborAdvert :: byte where "ICMPv6NeighborAdvert \<equiv> 136"
abbreviation (input) ICMPv6NextHeader :: "32 word" where "ICMPv6NextHeader \<equiv> 58"

abbreviation (input) NDOptSourceLinkAddr :: byte where "NDOptSourceLinkAddr \<equiv> 1"
abbreviation (input) NDOptTargetLinkAddr :: byte where "NDOptTargetLinkAddr \<equiv> 2"
abbreviation (input) NDOptPrefixInfo :: byte where "NDOptPrefixInfo \<equiv> 3"
abbreviation (input) NDOptMTU :: byte where "NDOptMTU \<equiv> 5"
abbreviation (input) NDOptRouteInfo :: byte where "NDOptRouteInfo \<equiv> 24"
abbreviation (input) NDOptRDNSS :: byte where "NDOptRDNSS \<equiv> 25"
abbreviation (input) NDOptDNSSL :: byte where "NDOptDNSSL \<equiv> 31"
abbreviation (input) NDOptPREF64 :: byte where "NDOptPREF64 \<equiv> 38"

abbreviation (input) rsFixedLen :: nat where "rsFixedLen \<equiv> 8"
abbreviation (input) raFixedLen :: nat where "raFixedLen \<equiv> 16"
abbreviation (input) nsFixedLen :: nat where "nsFixedLen \<equiv> 24"
abbreviation (input) naFixedLen :: nat where "naFixedLen \<equiv> 24"
abbreviation (input) pioLen :: nat where "pioLen \<equiv> 32"
abbreviation (input) mtuOptLen :: nat where "mtuOptLen \<equiv> 8"
abbreviation (input) rioMinUnits :: nat where "rioMinUnits \<equiv> 1"
abbreviation (input) rioMaxUnits :: nat where "rioMaxUnits \<equiv> 3"
abbreviation (input) rdnssMinUnits :: nat where "rdnssMinUnits \<equiv> 3"
abbreviation (input) dnsslMinUnits :: nat where "dnsslMinUnits \<equiv> 2"
abbreviation (input) pref64Len :: nat where "pref64Len \<equiv> 16"

datatype icmp6_error = ErrICMPv6Short | ErrICMPv6Type | ErrNDOption | ErrICMPv6Validity
  | ErrICMPv6Encode | ErrNotIPv6

section \<open>The checksum\<close>

text \<open>The octets as 16-bit words, the last one padded with a zero octet.\<close>

fun words16 :: "byte list \<Rightarrow> 32 word list" where
  "words16 [] = []"
| "words16 [a] = [push_bit 8 (ucast a)]"
| "words16 (a # b # r) = (push_bit 8 (ucast a) OR ucast b) # words16 r"

lemma fold16_less: "drop_bit 16 (s :: 32 word) \<noteq> 0 \<Longrightarrow> unat (drop_bit 16 s + (s AND 0xFFFF)) < unat s"
proof -
  assume nz: "drop_bit 16 s \<noteq> 0"
  have lo: "s AND 0xFFFF = take_bit 16 s" by (simp add: take_bit_eq_mask mask_eq_exp_minus_1)
  have d: "unat (drop_bit 16 s) = unat s div 65536" "unat (take_bit 16 s) = unat s mod 65536"
    by (simp_all add: drop_bit_eq_div take_bit_eq_mod unat_div unat_mod)
  have "unat s div 65536 \<noteq> 0" using nz d(1) by (metis unsigned_0 unsigned_word_eqI)
  then have "unat s div 65536 + unat s mod 65536 < unat s"
    using div_mult_mod_eq [of "unat s" 65536] by linarith
  moreover have "unat (drop_bit 16 s + take_bit 16 s) \<le> unat s div 65536 + unat s mod 65536"
    using d unat_add_lem [of "drop_bit 16 s" "take_bit 16 s"] by (metis le_refl unat_word_ariths(1) mod_less_eq_dividend)
  ultimately show ?thesis by (simp add: lo)
qed

function fold16 :: "32 word \<Rightarrow> 32 word" where
  "fold16 s = (if drop_bit 16 s \<noteq> 0 then fold16 (drop_bit 16 s + (s AND 0xFFFF)) else s)"
  by pat_completeness auto
termination by (relation "measure unat") (use fold16_less in auto)

declare fold16.simps [simp del]

definition pseudo_sum :: "addr \<Rightarrow> addr \<Rightarrow> nat \<Rightarrow> 32 word" where
  "pseudo_sum src dst len =
     (let n = of_nat len in
      sum_list (words16 (As16 src)) + sum_list (words16 (As16 dst)) + drop_bit 16 n + (n AND 0xFFFF) + ICMPv6NextHeader)"

definition ICMPv6Checksum :: "addr \<Rightarrow> addr \<Rightarrow> byte list \<Rightarrow> 16 word" where
  "ICMPv6Checksum src dst body =
     (let ws = words16 body; sum = pseudo_sum src dst (length body) + sum_list (take 1 ws @ drop 2 ws)
      in NOT (ucast (fold16 sum)))"

definition VerifyICMPv6Checksum :: "addr \<Rightarrow> addr \<Rightarrow> byte list \<Rightarrow> bool" where
  "VerifyICMPv6Checksum src dst body \<longleftrightarrow>
     length body \<ge> 4 \<and> ube16 (octets 2 2 body) = ICMPv6Checksum src dst body"

section \<open>What a client sends\<close>

record ICMPv6Packet =
  icSrc :: addr
  icDst :: addr
  icBody :: "byte list"

definition AllNodesMulticast :: addr where
  "AllNodesMulticast = Addr6 0xFF020000000000000000000000000001"

definition AllRoutersMulticast :: addr where
  "AllRoutersMulticast = Addr6 0xFF020000000000000000000000000002"

definition requireIPv6 :: "addr \<Rightarrow> icmp6_error + unit" where
  "requireIPv6 a = (if \<not> Is6 a \<or> Is4In6 a then Inl ErrNotIPv6 else Inr ())"

definition encodeLinkAddrOption :: "byte \<Rightarrow> byte list \<Rightarrow> icmp6_error + byte list" where
  "encodeLinkAddrOption typ hw = (if length hw \<noteq> 6 then Inl ErrICMPv6Encode else Inr ([typ, 1] @ hw))"

text \<open>Writing the checksum into octets 2 and 3.\<close>

definition put_checksum :: "addr \<Rightarrow> addr \<Rightarrow> byte list \<Rightarrow> byte list" where
  "put_checksum src dst body = take 2 body @ be16 (ICMPv6Checksum src dst body) @ drop 4 body"

definition EncodeRouterSolicit :: "addr \<Rightarrow> byte list \<Rightarrow> icmp6_error + ICMPv6Packet" where
  "EncodeRouterSolicit src linkHW = bind_res (requireIPv6 src) (\<lambda>_.
     bind_res (if \<not> IsUnspecified src \<and> linkHW \<noteq> [] then encodeLinkAddrOption NDOptSourceLinkAddr linkHW
               else if IsUnspecified src \<and> linkHW \<noteq> [] then Inl ErrICMPv6Encode
               else Inr []) (\<lambda>opt.
       let body = [ICMPv6RouterSolicit, 0, 0, 0, 0, 0, 0, 0] @ opt; dst = AllRoutersMulticast
       in Inr \<lparr>icSrc = src, icDst = dst, icBody = put_checksum src dst body\<rparr>))"

definition SolicitedNodeMulticast :: "addr \<Rightarrow> icmp6_error + addr" where
  "SolicitedNodeMulticast a = bind_res (requireIPv6 a) (\<lambda>_.
     Inr (AddrFrom16 ([0xFF, 0x02, 0, 0, 0, 0, 0, 0, 0, 0, 0, 0x01, 0xFF] @ octets 13 3 (As16 a))))"

definition LinkLocalFromMAC :: "byte list \<Rightarrow> icmp6_error + addr" where
  "LinkLocalFromMAC mac =
     (if length mac \<noteq> 6 then Inl ErrICMPv6Encode
      else Inr (AddrFrom16 [0xFE, 0x80, 0, 0, 0, 0, 0, 0, mac ! 0 XOR 0x02, mac ! 1, mac ! 2, 0xFF, 0xFE, mac ! 3, mac ! 4, mac ! 5]))"

definition EncodeDADNeighborSolicit :: "addr \<Rightarrow> icmp6_error + ICMPv6Packet" where
  "EncodeDADNeighborSolicit target = bind_res (requireIPv6 target) (\<lambda>_.
     if IsMulticast target then Inl ErrICMPv6Encode
     else bind_res (SolicitedNodeMulticast target) (\<lambda>dst.
       let src = Addr6 0; body = [ICMPv6NeighborSolicit, 0, 0, 0, 0, 0, 0, 0] @ As16 target
       in Inr \<lparr>icSrc = src, icDst = dst, icBody = put_checksum src dst body\<rparr>))"

section \<open>Options of neighbor discovery\<close>

text \<open>\<^verbatim>\<open>walkNDOptions\<close> as the list of what its callback is given; no callback fails.\<close>

function nd_options :: "byte list \<Rightarrow> icmp6_error + (byte \<times> byte list) list" where
  "nd_options b =
     (if b = [] then Inr []
      else if length b < 2 then Inl ErrNDOption
      else let n = unat (b ! 1) * 8 in
        if n = 0 then Inl ErrNDOption
        else if n > length b then Inl ErrNDOption
        else bind_res (nd_options (drop n b)) (\<lambda>os. Inr ((b ! 0, take n b) # os)))"
  by pat_completeness auto
termination by (relation "measure length") auto

declare nd_options.simps [simp del]

section \<open>Router Advertisements\<close>

record PrefixInfo =
  piLen :: byte
  piOnLink :: bool
  piAutonomous :: bool
  piValid :: "32 word"
  piPreferred :: "32 word"
  piPrefix :: addr

datatype RoutePreference = RoutePrefLow | RoutePrefMedium | RoutePrefHigh

record RouteInfo =
  riPrefix :: prefix
  riPref :: RoutePreference
  riLifetime :: "32 word"

record RDNSS =
  rdLifetime :: "32 word"
  rdAddrs :: "addr list"

record DNSSL =
  dlLifetime :: "32 word"
  dlNames :: "gostring list"

record PREF64 =
  p64Prefix :: prefix
  p64Lifetime :: "32 word"

definition Withdrawn :: "PREF64 \<Rightarrow> bool" where
  "Withdrawn p \<longleftrightarrow> p64Lifetime p = 0"

record RouterAdvert =
  raHopLimit :: byte
  raManaged :: bool
  raOther :: bool
  raLifetime :: "16 word"
  raPreference :: RoutePreference
  raReachable :: "32 word"
  raRetrans :: "32 word"
  raPrefixes :: "PrefixInfo list"
  raRouter :: addr
  raMTU :: "32 word"
  raRoutes :: "RouteInfo list"
  raRDNSS :: "RDNSS list"
  raDNSSL :: "DNSSL list"
  raPREF64 :: "PREF64 list"
  raIgnored :: nat

definition decodeRoutePreference :: "byte \<Rightarrow> RoutePreference \<times> bool" where
  "decodeRoutePreference b =
     (let v = drop_bit 3 b AND 0x3 in
      if v = 0 then (RoutePrefMedium, True)
      else if v = 1 then (RoutePrefHigh, True)
      else if v = 3 then (RoutePrefLow, True)
      else (RoutePrefMedium, False))"

definition decodeRouterPreference :: "byte \<Rightarrow> 16 word \<Rightarrow> RoutePreference" where
  "decodeRouterPreference flags lifetime =
     (if lifetime = 0 then RoutePrefMedium
      else case decodeRoutePreference flags of (pref, ok) \<Rightarrow> if \<not> ok then RoutePrefMedium else pref)"

definition pref64Lengths :: "int list" where
  "pref64Lengths = [96, 64, 56, 48, 40, 32]"

definition decodePREF64 :: "byte list \<Rightarrow> PREF64 option" where
  "decodePREF64 opt =
     (if length opt \<noteq> pref64Len then None
      else let field = ube16 (octets 2 2 opt); plc = unat (field AND 0x7) in
        if plc \<ge> length pref64Lengths then None
        else Some \<lparr>p64Prefix = Masked (PrefixFrom (AddrFrom16 (octets 4 12 opt @ replicate 4 0)) (pref64Lengths ! plc)),
                   p64Lifetime = ucast (drop_bit 3 field) * 8\<rparr>)"

definition decodeRouteInfo :: "byte list \<Rightarrow> RouteInfo option" where
  "decodeRouteInfo opt =
     (let units = length opt div 8 in
      if units < rioMinUnits \<or> units > rioMaxUnits then None
      else let plen = unat (opt ! 2) in
        if plen > 128 then None
        else if plen > 64 \<and> units \<noteq> 3 then None
        else if plen > 0 \<and> units < 2 then None
        else case decodeRoutePreference (opt ! 3) of (pref, ok) \<Rightarrow>
          if \<not> ok then None
          else let pfx = PrefixFrom (AddrFrom16 (copy_field 16 (drop 8 opt))) (int plen) in
            if \<not> PrefixIsValid pfx then None
            else Some \<lparr>riPrefix = Masked pfx, riPref = pref, riLifetime = ube32 (octets 4 4 opt)\<rparr>)"

definition decodeRDNSS :: "byte list \<Rightarrow> RDNSS option" where
  "decodeRDNSS opt =
     (let units = length opt div 8 in
      if units < rdnssMinUnits \<or> (units - 1) mod 2 \<noteq> 0 then None
      else let addrs = addr16_groups (drop 8 opt) in
        if list_ex (\<lambda>a. IsMulticast a \<or> IsUnspecified a) addrs then None
        else if addrs = [] then None
        else Some \<lparr>rdLifetime = ube32 (octets 4 4 opt), rdAddrs = addrs\<rparr>)"

definition decodeDNSSL :: "byte list \<Rightarrow> DNSSL option" where
  "decodeDNSSL opt =
     (if length opt div 8 < dnsslMinUnits then None
      else case search_list6 opt 8 of
        Inl e \<Rightarrow> None
      | Inr names \<Rightarrow> if names = [] then None else Some \<lparr>dlLifetime = ube32 (octets 4 4 opt), dlNames = names\<rparr>)"

abbreviation (input) raFlagManaged :: byte where "raFlagManaged \<equiv> 0x80"
abbreviation (input) raFlagOther :: byte where "raFlagOther \<equiv> 0x40"
abbreviation (input) pioFlagOnLink :: byte where "pioFlagOnLink \<equiv> 0x80"
abbreviation (input) pioFlagAuto :: byte where "pioFlagAuto \<equiv> 0x40"

definition decodePrefixInfo :: "byte list \<Rightarrow> PrefixInfo" where
  "decodePrefixInfo opt =
     \<lparr>piLen = opt ! 2, piOnLink = (opt ! 3 AND pioFlagOnLink \<noteq> 0), piAutonomous = (opt ! 3 AND pioFlagAuto \<noteq> 0),
      piValid = ube32 (octets 4 4 opt), piPreferred = ube32 (octets 8 4 opt), piPrefix = AddrFrom16 (octets 16 16 opt)\<rparr>"

text \<open>The callback of \<^verbatim>\<open>DecodeRouterAdvert\<close>.\<close>

definition ra_option :: "byte \<times> byte list \<Rightarrow> RouterAdvert \<Rightarrow> RouterAdvert" where
  "ra_option to ra =
     (case to of (typ, opt) \<Rightarrow>
        let ignore = ra\<lparr>raIgnored := raIgnored ra + 1\<rparr> in
        if typ = NDOptPrefixInfo then
          if length opt \<noteq> pioLen then ignore else ra\<lparr>raPrefixes := raPrefixes ra @ [decodePrefixInfo opt]\<rparr>
        else if typ = NDOptMTU then
          if length opt \<noteq> mtuOptLen then ignore else ra\<lparr>raMTU := ube32 (octets 4 4 opt)\<rparr>
        else if typ = NDOptRouteInfo then
          (case decodeRouteInfo opt of None \<Rightarrow> ignore | Some ri \<Rightarrow> ra\<lparr>raRoutes := raRoutes ra @ [ri]\<rparr>)
        else if typ = NDOptRDNSS then
          (case decodeRDNSS opt of None \<Rightarrow> ignore | Some r \<Rightarrow> ra\<lparr>raRDNSS := raRDNSS ra @ [r]\<rparr>)
        else if typ = NDOptDNSSL then
          (case decodeDNSSL opt of None \<Rightarrow> ignore | Some d \<Rightarrow> ra\<lparr>raDNSSL := raDNSSL ra @ [d]\<rparr>)
        else if typ = NDOptPREF64 then
          (case decodePREF64 opt of None \<Rightarrow> ignore | Some p \<Rightarrow> ra\<lparr>raPREF64 := raPREF64 ra @ [p]\<rparr>)
        else ra)"

definition requireZeroCode :: "byte \<Rightarrow> icmp6_error + unit" where
  "requireZeroCode code = (if code = 0 then Inr () else Inl ErrICMPv6Validity)"

definition DecodeRouterAdvert :: "byte list \<Rightarrow> icmp6_error + RouterAdvert" where
  "DecodeRouterAdvert b =
     (if length b < raFixedLen then Inl ErrICMPv6Short
      else if b ! 0 \<noteq> ICMPv6RouterAdvert then Inl ErrICMPv6Type
      else bind_res (requireZeroCode (b ! 1)) (\<lambda>_.
        let ra = \<lparr>raHopLimit = b ! 4, raManaged = (b ! 5 AND raFlagManaged \<noteq> 0), raOther = (b ! 5 AND raFlagOther \<noteq> 0),
              raLifetime = ube16 (octets 6 2 b), raPreference = decodeRouterPreference (b ! 5) (ube16 (octets 6 2 b)),
              raReachable = ube32 (octets 8 4 b), raRetrans = ube32 (octets 12 4 b), raPrefixes = [], raRouter = NoAddr,
              raMTU = 0, raRoutes = [], raRDNSS = [], raDNSSL = [], raPREF64 = [], raIgnored = 0\<rparr>
        in bind_res (nd_options (drop raFixedLen b)) (\<lambda>os. Inr (fold ra_option os ra))))"

section \<open>Neighbor Solicitations and Advertisements\<close>

record NeighborSolicit =
  nsTarget :: addr
  nsHasSource :: bool

definition DecodeNeighborSolicit :: "byte list \<Rightarrow> icmp6_error + NeighborSolicit" where
  "DecodeNeighborSolicit b =
     (if length b < nsFixedLen then Inl ErrICMPv6Short
      else if b ! 0 \<noteq> ICMPv6NeighborSolicit then Inl ErrICMPv6Type
      else bind_res (requireZeroCode (b ! 1)) (\<lambda>_.
        let target = AddrFrom16 (octets 8 16 b) in
        if IsMulticast target then Inl ErrICMPv6Validity
        else bind_res (nd_options (drop nsFixedLen b)) (\<lambda>os.
          Inr \<lparr>nsTarget = target, nsHasSource = list_ex (\<lambda>(typ, _). typ = NDOptSourceLinkAddr) os\<rparr>)))"

abbreviation (input) naFlagRouter :: byte where "naFlagRouter \<equiv> 0x80"
abbreviation (input) naFlagSolicited :: byte where "naFlagSolicited \<equiv> 0x40"
abbreviation (input) naFlagOverride :: byte where "naFlagOverride \<equiv> 0x20"

record NeighborAdvert =
  naRouter :: bool
  naSolicited :: bool
  naOverride :: bool
  naTarget :: addr

definition DecodeNeighborAdvert :: "byte list \<Rightarrow> icmp6_error + NeighborAdvert" where
  "DecodeNeighborAdvert b =
     (if length b < naFixedLen then Inl ErrICMPv6Short
      else if b ! 0 \<noteq> ICMPv6NeighborAdvert then Inl ErrICMPv6Type
      else bind_res (requireZeroCode (b ! 1)) (\<lambda>_.
        let target = AddrFrom16 (octets 8 16 b) in
        if IsMulticast target then Inl ErrICMPv6Validity
        else bind_res (nd_options (drop naFixedLen b)) (\<lambda>_.
          Inr \<lparr>naRouter = (b ! 4 AND naFlagRouter \<noteq> 0), naSolicited = (b ! 4 AND naFlagSolicited \<noteq> 0),
               naOverride = (b ! 4 AND naFlagOverride \<noteq> 0), naTarget = target\<rparr>)))"

end
