(* ===== verification/Wire_Icmp6_Properties.thy ===== *)
theory Wire_Icmp6_Properties
  imports Wire_Icmp6
begin

text \<open>
  The checksum of \<^verbatim>\<open>icmpv6.go\<close> is the one's complement sum of RFC 1071, and a decoded Router
  Advertisement says exactly what its options say.
\<close>

section \<open>The checksum\<close>

lemma fold16_nat: "s \<noteq> 0 \<Longrightarrow> unat (fold16 s) = (unat s - 1) mod 65535 + 1"
proof (induction s rule: fold16.induct)
  case (1 s)
  have lo: "s AND 0xFFFF = take_bit 16 s" by (simp add: take_bit_eq_mask mask_eq_exp_minus_1)
  have d: "unat (drop_bit 16 s) = unat s div 65536" "unat (s AND 0xFFFF) = unat s mod 65536"
    by (simp_all add: lo drop_bit_eq_div take_bit_eq_mod unat_div unat_mod)
  have pos: "0 < unat s" using "1.prems" by (simp add: unat_gt_0)
  show ?case
  proof (cases "drop_bit 16 s = 0")
    case True
    then have "unat s div 65536 = 0" using d(1) by simp
    then have "unat s - 1 < 65535" using pos by auto
    with True pos show ?thesis by (simp add: fold16.simps)
  next
    case False
    let ?t = "drop_bit 16 s + (s AND 0xFFFF)"
    have "unat s < 2 ^ 32" using unsigned_less [of s] by simp
    then have "unat s div 65536 + unat s mod 65536 < 2 ^ 32" by linarith
    then have t: "unat ?t = unat s div 65536 + unat s mod 65536" by (simp add: d unat_word_ariths)
    have nz: "unat s div 65536 \<noteq> 0" using False d(1) by (metis unsigned_0 unsigned_word_eqI)
    then have "?t \<noteq> 0" using t by (metis add_is_0 unsigned_0)
    from "1.IH" [OF False this] have "unat (fold16 s) = (unat s div 65536 + unat s mod 65536 - 1) mod 65535 + 1"
      using False by (simp add: fold16.simps [of s] t)
    moreover have "(unat s - 1) = (unat s div 65536 + unat s mod 65536 - 1) + 65535 * (unat s div 65536)"
      using nz div_mult_mod_eq [of "unat s" 65536] by linarith
    ultimately show ?thesis by simp
  qed
qed

definition sum16 :: "byte list \<Rightarrow> nat" where
  "sum16 b = sum_list (map unat (words16 b))"

definition pseudo_nat :: "addr \<Rightarrow> addr \<Rightarrow> nat \<Rightarrow> nat" where
  "pseudo_nat src dst len = sum16 (As16 src) + sum16 (As16 dst) + len div 65536 + len mod 65536 + 58"

lemma two_octets_32: "(push_bit 8 (ucast (a :: byte)) OR ucast (b :: byte) :: 32 word) = ucast (push_bit 8 (ucast a) OR ucast b :: 16 word)"
  by (rule bit_word_eqI) (auto simp: bit_simps dest: bit_imp_le_length)

lemma unat_16_le: "unat (w :: 16 word) \<le> 65535"
proof -
  have "unat w < 2 ^ 16" using unsigned_less [of w] by simp
  then show ?thesis by simp
qed

lemma unat_16_32: "unat (ucast (w :: 16 word) :: 32 word) = unat w"
proof -
  have "unat w < 2 ^ 32" using unat_16_le [of w] by simp
  then show ?thesis by (simp add: unsigned_ucast_eq take_bit_nat_eq_self)
qed

lemma words16_bound: "w \<in> set (words16 b) \<Longrightarrow> unat w \<le> 65535"
proof (induction b rule: words16.induct)
  case (2 a)
  have "(push_bit 8 (ucast a) :: 32 word) = ucast (push_bit 8 (ucast a) OR ucast (0 :: byte) :: 16 word)"
    using two_octets_32 [of a 0] by simp
  with 2 show ?case by (simp add: unat_16_32 unat_16_le)
next
  case (3 a b r)
  then show ?case by (auto simp: two_octets_32 unat_16_32 unat_16_le)
qed simp

lemma length_words16: "length (words16 b) = (length b + 1) div 2"
  by (induction b rule: words16.induct) simp_all

lemma sum_words:
  assumes "list_all (\<lambda>w. unat w \<le> 65535) ws" "length ws \<le> 65536"
  shows "unat (sum_list (ws :: 32 word list)) = sum_list (map unat ws) \<and> sum_list (map unat ws) \<le> 65535 * length ws"
  using assms
proof (induction ws)
  case (Cons w ws)
  then have "unat (sum_list ws) = sum_list (map unat ws)" "sum_list (map unat ws) \<le> 65535 * length ws" "unat w \<le> 65535" by simp_all
  moreover from this have "unat w + unat (sum_list ws) < 2 ^ 32" using Cons.prems(2) by simp
  ultimately show ?case by (simp add: unat_word_ariths)
qed simp

lemma words16_sum: "length b \<le> 65536 \<Longrightarrow> unat (sum_list (words16 b)) = sum16 b \<and> sum16 b \<le> 65535 * ((length b + 1) div 2)"
  using sum_words [of "words16 b"] words16_bound [of _ b] by (auto simp: sum16_def list_all_iff length_words16)

lemma unat_plus32: "unat a + unat b < 2 ^ 32 \<Longrightarrow> unat (a + b :: 32 word) = unat a + unat b"
  by (simp add: unat_word_ariths)

lemma pseudo_sum_nat:
  assumes "len \<le> 65535"
  shows "unat (pseudo_sum src dst len) = pseudo_nat src dst len \<and> pseudo_nat src dst len \<le> 16 * 65535 + 65593"
proof -
  have a: "unat (sum_list (words16 (As16 x))) = sum16 (As16 x)" "sum16 (As16 x) \<le> 524280" for x
    using words16_sum [of "As16 x"] by simp_all
  have n: "unat (of_nat len :: 32 word) = len" using assms by (simp add: unat_of_nat take_bit_eq_mod)
  have lo: "(of_nat len :: 32 word) AND 0xFFFF = take_bit 16 (of_nat len)" by (simp add: take_bit_eq_mask mask_eq_exp_minus_1)
  have d: "unat (drop_bit 16 (of_nat len :: 32 word)) = len div 65536" "unat ((of_nat len :: 32 word) AND 0xFFFF) = len mod 65536"
    unfolding lo by (simp_all add: n drop_bit_eq_div take_bit_eq_mod unat_div unat_mod)
  let ?a = "sum_list (words16 (As16 src))" and ?b = "sum_list (words16 (As16 dst))"
  let ?h = "drop_bit 16 (of_nat len :: 32 word)" and ?l = "(of_nat len :: 32 word) AND 0xFFFF"
  have b: "unat ?a \<le> 524280" "unat ?b \<le> 524280" using a by simp_all
  have hl: "unat ?h = 0" "unat ?l = len" using d assms by simp_all
  have s1: "unat (?a + ?b) = unat ?a + unat ?b" by (rule unat_plus32) (use b in simp)
  have s2: "unat (?a + ?b + ?h) = unat ?a + unat ?b" using unat_plus32 [of "?a + ?b" ?h] s1 b hl by simp
  have s3: "unat (?a + ?b + ?h + ?l) = unat ?a + unat ?b + len"
    using unat_plus32 [of "?a + ?b + ?h" ?l] s2 b hl(2) assms by simp
  have "unat (pseudo_sum src dst len) = unat ?a + unat ?b + len + 58"
    using unat_plus32 [of "?a + ?b + ?h + ?l" 58] s3 b assms by (simp add: pseudo_sum_def Let_def)
  moreover have "unat ?a + unat ?b \<le> 16 * 65535" using b by simp
  ultimately show ?thesis using a(1) [of src] a(1) [of dst] assms by (simp add: pseudo_nat_def)
qed

lemma words16_split:
  assumes "4 \<le> length body"
  shows "take 1 (words16 body) @ drop 2 (words16 body) = words16 (take 2 body @ drop 4 body)"
    "sum16 body = sum16 (take 2 body @ drop 4 body) + unat (ube16 (octets 2 2 body))"
proof -
  obtain a b c d r where b: "body = a # b # c # d # r"
    using assms by (cases body; cases "tl body"; cases "tl (tl body)"; cases "tl (tl (tl body))") auto
  have "unat (push_bit 8 (ucast c) OR ucast d :: 32 word) = unat (push_bit 8 (ucast c) OR ucast d :: 16 word)"
    by (simp only: two_octets_32 unat_16_32)
  then show "take 1 (words16 body) @ drop 2 (words16 body) = words16 (take 2 body @ drop 4 body)"
    "sum16 body = sum16 (take 2 body @ drop 4 body) + unat (ube16 (octets 2 2 body))"
    by (simp_all add: b sum16_def octets_def ube16_def)
qed

lemma ones_complement:
  fixes c S f :: nat
  assumes "0 < S" "f = (S - 1) mod 65535 + 1" "c \<le> 65535"
  shows "c = 65535 - f \<longleftrightarrow> c \<noteq> 65535 \<and> (S + c) mod 65535 = 0"
proof -
  have f: "1 \<le> f" "f \<le> 65535" using assms(2) by (simp_all add: Suc_le_eq)
  have "(S + c) mod 65535 = ((S - 1) mod 65535 + (1 + c)) mod 65535"
    using assms(1) by (metis Suc_diff_1 add_Suc add_Suc_right mod_add_left_eq plus_1_eq_Suc)
  then have m: "(S + c) mod 65535 = (f + c) mod 65535" by (simp add: assms(2))
  have "(f + c) mod 65535 = 0 \<longleftrightarrow> f + c = 65535 \<or> f + c = 131070"
  proof
    assume "(f + c) mod 65535 = 0"
    then obtain k where "f + c = 65535 * k" by auto
    then have "1 \<le> k \<and> k \<le> 2" using f assms(3) by linarith
    then have "k = 1 \<or> k = 2" by linarith
    with \<open>f + c = 65535 * k\<close> show "f + c = 65535 \<or> f + c = 131070" by auto
  qed auto
  with m f assms(3) show ?thesis by auto
qed



section \<open>What a decoded Router Advertisement holds\<close>

definition ri_ok :: "RouteInfo \<Rightarrow> bool" where
  "ri_ok r \<longleftrightarrow> PrefixIsValid (riPrefix r) \<and> Masked (riPrefix r) = riPrefix r"

definition rdnss_ok :: "RDNSS \<Rightarrow> bool" where
  "rdnss_ok r \<longleftrightarrow> rdAddrs r \<noteq> [] \<and> list_all (\<lambda>a. Is6 a \<and> \<not> IsMulticast a \<and> \<not> IsUnspecified a) (rdAddrs r)"

definition pref64_ok :: "PREF64 \<Rightarrow> bool" where
  "pref64_ok p \<longleftrightarrow> pbits (p64Prefix p) \<in> set pref64Lengths \<and> Masked (p64Prefix p) = p64Prefix p
     \<and> unat (p64Lifetime p) mod 8 = 0 \<and> unat (p64Lifetime p) \<le> 65528"

definition advert_ok :: "RouterAdvert \<Rightarrow> bool" where
  "advert_ok ra \<longleftrightarrow> list_all ri_ok (raRoutes ra) \<and> list_all rdnss_ok (raRDNSS ra)
     \<and> list_all (\<lambda>d. dlNames d \<noteq> []) (raDNSSL ra) \<and> list_all pref64_ok (raPREF64 ra)
     \<and> list_all (\<lambda>p. Is6 (piPrefix p)) (raPrefixes ra)
     \<and> (raLifetime ra = 0 \<longrightarrow> raPreference ra = RoutePrefMedium)"

lemma PrefixIsValid_Masked: "PrefixIsValid p \<Longrightarrow> Is6 (paddr p) \<Longrightarrow> PrefixIsValid (Masked p)"
  by (cases "paddr p") (auto simp: PrefixIsValid_def Masked_def)

lemma decodeRouteInfo_ok: "decodeRouteInfo opt = Some r \<Longrightarrow> ri_ok r"
  by (auto simp: decodeRouteInfo_def ri_ok_def Let_def PrefixFrom_def AddrFrom16_def
      intro!: PrefixIsValid_Masked split: if_splits prod.splits)

lemma addr16_groups_Is6: "list_all Is6 (addr16_groups v)"
proof (induction v rule: addr16_groups.induct)
  case (1 v)
  then show ?case by (cases "length v < 16") (simp_all add: addr16_groups.simps [of v])
qed

lemma decodeRDNSS_ok: "decodeRDNSS opt = Some r \<Longrightarrow> rdnss_ok r"
  using addr16_groups_Is6 [of "drop 8 opt"]
  by (auto simp: decodeRDNSS_def rdnss_ok_def Let_def list_all_iff list_ex_iff split: if_splits)

lemma decodeDNSSL_ok: "decodeDNSSL opt = Some d \<Longrightarrow> dlNames d \<noteq> []"
  by (auto simp: decodeDNSSL_def split: if_splits sum.splits)

lemma scaled_lifetime:
  fixes f :: "16 word"
  shows "unat (ucast (drop_bit 3 f) * 8 :: 32 word) = unat f div 8 * 8"
proof -
  have "unat (drop_bit 3 f) = unat f div 8" by (simp add: drop_bit_eq_div unat_div)
  moreover have "unat (ucast (drop_bit 3 f) :: 32 word) = unat (drop_bit 3 f)" by (rule unat_16_32)
  moreover have "unat f div 8 * 8 < 2 ^ 32" using unat_16_le [of f] by simp
  ultimately show ?thesis by (simp add: unat_word_ariths)
qed

lemma decodePREF64_ok: "decodePREF64 opt = Some p \<Longrightarrow> pref64_ok p"
proof -
  assume d: "decodePREF64 opt = Some p"
  let ?f = "ube16 (octets 2 2 opt)" and ?a = "AddrFrom16 (octets 4 12 opt @ replicate 4 0)"
  let ?n = "pref64Lengths ! unat (?f AND 7)"
  have p: "unat (?f AND 7) < length pref64Lengths"
    "p64Prefix p = Masked (PrefixFrom ?a ?n)" "p64Lifetime p = ucast (drop_bit 3 ?f) * 8"
    using d by (auto simp: decodePREF64_def Let_def split: if_splits)
  have n: "?n \<in> set pref64Lengths" using p(1) by (rule nth_mem)
  then have "0 \<le> ?n \<and> ?n \<le> 128" by (auto simp: pref64Lengths_def)
  then have "pbits (p64Prefix p) = ?n" by (simp add: p(2) PrefixFrom_def AddrFrom16_def Masked_def)
  moreover have "unat ?f div 8 * 8 \<le> 65528" using div_le_mono [OF unat_16_le, of ?f 8] by simp
  ultimately show ?thesis using n by (simp add: pref64_ok_def p(2) p(3) scaled_lifetime)
qed

lemma ra_option_ok: "advert_ok ra \<Longrightarrow> advert_ok (ra_option to ra)"
  by (cases to) (auto simp: ra_option_def advert_ok_def Let_def decodePrefixInfo_def decodeRouteInfo_ok decodeRDNSS_ok
      decodeDNSSL_ok decodePREF64_ok split: option.split)

lemma fold_ra_option_ok: "advert_ok ra \<Longrightarrow> advert_ok (fold ra_option os ra)"
  by (induction os arbitrary: ra) (simp_all add: ra_option_ok)

text \<open>
  C35: Whatever octets a router sends, what DecodeRouterAdvert accepts is well formed: routes have valid
  prefixes with no host bits, resolvers are unicast IPv6 addresses and never an empty list, search lists
  are not empty, a PREF64 prefix has one of the six lengths and a lifetime that is a multiple of 8 up to
  65528 seconds, and a router that is not a default router has medium preference.
\<close>

theorem advert_wellformed: "DecodeRouterAdvert b = Inr ra \<Longrightarrow> advert_ok ra"
proof -
  assume "DecodeRouterAdvert b = Inr ra"
  then obtain r0 os where "ra = fold ra_option os r0" "raRoutes r0 = []" "raRDNSS r0 = []" "raDNSSL r0 = []"
    "raPREF64 r0 = []" "raPrefixes r0 = []" "raLifetime r0 = 0 \<longrightarrow> raPreference r0 = RoutePrefMedium"
    by (fastforce simp: DecodeRouterAdvert_def Let_def bind_res_eq_Inr decodeRouterPreference_def split: if_splits)
  then show ?thesis by (simp add: fold_ra_option_ok advert_ok_def [of r0])
qed

lemma advert_wellformed_witness: "advert_ok (the (case DecodeRouterAdvert
    ([134, 0, 0, 0, 64, 0xC8, 7, 8, 0, 0, 0, 0, 0, 0, 0, 0] @ [38, 2, 7, 8, 0, 0x64, 0xFF, 0x9B, 0, 0, 0, 0, 0, 0, 0, 0]
     @ [24, 1, 0, 0, 0, 0, 1, 0]) of Inr r \<Rightarrow> Some r | Inl _ \<Rightarrow> None))"
proof -
  let ?b = "[134, 0, 0, 0, 64, 0xC8, 7, 8, 0, 0, 0, 0, 0, 0, 0, 0] @ [38, 2, 7, 8, 0, 0x64, 0xFF, 0x9B, 0, 0, 0, 0, 0, 0, 0, 0]
     @ [24, 1, 0, 0, 0, 0, 1, 0]"
  have "case DecodeRouterAdvert ?b of Inr r \<Rightarrow> length (raPREF64 r) = 1 \<and> length (raRoutes r) = 1 | Inl _ \<Rightarrow> False"
    by code_simp
  then obtain r where "DecodeRouterAdvert ?b = Inr r" by (auto split: sum.splits)
  with advert_wellformed [OF this] show ?thesis by simp
qed

end
