(* ===== verification/Proto_Time.thy ===== *)
theory Proto_Time
  imports Dhcp_Prelude
begin

text \<open>
  Time and retransmission of \<^verbatim>\<open>src/proto/time.go\<close> and \<^verbatim>\<open>src/proto/backoff.go\<close>. An \<open>Instant\<close>
  and a \<open>Duration\<close> are the Go \<^verbatim>\<open>int64\<close> nanosecond counts as \<open>int\<close>, every addition,
  subtraction and product reduced by \<open>i64\<close>; the entropy value of a step is a 64-bit word.
\<close>

type_synonym Instant = int
type_synonym Duration = int
type_synonym rnd64 = "64 word"

abbreviation (input) Second :: Duration where "Second \<equiv> 1000000000"

definition InfiniteSeconds :: "32 word" where "InfiniteSeconds = 0xFFFFFFFF"

definition Infinite :: Duration where "Infinite = - 1"

definition Add :: "Instant \<Rightarrow> Duration \<Rightarrow> Instant" where
  "Add t d = i64 (t + d)"

definition Sub :: "Instant \<Rightarrow> Instant \<Rightarrow> Duration" where
  "Sub t u = i64 (t - u)"

definition After :: "Instant \<Rightarrow> Instant \<Rightarrow> bool" where
  "After t u \<longleftrightarrow> t > u"

definition Seconds :: "Duration \<Rightarrow> int" where
  "Seconds d = quot64 d Second"

definition IsInfinite :: "Duration \<Rightarrow> bool" where
  "IsInfinite d \<longleftrightarrow> d = Infinite"

definition SecondsToDuration :: "32 word \<Rightarrow> Duration" where
  "SecondsToDuration secs =
     (if secs = InfiniteSeconds then Infinite else i64 (uint secs * Second))"

section \<open>Backoff\<close>

record Backoff =
  Initial :: Duration
  BMax :: Duration
  Jitter :: Duration
  MaxRetransmissions :: int

definition DefaultBackoff :: Backoff where
  "DefaultBackoff = \<lparr>Initial = 4 * Second, BMax = 64 * Second, Jitter = 1 * Second,
     MaxRetransmissions = 4\<rparr>"

text \<open>Conversion to \<^verbatim>\<open>uint64\<close>.\<close>

definition u64 :: "int \<Rightarrow> int" where
  "u64 x = x mod 18446744073709551616"

definition jitter :: "Duration \<Rightarrow> Duration \<Rightarrow> rnd64 \<Rightarrow> Duration" where
  "jitter d half rnd =
     (if half \<le> 0 then (if d < 0 then 0 else d)
      else
        let span = u64 (u64 half * 2 + 1);
            off = i64 (i64 (uint rnd mod span) - half)
        in
          if off > 0 \<and> d > max_int64 - off then max_int64
          else let d' = i64 (d + off) in if d' < 0 then 0 else d')"

text \<open>The doubling loop of \<^verbatim>\<open>Delay\<close>, its break conditions tested before each doubling.\<close>

fun double_to :: "Duration \<Rightarrow> nat \<Rightarrow> Duration \<Rightarrow> Duration" where
  "double_to mx 0 d = d"
| "double_to mx (Suc n) d =
     (if mx > 0 \<and> d \<ge> mx \<or> d > max_int64 div 2 then d else double_to mx n (i64 (d * 2)))"

definition Delay :: "Backoff \<Rightarrow> int \<Rightarrow> rnd64 \<Rightarrow> Duration" where
  "Delay b n rnd =
     (let n' = (if n < 0 then 0 else n);
          d0 = (if Initial b \<le> 0 then 0 else Initial b);
          d1 = double_to (BMax b) (nat n') d0;
          d2 = (if BMax b > 0 \<and> d1 > BMax b then BMax b else d1)
      in jitter d2 (Jitter b) rnd)"

text \<open>\<^verbatim>\<open>Backoff.validate\<close>: true when no error is returned (the one error is \<^verbatim>\<open>ErrBadBackoff\<close>).\<close>

definition valid_backoff :: "Backoff \<Rightarrow> bool" where
  "valid_backoff b \<longleftrightarrow> \<not> (Jitter b < 0 \<or> Jitter b \<ge> Initial b \<or> BMax b < Initial b)"

definition Exhausted :: "Backoff \<Rightarrow> int \<Rightarrow> bool" where
  "Exhausted b n \<longleftrightarrow> MaxRetransmissions b > 0 \<and> n \<ge> MaxRetransmissions b"

definition split64 :: "rnd64 \<Rightarrow> 64 word \<Rightarrow> rnd64" where
  "split64 rnd i =
     (let z0 = rnd + 0x9E3779B97F4A7C15 * (i + 1);
          z1 = (z0 XOR drop_bit 30 z0) * 0xBF58476D1CE4E5B9;
          z2 = (z1 XOR drop_bit 27 z1) * 0x94D049BB133111EB
      in z2 XOR drop_bit 31 z2)"

section \<open>Properties\<close>

lemma in64I: "- 9223372036854775808 \<le> x \<Longrightarrow> x \<le> max_int64 \<Longrightarrow> in64 x"
  by (simp add: in64_def)

lemma i64_mod: "i64 (i64 a - b) = i64 (a - b)"
  by (simp add: i64_def mod_simps algebra_simps)

text \<open>The jitter is an offset of at most the half width; the result never leaves \<^verbatim>\<open>int64\<close>.\<close>

lemma jitter_offset:
  fixes rnd :: rnd64
  assumes "0 < half" "half \<le> max_int64"
  defines "off \<equiv> i64 (i64 (uint rnd mod u64 (u64 half * 2 + 1)) - half)"
  shows "- half \<le> off \<and> off \<le> half"
proof -
  have sp: "u64 (u64 half * 2 + 1) = 2 * half + 1"
    using assms(1,2) by (simp add: u64_def)
  let ?r = "uint rnd mod (2 * half + 1)"
  have r: "0 \<le> ?r" "?r < 2 * half + 1"
    using assms(1) pos_mod_bound [of "2 * half + 1" "uint rnd"] by simp_all
  then have "i64 (?r - half) = ?r - half"
    using assms(1,2) by (intro i64_id in64I) linarith+
  then show ?thesis using r by (simp add: off_def sp i64_mod)
qed

lemma jitter_bounds:
  assumes "0 \<le> d" "d \<le> max_int64" "0 \<le> half" "half \<le> max_int64"
  shows "max 0 (d - half) \<le> jitter d half rnd \<and> jitter d half rnd \<le> min max_int64 (d + half)"
proof (cases "half = 0")
  case True
  then show ?thesis using assms by (simp add: jitter_def)
next
  case False
  define off where "off = i64 (i64 (uint (rnd :: rnd64) mod u64 (u64 half * 2 + 1)) - half)"
  from False assms have off: "- half \<le> off" "off \<le> half"
    using jitter_offset [of half rnd] by (auto simp: off_def)
  have "i64 (d + off) = d + off" if "\<not> (off > 0 \<and> d > max_int64 - off)"
    using that off assms by (intro i64_id in64I) linarith+
  with False assms off show ?thesis
    by (auto simp: jitter_def Let_def off_def [symmetric])
qed

lemma double_to_bounds:
  "0 < d \<Longrightarrow> d \<le> max_int64 \<Longrightarrow> d \<le> double_to mx n d \<and> double_to mx n d \<le> max_int64"
proof (induction mx n d rule: double_to.induct)
  case (2 mx n d)
  show ?case
  proof (cases "mx > 0 \<and> d \<ge> mx \<or> d > max_int64 div 2")
    case False
    then have "i64 (d * 2) = d * 2" using "2.prems" by (intro i64_id in64I) auto
    with False "2" show ?thesis by simp
  qed (use "2.prems" in auto)
qed simp

lemma double_to_exact:
  "0 < d \<Longrightarrow> d \<le> mx \<Longrightarrow> mx \<le> 2 ^ 62 \<Longrightarrow> min mx (double_to mx n d) = min mx (d * 2 ^ n)"
proof (induction mx n d rule: double_to.induct)
  case (2 mx n d)
  show ?case
  proof (cases "d = mx")
    case True
    have "d \<le> d * 2 ^ Suc n" using "2.prems"(1) mult_left_mono [of 1 "2 ^ Suc n" d] one_le_power [of "2 :: int" "Suc n"] by simp
    with True "2.prems" show ?thesis by simp
  next
    case False
    then have lt: "d < mx" "d \<le> max_int64 div 2" using "2.prems" by auto
    then have "i64 (d * 2) = d * 2" using "2.prems" by (intro i64_id in64I) auto
    moreover have "min mx (double_to mx n (d * 2)) = min mx (d * 2 * 2 ^ n)"
    proof (cases "d * 2 \<le> mx")
      case True
      with "2" lt \<open>i64 (d * 2) = d * 2\<close> show ?thesis by simp
    next
      case big: False
      have "double_to mx n (d * 2) \<ge> d * 2"
        using double_to_bounds [of "d * 2" mx n] "2.prems" lt by auto
      moreover have "d * 2 \<le> d * 2 * 2 ^ n" using "2.prems"(1) by simp
      ultimately show ?thesis using big by (simp add: min_def)
    qed
    ultimately show ?thesis using lt "2.prems" by (simp add: mult.assoc)
  qed
qed simp

lemma delay_bounds:
  assumes "valid_backoff b" "BMax b \<le> max_int64"
  shows "Initial b - Jitter b \<le> Delay b n rnd \<and> Delay b n rnd \<le> BMax b + Jitter b
    \<and> 0 < Delay b n rnd \<and> Delay b n rnd \<le> max_int64"
proof -
  from assms have v: "0 \<le> Jitter b" "Jitter b < Initial b" "Initial b \<le> BMax b"
    by (auto simp: valid_backoff_def)
  let ?d = "double_to (BMax b) (nat (if n < 0 then 0 else n)) (Initial b)"
  have d: "Initial b \<le> ?d" "?d \<le> max_int64"
    using double_to_bounds [of "Initial b" "BMax b"] v assms(2) by auto
  let ?e = "if ?d > BMax b then BMax b else ?d"
  have eq: "Delay b n rnd = jitter ?e (Jitter b) rnd" using v by (simp add: Delay_def Let_def)
  have e: "Initial b \<le> ?e" "?e \<le> BMax b" using d v by auto
  from jitter_bounds [of ?e "Jitter b" rnd] e v assms(2)
  show ?thesis unfolding eq by linarith
qed

lemma delay_exact:
  assumes "valid_backoff b" "BMax b \<le> 2 ^ 62"
  shows "Delay b n rnd = jitter (min (BMax b) (Initial b * 2 ^ nat n)) (Jitter b) rnd"
proof -
  from assms(1) have v: "0 < Initial b" "Initial b \<le> BMax b" by (auto simp: valid_backoff_def)
  then have "min (BMax b) (double_to (BMax b) (nat n) (Initial b)) = min (BMax b) (Initial b * 2 ^ nat n)"
    using double_to_exact assms(2) by simp
  moreover have "nat (if n < 0 then 0 else n) = nat n" by simp
  ultimately show ?thesis
    using v by (simp add: Delay_def Let_def min_def split: if_splits)
qed

text \<open>
  The retransmission schedule of RFC 2131 section 4.1. Every delay of a schedule
  \<^verbatim>\<open>validate\<close> accepts is positive, lies within \<^verbatim>\<open>[Initial - Jitter, Max + Jitter]\<close> and fits
  \<^verbatim>\<open>int64\<close> for every retransmission number and every entropy value; and as long as the
  ceiling is at most \<open>2^62\<close> ns it is exactly the jittered \<open>min Max (Initial * 2^n)\<close>, with
  no wrap-around however large the retransmission number.
\<close>

theorem backoff_schedule:
  assumes "valid_backoff b" and "BMax b \<le> max_int64"
  shows "Initial b - Jitter b \<le> Delay b n rnd \<and> Delay b n rnd \<le> BMax b + Jitter b
    \<and> 0 < Delay b n rnd \<and> Delay b n rnd \<le> max_int64
    \<and> (BMax b \<le> 2 ^ 62 \<longrightarrow>
         Delay b n rnd = jitter (min (BMax b) (Initial b * 2 ^ nat n)) (Jitter b) rnd)"
  using delay_bounds [OF assms, of n rnd] delay_exact [OF assms(1), of n rnd] by simp

lemma backoff_schedule_witness:
  "valid_backoff DefaultBackoff \<and> BMax DefaultBackoff \<le> max_int64
   \<and> Delay DefaultBackoff 4 7 = jitter (64 * Second) Second 7 \<and> 0 < Delay DefaultBackoff 100 7"
proof -
  have v: "valid_backoff DefaultBackoff" "BMax DefaultBackoff \<le> max_int64"
    by (simp_all add: valid_backoff_def DefaultBackoff_def)
  from backoff_schedule [OF v, of 4 7] backoff_schedule [OF v, of 100 7] v
  show ?thesis by (simp add: DefaultBackoff_def)
qed

lemma SecondsToDuration_range:
  "SecondsToDuration s = Infinite \<or> 0 \<le> SecondsToDuration s \<and> SecondsToDuration s < 2 ^ 62"
proof -
  have "uint s < 4294967296" using uint_lt2p [of s] by simp
  then have "i64 (uint s * Second) = uint s * Second" if "uint s < 4294967296"
    using that uint_ge_0 [of s] by (intro i64_id in64I) linarith+
  moreover have "uint s \<noteq> 4294967295 \<Longrightarrow> uint s < 4294967295"
    using \<open>uint s < 4294967296\<close> by simp
  moreover have "s \<noteq> InfiniteSeconds \<Longrightarrow> uint s \<noteq> 4294967295"
    by (auto simp: InfiniteSeconds_def word_uint_eq_iff)
  ultimately show ?thesis
    using \<open>uint s < 4294967296\<close> by (auto simp: SecondsToDuration_def)
qed

end
