(* ===== verification/Lease_Ratelimit.thy ===== *)
theory Lease_Ratelimit
  imports Proto_Time
begin

text \<open>
  The transmission limit of \<^verbatim>\<open>src/lease/ratelimit.go\<close>: a token bucket on the monotonic clock,
  with the 64-bit arithmetic of the source. It is proved against the abstract limit it
  implements: over any stretch of time no more messages pass than the capacity plus what the
  rate allows for that stretch.
\<close>

record RateLimit =
  Messages :: int
  Interval :: Duration

definition DefaultRateLimit :: RateLimit where
  "DefaultRateLimit = \<lparr>Messages = 20, Interval = 20 * Second\<rparr>"

definition resolve :: "RateLimit \<Rightarrow> RateLimit \<times> bool" where
  "resolve r =
     (if Messages r < 0 then (r, False)
      else (\<lparr>Messages = (if Messages r = 0 then 20 else Messages r),
             Interval = (if Interval r \<le> 0 then 20 * Second else Interval r)\<rparr>, True))"

record bucket =
  blimit :: RateLimit
  on :: bool
  level :: Duration
  last_take :: Instant
  bstarted :: bool
  refused :: "64 word"

definition newBucket :: "RateLimit \<Rightarrow> bucket" where
  "newBucket r = (case resolve r of (l, b) \<Rightarrow>
     \<lparr>blimit = l, on = b, level = 0, last_take = 0, bstarted = False, refused = 0\<rparr>)"

definition full :: "bucket \<Rightarrow> Duration" where
  "full b = i64 (Messages (blimit b) * Interval (blimit b))"

definition refill :: "Instant \<Rightarrow> bucket \<Rightarrow> bucket" where
  "refill now b =
     (if \<not> bstarted b then b\<lparr>level := full b, last_take := now, bstarted := True\<rparr>
      else
        let d = Sub now (last_take b);
            l = (if d > 0
                 then let l' = i64 (level b + i64 (d * Messages (blimit b))) in if l' > full b then full b else l'
                 else level b)
        in b\<lparr>level := l, last_take := now\<rparr>)"

definition take_token :: "Instant \<Rightarrow> bucket \<Rightarrow> bool \<times> bucket" where
  "take_token now b =
     (if \<not> on b then (True, b)
      else
        let b1 = refill now b in
        if level b1 < Interval (blimit b1) then (False, b1\<lparr>refused := refused b1 + 1\<rparr>)
        else (True, b1\<lparr>level := i64 (level b1 - Interval (blimit b1))\<rparr>))"

text \<open>A client that asks at the instants of a list, in order: how many messages passed.\<close>

fun take_all :: "Instant list \<Rightarrow> bucket \<Rightarrow> nat \<times> bucket" where
  "take_all [] b = (0, b)"
| "take_all (t # ts) b =
     (case take_token t b of (ok, b1) \<Rightarrow>
        case take_all ts b1 of (n, b2) \<Rightarrow> ((if ok then 1 else 0) + n, b2))"

section \<open>The bound\<close>

text \<open>Parameters and a clock for which no product leaves 64 bits.\<close>

definition bucket_ok :: "Instant \<Rightarrow> bucket \<Rightarrow> bool" where
  "bucket_ok tmax b \<longleftrightarrow> on b \<and> 0 < Messages (blimit b) \<and> 0 < Interval (blimit b) \<and> tmax \<le> max_int64
     \<and> Messages (blimit b) * Interval (blimit b) + Messages (blimit b) * tmax \<le> max_int64
     \<and> (bstarted b \<longrightarrow> 0 \<le> level b \<and> level b \<le> Messages (blimit b) * Interval (blimit b) \<and> 0 \<le> last_take b)"

lemma full_exact: "bucket_ok tmax b \<Longrightarrow> 0 \<le> tmax \<Longrightarrow> full b = Messages (blimit b) * Interval (blimit b)"
proof -
  assume b: "bucket_ok tmax b" "0 \<le> tmax"
  then have "0 \<le> Messages (blimit b) * Interval (blimit b)" "0 \<le> Messages (blimit b) * tmax"
    by (simp_all add: bucket_ok_def)
  with b show ?thesis unfolding full_def bucket_ok_def by (intro i64_id in64I) linarith+
qed

text \<open>The refill in exact arithmetic.\<close>

lemma refill_exact:
  fixes t tmax :: int
  assumes "bucket_ok tmax b" "bstarted b" "last_take b \<le> t" "t \<le> tmax"
  shows "refill t b = b\<lparr>level := min (Messages (blimit b) * Interval (blimit b))
      (level b + Messages (blimit b) * (t - last_take b)), last_take := t\<rparr>"
proof -
  let ?M = "Messages (blimit b)" and ?I = "Interval (blimit b)" and ?d = "t - last_take b"
  have b: "0 < ?M" "0 < ?I" "0 \<le> level b" "level b \<le> ?M * ?I" "0 \<le> last_take b" "tmax \<le> max_int64"
    "?M * ?I + ?M * tmax \<le> max_int64" using assms(1,2) by (auto simp: bucket_ok_def)
  have d: "0 \<le> ?d" "?d \<le> tmax" using assms(3,4) b(5) by auto
  then have p: "0 \<le> ?M * ?d" "?M * ?d \<le> ?M * tmax" "0 \<le> ?M * ?I" using b(1,2) by (simp_all add: mult_left_mono)
  have "Sub t (last_take b) = ?d" unfolding Sub_def using d b(6) by (intro i64_id in64I) linarith+
  moreover have "i64 (?d * ?M) = ?M * ?d"
    using p b(7) by (subst i64_id) (auto intro!: in64I simp: mult.commute)
  moreover have "i64 (level b + ?M * ?d) = level b + ?M * ?d"
    using p b by (intro i64_id in64I) linarith+
  moreover have "full b = ?M * ?I" by (rule full_exact [OF assms(1)]) (use d in linarith)
  ultimately show ?thesis
    using assms(2) d b by (auto simp: refill_def Let_def min_def)
qed

lemma take_token_step:
  fixes t tmax :: int
  assumes "bucket_ok tmax b" "bstarted b" "last_take b \<le> t" "t \<le> tmax" "take_token t b = (ok, b')"
  shows "bucket_ok tmax b' \<and> bstarted b' \<and> blimit b' = blimit b \<and> last_take b' = t
    \<and> (if ok then Interval (blimit b) else 0) + level b' \<le> level b + Messages (blimit b) * (t - last_take b)"
proof -
  let ?M = "Messages (blimit b)" and ?I = "Interval (blimit b)"
  define l where "l = min (?M * ?I) (level b + ?M * (t - last_take b))"
  have b: "0 < ?M" "0 < ?I" "0 \<le> level b" "level b \<le> ?M * ?I" "?M * ?I + ?M * tmax \<le> max_int64" "on b"
    "0 \<le> last_take b" using assms(1,2) by (auto simp: bucket_ok_def)
  have "0 \<le> ?M * (t - last_take b)" "0 \<le> ?M * tmax" "0 \<le> ?M * ?I" using b assms(3,4) by simp_all
  then have l: "0 \<le> l" "l \<le> ?M * ?I" "l \<le> level b + ?M * (t - last_take b)" "l \<le> max_int64"
    using b by (auto simp: l_def)
  have r: "refill t b = b\<lparr>level := l, last_take := t\<rparr>"
    unfolding l_def by (rule refill_exact [OF assms(1-4)])
  have "i64 (l - ?I) = l - ?I" if "\<not> l < ?I" using that l b(2) by (intro i64_id in64I) linarith+
  then show ?thesis
    using assms(1,2,3,5) b l by (auto simp: take_token_def r Let_def bucket_ok_def split: if_splits)
qed

lemma take_all_bound:
  assumes "bucket_ok tmax b" "bstarted b" "sorted (last_take b # ts)" "\<forall>t\<in>set ts. t \<le> tmax"
    and "take_all ts b = (n, b')"
  shows "bucket_ok tmax b' \<and> bstarted b' \<and> blimit b' = blimit b \<and> last_take b' = last (last_take b # ts)
    \<and> int n * Interval (blimit b) + level b' \<le> level b + Messages (blimit b) * (last_take b' - last_take b)"
  using assms
proof (induction ts arbitrary: b n b')
  case Nil
  then show ?case by simp
next
  case (Cons t ts)
  obtain ok b1 where s: "take_token t b = (ok, b1)" by fastforce
  obtain k b2 where r: "take_all ts b1 = (k, b2)" by fastforce
  have n: "n = (if ok then 1 else 0) + k" "b' = b2" using Cons.prems(5) s r by auto
  note st = take_token_step [OF Cons.prems(1,2) _ _ s]
  have st': "bucket_ok tmax b1" "bstarted b1" "blimit b1 = blimit b" "last_take b1 = t"
    "(if ok then Interval (blimit b) else 0) + level b1 \<le> level b + Messages (blimit b) * (t - last_take b)"
    using st Cons.prems(3,4) by auto
  have "bucket_ok tmax b2 \<and> bstarted b2 \<and> blimit b2 = blimit b1 \<and> last_take b2 = last (last_take b1 # ts)
    \<and> int k * Interval (blimit b1) + level b2 \<le> level b1 + Messages (blimit b1) * (last_take b2 - last_take b1)"
    using Cons.prems(3,4) st' by (intro Cons.IH [OF st'(1,2) _ _ r]) auto
  with st' n show ?case by (auto simp: algebra_simps)
qed

text \<open>A take on any bucket, the first one included, leaves it with no more than a full bucket less the token.\<close>

lemma take_token_full:
  fixes t tmax :: int
  assumes "bucket_ok tmax b" "bstarted b \<longrightarrow> last_take b \<le> t" "0 \<le> t" "t \<le> tmax" "take_token t b = (ok, b')"
  shows "bucket_ok tmax b' \<and> bstarted b' \<and> blimit b' = blimit b \<and> last_take b' = t
    \<and> (if ok then Interval (blimit b) else 0) + level b' \<le> Messages (blimit b) * Interval (blimit b)"
proof (cases "bstarted b")
  case True
  with assms have s: "bucket_ok tmax b' \<and> bstarted b' \<and> blimit b' = blimit b \<and> last_take b' = t"
    using take_token_step by blast
  have l: "last_take b \<le> t" using True assms(2) by simp
  have rl: "level (refill t b) \<le> Messages (blimit b) * Interval (blimit b)" "0 \<le> level (refill t b)"
    "blimit (refill t b) = blimit b"
    using refill_exact [OF assms(1) True l assms(4)] assms(1) True l by (auto simp: bucket_ok_def)
  have "i64 (level (refill t b) - Interval (blimit b)) = level (refill t b) - Interval (blimit b)"
    if "Interval (blimit b) \<le> level (refill t b)"
  proof -
    have "0 \<le> Messages (blimit b) * tmax" using assms by (simp add: bucket_ok_def)
    with rl assms(1) that show ?thesis unfolding bucket_ok_def by (intro i64_id in64I) linarith+
  qed
  moreover have "on b" using assms(1) by (simp add: bucket_ok_def)
  ultimately have "level b' = level (refill t b) - (if ok then Interval (blimit b) else 0)"
    using assms(5) rl(3) by (auto simp: take_token_def Let_def split: if_splits)
  with rl s show ?thesis by simp
next
  case False
  let ?M = "Messages (blimit b)" and ?I = "Interval (blimit b)"
  have f: "full b = ?M * ?I" using full_exact [OF assms(1)] assms(3,4) by simp
  have "1 * ?I \<le> ?M * ?I" using assms(1) by (intro mult_right_mono) (auto simp: bucket_ok_def)
  then have i: "?I \<le> ?M * ?I" by simp
  moreover have "0 \<le> ?M * tmax" using assms by (simp add: bucket_ok_def)
  ultimately have "i64 (?M * ?I - ?I) = ?M * ?I - ?I"
    using assms(1) unfolding bucket_ok_def by (intro i64_id in64I) linarith+
  with i show ?thesis
    using assms False by (auto simp: take_token_def refill_def f Let_def bucket_ok_def split: if_splits)
qed

lemma take_all_append:
  "take_all (xs @ ys) b = (case take_all xs b of (n, b1) \<Rightarrow> case take_all ys b1 of (k, b2) \<Rightarrow> (n + k, b2))"
  by (induction xs arbitrary: b) (auto split: prod.split)

lemma take_all_ok:
  assumes "bucket_ok tmax b" "bstarted b \<longrightarrow> last_take b \<le> hd (ts @ [tmax])" "sorted ts" "\<forall>t\<in>set ts. 0 \<le> t \<and> t \<le> tmax"
    and "take_all ts b = (n, b')"
  shows "bucket_ok tmax b' \<and> blimit b' = blimit b \<and> (ts \<noteq> [] \<longrightarrow> bstarted b' \<and> last_take b' = last ts) \<and> (ts = [] \<longrightarrow> b' = b)"
  using assms
proof (induction ts arbitrary: b n b')
  case (Cons t ts)
  obtain ok b1 where s: "take_token t b = (ok, b1)" by fastforce
  obtain k where r: "take_all ts b1 = (k, b')" using Cons.prems(5) s by (auto split: prod.splits)
  have st: "bucket_ok tmax b1" "bstarted b1" "blimit b1 = blimit b" "last_take b1 = t"
    using take_token_full [OF Cons.prems(1) _ _ _ s] Cons.prems by auto
  have "t \<le> hd (ts @ [tmax])" using Cons.prems(3,4) by (cases ts) auto
  with Cons.IH [OF st(1) _ _ _ r] Cons.prems(3,4) st show ?case by (cases "ts = []") (auto simp: r)
qed simp

text \<open>
  C26: The limiter implements RFC 9915 section 14.1's limit over every window: of the
  requests in any stretch of consecutive requests, from the first of the stretch to its last,
  at most \<^verbatim>\<open>Messages\<close> pass, plus \<^verbatim>\<open>Messages\<close> more per \<^verbatim>\<open>Interval\<close> that the stretch lasts; as long as
  the clock and the products stay within 64 bits.
\<close>

theorem token_bucket_window:
  fixes w xs :: "Instant list"
  assumes "resolve r = (l, True)" "tmax \<le> max_int64"
    and "Messages l * Interval l + Messages l * tmax \<le> max_int64"
    and "sorted (xs @ w)" "\<forall>t\<in>set (xs @ w). 0 \<le> t \<and> t \<le> tmax" "w \<noteq> []"
  shows "int (fst (take_all (xs @ w) (newBucket r)) - fst (take_all xs (newBucket r))) * Interval l
    \<le> Messages l * Interval l + Messages l * (last w - hd w)"
proof -
  let ?b = "newBucket r"
  have "bucket_ok tmax ?b" "\<not> bstarted ?b" "blimit ?b = l"
    using assms(1-3) by (auto simp: newBucket_def bucket_ok_def resolve_def split: if_splits)
  note b = this
  obtain n b1 where x: "take_all xs ?b = (n, b1)" by fastforce
  obtain t ts where w: "w = t # ts" using assms(6) by (cases w) auto
  obtain ok b2 where s: "take_token t b1 = (ok, b2)" by fastforce
  obtain k b3 where ts: "take_all ts b2 = (k, b3)" by fastforce
  have b1: "bucket_ok tmax b1 \<and> blimit b1 = l \<and> (bstarted b1 \<longrightarrow> last_take b1 \<le> t)"
    using take_all_ok [OF b(1) _ _ _ x] b(2,3) assms(4,5) w by (cases "xs = []") (auto simp: sorted_append)
  have st: "bucket_ok tmax b2" "bstarted b2" "blimit b2 = l" "last_take b2 = t"
    "(if ok then Interval l else 0) + level b2 \<le> Messages l * Interval l"
    using take_token_full [OF _ _ _ _ s] b1 assms(5) w by auto
  have "bucket_ok tmax b3 \<and> bstarted b3 \<and> blimit b3 = blimit b2 \<and> last_take b3 = last (last_take b2 # ts)
    \<and> int k * Interval (blimit b2) + level b3 \<le> level b2 + Messages (blimit b2) * (last_take b3 - last_take b2)"
    using assms(4,5) w st(4) by (intro take_all_bound [OF st(1,2) _ _ ts]) (auto simp: sorted_append)
  then have "int k * Interval l \<le> level b2 + Messages l * (last w - hd w)"
    using st(3,4) w by (auto simp: bucket_ok_def split: if_splits)
  then show ?thesis
    using st(5) by (cases ok) (auto simp: take_all_append x w s ts algebra_simps)
qed

lemma token_bucket_window_witness:
  "int (fst (take_all (replicate 30 0 @ [5 * Second]) (newBucket \<lparr>Messages = 0, Interval = 0\<rparr>))) * (20 * Second)
     \<le> 400 * Second + 20 * (5 * Second)"
proof -
  have "resolve \<lparr>Messages = 0, Interval = 0\<rparr> = (DefaultRateLimit, True)"
    by (simp add: resolve_def DefaultRateLimit_def)
  from token_bucket_window [OF this, of "5 * Second" "[]" "replicate 30 0 @ [5 * Second]"] show ?thesis
    by (simp add: DefaultRateLimit_def sorted_append sorted_replicate)
qed


end
