(* ===== verification/Wire_Arp.thy ===== *)
theory Wire_Arp
  imports Wire_Codec
begin

text \<open>
  The Ethernet/IPv4 ARP codec of \<^verbatim>\<open>src/wire/arp.go\<close>.
\<close>

abbreviation (input) ARPHTypeEthernet :: "16 word" where "ARPHTypeEthernet \<equiv> 1"
abbreviation (input) ARPPTypeIPv4 :: "16 word" where "ARPPTypeIPv4 \<equiv> 0x0800"
abbreviation (input) ARPHLenEthernet :: byte where "ARPHLenEthernet \<equiv> 6"
abbreviation (input) ARPPLenIPv4 :: byte where "ARPPLenIPv4 \<equiv> 4"
abbreviation (input) ARPPacketLen :: nat where "ARPPacketLen \<equiv> 28"

abbreviation (input) ARPRequest :: "16 word" where "ARPRequest \<equiv> 1"
abbreviation (input) ARPReply :: "16 word" where "ARPReply \<equiv> 2"

record arp_packet =
  ARPOp :: "16 word"
  SenderHW :: "byte list"
  TargetHW :: "byte list"
  SenderIP :: addr
  TargetIP :: addr

datatype arp_error = ErrARPShort | ErrARPFamily | ErrARPAddrLen | ErrARPEncode

definition IsProbe :: "arp_packet \<Rightarrow> bool" where
  "IsProbe p \<longleftrightarrow> ARPOp p = ARPRequest \<and> Is4 (SenderIP p) \<and> IsUnspecified (SenderIP p)"

definition DecodeARP :: "byte list \<Rightarrow> arp_error + arp_packet" where
  "DecodeARP b =
     (if length b < ARPPacketLen then Inl ErrARPShort
      else if ube16 (octets 0 2 b) \<noteq> ARPHTypeEthernet \<or> ube16 (octets 2 2 b) \<noteq> ARPPTypeIPv4
        then Inl ErrARPFamily
      else if b ! 4 \<noteq> ARPHLenEthernet \<or> b ! 5 \<noteq> ARPPLenIPv4 then Inl ErrARPAddrLen
      else Inr \<lparr>ARPOp = ube16 (octets 6 2 b), SenderHW = octets 8 6 b, TargetHW = octets 18 6 b,
                SenderIP = getAddr (octets 14 4 b), TargetIP = getAddr (octets 24 4 b)\<rparr>)"

text \<open>A nil packet, \<^verbatim>\<open>None\<close>, is refused like a packet that has no Ethernet/IPv4 form.\<close>

definition EncodeARP :: "arp_packet option \<Rightarrow> arp_error + byte list" where
  "EncodeARP pp = (case pp of None \<Rightarrow> Inl ErrARPEncode | Some p \<Rightarrow>
     if length (SenderHW p) \<noteq> 6 then Inl ErrARPEncode
     else if length (TargetHW p) \<noteq> 0 \<and> length (TargetHW p) \<noteq> 6 then Inl ErrARPEncode
     else if \<not> Is4 (SenderIP p) then Inl ErrARPEncode
     else if \<not> Is4 (TargetIP p) then Inl ErrARPEncode
     else Inr (be16 ARPHTypeEthernet @ be16 ARPPTypeIPv4 @ [ARPHLenEthernet, ARPPLenIPv4]
       @ be16 (ARPOp p) @ copy_field 6 (SenderHW p) @ putAddr (SenderIP p)
       @ copy_field 6 (TargetHW p) @ putAddr (TargetIP p)))"

section \<open>Properties\<close>

text \<open>What a packet is after a trip over the wire: an absent target address is six zeroes.\<close>

definition arp_wire_form :: "arp_packet \<Rightarrow> arp_packet" where
  "arp_wire_form p = p\<lparr>TargetHW := copy_field 6 (TargetHW p)\<rparr>"

lemma wire_addr_Is4 [simp]: "Is4 a \<Longrightarrow> wire_addr a = a"
  by (cases a) (auto simp: wire_addr_def)

lemma copy_field_full: "length xs = n \<Longrightarrow> copy_field n xs = xs"
  by (simp add: copy_field_def)

text \<open>
  An ARP packet that encodes has exactly the 28 octets of an Ethernet/IPv4 packet,
  and decodes, whatever padding follows it in the frame, to the same operation and
  addresses, an absent target hardware address reading back as zeroes.
\<close>

theorem arp_roundtrip:
  assumes "EncodeARP (Some p) = Inr b"
  shows "length b = ARPPacketLen \<and> DecodeARP (b @ padding) = Inr (arp_wire_form p)"
proof -
  from assms have ip: "Is4 (SenderIP p)" "Is4 (TargetIP p)" and hw: "length (SenderHW p) = 6"
    and b: "b = be16 1 @ be16 0x0800 @ [6, 4] @ be16 (ARPOp p) @ copy_field 6 (SenderHW p)
      @ putAddr (SenderIP p) @ copy_field 6 (TargetHW p) @ putAddr (TargetIP p)"
    by (auto simp: EncodeARP_def split: if_splits)
  have len: "length b = ARPPacketLen" by (simp add: b)
  have fields: "octets 0 2 (b @ padding) = be16 1" "octets 2 2 (b @ padding) = be16 0x0800"
    "octets 6 2 (b @ padding) = be16 (ARPOp p)" "octets 8 6 (b @ padding) = SenderHW p"
    "octets 14 4 (b @ padding) = putAddr (SenderIP p)"
    "octets 18 6 (b @ padding) = copy_field 6 (TargetHW p)"
    "octets 24 4 (b @ padding) = putAddr (TargetIP p)"
    by (simp_all add: b octets_append_skip octets_append_take octets_Cons_skip copy_field_full hw)
  have bytes: "(b @ padding) ! 4 = 6" "(b @ padding) ! 5 = 4"
    by (simp_all add: b nth_append)
  have "DecodeARP (b @ padding) = Inr (arp_wire_form p)"
    by (simp add: DecodeARP_def len fields bytes ip arp_wire_form_def)
  with len show ?thesis by simp
qed

lemma arp_roundtrip_witness:
  "let p = \<lparr>ARPOp = ARPRequest, SenderHW = [2, 66, 172, 17, 0, 2], TargetHW = [],
        SenderIP = Addr4 0, TargetIP = Addr4 0x0A000007\<rparr>
   in \<exists>b. EncodeARP (Some p) = Inr b \<and> DecodeARP (b @ [0, 0]) = Inr (arp_wire_form p) \<and> IsProbe p"
proof -
  let ?p = "\<lparr>ARPOp = ARPRequest, SenderHW = [2, 66, 172, 17, 0, 2], TargetHW = [],
        SenderIP = Addr4 0, TargetIP = Addr4 0x0A000007\<rparr>"
  obtain b where b: "EncodeARP (Some ?p) = Inr b" by (simp add: EncodeARP_def)
  then show ?thesis using arp_roundtrip [OF b, of "[0, 0]"] by (auto simp: IsProbe_def)
qed

end
