(* ===== verification/Proto_State.thy ===== *)
theory Proto_State
  imports Proto_Time Wire_Auth Wire_Arp
begin

text \<open>
  The closed enumerations of \<^verbatim>\<open>src/proto\<close>: states, events, timers, reasons, conflict modes,
  conflict-detection phases, and the journal. A journal line is a value of \<open>jnote\<close>, one
  constructor per line of the source with the values the line prints; a text is a list of
  them, the empty list being the empty string and append being \<^verbatim>\<open>joinNotes\<close>.
\<close>

datatype State = StateStopped | StateInit | StateSelecting | StateRequesting | StateBound
  | StateRenewing | StateRebinding | StateRebooting | StateProbing

datatype EventKind = KStart | KStop | KReceived | KTimerFired | KLinkDown | KLinkUp
  | KConflictDetected | KAddressLost | KActionFailed | KRelease | KARPReceived | KRouterAdvert
  | KDADResult | KSetHostname

datatype TimerID = TimerRetransmit | TimerDesync | TimerExpire | TimerRestart | TimerRenew
  | TimerRebind | TimerACD
  | Timer6Retransmit | Timer6Delay | Timer6Expire | Timer6Renew | Timer6Rebind | Timer6DAD
  | Timer6Refresh | Timer6RouterSolicit | Timer6SLAAC | Timer6AutoFallback

definition AllTimerIDs :: "TimerID list" where
  "AllTimerIDs =
     [TimerRetransmit, TimerDesync, TimerExpire, TimerRestart, TimerRenew, TimerRebind, TimerACD,
      Timer6Retransmit, Timer6Delay, Timer6Expire, Timer6Renew, Timer6Rebind, Timer6DAD,
      Timer6Refresh, Timer6RouterSolicit, Timer6SLAAC, Timer6AutoFallback]"

lemma AllTimerIDs_all: "t \<in> set AllTimerIDs"
  by (cases t) (simp_all add: AllTimerIDs_def)

datatype Reason = ReasonNone | ReasonNoServer | ReasonNak | ReasonExpired | ReasonStopped
  | ReasonLinkDown | ReasonAddressLost | ReasonConflict | ReasonTransport | ReasonDADIncomplete
  | ReasonReleased | ReasonNoRouter | ReasonNoPrefix | ReasonIPv6OnlyPreferred

datatype ConflictMode = ConflictWait | ConflictAsync | ConflictOff

datatype ACDPhase = ACDIdle | ACDProbing | ACDSettling | ACDAnnouncing | ACDDefending

datatype ForcerenewRefusal = ForcerenewRefusalWrongState | ForcerenewRefusalNoRaw
  | ForcerenewRefusalNotUnicast | ForcerenewRefusalNotOurAddress | ForcerenewRefusalNotThisClient
  | ForcerenewRefusalNoNonce | ForcerenewRefusalNoAuth | ForcerenewRefusalMalformedAuth
  | ForcerenewRefusalReplay | ForcerenewRefusalBadDigest | ForcerenewRefusalNoServer

text \<open>Actions carry a \<^verbatim>\<open>uint64\<close> id.\<close>

type_synonym ActionID = "64 word"

section \<open>Journal lines\<close>

datatype rapid_why = RapidNoDiscover | RapidMalformed | RapidNotAsked | RapidNoServer
  | RapidNoLease | RapidZeroLease | RapidNotTheOffer

datatype terminal_why = NoAddress | NoServerID

datatype policy_why = OnDenyList addr | NoIdentifier | NotOnAllowList addr

text \<open>Lines about a granted lease and its deadlines.\<close>

datatype lease_note =
    NoteT2Clamped Duration Duration Duration
  | NoteT1Clamped Duration Duration Duration
  | NoteMask addr
  | NoteClasslessError value_error
  | NoteSupersedesRouter byte "addr list"
  | NoteSupersedesStatic byte
  | NoteStaticError value_error
  | NoteSearchError value_error

text \<open>Lines of the conflict-detection sub-machine.\<close>

datatype acd_note =
    NoteACDTimer ACDPhase
  | NoteClaimsWhileProbing "byte list" addr
  | NoteProbesToo "byte list" addr
  | NoteUsesHeld "byte list" addr

text \<open>Events and messages that change nothing.\<close>

datatype drop_note =
    NoteIgnored EventKind State
  | NoteTimerIgnored TimerID State
  | NoteDiscarded byte State
  | NoteNoTransaction State
  | NoteOfferRebooting
  | NoteOfferUnusable
  | NoteAckUnusable
  | NoteNil
  | NoteNotReply byte
  | NoteNoType
  | NoteXid "32 word" "32 word"
  | NotePolicy policy_why
  | NoteCHAddr
  | NoteAlreadyStopped
  | NoteAlreadyRunning State

text \<open>Acquisition, restart and the terminal messages.\<close>

datatype acq_note =
    NoteDesync Duration
  | NoteRestartPaced int Duration
  | NoteResumeExpired addr
  | NoteReboot addr
  | NoteLinkDown
  | NoteLinkDownProbing
  | NoteRateLimit int Duration
  | NoteDeclineWait Duration
  | NoteReleaseNothing
  | NoteRequestNoOffer
  | NoteDeclineNotSent terminal_why
  | NoteReleaseNotSent terminal_why
  | NoteNoOffer
  | NoteNoAck
  | NoteNoRebootAnswer
  | NoteNak "gostring option"

text \<open>A held or probed lease, and failed actions.\<close>

datatype bound_note =
    NoteAckExpired
  | NoteInfinite
  | NoteMoved prefix prefix
  | NoteNoServerID
  | NoteChecking addr
  | NoteAddressLostProbing
  | NoteARPOff
  | NoteARPNil
  | NoteACDTimerOff
  | NoteConflict acd_note
  | NoteProbed
  | NoteFree addr
  | NoteARPFailed ActionID gostring
  | NoteSendFailed ActionID gostring int
  | NoteSendBudget int gostring
  | NoteFailedAfterStop ActionID gostring

text \<open>Rapid Commit, Forcerenew, host name and IPv6-only.\<close>

datatype ext_note =
    NoteRapidRefused State rapid_why
  | NoteRapidTaken addr addr
  | NoteAckWithoutNonce
  | NoteForcerenewRefused ForcerenewRefusal
  | NoteForcerenewAlready State
  | NoteForcerenewRenewing
  | NoteHostnameFQDN
  | NoteHostnameBad
  | NoteHostnameRecorded gostring State gostring
  | NoteV6OnlyMalformed
  | NoteV6OnlyKept State
  | NoteV6OnlyPaused State Duration
  | NoteV6OnlyWait Duration

datatype jnote = JLease lease_note | JAcd acd_note | JDrop drop_note | JAcq acq_note
  | JBound bound_note | JExt ext_note

definition joinNotes :: "jnote list \<Rightarrow> jnote list \<Rightarrow> jnote list" where
  "joinNotes a b = (if a = [] then b else if b = [] then a else a @ b)"

lemma joinNotes_append [simp]: "joinNotes a b = a @ b"
  by (simp add: joinNotes_def)

end
