(* ===== verification/Proto_Lease.thy ===== *)
theory Proto_Lease
  imports Proto_State
begin

text \<open>
  The lease of \<^verbatim>\<open>src/proto/lease.go\<close>: what a DHCPACK grants, the deadlines derived from it,
  the routes and the gateway it gives, and when two leases configure an interface alike.
  The fields carry the prefix \<open>L\<close>.
\<close>

record Lease =
  LAddr :: prefix
  LServerID :: addr
  LRouter :: "addr list"
  LRoutes :: "route list"
  LDNS :: "addr list"
  LDomain :: gostring
  LDomainSearch :: "gostring list"
  LMTU :: int
  LStart :: Instant
  LLeaseTime :: Duration
  LT1 :: Duration
  LT2 :: Duration
  LOptions :: options
  LForcerenewNonce :: "byte list"
  LForcerenewReplay :: "64 word"

definition zero_lease :: Lease where
  "zero_lease = \<lparr>LAddr = zero_prefix, LServerID = NoAddr, LRouter = [], LRoutes = [], LDNS = [],
     LDomain = [], LDomainSearch = [], LMTU = 0, LStart = 0, LLeaseTime = 0, LT1 = 0, LT2 = 0,
     LOptions = Map.empty, LForcerenewNonce = [], LForcerenewReplay = 0\<rparr>"

definition Expire :: "Lease \<Rightarrow> Instant option" where
  "Expire l = (if IsInfinite (LLeaseTime l) then None else Some (Add (LStart l) (LLeaseTime l)))"

record deadlines =
  DRenew :: Instant
  DRebind :: Instant
  DExpire :: Instant
  HasRenew :: bool
  HasRebind :: bool
  HasExpire :: bool
  DNote :: "jnote list"

text \<open>The default T2 of seven eighths, computed as the source computes it.\<close>

definition seven_eighths :: "Duration \<Rightarrow> Duration" where
  "seven_eighths d = i64 (quot64 d 8 * 7)"

text \<open>T2 and T1 of a lease, defaulted and clamped, with the note a clamp leaves.\<close>

definition rebind_interval :: "Lease \<Rightarrow> Duration \<times> jnote list" where
  "rebind_interval l =
     (let lt = LLeaseTime l; infinite = IsInfinite lt;
          rebind = (if LT2 l \<le> 0 \<and> \<not> infinite then seven_eighths lt else LT2 l)
      in if \<not> infinite \<and> rebind \<ge> lt
         then (seven_eighths lt, [JLease (NoteT2Clamped rebind lt (seven_eighths lt))])
         else (rebind, []))"

definition renew_interval :: "Lease \<Rightarrow> Duration \<Rightarrow> Duration \<times> jnote list" where
  "renew_interval l rebind =
     (let lt = LLeaseTime l;
          renew = (if LT1 l \<le> 0 \<and> \<not> IsInfinite lt then quot64 lt 2 else LT1 l)
      in if rebind > 0 \<and> renew \<ge> rebind
         then (quot64 rebind 2, [JLease (NoteT1Clamped renew rebind (quot64 rebind 2))])
         else (renew, []))"

definition Deadlines :: "Lease \<Rightarrow> deadlines" where
  "Deadlines l =
     (let lt = LLeaseTime l; infinite = IsInfinite lt;
          d0 = \<lparr>DRenew = 0, DRebind = 0, DExpire = (if infinite then 0 else Add (LStart l) lt),
                HasRenew = False, HasRebind = False, HasExpire = \<not> infinite, DNote = []\<rparr>
      in if \<not> infinite \<and> lt \<le> 0 then d0
      else
        let (rebind, note2) = rebind_interval l;
            (renew, note1) = renew_interval l rebind
        in d0\<lparr>DRenew := (if renew > 0 then Add (LStart l) renew else 0), HasRenew := renew > 0,
              DRebind := (if rebind > 0 then Add (LStart l) rebind else 0), HasRebind := rebind > 0,
              DNote := joinNotes note2 note1\<rparr>)"

definition RenewAt :: "Lease \<Rightarrow> Instant \<times> bool" where
  "RenewAt l = (DRenew (Deadlines l), HasRenew (Deadlines l))"

definition RebindAt :: "Lease \<Rightarrow> Instant \<times> bool" where
  "RebindAt l = (DRebind (Deadlines l), HasRebind (Deadlines l))"

definition Gateway :: "Lease \<Rightarrow> addr option" where
  "Gateway l =
     (case find (\<lambda>r. IsDefault r \<and> \<not> OnLink r) (LRoutes l) of
        Some r \<Rightarrow> Some (Router r)
      | None \<Rightarrow> if LRouter l \<noteq> [] then Some (LRouter l ! 0) else None)"

text \<open>\<^verbatim>\<open>routesEqual\<close>, \<^verbatim>\<open>stringsEqual\<close> and \<^verbatim>\<open>addrsEqual\<close>: the same loop at three types.\<close>

definition slicesEqual :: "'a list \<Rightarrow> 'a list \<Rightarrow> bool" where
  "slicesEqual a b \<longleftrightarrow> length a = length b \<and> (\<forall>i < length a. a ! i = b ! i)"

definition Equal :: "Lease \<Rightarrow> Lease \<Rightarrow> bool" where
  "Equal l u \<longleftrightarrow>
     \<not> (LAddr l \<noteq> LAddr u \<or> LServerID l \<noteq> LServerID u \<or> LDomain l \<noteq> LDomain u \<or> LMTU l \<noteq> LMTU u)
     \<and> slicesEqual (LRouter l) (LRouter u) \<and> slicesEqual (LDNS l) (LDNS u)
     \<and> slicesEqual (LDomainSearch l) (LDomainSearch u) \<and> slicesEqual (LRoutes l) (LRoutes u)"

section \<open>From a DHCPACK\<close>

function leading_ones :: "32 word \<Rightarrow> nat \<Rightarrow> nat" where
  "leading_ones u n = (if n < 32 \<and> u AND push_bit (31 - n) 1 \<noteq> 0 then leading_ones u (n + 1) else n)"
  by pat_completeness auto
termination
  by (relation "measure (\<lambda>(u, n). 32 - n)") auto

declare leading_ones.simps [simp del]

definition maskBits :: "addr \<Rightarrow> int option" where
  "maskBits m =
     (case m of
        Addr4 u \<Rightarrow>
          let n = leading_ones u 0 in
          if n < 32 \<and> push_bit n u \<noteq> 0 then None else Some (int n)
      | _ \<Rightarrow> None)"

text \<open>Option 90 of an ACK: present, the Forcerenew Nonce shape, and of type 1.\<close>

definition validForcerenewNonce :: "message \<Rightarrow> forcerenew_auth option" where
  "validForcerenewNonce m =
     (case ForcerenewAuth_opt (Options m) of
        Some (Inr a) \<Rightarrow> if AType a \<noteq> ForcerenewTypeNonce then None else Some a
      | _ \<Rightarrow> None)"

definition takeStaticRoutes :: "options \<Rightarrow> Lease \<Rightarrow> Lease \<times> jnote list" where
  "takeStaticRoutes opts l =
     (case StaticRoutes opts of
        Inl e \<Rightarrow> (l, [JLease (NoteStaticError e)])
      | Inr static \<Rightarrow> (l\<lparr>LRoutes := static\<rparr>, []))"

definition takeRoutes :: "options \<Rightarrow> Lease \<Rightarrow> Lease \<times> jnote list" where
  "takeRoutes opts l =
     (let src = ClasslessSource opts in
      case ClasslessRoutes opts of
        Inl e \<Rightarrow> (fst (takeStaticRoutes opts l), [JLease (NoteClasslessError e)])
      | Inr classless \<Rightarrow>
          if length classless > 0 then
            (l\<lparr>LRoutes := classless, LRouter := []\<rparr>,
             joinNotes
               (if length (LRouter l) > 0 then [JLease (NoteSupersedesRouter src (LRouter l))] else [])
               (if opts OptStaticRoute \<noteq> None then [JLease (NoteSupersedesStatic src)] else []))
          else takeStaticRoutes opts l)"

definition takeDomainSearch :: "options \<Rightarrow> Lease \<Rightarrow> Lease \<times> jnote list" where
  "takeDomainSearch opts l =
     (case DomainSearch opts of
        Inl e \<Rightarrow> (l, [JLease (NoteSearchError e)])
      | Inr names \<Rightarrow> (l\<lparr>LDomainSearch := names\<rparr>, []))"

text \<open>The scalar fields of the lease, before routes and search list are taken.\<close>

definition ack_fields :: "message \<Rightarrow> Instant \<Rightarrow> int \<Rightarrow> 32 word \<Rightarrow> Lease" where
  "ack_fields m sentAt bits secs =
     (let opts = Options m;
          dur = (\<lambda>c. case Uint32 opts c of None \<Rightarrow> 0 | Some s \<Rightarrow> SecondsToDuration s)
      in zero_lease
        \<lparr>LAddr := PrefixFrom (YIAddr m) bits, LStart := sentAt,
         LLeaseTime := SecondsToDuration secs, LOptions := opts,
         LServerID := (case Addr4_opt opts OptServerID of None \<Rightarrow> NoAddr | Some a \<Rightarrow> a),
         LRouter := (case Addrs4 opts OptRouter of None \<Rightarrow> [] | Some r \<Rightarrow> r),
         LDNS := (case Addrs4 opts OptDNSServer of None \<Rightarrow> [] | Some r \<Rightarrow> r),
         LDomain := (case Text opts OptDomainName of None \<Rightarrow> [] | Some s \<Rightarrow> s),
         LMTU := (case Uint16 opts OptInterfaceMTU of None \<Rightarrow> 0 | Some v \<Rightarrow> uint v),
         LT1 := dur OptRenewalTime, LT2 := dur OptRebindingTime,
         LForcerenewNonce := (case validForcerenewNonce m of None \<Rightarrow> [] | Some a \<Rightarrow> Value a),
         LForcerenewReplay := (case validForcerenewNonce m of None \<Rightarrow> 0 | Some a \<Rightarrow> Replay a)\<rparr>)"

definition leaseFromAck :: "message \<Rightarrow> Instant \<Rightarrow> (Lease \<times> jnote list) option" where
  "leaseFromAck m sentAt =
     (if \<not> Is4 (YIAddr m) \<or> IsUnspecified (YIAddr m) then None
      else case Uint32 (Options m) OptLeaseTime of
        None \<Rightarrow> None
      | Some secs \<Rightarrow>
          let mask = (case Addr4_opt (Options m) OptSubnetMask of
                        None \<Rightarrow> (32, [])
                      | Some a \<Rightarrow> (case maskBits a of
                                     Some n \<Rightarrow> (n, [])
                                   | None \<Rightarrow> (32, [JLease (NoteMask a)])));
              l0 = ack_fields m sentAt (fst mask) secs;
              r = takeRoutes (Options m) l0;
              s = takeDomainSearch (Options m) (fst r)
          in Some (fst s, joinNotes (joinNotes (snd mask) (snd r)) (snd s)))"

section \<open>Properties\<close>

lemma slicesEqual_iff [simp]: "slicesEqual a b \<longleftrightarrow> a = b"
  by (auto simp: slicesEqual_def list_eq_iff_nth_eq)

text \<open>The subnet mask.\<close>

lemma leading_ones_spec:
  "n \<le> 32 \<Longrightarrow> n \<le> leading_ones u n \<and> leading_ones u n \<le> 32
     \<and> (\<forall>k. n \<le> k \<and> k < leading_ones u n \<longrightarrow> bit u (31 - k))
     \<and> (leading_ones u n < 32 \<longrightarrow> \<not> bit u (31 - leading_ones u n))"
proof (induction u n rule: leading_ones.induct)
  case (1 u n)
  show ?case
  proof (cases "n < 32 \<and> bit u (31 - n)")
    case True
    with "1" have ih: "n + 1 \<le> leading_ones u (n + 1) \<and> leading_ones u (n + 1) \<le> 32
       \<and> (\<forall>k. n + 1 \<le> k \<and> k < leading_ones u (n + 1) \<longrightarrow> bit u (31 - k))
       \<and> (leading_ones u (n + 1) < 32 \<longrightarrow> \<not> bit u (31 - leading_ones u (n + 1)))"
      by (simp add: and_exp_eq_0_iff_not_bit)
    have eq: "leading_ones u n = leading_ones u (n + 1)"
      using True by (subst leading_ones.simps) (simp add: and_exp_eq_0_iff_not_bit)
    have "bit u (31 - k)" if "n \<le> k" "k < leading_ones u (n + 1)" for k
      using that ih True by (cases "k = n") auto
    with ih show ?thesis by (auto simp: eq)
  next
    case False
    then have "leading_ones u n = n"
      by (subst leading_ones.simps) (auto simp: and_exp_eq_0_iff_not_bit)
    with False "1.prems" show ?thesis by auto
  qed
qed

lemma netmask_by_bits: "n \<le> 32 \<Longrightarrow> (u = netmask32 n \<longleftrightarrow> (\<forall>k < 32. bit u (31 - k) \<longleftrightarrow> k < n))"
proof
  assume n: "n \<le> 32" and all: "\<forall>k < 32. bit u (31 - k) \<longleftrightarrow> k < n"
  show "u = netmask32 n"
  proof (rule bit_word_eqI)
    fix j assume j: "j < LENGTH(32)"
    then have "31 - (31 - j) = j" "31 - j < 32" by simp_all
    with all have "bit u j \<longleftrightarrow> 31 - j < n" by metis
    with n j show "bit u j = bit (netmask32 n) j" by (auto simp: bit_netmask32)
  qed
qed (auto simp: bit_netmask32)

lemma push_bit_zero:
  "push_bit n (u :: 32 word) = 0 \<longleftrightarrow> (\<forall>k. n \<le> k \<and> k < 32 \<longrightarrow> \<not> bit u (31 - k))"
proof
  assume z: "push_bit n u = 0"
  show "\<forall>k. n \<le> k \<and> k < 32 \<longrightarrow> \<not> bit u (31 - k)"
  proof (intro allI impI)
    fix k assume k: "n \<le> k \<and> k < 32"
    have "\<not> bit (push_bit n u) (31 - k + n)" using z by simp
    with k show "\<not> bit u (31 - k)" by (auto simp: bit_push_bit_iff)
  qed
next
  assume all: "\<forall>k. n \<le> k \<and> k < 32 \<longrightarrow> \<not> bit u (31 - k)"
  show "push_bit n u = 0"
  proof (rule bit_word_eqI)
    fix j assume j: "j < LENGTH(32)"
    have "\<not> bit u (j - n)" if "n \<le> j"
    proof -
      have "31 - (31 - (j - n)) = j - n" "n \<le> 31 - (j - n)" "31 - (j - n) < 32" using that j by auto
      with all show ?thesis by metis
    qed
    then show "bit (push_bit n u) j = bit 0 j" by (auto simp: bit_push_bit_iff)
  qed
qed

text \<open>
  A dotted subnet mask is a prefix length exactly when it is that many leading ones:
  \<^verbatim>\<open>maskBits\<close> accepts precisely the 33 contiguous IPv4 masks and gives their length.
\<close>

theorem mask_bits_iff: "maskBits a = Some n \<longleftrightarrow> 0 \<le> n \<and> n \<le> 32 \<and> a = Addr4 (netmask32 (nat n))"
proof (cases a)
  case (Addr4 u)
  let ?m = "leading_ones u 0"
  have m: "?m \<le> 32" "\<forall>k < ?m. bit u (31 - k)" "?m < 32 \<longrightarrow> \<not> bit u (31 - ?m)"
    using leading_ones_spec [of 0 u] by auto
  have le: "j = ?m" if "j \<le> 32" "u = netmask32 j" for j
  proof -
    have "\<forall>k < 32. bit u (31 - k) \<longleftrightarrow> k < j" using netmask_by_bits [of j u] that by blast
    with m that(1) show ?thesis by (metis le_less_linear le_neq_implies_less nat_less_le)
  qed
  have "\<not> (?m < 32 \<and> push_bit ?m u \<noteq> 0) \<longleftrightarrow> u = netmask32 ?m"
    using m netmask_by_bits [of ?m u] by (auto simp: push_bit_zero not_less)
  then have mb: "maskBits (Addr4 u) = (if u = netmask32 ?m then Some (int ?m) else None)"
    by (auto simp: maskBits_def Let_def)
  have "nat n = ?m" if "0 \<le> n" "n \<le> 32" "u = netmask32 (nat n)"
    using le [of "nat n"] that by auto
  with m(1) show ?thesis unfolding Addr4 mb by (auto split: if_splits)
qed (simp_all add: maskBits_def)

text \<open>The routes and the search list leave the rest of the lease alone.\<close>

lemma takeRoutes_frame [simp]:
  "LAddr (fst (takeRoutes opts l)) = LAddr l" "LServerID (fst (takeRoutes opts l)) = LServerID l"
  "LStart (fst (takeRoutes opts l)) = LStart l" "LLeaseTime (fst (takeRoutes opts l)) = LLeaseTime l"
  "LT1 (fst (takeRoutes opts l)) = LT1 l" "LT2 (fst (takeRoutes opts l)) = LT2 l"
  "LOptions (fst (takeRoutes opts l)) = LOptions l"
  "LForcerenewNonce (fst (takeRoutes opts l)) = LForcerenewNonce l"
  "LForcerenewReplay (fst (takeRoutes opts l)) = LForcerenewReplay l"
  by (simp_all add: takeRoutes_def takeStaticRoutes_def Let_def split: sum.split)

lemma takeDomainSearch_frame [simp]:
  "LAddr (fst (takeDomainSearch opts l)) = LAddr l"
  "LServerID (fst (takeDomainSearch opts l)) = LServerID l"
  "LStart (fst (takeDomainSearch opts l)) = LStart l"
  "LLeaseTime (fst (takeDomainSearch opts l)) = LLeaseTime l"
  "LT1 (fst (takeDomainSearch opts l)) = LT1 l" "LT2 (fst (takeDomainSearch opts l)) = LT2 l"
  "LOptions (fst (takeDomainSearch opts l)) = LOptions l"
  "LRoutes (fst (takeDomainSearch opts l)) = LRoutes l"
  "LRouter (fst (takeDomainSearch opts l)) = LRouter l"
  "LForcerenewNonce (fst (takeDomainSearch opts l)) = LForcerenewNonce l"
  "LForcerenewReplay (fst (takeDomainSearch opts l)) = LForcerenewReplay l"
  by (simp_all add: takeDomainSearch_def split: sum.split)

text \<open>What every granted lease satisfies.\<close>

definition wire_duration :: "Duration \<Rightarrow> bool" where
  "wire_duration d \<longleftrightarrow> d = Infinite \<or> (\<exists>s. 0 \<le> s \<and> s < 4294967295 \<and> d = s * Second)"

lemma SecondsToDuration_wire: "wire_duration (SecondsToDuration s)"
proof (cases "s = InfiniteSeconds")
  case False
  have "uint s < 4294967296" using uint_lt2p [of s] by simp
  moreover have "uint s \<noteq> 4294967295"
    using False by (auto simp: InfiniteSeconds_def word_uint_eq_iff)
  ultimately have s: "0 \<le> uint s" "uint s < 4294967295" by simp_all
  then have "i64 (uint s * Second) = uint s * Second" by (intro i64_id in64I) linarith+
  with s False show ?thesis by (auto simp: wire_duration_def SecondsToDuration_def)
qed (simp add: wire_duration_def SecondsToDuration_def)

lemma wire_duration_zero [simp]: "wire_duration 0"
  by (simp add: wire_duration_def)

definition granted_lease :: "Lease \<Rightarrow> bool" where
  "granted_lease l \<longleftrightarrow> Is4 (paddr (LAddr l)) \<and> \<not> IsUnspecified (paddr (LAddr l))
     \<and> 0 \<le> pbits (LAddr l) \<and> pbits (LAddr l) \<le> 32
     \<and> wire_duration (LLeaseTime l) \<and> wire_duration (LT1 l) \<and> wire_duration (LT2 l)
     \<and> (LForcerenewNonce l = [] \<or> length (LForcerenewNonce l) = ForcerenewNonceLen)"

lemma validForcerenewNonce_len: "validForcerenewNonce m = Some a \<Longrightarrow> length (Value a) = 16"
  by (auto simp: validForcerenewNonce_def ForcerenewAuth_opt_def decodeForcerenewAuth_def
      split: option.splits sum.splits if_splits)

lemma maskBits_range: "maskBits a = Some n \<Longrightarrow> 0 \<le> n \<and> n \<le> 32"
  using leading_ones_spec [of 0] by (auto simp: maskBits_def Let_def split: addr.splits if_splits)

lemma leaseFromAck_fields:
  assumes "leaseFromAck m sentAt = Some (l, ns)"
  shows "\<exists>bits secs. 0 \<le> bits \<and> bits \<le> 32 \<and> Uint32 (Options m) OptLeaseTime = Some secs
    \<and> Is4 (YIAddr m) \<and> \<not> IsUnspecified (YIAddr m)
    \<and> l = fst (takeDomainSearch (Options m) (fst (takeRoutes (Options m) (ack_fields m sentAt bits secs))))
    \<and> (bits = 32 \<or> (\<exists>a. Addr4_opt (Options m) OptSubnetMask = Some a \<and> maskBits a = Some bits))"
proof -
  define bits where "bits = (case Addr4_opt (Options m) OptSubnetMask of None \<Rightarrow> 32
    | Some a \<Rightarrow> (case maskBits a of Some n \<Rightarrow> n | None \<Rightarrow> 32))"
  have "0 \<le> bits \<and> bits \<le> 32"
    by (auto simp: bits_def maskBits_range split: option.splits)
  moreover have "bits = 32 \<or> (\<exists>a. Addr4_opt (Options m) OptSubnetMask = Some a \<and> maskBits a = Some bits)"
    by (auto simp: bits_def split: option.splits)
  ultimately show ?thesis
    using assms
    by (intro exI [of _ bits])
      (auto simp: leaseFromAck_def Let_def bits_def split: if_splits option.splits)
qed

lemma ack_fields_granted:
  assumes "Is4 (YIAddr m)" "\<not> IsUnspecified (YIAddr m)" "0 \<le> bits" "bits \<le> 32"
  shows "granted_lease (ack_fields m sentAt bits secs)"
proof -
  from assms(1) obtain w where w: "YIAddr m = Addr4 w" using Is4E by blast
  with assms show ?thesis
    by (auto simp: granted_lease_def ack_fields_def Let_def PrefixFrom_def SecondsToDuration_wire
        dest: validForcerenewNonce_len split: option.split)
qed

lemma leaseFromAck_granted: "leaseFromAck m sentAt = Some (l, ns) \<Longrightarrow> granted_lease l"
  using ack_fields_granted by (fastforce dest!: leaseFromAck_fields simp: granted_lease_def)

lemma leaseFromAck_start: "leaseFromAck m sentAt = Some (l, ns) \<Longrightarrow>
    LStart l = sentAt \<and> paddr (LAddr l) = YIAddr m"
  by (auto dest!: leaseFromAck_fields simp: ack_fields_def Let_def PrefixFrom_def)

text \<open>
  The deadlines of a lease granted over the wire, on a clock that has not reached \<open>2^62\<close> ns
  (146 years).
\<close>

lemma Add_small: "0 \<le> t \<Longrightarrow> t \<le> 2 ^ 62 \<Longrightarrow> 0 \<le> d \<Longrightarrow> d < 2 ^ 62 \<Longrightarrow> Add t d = t + d"
  unfolding Add_def by (intro i64_id in64I) simp_all

lemma Sub_small: "0 \<le> t \<Longrightarrow> t \<le> 2 ^ 63 - 1 \<Longrightarrow> 0 \<le> u \<Longrightarrow> u \<le> 2 ^ 63 - 1 \<Longrightarrow> Sub t u = t - u"
  unfolding Sub_def by (intro i64_id in64I) simp_all

lemma wire_duration_cases:
  "wire_duration d \<Longrightarrow> d = - 1 \<or> d = 0 \<or> Second \<le> d \<and> d < 2 ^ 62"
  by (auto simp: wire_duration_def Infinite_def)

lemma seven_eighths_bounds:
  "Second \<le> d \<Longrightarrow> d < 2 ^ 62 \<Longrightarrow> 2 \<le> seven_eighths d \<and> seven_eighths d < d"
proof -
  assume d: "Second \<le> d" "d < 2 ^ 62"
  let ?q = "d div 8"
  have q: "8 * ?q \<le> d" "Second div 8 \<le> ?q"
    using d zdiv_mono1 [of Second d 8] by simp_all
  then have "i64 (?q * 7) = ?q * 7" using d by (intro i64_id in64I) simp_all
  with q d show ?thesis by (simp add: seven_eighths_def quot64_nonneg)
qed

lemma half_bounds: "2 \<le> d \<Longrightarrow> 0 < quot64 d 2 \<and> quot64 d 2 < d"
  by (simp add: quot64_nonneg) presburger

lemma finite_deadlines:
  assumes "granted_lease l" "0 < LLeaseTime l" "0 \<le> LStart l" "LStart l \<le> 2 ^ 62"
  shows "let d = Deadlines l in HasRenew d \<and> HasRebind d \<and> HasExpire d
    \<and> LStart l < DRenew d \<and> DRenew d < DRebind d \<and> DRebind d < DExpire d
    \<and> DExpire d = LStart l + LLeaseTime l"
proof -
  let ?lt = "LLeaseTime l"
  have lt: "Second \<le> ?lt" "?lt < 2 ^ 62" and ninf: "\<not> IsInfinite ?lt"
    using assms(1,2) wire_duration_cases [of ?lt] by (auto simp: granted_lease_def IsInfinite_def Infinite_def)
  obtain r note2 where r_eq: "rebind_interval l = (r, note2)" by fastforce
  obtain n note1 where n_eq: "renew_interval l r = (n, note1)" by fastforce
  have "LT2 l \<le> 0 \<or> Second \<le> LT2 l"
    using assms(1) wire_duration_cases [of "LT2 l"] by (auto simp: granted_lease_def)
  with r_eq have r: "2 \<le> r" "r < ?lt"
    using seven_eighths_bounds [OF lt] ninf by (auto simp: rebind_interval_def Let_def split: if_splits)
  with n_eq have n: "0 < n" "n < r"
    using half_bounds [OF r(1)] half_bounds [of ?lt] lt ninf
    by (auto simp: renew_interval_def Let_def split: if_splits)
  have small: "Add (LStart l) x = LStart l + x" if "0 < x" "x \<le> ?lt" for x
    using Add_small that assms(3,4) lt by simp
  have "Deadlines l = \<lparr>DRenew = LStart l + n, DRebind = LStart l + r, DExpire = LStart l + ?lt,
      HasRenew = True, HasRebind = True, HasExpire = True, DNote = note2 @ note1\<rparr>"
    using r n lt ninf small by (simp add: Deadlines_def r_eq n_eq)
  then show ?thesis using n r by (simp add: Let_def)
qed

lemma other_deadlines:
  assumes "granted_lease l" "LLeaseTime l \<le> 0" "0 \<le> LStart l" "LStart l \<le> 2 ^ 62"
  shows "let d = Deadlines l in
    (HasExpire d \<longleftrightarrow> LLeaseTime l = 0) \<and> (HasExpire d \<longrightarrow> DExpire d = LStart l)
    \<and> (HasExpire d \<longrightarrow> \<not> HasRenew d \<and> \<not> HasRebind d)
    \<and> (HasRenew d \<and> HasRebind d \<longrightarrow> DRenew d < DRebind d)"
proof -
  consider "LLeaseTime l = - 1" | "LLeaseTime l = 0"
    using assms(1,2) wire_duration_cases [of "LLeaseTime l"] by (auto simp: granted_lease_def)
  then show ?thesis
  proof cases
    case 1
    have small: "Add (LStart l) x = LStart l + x" if "0 < x" "x < 2 ^ 62" for x
      using Add_small that assms(3,4) by simp
    have "LT2 l \<le> 0 \<or> Second \<le> LT2 l \<and> LT2 l < 2 ^ 62" "LT1 l < 2 ^ 62"
      using assms(1) wire_duration_cases [of "LT2 l"] wire_duration_cases [of "LT1 l"]
      by (auto simp: granted_lease_def)
    with 1 half_bounds [of "LT2 l"] show ?thesis
      by (auto simp: Deadlines_def rebind_interval_def renew_interval_def Let_def IsInfinite_def
          Infinite_def small)
  next
    case 2
    with assms(3,4) show ?thesis
      by (simp add: Deadlines_def Let_def IsInfinite_def Infinite_def Add_small)
  qed
qed

text \<open>
  C14: RFC 2131 section 4.4.5 holds of the deadlines of every lease a DHCPACK grants,
  whatever T1 and T2 the server sent, clamped or defaulted: with a positive finite lease
  time all three timers exist and \<open>sent < T1 < T2 < expiry = sent + lease time\<close>; an infinite
  lease has no expiry, and a zero-second lease only one, at once.
\<close>

theorem ack_deadlines_ordered:
  assumes "leaseFromAck m sentAt = Some (l, ns)" and "0 \<le> sentAt" and "sentAt \<le> 2 ^ 62"
  shows "let d = Deadlines l in
    if LLeaseTime l > 0 then HasRenew d \<and> HasRebind d \<and> HasExpire d
      \<and> sentAt < DRenew d \<and> DRenew d < DRebind d \<and> DRebind d < DExpire d
      \<and> DExpire d = sentAt + LLeaseTime l
    else (HasExpire d \<longleftrightarrow> LLeaseTime l = 0) \<and> (HasExpire d \<longrightarrow> DExpire d = sentAt)
      \<and> (HasRenew d \<and> HasRebind d \<longrightarrow> DRenew d < DRebind d)"
  using finite_deadlines [OF leaseFromAck_granted [OF assms(1)]]
    other_deadlines [OF leaseFromAck_granted [OF assms(1)]] leaseFromAck_start [OF assms(1)] assms(2,3)
  by (cases "0 < LLeaseTime l") (auto simp: Let_def)

text \<open>A DHCPACK for 10.0.0.7/24 with a gateway and a 60-second lease whose T1 is after its T2.\<close>

definition sample_ack :: message where
  "sample_ack = \<lparr>Op = BootReply, HType = HTypeEthernet, HLen = 6, Hops = 0, XID = 0x12345678,
     Secs = 0, Flags = 0, CIAddr = Addr4 0, YIAddr = Addr4 0x0A000007, SIAddr = Addr4 0,
     GIAddr = Addr4 0, CHAddr = [2, 66, 172, 17, 0, 2], SName = [], File = [],
     Options = [OptMessageType \<mapsto> [MsgAck], OptServerID \<mapsto> [10, 0, 0, 1],
       OptSubnetMask \<mapsto> [255, 255, 255, 0], OptRouter \<mapsto> [10, 0, 0, 1],
       OptLeaseTime \<mapsto> [0, 0, 0, 60], OptRenewalTime \<mapsto> [0, 0, 0, 50],
       OptRebindingTime \<mapsto> [0, 0, 0, 40]]\<rparr>"

lemma sample_ack_grants: "leaseFromAck sample_ack t \<noteq> None"
  by (simp add: leaseFromAck_def sample_ack_def Uint32_def Let_def)

lemma sample_ack_lease_time: "leaseFromAck sample_ack t = Some (l, ns) \<Longrightarrow> LLeaseTime l = 60 * Second"
  by (auto dest!: leaseFromAck_fields
      simp: ack_fields_def sample_ack_def Uint32_def ube32_def SecondsToDuration_def InfiniteSeconds_def
        Let_def i64_def)

lemma ack_deadlines_ordered_witness:
  "\<exists>l ns. leaseFromAck sample_ack (5 * Second) = Some (l, ns)
     \<and> 5 * Second < DRenew (Deadlines l) \<and> DRenew (Deadlines l) < DRebind (Deadlines l)
     \<and> DRebind (Deadlines l) < DExpire (Deadlines l) \<and> DExpire (Deadlines l) = 65 * Second"
proof -
  obtain l ns where l: "leaseFromAck sample_ack (5 * Second) = Some (l, ns)"
    using sample_ack_grants [of "5 * Second"] by auto
  show ?thesis
    using ack_deadlines_ordered [OF l] sample_ack_lease_time [OF l] l by (auto simp: Let_def)
qed

text \<open>
  RFC 3442: when the classless route option (121, or 249 without 121) decodes to
  routes, the lease has exactly those routes and no router from option 3, and its gateway is
  the first default route among them or none; when it is absent, empty of routes or does
  not decode, the lease takes options 33 and 3 instead.
\<close>

theorem classless_routes_supersede:
  assumes "leaseFromAck m sentAt = Some (l, ns)"
  shows "case ClasslessRoutes (Options m) of
      Inr (r # rs) \<Rightarrow> LRoutes l = r # rs \<and> LRouter l = []
        \<and> Gateway l = map_option Router (find (\<lambda>q. IsDefault q \<and> \<not> OnLink q) (r # rs))
    | _ \<Rightarrow> LRoutes l = (case StaticRoutes (Options m) of Inr s \<Rightarrow> s | Inl _ \<Rightarrow> [])
        \<and> LRouter l = (case Addrs4 (Options m) OptRouter of Some a \<Rightarrow> a | None \<Rightarrow> [])"
proof -
  from leaseFromAck_fields [OF assms] obtain bits secs where
    l: "l = fst (takeDomainSearch (Options m) (fst (takeRoutes (Options m) (ack_fields m sentAt bits secs))))"
    by blast
  have "LRoutes (ack_fields m sentAt bits secs) = []"
    by (simp add: ack_fields_def zero_lease_def Let_def)
  moreover have "LRouter (ack_fields m sentAt bits secs)
      = (case Addrs4 (Options m) OptRouter of Some a \<Rightarrow> a | None \<Rightarrow> [])"
    by (simp add: ack_fields_def Let_def split: option.split)
  ultimately show ?thesis
    unfolding l Gateway_def
    by (auto simp: takeRoutes_def takeStaticRoutes_def Let_def split: sum.splits list.splits option.splits)
qed

lemma classless_routes_supersede_witness:
  "\<exists>l ns. leaseFromAck sample_ack 0 = Some (l, ns) \<and> LRoutes l = []
     \<and> LRouter l = [Addr4 0x0A000001]"
proof -
  obtain l ns where l: "leaseFromAck sample_ack 0 = Some (l, ns)"
    using sample_ack_grants [of 0] by auto
  have "ClasslessRoutes (Options sample_ack) = Inr []" "StaticRoutes (Options sample_ack) = Inr []"
    "Addrs4 (Options sample_ack) OptRouter = Some [Addr4 0x0A000001]"
    by (simp_all add: sample_ack_def ClasslessRoutes_def ClasslessSource_def StaticRoutes_def Addrs4_def
        addr_groups.simps AddrFrom4_def ube32_def)
  with classless_routes_supersede [OF l] l show ?thesis by simp
qed

end
