(* ===== verification/Proto_Acd.thy ===== *)
theory Proto_Acd
  imports Proto_State
begin

text \<open>
  RFC 5227 address conflict detection, \<^verbatim>\<open>src/proto/acd.go\<close>: the constant table, the
  sub-machine with its one timer, the conflict rules and the rate limit. A step of the
  sub-machine returns the new sub-machine and the actions the DHCP machine applies.
\<close>

record ACDParams =
  ProbeWait :: Duration
  ProbeNum :: int
  ProbeMin :: Duration
  ProbeMax :: Duration
  AnnounceWait :: Duration
  AnnounceNum :: int
  AnnounceInterval :: Duration
  MaxConflicts :: int
  RateLimitInterval :: Duration
  DefendInterval :: Duration

definition zero_ACDParams :: ACDParams where
  "zero_ACDParams = \<lparr>ProbeWait = 0, ProbeNum = 0, ProbeMin = 0, ProbeMax = 0, AnnounceWait = 0,
     AnnounceNum = 0, AnnounceInterval = 0, MaxConflicts = 0, RateLimitInterval = 0, DefendInterval = 0\<rparr>"

definition DefaultACDParams :: ACDParams where
  "DefaultACDParams = \<lparr>ProbeWait = 1 * Second, ProbeNum = 3, ProbeMin = 1 * Second,
     ProbeMax = 2 * Second, AnnounceWait = 2 * Second, AnnounceNum = 2,
     AnnounceInterval = 2 * Second, MaxConflicts = 10, RateLimitInterval = 60 * Second,
     DefendInterval = 10 * Second\<rparr>"

text \<open>\<^verbatim>\<open>ACDParams.validate\<close>: true when no error is returned.\<close>

definition valid_acd :: "ACDParams \<Rightarrow> bool" where
  "valid_acd a \<longleftrightarrow> a = zero_ACDParams
     \<or> (\<forall>d \<in> {ProbeWait a, ProbeMin a, ProbeMax a, AnnounceWait a, AnnounceInterval a,
            RateLimitInterval a, DefendInterval a}. \<not> d \<le> 0)
       \<and> (\<forall>n \<in> {ProbeNum a, AnnounceNum a, MaxConflicts a}. \<not> n \<le> 0)
       \<and> \<not> ProbeMin a > ProbeMax a"

record acd =
  acdParams :: ACDParams
  acdMode :: ConflictMode
  phase :: ACDPhase
  acdAddr :: addr
  acdHW :: "byte list"
  sent :: int
  attemptAt :: Instant
  conflicts :: int

datatype acdEvent = AcdEvStart addr | AcdEvTimer | AcdEvARP "arp_packet option" | AcdEvStop

datatype acdAction = AcdSendProbe | AcdSendAnnounce | AcdSetTimer Duration | AcdCancelTimer
  | AcdReady | AcdConflict acd_note | AcdNote acd_note

definition newACD :: "ACDParams \<Rightarrow> ConflictMode \<Rightarrow> byte list \<Rightarrow> acd" where
  "newACD p mode hw = \<lparr>acdParams = p, acdMode = mode, phase = ACDIdle, acdAddr = NoAddr, acdHW = hw,
     sent = 0, attemptAt = 0, conflicts = 0\<rparr>"

definition running :: "acd \<Rightarrow> bool" where
  "running a \<longleftrightarrow> phase a \<noteq> ACDIdle"

definition acd_stop :: "acd \<Rightarrow> acd" where
  "acd_stop a = a\<lparr>phase := ACDIdle, acdAddr := NoAddr, sent := 0\<rparr>"

definition uniform :: "Duration \<Rightarrow> Duration \<Rightarrow> rnd64 \<Rightarrow> Duration" where
  "uniform lo hi rnd =
     (let span = i64 (hi - lo) in
      if span \<le> 0 then lo else i64 (lo + i64 (uint rnd mod u64 (i64 (span + 1)))))"

definition acd_start :: "Instant \<Rightarrow> rnd64 \<Rightarrow> addr \<Rightarrow> acd \<Rightarrow> acd \<times> acdAction list" where
  "acd_start now rnd a0 a =
     (let a1 = a\<lparr>acdAddr := a0, sent := 0, attemptAt := now, phase := ACDProbing\<rparr> in
      if ProbeNum (acdParams a) \<le> 0
      then (a1\<lparr>phase := ACDSettling\<rparr>, [AcdSetTimer (AnnounceWait (acdParams a))])
      else (a1, [AcdSetTimer (uniform 0 (ProbeWait (acdParams a)) rnd)]))"

definition acd_announce :: "acd \<Rightarrow> acd \<times> acdAction list" where
  "acd_announce a =
     (if AnnounceNum (acdParams a) \<le> 0 then (a\<lparr>phase := ACDDefending\<rparr>, [AcdCancelTimer])
      else
        let a1 = a\<lparr>sent := sent a + 1\<rparr> in
        if sent a1 < AnnounceNum (acdParams a)
        then (a1, [AcdSendAnnounce, AcdSetTimer (AnnounceInterval (acdParams a))])
        else (a1\<lparr>phase := ACDDefending\<rparr>, [AcdSendAnnounce, AcdCancelTimer]))"

definition acd_timer :: "rnd64 \<Rightarrow> acd \<Rightarrow> acd \<times> acdAction list" where
  "acd_timer rnd a =
     (case phase a of
        ACDProbing \<Rightarrow>
          let a1 = a\<lparr>sent := sent a + 1\<rparr> in
          if sent a1 < ProbeNum (acdParams a)
          then (a1, [AcdSendProbe, AcdSetTimer (uniform (ProbeMin (acdParams a)) (ProbeMax (acdParams a)) rnd)])
          else (a1\<lparr>phase := ACDSettling\<rparr>, [AcdSendProbe, AcdSetTimer (AnnounceWait (acdParams a))])
      | ACDSettling \<Rightarrow>
          (case acd_announce (a\<lparr>phase := ACDAnnouncing, sent := 0\<rparr>) of
             (a1, out) \<Rightarrow> (a1, out @ [AcdReady]))
      | ACDAnnouncing \<Rightarrow> acd_announce a
      | _ \<Rightarrow> (a, [AcdNote (NoteACDTimer (phase a))]))"

definition isOurs :: "acd \<Rightarrow> byte list \<Rightarrow> bool" where
  "isOurs a b \<longleftrightarrow> \<not> (length b = 0 \<or> length b \<noteq> length (acdHW a)) \<and> (\<forall>i < length b. b ! i = acdHW a ! i)"

definition conflictRule :: "acd \<Rightarrow> arp_packet option \<Rightarrow> acd_note option" where
  "conflictRule a pkt =
     (case pkt of
        None \<Rightarrow> None
      | Some p \<Rightarrow>
          if phase a = ACDProbing \<or> phase a = ACDSettling then
            (if SenderIP p = acdAddr a \<and> \<not> isOurs a (SenderHW p)
             then Some (NoteClaimsWhileProbing (SenderHW p) (acdAddr a))
             else if IsProbe p \<and> TargetIP p = acdAddr a \<and> \<not> isOurs a (SenderHW p)
             then Some (NoteProbesToo (SenderHW p) (acdAddr a))
             else None)
          else if phase a = ACDAnnouncing \<or> phase a = ACDDefending then
            (if SenderIP p = acdAddr a \<and> \<not> isOurs a (SenderHW p)
             then Some (NoteUsesHeld (SenderHW p) (acdAddr a)) else None)
          else None)"

definition acd_arp :: "arp_packet option \<Rightarrow> acd \<Rightarrow> acd \<times> acdAction list" where
  "acd_arp pkt a =
     (if pkt = None \<or> \<not> IsValid (acdAddr a) then (a, [])
      else case conflictRule a pkt of
        None \<Rightarrow> (a, [])
      | Some why \<Rightarrow> (acd_stop (a\<lparr>conflicts := conflicts a + 1\<rparr>), [AcdConflict why]))"

definition acdStep :: "Instant \<Rightarrow> rnd64 \<Rightarrow> acdEvent \<Rightarrow> acd \<Rightarrow> acd \<times> acdAction list" where
  "acdStep now rnd ev a =
     (case ev of
        AcdEvStop \<Rightarrow> (acd_stop a, [])
      | AcdEvStart a0 \<Rightarrow> acd_start now rnd a0 a
      | AcdEvTimer \<Rightarrow> acd_timer rnd a
      | AcdEvARP p \<Rightarrow> acd_arp p a)"

definition relevant :: "acd \<Rightarrow> arp_packet option \<Rightarrow> bool" where
  "relevant a pkt =
     (case pkt of
        None \<Rightarrow> False
      | Some p \<Rightarrow> running a \<and> IsValid (acdAddr a) \<and> (SenderIP p = acdAddr a \<or> TargetIP p = acdAddr a))"

definition rateLimited :: "acd \<Rightarrow> bool" where
  "rateLimited a \<longleftrightarrow> MaxConflicts (acdParams a) > 0 \<and> conflicts a \<ge> MaxConflicts (acdParams a)"

definition acd_restartDelay :: "Instant \<Rightarrow> Duration \<Rightarrow> acd \<Rightarrow> Duration" where
  "acd_restartDelay now base a =
     (if \<not> rateLimited a then base
      else
        let d = Sub (Add (attemptAt a) (RateLimitInterval (acdParams a))) now in
        if d < base then base else d)"

definition probe :: "acd \<Rightarrow> arp_packet" where
  "probe a = \<lparr>ARPOp = ARPRequest, SenderHW = acdHW a, TargetHW = [], SenderIP = Addr4 0, TargetIP = acdAddr a\<rparr>"

definition announcement :: "acd \<Rightarrow> arp_packet" where
  "announcement a = \<lparr>ARPOp = ARPRequest, SenderHW = acdHW a, TargetHW = [], SenderIP = acdAddr a, TargetIP = acdAddr a\<rparr>"

section \<open>Properties\<close>

lemma uniform_bounds:
  assumes "0 \<le> lo" "lo \<le> hi" "hi \<le> max_int64"
  shows "lo \<le> uniform lo hi rnd \<and> uniform lo hi rnd \<le> hi"
proof (cases "lo = hi")
  case True
  then show ?thesis by (simp add: uniform_def i64_def)
next
  case False
  with assms have sp: "i64 (hi - lo) = hi - lo" by (intro i64_id in64I) linarith+
  show ?thesis
  proof (cases "hi - lo = max_int64")
    case True
    with assms have eq: "lo = 0" "hi = max_int64" by linarith+
    have "uniform lo hi rnd = i64 (i64 (uint rnd mod 9223372036854775808))"
      unfolding eq by (simp add: uniform_def i64_def u64_def)
    moreover have "0 \<le> uint rnd mod 9223372036854775808" "uint rnd mod 9223372036854775808 < 9223372036854775808"
      by simp_all
    then have "i64 (uint rnd mod 9223372036854775808) = uint rnd mod 9223372036854775808"
      by (intro i64_id in64I) linarith+
    ultimately show ?thesis unfolding eq by simp
  next
    case small: False
    with assms have sp1: "i64 (hi - lo + 1) = hi - lo + 1" by (intro i64_id in64I) linarith+
    have u: "u64 (hi - lo + 1) = hi - lo + 1" using assms small by (simp add: u64_def)
    let ?r = "uint rnd mod (hi - lo + 1)"
    have r: "0 \<le> ?r" "?r < hi - lo + 1" using False assms pos_mod_bound [of "hi - lo + 1"] by simp_all
    then have "i64 ?r = ?r" "i64 (lo + ?r) = lo + ?r" using assms by (intro i64_id in64I; linarith)+
    then show ?thesis using r False assms by (simp add: uniform_def Let_def sp sp1 u)
  qed
qed

lemma isOurs_iff: "isOurs a b \<longleftrightarrow> b \<noteq> [] \<and> b = acdHW a"
  by (auto simp: isOurs_def intro: nth_equalityI)

text \<open>
  The conflict rules of RFC 5227 sections 2.1.1 and 2.4. A packet is a conflict exactly
  when it does not carry this interface's own hardware address and either claims the address
  being probed or used as its sender, or, in the probing window, is a probe for it. The
  subscription filter hides no conflict: dropping the packets it calls irrelevant changes
  neither the sub-machine nor its actions.
\<close>

theorem conflict_rules:
  "(conflictRule a (Some p) \<noteq> None \<longleftrightarrow> \<not> isOurs a (SenderHW p)
      \<and> (running a \<and> SenderIP p = acdAddr a
         \<or> phase a \<in> {ACDProbing, ACDSettling} \<and> IsProbe p \<and> TargetIP p = acdAddr a))
   \<and> acd_arp pkt a = (if relevant a pkt then acd_arp pkt a else (a, []))"
  by (cases "phase a"; cases pkt)
    (auto simp: conflictRule_def running_def relevant_def acd_arp_def)

text \<open>The sub-machine driven by its timer: one entropy value per firing.\<close>

fun fire_acd :: "rnd64 list \<Rightarrow> acd \<Rightarrow> acd \<times> acdAction list" where
  "fire_acd [] a = (a, [])"
| "fire_acd (r # rs) a =
     (case acd_timer r a of (a1, out1) \<Rightarrow> case fire_acd rs a1 of (a2, out2) \<Rightarrow> (a2, out1 @ out2))"

lemma fire_acd_append:
  "fire_acd (rs @ ss) a = (case fire_acd rs a of (a1, out1) \<Rightarrow>
     case fire_acd ss a1 of (a2, out2) \<Rightarrow> (a2, out1 @ out2))"
  by (induction rs arbitrary: a) (auto split: prod.splits)

text \<open>What the link and the DHCP machine see of the actions: packets and the verdict.\<close>

definition visible :: "acdAction list \<Rightarrow> acdAction list" where
  "visible = filter (\<lambda>x. x \<in> {AcdSendProbe, AcdSendAnnounce, AcdReady})"

lemma visible_simps [simp]:
  "visible [] = []" "visible (AcdSendProbe # xs) = AcdSendProbe # visible xs"
  "visible (AcdSendAnnounce # xs) = AcdSendAnnounce # visible xs"
  "visible (AcdReady # xs) = AcdReady # visible xs"
  "visible (AcdSetTimer d # xs) = visible xs" "visible (AcdCancelTimer # xs) = visible xs"
  "visible (xs @ ys) = visible xs @ visible ys"
  by (simp_all add: visible_def)

lemma fire_probes:
  "phase a = ACDProbing \<Longrightarrow> sent a + int (length rs) = ProbeNum (acdParams a) \<Longrightarrow> rs \<noteq> [] \<Longrightarrow>
   \<exists>out. fire_acd rs a = (a\<lparr>phase := ACDSettling, sent := ProbeNum (acdParams a)\<rparr>, out)
     \<and> visible out = replicate (length rs) AcdSendProbe"
proof (induction rs arbitrary: a)
  case (Cons r rs)
  show ?case
  proof (cases "rs = []")
    case True
    with Cons.prems show ?thesis by (auto simp: acd_timer_def Let_def)
  next
    case False
    let ?a = "a\<lparr>sent := sent a + 1\<rparr>"
    from Cons.IH [of ?a] Cons.prems False obtain out where
      "fire_acd rs ?a = (a\<lparr>phase := ACDSettling, sent := ProbeNum (acdParams a)\<rparr>, out)"
      "visible out = replicate (length rs) AcdSendProbe" by auto
    moreover have "sent a + 1 < ProbeNum (acdParams a)" using Cons.prems False by (cases rs) auto
    ultimately show ?thesis using Cons.prems by (auto simp: acd_timer_def Let_def)
  qed
qed simp

lemma fire_announces:
  "phase a = ACDAnnouncing \<Longrightarrow> sent a + int (length rs) = AnnounceNum (acdParams a) \<Longrightarrow> rs \<noteq> [] \<Longrightarrow>
   0 \<le> sent a \<Longrightarrow>
   \<exists>out. fire_acd rs a = (a\<lparr>phase := ACDDefending, sent := AnnounceNum (acdParams a)\<rparr>, out)
     \<and> visible out = replicate (length rs) AcdSendAnnounce"
proof (induction rs arbitrary: a)
  case (Cons r rs)
  show ?case
  proof (cases "rs = []")
    case True
    with Cons.prems show ?thesis by (auto simp: acd_timer_def acd_announce_def Let_def)
  next
    case False
    let ?a = "a\<lparr>sent := sent a + 1\<rparr>"
    from Cons.IH [of ?a] Cons.prems False obtain out where
      "fire_acd rs ?a = (a\<lparr>phase := ACDDefending, sent := AnnounceNum (acdParams a)\<rparr>, out)"
      "visible out = replicate (length rs) AcdSendAnnounce" by auto
    moreover have "sent a + 1 < AnnounceNum (acdParams a)" using Cons.prems False by (cases rs) auto
    ultimately show ?thesis using Cons.prems by (auto simp: acd_timer_def acd_announce_def Let_def)
  qed
qed simp

lemma fire_settled:
  assumes "phase a = ACDSettling" "int (length (r # rs)) = AnnounceNum (acdParams a)"
  shows "\<exists>out. fire_acd (r # rs) a = (a\<lparr>phase := ACDDefending, sent := AnnounceNum (acdParams a)\<rparr>, out)
     \<and> visible out = [AcdSendAnnounce, AcdReady] @ replicate (length rs) AcdSendAnnounce"
proof (cases "rs = []")
  case True
  with assms show ?thesis by (auto simp: acd_timer_def acd_announce_def Let_def)
next
  case False
  let ?a = "a\<lparr>phase := ACDAnnouncing, sent := 1\<rparr>"
  from fire_announces [of ?a rs] assms False obtain out where
    "fire_acd rs ?a = (a\<lparr>phase := ACDDefending, sent := AnnounceNum (acdParams a)\<rparr>, out)"
    "visible out = replicate (length rs) AcdSendAnnounce" by auto
  moreover have "1 < AnnounceNum (acdParams a)" using assms(2) False by (cases rs) auto
  ultimately show ?thesis using assms(1) by (auto simp: acd_timer_def acd_announce_def Let_def)
qed

text \<open>
  The whole RFC 5227 schedule. After a start on an address, firing the timer PROBE_NUM
  times and then ANNOUNCE_NUM times sends exactly PROBE_NUM probes, then the first
  announcement, then the verdict that the address is free, then the remaining
  announcements, and ends in the defending phase: the address is never released before
  every probe and the first announcement are out, and it is released once.
\<close>

theorem acd_schedule:
  assumes "0 < ProbeNum (acdParams a)" and "0 < AnnounceNum (acdParams a)"
    and "int (length ps) = ProbeNum (acdParams a)" and "int (length qs) = AnnounceNum (acdParams a)"
  shows "\<exists>a' out. fire_acd (ps @ qs) (fst (acd_start now rnd ad a)) = (a', out)
    \<and> visible out = replicate (length ps) AcdSendProbe @ [AcdSendAnnounce, AcdReady]
         @ replicate (length qs - 1) AcdSendAnnounce
    \<and> phase a' = ACDDefending \<and> acdAddr a' = ad"
proof -
  let ?a1 = "fst (acd_start now rnd ad a)"
  have a1: "phase ?a1 = ACDProbing" "sent ?a1 = 0" "acdParams ?a1 = acdParams a" "acdAddr ?a1 = ad"
    using assms(1) by (simp_all add: acd_start_def Let_def)
  let ?a2 = "?a1\<lparr>phase := ACDSettling, sent := ProbeNum (acdParams a)\<rparr>"
  have "ps \<noteq> []" using assms(1,3) by auto
  with fire_probes [of ?a1 ps] a1 assms obtain out1 where
    f1: "fire_acd ps ?a1 = (?a2, out1)" "visible out1 = replicate (length ps) AcdSendProbe" by auto
  from assms(2,4) obtain q rs where qs: "qs = q # rs" by (cases qs) auto
  from fire_settled [of ?a2 q rs] a1 assms(4) qs obtain out2 where
    "fire_acd qs ?a2 = (?a2\<lparr>phase := ACDDefending, sent := AnnounceNum (acdParams a)\<rparr>, out2)"
    "visible out2 = [AcdSendAnnounce, AcdReady] @ replicate (length rs) AcdSendAnnounce" by auto
  with f1 a1 qs show ?thesis by (auto simp: fire_acd_append)
qed

lemma acd_schedule_witness:
  "\<exists>a' out. fire_acd [1, 2, 3, 4, 5] (fst (acd_start 0 9 (Addr4 0x0A000007)
       (newACD DefaultACDParams ConflictWait [2, 66, 172, 17, 0, 2]))) = (a', out)
    \<and> visible out = [AcdSendProbe, AcdSendProbe, AcdSendProbe, AcdSendAnnounce, AcdReady, AcdSendAnnounce]
    \<and> phase a' = ACDDefending"
  using acd_schedule [of "newACD DefaultACDParams ConflictWait [2, 66, 172, 17, 0, 2]" "[1, 2, 3]" "[4, 5]"
      0 9 "Addr4 0x0A000007"]
  by (simp add: newACD_def DefaultACDParams_def numeral_eq_Suc) blast

text \<open>
  The rate limit of RFC 5227 section 2.1.1 composes with the DHCP restart delay as a
  maximum: the next attempt is never earlier than the delay asked for, and once the conflict
  limit is reached never earlier than RATE_LIMIT_INTERVAL after the last attempt began.
\<close>

theorem rate_limit_is_max:
  assumes "0 \<le> now" "now \<le> 2 ^ 62" "0 \<le> attemptAt a" "attemptAt a \<le> 2 ^ 62"
    and "0 \<le> RateLimitInterval (acdParams a)" "RateLimitInterval (acdParams a) < 2 ^ 62"
  shows "acd_restartDelay now base a =
    (if rateLimited a then max base (attemptAt a + RateLimitInterval (acdParams a) - now) else base)"
proof -
  have "Add (attemptAt a) (RateLimitInterval (acdParams a)) = attemptAt a + RateLimitInterval (acdParams a)"
    unfolding Add_def using assms by (intro i64_id in64I) simp_all
  moreover have "Sub (attemptAt a + RateLimitInterval (acdParams a)) now
      = attemptAt a + RateLimitInterval (acdParams a) - now"
    unfolding Sub_def using assms by (intro i64_id in64I) simp_all
  ultimately show ?thesis by (simp add: acd_restartDelay_def Let_def max_def)
qed

lemma rate_limit_is_max_witness:
  "acd_restartDelay (15 * Second) (10 * Second)
     ((newACD DefaultACDParams ConflictWait [])\<lparr>conflicts := 10, attemptAt := 5 * Second\<rparr>) = 50 * Second"
  using rate_limit_is_max [of "15 * Second"
      "(newACD DefaultACDParams ConflictWait [])\<lparr>conflicts := 10, attemptAt := 5 * Second\<rparr>" "10 * Second"]
  by (simp add: newACD_def DefaultACDParams_def rateLimited_def)

end
