(* ===== verification/Proto_Params.thy ===== *)
theory Proto_Params
  imports Proto_Lease Proto_Acd
begin

text \<open>
  The configuration of a DHCPv4 client, \<^verbatim>\<open>src/proto/params.go\<close>: the parameters, what
  \<^verbatim>\<open>validate\<close> refuses, the server policy, the remembered lease and the delays the machine
  draws. A string is a list of octets; \<^verbatim>\<open>*Resume\<close> is an option. Field names carry the
  prefix \<open>P\<close>.
\<close>

record Resume =
  RAddr :: addr
  RExpire :: Instant
  RHasExpire :: bool

record ServerPolicy =
  Allow :: "addr list"
  Deny :: "addr list"

record FQDN =
  FName :: gostring
  FFlags :: byte

record Params =
  PCHAddr :: "byte list"
  PLinkHWAddr :: "byte list"
  PClientID :: "byte list"
  PHostname :: gostring
  PVendorClass :: gostring
  PUserClass :: "byte list list"
  PRapidCommit :: bool
  PIPv6OnlyPreferred :: bool
  PParameterList :: "byte list"
  PRequestedIP :: addr
  PResume :: "Resume option"
  PRequestedLease :: Duration
  PBroadcast :: bool
  PDiscover :: Backoff
  PRequest :: Backoff
  PDesyncMin :: Duration
  PDesyncMax :: Duration
  PRestartDelay :: Duration
  PMaxSendFailures :: int
  PConflict :: ConflictMode
  PACD :: ACDParams
  PServers :: ServerPolicy
  PFQDN :: FQDN
  Pfqdn :: "byte list"
  PuserClass :: "byte list"

definition resume_live :: "Instant \<Rightarrow> Resume \<Rightarrow> bool" where
  "resume_live now r \<longleftrightarrow>
     (if \<not> Is4 (RAddr r) \<or> IsUnspecified (RAddr r) then False
      else \<not> RHasExpire r \<or> After (RExpire r) now)"

definition permits :: "ServerPolicy \<Rightarrow> addr option \<Rightarrow> policy_why option" where
  "permits s sid =
     (case sid of
        None \<Rightarrow> if Allow s = [] then None else Some NoIdentifier
      | Some a \<Rightarrow>
          if a \<in> set (Deny s) then Some (OnDenyList a)
          else if Allow s = [] then None
          else if a \<in> set (Allow s) then None
          else Some (NotOnAllowList a))"

definition DefaultFQDNFlags :: byte where
  "DefaultFQDNFlags = FQDNFlagS OR FQDNFlagE"

definition fqdn_flags :: "FQDN \<Rightarrow> byte" where
  "fqdn_flags f = (if FFlags f = 0 then DefaultFQDNFlags else FFlags f)"

definition DefaultRestartDelay :: Duration where
  "DefaultRestartDelay = 10 * Second"

definition DefaultParameterList :: "byte list" where
  "DefaultParameterList =
     [OptClasslessStaticRte, OptMSClasslessStaticRte, OptRouter, OptStaticRoute, OptSubnetMask,
      OptDNSServer, OptDomainName, OptDomainSearch, OptInterfaceMTU, OptBroadcastAddress,
      OptNTPServer, OptTimeOffset, OptPosixTimezone, OptTZDatabase, OptTFTPServer,
      OptBootfileName, OptWPAD, OptVendorSpecific, OptVIVSO]"

definition DefaultParams :: "byte list \<Rightarrow> Params" where
  "DefaultParams chaddr =
     \<lparr>PCHAddr = chaddr, PLinkHWAddr = [], PClientID = [], PHostname = [], PVendorClass = [],
      PUserClass = [], PRapidCommit = False, PIPv6OnlyPreferred = False,
      PParameterList = DefaultParameterList, PRequestedIP = NoAddr, PResume = None,
      PRequestedLease = 0, PBroadcast = True, PDiscover = DefaultBackoff, PRequest = DefaultBackoff,
      PDesyncMin = 1 * Second, PDesyncMax = 10 * Second, PRestartDelay = DefaultRestartDelay,
      PMaxSendFailures = 5, PConflict = ConflictWait, PACD = DefaultACDParams,
      PServers = \<lparr>Allow = [], Deny = []\<rparr>, PFQDN = \<lparr>FName = [], FFlags = 0\<rparr>,
      Pfqdn = [], PuserClass = []\<rparr>"

datatype params_error = ErrNoCHAddr | ErrParamsCHAddrTooLong | ErrBadDesync | ErrBadRestartDelay
  | ErrBadBackoff | ErrBadResume | ErrBadACDParams | ErrBadFQDN value_error
  | ErrBadUserClass value_error | ErrBadRapidCommit | ErrBadIPv6OnlyPreferred | ErrBadHostname

text \<open>\<^verbatim>\<open>ValidateHostname\<close>: true when no error is returned.\<close>

definition ValidateHostname :: "gostring \<Rightarrow> bool" where
  "ValidateHostname name \<longleftrightarrow>
     name = [] \<or> \<not> length name > 255 \<and> (\<forall>c \<in> set name. \<not> (c < 0x21 \<or> c > 0x7E))"

definition validate :: "Params \<Rightarrow> params_error + unit" where
  "validate p =
     (if length (PCHAddr p) = 0 then Inl ErrNoCHAddr
      else if length (PCHAddr p) > 16 then Inl ErrParamsCHAddrTooLong
      else if length (PLinkHWAddr p) > 16 then Inl ErrParamsCHAddrTooLong
      else if PDesyncMin p < 0 \<or> PDesyncMax p < 0 \<or> PDesyncMin p > PDesyncMax p then Inl ErrBadDesync
      else if PRestartDelay p < 0 then Inl ErrBadRestartDelay
      else if \<not> valid_backoff (PDiscover p) then Inl ErrBadBackoff
      else if \<not> valid_backoff (PRequest p) then Inl ErrBadBackoff
      else if (case PResume p of None \<Rightarrow> False | Some r \<Rightarrow> \<not> Is4 (RAddr r) \<or> IsUnspecified (RAddr r))
        then Inl ErrBadResume
      else if \<not> valid_acd (PACD p) then Inl ErrBadACDParams
      else bind_res
        (if FName (PFQDN p) \<noteq> [] then
           (case EncodeFQDN (fqdn_flags (PFQDN p)) (FName (PFQDN p)) of
              Inl e \<Rightarrow> Inl (ErrBadFQDN e) | Inr _ \<Rightarrow> Inr ())
         else Inr ()) (\<lambda>_.
      bind_res
        (if length (PUserClass p) > 0 then
           (case EncodeUserClass (PUserClass p) of Inl e \<Rightarrow> Inl (ErrBadUserClass e) | Inr _ \<Rightarrow> Inr ())
         else Inr ()) (\<lambda>_.
      if PRapidCommit p \<and> OptRapidCommit \<in> set (PParameterList p) then Inl ErrBadRapidCommit
      else if \<not> PIPv6OnlyPreferred p \<and> OptIPv6OnlyPreferred \<in> set (PParameterList p)
        then Inl ErrBadIPv6OnlyPreferred
      else if \<not> ValidateHostname (PHostname p) then Inl ErrBadHostname
      else Inr ())))"

definition acd_params :: "Params \<Rightarrow> ACDParams" where
  "acd_params p = (if PACD p = zero_ACDParams then DefaultACDParams else PACD p)"

definition restartDelay :: "Params \<Rightarrow> Duration" where
  "restartDelay p = (if PRestartDelay p \<le> 0 then DefaultRestartDelay else PRestartDelay p)"

definition desync :: "Params \<Rightarrow> rnd64 \<Rightarrow> Duration" where
  "desync p rnd =
     (let span = i64 (PDesyncMax p - PDesyncMin p) in
      if span \<le> 0 then PDesyncMin p
      else i64 (PDesyncMin p + i64 (uint rnd mod u64 (i64 (span + 1)))))"

definition parameterList :: "Params \<Rightarrow> byte list" where
  "parameterList p = (if length (PParameterList p) = 0 then DefaultParameterList else PParameterList p)"

definition linkHW :: "Params \<Rightarrow> byte list" where
  "linkHW p = (if length (PLinkHWAddr p) > 0 then PLinkHWAddr p else PCHAddr p)"

section \<open>Properties\<close>

lemma validate_facts:
  assumes "validate p = Inr ()"
  shows "0 < length (PCHAddr p)" "length (PCHAddr p) \<le> 16" "length (PLinkHWAddr p) \<le> 16"
    "0 \<le> PDesyncMin p" "PDesyncMin p \<le> PDesyncMax p" "0 \<le> PRestartDelay p"
    "valid_backoff (PDiscover p)" "valid_backoff (PRequest p)" "valid_acd (PACD p)"
    "\<And>r. PResume p = Some r \<Longrightarrow> Is4 (RAddr r) \<and> \<not> IsUnspecified (RAddr r)"
    "ValidateHostname (PHostname p)"
  using assms by (auto simp: validate_def bind_res_eq_Inr split: if_splits option.splits)

lemma desync_uniform: "desync p rnd = uniform (PDesyncMin p) (PDesyncMax p) rnd"
  by (simp add: desync_def uniform_def)

text \<open>
  The server policy. A message is refused exactly when it names a denied server, or an
  allow list is configured and the message names no server on it: deny wins over allow, an
  allow list fails closed on a message without an identifier, a deny list alone fails open.
\<close>

theorem server_policy:
  "permits s sid = None \<longleftrightarrow>
     set_option sid \<inter> set (Deny s) = {} \<and> (Allow s = [] \<or> (\<exists>a. sid = Some a \<and> a \<in> set (Allow s)))"
  by (cases sid) (auto simp: permits_def)

text \<open>
  Every delay a validated configuration draws is within the bounds it states: the
  start-up wait lies in \<^verbatim>\<open>[DesyncMin, DesyncMax]\<close>, the restart wait is positive and is the
  ten-second default when none is configured, and the discover and request schedules never
  return a delay of zero.
\<close>

theorem validated_delays:
  assumes "validate p = Inr ()" and "PDesyncMax p \<le> max_int64"
    and "BMax (PDiscover p) \<le> max_int64" and "BMax (PRequest p) \<le> max_int64"
  shows "PDesyncMin p \<le> desync p rnd \<and> desync p rnd \<le> PDesyncMax p \<and> 0 < restartDelay p
    \<and> (PRestartDelay p = 0 \<longrightarrow> restartDelay p = 10 * Second)
    \<and> 0 < Delay (PDiscover p) n rnd \<and> 0 < Delay (PRequest p) n rnd"
  using validate_facts [OF assms(1)] uniform_bounds [of "PDesyncMin p" "PDesyncMax p" rnd]
    delay_bounds [of "PDiscover p" n rnd] delay_bounds [of "PRequest p" n rnd] assms(2-4)
  by (auto simp: desync_uniform restartDelay_def DefaultRestartDelay_def)

lemma DefaultParams_valid: "validate (DefaultParams [2, 66, 172, 17, 0, 2]) = Inr ()"
  by (simp add: validate_def DefaultParams_def valid_backoff_def DefaultBackoff_def valid_acd_def
      DefaultACDParams_def ValidateHostname_def DefaultParameterList_def DefaultRestartDelay_def)

lemma validated_delays_witness:
  "validate (DefaultParams [2, 66, 172, 17, 0, 2]) = Inr ()
   \<and> desync (DefaultParams [2, 66, 172, 17, 0, 2]) 5 \<le> 10 * Second
   \<and> 0 < Delay (PRequest (DefaultParams [2, 66, 172, 17, 0, 2])) 9 5"
  using validated_delays [OF DefaultParams_valid, of 5 9] DefaultParams_valid
  by (simp add: DefaultParams_def DefaultBackoff_def)

end
