(* ===== verification/Lease_Record.thy ===== *)
theory Lease_Record
  imports Proto_Params
begin

text \<open>
  The durable lease record of \<^verbatim>\<open>src/lease/record.go\<close>: its life as a fold over an append-only
  stream of events, total over every phase and operation. Wall-clock times (\<^verbatim>\<open>time.Time\<close>) are
  integers, 0 being the zero \<^verbatim>\<open>Time\<close>; \<^verbatim>\<open>proto.Params6\<close> is the type parameter of the record, since
  the fold only stores it. The texts of \<^verbatim>\<open>Note\<close> fields are left out. Counters are indexed by
  the field names of \<^verbatim>\<open>Stats\<close>, as the source's reflection over \<^verbatim>\<open>WireCounters\<close> does.
\<close>

section \<open>Data\<close>

type_synonym wall = int

record Addr6 =
  A6Addr :: prefix
  A6Preferred :: wall
  A6Valid :: wall

record OLease =
  OAddr :: prefix
  OGateway :: addr
  ODNS :: "addr list"
  ODomain :: gostring
  OMTU :: int
  OServerID :: addr
  OServerDUID :: "byte list"
  OPrefixServerDUID :: "byte list"
  OIAID :: "32 word"
  OPreferred :: wall
  OValid :: wall
  ORoutes :: "route list"
  ODomainSearch :: "gostring list"
  OAcquired :: wall
  ORenew :: wall
  ORebind :: wall
  OExpire :: wall
  OOptions :: options
  OOptionsV6 :: "(16 word \<times> byte list) list"
  OForcerenewNonce :: "byte list"
  OForcerenewReplay :: "64 word"
  OReconfigureKey :: "byte list"
  OReconfigureReplay :: "64 word"
  OReconfigureReplaySeen :: bool
  OAddrs :: "Addr6 list"
  OTempAddrs :: "Addr6 list"
  OPrefixes :: "Addr6 list"
  OSLAAC :: bool
  OFQDN :: "byte \<times> gostring"
  OHasFQDN :: bool

definition zero_olease :: OLease where
  "zero_olease = \<lparr>OAddr = zero_prefix, OGateway = NoAddr, ODNS = [], ODomain = [], OMTU = 0, OServerID = NoAddr,
     OServerDUID = [], OPrefixServerDUID = [], OIAID = 0, OPreferred = 0, OValid = 0, ORoutes = [],
     ODomainSearch = [], OAcquired = 0, ORenew = 0, ORebind = 0, OExpire = 0, OOptions = Map.empty,
     OOptionsV6 = [], OForcerenewNonce = [], OForcerenewReplay = 0, OReconfigureKey = [],
     OReconfigureReplay = 0, OReconfigureReplaySeen = False, OAddrs = [], OTempAddrs = [], OPrefixes = [],
     OSLAAC = False, OFQDN = (0, []), OHasFQDN = False\<rparr>"

record Configuration =
  CDNS :: "addr list"
  CSearch :: "gostring list"
  CRefresh :: wall

datatype Family = FamilyUnset | FamilyV4 | FamilyV6 | FamilyOther byte

datatype Phase = PhaseUnset | PhaseReserved | PhaseCreated | PhaseJoined | PhaseLeft | PhaseRetained
  | PhaseAdopted | PhaseClosed

datatype RecordOp = OpReserve | OpCreate | OpRebind | OpAdopt | OpBind | OpLease | OpLost | OpLeave
  | OpRetain | OpClose | OpStats | OpExtra | OpOther byte

datatype LeaseEventKind = KindAcquired | KindChanged | KindRenewed | KindLost | KindFailed
  | KindConfigured | KindOther byte

datatype DADPhase = DADIdle | DADTentative | DADPassed

datatype RejectReason = RejectNone | RejectNoRecord | RejectExists | RejectPhase | RejectIdentity
  | RejectSeq | RejectScope | RejectID | RejectStats | RejectPayload | RejectFamily | RejectManager

type_synonym counters = "string \<Rightarrow> 64 word"

record RecordCounters =
  Acquisitions :: "64 word"
  Changes :: "64 word"
  Renewals :: "64 word"
  Losses :: "64 word"
  StoppedNotLost :: "64 word"
  Configurations :: "64 word"
  Failures :: "64 word"
  Naks :: "64 word"
  Timeouts :: "64 word"
  Conflicts :: "64 word"
  Expiries :: "64 word"
  Rejects :: "64 word"
  Wire :: counters

record 'p6 Record =
  RecID :: gostring
  RecScope :: gostring
  RecFamily :: Family
  RecCHAddr :: "byte list"
  RecIdentity :: "byte list"
  RecParams :: "Params option"
  RecParams6 :: "'p6 option"
  RecDeclined6 :: "addr list"
  RecLease :: OLease
  Held :: bool
  RecPhase :: Phase
  RecACD :: ACDPhase
  RecDAD :: DADPhase
  RecConfig :: Configuration
  RecDeadline :: wall
  RecStepsRef :: gostring
  Counters :: RecordCounters
  Extra :: "gostring \<rightharpoonup> 64 word"
  RecSeq :: "64 word"
  RecInstance :: gostring
  LastReject :: RejectReason
  statsBase :: counters
  statsManager :: gostring
  statsSeen :: "gostring set"

definition zero_counters :: RecordCounters where
  "zero_counters = \<lparr>Acquisitions = 0, Changes = 0, Renewals = 0, Losses = 0, StoppedNotLost = 0,
     Configurations = 0, Failures = 0, Naks = 0, Timeouts = 0, Conflicts = 0, Expiries = 0, Rejects = 0,
     Wire = (\<lambda>_. 0)\<rparr>"

definition zero_record :: "'p6 Record" where
  "zero_record = \<lparr>RecID = [], RecScope = [], RecFamily = FamilyUnset, RecCHAddr = [], RecIdentity = [],
     RecParams = None, RecParams6 = None, RecDeclined6 = [], RecLease = zero_olease, Held = False,
     RecPhase = PhaseUnset, RecACD = ACDIdle, RecDAD = DADIdle,
     RecConfig = \<lparr>CDNS = [], CSearch = [], CRefresh = 0\<rparr>, RecDeadline = 0, RecStepsRef = [],
     Counters = zero_counters, Extra = Map.empty, RecSeq = 0, RecInstance = [], LastReject = RejectNone,
     statsBase = (\<lambda>_. 0), statsManager = [], statsSeen = {}\<rparr>"

text \<open>The caller's counters of an \<^verbatim>\<open>OpExtra\<close> event are the entries of a Go map: distinct names, in any order.\<close>

record 'p6 RecordEvent =
  RevID :: gostring
  RevOp :: RecordOp
  RevSeq :: "64 word"
  RevAt :: wall
  RevInstance :: gostring
  Manager :: gostring
  RevScope :: gostring
  RevFamily :: Family
  RevCHAddr :: "byte list"
  RevIdentity :: "byte list"
  RevParams :: "Params option"
  RevParams6 :: "'p6 option"
  RevDeclined6 :: "addr list"
  RevDeadline :: wall
  RevStepsRef :: gostring
  RevKind :: LeaseEventKind
  RevLease :: "OLease option"
  RevReason :: Reason
  RevACD :: ACDPhase
  RevDAD :: DADPhase
  RevConfig :: "Configuration option"
  RevStats :: "counters option"
  RevExtra :: "(gostring \<times> 64 word) list"

record Reject =
  RejReason :: RejectReason
  RejOp :: RecordOp
  RejPhase :: Phase
  RejID :: gostring
  RejSeq :: "64 word"

section \<open>Counters\<close>

definition wireFields :: "string list" where
  "wireFields = [''Steps'', ''Sent'', ''SendFailures'', ''Received'', ''DecodeFailures'', ''TransportErrors'',
    ''TimerFires'', ''EventsDropped'', ''ActionsExecuted'', ''ActionsFailedFed'',
    ''DeclinesSent'', ''ReleasesSent'', ''RequestsDropped'', ''RenewalsSent'', ''NaksSeen'',
    ''ProbesSent'', ''AnnouncementsSent'', ''ARPSendFailures'', ''ARPSeen'', ''ARPIgnored'',
    ''ARPDecodeFailures'', ''ARPErrors'', ''RateLimited'', ''NDSeen'', ''NDIgnored'',
    ''NDErrors'', ''NDSendFailures'', ''RouterSolicitsSent'', ''RouterAdvertsSeen'',
    ''RouterAdvertsRefused'', ''RouterAdvertOptionsIgnored'', ''RouterTableEntriesDropped'',
    ''RouterTableEntriesEvicted'', ''DADChecksStarted'', ''DADConflicts'',
    ''SLAACAddressesFormed'', ''SLAACAddressesRefreshed'', ''SLAACAddressesDeprecated'',
    ''SLAACAddressesExpired'', ''SLAACAddressesConflicted'', ''SLAACPrefixesIgnored'',
    ''SLAACFallbacks'', ''ReconfiguresAccepted'', ''ReconfiguresRefused'', ''IPv6OnlyWaited'',
    ''IPv6OnlyIgnored'', ''IPv6OnlyMalformed'', ''RapidCommitsAccepted'',
    ''RapidCommitsRefused'', ''ForcerenewsRenewed'', ''ForcerenewsAlreadyRenewing'',
    ''ForcerenewsAckRefused'', ''ForcerenewsRefused'', ''TemporaryAddressesGranted'',
    ''TemporaryAddressesRefused'', ''TemporaryAddressesAbsent'',
    ''TemporaryAddressesConflicted'', ''PrefixesGranted'', ''PrefixesRefused'',
    ''PrefixesAbsent'', ''PrefixesChanged'']"

definition statsIntoWire :: "counters \<Rightarrow> counters" where
  "statsIntoWire s = (\<lambda>f. if f \<in> set wireFields then s f else 0)"

fun addDelta :: "counters \<Rightarrow> counters \<Rightarrow> string list \<Rightarrow> counters \<Rightarrow> string + counters" where
  "addDelta now base [] w = Inr w"
| "addDelta now base (f # fs) w =
     (if now f < base f then Inl f else addDelta now base fs (w(f := w f + (now f - base f))))"

fun add_extra :: "(gostring \<times> 64 word) list \<Rightarrow> (gostring \<rightharpoonup> 64 word) \<Rightarrow> (gostring \<rightharpoonup> 64 word)" where
  "add_extra [] m = m"
| "add_extra ((k, v) # kvs) m = add_extra kvs (m(k \<mapsto> (case m k of None \<Rightarrow> v | Some x \<Rightarrow> x + v)))"

section \<open>The fold\<close>

definition holdsAnAddress :: "Phase \<Rightarrow> bool" where
  "holdsAnAddress p \<longleftrightarrow> p \<in> {PhaseReserved, PhaseCreated, PhaseJoined, PhaseAdopted}"

definition count :: "(RecordCounters \<Rightarrow> RecordCounters) \<Rightarrow> 'p6 Record \<Rightarrow> 'p6 Record" where
  "count f rec = rec\<lparr>Counters := f (Counters rec)\<rparr>"

definition foldLease :: "'p6 Record \<Rightarrow> 'p6 RecordEvent \<Rightarrow> RejectReason + 'p6 Record" where
  "foldLease rec ev =
     (let leased = (\<lambda>f. case RevLease ev of
            None \<Rightarrow> Inl RejectPayload
          | Some l \<Rightarrow> Inr (count f (rec\<lparr>RecLease := l, Held := True, RecACD := RevACD ev, RecDAD := RevDAD ev\<rparr>)))
      in case RevKind ev of
        KindAcquired \<Rightarrow> leased (\<lambda>c. c\<lparr>Acquisitions := Acquisitions c + 1\<rparr>)
      | KindChanged \<Rightarrow> leased (\<lambda>c. c\<lparr>Changes := Changes c + 1\<rparr>)
      | KindRenewed \<Rightarrow> leased (\<lambda>c. c\<lparr>Renewals := Renewals c + 1\<rparr>)
      | KindConfigured \<Rightarrow>
          (case RevConfig ev of
             None \<Rightarrow> Inl RejectPayload
           | Some cfg \<Rightarrow> Inr (count (\<lambda>c. c\<lparr>Configurations := Configurations c + 1\<rparr>) (rec\<lparr>RecConfig := cfg\<rparr>)))
      | KindFailed \<Rightarrow>
          Inr (count (\<lambda>c.
            let c1 = c\<lparr>Failures := Failures c + 1\<rparr> in
            if RevReason ev = ReasonNak then c1\<lparr>Naks := Naks c1 + 1\<rparr>
            else if RevReason ev = ReasonNoServer then c1\<lparr>Timeouts := Timeouts c1 + 1\<rparr>
            else if RevReason ev = ReasonConflict then c1\<lparr>Conflicts := Conflicts c1 + 1\<rparr>
            else c1) rec)
      | KindLost \<Rightarrow> Inl RejectPayload
      | KindOther _ \<Rightarrow> Inl RejectPayload)"

definition foldLost :: "'p6 Record \<Rightarrow> 'p6 RecordEvent \<Rightarrow> 'p6 Record" where
  "foldLost rec ev =
     (let rec1 = rec\<lparr>RecACD := RevACD ev, RecDAD := RevDAD ev\<rparr> in
      if RevReason ev = ReasonStopped
      then count (\<lambda>c. c\<lparr>StoppedNotLost := StoppedNotLost c + 1\<rparr>) rec1
      else (count (\<lambda>c.
          let c1 = c\<lparr>Losses := Losses c + 1\<rparr> in
          if RevReason ev = ReasonConflict then c1\<lparr>Conflicts := Conflicts c1 + 1\<rparr>
          else if RevReason ev = ReasonExpired then c1\<lparr>Expiries := Expiries c1 + 1\<rparr>
          else c1) rec1)\<lparr>RecLease := zero_olease, Held := False\<rparr>)"

definition familyOf :: "'p6 RecordEvent \<Rightarrow> 'p6 Record \<Rightarrow> Family" where
  "familyOf ev rec = (if RevFamily ev \<noteq> FamilyUnset then RevFamily ev else RecFamily rec)"

definition creating :: "'p6 Record \<Rightarrow> 'p6 RecordEvent \<Rightarrow> bool" where
  "creating rec ev \<longleftrightarrow> RevOp ev = OpReserve \<or> RevOp ev = OpAdopt \<or> (RevOp ev = OpCreate \<and> RecPhase rec = PhaseUnset)"

text \<open>The refusals that come before the operation is looked at, in the order of the source.\<close>

definition guards :: "'p6 Record \<Rightarrow> 'p6 RecordEvent \<Rightarrow> RejectReason option" where
  "guards rec ev =
     (if RevID ev = [] then Some RejectID
      else if RecPhase rec = PhaseUnset \<and> \<not> creating rec ev then Some RejectNoRecord
      else if RecPhase rec \<noteq> PhaseUnset \<and> RevID ev \<noteq> RecID rec then Some RejectID
      else if RecPhase rec \<noteq> PhaseUnset \<and> creating rec ev then Some RejectExists
      else if RecPhase rec \<noteq> PhaseUnset \<and> RevScope ev \<noteq> [] \<and> RevScope ev \<noteq> RecScope rec then Some RejectScope
      else if \<not> creating rec ev \<and> RevSeq ev \<le> RecSeq rec then Some RejectSeq
      else if RevIdentity ev \<noteq> [] \<and> RecIdentity rec \<noteq> [] \<and> RevIdentity ev \<noteq> RecIdentity rec then Some RejectIdentity
      else if creating rec ev \<and> RevFamily ev = FamilyV6 \<and> RevIdentity ev = [] then Some RejectIdentity
      else if RevFamily ev \<noteq> FamilyUnset \<and> RecFamily rec \<noteq> FamilyUnset \<and> RevFamily ev \<noteq> RecFamily rec
        then Some RejectFamily
      else if familyOf ev rec = FamilyV6 \<and> RevParams ev \<noteq> None then Some RejectFamily
      else if familyOf ev rec = FamilyV4 \<and> RevParams6 ev \<noteq> None then Some RejectFamily
      else if RevParams ev \<noteq> None \<and> RevParams6 ev \<noteq> None then Some RejectFamily
      else None)"

definition fold_stats :: "'p6 Record \<Rightarrow> 'p6 RecordEvent \<Rightarrow> RejectReason + 'p6 Record" where
  "fold_stats rec ev =
     (case RevStats ev of
        None \<Rightarrow> Inl RejectPayload
      | Some s \<Rightarrow>
          if Manager ev = [] then Inl RejectPayload
          else if Manager ev \<noteq> statsManager rec \<and> Manager ev \<in> statsSeen rec then Inl RejectManager
          else
            let now = statsIntoWire s;
                base = (if Manager ev \<noteq> statsManager rec then (\<lambda>_. 0) else statsIntoWire (statsBase rec))
            in case addDelta now base wireFields (Wire (Counters rec)) of
                 Inl _ \<Rightarrow> Inl RejectStats
               | Inr w \<Rightarrow> Inr ((count (\<lambda>c. c\<lparr>Wire := w\<rparr>) rec)
                   \<lparr>statsBase := s, statsManager := Manager ev, statsSeen := insert (Manager ev) (statsSeen rec)\<rparr>))"

definition apply_op :: "'p6 Record \<Rightarrow> 'p6 RecordEvent \<Rightarrow> RejectReason + 'p6 Record" where
  "apply_op rec ev =
     (case RevOp ev of
        OpReserve \<Rightarrow> Inr (rec\<lparr>RecPhase := PhaseReserved\<rparr>)
      | OpCreate \<Rightarrow>
          if RecPhase rec \<noteq> PhaseUnset \<and> RecPhase rec \<noteq> PhaseReserved then Inl RejectPhase
          else Inr (rec\<lparr>RecPhase := PhaseCreated\<rparr>)
      | OpRebind \<Rightarrow>
          if RecPhase rec \<noteq> PhaseRetained then Inl RejectPhase
          else Inr (rec\<lparr>RecPhase := PhaseCreated, RecDeadline := 0\<rparr>)
      | OpAdopt \<Rightarrow> Inr (rec\<lparr>RecPhase := PhaseAdopted\<rparr>)
      | OpBind \<Rightarrow>
          if RecPhase rec \<noteq> PhaseCreated \<and> RecPhase rec \<noteq> PhaseAdopted then Inl RejectPhase
          else Inr (rec\<lparr>RecPhase := PhaseJoined\<rparr>)
      | OpLease \<Rightarrow> if \<not> holdsAnAddress (RecPhase rec) then Inl RejectPhase else foldLease rec ev
      | OpLost \<Rightarrow> if \<not> holdsAnAddress (RecPhase rec) then Inl RejectPhase else Inr (foldLost rec ev)
      | OpLeave \<Rightarrow>
          if RecPhase rec \<noteq> PhaseJoined then Inl RejectPhase else Inr (rec\<lparr>RecPhase := PhaseLeft\<rparr>)
      | OpRetain \<Rightarrow>
          if \<not> holdsAnAddress (RecPhase rec) \<and> RecPhase rec \<noteq> PhaseLeft then Inl RejectPhase
          else Inr (rec\<lparr>RecPhase := PhaseRetained\<rparr>)
      | OpClose \<Rightarrow> Inr (rec\<lparr>RecPhase := PhaseClosed\<rparr>)
      | OpStats \<Rightarrow> fold_stats rec ev
      | OpExtra \<Rightarrow>
          if RevExtra ev = [] then Inl RejectPayload
          else Inr (rec\<lparr>Extra := add_extra (RevExtra ev) (Extra rec)\<rparr>)
      | OpOther _ \<Rightarrow> Inl RejectPhase)"

text \<open>The fields every accepted event writes.\<close>

definition write_fields :: "'p6 RecordEvent \<Rightarrow> 'p6 Record \<Rightarrow> 'p6 Record" where
  "write_fields ev rec =
     rec\<lparr>RecID := RevID ev, RecSeq := RevSeq ev, RecInstance := RevInstance ev,
         RecScope := (if RevScope ev \<noteq> [] then RevScope ev else RecScope rec),
         RecFamily := (if RevFamily ev \<noteq> FamilyUnset then RevFamily ev else RecFamily rec),
         RecCHAddr := (if RevCHAddr ev \<noteq> [] then RevCHAddr ev else RecCHAddr rec),
         RecIdentity := (if RevIdentity ev \<noteq> [] then RevIdentity ev else RecIdentity rec),
         RecParams := (if RevParams ev \<noteq> None then RevParams ev else RecParams rec),
         RecParams6 := (if RevParams6 ev \<noteq> None then RevParams6 ev else RecParams6 rec),
         RecDeclined6 := (if RevDeclined6 ev \<noteq> [] then RevDeclined6 ev else RecDeclined6 rec),
         RecStepsRef := (if RevStepsRef ev \<noteq> [] then RevStepsRef ev else RecStepsRef rec),
         RecDeadline :=
           (if RecPhase rec \<noteq> PhaseRetained \<and> RevOp ev \<in> {OpRebind, OpCreate, OpBind} then 0
            else if RevDeadline ev \<noteq> 0 then RevDeadline ev else RecDeadline rec)\<rparr>"

definition reject :: "RejectReason \<Rightarrow> 'p6 RecordEvent \<Rightarrow> 'p6 Record \<Rightarrow> 'p6 Record \<times> Reject option" where
  "reject why ev rec =
     ((count (\<lambda>c. c\<lparr>Rejects := Rejects c + 1\<rparr>) rec)\<lparr>LastReject := why\<rparr>,
      Some \<lparr>RejReason = why, RejOp = RevOp ev, RejPhase = RecPhase rec, RejID = RevID ev, RejSeq = RevSeq ev\<rparr>)"

definition Fold :: "'p6 Record \<Rightarrow> 'p6 RecordEvent \<Rightarrow> 'p6 Record \<times> Reject option" where
  "Fold rec ev =
     (case guards rec ev of
        Some why \<Rightarrow> reject why ev rec
      | None \<Rightarrow> (case apply_op rec ev of
          Inl why \<Rightarrow> reject why ev rec
        | Inr next_rec \<Rightarrow> (write_fields ev next_rec, None)))"

end
