(* ===== verification/Lease_Rebuild.thy ===== *)
theory Lease_Rebuild
  imports Lease_Record Netip6
begin

text \<open>
  Rebuilding records from a journal, \<^verbatim>\<open>src/lease/rebuild.go\<close>, the readers of a record, and the
  laws of the fold: what a refusal leaves alone, what is written once, the life of a record,
  and that a rebuild is one independent fold per record.
\<close>

section \<open>Readers\<close>

definition record_Resume :: "wall \<Rightarrow> 'p6 Record \<Rightarrow> OLease option" where
  "record_Resume now r =
     (if \<not> Held r then None
      else if RecPhase r \<notin> {PhaseReserved, PhaseCreated, PhaseJoined, PhaseLeft, PhaseAdopted} then None
      else if \<not> PrefixIsValid (OAddr (RecLease r)) then None
      else if OExpire (RecLease r) = 0 \<or> OExpire (RecLease r) > now then Some (RecLease r)
      else None)"

definition Prefer :: "wall \<Rightarrow> 'p6 Record \<Rightarrow> addr option" where
  "Prefer now r =
     (if record_Resume now r \<noteq> None then None
      else if RecPhase r = PhaseUnset \<or> RecPhase r = PhaseClosed then None
      else if \<not> PrefixIsValid (OAddr (RecLease r)) then None
      else let a = paddr (OAddr (RecLease r)) in
        if \<not> Is4 a \<or> IsUnspecified a then None else Some a)"

definition record_Addr :: "'p6 Record \<Rightarrow> addr option" where
  "record_Addr r = (if \<not> PrefixIsValid (OAddr (RecLease r)) then None else Some (paddr (OAddr (RecLease r))))"

section \<open>Rebuilding\<close>

record 'p6 Rebuilt =
  Records :: "'p6 Record list"
  RRejects :: "Reject list"
  byID :: "gostring \<rightharpoonup> nat"

definition rebuild_step :: "'p6 Rebuilt \<Rightarrow> 'p6 RecordEvent \<Rightarrow> 'p6 Rebuilt" where
  "rebuild_step rb ev =
     (let cur = (case byID rb (RevID ev) of None \<Rightarrow> zero_record | Some i \<Rightarrow> Records rb ! i);
          (nxt, err) = Fold cur ev;
          rb1 = (case err of None \<Rightarrow> rb | Some rj \<Rightarrow> rb\<lparr>RRejects := RRejects rb @ [rj]\<rparr>)
      in case byID rb (RevID ev) of
           Some i \<Rightarrow> rb1\<lparr>Records := (Records rb1)[i := nxt]\<rparr>
         | None \<Rightarrow>
             if RecPhase nxt = PhaseUnset then rb1
             else rb1\<lparr>byID := (byID rb1)(RevID ev \<mapsto> length (Records rb1)), Records := Records rb1 @ [nxt]\<rparr>)"

definition Rebuild :: "'p6 RecordEvent list \<Rightarrow> 'p6 Rebuilt" where
  "Rebuild evs = foldl rebuild_step \<lparr>Records = [], RRejects = [], byID = Map.empty\<rparr> evs"

definition ByID :: "gostring \<Rightarrow> 'p6 Rebuilt \<Rightarrow> 'p6 Record option" where
  "ByID i rb = (case byID rb i of None \<Rightarrow> None | Some k \<Rightarrow> Some (Records rb ! k))"

definition ByScopeAddr :: "gostring \<Rightarrow> addr \<Rightarrow> 'p6 Rebuilt \<Rightarrow> 'p6 Record list" where
  "ByScopeAddr s a rb = filter (\<lambda>r. RecScope r = s \<and> record_Addr r = Some a) (Records rb)"

definition ByScopeMAC :: "gostring \<Rightarrow> byte list \<Rightarrow> 'p6 Rebuilt \<Rightarrow> 'p6 Record list" where
  "ByScopeMAC s mac rb = filter (\<lambda>r. RecScope r = s \<and> mac \<noteq> [] \<and> RecCHAddr r = mac) (Records rb)"

definition Tombstones :: "gostring \<Rightarrow> wall \<Rightarrow> 'p6 Rebuilt \<Rightarrow> 'p6 Record list" where
  "Tombstones s now rb = filter (\<lambda>r. RecScope r = s \<and> RecPhase r = PhaseRetained \<and> RecDeadline r \<noteq> 0
     \<and> RecDeadline r > now) (Records rb)"

section \<open>Single events\<close>

lemma reject_fields [simp]:
  "RecPhase (fst (reject w ev r)) = RecPhase r" "RecID (fst (reject w ev r)) = RecID r"
  "RecSeq (fst (reject w ev r)) = RecSeq r" "RecLease (fst (reject w ev r)) = RecLease r"
  "Held (fst (reject w ev r)) = Held r" "RecIdentity (fst (reject w ev r)) = RecIdentity r"
  "RecFamily (fst (reject w ev r)) = RecFamily r" "RecScope (fst (reject w ev r)) = RecScope r"
  "snd (reject w ev r) \<noteq> None"
  by (simp_all add: reject_def count_def)

lemma Fold_accepted:
  "Fold r ev = (r', None) \<Longrightarrow> guards r ev = None \<and> (\<exists>n. apply_op r ev = Inr n \<and> r' = write_fields ev n)"
  by (auto simp: Fold_def reject_def split: option.splits sum.splits)

lemma Fold_refused:
  "Fold r ev = (r', Some e) \<Longrightarrow> \<exists>why. r' = fst (reject why ev r) \<and> Some e = snd (reject why ev r)"
  by (auto simp: Fold_def split: option.splits sum.splits) (metis fst_conv snd_conv)+

lemma foldLease_keeps:
  "foldLease r ev = Inr n \<Longrightarrow> RecPhase n = RecPhase r \<and> RecID n = RecID r \<and> RecScope n = RecScope r
     \<and> RecFamily n = RecFamily r \<and> RecIdentity n = RecIdentity r \<and> RecSeq n = RecSeq r
     \<and> (Held n \<or> Held n = Held r \<and> RecLease n = RecLease r)"
  by (auto simp: foldLease_def count_def Let_def split: LeaseEventKind.splits option.splits)

lemma foldLost_keeps:
  "RecPhase (foldLost r ev) = RecPhase r \<and> RecID (foldLost r ev) = RecID r \<and> RecScope (foldLost r ev) = RecScope r
     \<and> RecFamily (foldLost r ev) = RecFamily r \<and> RecIdentity (foldLost r ev) = RecIdentity r
     \<and> RecSeq (foldLost r ev) = RecSeq r
     \<and> (if RevReason ev = ReasonStopped then Held (foldLost r ev) = Held r \<and> RecLease (foldLost r ev) = RecLease r
        else \<not> Held (foldLost r ev) \<and> RecLease (foldLost r ev) = zero_olease)"
  by (auto simp: foldLost_def count_def Let_def)

lemma fold_stats_keeps:
  "fold_stats r ev = Inr n \<Longrightarrow> RecPhase n = RecPhase r \<and> RecID n = RecID r \<and> RecScope n = RecScope r
     \<and> RecFamily n = RecFamily r \<and> RecIdentity n = RecIdentity r \<and> RecSeq n = RecSeq r
     \<and> Held n = Held r \<and> RecLease n = RecLease r"
  by (auto simp: fold_stats_def count_def Let_def split: option.splits sum.splits if_splits)

lemma apply_op_keeps:
  assumes "apply_op r ev = Inr n"
  shows "RecID n = RecID r \<and> RecScope n = RecScope r \<and> RecFamily n = RecFamily r
     \<and> RecIdentity n = RecIdentity r \<and> RecSeq n = RecSeq r"
  using assms foldLease_keeps [of r ev n] foldLost_keeps [of r ev] fold_stats_keeps [of r ev n]
  by (cases "RevOp ev") (auto simp: apply_op_def split: if_splits)

section \<open>The life of a record\<close>

text \<open>The phases an accepted operation leads to; the other operations stay where they are.\<close>

inductive life :: "Phase \<Rightarrow> RecordOp \<Rightarrow> Phase \<Rightarrow> bool" where
  reserve: "life PhaseUnset OpReserve PhaseReserved"
| adopt: "life PhaseUnset OpAdopt PhaseAdopted"
| create: "p \<in> {PhaseUnset, PhaseReserved} \<Longrightarrow> life p OpCreate PhaseCreated"
| bind_op: "p \<in> {PhaseCreated, PhaseAdopted} \<Longrightarrow> life p OpBind PhaseJoined"
| leave: "life PhaseJoined OpLeave PhaseLeft"
| retain: "p \<in> {PhaseReserved, PhaseCreated, PhaseJoined, PhaseAdopted, PhaseLeft} \<Longrightarrow> life p OpRetain PhaseRetained"
| rebind: "life PhaseRetained OpRebind PhaseCreated"
| close_op: "p \<noteq> PhaseUnset \<Longrightarrow> life p OpClose PhaseClosed"
| lease_op: "p \<in> {PhaseReserved, PhaseCreated, PhaseJoined, PhaseAdopted} \<Longrightarrow> ev \<in> {OpLease, OpLost} \<Longrightarrow> life p ev p"
| counters_op: "p \<noteq> PhaseUnset \<Longrightarrow> ev \<in> {OpStats, OpExtra} \<Longrightarrow> life p ev p"

inductive_cases closed_life: "life PhaseClosed ev q"

lemma write_fields_phase [simp]: "RecPhase (write_fields ev r) = RecPhase r"
  "Held (write_fields ev r) = Held r" "RecLease (write_fields ev r) = RecLease r"
  by (simp_all add: write_fields_def)

lemma guards_phase: "guards r ev = None \<Longrightarrow>
    (RecPhase r = PhaseUnset \<longrightarrow> creating r ev) \<and> (RecPhase r \<noteq> PhaseUnset \<longrightarrow> \<not> creating r ev)"
  by (auto simp: guards_def split: if_splits)

lemma accepted_life:
  assumes "Fold r ev = (r', None)"
  shows "life (RecPhase r) (RevOp ev) (RecPhase r')"
proof -
  from Fold_accepted [OF assms] obtain n where g: "guards r ev = None" and n: "apply_op r ev = Inr n"
    and r': "RecPhase r' = RecPhase n" by auto
  have c: "RecPhase r = PhaseUnset \<Longrightarrow> RevOp ev \<in> {OpReserve, OpAdopt, OpCreate}"
    "RecPhase r \<noteq> PhaseUnset \<Longrightarrow> RevOp ev \<notin> {OpReserve, OpAdopt}"
    using guards_phase [OF g] by (auto simp: creating_def)
  show ?thesis
    unfolding r' using n c foldLease_keeps [of r ev n] foldLost_keeps [of r ev] fold_stats_keeps [of r ev n]
    by (cases "RevOp ev"; cases "RecPhase r")
      (auto simp: apply_op_def holdsAnAddress_def intro: life.intros split: if_splits)
qed

section \<open>Laws of the fold\<close>

text \<open>The lease is there exactly when it is held.\<close>

definition record_inv :: "'p6 Record \<Rightarrow> bool" where
  "record_inv r \<longleftrightarrow> (\<not> Held r \<longrightarrow> RecLease r = zero_olease) \<and> (RecPhase r = PhaseUnset \<longrightarrow> \<not> Held r)"

lemma zero_record_inv: "record_inv zero_record"
  by (simp add: record_inv_def zero_record_def)

lemma apply_op_inv:
  assumes "apply_op r ev = Inr n" "record_inv r"
  shows "\<not> Held n \<longrightarrow> RecLease n = zero_olease"
  using assms foldLease_keeps [of r ev n] foldLost_keeps [of r ev] fold_stats_keeps [of r ev n]
  by (cases "RevOp ev") (auto simp: apply_op_def record_inv_def split: if_splits)

lemma life_alive: "life q ev q' \<Longrightarrow> q' \<noteq> PhaseUnset"
  by (erule life.cases) auto

lemma Fold_inv:
  assumes "record_inv r"
  shows "record_inv (fst (Fold r ev))"
proof (cases "Fold r ev")
  case (Pair r' e)
  show ?thesis
  proof (cases e)
    case None
    with Pair have f: "Fold r ev = (r', None)" by simp
    from Fold_accepted [OF f] obtain n where "apply_op r ev = Inr n" "r' = write_fields ev n" by blast
    with apply_op_inv [OF _ assms] life_alive [OF accepted_life [OF f]] Pair show ?thesis
      by (simp add: record_inv_def)
  next
    case (Some a)
    with Pair Fold_refused [of r ev r' a] assms show ?thesis by (auto simp: record_inv_def)
  qed
qed

text \<open>
  C23: A record is what was written to it once and in order: on an existing record no event changes its
  id or scope, nor its identity or family once set; the sequence number never goes back, and
  grows exactly with accepted events; a refused event changes nothing but the reject counter and reason;
  and an accepted event moves the phase along the life of a record.
\<close>

theorem fold_laws:
  assumes "Fold r ev = (r', e)" "RecPhase r \<noteq> PhaseUnset"
  shows "RecID r' = RecID r \<and> RecScope r' = RecScope r
    \<and> (RecIdentity r \<noteq> [] \<longrightarrow> RecIdentity r' = RecIdentity r)
    \<and> (RecFamily r \<noteq> FamilyUnset \<longrightarrow> RecFamily r' = RecFamily r)
    \<and> RecSeq r \<le> RecSeq r' \<and> (e = None \<longleftrightarrow> RecSeq r < RecSeq r')
    \<and> (e = None \<longrightarrow> life (RecPhase r) (RevOp ev) (RecPhase r'))
    \<and> (\<forall>x. e = Some x \<longrightarrow> r' = r\<lparr>LastReject := RejReason x,
          Counters := (Counters r)\<lparr>Rejects := Rejects (Counters r) + 1\<rparr>\<rparr>)"
proof (cases e)
  case None
  with assms have f: "Fold r ev = (r', None)" by simp
  from Fold_accepted [OF f] obtain n where g: "guards r ev = None" and n: "apply_op r ev = Inr n"
    and r': "r' = write_fields ev n" by blast
  from g assms(2) have "RevID ev = RecID r" "RevScope ev = [] \<or> RevScope ev = RecScope r"
    "\<not> creating r ev" "RecSeq r < RevSeq ev"
    "RevIdentity ev = [] \<or> RecIdentity r = [] \<or> RevIdentity ev = RecIdentity r"
    "RevFamily ev = FamilyUnset \<or> RecFamily r = FamilyUnset \<or> RevFamily ev = RecFamily r"
    by (auto simp: guards_def not_le split: if_splits)
  with apply_op_keeps [OF n] accepted_life [OF f] None show ?thesis
    by (auto simp: r' write_fields_def)
next
  case (Some x)
  with assms(1) Fold_refused [of r ev r' x] obtain why where
    "r' = fst (reject why ev r)" "Some x = snd (reject why ev r)" by blast
  with Some show ?thesis by (auto simp: reject_def count_def)
qed

text \<open>
  A closed record stays closed: every further event is refused or only closes it again
  or adds counters, whatever the stream brings.
\<close>

theorem closed_is_final:
  assumes "RecPhase r = PhaseClosed"
  shows "RecPhase (foldl (\<lambda>r ev. fst (Fold r ev)) r evs) = PhaseClosed"
  using assms
proof (induction evs arbitrary: r)
  case (Cons ev evs)
  obtain r' e where f: "Fold r ev = (r', e)" by fastforce
  have "RecPhase r' = PhaseClosed"
  proof (cases e)
    case None
    with accepted_life [of r ev r'] f Cons.prems show ?thesis by (auto elim: closed_life)
  next
    case (Some x)
    with Fold_refused [of r ev r' x] f Cons.prems show ?thesis by auto
  qed
  with Cons.IH f show ?case by simp
qed simp

text \<open>
  C24: Stopping a manager is not losing the lease: an accepted \<^verbatim>\<open>OpLost\<close> keeps the lease
  and the held flag when its reason is the stop, and clears both for every other reason.
\<close>

theorem stopped_is_not_lost:
  assumes "Fold r ev = (r', None)" "RevOp ev = OpLost"
  shows "if RevReason ev = ReasonStopped then Held r' = Held r \<and> RecLease r' = RecLease r
    else \<not> Held r' \<and> RecLease r' = zero_olease"
proof -
  from Fold_accepted [OF assms(1)] obtain n where "apply_op r ev = Inr n" "r' = write_fields ev n" by blast
  with assms(2) foldLost_keeps [of r ev] show ?thesis by (auto simp: apply_op_def split: if_splits)
qed

section \<open>Resuming\<close>


section \<open>Rebuilding is folding each record on its own\<close>

text \<open>
  A store of records that an event stream is applied to. The contract: an event touches the
  entry of its own key, as \<open>upd\<close> says, and no other.
\<close>

locale keyed_store =
  fixes inv :: "'rb \<Rightarrow> bool"
    and apply_ev :: "'rb \<Rightarrow> 'e \<Rightarrow> 'rb"
    and lookup :: "'rb \<Rightarrow> 'k \<Rightarrow> 'r option"
    and key :: "'e \<Rightarrow> 'k"
    and upd :: "'r option \<Rightarrow> 'e \<Rightarrow> 'r option"
  assumes inv_apply: "inv rb \<Longrightarrow> inv (apply_ev rb e)"
    and lookup_same: "inv rb \<Longrightarrow> lookup (apply_ev rb e) (key e) = upd (lookup rb (key e)) e"
    and lookup_other: "inv rb \<Longrightarrow> k \<noteq> key e \<Longrightarrow> lookup (apply_ev rb e) k = lookup rb k"
begin

lemma inv_foldl: "inv rb \<Longrightarrow> inv (foldl apply_ev rb es)"
  by (induction es arbitrary: rb) (simp_all add: inv_apply)

lemma lookup_foldl: "inv rb \<Longrightarrow> lookup (foldl apply_ev rb es) k = foldl upd (lookup rb k) (filter (\<lambda>e. key e = k) es)"
  by (induction es arbitrary: rb) (auto simp: inv_apply lookup_same lookup_other)

lemma order_irrelevant:
  assumes "inv rb" "\<And>k. filter (\<lambda>e. key e = k) es = filter (\<lambda>e. key e = k) es'"
  shows "lookup (foldl apply_ev rb es) k = lookup (foldl apply_ev rb es') k"
  using assms by (simp add: lookup_foldl)

end

text \<open>One event on one record that may not exist yet.\<close>

definition fold_one :: "'p6 Record option \<Rightarrow> 'p6 RecordEvent \<Rightarrow> 'p6 Record option" where
  "fold_one r ev =
     (case r of
        Some x \<Rightarrow> Some (fst (Fold x ev))
      | None \<Rightarrow> let n = fst (Fold zero_record ev) in if RecPhase n = PhaseUnset then None else Some n)"

text \<open>The index points at each record under its own id, and every record was created.\<close>

definition rebuilt_inv :: "'p6 Rebuilt \<Rightarrow> bool" where
  "rebuilt_inv rb \<longleftrightarrow> (\<forall>k i. byID rb k = Some i \<longrightarrow> i < length (Records rb) \<and> RecID (Records rb ! i) = k)
     \<and> (\<forall>i < length (Records rb). byID rb (RecID (Records rb ! i)) = Some i
          \<and> RecPhase (Records rb ! i) \<noteq> PhaseUnset \<and> RecID (Records rb ! i) \<noteq> [] \<and> record_inv (Records rb ! i))"

lemma rebuilt_index:
  "rebuilt_inv rb \<Longrightarrow> byID rb k = Some i \<Longrightarrow> i < length (Records rb) \<and> RecID (Records rb ! i) = k"
  by (simp add: rebuilt_inv_def)

lemma rebuilt_entry:
  "rebuilt_inv rb \<Longrightarrow> i < length (Records rb) \<Longrightarrow> byID rb (RecID (Records rb ! i)) = Some i
     \<and> RecPhase (Records rb ! i) \<noteq> PhaseUnset \<and> RecID (Records rb ! i) \<noteq> [] \<and> record_inv (Records rb ! i)"
  by (simp add: rebuilt_inv_def)

lemma accepted_id:
  assumes "Fold r ev = (r', None)"
  shows "RecID r' = RevID ev \<and> RevID ev \<noteq> [] \<and> (RecPhase r \<noteq> PhaseUnset \<longrightarrow> RevID ev = RecID r)"
proof -
  from Fold_accepted [OF assms] obtain n where g: "guards r ev = None" and r': "r' = write_fields ev n" by blast
  from g have "RevID ev \<noteq> [] \<and> (RecPhase r \<noteq> PhaseUnset \<longrightarrow> RevID ev = RecID r)"
    by (auto simp: guards_def split: if_splits)
  then show ?thesis by (simp add: r' write_fields_def)
qed

lemma Fold_existing:
  assumes "RecPhase r \<noteq> PhaseUnset"
  shows "RecID (fst (Fold r ev)) = RecID r \<and> RecPhase (fst (Fold r ev)) \<noteq> PhaseUnset"
proof (cases "Fold r ev")
  case (Pair r' e)
  show ?thesis
  proof (cases e)
    case None
    with Pair have f: "Fold r ev = (r', None)" by simp
    show ?thesis using accepted_id [OF f] life_alive [OF accepted_life [OF f]] assms by (simp add: f)
  next
    case (Some x)
    with Pair Fold_refused [of r ev r' x] assms show ?thesis by auto
  qed
qed

lemma Fold_new:
  assumes "RecPhase (fst (Fold zero_record ev)) \<noteq> PhaseUnset"
  shows "RecID (fst (Fold zero_record ev)) = RevID ev \<and> RevID ev \<noteq> []"
proof (cases "Fold zero_record ev")
  case (Pair r' e)
  show ?thesis
  proof (cases e)
    case None
    with Pair accepted_id [of zero_record ev r'] show ?thesis by simp
  next
    case (Some x)
    with Pair Fold_refused [of zero_record ev r' x] have "RecPhase r' = PhaseUnset" by (auto simp: zero_record_def)
    with Pair assms show ?thesis by simp
  qed
qed

text \<open>A step with the journal of refusals set aside.\<close>

lemma rebuild_step_known:
  assumes "byID rb (RevID ev) = Some i"
  shows "Records (rebuild_step rb ev) = (Records rb)[i := fst (Fold (Records rb ! i) ev)]"
    "byID (rebuild_step rb ev) = byID rb"
  using assms by (auto simp: rebuild_step_def Let_def split_def split: option.split)

lemma rebuild_step_unknown:
  assumes "byID rb (RevID ev) = None"
  shows "Records (rebuild_step rb ev) = Records rb @ (case fold_one None ev of None \<Rightarrow> [] | Some n \<Rightarrow> [n])"
    "byID (rebuild_step rb ev) = (case fold_one None ev of None \<Rightarrow> byID rb
       | Some n \<Rightarrow> (byID rb)(RevID ev \<mapsto> length (Records rb)))"
  using assms by (auto simp: rebuild_step_def fold_one_def Let_def split_def split: option.split)

lemma rebuilt_inv_step:
  assumes "rebuilt_inv rb"
  shows "rebuilt_inv (rebuild_step rb ev)"
proof (cases "byID rb (RevID ev)")
  case (Some i)
  note st = rebuild_step_known [OF Some]
  have i: "i < length (Records rb)" "RecID (Records rb ! i) = RevID ev" "RecPhase (Records rb ! i) \<noteq> PhaseUnset"
    "record_inv (Records rb ! i)"
    using assms Some by (auto simp: rebuilt_inv_def)
  note f = Fold_existing [OF i(3), of ev] Fold_inv [OF i(4), of ev]
  have "RecID (Records (rebuild_step rb ev) ! j) = RecID (Records rb ! j)" for j
    using f i by (cases "j = i") (simp_all add: st)
  with assms f i show ?thesis by (auto simp: rebuilt_inv_def st nth_list_update)
next
  case None
  note st = rebuild_step_unknown [OF None]
  show ?thesis
  proof (cases "fold_one None ev")
    case None
    with assms show ?thesis by (simp add: rebuilt_inv_def st)
  next
    case (Some n)
    then have n: "n = fst (Fold zero_record ev)" "RecPhase n \<noteq> PhaseUnset"
      by (auto simp: fold_one_def Let_def split: if_splits)
    with Fold_new [of ev] Fold_inv [OF zero_record_inv, of ev]
    have "RecID n = RevID ev" "RevID ev \<noteq> []" "record_inv n" by auto
    note n = n(2) this
    have st': "Records (rebuild_step rb ev) = Records rb @ [n]"
      "byID (rebuild_step rb ev) = (byID rb)(RevID ev \<mapsto> length (Records rb))" using Some by (simp_all add: st)
    show ?thesis
      unfolding rebuilt_inv_def st'
    proof (intro conjI allI impI)
      fix k i assume "((byID rb)(RevID ev \<mapsto> length (Records rb))) k = Some i"
      then show "i < length (Records rb @ [n])" "RecID ((Records rb @ [n]) ! i) = k"
        using n rebuilt_index [OF assms] by (cases "k = RevID ev"; fastforce simp: nth_append)+
    next
      fix i assume i: "i < length (Records rb @ [n])"
      let ?r = "(Records rb @ [n]) ! i"
      have "((byID rb)(RevID ev \<mapsto> length (Records rb))) (RecID ?r) = Some i \<and> RecPhase ?r \<noteq> PhaseUnset
        \<and> RecID ?r \<noteq> [] \<and> record_inv ?r"
      proof (cases "i = length (Records rb)")
        case True
        with n show ?thesis by simp
      next
        case False
        with i have "?r = Records rb ! i" "i < length (Records rb)" by (simp_all add: nth_append)
        with rebuilt_entry [OF assms this(2)] \<open>byID rb (RevID ev) = None\<close> show ?thesis by auto
      qed
      then show "((byID rb)(RevID ev \<mapsto> length (Records rb))) (RecID ?r) = Some i" "RecPhase ?r \<noteq> PhaseUnset"
        "RecID ?r \<noteq> []" "record_inv ?r" by simp_all
    qed
  qed
qed

interpretation rebuild: keyed_store rebuilt_inv rebuild_step "\<lambda>rb k. ByID k rb" RevID fold_one
proof
  fix rb :: "'a Rebuilt" and e assume inv: "rebuilt_inv rb"
  show "rebuilt_inv (rebuild_step rb e)" by (rule rebuilt_inv_step [OF inv])
  show "ByID (RevID e) (rebuild_step rb e) = fold_one (ByID (RevID e) rb) e"
  proof (cases "byID rb (RevID e)")
    case None
    then show ?thesis
      by (auto simp: ByID_def rebuild_step_unknown [OF None] split: option.split)
  next
    case (Some i)
    with inv have "i < length (Records rb)" by (auto simp: rebuilt_inv_def)
    with Some show ?thesis by (simp add: ByID_def rebuild_step_known [OF Some] fold_one_def)
  qed
  fix k assume k: "k \<noteq> RevID e"
  show "ByID k (rebuild_step rb e) = ByID k rb"
  proof (cases "byID rb (RevID e)")
    case None
    with inv k show ?thesis
      by (auto simp: ByID_def rebuild_step_unknown [OF None] rebuilt_inv_def nth_append split: option.split)
  next
    case (Some i)
    have "byID rb k \<noteq> Some i" using rebuilt_index [OF inv] Some k by metis
    then show ?thesis by (auto simp: ByID_def rebuild_step_known [OF Some] split: option.split)
  qed
qed

lemma rebuilt_empty: "rebuilt_inv \<lparr>Records = [], RRejects = [], byID = Map.empty\<rparr>"
  by (simp add: rebuilt_inv_def)

lemma Rebuild_inv: "rebuilt_inv (Rebuild evs)"
  unfolding Rebuild_def by (rule rebuild.inv_foldl [OF rebuilt_empty])

text \<open>
  Rebuilding a journal is folding each record on its own: the record found under an id
  is the fold of exactly the events that name it, in their order, whatever other records the journal
  interleaves; the records are those found under some id, and no two share one.
\<close>

theorem rebuild_per_record:
  "ByID k (Rebuild evs) = foldl fold_one None (filter (\<lambda>ev. RevID ev = k) evs)
   \<and> set (Records (Rebuild evs)) = {r. \<exists>i. ByID i (Rebuild evs) = Some r}
   \<and> distinct (map RecID (Records (Rebuild evs)))"
proof (intro conjI)
  note inv = Rebuild_inv [of evs]
  show "ByID k (Rebuild evs) = foldl fold_one None (filter (\<lambda>ev. RevID ev = k) evs)"
    unfolding Rebuild_def rebuild.lookup_foldl [OF rebuilt_empty] by (simp add: ByID_def)
  show "set (Records (Rebuild evs)) = {r. \<exists>i. ByID i (Rebuild evs) = Some r}"
  proof (intro equalityI subsetI CollectI)
    fix r assume "r \<in> set (Records (Rebuild evs))"
    then obtain i where "i < length (Records (Rebuild evs))" "r = Records (Rebuild evs) ! i"
      by (auto simp: in_set_conv_nth)
    with rebuilt_entry [OF inv this(1)] show "\<exists>i. ByID i (Rebuild evs) = Some r"
      by (intro exI [of _ "RecID r"]) (simp add: ByID_def)
  next
    fix r assume "r \<in> {r. \<exists>i. ByID i (Rebuild evs) = Some r}"
    with rebuilt_index [OF inv] show "r \<in> set (Records (Rebuild evs))"
      by (fastforce simp: ByID_def split: option.splits)
  qed
  show "distinct (map RecID (Records (Rebuild evs)))"
    unfolding distinct_conv_nth length_map
  proof (intro allI impI)
    fix i j assume ij: "i < length (Records (Rebuild evs))" "j < length (Records (Rebuild evs))" "i \<noteq> j"
    with rebuilt_entry [OF inv ij(1)] rebuilt_entry [OF inv ij(2)]
    show "map RecID (Records (Rebuild evs)) ! i \<noteq> map RecID (Records (Rebuild evs)) ! j" by auto
  qed
qed

section \<open>Counters of a manager\<close>

lemma addDelta_spec:
  "addDelta now base fs w = Inr w' \<Longrightarrow> distinct fs \<Longrightarrow> w' f = (if f \<in> set fs then w f + (now f - base f) else w f)"
  by (induction fs arbitrary: w) (auto split: if_splits)

lemma distinct_wireFields: "distinct wireFields"
  by (simp add: wireFields_def)

fun accept_all :: "'p6 Record \<Rightarrow> 'p6 RecordEvent list \<Rightarrow> 'p6 Record option" where
  "accept_all r [] = Some r"
| "accept_all r (ev # evs) = (case Fold r ev of (r', None) \<Rightarrow> accept_all r' evs | _ \<Rightarrow> None)"

lemma fold_stats_accepted:
  assumes "fold_stats r ev = Inr n"
  shows "\<exists>s w. RevStats ev = Some s \<and> addDelta (statsIntoWire s)
      (if Manager ev \<noteq> statsManager r then (\<lambda>_. 0) else statsIntoWire (statsBase r)) wireFields (Wire (Counters r)) = Inr w
    \<and> Wire (Counters n) = w \<and> statsManager n = Manager ev \<and> statsBase n = s"
proof -
  from assms obtain s where s: "RevStats ev = Some s" by (auto simp: fold_stats_def split: option.splits)
  let ?d = "addDelta (statsIntoWire s) (if Manager ev \<noteq> statsManager r then (\<lambda>_. 0) else statsIntoWire (statsBase r))
    wireFields (Wire (Counters r))"
  from assms s show ?thesis
    by (cases ?d) (simp_all add: fold_stats_def Let_def count_def split: if_splits, auto)
qed

lemma stats_step:
  assumes "Fold r ev = (r', None)" "RevOp ev = OpStats" "f \<in> set wireFields"
  shows "\<exists>s. RevStats ev = Some s \<and> statsManager r' = Manager ev \<and> statsBase r' = s
    \<and> Wire (Counters r') f = Wire (Counters r) f + (s f - (if Manager ev = statsManager r then statsBase r f else 0))"
proof -
  from Fold_accepted [OF assms(1)] assms(2) obtain n where n: "fold_stats r ev = Inr n" "r' = write_fields ev n"
    by (auto simp: apply_op_def)
  from fold_stats_accepted [OF n(1)] obtain s w where s: "RevStats ev = Some s"
    and d: "addDelta (statsIntoWire s) (if Manager ev \<noteq> statsManager r then (\<lambda>_. 0) else statsIntoWire (statsBase r))
      wireFields (Wire (Counters r)) = Inr w"
    and f: "Wire (Counters n) = w" "statsManager n = Manager ev" "statsBase n = s" by blast
  from addDelta_spec [OF d distinct_wireFields, of f] assms(3) s f show ?thesis
    by (simp add: n(2) write_fields_def statsIntoWire_def)
qed

lemma stats_run:
  assumes "accept_all r evs = Some r'" "\<forall>ev \<in> set evs. RevOp ev = OpStats \<and> Manager ev = statsManager r"
    and "f \<in> set wireFields"
  shows "Wire (Counters r') f - statsBase r' f = Wire (Counters r) f - statsBase r f
    \<and> statsBase r' = (if evs = [] then statsBase r else the (RevStats (last evs)))"
  using assms
proof (induction evs arbitrary: r)
  case (Cons ev evs)
  obtain r1 where f: "Fold r ev = (r1, None)" "accept_all r1 evs = Some r'"
    using Cons.prems(1) by (auto split: prod.splits option.splits)
  from stats_step [OF f(1) _ Cons.prems(3)] Cons.prems(2) obtain s where
    s: "RevStats ev = Some s" "statsManager r1 = statsManager r" "statsBase r1 = s"
    "Wire (Counters r1) f = Wire (Counters r) f + (s f - statsBase r f)" by auto
  have "\<forall>e \<in> set evs. RevOp e = OpStats \<and> Manager e = statsManager r1" using Cons.prems(2) s(2) by simp
  from Cons.IH [OF f(2) this Cons.prems(3)] s show ?case by (cases "evs = []") auto
qed simp

text \<open>
  A manager is counted once however often it reports: after any number of accepted
  snapshots of a new manager, every wire counter of the record has grown by exactly that
  manager's last reading.
\<close>

theorem manager_counted_once:
  assumes "accept_all r (ev # evs) = Some r'" "Manager ev \<noteq> statsManager r"
    and "\<forall>e \<in> set (ev # evs). RevOp e = OpStats \<and> Manager e = Manager ev" "f \<in> set wireFields"
  shows "Wire (Counters r') f = Wire (Counters r) f + the (RevStats (last (ev # evs))) f"
proof -
  obtain r1 where f: "Fold r ev = (r1, None)" "accept_all r1 evs = Some r'"
    using assms(1) by (auto split: prod.splits option.splits)
  have "RevOp ev = OpStats" using assms(3) by simp
  from stats_step [OF f(1) this assms(4)] obtain s where
    s: "RevStats ev = Some s" "statsManager r1 = Manager ev" "statsBase r1 = s" and
    w: "Wire (Counters r1) f = Wire (Counters r) f + (s f - (if Manager ev = statsManager r then statsBase r f else 0))"
    by blast
  have s4: "Wire (Counters r1) f = Wire (Counters r) f + s f" using w assms(2) by simp
  have "\<forall>e \<in> set evs. RevOp e = OpStats \<and> Manager e = statsManager r1" using assms(3) s(2) by simp
  from stats_run [OF f(2) this assms(4)] s(3) s4
  have "Wire (Counters r') f = Wire (Counters r) f + statsBase r' f"
    "statsBase r' = (if evs = [] then s else the (RevStats (last evs)))" by (simp_all add: diff_eq_eq)
  with s(1) show ?thesis by simp
qed

section \<open>A journal\<close>

definition sample_event :: "RecordOp \<Rightarrow> 64 word \<Rightarrow> unit RecordEvent" where
  "sample_event op n = \<lparr>RevID = [97], RevOp = op, RevSeq = n, RevAt = 0, RevInstance = [112], Manager = [109],
     RevScope = [], RevFamily = FamilyV4, RevCHAddr = [], RevIdentity = [], RevParams = None, RevParams6 = None,
     RevDeclined6 = [], RevDeadline = 0, RevStepsRef = [], RevKind = KindAcquired,
     RevLease = Some (zero_olease\<lparr>OAddr := PrefixFrom (Addr4 0x0A000007) 24, OExpire := 100\<rparr>),
     RevReason = ReasonStopped, RevACD = ACDIdle, RevDAD = DADIdle, RevConfig = None,
     RevStats = Some (\<lambda>_. 5), RevExtra = []\<rparr>"

definition sample_record :: "unit Record" where
  "sample_record = zero_record\<lparr>RecID := [97], RecFamily := FamilyV4, RecPhase := PhaseJoined, RecSeq := 3,
     RecInstance := [112], Held := True, RecLease := zero_olease\<lparr>OAddr := PrefixFrom (Addr4 0x0A000007) 24, OExpire := 100\<rparr>\<rparr>"

lemmas sample_defs = sample_event_def sample_record_def Fold_def guards_def apply_op_def creating_def familyOf_def
  zero_record_def write_fields_def holdsAnAddress_def foldLost_def foldLease_def count_def reject_def

lemma sample_accepted: "snd (Fold sample_record (sample_event OpLost 4)) = None"
  "snd (Fold sample_record (sample_event OpLeave 4)) = None" "record_inv sample_record"
  by (simp_all add: sample_defs record_inv_def)

lemma fold_laws_witness:
  "RecPhase sample_record \<noteq> PhaseUnset \<and> RecSeq sample_record < RecSeq (fst (Fold sample_record (sample_event OpLeave 4)))
   \<and> RecID (fst (Fold sample_record (sample_event OpLeave 4))) = [97]"
proof -
  have "RecPhase sample_record \<noteq> PhaseUnset" "RecID sample_record = [97]" by (simp_all add: sample_defs)
  then show ?thesis
    using fold_laws [of sample_record "sample_event OpLeave 4" _ None] sample_accepted(2)
    by (cases "Fold sample_record (sample_event OpLeave 4)") auto
qed

lemma closed_is_final_witness:
  "RecPhase (sample_record\<lparr>RecPhase := PhaseClosed\<rparr>) = PhaseClosed
   \<and> RecPhase (foldl (\<lambda>r ev. fst (Fold r ev)) (sample_record\<lparr>RecPhase := PhaseClosed\<rparr>)
        [sample_event OpLease 4, sample_event OpBind 5, sample_event OpStats 6]) = PhaseClosed"
  by (intro conjI closed_is_final) simp_all

lemma stopped_is_not_lost_witness:
  "Held (fst (Fold sample_record (sample_event OpLost 4)))"
proof -
  have "Held sample_record" "RevOp (sample_event OpLost 4) = OpLost" "RevReason (sample_event OpLost 4) = ReasonStopped"
    by (simp_all add: sample_record_def sample_event_def)
  then show ?thesis
    using stopped_is_not_lost [of sample_record "sample_event OpLost 4"] sample_accepted(1)
    by (cases "Fold sample_record (sample_event OpLost 4)") auto
qed


lemma manager_counted_once_witness:
  "\<exists>r'. accept_all sample_record [sample_event OpStats 4, sample_event OpStats 5] = Some r'
     \<and> Wire (Counters r') ''Sent'' = 5"
proof -
  have d: "\<exists>w'. addDelta (statsIntoWire (\<lambda>_. 5)) b fs w = Inr w'" if "\<And>f. b f \<le> statsIntoWire (\<lambda>_. 5) f" for b fs w
    using that by (induction fs arbitrary: w) (auto simp: not_less [symmetric])
  have "\<exists>r1. Fold sample_record (sample_event OpStats 4) = (r1, None) \<and> statsBase r1 = (\<lambda>_. 5)
    \<and> statsManager r1 = [109] \<and> RecPhase r1 = PhaseJoined \<and> RecID r1 = [97] \<and> RecSeq r1 = 4 \<and> RecScope r1 = []
    \<and> RecFamily r1 = FamilyV4 \<and> RecIdentity r1 = []"
    using d [of "\<lambda>_. 0" wireFields "\<lambda>_. 0"] by (auto simp: sample_defs fold_stats_def zero_counters_def)
  then obtain r1 where r1: "Fold sample_record (sample_event OpStats 4) = (r1, None)" "statsBase r1 = (\<lambda>_. 5)"
    "statsManager r1 = [109]" "RecPhase r1 = PhaseJoined" "RecID r1 = [97]" "RecSeq r1 = 4" "RecScope r1 = []"
    "RecFamily r1 = FamilyV4" "RecIdentity r1 = []" by blast
  have "\<exists>r2. Fold r1 (sample_event OpStats 5) = (r2, None)"
    using d [of "statsIntoWire (statsBase r1)" wireFields "Wire (Counters r1)"] r1
    by (auto simp: sample_event_def Fold_def guards_def creating_def familyOf_def apply_op_def fold_stats_def)
  then obtain r2 where r2: "accept_all sample_record [sample_event OpStats 4, sample_event OpStats 5] = Some r2"
    using r1(1) by auto
  have "Manager (sample_event OpStats 4) \<noteq> statsManager sample_record" "''Sent'' \<in> set wireFields"
    "Wire (Counters sample_record) ''Sent'' = 0" "RevStats (last [sample_event OpStats 4, sample_event OpStats 5]) = Some (\<lambda>_. 5)"
    by (simp_all add: sample_event_def sample_record_def zero_record_def zero_counters_def wireFields_def)
  with manager_counted_once [OF r2 this(1) _ this(2)] r2 show ?thesis by (auto simp: sample_event_def)
qed

end
