(* ===== verification/Proto_Machine.thy ===== *)
theory Proto_Machine
  imports Proto_Params
begin

text \<open>
  The DHCPv4 client state machine: \<^verbatim>\<open>src/proto/machine.go\<close>, \<^verbatim>\<open>machine_acd.go\<close>,
  \<^verbatim>\<open>machine_forcerenew.go\<close>, \<^verbatim>\<open>machine_hostname.go\<close>, \<^verbatim>\<open>rapidcommit.go\<close>, \<^verbatim>\<open>ipv6only.go\<close>, with the
  events and actions of \<^verbatim>\<open>event.go\<close> and \<^verbatim>\<open>action.go\<close>.

  Every method of \<^verbatim>\<open>*Machine\<close> is a function from \<open>Machine\<close> to \<open>Machine\<close>. Two fields of the
  record are not fields of the Go struct: \<open>out\<close> is the \<^verbatim>\<open>actions\<close> accumulator of the step in
  progress, and \<open>panicked\<close> records that a Go expression of the step panicked (\<^verbatim>\<open>As4\<close> of an
  address that is not IPv4, a nil sub-machine), after which nothing the model says counts.
  Go \<^verbatim>\<open>int\<close> counters are \<open>int\<close>, \<^verbatim>\<open>uint64\<close> counters and ids 64-bit words.
\<close>

section \<open>Events and actions\<close>

datatype Event =
    EvStart
  | EvStop
  | EvReceived "message option" "byte list" addr
  | EvTimerFired TimerID
  | EvLinkDown
  | EvLinkUp
  | EvConflictDetected
  | EvAddressLost
  | EvActionFailed ActionID gostring
  | EvRelease
  | EvARPReceived "arp_packet option"
  | EvRouterAdvert
  | EvDADResult
  | EvSetHostname gostring

fun Kind :: "Event \<Rightarrow> EventKind" where
  "Kind EvStart = KStart"
| "Kind EvStop = KStop"
| "Kind (EvReceived _ _ _) = KReceived"
| "Kind (EvTimerFired _) = KTimerFired"
| "Kind EvLinkDown = KLinkDown"
| "Kind EvLinkUp = KLinkUp"
| "Kind EvConflictDetected = KConflictDetected"
| "Kind EvAddressLost = KAddressLost"
| "Kind (EvActionFailed _ _) = KActionFailed"
| "Kind EvRelease = KRelease"
| "Kind (EvARPReceived _) = KARPReceived"
| "Kind EvRouterAdvert = KRouterAdvert"
| "Kind EvDADResult = KDADResult"
| "Kind (EvSetHostname _) = KSetHostname"

record Dest =
  Broadcast :: bool
  DAddr :: addr
  Src :: addr

definition to_broadcast :: Dest where
  "to_broadcast = \<lparr>Broadcast = True, DAddr = NoAddr, Src = NoAddr\<rparr>"

text \<open>The kinds of action a DHCPv4 machine emits, each with the fields that kind sets.\<close>

datatype ActionBody =
    ActSend message Dest
  | ActSetTimer TimerID Duration
  | ActCancelTimer TimerID
  | ActLeaseAcquired Lease addr
  | ActLeaseChanged Lease
  | ActLeaseRenewed Lease
  | ActLeaseLost Reason
  | ActFailed Reason "jnote list"
  | ActJournal "jnote list"
  | ActSendARP arp_packet

record Action =
  ID :: ActionID
  Body :: ActionBody

section \<open>State\<close>

record RapidCommitCounters =
  Accepted :: "64 word"
  RapidRefused :: "64 word"

record IPv6OnlyCounters =
  Waited :: "64 word"
  Ignored :: "64 word"
  Malformed :: "64 word"

record ForcerenewCounters =
  Renewed :: "64 word"
  AlreadyRenewing :: "64 word"
  AckRefused :: "64 word"
  Refused :: "ForcerenewRefusal \<Rightarrow> 64 word"

record forcerenewKey =
  have_key :: bool
  nonce :: "byte list"
  floor :: "64 word"

definition zero_key :: forcerenewKey where
  "zero_key = \<lparr>have_key = False, nonce = replicate 16 0, floor = 0\<rparr>"

record Machine =
  params :: Params
  state :: State
  nextAction :: ActionID
  startedAt :: Instant
  started :: bool
  xid :: "32 word"
  retransmits :: int
  sendFailures :: int
  restarts :: int
  offer :: "message option"
  requestSentAt :: Instant
  rapidCounts :: RapidCommitCounters
  v6OnlyCounts :: IPv6OnlyCounters
  frCounts :: ForcerenewCounters
  fr :: forcerenewKey
  lease :: Lease
  haveLse :: bool
  resume :: "Resume option"
  rebootAddr :: addr
  sub :: "acd option"
  probing :: Lease
  haveProbe :: bool
  hostname :: gostring
  nameOnWire :: gostring
  arpAction :: ActionID
  haveARPAction :: bool
  out :: "Action list"
  panicked :: bool

definition prepared_params :: "Params \<Rightarrow> Params" where
  "prepared_params p = p
     \<lparr>PParameterList := parameterList p,
      PuserClass := (if length (PUserClass p) > 0
        then (case EncodeUserClass (PUserClass p) of Inl _ \<Rightarrow> [] | Inr v \<Rightarrow> v) else []),
      Pfqdn := (if FName (PFQDN p) \<noteq> []
        then (case EncodeFQDN (fqdn_flags (PFQDN p)) (FName (PFQDN p)) of Inl _ \<Rightarrow> [] | Inr v \<Rightarrow> v)
        else [])\<rparr>"

definition New :: "Params \<Rightarrow> params_error + Machine" where
  "New p = bind_res (validate p) (\<lambda>_.
     Inr \<lparr>params = prepared_params p, state = StateStopped, nextAction = 0, startedAt = 0,
       started = False, xid = 0, retransmits = 0, sendFailures = 0, restarts = 0, offer = None,
       requestSentAt = 0, rapidCounts = \<lparr>Accepted = 0, RapidRefused = 0\<rparr>,
       v6OnlyCounts = \<lparr>Waited = 0, Ignored = 0, Malformed = 0\<rparr>,
       frCounts = \<lparr>Renewed = 0, AlreadyRenewing = 0, AckRefused = 0, Refused = (\<lambda>_. 0)\<rparr>,
       fr = zero_key, lease = zero_lease, haveLse = False, resume = PResume p, rebootAddr = NoAddr,
       sub = (if PConflict p \<noteq> ConflictOff then Some (newACD (acd_params p) (PConflict p) (linkHW p))
              else None),
       probing = zero_lease, haveProbe = False, hostname = PHostname p, nameOnWire = [],
       arpAction = 0, haveARPAction = False, out = [], panicked = False\<rparr>)"

section \<open>Output\<close>

definition stamp :: "ActionBody \<Rightarrow> Machine \<Rightarrow> Machine" where
  "stamp b m = m\<lparr>nextAction := nextAction m + 1, out := out m @ [\<lparr>ID = nextAction m, Body = b\<rparr>]\<rparr>"

definition send :: "message \<Rightarrow> Dest \<Rightarrow> Machine \<Rightarrow> Machine" where
  "send msg d = stamp (ActSend msg d)"

definition set_timer :: "TimerID \<Rightarrow> Duration \<Rightarrow> Machine \<Rightarrow> Machine" where
  "set_timer t d = stamp (ActSetTimer t d)"

definition cancel :: "TimerID \<Rightarrow> Machine \<Rightarrow> Machine" where
  "cancel t = stamp (ActCancelTimer t)"

definition cancelAll :: "Machine \<Rightarrow> Machine" where
  "cancelAll m = fold cancel AllTimerIDs m"

definition journal :: "jnote list \<Rightarrow> Machine \<Rightarrow> Machine" where
  "journal ns = stamp (ActJournal ns)"

definition failed :: "Reason \<Rightarrow> jnote list \<Rightarrow> Machine \<Rightarrow> Machine" where
  "failed r ns = stamp (ActFailed r ns)"

definition journal_notes :: "jnote list \<Rightarrow> Machine \<Rightarrow> Machine" where
  "journal_notes ns m = (if ns \<noteq> [] then journal ns m else m)"

definition as4 :: "addr \<Rightarrow> Machine \<Rightarrow> byte list \<times> Machine" where
  "as4 a m = (case As4 a of Some v \<Rightarrow> (v, m) | None \<Rightarrow> ([], m\<lparr>panicked := True\<rparr>))"

definition set_option_value :: "byte \<Rightarrow> byte list \<Rightarrow> message \<Rightarrow> message" where
  "set_option_value c v msg = msg\<lparr>Options := (Options msg)(c \<mapsto> v)\<rparr>"

section \<open>Messages\<close>

definition secs :: "Instant \<Rightarrow> Machine \<Rightarrow> 16 word" where
  "secs now m =
     (if \<not> started m then 0
      else let d = Sub now (startedAt m) in
        if d \<le> 0 then 0
        else let s = Seconds d in if s > 65535 then 65535 else of_int s)"

definition listsCode :: "byte list \<Rightarrow> byte \<Rightarrow> bool" where
  "listsCode l c \<longleftrightarrow> list_ex (\<lambda>b. b = c) l"

definition empty_request :: "32 word \<Rightarrow> 16 word \<Rightarrow> 16 word \<Rightarrow> byte list \<Rightarrow> message" where
  "empty_request x sec flags chaddr =
     \<lparr>Op = BootRequest, HType = HTypeEthernet, HLen = 0, Hops = 0, XID = x, Secs = sec,
      Flags = flags, CIAddr = NoAddr, YIAddr = NoAddr, SIAddr = NoAddr, GIAddr = NoAddr,
      CHAddr = chaddr, SName = [], File = [], Options = Map.empty\<rparr>"

text \<open>The options \<^verbatim>\<open>base\<close> writes, in its order; a later write to a code replaces an earlier one.\<close>

definition base_options :: "Machine \<Rightarrow> message \<Rightarrow> message" where
  "base_options m msg0 =
     (let p = params m;
          put = (\<lambda>b c v msg. if b then set_option_value c v msg else msg);
          pl = parameterList p;
          pl' = (if PIPv6OnlyPreferred p \<and> \<not> listsCode pl OptIPv6OnlyPreferred
                 then pl @ [OptIPv6OnlyPreferred] else pl);
          lt = PRequestedLease p
      in (put (lt > 0 \<and> \<not> IsInfinite lt) OptLeaseTime (be32 (of_int (Seconds lt)))
        \<circ> set_option_value OptForcerenewNonce EncodeForcerenewNonceCapable
        \<circ> put (length pl > 0) OptParameterList pl'
        \<circ> put (length (PuserClass p) > 0) OptUserClass (PuserClass p)
        \<circ> put (PVendorClass p \<noteq> []) OptVendorClassID (PVendorClass p)
        \<circ> (if length (Pfqdn p) > 0 then set_option_value OptFQDN (Pfqdn p)
           else put (hostname m \<noteq> []) OptHostName (hostname m))
        \<circ> put (length (PClientID p) > 0) OptClientID (PClientID p)) msg0)"

definition base :: "Instant \<Rightarrow> byte \<Rightarrow> Machine \<Rightarrow> message \<times> Machine" where
  "base now t m =
     (let p = params m;
          msg0 = SetType t (empty_request (xid m) (secs now m)
                   (if PBroadcast p then FlagBroadcast else 0) (PCHAddr p));
          msg = base_options m msg0
      in (msg, m\<lparr>nameOnWire := (case Options msg OptHostName of None \<Rightarrow> [] | Some v \<Rightarrow> v)\<rparr>))"

definition terminalBase :: "byte \<Rightarrow> 32 word \<Rightarrow> Machine \<Rightarrow> message" where
  "terminalBase t x m =
     (let msg = SetType t (empty_request x 0 0 (PCHAddr (params m))) in
      if length (PClientID (params m)) > 0
      then set_option_value OptClientID (PClientID (params m)) msg else msg)"

definition heldOrProbing :: "Machine \<Rightarrow> Lease" where
  "heldOrProbing m = (if haveLse m then lease m else if haveProbe m then probing m else zero_lease)"

definition terminalFields :: "Machine \<Rightarrow> addr \<times> addr \<times> terminal_why option" where
  "terminalFields m =
     (let a = paddr (LAddr (heldOrProbing m)); sid = LServerID (heldOrProbing m) in
      (a, sid,
       if \<not> Is4 a \<or> IsUnspecified a then Some NoAddress
       else if \<not> Is4 sid \<or> IsUnspecified sid then Some NoServerID
       else None))"

text \<open>The option 56 texts, \<^verbatim>\<open>address already in use\<close> and \<^verbatim>\<open>no longer required\<close>.\<close>

definition declineMessage :: "byte list" where
  "declineMessage = map of_char ''address already in use''"

definition releaseMessage :: "byte list" where
  "releaseMessage = map of_char ''no longer required''"

definition xid_of :: "rnd64 \<Rightarrow> 32 word" where
  "xid_of r = ucast r"

definition sendDecline :: "rnd64 \<Rightarrow> Machine \<Rightarrow> Machine" where
  "sendDecline rnd m =
     (case terminalFields m of
        (_, _, Some why) \<Rightarrow> journal [JAcq (NoteDeclineNotSent why)] m
      | (a, sid, None) \<Rightarrow>
          let msg = terminalBase MsgDecline (xid_of (split64 rnd 4)) m;
              (v, m1) = as4 a m; (sv, m2) = as4 sid m1
          in send (set_option_value OptMessage declineMessage (set_option_value OptServerID sv
               (set_option_value OptRequestedIP v msg))) to_broadcast m2)"

definition sendRelease :: "rnd64 \<Rightarrow> Machine \<Rightarrow> Machine" where
  "sendRelease rnd m =
     (case terminalFields m of
        (_, _, Some why) \<Rightarrow> journal [JAcq (NoteReleaseNotSent why)] m
      | (a, sid, None) \<Rightarrow>
          let msg = (terminalBase MsgRelease (xid_of (split64 rnd 5)) m)\<lparr>CIAddr := a\<rparr>;
              (sv, m1) = as4 sid m
          in send (set_option_value OptMessage releaseMessage (set_option_value OptServerID sv msg))
               \<lparr>Broadcast = False, DAddr = sid, Src = a\<rparr> m1)"

definition sendDiscover :: "Instant \<Rightarrow> rnd64 \<Rightarrow> Machine \<Rightarrow> Machine" where
  "sendDiscover now rnd m =
     (let (msg, m1) = base now MsgDiscover m;
          ip = PRequestedIP (params m);
          (msg, m2) = (if Is4 ip \<and> \<not> IsUnspecified ip
            then (case as4 ip m1 of (v, m') \<Rightarrow> (set_option_value OptRequestedIP v msg, m')) else (msg, m1));
          (msg, m3) = (if PRapidCommit (params m)
            then (set_option_value OptRapidCommit EncodeRapidCommit msg, m2\<lparr>requestSentAt := now\<rparr>)
            else (msg, m2));
          m4 = send msg to_broadcast (cancel TimerDesync (m3\<lparr>state := StateSelecting\<rparr>))
      in set_timer TimerRetransmit (Delay (PDiscover (params m4)) (retransmits m4) rnd) m4)"

definition sendReboot :: "Instant \<Rightarrow> rnd64 \<Rightarrow> Machine \<Rightarrow> Machine" where
  "sendReboot now rnd m =
     (let (msg, m1) = base now MsgRequest m;
          (v, m2) = as4 (rebootAddr m1) m1;
          m3 = send (set_option_value OptRequestedIP v msg) to_broadcast
                 (m2\<lparr>state := StateRebooting, requestSentAt := now\<rparr>)
      in set_timer TimerRetransmit (Delay (PRequest (params m3)) (retransmits m3) rnd) m3)"

definition acdIdle :: "Machine \<Rightarrow> Machine" where
  "acdIdle m = m\<lparr>sub := map_option acd_stop (sub m), probing := zero_lease, haveProbe := False,
     haveARPAction := False\<rparr>"

definition toInitIdle :: "Machine \<Rightarrow> Machine" where
  "toInitIdle m = cancelAll (acdIdle (m\<lparr>state := StateInit, offer := None, retransmits := 0\<rparr>))"

definition sendRequest :: "Instant \<Rightarrow> rnd64 \<Rightarrow> Machine \<Rightarrow> Machine" where
  "sendRequest now rnd m =
     (case offer m of
        None \<Rightarrow> toInitIdle (journal [JAcq NoteRequestNoOffer] m)
      | Some o' \<Rightarrow>
          let (msg, m1) = base now MsgRequest m;
              (yi, m2) = as4 (YIAddr o') m1;
              msg = set_option_value OptRequestedIP yi msg;
              (msg, m3) = (case Addr4_opt (Options o') OptServerID of
                None \<Rightarrow> (msg, m2)
              | Some sid \<Rightarrow> (case as4 sid m2 of (v, m') \<Rightarrow> (set_option_value OptServerID v msg, m')));
              m4 = send msg to_broadcast (m3\<lparr>state := StateRequesting, requestSentAt := now\<rparr>)
          in set_timer TimerRetransmit (Delay (PRequest (params m4)) (retransmits m4) rnd) m4)"

definition RenewRetransmitFloor :: Duration where
  "RenewRetransmitFloor = 60 * Second"

definition renewalDelay :: "Instant \<Rightarrow> Machine \<Rightarrow> Duration" where
  "renewalDelay now m =
     (let d = Deadlines (lease m) in
      if \<not> (state m = StateRenewing \<and> HasRebind d) \<and> \<not> HasExpire d then RenewRetransmitFloor
      else
        let until = (if state m = StateRenewing \<and> HasRebind d then DRebind d else DExpire d);
            half = quot64 (Sub until now) 2
        in if half < RenewRetransmitFloor then RenewRetransmitFloor else half)"

definition sendRenewal :: "Instant \<Rightarrow> Machine \<Rightarrow> Machine" where
  "sendRenewal now m =
     (let (msg0, m1) = base now MsgRequest m;
          msg = msg0\<lparr>CIAddr := paddr (LAddr (lease m1))\<rparr>;
          m2 = m1\<lparr>requestSentAt := now\<rparr>;
          m3 = (if state m2 = StateRenewing
                then send msg \<lparr>Broadcast = False, DAddr = LServerID (lease m2), Src = CIAddr msg\<rparr> m2
                else send msg to_broadcast m2)
      in set_timer TimerRetransmit (renewalDelay now m3) m3)"

section \<open>Transitions\<close>

definition takeResume :: "Instant \<Rightarrow> Machine \<Rightarrow> bool \<times> Machine" where
  "takeResume now m =
     (case resume m of
        None \<Rightarrow> (False, m)
      | Some r \<Rightarrow>
          let m1 = m\<lparr>resume := None\<rparr> in
          if \<not> resume_live now r then (False, journal [JAcq (NoteResumeExpired (RAddr r))] m1)
          else (True, journal [JAcq (NoteReboot (RAddr r))] (m1\<lparr>rebootAddr := RAddr r\<rparr>)))"

definition beginAcquisition :: "Instant \<Rightarrow> rnd64 \<Rightarrow> bool \<Rightarrow> Machine \<Rightarrow> Machine" where
  "beginAcquisition now rnd withDesync m =
     (let m1 = cancelAll (m\<lparr>startedAt := now, started := True, retransmits := 0, sendFailures := 0,
                 offer := None, rebootAddr := NoAddr, xid := xid_of (split64 rnd 0), state := StateInit\<rparr>);
          (rebooting, m2) = takeResume now m1
      in if rebooting then sendReboot now (split64 rnd 3) m2
      else
        let d = (if withDesync then desync (params m2) (split64 rnd 2) else 0) in
        if d \<le> 0 then sendDiscover now (split64 rnd 3) m2
        else journal [JAcq (NoteDesync d)] (set_timer TimerDesync d m2))"

definition restartPaced :: "Instant \<Rightarrow> rnd64 \<Rightarrow> bool \<Rightarrow> Machine \<Rightarrow> Machine" where
  "restartPaced now rnd withDesync m =
     (let n = restarts m; m1 = m\<lparr>restarts := n + 1\<rparr> in
      if n = 0 then beginAcquisition now rnd withDesync m1
      else
        let m2 = toInitIdle m1;
            d = Delay (PDiscover (params m2)) (n - 1) (split64 rnd 4)
        in journal [JAcq (NoteRestartPaced (n + 1) d)] (set_timer TimerRestart d m2))"

definition requestedAddr :: "Machine \<Rightarrow> addr" where
  "requestedAddr m =
     (if IsValid (rebootAddr m) \<and> \<not> IsUnspecified (rebootAddr m) then rebootAddr m
      else PRequestedIP (params m))"

definition linkDown :: "Machine \<Rightarrow> Machine" where
  "linkDown m = toInitIdle (journal [JAcq NoteLinkDown] m)"

definition dropLease :: "Reason \<Rightarrow> Machine \<Rightarrow> Machine" where
  "dropLease r m =
     (if \<not> haveLse m then m
      else stamp (ActLeaseLost r) (cancel TimerRebind (cancel TimerRenew (cancel TimerExpire
        (m\<lparr>haveLse := False, lease := zero_lease, fr := zero_key\<rparr>)))))"

definition halt :: "Reason \<Rightarrow> Machine \<Rightarrow> Machine" where
  "halt r m =
     (cancelAll (acdIdle (dropLease r m)))
       \<lparr>state := StateStopped, started := False, offer := None, retransmits := 0,
        sendFailures := 0, restarts := 0\<rparr>"

definition stop :: "Machine \<Rightarrow> Machine" where
  "stop m = halt ReasonStopped m"

definition declineAndRestart :: "Instant \<Rightarrow> rnd64 \<Rightarrow> Machine \<Rightarrow> Machine" where
  "declineAndRestart now rnd m =
     (let m1 = dropLease ReasonConflict (sendDecline rnd m);
          limited = (case sub m1 of None \<Rightarrow> False | Some a \<Rightarrow> rateLimited a);
          n = (case sub m1 of None \<Rightarrow> 0 | Some a \<Rightarrow> conflicts a);
          m2 = toInitIdle m1;
          d0 = restartDelay (params m2);
          (d, m3) = (if limited
            then (let d = (case sub m2 of None \<Rightarrow> d0 | Some a \<Rightarrow> acd_restartDelay now d0 a) in
                  (d, journal [JAcq (NoteRateLimit n d)] m2))
            else (d0, m2))
      in journal [JAcq (NoteDeclineWait d)] (set_timer TimerRestart d m3))"

definition release :: "rnd64 \<Rightarrow> Machine \<Rightarrow> Machine" where
  "release rnd m = halt ReasonReleased (sendRelease rnd m)"

definition releaseBeforeBound :: "Machine \<Rightarrow> Machine" where
  "releaseBeforeBound m = halt ReasonReleased (journal [JAcq NoteReleaseNothing] m)"

definition beginRenewalTransaction :: "Instant \<Rightarrow> rnd64 \<Rightarrow> Machine \<Rightarrow> Machine" where
  "beginRenewalTransaction now rnd m =
     m\<lparr>xid := xid_of (split64 rnd 0), startedAt := now, started := True, retransmits := 0,
       sendFailures := 0, offer := None\<rparr>"

definition enterRenewing :: "Instant \<Rightarrow> rnd64 \<Rightarrow> Machine \<Rightarrow> Machine" where
  "enterRenewing now rnd m =
     (let sid = LServerID (lease m) in
      if \<not> Is4 sid \<or> IsUnspecified sid then journal [JBound NoteNoServerID] m
      else sendRenewal now ((beginRenewalTransaction now rnd m)\<lparr>state := StateRenewing\<rparr>))"

definition enterRebinding :: "Instant \<Rightarrow> rnd64 \<Rightarrow> bool \<Rightarrow> Machine \<Rightarrow> Machine" where
  "enterRebinding now rnd fresh m =
     sendRenewal now ((if fresh then beginRenewalTransaction now rnd m else m)\<lparr>state := StateRebinding\<rparr>)"

definition sendsHostname :: "Machine \<Rightarrow> bool" where
  "sendsHostname m \<longleftrightarrow> length (Pfqdn (params m)) = 0"

definition announceHostname :: "Instant \<Rightarrow> rnd64 \<Rightarrow> Machine \<Rightarrow> bool \<times> Machine" where
  "announceHostname now rnd m =
     (if \<not> sendsHostname m \<or> hostname m = nameOnWire m \<or> hostname m = [] then (False, m)
      else if state m = StateBound then
        let m1 = enterRenewing now rnd m in (state m1 = StateRenewing, m1)
      else if state m = StateRenewing \<or> state m = StateRebinding then (True, sendRenewal now m)
      else (False, m))"

definition takeHostname :: "Instant \<Rightarrow> rnd64 \<Rightarrow> gostring \<Rightarrow> Machine \<Rightarrow> Machine" where
  "takeHostname now rnd name m =
     (if \<not> sendsHostname m then journal [JExt NoteHostnameFQDN] m
      else if \<not> ValidateHostname name then journal [JExt NoteHostnameBad] m
      else
        let (sent_it, m1) = announceHostname now rnd (m\<lparr>hostname := name\<rparr>) in
        if sent_it then m1
        else journal [JExt (NoteHostnameRecorded (hostname m1) (state m1) (nameOnWire m1))] m1)"

definition armDeadline :: "Instant \<Rightarrow> TimerID \<Rightarrow> Instant \<Rightarrow> bool \<Rightarrow> Machine \<Rightarrow> Machine" where
  "armDeadline now t ts has m =
     (if \<not> has then cancel t m
      else let d = Sub ts now in set_timer t (if d < 0 then 0 else d) m)"

definition settleForcerenew :: "Lease \<Rightarrow> bool \<Rightarrow> Machine \<Rightarrow> Lease \<times> Machine" where
  "settleForcerenew l renewal m =
     (if length (LForcerenewNonce l) = ForcerenewNonceLen then
        let same = (renewal \<and> have_key (fr m) \<and> nonce (fr m) = LForcerenewNonce l);
            l1 = (if same \<and> floor (fr m) > LForcerenewReplay l
                  then l\<lparr>LForcerenewReplay := floor (fr m)\<rparr> else l)
        in (l1, m\<lparr>fr := \<lparr>have_key = True, nonce = LForcerenewNonce l1, floor = LForcerenewReplay l1\<rparr>\<rparr>)
      else if renewal \<and> have_key (fr m) \<and> LServerID l = LServerID (lease m) then
        (l\<lparr>LForcerenewNonce := nonce (fr m), LForcerenewReplay := floor (fr m)\<rparr>, m)
      else (l\<lparr>LForcerenewNonce := [], LForcerenewReplay := 0\<rparr>, m\<lparr>fr := zero_key\<rparr>))"

text \<open>
  \<^verbatim>\<open>enterBound\<close> up to the three timers, its end for a fresh lease, and its end for a renewal,
  which alone starts conflict detection on a moved address.
\<close>

definition bind_lease :: "Instant \<Rightarrow> Lease \<Rightarrow> bool \<Rightarrow> Machine \<Rightarrow> Lease \<times> Machine" where
  "bind_lease now l0 renewal m =
     (let (l, m1) = settleForcerenew l0 (renewal \<and> haveLse m) (cancel TimerRetransmit m);
          m2 = m1\<lparr>lease := l, haveLse := True, state := StateBound, offer := None, retransmits := 0,
                  sendFailures := 0\<rparr>;
          d = Deadlines l;
          m3 = journal_notes (DNote d) m2;
          m4 = (if HasExpire d \<and> Sub (DExpire d) now < 0 then journal [JBound NoteAckExpired] m3 else m3);
          m5 = (if \<not> HasExpire d then journal [JBound NoteInfinite] m4 else m4);
          m6 = (if \<not> HasExpire d \<or> Sub (DExpire d) now > 0 then m5\<lparr>restarts := 0\<rparr> else m5)
      in (l, armDeadline now TimerRebind (DRebind d) (HasRebind d)
               (armDeadline now TimerRenew (DRenew d) (HasRenew d)
                 (armDeadline now TimerExpire (DExpire d) (HasExpire d) m6))))"

definition enterBound_fresh :: "Instant \<Rightarrow> rnd64 \<Rightarrow> Lease \<Rightarrow> Machine \<Rightarrow> Machine" where
  "enterBound_fresh now rnd l0 m =
     (let (l, m1) = bind_lease now l0 False m in
      snd (announceHostname now rnd (stamp (ActLeaseAcquired l (requestedAddr m1)) m1)))"

section \<open>Conflict detection\<close>

definition sendARP :: "arp_packet \<Rightarrow> Machine \<Rightarrow> Machine" where
  "sendARP p m =
     (let m1 = stamp (ActSendARP p) m in m1\<lparr>arpAction := ID (last (out m1)), haveARPAction := True\<rparr>)"

definition acdReady :: "Instant \<Rightarrow> rnd64 \<Rightarrow> Machine \<Rightarrow> Machine" where
  "acdReady now rnd m =
     (if \<not> haveProbe m then journal [JBound NoteProbed] m
      else
        let l = probing m in
        enterBound_fresh now rnd l
          (journal [JBound (NoteFree (paddr (LAddr l)))] (m\<lparr>probing := zero_lease, haveProbe := False\<rparr>)))"

definition apply_acd_action :: "Instant \<Rightarrow> rnd64 \<Rightarrow> acdAction \<Rightarrow> Machine \<Rightarrow> Machine" where
  "apply_acd_action now rnd a m =
     (case a of
        AcdSetTimer d \<Rightarrow> set_timer TimerACD d m
      | AcdCancelTimer \<Rightarrow> cancel TimerACD m
      | AcdSendProbe \<Rightarrow>
          (case sub m of None \<Rightarrow> m\<lparr>panicked := True\<rparr> | Some x \<Rightarrow> sendARP (probe x) m)
      | AcdSendAnnounce \<Rightarrow>
          (case sub m of None \<Rightarrow> m\<lparr>panicked := True\<rparr> | Some x \<Rightarrow> sendARP (announcement x) m)
      | AcdReady \<Rightarrow> acdReady now rnd m
      | AcdConflict n \<Rightarrow>
          let m1 = declineAndRestart now rnd (journal [JBound (NoteConflict n)] m) in
          if \<not> haveLse m then failed ReasonConflict [JAcd n] m1 else m1
      | AcdNote n \<Rightarrow> journal [JAcd n] m)"

definition applyACD :: "Instant \<Rightarrow> rnd64 \<Rightarrow> acdAction list \<Rightarrow> Machine \<Rightarrow> Machine" where
  "applyACD now rnd acts m = fold (apply_acd_action now rnd) acts m"

definition step_acd :: "Instant \<Rightarrow> rnd64 \<Rightarrow> acdEvent \<Rightarrow> acd \<Rightarrow> Machine \<Rightarrow> Machine" where
  "step_acd now rnd ev a m =
     (let (a', acts) = acdStep now rnd ev a in applyACD now rnd acts (m\<lparr>sub := Some a'\<rparr>))"

definition onARP :: "Instant \<Rightarrow> rnd64 \<Rightarrow> arp_packet option \<Rightarrow> Machine \<Rightarrow> Machine" where
  "onARP now rnd pkt m =
     (case sub m of
        None \<Rightarrow> journal [JBound NoteARPOff] m
      | Some a \<Rightarrow>
          if pkt = None then journal [JBound NoteARPNil] m
          else step_acd now rnd (AcdEvARP pkt) a m)"

definition acdTimer :: "Instant \<Rightarrow> rnd64 \<Rightarrow> Machine \<Rightarrow> Machine" where
  "acdTimer now rnd m =
     (case sub m of
        None \<Rightarrow> journal [JBound NoteACDTimerOff] m
      | Some a \<Rightarrow> step_acd now rnd AcdEvTimer a m)"

definition startACD :: "Instant \<Rightarrow> rnd64 \<Rightarrow> addr \<Rightarrow> Machine \<Rightarrow> Machine" where
  "startACD now rnd ad m =
     (case sub m of None \<Rightarrow> m | Some a \<Rightarrow> step_acd now rnd (AcdEvStart ad) a m)"

definition enterBound :: "Instant \<Rightarrow> rnd64 \<Rightarrow> Lease \<Rightarrow> bool \<Rightarrow> Machine \<Rightarrow> Machine" where
  "enterBound now rnd l0 renewal m =
     (if \<not> renewal then enterBound_fresh now rnd l0 m
      else
        let prev = lease m; hadPrev = haveLse m;
            (l, m1) = bind_lease now l0 True m;
            m2 = stamp (ActLeaseRenewed l) m1
        in if hadPrev \<and> \<not> Equal prev l then
             let m3 = (if LAddr prev \<noteq> LAddr l
                       then startACD now rnd (paddr (LAddr l))
                              (journal [JBound (NoteMoved (LAddr prev) (LAddr l))] m2)
                       else m2)
             in stamp (ActLeaseChanged l) m3
           else m2)"

definition enterProbing :: "Instant \<Rightarrow> rnd64 \<Rightarrow> Lease \<Rightarrow> Machine \<Rightarrow> Machine" where
  "enterProbing now rnd l m =
     startACD now rnd (paddr (LAddr l))
       (journal [JBound (NoteChecking (paddr (LAddr l)))]
         ((cancel TimerRetransmit m)\<lparr>probing := l, haveProbe := True, state := StateProbing,
            offer := None, retransmits := 0, sendFailures := 0\<rparr>))"

definition afterAck :: "Instant \<Rightarrow> rnd64 \<Rightarrow> Lease \<Rightarrow> Machine \<Rightarrow> Machine" where
  "afterAck now rnd l m =
     (case PConflict (params m) of
        ConflictWait \<Rightarrow> enterProbing now rnd l m
      | ConflictAsync \<Rightarrow> enterBound now rnd l False (startACD now rnd (paddr (LAddr l)) m)
      | ConflictOff \<Rightarrow> enterBound now rnd l False m)"

end
