(* ===== verification/Proto_Step.thy ===== *)
theory Proto_Step
  imports Proto_Machine
begin

text \<open>
  The event handlers and \<^verbatim>\<open>Step\<close>: what a received message must satisfy
  (\<^verbatim>\<open>acceptable\<close>, the Rapid Commit, IPv6-only and Forcerenew rules), what a failed action does,
  and one handler per state, each branch in the order of the source.
\<close>

section \<open>Rapid Commit and IPv6-only\<close>

definition hasRapidOption :: "message option \<Rightarrow> bool" where
  "hasRapidOption msg = (case msg of None \<Rightarrow> False | Some m \<Rightarrow> Options m OptRapidCommit \<noteq> None)"

definition refuseRapid :: "State \<Rightarrow> rapid_why \<Rightarrow> Machine \<Rightarrow> Machine" where
  "refuseRapid st why m =
     journal [JExt (NoteRapidRefused st why)]
       (m\<lparr>rapidCounts := (rapidCounts m)\<lparr>RapidRefused := RapidRefused (rapidCounts m) + 1\<rparr>\<rparr>)"

definition MinV6OnlyWait :: Duration where
  "MinV6OnlyWait = 300 * Second"

definition v6OnlyWait :: "32 word \<Rightarrow> Duration" where
  "v6OnlyWait s = (let d = i64 (uint s * Second) in if d < MinV6OnlyWait then MinV6OnlyWait else d)"

definition v6OnlyValue :: "message option \<Rightarrow> Machine \<Rightarrow> 32 word option \<times> Machine" where
  "v6OnlyValue msg m =
     (case msg of
        None \<Rightarrow> (None, m)
      | Some x \<Rightarrow>
          if \<not> PIPv6OnlyPreferred (params m) then (None, m)
          else case IPv6OnlyPreferred_opt (Options x) of
            None \<Rightarrow> (None, m)
          | Some (Inl _) \<Rightarrow>
              (None, journal [JExt NoteV6OnlyMalformed]
                (m\<lparr>v6OnlyCounts := (v6OnlyCounts m)\<lparr>Malformed := Malformed (v6OnlyCounts m) + 1\<rparr>\<rparr>))
          | Some (Inr s) \<Rightarrow> (Some s, m))"

definition waitForIPv6 :: "State \<Rightarrow> 32 word \<Rightarrow> Machine \<Rightarrow> Machine" where
  "waitForIPv6 from_state s m =
     (let d = v6OnlyWait s;
          m1 = toInitIdle (m\<lparr>v6OnlyCounts := (v6OnlyCounts m)\<lparr>Waited := Waited (v6OnlyCounts m) + 1\<rparr>\<rparr>)
      in journal [JExt (NoteV6OnlyWait d)] (set_timer TimerRestart d
           (failed ReasonIPv6OnlyPreferred [JExt (NoteV6OnlyPaused from_state d)] m1)))"

text \<open>\<^verbatim>\<open>t, _ := msg.Type()\<close>: the zero type when there is none.\<close>

definition type_of :: "message \<Rightarrow> byte" where
  "type_of msg = (case Type msg of None \<Rightarrow> 0 | Some t \<Rightarrow> t)"

definition noteV6OnlyKept :: "message option \<Rightarrow> State \<Rightarrow> Machine \<Rightarrow> Machine" where
  "noteV6OnlyKept msg st m =
     (case msg of
        None \<Rightarrow> m
      | Some x \<Rightarrow>
          if type_of x \<noteq> MsgAck then m
          else case v6OnlyValue msg m of
            (None, m1) \<Rightarrow> m1
          | (Some _, m1) \<Rightarrow> journal [JExt (NoteV6OnlyKept st)]
              (m1\<lparr>v6OnlyCounts := (v6OnlyCounts m1)\<lparr>Ignored := Ignored (v6OnlyCounts m1) + 1\<rparr>\<rparr>))"

definition takeRapidAck :: "Instant \<Rightarrow> rnd64 \<Rightarrow> message \<Rightarrow> Machine \<Rightarrow> Machine" where
  "takeRapidAck now rnd msg m =
     (case RapidCommit_opt (Options msg) of
        Inl _ \<Rightarrow> refuseRapid StateSelecting RapidMalformed m
      | Inr _ \<Rightarrow>
          if \<not> PRapidCommit (params m) then refuseRapid StateSelecting RapidNotAsked m
          else if (case Addr4_opt (Options msg) OptServerID of None \<Rightarrow> True | Some sid \<Rightarrow> IsUnspecified sid)
            then refuseRapid StateSelecting RapidNoServer m
          else case leaseFromAck msg (requestSentAt m) of
            None \<Rightarrow> refuseRapid StateSelecting RapidNoLease m
          | Some (lse, ns) \<Rightarrow>
              if LLeaseTime lse \<le> 0 \<and> \<not> IsInfinite (LLeaseTime lse)
              then refuseRapid StateSelecting RapidZeroLease m
              else
                let m1 = journal [JExt (NoteRapidTaken (paddr (LAddr lse)) (LServerID lse))]
                      (m\<lparr>rapidCounts := (rapidCounts m)\<lparr>Accepted := Accepted (rapidCounts m) + 1\<rparr>\<rparr>)
                in afterAck now rnd lse
                     (noteV6OnlyKept (Some msg) StateSelecting (journal_notes ns m1)))"

definition refusesRapidInRequesting :: "message \<Rightarrow> Machine \<Rightarrow> bool \<times> Machine" where
  "refusesRapidInRequesting msg m =
     (if \<not> PRapidCommit (params m) \<or> \<not> hasRapidOption (Some msg) then (False, m)
      else case offer m of
        None \<Rightarrow> (False, m)
      | Some o' \<Rightarrow>
          let sid_of = (\<lambda>x. case Addr4_opt (Options x) OptServerID of None \<Rightarrow> NoAddr | Some a \<Rightarrow> a) in
          if (case RapidCommit_opt (Options msg) of Inl _ \<Rightarrow> False | Inr _ \<Rightarrow> True)
             \<and> sid_of msg = sid_of o' \<and> YIAddr msg = YIAddr o'
          then (False, m)
          else (True, refuseRapid StateRequesting RapidNotTheOffer m))"

section \<open>Forcerenew\<close>

definition offerCarried145 :: "Machine \<Rightarrow> bool" where
  "offerCarried145 m =
     (case offer m of
        None \<Rightarrow> False
      | Some o' \<Rightarrow> (case ForcerenewNonceAlgorithms (Options o') of Some (Inr _) \<Rightarrow> True | _ \<Rightarrow> False))"

definition refusesAckWithoutNonce :: "message \<Rightarrow> Machine \<Rightarrow> bool" where
  "refusesAckWithoutNonce msg m \<longleftrightarrow>
     (if \<not> offerCarried145 m then False else validForcerenewNonce msg = None)"

definition refuseForcerenew :: "ForcerenewRefusal \<Rightarrow> Machine \<Rightarrow> Machine" where
  "refuseForcerenew why m =
     journal [JExt (NoteForcerenewRefused why)]
       (m\<lparr>frCounts := (frCounts m)\<lparr>Refused := (Refused (frCounts m))(why := Refused (frCounts m) why + 1)\<rparr>\<rparr>)"

definition chaddrMatches :: "message \<Rightarrow> Machine \<Rightarrow> bool" where
  "chaddrMatches msg m \<longleftrightarrow> slicesEqual (CHAddr msg) (PCHAddr (params m))"

text \<open>The broadcast address of the leased prefix: every bit below the prefix set.\<close>

fun set_low_bits :: "nat \<Rightarrow> byte list \<Rightarrow> byte list" where
  "set_low_bits 0 b = b"
| "set_low_bits (Suc k) b =
     (let i = 31 - k in set_low_bits k (b[i div 8 := b ! (i div 8) OR push_bit (7 - i mod 8) 1]))"

definition forcerenewDestinationIsUnicast :: "addr \<Rightarrow> Machine \<Rightarrow> bool \<times> Machine" where
  "forcerenewDestinationIsUnicast dst m =
     (let d = Unmap dst in
      if \<not> Is4 d \<or> IsUnspecified d \<or> IsMulticast d \<or> d = Addr4 0xFFFFFFFF then (False, m)
      else
        let p = Masked (LAddr (lease m)) in
        if pbits p < 31 then
          (let (b, m1) = as4 (paddr p) m in
           (d \<noteq> AddrFrom4 (set_low_bits (nat (32 - pbits p)) b), m1))
        else (True, m))"

definition takeForcerenew :: "Instant \<Rightarrow> rnd64 \<Rightarrow> message \<Rightarrow> byte list \<Rightarrow> addr \<Rightarrow> Machine \<Rightarrow> Machine" where
  "takeForcerenew now rnd msg raw dst m =
     (if state m \<noteq> StateBound \<and> state m \<noteq> StateRenewing \<and> state m \<noteq> StateRebinding
      then refuseForcerenew ForcerenewRefusalWrongState m
      else if length raw = 0 then refuseForcerenew ForcerenewRefusalNoRaw m
      else
        let (unicast, m1) = forcerenewDestinationIsUnicast dst m; own = paddr (LAddr (lease m1)) in
        if \<not> unicast then refuseForcerenew ForcerenewRefusalNotUnicast m1
        else if Unmap dst \<noteq> own then refuseForcerenew ForcerenewRefusalNotOurAddress m1
        else if Op msg \<noteq> BootReply \<or> \<not> chaddrMatches msg m1 \<or> CIAddr msg \<noteq> own
          then refuseForcerenew ForcerenewRefusalNotThisClient m1
        else if \<not> have_key (fr m1) then refuseForcerenew ForcerenewRefusalNoNonce m1
        else case ForcerenewAuth_opt (Options msg) of
          None \<Rightarrow> refuseForcerenew ForcerenewRefusalNoAuth m1
        | Some (Inl _) \<Rightarrow> refuseForcerenew ForcerenewRefusalMalformedAuth m1
        | Some (Inr a) \<Rightarrow>
            if AType a \<noteq> ForcerenewTypeDigest then refuseForcerenew ForcerenewRefusalMalformedAuth m1
            else if Replay a \<le> floor (fr m1) then refuseForcerenew ForcerenewRefusalReplay m1
            else case VerifyForcerenew raw (nonce (fr m1)) of
              Inl e \<Rightarrow>
                if e = ErrForcerenewDigest then refuseForcerenew ForcerenewRefusalBadDigest m1
                else refuseForcerenew ForcerenewRefusalMalformedAuth m1
            | Inr _ \<Rightarrow>
                if state m1 \<noteq> StateBound then
                  journal [JExt (NoteForcerenewAlready (state m1))]
                    (m1\<lparr>fr := (fr m1)\<lparr>floor := Replay a\<rparr>,
                        frCounts := (frCounts m1)\<lparr>AlreadyRenewing := AlreadyRenewing (frCounts m1) + 1\<rparr>\<rparr>)
                else if \<not> Is4 (LServerID (lease m1)) \<or> IsUnspecified (LServerID (lease m1))
                  then refuseForcerenew ForcerenewRefusalNoServer m1
                else
                  enterRenewing now rnd (journal [JExt NoteForcerenewRenewing]
                    (m1\<lparr>fr := (fr m1)\<lparr>floor := Replay a\<rparr>,
                        frCounts := (frCounts m1)\<lparr>Renewed := Renewed (frCounts m1) + 1\<rparr>\<rparr>)))"

section \<open>Filtering and failures\<close>

definition acceptable :: "message option \<Rightarrow> Machine \<Rightarrow> message option \<times> Machine" where
  "acceptable msg m =
     (case msg of
        None \<Rightarrow> (None, journal [JDrop NoteNil] m)
      | Some x \<Rightarrow>
          if Op x \<noteq> BootReply then (None, journal [JDrop (NoteNotReply (Op x))] m)
          else if Type x = None then (None, journal [JDrop NoteNoType] m)
          else if XID x \<noteq> xid m then (None, journal [JDrop (NoteXid (XID x) (xid m))] m)
          else case permits (PServers (params m)) (Addr4_opt (Options x) OptServerID) of
            Some why \<Rightarrow> (None, journal [JDrop (NotePolicy why)] m)
          | None \<Rightarrow>
              if \<not> chaddrMatches x m then (None, journal [JDrop NoteCHAddr] m)
              else (Some x, m))"

definition nakText :: "message \<Rightarrow> jnote list" where
  "nakText msg =
     (case Text (Options msg) OptMessage of
        Some s \<Rightarrow> if s \<noteq> [] then [JAcq (NoteNak (Some s))] else [JAcq (NoteNak None)]
      | None \<Rightarrow> [JAcq (NoteNak None)])"

definition noteActionFailed :: "Instant \<Rightarrow> rnd64 \<Rightarrow> ActionID \<Rightarrow> gostring \<Rightarrow> Machine \<Rightarrow> Machine" where
  "noteActionFailed now rnd aid reason m =
     (if haveARPAction m \<and> aid = arpAction m
      then journal [JBound (NoteARPFailed aid reason)] (m\<lparr>haveARPAction := False\<rparr>)
      else
        let n = sendFailures m + 1;
            m1 = journal [JBound (NoteSendFailed aid reason n)] (m\<lparr>sendFailures := n\<rparr>);
            p = params m1
        in if state m1 = StateRenewing \<or> state m1 = StateRebinding
           then set_timer TimerRetransmit (renewalDelay now m1) m1
           else if PMaxSendFailures p > 0 \<and> n \<ge> PMaxSendFailures p
           then
             let m2 = dropLease ReasonTransport (failed ReasonTransport [JBound (NoteSendBudget n reason)] m1)
             in if state m2 \<noteq> StateInit then toInitIdle m2 else m2
           else if state m1 = StateSelecting
           then set_timer TimerRetransmit (Delay (PDiscover p) (retransmits m1) rnd) m1
           else if state m1 = StateRequesting \<or> state m1 = StateRebooting
           then set_timer TimerRetransmit (Delay (PRequest p) (retransmits m1) rnd) m1
           else m1)"

section \<open>States\<close>

definition ignored :: "Event \<Rightarrow> State \<Rightarrow> Machine \<Rightarrow> Machine" where
  "ignored ev st = journal [JDrop (NoteIgnored (Kind ev) st)]"

definition stepStopped :: "Instant \<Rightarrow> rnd64 \<Rightarrow> Event \<Rightarrow> Machine \<Rightarrow> Machine" where
  "stepStopped now rnd ev m =
     (case ev of
        EvStart \<Rightarrow> beginAcquisition now rnd True m
      | EvStop \<Rightarrow> journal [JDrop NoteAlreadyStopped] m
      | EvActionFailed aid reason \<Rightarrow> journal [JBound (NoteFailedAfterStop aid reason)] m
      | EvSetHostname name \<Rightarrow> takeHostname now rnd name m
      | _ \<Rightarrow> ignored ev StateStopped m)"

definition stepInit :: "Instant \<Rightarrow> rnd64 \<Rightarrow> Event \<Rightarrow> Machine \<Rightarrow> Machine" where
  "stepInit now rnd ev m =
     (case ev of
        EvStart \<Rightarrow> beginAcquisition now rnd True m
      | EvStop \<Rightarrow> stop m
      | EvRelease \<Rightarrow> releaseBeforeBound m
      | EvTimerFired t \<Rightarrow>
          if t = TimerDesync then sendDiscover now rnd m
          else if t = TimerRestart then beginAcquisition now rnd False m
          else journal [JDrop (NoteTimerIgnored t StateInit)] m
      | EvLinkUp \<Rightarrow> beginAcquisition now rnd True m
      | EvActionFailed aid reason \<Rightarrow> noteActionFailed now rnd aid reason m
      | EvSetHostname name \<Rightarrow> takeHostname now rnd name m
      | EvReceived msg _ _ \<Rightarrow>
          if hasRapidOption msg \<and> (case msg of None \<Rightarrow> False | Some x \<Rightarrow> type_of x = MsgAck)
          then refuseRapid StateInit RapidNoDiscover m
          else ignored ev StateInit m
      | _ \<Rightarrow> ignored ev StateInit m)"

definition selecting_message :: "Instant \<Rightarrow> rnd64 \<Rightarrow> message \<Rightarrow> Machine \<Rightarrow> Machine" where
  "selecting_message now rnd msg m =
     (let t = type_of msg in
      if t = MsgOffer then
        (case v6OnlyValue (Some msg) m of
           (Some s, m1) \<Rightarrow> waitForIPv6 StateSelecting s m1
         | (None, m1) \<Rightarrow>
             if \<not> Is4 (YIAddr msg) \<or> IsUnspecified (YIAddr msg)
                \<or> (case Addr4_opt (Options msg) OptServerID of None \<Rightarrow> True | Some sid \<Rightarrow> IsUnspecified sid)
             then journal [JDrop NoteOfferUnusable] m1
             else sendRequest now rnd (m1\<lparr>offer := Some msg, retransmits := 0\<rparr>))
      else if t = MsgAck \<and> hasRapidOption (Some msg) then takeRapidAck now rnd msg m
      else journal [JDrop (NoteDiscarded t StateSelecting)] m)"

definition stepSelecting :: "Instant \<Rightarrow> rnd64 \<Rightarrow> Event \<Rightarrow> Machine \<Rightarrow> Machine" where
  "stepSelecting now rnd ev m =
     (case ev of
        EvStop \<Rightarrow> stop m
      | EvRelease \<Rightarrow> releaseBeforeBound m
      | EvReceived msg _ _ \<Rightarrow>
          (case acceptable msg m of
             (None, m1) \<Rightarrow> m1
           | (Some x, m1) \<Rightarrow> selecting_message now rnd x m1)
      | EvTimerFired t \<Rightarrow>
          if t \<noteq> TimerRetransmit then journal [JDrop (NoteTimerIgnored t StateSelecting)] m
          else if Exhausted (PDiscover (params m)) (retransmits m)
          then beginAcquisition now (split64 rnd 1) False (failed ReasonNoServer [JAcq NoteNoOffer] m)
          else sendDiscover now rnd (m\<lparr>retransmits := retransmits m + 1\<rparr>)
      | EvLinkDown \<Rightarrow> linkDown m
      | EvActionFailed aid reason \<Rightarrow> noteActionFailed now rnd aid reason m
      | EvSetHostname name \<Rightarrow> takeHostname now rnd name m
      | _ \<Rightarrow> ignored ev StateSelecting m)"

definition nak_restart :: "Instant \<Rightarrow> rnd64 \<Rightarrow> message \<Rightarrow> Machine \<Rightarrow> Machine" where
  "nak_restart now rnd msg m =
     restartPaced now (split64 rnd 1) False (failed ReasonNak (nakText msg) (cancel TimerRetransmit m))"

definition requesting_message :: "Instant \<Rightarrow> rnd64 \<Rightarrow> message \<Rightarrow> Machine \<Rightarrow> Machine" where
  "requesting_message now rnd msg m =
     (let t = type_of msg in
      if t = MsgAck then
        (case refusesRapidInRequesting msg m of
           (True, m1) \<Rightarrow> m1
         | (False, m1) \<Rightarrow>
             if refusesAckWithoutNonce msg m1 then
               restartPaced now (split64 rnd 1) True (journal [JExt NoteAckWithoutNonce]
                 (m1\<lparr>frCounts := (frCounts m1)\<lparr>AckRefused := AckRefused (frCounts m1) + 1\<rparr>\<rparr>))
             else
               let m2 = noteV6OnlyKept (Some msg) StateRequesting m1 in
               (case leaseFromAck msg (requestSentAt m2) of
                  None \<Rightarrow> journal [JDrop NoteAckUnusable] m2
                | Some (lse, ns) \<Rightarrow> afterAck now rnd lse (journal_notes ns m2)))
      else if t = MsgNak then nak_restart now rnd msg m
      else journal [JDrop (NoteDiscarded t StateRequesting)] m)"

definition stepRequesting :: "Instant \<Rightarrow> rnd64 \<Rightarrow> Event \<Rightarrow> Machine \<Rightarrow> Machine" where
  "stepRequesting now rnd ev m =
     (case ev of
        EvStop \<Rightarrow> stop m
      | EvRelease \<Rightarrow> releaseBeforeBound m
      | EvReceived msg _ _ \<Rightarrow>
          (case acceptable msg m of
             (None, m1) \<Rightarrow> m1
           | (Some x, m1) \<Rightarrow> requesting_message now rnd x m1)
      | EvTimerFired t \<Rightarrow>
          if t \<noteq> TimerRetransmit then journal [JDrop (NoteTimerIgnored t StateRequesting)] m
          else if Exhausted (PRequest (params m)) (retransmits m)
          then beginAcquisition now (split64 rnd 1) False (failed ReasonNoServer [JAcq NoteNoAck] m)
          else sendRequest now rnd (m\<lparr>retransmits := retransmits m + 1\<rparr>)
      | EvLinkDown \<Rightarrow> linkDown m
      | EvActionFailed aid reason \<Rightarrow> noteActionFailed now rnd aid reason m
      | EvSetHostname name \<Rightarrow> takeHostname now rnd name m
      | _ \<Rightarrow> ignored ev StateRequesting m)"

definition rebooting_message :: "Instant \<Rightarrow> rnd64 \<Rightarrow> message \<Rightarrow> Machine \<Rightarrow> Machine" where
  "rebooting_message now rnd msg m =
     (let t = type_of msg in
      if t = MsgAck then
        (case v6OnlyValue (Some msg) m of
           (Some s, m1) \<Rightarrow> waitForIPv6 StateRebooting s m1
         | (None, m1) \<Rightarrow>
             (case leaseFromAck msg (requestSentAt m1) of
                None \<Rightarrow> journal [JDrop NoteAckUnusable] m1
              | Some (lse, ns) \<Rightarrow> afterAck now rnd lse (journal_notes ns m1)))
      else if t = MsgNak then nak_restart now rnd msg m
      else if t = MsgOffer then journal [JDrop NoteOfferRebooting] m
      else journal [JDrop (NoteDiscarded t StateRebooting)] m)"

definition stepRebooting :: "Instant \<Rightarrow> rnd64 \<Rightarrow> Event \<Rightarrow> Machine \<Rightarrow> Machine" where
  "stepRebooting now rnd ev m =
     (case ev of
        EvStop \<Rightarrow> stop m
      | EvStart \<Rightarrow> journal [JDrop (NoteAlreadyRunning StateRebooting)] m
      | EvRelease \<Rightarrow> releaseBeforeBound m
      | EvReceived msg _ _ \<Rightarrow>
          (case acceptable msg m of
             (None, m1) \<Rightarrow> m1
           | (Some x, m1) \<Rightarrow> rebooting_message now rnd x m1)
      | EvTimerFired t \<Rightarrow>
          if t \<noteq> TimerRetransmit then journal [JDrop (NoteTimerIgnored t StateRebooting)] m
          else if Exhausted (PRequest (params m)) (retransmits m)
          then beginAcquisition now (split64 rnd 1) False (failed ReasonNoServer [JAcq NoteNoRebootAnswer] m)
          else sendReboot now rnd (m\<lparr>retransmits := retransmits m + 1\<rparr>)
      | EvLinkDown \<Rightarrow> linkDown m
      | EvActionFailed aid reason \<Rightarrow> noteActionFailed now rnd aid reason m
      | EvSetHostname name \<Rightarrow> takeHostname now rnd name m
      | _ \<Rightarrow> ignored ev StateRebooting m)"

definition stepBound :: "Instant \<Rightarrow> rnd64 \<Rightarrow> Event \<Rightarrow> Machine \<Rightarrow> Machine" where
  "stepBound now rnd ev m =
     (case ev of
        EvStop \<Rightarrow> stop m
      | EvTimerFired t \<Rightarrow>
          if t = TimerExpire then restartPaced now rnd False (dropLease ReasonExpired m)
          else if t = TimerRenew then enterRenewing now rnd m
          else if t = TimerRebind then enterRebinding now rnd True m
          else if t = TimerACD then acdTimer now rnd m
          else journal [JDrop (NoteTimerIgnored t StateBound)] m
      | EvLinkDown \<Rightarrow> toInitIdle (dropLease ReasonLinkDown m)
      | EvAddressLost \<Rightarrow> beginAcquisition now rnd False (dropLease ReasonAddressLost m)
      | EvConflictDetected \<Rightarrow> declineAndRestart now rnd m
      | EvARPReceived pkt \<Rightarrow> onARP now rnd pkt m
      | EvRelease \<Rightarrow> release rnd m
      | EvStart \<Rightarrow> journal [JDrop (NoteAlreadyRunning StateBound)] m
      | EvReceived msg _ _ \<Rightarrow>
          journal [JDrop (NoteNoTransaction StateBound)] (noteV6OnlyKept msg StateBound m)
      | EvActionFailed aid reason \<Rightarrow> noteActionFailed now rnd aid reason m
      | EvSetHostname name \<Rightarrow> takeHostname now rnd name m
      | _ \<Rightarrow> ignored ev StateBound m)"

definition renewal_message :: "Instant \<Rightarrow> rnd64 \<Rightarrow> message \<Rightarrow> Machine \<Rightarrow> Machine" where
  "renewal_message now rnd msg m =
     (let t = type_of msg in
      if t = MsgAck then
        let m1 = noteV6OnlyKept (Some msg) (state m) m in
        (case leaseFromAck msg (requestSentAt m1) of
           None \<Rightarrow> journal [JDrop NoteAckUnusable] m1
         | Some (lse, ns) \<Rightarrow> enterBound now rnd lse True (journal_notes ns m1))
      else if t = MsgNak then
        restartPaced now (split64 rnd 1) False (failed ReasonNak (nakText msg) (dropLease ReasonNak m))
      else journal [JDrop (NoteDiscarded t (state m))] m)"

definition stepRenewal :: "Instant \<Rightarrow> rnd64 \<Rightarrow> Event \<Rightarrow> Machine \<Rightarrow> Machine" where
  "stepRenewal now rnd ev m =
     (case ev of
        EvStop \<Rightarrow> stop m
      | EvStart \<Rightarrow> journal [JDrop (NoteAlreadyRunning (state m))] m
      | EvRelease \<Rightarrow> release rnd m
      | EvConflictDetected \<Rightarrow> declineAndRestart now rnd m
      | EvARPReceived pkt \<Rightarrow> onARP now rnd pkt m
      | EvReceived msg _ _ \<Rightarrow>
          (case acceptable msg m of
             (None, m1) \<Rightarrow> m1
           | (Some x, m1) \<Rightarrow> renewal_message now rnd x m1)
      | EvTimerFired t \<Rightarrow>
          if t = TimerRetransmit then sendRenewal now m
          else if t = TimerRebind then
            (if state m \<noteq> StateRenewing then journal [JDrop (NoteTimerIgnored TimerRebind StateRebinding)] m
             else enterRebinding now rnd False m)
          else if t = TimerExpire then restartPaced now rnd False (dropLease ReasonExpired m)
          else if t = TimerACD then acdTimer now rnd m
          else journal [JDrop (NoteTimerIgnored t (state m))] m
      | EvLinkDown \<Rightarrow> toInitIdle (dropLease ReasonLinkDown m)
      | EvAddressLost \<Rightarrow> beginAcquisition now rnd False (dropLease ReasonAddressLost m)
      | EvActionFailed aid reason \<Rightarrow> noteActionFailed now rnd aid reason m
      | EvSetHostname name \<Rightarrow> takeHostname now rnd name m
      | _ \<Rightarrow> ignored ev (state m) m)"

definition stepProbing :: "Instant \<Rightarrow> rnd64 \<Rightarrow> Event \<Rightarrow> Machine \<Rightarrow> Machine" where
  "stepProbing now rnd ev m =
     (case ev of
        EvStop \<Rightarrow> stop m
      | EvStart \<Rightarrow> journal [JDrop (NoteAlreadyRunning StateProbing)] m
      | EvRelease \<Rightarrow> release rnd m
      | EvTimerFired t \<Rightarrow>
          if t = TimerACD then acdTimer now rnd m
          else journal [JDrop (NoteTimerIgnored t StateProbing)] m
      | EvARPReceived pkt \<Rightarrow> onARP now rnd pkt m
      | EvConflictDetected \<Rightarrow> declineAndRestart now rnd m
      | EvLinkDown \<Rightarrow> toInitIdle (journal [JAcq NoteLinkDownProbing] m)
      | EvAddressLost \<Rightarrow> journal [JBound NoteAddressLostProbing] m
      | EvReceived _ _ _ \<Rightarrow> journal [JDrop (NoteNoTransaction StateProbing)] m
      | EvActionFailed aid reason \<Rightarrow> noteActionFailed now rnd aid reason m
      | EvSetHostname name \<Rightarrow> takeHostname now rnd name m
      | _ \<Rightarrow> ignored ev StateProbing m)"

text \<open>\<^verbatim>\<open>Step\<close>: a DHCPFORCERENEW is routed before any state's handler.\<close>

definition dispatch :: "Instant \<Rightarrow> rnd64 \<Rightarrow> Event \<Rightarrow> Machine \<Rightarrow> Machine" where
  "dispatch now rnd ev m =
     (case state m of
        StateStopped \<Rightarrow> stepStopped now rnd ev m
      | StateInit \<Rightarrow> stepInit now rnd ev m
      | StateSelecting \<Rightarrow> stepSelecting now rnd ev m
      | StateRequesting \<Rightarrow> stepRequesting now rnd ev m
      | StateBound \<Rightarrow> stepBound now rnd ev m
      | StateRenewing \<Rightarrow> stepRenewal now rnd ev m
      | StateRebinding \<Rightarrow> stepRenewal now rnd ev m
      | StateRebooting \<Rightarrow> stepRebooting now rnd ev m
      | StateProbing \<Rightarrow> stepProbing now rnd ev m)"

definition Step :: "Instant \<Rightarrow> rnd64 \<Rightarrow> Event \<Rightarrow> Machine \<Rightarrow> Machine" where
  "Step now rnd ev m =
     (let m0 = m\<lparr>out := []\<rparr> in
      case ev of
        EvReceived (Some msg) raw dst \<Rightarrow>
          if Type msg = Some MsgForceRenew then takeForcerenew now rnd msg raw dst m0
          else dispatch now rnd ev m0
      | _ \<Rightarrow> dispatch now rnd ev m0)"

section \<open>Readers\<close>

definition machine_Lease :: "Machine \<Rightarrow> Lease \<times> bool" where
  "machine_Lease m =
     (if haveLse m \<and> have_key (fr m)
      then (lease m)\<lparr>LForcerenewNonce := nonce (fr m), LForcerenewReplay := floor (fr m)\<rparr>
      else lease m, haveLse m)"

definition machine_ACDPhase :: "Machine \<Rightarrow> ACDPhase" where
  "machine_ACDPhase m = (case sub m of None \<Rightarrow> ACDIdle | Some a \<Rightarrow> phase a)"

definition ARPRelevant :: "arp_packet option \<Rightarrow> Machine \<Rightarrow> bool" where
  "ARPRelevant pkt m = (case sub m of None \<Rightarrow> False | Some a \<Rightarrow> relevant a pkt)"

end
