(* ===== verification/Proto_Observe.thy ===== *)
theory Proto_Observe
  imports Proto_Step
begin

text \<open>
  What the surroundings of the machine see of a step. An observer folds the emitted actions
  into a state of its own; the two used are the timer table of the runtime and the caller's
  idea of the lease. The lemmas say how the basic operations look to any observer and which
  fields they leave alone.
\<close>

definition observe :: "(ActionBody \<Rightarrow> 's \<Rightarrow> 's) \<Rightarrow> 's \<Rightarrow> Machine \<Rightarrow> 's" where
  "observe mon s m = fold mon (map Body (out m)) s"

text \<open>
  An observer that does not look at the journal or at sent packets; everything the machine
  does beside setting timers and announcing leases is invisible to it.
\<close>

locale observer =
  fixes mon :: "ActionBody \<Rightarrow> 's \<Rightarrow> 's"
  assumes mon_journal: "mon (ActJournal ns) s = s"
    and mon_failed: "mon (ActFailed r ns) s = s"
    and mon_send: "mon (ActSend msg d) s = s"
    and mon_arp: "mon (ActSendARP p) s = s"
begin

lemma observe_updates [simp]:
  "observe mon s (m\<lparr>params := x1\<rparr>) = observe mon s m"
  "observe mon s (m\<lparr>state := x2\<rparr>) = observe mon s m"
  "observe mon s (m\<lparr>startedAt := x3\<rparr>) = observe mon s m"
  "observe mon s (m\<lparr>started := x4\<rparr>) = observe mon s m"
  "observe mon s (m\<lparr>xid := x5\<rparr>) = observe mon s m"
  "observe mon s (m\<lparr>retransmits := x6\<rparr>) = observe mon s m"
  "observe mon s (m\<lparr>sendFailures := x7\<rparr>) = observe mon s m"
  "observe mon s (m\<lparr>restarts := x8\<rparr>) = observe mon s m"
  "observe mon s (m\<lparr>offer := x9\<rparr>) = observe mon s m"
  "observe mon s (m\<lparr>requestSentAt := x10\<rparr>) = observe mon s m"
  "observe mon s (m\<lparr>rapidCounts := x11\<rparr>) = observe mon s m"
  "observe mon s (m\<lparr>v6OnlyCounts := x12\<rparr>) = observe mon s m"
  "observe mon s (m\<lparr>frCounts := x13\<rparr>) = observe mon s m"
  "observe mon s (m\<lparr>fr := x14\<rparr>) = observe mon s m"
  "observe mon s (m\<lparr>lease := x15\<rparr>) = observe mon s m"
  "observe mon s (m\<lparr>haveLse := x16\<rparr>) = observe mon s m"
  "observe mon s (m\<lparr>resume := x17\<rparr>) = observe mon s m"
  "observe mon s (m\<lparr>rebootAddr := x18\<rparr>) = observe mon s m"
  "observe mon s (m\<lparr>sub := x19\<rparr>) = observe mon s m"
  "observe mon s (m\<lparr>probing := x20\<rparr>) = observe mon s m"
  "observe mon s (m\<lparr>haveProbe := x21\<rparr>) = observe mon s m"
  "observe mon s (m\<lparr>hostname := x22\<rparr>) = observe mon s m"
  "observe mon s (m\<lparr>nameOnWire := x23\<rparr>) = observe mon s m"
  "observe mon s (m\<lparr>arpAction := x24\<rparr>) = observe mon s m"
  "observe mon s (m\<lparr>haveARPAction := x25\<rparr>) = observe mon s m"
  "observe mon s (m\<lparr>panicked := x26\<rparr>) = observe mon s m"
  by (simp_all add: observe_def)

lemma observe_stamp [simp]: "observe mon s (stamp b m) = mon b (observe mon s m)"
  by (simp add: observe_def stamp_def)

lemma observe_quiet [simp]:
  "observe mon s (journal ns m) = observe mon s m"
  "observe mon s (journal_notes ns m) = observe mon s m"
  "observe mon s (failed r ns m) = observe mon s m"
  "observe mon s (send msg d m) = observe mon s m"
  "observe mon s (sendARP p m) = observe mon s m"
  by (simp_all add: journal_def journal_notes_def failed_def send_def sendARP_def Let_def
      mon_journal mon_failed mon_send mon_arp)

lemma observe_cancelAll: "observe mon s (cancelAll m) = fold mon (map ActCancelTimer AllTimerIDs) (observe mon s m)"
proof -
  have "observe mon s (fold cancel ts m) = fold mon (map ActCancelTimer ts) (observe mon s m)" for ts
    by (induction ts arbitrary: m) (simp_all add: cancel_def)
  then show ?thesis by (simp add: cancelAll_def)
qed

lemma observe_as4 [simp]: "observe mon s (snd (as4 a m)) = observe mon s m"
  by (simp add: as4_def split: option.split)

lemma observe_base [simp]: "observe mon s (snd (base now t m)) = observe mon s m"
  by (simp add: base_def Let_def)

end

section \<open>The timer table\<close>

type_synonym timers = "TimerID \<rightharpoonup> int"

fun arm :: "Instant \<Rightarrow> ActionBody \<Rightarrow> timers \<Rightarrow> timers" where
  "arm now (ActSetTimer t d) A = A(t \<mapsto> now + d)"
| "arm now (ActCancelTimer t) A = A(t := None)"
| "arm now _ A = A"

interpretation timers: observer "arm now" for now
  by unfold_locales simp_all

lemma armed_set [simp]: "observe (arm now) A (set_timer t d m) = (observe (arm now) A m)(t \<mapsto> now + d)"
  by (simp add: set_timer_def)

lemma armed_cancel [simp]: "observe (arm now) A (cancel t m) = (observe (arm now) A m)(t := None)"
  by (simp add: cancel_def)

lemma armed_cancelAll [simp]: "observe (arm now) A (cancelAll m) = Map.empty"
proof -
  have "fold (arm now) (map ActCancelTimer ts) A t = (if t \<in> set ts then None else A t)" for ts A t
    by (induction ts arbitrary: A) auto
  then show ?thesis by (auto simp: timers.observe_cancelAll AllTimerIDs_all)
qed

section \<open>The caller\<close>

text \<open>
  The caller of the library: it holds no lease, or the lease it was last told of. An action
  out of turn, a second acquisition, a renewal or loss of nothing, is a violation and is
  never left again.
\<close>

datatype caller = Holds "Lease option" | Violated

fun told :: "ActionBody \<Rightarrow> caller \<Rightarrow> caller" where
  "told (ActLeaseAcquired l _) v = (if v = Holds None then Holds (Some l) else Violated)"
| "told (ActLeaseRenewed l) v = (case v of Holds (Some _) \<Rightarrow> Holds (Some l) | _ \<Rightarrow> Violated)"
| "told (ActLeaseChanged l) v = (case v of Holds (Some _) \<Rightarrow> Holds (Some l) | _ \<Rightarrow> Violated)"
| "told (ActLeaseLost _) v = (case v of Holds (Some _) \<Rightarrow> Holds None | _ \<Rightarrow> Violated)"
| "told _ v = v"

interpretation callers: observer told
  by unfold_locales simp_all

lemma told_timers [simp]:
  "observe told v (set_timer t d m) = observe told v m"
  "observe told v (cancel t m) = observe told v m"
  "observe told v (cancelAll m) = observe told v m"
proof -
  have "fold told (map ActCancelTimer ts) v = v" for ts v by (induction ts) simp_all
  then show "observe told v (cancelAll m) = observe told v m" by (simp add: callers.observe_cancelAll)
qed (simp_all add: set_timer_def cancel_def)

section \<open>Fields the basic operations keep\<close>

lemma stamp_fields [simp]:
  "params (stamp b m) = params m" "state (stamp b m) = state m" "startedAt (stamp b m) = startedAt m"
  "started (stamp b m) = started m" "xid (stamp b m) = xid m" "retransmits (stamp b m) = retransmits m"
  "sendFailures (stamp b m) = sendFailures m" "restarts (stamp b m) = restarts m"
  "offer (stamp b m) = offer m" "requestSentAt (stamp b m) = requestSentAt m"
  "rapidCounts (stamp b m) = rapidCounts m" "v6OnlyCounts (stamp b m) = v6OnlyCounts m"
  "frCounts (stamp b m) = frCounts m" "fr (stamp b m) = fr m" "lease (stamp b m) = lease m"
  "haveLse (stamp b m) = haveLse m" "resume (stamp b m) = resume m"
  "rebootAddr (stamp b m) = rebootAddr m" "sub (stamp b m) = sub m" "probing (stamp b m) = probing m"
  "haveProbe (stamp b m) = haveProbe m" "hostname (stamp b m) = hostname m"
  "nameOnWire (stamp b m) = nameOnWire m" "arpAction (stamp b m) = arpAction m"
  "haveARPAction (stamp b m) = haveARPAction m" "panicked (stamp b m) = panicked m"
  by (simp_all add: stamp_def)

lemmas journal_fields [simp] = stamp_fields [of "ActJournal ns" for ns, folded journal_def]
lemmas failed_fields [simp] = stamp_fields [of "ActFailed r ns" for r ns, folded failed_def]
lemmas send_fields [simp] = stamp_fields [of "ActSend msg d" for msg d, folded send_def]
lemmas set_timer_fields [simp] = stamp_fields [of "ActSetTimer t d" for t d, folded set_timer_def]
lemmas cancel_fields [simp] = stamp_fields [of "ActCancelTimer t" for t, folded cancel_def]

lemma cancelAll_form: "\<exists>k acts. cancelAll m = m\<lparr>nextAction := k, out := acts\<rparr>"
proof -
  have "\<exists>k acts. fold cancel ts m = m\<lparr>nextAction := k, out := acts\<rparr>" for ts
  proof (induction ts arbitrary: m)
    case Nil
    show ?case by (intro exI [of _ "nextAction m"] exI [of _ "out m"]) simp
  next
    case (Cons t ts)
    from Cons [of "cancel t m"] show ?case by (auto simp: cancel_def stamp_def)
  qed
  then show ?thesis by (simp add: cancelAll_def)
qed

lemma cancelAll_fields [simp]:
  "params (cancelAll m) = params m" "state (cancelAll m) = state m"
  "startedAt (cancelAll m) = startedAt m" "started (cancelAll m) = started m"
  "xid (cancelAll m) = xid m" "retransmits (cancelAll m) = retransmits m"
  "sendFailures (cancelAll m) = sendFailures m" "restarts (cancelAll m) = restarts m"
  "offer (cancelAll m) = offer m" "requestSentAt (cancelAll m) = requestSentAt m"
  "rapidCounts (cancelAll m) = rapidCounts m" "v6OnlyCounts (cancelAll m) = v6OnlyCounts m"
  "frCounts (cancelAll m) = frCounts m" "fr (cancelAll m) = fr m" "lease (cancelAll m) = lease m"
  "haveLse (cancelAll m) = haveLse m" "resume (cancelAll m) = resume m"
  "rebootAddr (cancelAll m) = rebootAddr m" "sub (cancelAll m) = sub m"
  "probing (cancelAll m) = probing m" "haveProbe (cancelAll m) = haveProbe m"
  "hostname (cancelAll m) = hostname m" "nameOnWire (cancelAll m) = nameOnWire m"
  "arpAction (cancelAll m) = arpAction m" "haveARPAction (cancelAll m) = haveARPAction m"
  "panicked (cancelAll m) = panicked m"
  using cancelAll_form [of m] by auto

lemma journal_notes_fields [simp]:
  "params (journal_notes ns m) = params m" "state (journal_notes ns m) = state m"
  "startedAt (journal_notes ns m) = startedAt m" "started (journal_notes ns m) = started m"
  "xid (journal_notes ns m) = xid m" "retransmits (journal_notes ns m) = retransmits m"
  "sendFailures (journal_notes ns m) = sendFailures m"
  "restarts (journal_notes ns m) = restarts m" "offer (journal_notes ns m) = offer m"
  "requestSentAt (journal_notes ns m) = requestSentAt m"
  "rapidCounts (journal_notes ns m) = rapidCounts m"
  "v6OnlyCounts (journal_notes ns m) = v6OnlyCounts m"
  "frCounts (journal_notes ns m) = frCounts m" "fr (journal_notes ns m) = fr m"
  "lease (journal_notes ns m) = lease m" "haveLse (journal_notes ns m) = haveLse m"
  "resume (journal_notes ns m) = resume m" "rebootAddr (journal_notes ns m) = rebootAddr m"
  "sub (journal_notes ns m) = sub m" "probing (journal_notes ns m) = probing m"
  "haveProbe (journal_notes ns m) = haveProbe m" "hostname (journal_notes ns m) = hostname m"
  "nameOnWire (journal_notes ns m) = nameOnWire m" "arpAction (journal_notes ns m) = arpAction m"
  "haveARPAction (journal_notes ns m) = haveARPAction m"
  "panicked (journal_notes ns m) = panicked m"
  by (simp_all add: journal_notes_def)

lemma sendARP_fields [simp]:
  "params (sendARP p m) = params m" "state (sendARP p m) = state m"
  "startedAt (sendARP p m) = startedAt m" "started (sendARP p m) = started m"
  "xid (sendARP p m) = xid m" "retransmits (sendARP p m) = retransmits m"
  "sendFailures (sendARP p m) = sendFailures m" "restarts (sendARP p m) = restarts m"
  "offer (sendARP p m) = offer m" "requestSentAt (sendARP p m) = requestSentAt m"
  "rapidCounts (sendARP p m) = rapidCounts m" "v6OnlyCounts (sendARP p m) = v6OnlyCounts m"
  "frCounts (sendARP p m) = frCounts m" "fr (sendARP p m) = fr m" "lease (sendARP p m) = lease m"
  "haveLse (sendARP p m) = haveLse m" "resume (sendARP p m) = resume m"
  "rebootAddr (sendARP p m) = rebootAddr m" "sub (sendARP p m) = sub m"
  "probing (sendARP p m) = probing m" "haveProbe (sendARP p m) = haveProbe m"
  "hostname (sendARP p m) = hostname m" "nameOnWire (sendARP p m) = nameOnWire m"
  "panicked (sendARP p m) = panicked m"
  by (simp_all add: sendARP_def Let_def)

lemma as4_fields [simp]:
  "params (snd (as4 a m)) = params m" "state (snd (as4 a m)) = state m"
  "startedAt (snd (as4 a m)) = startedAt m" "started (snd (as4 a m)) = started m"
  "xid (snd (as4 a m)) = xid m" "retransmits (snd (as4 a m)) = retransmits m"
  "sendFailures (snd (as4 a m)) = sendFailures m" "restarts (snd (as4 a m)) = restarts m"
  "offer (snd (as4 a m)) = offer m" "requestSentAt (snd (as4 a m)) = requestSentAt m"
  "rapidCounts (snd (as4 a m)) = rapidCounts m" "v6OnlyCounts (snd (as4 a m)) = v6OnlyCounts m"
  "frCounts (snd (as4 a m)) = frCounts m" "fr (snd (as4 a m)) = fr m"
  "lease (snd (as4 a m)) = lease m" "haveLse (snd (as4 a m)) = haveLse m"
  "resume (snd (as4 a m)) = resume m" "rebootAddr (snd (as4 a m)) = rebootAddr m"
  "sub (snd (as4 a m)) = sub m" "probing (snd (as4 a m)) = probing m"
  "haveProbe (snd (as4 a m)) = haveProbe m" "hostname (snd (as4 a m)) = hostname m"
  "nameOnWire (snd (as4 a m)) = nameOnWire m" "arpAction (snd (as4 a m)) = arpAction m"
  "haveARPAction (snd (as4 a m)) = haveARPAction m"
  by (simp_all add: as4_def split: option.split)

lemma as4_Is4 [simp]: "Is4 a \<Longrightarrow> panicked (snd (as4 a m)) = panicked m"
  by (cases a) (simp_all add: as4_def)

lemma base_fields [simp]:
  "params (snd (base now t m)) = params m" "state (snd (base now t m)) = state m"
  "startedAt (snd (base now t m)) = startedAt m" "started (snd (base now t m)) = started m"
  "xid (snd (base now t m)) = xid m" "retransmits (snd (base now t m)) = retransmits m"
  "sendFailures (snd (base now t m)) = sendFailures m"
  "restarts (snd (base now t m)) = restarts m" "offer (snd (base now t m)) = offer m"
  "requestSentAt (snd (base now t m)) = requestSentAt m"
  "rapidCounts (snd (base now t m)) = rapidCounts m"
  "v6OnlyCounts (snd (base now t m)) = v6OnlyCounts m"
  "frCounts (snd (base now t m)) = frCounts m" "fr (snd (base now t m)) = fr m"
  "lease (snd (base now t m)) = lease m" "haveLse (snd (base now t m)) = haveLse m"
  "resume (snd (base now t m)) = resume m" "rebootAddr (snd (base now t m)) = rebootAddr m"
  "sub (snd (base now t m)) = sub m" "probing (snd (base now t m)) = probing m"
  "haveProbe (snd (base now t m)) = haveProbe m" "hostname (snd (base now t m)) = hostname m"
  "arpAction (snd (base now t m)) = arpAction m"
  "haveARPAction (snd (base now t m)) = haveARPAction m"
  "panicked (snd (base now t m)) = panicked m"
  by (simp_all add: base_def Let_def)

end
