(* ===== verification/Proto_Invariant.thy ===== *)
theory Proto_Invariant
  imports Proto_Observe
begin

text \<open>
  The invariant of the client machine with its surroundings, and that every handler keeps
  it. It ties the state to the lease flags, excludes the panics, says which timers must be
  armed in which state, and that the caller's view is the machine's lease.
\<close>

definition clock :: "Instant \<Rightarrow> bool" where
  "clock now \<longleftrightarrow> 0 \<le> now \<and> now \<le> 2 ^ 62"

definition held_ok :: "Lease \<Rightarrow> bool" where
  "held_ok l \<longleftrightarrow> granted_lease l \<and> 0 \<le> LStart l \<and> LStart l \<le> 2 ^ 62"

text \<open>What holds at every point of a step.\<close>

definition core :: "caller \<Rightarrow> Machine \<Rightarrow> bool" where
  "core V m \<longleftrightarrow> \<not> panicked m
     \<and> observe told V m = Holds (if haveLse m then Some (lease m) else None)
     \<and> (haveLse m \<longrightarrow> held_ok (lease m))
     \<and> (sub m = None \<longleftrightarrow> PConflict (params m) = ConflictOff)
     \<and> (have_key (fr m) \<longrightarrow> length (nonce (fr m)) = ForcerenewNonceLen)
     \<and> 0 \<le> requestSentAt m \<and> requestSentAt m \<le> 2 ^ 62"

definition acd_active :: "Machine \<Rightarrow> bool" where
  "acd_active m \<longleftrightarrow> (\<exists>a. sub m = Some a \<and> phase a \<in> {ACDProbing, ACDSettling, ACDAnnouncing})"

text \<open>
  The timers a held lease needs: its expiry no later than it is due, or due at once when it
  is past; T2 as long as it has not been reached; conflict detection in progress.
\<close>

definition lease_timers :: "TimerID set \<Rightarrow> Instant \<Rightarrow> timers \<Rightarrow> Machine \<Rightarrow> bool" where
  "lease_timers X now T m \<longleftrightarrow>
     (HasExpire (Deadlines (lease m)) \<and> TimerExpire \<notin> X \<longrightarrow>
        (\<exists>d. T TimerExpire = Some d \<and> d \<le> max now (DExpire (Deadlines (lease m)))))
     \<and> (state m \<in> {StateBound, StateRenewing} \<and> HasRebind (Deadlines (lease m)) \<and> TimerRebind \<notin> X \<longrightarrow>
        T TimerRebind \<noteq> None)
     \<and> (acd_active m \<and> TimerACD \<notin> X \<longrightarrow> T TimerACD \<noteq> None)"

definition exchange_states :: "State set" where
  "exchange_states = {StateSelecting, StateRequesting, StateRebooting, StateRenewing, StateRebinding}"

definition held_states :: "State set" where
  "held_states = {StateBound, StateRenewing, StateRebinding}"

text \<open>The invariant; the timers of \<open>X\<close> are exempt, being the one that has just fired.\<close>

definition minv :: "TimerID set \<Rightarrow> Instant \<Rightarrow> timers \<Rightarrow> caller \<Rightarrow> Machine \<Rightarrow> bool" where
  "minv X now A V m \<longleftrightarrow> core V m
     \<and> (haveLse m \<longleftrightarrow> state m \<in> held_states) \<and> (haveProbe m \<longleftrightarrow> state m = StateProbing)
     \<and> (state m = StateRequesting \<longrightarrow> (\<exists>x. offer m = Some x \<and> Is4 (YIAddr x)))
     \<and> (state m = StateRebooting \<longrightarrow> Is4 (rebootAddr m))
     \<and> (state m = StateProbing \<longrightarrow> held_ok (probing m)
          \<and> (\<exists>a. sub m = Some a \<and> phase a \<in> {ACDProbing, ACDSettling}
               \<and> acdAddr a = paddr (LAddr (probing m)))
          \<and> (TimerACD \<notin> X \<longrightarrow> observe (arm now) A m TimerACD \<noteq> None))
     \<and> (state m \<in> exchange_states \<and> TimerRetransmit \<notin> X \<longrightarrow> observe (arm now) A m TimerRetransmit \<noteq> None)
     \<and> (haveLse m \<longrightarrow> lease_timers X now (observe (arm now) A m) m)"

lemmas state_sets = exchange_states_def held_states_def

section \<open>Operations\<close>

lemma core_no_lease: "core V m \<Longrightarrow> \<not> haveLse m \<Longrightarrow> observe told V m = Holds None"
  by (simp add: core_def)

lemma acdIdle_fields [simp]:
  "params (acdIdle m) = params m" "fr (acdIdle m) = fr m" "state (acdIdle m) = state m" "offer (acdIdle m) = offer m"
  "requestSentAt (acdIdle m) = requestSentAt m" "lease (acdIdle m) = lease m"
  "haveLse (acdIdle m) = haveLse m" "rebootAddr (acdIdle m) = rebootAddr m"
  "panicked (acdIdle m) = panicked m" "haveProbe (acdIdle m) = False" "restarts (acdIdle m) = restarts m"
  "sub (acdIdle m) = map_option acd_stop (sub m)"
  "observe told v (acdIdle m) = observe told v m" "observe (arm now) A (acdIdle m) = observe (arm now) A m"
  by (simp_all add: acdIdle_def)

lemma toInitIdle_inv: "core V m \<Longrightarrow> \<not> haveLse m \<Longrightarrow> minv X now A V (toInitIdle m)"
  by (auto simp: minv_def core_def toInitIdle_def state_sets)

lemma sendDiscover_inv:
  "core V m \<Longrightarrow> \<not> haveLse m \<Longrightarrow> \<not> haveProbe m \<Longrightarrow> clock now \<Longrightarrow> minv X now A V (sendDiscover now rnd m)"
  by (auto simp: minv_def core_def sendDiscover_def state_sets clock_def Let_def split_def)

lemma sendRequest_inv:
  "core V m \<Longrightarrow> \<not> haveLse m \<Longrightarrow> \<not> haveProbe m \<Longrightarrow> clock now \<Longrightarrow> offer m = Some x \<Longrightarrow> Is4 (YIAddr x) \<Longrightarrow>
   minv X now A V (sendRequest now rnd m)"
  by (auto simp: minv_def core_def sendRequest_def state_sets clock_def Let_def split_def Addr4_opt_def
      split: option.splits)

lemma sendReboot_inv:
  "core V m \<Longrightarrow> \<not> haveLse m \<Longrightarrow> \<not> haveProbe m \<Longrightarrow> clock now \<Longrightarrow> Is4 (rebootAddr m) \<Longrightarrow>
   minv X now A V (sendReboot now rnd m)"
  by (auto simp: minv_def core_def sendReboot_def state_sets clock_def Let_def split_def)

lemma beginAcquisition_inv:
  assumes "core V m" "\<not> haveLse m" "\<not> haveProbe m" "clock now"
  shows "minv X now A V (beginAcquisition now rnd withDesync m)"
proof -
  define m1 where "m1 = cancelAll (m\<lparr>startedAt := now, started := True, retransmits := 0,
    sendFailures := 0, offer := None, rebootAddr := NoAddr, xid := xid_of (split64 rnd 0),
    state := StateInit\<rparr>)"
  define m2 where "m2 = snd (takeResume now m1)"
  have m1: "core V m1" "\<not> haveLse m1" "\<not> haveProbe m1" "state m1 = StateInit"
    using assms by (auto simp: m1_def core_def)
  then have m2: "core V m2" "\<not> haveLse m2" "\<not> haveProbe m2" "state m2 = StateInit"
    by (auto simp: m2_def takeResume_def core_def Let_def split: option.split)
  have reb: "fst (takeResume now m1) \<Longrightarrow> Is4 (rebootAddr m2)"
    by (auto simp: m2_def takeResume_def Let_def resume_live_def split: option.splits if_splits)
  have idle: "minv X now A V (journal ns (set_timer t d m2))" for ns t d
    using m2 by (auto simp: minv_def core_def state_sets)
  show ?thesis
    unfolding beginAcquisition_def m1_def [symmetric] Let_def split_def m2_def [symmetric]
    using sendReboot_inv [OF m2(1-3) assms(4) reb] sendDiscover_inv [OF m2(1-3) assms(4)] idle by auto
qed

lemma restartPaced_inv:
  assumes "core V m" "\<not> haveLse m" "\<not> haveProbe m" "clock now"
  shows "minv X now A V (restartPaced now rnd withDesync m)"
proof -
  have m: "core V (m\<lparr>restarts := r\<rparr>)" for r using assms(1) by (simp add: core_def)
  have "minv X now A V (toInitIdle (m\<lparr>restarts := restarts m + 1\<rparr>))"
    using toInitIdle_inv [OF m] assms(2) by simp
  then have "minv X now A V (journal ns (set_timer TimerRestart d (toInitIdle (m\<lparr>restarts := restarts m + 1\<rparr>))))" for ns d
    by (auto simp: minv_def core_def toInitIdle_def state_sets)
  with beginAcquisition_inv [OF m] assms show ?thesis
    by (simp add: restartPaced_def Let_def)
qed

lemma dropLease_core [simp]: "core V m \<Longrightarrow> core V (dropLease r m)"
  by (auto simp: core_def dropLease_def zero_key_def)

lemma dropLease_fields [simp]:
  "haveLse (dropLease r m) = False" "haveProbe (dropLease r m) = haveProbe m"
  "params (dropLease r m) = params m" "sub (dropLease r m) = sub m" "state (dropLease r m) = state m"
  "probing (dropLease r m) = probing m" "restarts (dropLease r m) = restarts m"
  by (simp_all add: dropLease_def)

lemma core_quiet [simp]:
  "core V (journal ns m) = core V m" "core V (failed r ns m) = core V m"
  "core V (journal_notes ns m) = core V m" "core V (cancel t m) = core V m"
  "core V (set_timer t d m) = core V m" "core V (send msg dst m) = core V m"
  "core V (sendARP p m) = core V m" "core V (cancelAll m) = core V m"
  by (simp_all add: core_def)

lemma halt_inv: "core V m \<Longrightarrow> minv X now A V (halt r m)"
  using dropLease_core [of V m r] by (simp add: halt_def minv_def core_def state_sets)

lemma sendRelease_core: "core V m \<Longrightarrow> core V (sendRelease rnd m)"
  by (auto simp: sendRelease_def terminalFields_def Let_def split_def)
    (simp add: core_def)

lemma sendDecline_core: "core V m \<Longrightarrow> core V (sendDecline rnd m)"
  by (auto simp: sendDecline_def terminalFields_def Let_def split_def)
    (simp add: core_def)

lemma release_inv: "core V m \<Longrightarrow> minv X now A V (release rnd m)"
  by (simp add: release_def halt_inv sendRelease_core)

lemma releaseBeforeBound_inv: "core V m \<Longrightarrow> minv X now A V (releaseBeforeBound m)"
  by (simp add: releaseBeforeBound_def halt_inv)

lemma stop_inv: "core V m \<Longrightarrow> minv X now A V (stop m)"
  by (simp add: stop_def halt_inv)

text \<open>In INIT, no lease and nothing to defend: timers and journal lines change nothing.\<close>

lemma init_quiet:
  "minv X now A V m \<Longrightarrow> state m = StateInit \<Longrightarrow> minv Y now A V (journal ns m)"
  "minv X now A V m \<Longrightarrow> state m = StateInit \<Longrightarrow> minv Y now A V (set_timer t d m)"
  "minv X now A V m \<Longrightarrow> state m = StateInit \<Longrightarrow> minv Y now A V (failed r ns m)"
  by (auto simp: minv_def state_sets)

lemma toInitIdle_state [simp]: "state (toInitIdle m) = StateInit"
  by (simp add: toInitIdle_def)

lemma declineAndRestart_inv:
  assumes "core V m"
  shows "minv X now A V (declineAndRestart now rnd m) \<and> state (declineAndRestart now rnd m) = StateInit"
proof -
  let ?m2 = "toInitIdle (dropLease ReasonConflict (sendDecline rnd m))"
  have "minv X now A V ?m2"
    using assms by (simp add: toInitIdle_inv sendDecline_core)
  then show ?thesis
    by (auto simp: declineAndRestart_def Let_def split_def init_quiet)
qed

lemma sendRenewal_inv:
  assumes "core V m" "haveLse m" "\<not> haveProbe m" "state m \<in> {StateRenewing, StateRebinding}" "clock now"
    and "lease_timers {} now (observe (arm now) A m) m"
  shows "minv X now A V (sendRenewal now m)"
  using assms
  by (auto simp: minv_def core_def sendRenewal_def state_sets clock_def lease_timers_def acd_active_def
      Let_def split_def)

lemma beginRenewal_fields [simp]:
  "params (beginRenewalTransaction now rnd m) = params m" "lease (beginRenewalTransaction now rnd m) = lease m"
  "haveLse (beginRenewalTransaction now rnd m) = haveLse m" "sub (beginRenewalTransaction now rnd m) = sub m"
  "haveProbe (beginRenewalTransaction now rnd m) = haveProbe m"
  "core V (beginRenewalTransaction now rnd m) = core V m"
  "observe (arm now) A (beginRenewalTransaction t rnd m) = observe (arm now) A m"
  by (simp_all add: beginRenewalTransaction_def core_def)

lemma enterRenewing_inv:
  assumes "core V m" "haveLse m" "\<not> haveProbe m" "state m = StateBound" "clock now"
    and "lease_timers {} now (observe (arm now) A m) m"
  shows "minv X now A V (enterRenewing now rnd m)"
proof (cases "\<not> Is4 (LServerID (lease m)) \<or> IsUnspecified (LServerID (lease m))")
  case True
  with assms show ?thesis
    by (auto simp: enterRenewing_def minv_def state_sets lease_timers_def acd_active_def Let_def)
next
  case False
  let ?m = "(beginRenewalTransaction now rnd m)\<lparr>state := StateRenewing\<rparr>"
  have "core V ?m" "lease_timers {} now (observe (arm now) A ?m) ?m"
    using assms by (auto simp: core_def beginRenewalTransaction_def lease_timers_def acd_active_def)
  with False assms show ?thesis by (simp add: enterRenewing_def Let_def sendRenewal_inv)
qed

lemma enterRebinding_inv:
  assumes "core V m" "haveLse m" "\<not> haveProbe m" "clock now"
    and "lease_timers {TimerRebind} now (observe (arm now) A m) m"
  shows "minv X now A V (enterRebinding now rnd fresh m)"
proof -
  let ?m = "(if fresh then beginRenewalTransaction now rnd m else m)\<lparr>state := StateRebinding\<rparr>"
  have "core V ?m" "lease_timers {} now (observe (arm now) A ?m) ?m"
    using assms by (auto simp: core_def beginRenewalTransaction_def lease_timers_def acd_active_def)
  with assms show ?thesis by (simp add: enterRebinding_def sendRenewal_inv)
qed

lemma announceHostname_inv:
  assumes "minv {} now A V m" "clock now"
  shows "minv {} now A V (snd (announceHostname now rnd m))"
proof -
  have "core V m" "haveLse m \<longleftrightarrow> state m \<in> held_states" "haveProbe m \<longleftrightarrow> state m = StateProbing"
    "haveLse m \<longrightarrow> lease_timers {} now (observe (arm now) A m) m"
    using assms(1) by (auto simp: minv_def)
  with assms show ?thesis
    by (auto simp: announceHostname_def Let_def state_sets intro: enterRenewing_inv sendRenewal_inv)
qed

lemma minv_journal [simp]: "minv X now A V (journal ns m) = minv X now A V m"
  by (simp add: minv_def lease_timers_def acd_active_def)

lemma takeHostname_inv:
  assumes "minv {} now A V m" "clock now"
  shows "minv {} now A V (takeHostname now rnd name m)"
proof -
  have "minv {} now A V (m\<lparr>hostname := name\<rparr>)"
    using assms(1) by (simp add: minv_def core_def lease_timers_def acd_active_def)
  from announceHostname_inv [OF this assms(2)] assms(1) show ?thesis
    by (simp add: takeHostname_def split_def Let_def)
qed

section \<open>Entering BOUND\<close>

lemma Deadlines_key [simp]:
  "Deadlines (l\<lparr>LForcerenewNonce := n\<rparr>) = Deadlines l" (is ?nonce)
  "Deadlines (l\<lparr>LForcerenewReplay := r\<rparr>) = Deadlines l" (is ?replay)
proof -
  note defs = Deadlines_def rebind_interval_def renew_interval_def
  have n: "LStart (l\<lparr>LForcerenewNonce := n\<rparr>) = LStart l" "LLeaseTime (l\<lparr>LForcerenewNonce := n\<rparr>) = LLeaseTime l"
    "LT1 (l\<lparr>LForcerenewNonce := n\<rparr>) = LT1 l" "LT2 (l\<lparr>LForcerenewNonce := n\<rparr>) = LT2 l" by simp_all
  show ?nonce unfolding defs n by (rule refl)
  have r: "LStart (l\<lparr>LForcerenewReplay := r\<rparr>) = LStart l" "LLeaseTime (l\<lparr>LForcerenewReplay := r\<rparr>) = LLeaseTime l"
    "LT1 (l\<lparr>LForcerenewReplay := r\<rparr>) = LT1 l" "LT2 (l\<lparr>LForcerenewReplay := r\<rparr>) = LT2 l" by simp_all
  show ?replay unfolding defs r by (rule refl)
qed

lemma settle_form:
  assumes "settleForcerenew l0 renewal m = (l, m1)"
  shows "(\<exists>n r. l = l0\<lparr>LForcerenewNonce := n, LForcerenewReplay := r\<rparr>) \<and> (\<exists>k. m1 = m\<lparr>fr := k\<rparr>)"
proof -
  have "\<exists>n r. x = x\<lparr>LForcerenewNonce := n, LForcerenewReplay := r\<rparr>" for x :: Lease
    by (intro exI [of _ "LForcerenewNonce x"] exI [of _ "LForcerenewReplay x"]) simp
  moreover have "\<exists>n s. x\<lparr>LForcerenewReplay := r\<rparr> = x\<lparr>LForcerenewNonce := n, LForcerenewReplay := s\<rparr>" for x :: Lease and r
    by (intro exI [of _ "LForcerenewNonce x"] exI [of _ r]) simp
  moreover have "\<exists>k. m = m\<lparr>fr := k\<rparr>" by (intro exI [of _ "fr m"]) simp
  ultimately show ?thesis
    using assms unfolding settleForcerenew_def Let_def by (auto split: if_splits)
qed

lemma settle_nonce:
  assumes "settleForcerenew l0 renewal m = (l, m1)" "have_key (fr m) \<longrightarrow> length (nonce (fr m)) = 16"
    and "LForcerenewNonce l0 = [] \<or> length (LForcerenewNonce l0) = 16"
  shows "(LForcerenewNonce l = [] \<or> length (LForcerenewNonce l) = 16)
    \<and> (have_key (fr m1) \<longrightarrow> length (nonce (fr m1)) = 16)"
  using assms by (auto simp: settleForcerenew_def Let_def zero_key_def split: if_splits)

lemma expire_range:
  assumes "held_ok l" "HasExpire (Deadlines l)"
  shows "0 \<le> DExpire (Deadlines l) \<and> DExpire (Deadlines l) \<le> max_int64"
proof -
  have g: "granted_lease l" "0 \<le> LStart l" "LStart l \<le> 2 ^ 62" using assms by (auto simp: held_ok_def)
  show ?thesis
  proof (cases "0 < LLeaseTime l")
    case True
    have "LLeaseTime l < 2 ^ 62"
      using g(1) wire_duration_cases [of "LLeaseTime l"] by (auto simp: granted_lease_def)
    with finite_deadlines [OF g(1) True g(2,3)] g True show ?thesis by (simp add: Let_def)
  next
    case False
    with other_deadlines [OF g(1) _ g(2,3)] assms(2) g show ?thesis by (simp add: Let_def)
  qed
qed

lemma armDeadline_fields [simp]:
  "state (armDeadline now t ts has m) = state m" "params (armDeadline now t ts has m) = params m"
  "sub (armDeadline now t ts has m) = sub m" "lease (armDeadline now t ts has m) = lease m"
  "haveLse (armDeadline now t ts has m) = haveLse m" "haveProbe (armDeadline now t ts has m) = haveProbe m"
  "panicked (armDeadline now t ts has m) = panicked m" "fr (armDeadline now t ts has m) = fr m"
  "requestSentAt (armDeadline now t ts has m) = requestSentAt m"
  "rebootAddr (armDeadline now t ts has m) = rebootAddr m"
  "hostname (armDeadline now t ts has m) = hostname m"
  "nameOnWire (armDeadline now t ts has m) = nameOnWire m"
  "restarts (armDeadline now t ts has m) = restarts m"
  "observe told v (armDeadline now t ts has m) = observe told v m"
  by (simp_all add: armDeadline_def Let_def)

lemma armed_armDeadline [simp]:
  "observe (arm now) A (armDeadline now t ts has m) =
     (observe (arm now) A m)(t := (if has then Some (now + max 0 (Sub ts now)) else None))"
  by (auto simp: armDeadline_def Let_def max_def)

lemma bind_lease_effect:
  assumes "bind_lease now l0 renewal m = (l, m')" "held_ok l0" "clock now"
    and "have_key (fr m) \<longrightarrow> length (nonce (fr m)) = 16"
  shows "lease m' = l \<and> haveLse m' \<and> state m' = StateBound \<and> haveProbe m' = haveProbe m
    \<and> sub m' = sub m \<and> params m' = params m \<and> panicked m' = panicked m \<and> held_ok l
    \<and> requestSentAt m' = requestSentAt m \<and> (have_key (fr m') \<longrightarrow> length (nonce (fr m')) = 16)
    \<and> observe told V m' = observe told V m \<and> LAddr l = LAddr l0
    \<and> (HasExpire (Deadlines l) \<longrightarrow>
         observe (arm now) A m' TimerExpire = Some (max now (DExpire (Deadlines l))))
    \<and> (HasRebind (Deadlines l) \<longrightarrow> observe (arm now) A m' TimerRebind \<noteq> None)
    \<and> observe (arm now) A m' TimerACD = observe (arm now) A m TimerACD"
proof -
  obtain l1 m1 where st: "settleForcerenew l0 (renewal \<and> haveLse m) (cancel TimerRetransmit m) = (l1, m1)"
    by fastforce
  from settle_form [OF st] obtain n r k where
    l1: "l1 = l0\<lparr>LForcerenewNonce := n, LForcerenewReplay := r\<rparr>"
    and m1: "m1 = (cancel TimerRetransmit m)\<lparr>fr := k\<rparr>" by blast
  have nn: "(LForcerenewNonce l1 = [] \<or> length (LForcerenewNonce l1) = 16)
      \<and> (have_key (fr m1) \<longrightarrow> length (nonce (fr m1)) = 16)"
    using settle_nonce [OF st] assms(2,4) by (simp add: held_ok_def granted_lease_def)
  have l: "held_ok l1" using assms(2) nn by (simp add: held_ok_def granted_lease_def l1)
  have "now + max 0 (Sub (DExpire (Deadlines l1)) now) = max now (DExpire (Deadlines l1))"
    if "HasExpire (Deadlines l1)"
    using expire_range [OF l that] assms(3) Sub_small [of "DExpire (Deadlines l1)" now]
    by (auto simp: clock_def max_def)
  moreover have "l1 = l" using assms(1) by (simp add: bind_lease_def st Let_def)
  ultimately show ?thesis
    using assms(1) l nn unfolding bind_lease_def st
    by (auto simp: Let_def m1 l1 split: if_splits)
qed

lemma enterBound_fresh_inv:
  assumes "core V m" "\<not> haveLse m" "\<not> haveProbe m" "held_ok l0" "clock now"
    and "acd_active m \<longrightarrow> observe (arm now) A m TimerACD \<noteq> None"
  shows "minv {} now A V (enterBound_fresh now rnd l0 m)"
proof -
  obtain l m' where b: "bind_lease now l0 False m = (l, m')" by fastforce
  have nk: "have_key (fr m) \<longrightarrow> length (nonce (fr m)) = 16" using assms(1) by (simp add: core_def)
  note e = bind_lease_effect [OF b assms(4,5) nk, of V A]
  have "minv {} now A V (stamp (ActLeaseAcquired l (requestedAddr m')) m')"
    using e assms by (auto simp: minv_def core_def state_sets lease_timers_def acd_active_def)
  from announceHostname_inv [OF this assms(5)] show ?thesis by (simp add: enterBound_fresh_def b)
qed

text \<open>Starting conflict detection only replaces the sub-machine and arms its timer.\<close>

lemma startACD_effect:
  assumes "sub m = Some a"
  shows "\<exists>a' d. startACD now rnd ad m = set_timer TimerACD d (m\<lparr>sub := Some a'\<rparr>)
    \<and> phase a' \<in> {ACDProbing, ACDSettling} \<and> acdAddr a' = ad"
  using assms
  by (auto simp: startACD_def step_acd_def acdStep_def acd_start_def Let_def applyACD_def
      apply_acd_action_def)

lemma enterProbing_inv:
  assumes "core V m" "\<not> haveLse m" "held_ok l" "clock now" "PConflict (params m) = ConflictWait"
  shows "minv X now A V (enterProbing now rnd l m)"
proof -
  let ?m = "journal [JBound (NoteChecking (paddr (LAddr l)))]
    ((cancel TimerRetransmit m)\<lparr>probing := l, haveProbe := True, state := StateProbing,
       offer := None, retransmits := 0, sendFailures := 0\<rparr>)"
  from assms(1,5) obtain a where "sub ?m = Some a" by (auto simp: core_def)
  from startACD_effect [OF this] obtain a' d where
    "startACD now rnd (paddr (LAddr l)) ?m = set_timer TimerACD d (?m\<lparr>sub := Some a'\<rparr>)"
    "phase a' \<in> {ACDProbing, ACDSettling}" "acdAddr a' = paddr (LAddr l)" by blast
  with assms show ?thesis by (auto simp: enterProbing_def minv_def core_def state_sets)
qed

lemma afterAck_inv:
  assumes "core V m" "\<not> haveLse m" "\<not> haveProbe m" "held_ok l" "clock now"
  shows "minv {} now A V (afterAck now rnd l m)"
proof (cases "PConflict (params m)")
  case ConflictWait
  with assms show ?thesis by (simp add: afterAck_def enterProbing_inv)
next
  case ConflictAsync
  with assms(1) obtain a where "sub m = Some a" by (auto simp: core_def)
  from startACD_effect [OF this] obtain a' d where
    s: "startACD now rnd (paddr (LAddr l)) m = set_timer TimerACD d (m\<lparr>sub := Some a'\<rparr>)" by blast
  have "core V (m\<lparr>sub := Some a'\<rparr>)" using assms(1) ConflictAsync by (simp add: core_def)
  then show ?thesis
    using assms by (simp add: afterAck_def ConflictAsync enterBound_def s enterBound_fresh_inv)
next
  case ConflictOff
  then have "sub m = None" using assms(1) by (simp add: core_def)
  with assms ConflictOff show ?thesis
    by (simp add: afterAck_def enterBound_def enterBound_fresh_inv acd_active_def)
qed

lemma enterBound_renewal_inv:
  assumes "core V m" "haveLse m" "\<not> haveProbe m" "held_ok l0" "clock now"
    and "acd_active m \<longrightarrow> observe (arm now) A m TimerACD \<noteq> None"
  shows "minv {} now A V (enterBound now rnd l0 True m)"
proof -
  obtain l m' where b: "bind_lease now l0 True m = (l, m')" by fastforce
  have nk: "have_key (fr m) \<longrightarrow> length (nonce (fr m)) = 16" using assms(1) by (simp add: core_def)
  note e = bind_lease_effect [OF b assms(4,5) nk, of V A]
  let ?m2 = "stamp (ActLeaseRenewed l) m'"
  have m2: "minv {} now A V ?m2" "state ?m2 = StateBound" "lease ?m2 = l"
    using e assms by (auto simp: minv_def core_def state_sets lease_timers_def acd_active_def)
  have changed: "minv {} now A V (stamp (ActLeaseChanged l) n)"
    if "minv {} now A V n" "lease n = l" "state n = StateBound" for n
    using that by (auto simp: minv_def core_def state_sets lease_timers_def acd_active_def)
  let ?n = "\<lambda>ns. startACD now rnd (paddr (LAddr l)) (journal ns ?m2)"
  have moved: "minv {} now A V (?n ns) \<and> lease (?n ns) = l \<and> state (?n ns) = StateBound" for ns
  proof (cases "sub ?m2")
    case None
    with m2 show ?thesis by (simp add: startACD_def)
  next
    case (Some a)
    then have "sub (journal ns ?m2) = Some a" by simp
    from startACD_effect [OF this] obtain a' d where
      s: "?n ns = set_timer TimerACD d ((journal ns ?m2)\<lparr>sub := Some a'\<rparr>)" by blast
    show ?thesis
      using m2 Some by (auto simp: s minv_def core_def state_sets lease_timers_def acd_active_def)
  qed
  show ?thesis
    using m2 changed moved by (auto simp: enterBound_def b Let_def)
qed

end
