(* ===== verification/Proto_Safety.thy ===== *)
theory Proto_Safety
  imports Proto_Invariant
begin

text \<open>
  Every handler of \<^verbatim>\<open>Step\<close> keeps the invariant, the executions of a client with its clock,
  its timers and its caller, and what holds in every one of them.
\<close>

section \<open>Conflict detection\<close>

lemma acd_announce_cases:
  assumes "acd_announce a = (a', acts)"
  shows "acdAddr a' = acdAddr a
    \<and> (phase a' = ACDDefending \<and> acts \<in> {[AcdCancelTimer], [AcdSendAnnounce, AcdCancelTimer]}
       \<or> phase a' = phase a \<and> (\<exists>d. acts = [AcdSendAnnounce, AcdSetTimer d]))"
  using assms by (auto simp: acd_announce_def Let_def split: if_splits)

text \<open>The sub-machine is replaced by a running one and its timer armed, or by one at rest and the timer cancelled.\<close>

definition acd_moves :: "acd \<Rightarrow> acdAction list \<Rightarrow> bool" where
  "acd_moves a' acts \<longleftrightarrow>
     (phase a' \<in> {ACDProbing, ACDSettling, ACDAnnouncing}
        \<and> (\<exists>d. acts \<in> {[AcdSendProbe, AcdSetTimer d], [AcdSendAnnounce, AcdSetTimer d]})
      \<or> phase a' = ACDDefending \<and> acts \<in> {[AcdCancelTimer], [AcdSendAnnounce, AcdCancelTimer]})"

lemma core_updates [simp]:
  "core V (m\<lparr>probing := x1\<rparr>) = core V m" "core V (m\<lparr>haveProbe := x2\<rparr>) = core V m"
  "core V (m\<lparr>state := x3\<rparr>) = core V m" "core V (m\<lparr>offer := x4\<rparr>) = core V m"
  "core V (m\<lparr>retransmits := x5\<rparr>) = core V m" "core V (m\<lparr>sendFailures := x6\<rparr>) = core V m"
  "core V (m\<lparr>restarts := x7\<rparr>) = core V m" "core V (m\<lparr>rapidCounts := x8\<rparr>) = core V m"
  "core V (m\<lparr>v6OnlyCounts := x9\<rparr>) = core V m" "core V (m\<lparr>frCounts := x10\<rparr>) = core V m"
  "core V (m\<lparr>haveARPAction := x11\<rparr>) = core V m"
  by (simp_all add: core_def)

lemma core_sub: "sub m \<noteq> None \<Longrightarrow> core V (m\<lparr>sub := Some a\<rparr>) = core V m"
  by (auto simp: core_def)

lemma acd_moves_effect:
  fixes m :: Machine and now :: Instant and rnd :: rnd64
  assumes "acd_moves a' acts" "sub m \<noteq> None"
  defines "m' \<equiv> applyACD now rnd acts (m\<lparr>sub := Some a'\<rparr>)"
  shows "state m' = state m \<and> lease m' = lease m \<and> haveLse m' = haveLse m \<and> haveProbe m' = haveProbe m
    \<and> probing m' = probing m \<and> sub m' = Some a' \<and> core V m' = core V m \<and> offer m' = offer m
    \<and> rebootAddr m' = rebootAddr m \<and> (\<forall>t. t \<noteq> TimerACD \<longrightarrow> observe (arm now) A m' t = observe (arm now) A m t)
    \<and> (phase a' \<in> {ACDProbing, ACDSettling, ACDAnnouncing} \<longrightarrow> observe (arm now) A m' TimerACD \<noteq> None)"
  using assms(1) core_sub [OF assms(2)] unfolding m'_def acd_moves_def
  by (elim disjE conjE exE insertE emptyE) (simp_all add: applyACD_def apply_acd_action_def)

lemma acd_moves_inv:
  assumes "minv {TimerACD} now A V m" "acd_moves a' acts" "sub m \<noteq> None"
    and "state m = StateProbing \<longrightarrow> phase a' \<in> {ACDProbing, ACDSettling} \<and> acdAddr a' = paddr (LAddr (probing m))"
  shows "minv {} now A V (applyACD now rnd acts (m\<lparr>sub := Some a'\<rparr>))"
proof -
  have "state m \<notin> {StateProbing} \<union> held_states \<or> phase a' \<in> {ACDProbing, ACDSettling, ACDAnnouncing, ACDDefending}"
    using assms(2) by (auto simp: acd_moves_def)
  then show ?thesis
    using assms(1,4) acd_moves_effect [OF assms(2,3), where now = now and rnd = rnd and V = V and A = A]
    by (auto simp: minv_def lease_timers_def acd_active_def state_sets)
qed

lemma acdTimer_inv:
  assumes "minv {TimerACD} now A V m" "clock now"
  shows "minv {} now A V (acdTimer now rnd m)"
proof (cases "sub m")
  case None
  with assms(1) show ?thesis
    by (auto simp: acdTimer_def minv_def lease_timers_def acd_active_def)
next
  case (Some a)
  have eq: "acdTimer now rnd m = (case acd_timer rnd a of (a', acts) \<Rightarrow> applyACD now rnd acts (m\<lparr>sub := Some a'\<rparr>))"
    by (simp add: acdTimer_def Some step_acd_def acdStep_def)
  have pr: "state m = StateProbing \<Longrightarrow> phase a \<in> {ACDProbing, ACDSettling} \<and> acdAddr a = paddr (LAddr (probing m))"
    using assms(1) Some by (simp add: minv_def)
  show ?thesis
  proof (cases "phase a")
    case ACDProbing
    obtain a' acts where t: "acd_timer rnd a = (a', acts)" by fastforce
    then have "acd_moves a' acts" "phase a' \<in> {ACDProbing, ACDSettling}" "acdAddr a' = acdAddr a"
      using ACDProbing by (auto simp: acd_timer_def acd_moves_def Let_def split: if_splits)
    with assms(1) pr Some show ?thesis unfolding eq t by (simp add: acd_moves_inv)
  next
    case ACDAnnouncing
    obtain a' acts where t: "acd_timer rnd a = (a', acts)" by fastforce
    then have "acd_moves a' acts"
      using ACDAnnouncing acd_announce_cases [of a a' acts] by (auto simp: acd_timer_def acd_moves_def)
    moreover have "state m \<noteq> StateProbing" using pr ACDAnnouncing by auto
    ultimately have "minv {} now A V (applyACD now rnd acts (m\<lparr>sub := Some a'\<rparr>))"
      using assms(1) Some by (intro acd_moves_inv) simp_all
    then show ?thesis unfolding eq t by simp
  next
    case ACDSettling
    obtain a' acts where an: "acd_announce (a\<lparr>phase := ACDAnnouncing, sent := 0\<rparr>) = (a', acts)" by fastforce
    then have mv: "acd_moves a' acts" "phase a' \<in> {ACDAnnouncing, ACDDefending}"
      using acd_announce_cases [OF an] by (auto simp: acd_moves_def)
    let ?m1 = "applyACD now rnd acts (m\<lparr>sub := Some a'\<rparr>)"
    have t: "acdTimer now rnd m = acdReady now rnd ?m1"
      by (simp add: eq acd_timer_def ACDSettling an applyACD_def apply_acd_action_def)
    note e = acd_moves_effect [OF mv(1), where m = m and now = now and rnd = rnd and V = V and A = A]
    show ?thesis
    proof (cases "state m = StateProbing")
      case False
      then have "minv {} now A V ?m1" using assms(1) mv(1) Some by (intro acd_moves_inv) auto
      moreover have "\<not> haveProbe ?m1" using e False assms(1) Some by (simp add: minv_def)
      ultimately show ?thesis by (simp add: t acdReady_def)
    next
      case True
      let ?m2 = "journal [JBound (NoteFree (paddr (LAddr (probing m))))]
        (?m1\<lparr>probing := zero_lease, haveProbe := False\<rparr>)"
      have m: "core V m" "\<not> haveLse m" "haveProbe m" "held_ok (probing m)"
        using assms(1) True by (auto simp: minv_def state_sets)
      have "core V ?m2" using e m(1) Some by simp
      moreover have "acd_active ?m2 \<longrightarrow> observe (arm now) A ?m2 TimerACD \<noteq> None"
        using e Some mv(2) by (auto simp: acd_active_def)
      ultimately have "minv {} now A V (enterBound_fresh now rnd (probing m) ?m2)"
        using e m Some assms(2) by (intro enterBound_fresh_inv) auto
      then show ?thesis using e m Some by (simp add: t acdReady_def Let_def)
    qed
  next
    case ACDIdle
    with assms(1) pr Some show ?thesis
      by (auto simp: eq acd_timer_def applyACD_def apply_acd_action_def minv_def core_def lease_timers_def
          acd_active_def)
  next
    case ACDDefending
    with assms(1) pr Some show ?thesis
      by (auto simp: eq acd_timer_def applyACD_def apply_acd_action_def minv_def core_def lease_timers_def
          acd_active_def)
  qed
qed

lemma onARP_inv:
  assumes "minv {} now A V m" "clock now"
  shows "minv {} now A V (onARP now rnd pkt m)"
proof (cases "\<exists>a. sub m = Some a \<and> pkt \<noteq> None")
  case False
  with assms(1) show ?thesis by (auto simp: onARP_def split: option.splits)
next
  case True
  then obtain a where a: "sub m = Some a" "pkt \<noteq> None" by blast
  have eq: "onARP now rnd pkt m = (case acd_arp pkt a of (a', acts) \<Rightarrow> applyACD now rnd acts (m\<lparr>sub := Some a'\<rparr>))"
    using a by (cases pkt) (simp_all add: onARP_def step_acd_def acdStep_def)
  show ?thesis
  proof (cases "snd (acd_arp pkt a)")
    case Nil
    then have "acd_arp pkt a = (a, [])" by (auto simp: acd_arp_def split: if_splits option.splits)
    moreover have "m\<lparr>sub := Some a\<rparr> = m" using a(1) by simp
    ultimately show ?thesis using assms(1) by (simp add: eq applyACD_def)
  next
    case Cons
    then obtain why a' where arp: "acd_arp pkt a = (a', [AcdConflict why])"
      by (auto simp: acd_arp_def split: if_splits option.splits)
    let ?m = "journal [JBound (NoteConflict why)] (m\<lparr>sub := Some a'\<rparr>)"
    have "core V ?m" using assms(1) a(1) by (auto simp: minv_def core_def)
    from declineAndRestart_inv [OF this, of "{}" now A rnd] show ?thesis
      by (auto simp: eq arp applyACD_def apply_acd_action_def Let_def init_quiet)
  qed
qed

section \<open>Messages\<close>

lemma minv_counts [simp]:
  "minv X now A V (m\<lparr>rapidCounts := x1\<rparr>) = minv X now A V m"
  "minv X now A V (m\<lparr>v6OnlyCounts := x2\<rparr>) = minv X now A V m"
  "minv X now A V (m\<lparr>frCounts := x3\<rparr>) = minv X now A V m"
  "minv X now A V (m\<lparr>haveARPAction := x4\<rparr>) = minv X now A V m"
  "minv X now A V (m\<lparr>sendFailures := x5\<rparr>) = minv X now A V m"
  "minv X now A V (m\<lparr>retransmits := x6\<rparr>) = minv X now A V m"
  by (simp_all add: minv_def lease_timers_def acd_active_def)

lemma minv_failed [simp]: "minv X now A V (failed r ns m) = minv X now A V m"
  by (simp add: minv_def lease_timers_def acd_active_def)

lemma minv_notes [simp]: "minv X now A V (journal_notes ns m) = minv X now A V m"
  by (simp add: journal_notes_def)

lemma minv_weaken: "minv {} now A V m \<Longrightarrow> minv X now A V m"
  by (auto simp: minv_def lease_timers_def)

lemma refuseRapid_inv [simp]: "minv X now A V (refuseRapid st why m) = minv X now A V m"
  by (simp add: refuseRapid_def)

lemma refuseForcerenew_inv [simp]: "minv X now A V (refuseForcerenew why m) = minv X now A V m"
  by (simp add: refuseForcerenew_def)

lemma v6OnlyValue_inv [simp]: "minv X now A V (snd (v6OnlyValue msg m)) = minv X now A V m"
  by (simp add: v6OnlyValue_def split: option.split sum.split)

lemma v6OnlyValue_fields [simp]:
  "state (snd (v6OnlyValue msg m)) = state m" "requestSentAt (snd (v6OnlyValue msg m)) = requestSentAt m"
  "offer (snd (v6OnlyValue msg m)) = offer m" "params (snd (v6OnlyValue msg m)) = params m"
  by (simp_all add: v6OnlyValue_def split: option.split sum.split)

text \<open>\<open>noteV6OnlyKept\<close> is a journal line and a counter at most.\<close>

lemma noteV6OnlyKept_cases:
  "noteV6OnlyKept msg st m = m \<or> noteV6OnlyKept msg st m = snd (v6OnlyValue msg m)
   \<or> (\<exists>c. noteV6OnlyKept msg st m = journal [JExt (NoteV6OnlyKept st)] ((snd (v6OnlyValue msg m))\<lparr>v6OnlyCounts := c\<rparr>))"
  unfolding noteV6OnlyKept_def by (cases msg; cases "v6OnlyValue msg m") (auto split: option.splits)

lemma noteV6OnlyKept_inv [simp]: "minv X now A V (noteV6OnlyKept msg st m) = minv X now A V m"
  using noteV6OnlyKept_cases [of msg st m] by auto

lemma noteV6OnlyKept_fields [simp]:
  "state (noteV6OnlyKept msg st m) = state m" "requestSentAt (noteV6OnlyKept msg st m) = requestSentAt m"
  using noteV6OnlyKept_cases [of msg st m] by auto

lemma waitForIPv6_inv: "core V m \<Longrightarrow> \<not> haveLse m \<Longrightarrow> minv X now A V (waitForIPv6 st s m)"
  unfolding waitForIPv6_def Let_def
  by (intro init_quiet toInitIdle_inv) simp_all

lemma minv_core: "minv X now A V m \<Longrightarrow> core V m"
  unfolding minv_def by (elim conjE)

lemma minv_lease: "minv X now A V m \<Longrightarrow> haveLse m \<longleftrightarrow> state m \<in> held_states"
  unfolding minv_def by (elim conjE)

lemma minv_probe: "minv X now A V m \<Longrightarrow> haveProbe m \<longleftrightarrow> state m = StateProbing"
  unfolding minv_def by (elim conjE)

lemma minv_timers: "minv X now A V m \<Longrightarrow> haveLse m \<Longrightarrow> lease_timers X now (observe (arm now) A m) m"
  unfolding minv_def by (elim conjE) (erule mp)

lemma core_held: "core V m \<Longrightarrow> haveLse m \<Longrightarrow> held_ok (lease m)"
  unfolding core_def by (elim conjE) (erule mp)

lemma ack_held_ok: "core V m \<Longrightarrow> leaseFromAck msg (requestSentAt m) = Some (l, ns) \<Longrightarrow> held_ok l"
  using leaseFromAck_granted [of msg "requestSentAt m" l ns] leaseFromAck_start [of msg "requestSentAt m" l ns]
  by (simp add: core_def held_ok_def)

text \<open>A state of the acquisition: no lease, nothing probed.\<close>

definition acquiring :: "Machine \<Rightarrow> bool" where
  "acquiring m \<longleftrightarrow> state m \<in> {StateInit, StateSelecting, StateRequesting, StateRebooting, StateStopped}"

lemma acquiring_facts:
  assumes "minv X now A V m" "acquiring m"
  shows "core V m" "\<not> haveLse m" "\<not> haveProbe m"
  using minv_core [OF assms(1)] minv_lease [OF assms(1)] minv_probe [OF assms(1)] assms(2)
  by (auto simp: acquiring_def held_states_def)

lemma afterAck_step:
  assumes "minv X now A V m" "acquiring m" "clock now" "leaseFromAck msg (requestSentAt m) = Some (l, ns)"
  shows "minv {} now A V (afterAck now rnd l (journal_notes ks m))"
proof -
  note m = acquiring_facts [OF assms(1,2)]
  show ?thesis
    using afterAck_inv [of V "journal_notes ks m" l now A rnd] m ack_held_ok [OF m(1) assms(4)] assms(3)
    by simp
qed

lemma takeRapidAck_inv:
  assumes "minv {} now A V m" "state m = StateSelecting" "clock now"
  shows "minv {} now A V (takeRapidAck now rnd msg m)"
proof -
  have taken: "minv {} now A V (afterAck now rnd l (noteV6OnlyKept (Some msg) StateSelecting
      (journal_notes ns (journal ks (m\<lparr>rapidCounts := c\<rparr>)))))"
    if l: "leaseFromAck msg (requestSentAt m) = Some (l, ns)" for l ns ks c
  proof -
    let ?m = "noteV6OnlyKept (Some msg) StateSelecting (journal_notes ns (journal ks (m\<lparr>rapidCounts := c\<rparr>)))"
    have m: "minv {} now A V ?m" "acquiring ?m" "requestSentAt ?m = requestSentAt m"
      using assms by (simp_all add: acquiring_def)
    have "minv {} now A V (afterAck now rnd l (journal_notes [] ?m))"
      by (rule afterAck_step [OF m(1,2) assms(3), of msg l ns]) (simp add: l)
    then show ?thesis by (simp add: journal_notes_def)
  qed
  show ?thesis
    unfolding takeRapidAck_def Let_def
    using assms(1) by (auto split: sum.split option.split intro: taken)
qed

lemma nak_restart_inv:
  assumes "minv X now A V m" "acquiring m" "clock now"
  shows "minv Y now A V (nak_restart now rnd msg m)"
  using acquiring_facts [OF assms(1,2)] assms(3) unfolding nak_restart_def
  by (intro restartPaced_inv) simp_all

lemma selecting_message_inv:
  assumes "minv {} now A V m" "state m = StateSelecting" "clock now"
  shows "minv {} now A V (selecting_message now rnd msg m)"
proof -
  obtain v m1 where v: "v6OnlyValue (Some msg) m = (v, m1)" by fastforce
  have m1: "minv {} now A V m1" "acquiring m1"
    using v6OnlyValue_inv [of "{}" now A V "Some msg" m] v6OnlyValue_fields(1) [of "Some msg" m] assms(1,2) v
    by (simp_all add: acquiring_def)
  note f = acquiring_facts [OF m1]
  have "minv {} now A V (sendRequest now rnd (m1\<lparr>offer := Some msg, retransmits := 0\<rparr>))" if "Is4 (YIAddr msg)"
    using that f assms(3) by (intro sendRequest_inv [where x = msg]) simp_all
  with m1 f v assms show ?thesis
    by (auto simp: selecting_message_def Let_def waitForIPv6_inv takeRapidAck_inv split: option.split)
qed

lemma refusesRapid_inv [simp]:
  "minv X now A V (snd (refusesRapidInRequesting msg m)) = minv X now A V m"
  "state (snd (refusesRapidInRequesting msg m)) = state m"
  "requestSentAt (snd (refusesRapidInRequesting msg m)) = requestSentAt m"
  by (simp_all add: refusesRapidInRequesting_def refuseRapid_def Let_def split: option.split)

lemma requesting_message_inv:
  assumes "minv {} now A V m" "state m = StateRequesting" "clock now"
  shows "minv {} now A V (requesting_message now rnd msg m)"
proof -
  obtain b m1 where b: "refusesRapidInRequesting msg m = (b, m1)" by fastforce
  have m1: "minv {} now A V m1" "state m1 = StateRequesting"
    using refusesRapid_inv [where msg = msg and m = m] assms(1,2) b by auto
  let ?m1 = "journal [JExt NoteAckWithoutNonce]
    (m1\<lparr>frCounts := (frCounts m1)\<lparr>AckRefused := AckRefused (frCounts m1) + 1\<rparr>\<rparr>)"
  have "minv {} now A V ?m1" "acquiring ?m1" using m1 by (simp_all add: acquiring_def)
  from acquiring_facts [OF this] have "minv {} now A V (restartPaced now r w ?m1)" for r w
    using assms(3) by (intro restartPaced_inv)
  moreover have "minv {} now A V (afterAck now rnd l (journal_notes ns (noteV6OnlyKept (Some msg) StateRequesting m1)))"
    if "leaseFromAck msg (requestSentAt m1) = Some (l, ns)" for l ns
    using m1 assms(3) that by (intro afterAck_step) (simp_all add: acquiring_def)
  moreover have "minv {} now A V (nak_restart now rnd msg m)"
    using assms by (intro nak_restart_inv) (simp_all add: acquiring_def)
  ultimately show ?thesis
    using m1 assms b by (auto simp: requesting_message_def Let_def split: option.split bool.split)
qed

lemma rebooting_message_inv:
  assumes "minv {} now A V m" "state m = StateRebooting" "clock now"
  shows "minv {} now A V (rebooting_message now rnd msg m)"
proof -
  obtain v m1 where v: "v6OnlyValue (Some msg) m = (v, m1)" by fastforce
  have m1: "minv {} now A V m1" "acquiring m1"
    using v6OnlyValue_inv [of "{}" now A V "Some msg" m] v6OnlyValue_fields(1) [of "Some msg" m] assms(1,2) v
    by (simp_all add: acquiring_def)
  note f = acquiring_facts [OF m1]
  have "minv {} now A V (nak_restart now rnd msg m)"
    using assms by (intro nak_restart_inv) (simp_all add: acquiring_def)
  with m1 f v assms show ?thesis
    by (auto simp: rebooting_message_def Let_def waitForIPv6_inv intro: afterAck_step split: option.split)
qed

text \<open>A machine with a lease.\<close>

lemma held_facts:
  assumes "minv X now A V m" "state m \<in> held_states"
  shows "core V m" "haveLse m" "\<not> haveProbe m" "held_ok (lease m)"
    "lease_timers X now (observe (arm now) A m) m"
proof -
  show "core V m" "haveLse m" using assms minv_core minv_lease by blast+
  then show "held_ok (lease m)" "lease_timers X now (observe (arm now) A m) m"
    using assms(1) core_held minv_timers by blast+
  show "\<not> haveProbe m" using minv_probe [OF assms(1)] assms(2) by (auto simp: held_states_def)
qed

lemma lost_inv:
  assumes "minv X now A V m" "state m \<in> held_states" "clock now"
  shows "minv Y now A V (restartPaced now rnd w (dropLease r m))"
    "minv Y now A V (beginAcquisition now rnd w (dropLease r m))"
    "minv Y now A V (toInitIdle (dropLease r m))"
    "minv Y now A V (restartPaced now rnd w (failed r' ns (dropLease r m)))"
  using held_facts [OF assms(1,2)] assms(3)
  by (simp_all add: restartPaced_inv beginAcquisition_inv toInitIdle_inv)

lemma renewal_message_inv:
  assumes "minv {} now A V m" "state m \<in> {StateRenewing, StateRebinding}" "clock now"
  shows "minv {} now A V (renewal_message now rnd msg m)"
proof -
  let ?m1 = "noteV6OnlyKept (Some msg) (state m) m"
  have h: "state ?m1 \<in> held_states" "minv {} now A V ?m1" using assms by (auto simp: state_sets)
  note f = held_facts [OF h(2,1)]
  have "minv {} now A V (enterBound now rnd l True (journal_notes ns ?m1))"
    if "leaseFromAck msg (requestSentAt ?m1) = Some (l, ns)" for l ns
    using f ack_held_ok [OF f(1) that] assms(3)
    by (intro enterBound_renewal_inv) (auto simp: lease_timers_def acd_active_def)
  moreover have "state m \<in> held_states" using assms(2) by (auto simp: state_sets)
  ultimately show ?thesis
    using assms by (auto simp: renewal_message_def Let_def lost_inv(4) split: option.split)
qed

text \<open>The destination check reads the address of a held lease, so its \<^verbatim>\<open>As4\<close> does not panic.\<close>

lemma destination_pure:
  assumes "granted_lease (lease m)"
  shows "snd (forcerenewDestinationIsUnicast dst m) = m"
proof -
  from assms obtain w where "paddr (LAddr (lease m)) = Addr4 w" "0 \<le> pbits (LAddr (lease m))"
    using Is4E by (auto simp: granted_lease_def)
  then show ?thesis
    by (simp add: forcerenewDestinationIsUnicast_def Let_def Masked_def as4_def)
qed

lemma minv_floor [simp]: "minv X now A V (m\<lparr>fr := (fr m)\<lparr>floor := x\<rparr>\<rparr>) = minv X now A V m"
  by (simp add: minv_def core_def lease_timers_def acd_active_def)

lemma takeForcerenew_inv:
  assumes "minv {} now A V m" "clock now"
  shows "minv {} now A V (takeForcerenew now rnd msg raw dst m)"
proof (cases "state m \<in> held_states")
  case False
  with assms(1) show ?thesis by (simp add: takeForcerenew_def held_states_def)
next
  case True
  note f = held_facts [OF assms(1) True]
  then have g: "granted_lease (lease m)" by (simp add: held_ok_def)
  obtain u where u: "forcerenewDestinationIsUnicast dst m = (u, m)"
    using destination_pure [OF g, of dst] by (metis prod.collapse)
  have taken: "minv {} now A V (enterRenewing now rnd (journal ns (m\<lparr>fr := (fr m)\<lparr>floor := r\<rparr>, frCounts := c\<rparr>)))"
    if "state m = StateBound" for ns r c
  proof -
    let ?m = "journal ns (m\<lparr>fr := (fr m)\<lparr>floor := r\<rparr>, frCounts := c\<rparr>)"
    have m: "minv {} now A V ?m" "state ?m \<in> held_states" using assms(1) True by simp_all
    from held_facts [OF m] show ?thesis using that assms(2) by (intro enterRenewing_inv) simp_all
  qed
  show ?thesis
    unfolding takeForcerenew_def u Let_def
    using assms(1) by (auto split: option.split sum.split intro: taken)
qed

lemma acceptable_inv:
  "acceptable msg m = (r, m1) \<Longrightarrow> minv X now A V m1 = minv X now A V m \<and> state m1 = state m"
  by (auto simp: acceptable_def split: option.splits if_splits)

section \<open>Failures and timers\<close>

lemma minv_set_retransmit:
  "minv {} now A V m \<Longrightarrow> minv {} now A V (set_timer TimerRetransmit d m)"
  by (auto simp: minv_def lease_timers_def acd_active_def)

lemma noteActionFailed_inv:
  assumes "minv {} now A V m"
  shows "minv {} now A V (noteActionFailed now rnd aid reason m)"
proof -
  let ?m1 = "journal [JBound (NoteSendFailed aid reason (sendFailures m + 1))] (m\<lparr>sendFailures := sendFailures m + 1\<rparr>)"
  let ?m2 = "dropLease ReasonTransport (failed ReasonTransport [JBound (NoteSendBudget (sendFailures m + 1) reason)] ?m1)"
  have m1: "minv {} now A V ?m1" using assms by simp
  have m2: "core V ?m2" "\<not> haveLse ?m2" using minv_core [OF assms] by simp_all
  have "minv {} now A V ?m2" if "state ?m2 = StateInit"
  proof -
    have "\<not> haveLse m" using minv_lease [OF assms] that by (simp add: held_states_def)
    then show ?thesis using m1 by (simp add: dropLease_def)
  qed
  with toInitIdle_inv [OF m2] m1 assms show ?thesis
    by (auto simp: noteActionFailed_def Let_def intro: minv_set_retransmit)
qed

text \<open>A timer that fired and that the state does not need.\<close>

lemma spent_timer:
  assumes "minv {t} now A V m"
    and "state m \<in> exchange_states \<Longrightarrow> t \<noteq> TimerRetransmit"
    and "state m = StateProbing \<Longrightarrow> t \<noteq> TimerACD"
    and "state m \<in> held_states \<Longrightarrow> t \<noteq> TimerACD \<and> t \<noteq> TimerExpire"
    and "state m \<in> {StateBound, StateRenewing} \<Longrightarrow> t \<noteq> TimerRebind"
  shows "minv {} now A V m"
proof -
  have "lease_timers {} now (observe (arm now) A m) m" if "haveLse m"
    using minv_timers [OF assms(1) that] minv_lease [OF assms(1)] that assms(4,5)
    by (auto simp: lease_timers_def)
  moreover have "state m \<in> exchange_states \<Longrightarrow> observe (arm now) A m TimerRetransmit \<noteq> None"
    using assms(1,2) by (auto simp: minv_def)
  moreover have "state m = StateProbing \<Longrightarrow> observe (arm now) A m TimerACD \<noteq> None"
    using assms(1,3) by (simp add: minv_def)
  ultimately show ?thesis using assms(1) by (simp add: minv_def)
qed

section \<open>Steps\<close>

definition fired :: "Event \<Rightarrow> TimerID set" where
  "fired ev = (case ev of EvTimerFired t \<Rightarrow> {t} | _ \<Rightarrow> {})"

lemma fired_simps [simp]: "fired (EvTimerFired t) = {t}" "(\<And>t. ev \<noteq> EvTimerFired t) \<Longrightarrow> fired ev = {}"
  by (auto simp: fired_def split: Event.split)

lemma ignored_inv [simp]: "minv X now A V (ignored ev st m) = minv X now A V m"
  by (simp add: ignored_def)

lemma stepStopped_inv:
  assumes "minv (fired ev) now A V m" "state m = StateStopped" "clock now"
  shows "minv {} now A V (stepStopped now rnd ev m)"
proof -
  have f: "core V m" "\<not> haveLse m" "\<not> haveProbe m"
    using acquiring_facts [OF assms(1)] assms(2) by (simp_all add: acquiring_def)
  have m: "minv {} now A V m"
    using assms(1,2) by (cases ev) (auto intro: spent_timer simp: state_sets)
  then show ?thesis
    using f assms(3) by (cases ev) (simp_all add: stepStopped_def beginAcquisition_inv takeHostname_inv)
qed

lemma stepInit_inv:
  assumes "minv (fired ev) now A V m" "state m = StateInit" "clock now"
  shows "minv {} now A V (stepInit now rnd ev m)"
proof -
  have f: "core V m" "\<not> haveLse m" "\<not> haveProbe m"
    using acquiring_facts [OF assms(1)] assms(2) by (simp_all add: acquiring_def)
  have m: "minv {} now A V m"
    using assms(1,2) by (cases ev) (auto intro: spent_timer simp: state_sets)
  then show ?thesis
    using f assms(3)
    by (cases ev) (simp_all add: stepInit_def beginAcquisition_inv takeHostname_inv sendDiscover_inv
        noteActionFailed_inv stop_inv releaseBeforeBound_inv)
qed

lemma linkDown_inv: "core V m \<Longrightarrow> \<not> haveLse m \<Longrightarrow> minv X now A V (linkDown m)"
  by (simp add: linkDown_def toInitIdle_inv)

lemma core_begin [simp]: "core V (m\<lparr>retransmits := r\<rparr>) = core V m"
  by (simp add: core_def)

text \<open>What every exchange state does with the events that are not a message of its exchange.\<close>

lemma exchange_common:
  assumes "minv {} now A V m" "acquiring m" "clock now"
  shows "minv {} now A V (stop m)" "minv {} now A V (releaseBeforeBound m)" "minv {} now A V (linkDown m)"
    "minv {} now A V (noteActionFailed now rnd aid why m)" "minv {} now A V (takeHostname now rnd name m)"
  using assms acquiring_facts [OF assms(1,2)]
  by (simp_all add: stop_inv releaseBeforeBound_inv linkDown_inv noteActionFailed_inv takeHostname_inv)

lemma exhausted_restart:
  assumes "minv X now A V m" "acquiring m" "clock now"
  shows "minv Y now A V (beginAcquisition now rnd w (failed r ns m))"
  using acquiring_facts [OF assms(1,2)] assms(3) by (simp add: beginAcquisition_inv)

lemma stepSelecting_inv:
  assumes "minv (fired ev) now A V m" "state m = StateSelecting" "clock now"
  shows "minv {} now A V (stepSelecting now rnd ev m)"
proof (cases "\<exists>t. ev = EvTimerFired t")
  case True
  then obtain t where ev: "ev = EvTimerFired t" by blast
  have a: "acquiring m" using assms(2) by (simp add: acquiring_def)
  note f = acquiring_facts [OF assms(1) a]
  have "minv {} now A V m" if "t \<noteq> TimerRetransmit"
    using assms(1,2) that by (auto simp: ev state_sets intro: spent_timer)
  moreover have "minv {} now A V (sendDiscover now rnd (m\<lparr>retransmits := retransmits m + 1\<rparr>))"
    using f assms(3) by (intro sendDiscover_inv) simp_all
  ultimately show ?thesis
    by (simp add: ev stepSelecting_def exhausted_restart [OF assms(1) a assms(3)])
next
  case False
  then have m: "minv {} now A V m" using assms(1) by simp
  have a: "acquiring m" using assms(2) by (simp add: acquiring_def)
  show ?thesis
  proof (cases ev)
    case (EvReceived msg raw dst)
    obtain r m1 where acc: "acceptable msg m = (r, m1)" by fastforce
    from acceptable_inv [OF acc] m assms show ?thesis
      by (auto simp: EvReceived stepSelecting_def acc selecting_message_inv split: option.split)
  qed (use False m exchange_common [OF m a assms(3)] in \<open>simp_all add: stepSelecting_def\<close>)
qed

lemma stepRequesting_inv:
  assumes "minv (fired ev) now A V m" "state m = StateRequesting" "clock now"
  shows "minv {} now A V (stepRequesting now rnd ev m)"
proof (cases "\<exists>t. ev = EvTimerFired t")
  case True
  then obtain t where ev: "ev = EvTimerFired t" by blast
  have a: "acquiring m" using assms(2) by (simp add: acquiring_def)
  note f = acquiring_facts [OF assms(1) a]
  have "minv {} now A V m" if "t \<noteq> TimerRetransmit"
    using assms(1,2) that by (auto simp: ev state_sets intro: spent_timer)
  moreover obtain x where "offer m = Some x" "Is4 (YIAddr x)" using assms(1,2) by (auto simp: minv_def)
  then have "minv {} now A V (sendRequest now rnd (m\<lparr>retransmits := retransmits m + 1\<rparr>))"
    using f assms(3) by (intro sendRequest_inv [where x = x]) simp_all
  ultimately show ?thesis
    by (simp add: ev stepRequesting_def exhausted_restart [OF assms(1) a assms(3)])
next
  case False
  then have m: "minv {} now A V m" using assms(1) by simp
  have a: "acquiring m" using assms(2) by (simp add: acquiring_def)
  show ?thesis
  proof (cases ev)
    case (EvReceived msg raw dst)
    obtain r m1 where acc: "acceptable msg m = (r, m1)" by fastforce
    from acceptable_inv [OF acc] m assms show ?thesis
      by (auto simp: EvReceived stepRequesting_def acc requesting_message_inv split: option.split)
  qed (use False m exchange_common [OF m a assms(3)] in \<open>simp_all add: stepRequesting_def\<close>)
qed

lemma stepRebooting_inv:
  assumes "minv (fired ev) now A V m" "state m = StateRebooting" "clock now"
  shows "minv {} now A V (stepRebooting now rnd ev m)"
proof (cases "\<exists>t. ev = EvTimerFired t")
  case True
  then obtain t where ev: "ev = EvTimerFired t" by blast
  have a: "acquiring m" using assms(2) by (simp add: acquiring_def)
  note f = acquiring_facts [OF assms(1) a]
  have "minv {} now A V m" if "t \<noteq> TimerRetransmit"
    using assms(1,2) that by (auto simp: ev state_sets intro: spent_timer)
  moreover have "Is4 (rebootAddr m)" using assms(1,2) by (simp add: minv_def)
  then have "minv {} now A V (sendReboot now rnd (m\<lparr>retransmits := retransmits m + 1\<rparr>))"
    using f assms(3) by (intro sendReboot_inv) simp_all
  ultimately show ?thesis
    by (simp add: ev stepRebooting_def exhausted_restart [OF assms(1) a assms(3)])
next
  case False
  then have m: "minv {} now A V m" using assms(1) by simp
  have a: "acquiring m" using assms(2) by (simp add: acquiring_def)
  show ?thesis
  proof (cases ev)
    case (EvReceived msg raw dst)
    obtain r m1 where acc: "acceptable msg m = (r, m1)" by fastforce
    from acceptable_inv [OF acc] m assms show ?thesis
      by (auto simp: EvReceived stepRebooting_def acc rebooting_message_inv split: option.split)
  qed (use False m exchange_common [OF m a assms(3)] in \<open>simp_all add: stepRebooting_def\<close>)
qed

text \<open>What every state with a lease does with the events common to them.\<close>

lemma held_common:
  assumes "minv {} now A V m" "state m \<in> held_states" "clock now"
  shows "minv {} now A V (stop m)" "minv {} now A V (release rnd m)"
    "minv {} now A V (toInitIdle (dropLease ReasonLinkDown m))"
    "minv {} now A V (beginAcquisition now rnd False (dropLease ReasonAddressLost m))"
    "minv {} now A V (declineAndRestart now rnd m)" "minv {} now A V (onARP now rnd pkt m)"
    "minv {} now A V (noteActionFailed now rnd aid why m)" "minv {} now A V (takeHostname now rnd name m)"
  using assms held_facts(1) [OF assms(1,2)] lost_inv [OF assms(1,2,3)]
  by (simp_all add: stop_inv release_inv declineAndRestart_inv onARP_inv noteActionFailed_inv takeHostname_inv)

lemma stepBound_inv:
  assumes "minv (fired ev) now A V m" "state m = StateBound" "clock now"
  shows "minv {} now A V (stepBound now rnd ev m)"
proof (cases "\<exists>t. ev = EvTimerFired t")
  case True
  then obtain t where ev: "ev = EvTimerFired t" by blast
  have h: "state m \<in> held_states" using assms(2) by (simp add: held_states_def)
  have i: "minv {t} now A V m" using assms(1) ev by simp
  note f = held_facts [OF i h]
  have sp: "minv {} now A V m" if "t \<notin> {TimerExpire, TimerRebind, TimerACD}"
    by (rule spent_timer [OF i]) (use assms(2) that in \<open>auto simp: state_sets\<close>)
  have "minv {} now A V (enterRenewing now rnd m)" if "t = TimerRenew"
    using held_facts [OF sp h] that assms(2,3) by (intro enterRenewing_inv) simp_all
  moreover have "minv {} now A V (enterRebinding now rnd True m)" if "t = TimerRebind"
    using f that assms(3) by (intro enterRebinding_inv) simp_all
  moreover have "minv {} now A V (acdTimer now rnd m)" if "t = TimerACD"
    using i that assms(3) by (intro acdTimer_inv) simp_all
  ultimately show ?thesis
    using sp lost_inv(1) [OF i h assms(3)] by (simp add: ev stepBound_def)
next
  case False
  then have m: "minv {} now A V m" using assms(1) by simp
  have h: "state m \<in> held_states" using assms(2) by (simp add: held_states_def)
  from False m show ?thesis
    by (cases ev) (simp_all add: stepBound_def held_common [OF m h assms(3)])
qed

lemma stepRenewal_inv:
  assumes "minv (fired ev) now A V m" "state m \<in> {StateRenewing, StateRebinding}" "clock now"
  shows "minv {} now A V (stepRenewal now rnd ev m)"
proof (cases "\<exists>t. ev = EvTimerFired t")
  case True
  then obtain t where ev: "ev = EvTimerFired t" by blast
  have h: "state m \<in> held_states" using assms(2) by (auto simp: held_states_def)
  have i: "minv {t} now A V m" using assms(1) ev by simp
  note f = held_facts [OF i h]
  have sp: "minv {} now A V m" if "t \<notin> {TimerRetransmit, TimerExpire, TimerACD}" "t = TimerRebind \<longrightarrow> state m \<noteq> StateRenewing"
    by (rule spent_timer [OF i]) (use assms(2) that in \<open>auto simp: state_sets\<close>)
  have "minv {} now A V (sendRenewal now m)" if "t = TimerRetransmit"
    using f assms(2,3) that by (intro sendRenewal_inv) (simp_all add: lease_timers_def)
  moreover have "minv {} now A V (enterRebinding now rnd False m)" if "t = TimerRebind"
    using f that assms(3) by (intro enterRebinding_inv) simp_all
  moreover have "minv {} now A V (acdTimer now rnd m)" if "t = TimerACD"
    using i that assms(3) by (intro acdTimer_inv) simp_all
  ultimately show ?thesis
    using sp lost_inv(1) [OF i h assms(3)] by (simp add: ev stepRenewal_def)
next
  case False
  then have m: "minv {} now A V m" using assms(1) by simp
  have h: "state m \<in> held_states" using assms(2) by (auto simp: held_states_def)
  show ?thesis
  proof (cases ev)
    case (EvReceived msg raw dst)
    obtain r m1 where acc: "acceptable msg m = (r, m1)" by fastforce
    have "state m1 = state m" "minv {} now A V m1" using acceptable_inv [OF acc, of "{}" now A V] m by simp_all
    with assms(2,3) renewal_message_inv [of now A V m1] show ?thesis
      by (auto simp: EvReceived stepRenewal_def acc split: option.split)
  qed (use False m in \<open>simp_all add: stepRenewal_def held_common [OF m h assms(3)]\<close>)
qed

lemma stepProbing_inv:
  assumes "minv (fired ev) now A V m" "state m = StateProbing" "clock now"
  shows "minv {} now A V (stepProbing now rnd ev m)"
proof (cases "\<exists>t. ev = EvTimerFired t")
  case True
  then obtain t where ev: "ev = EvTimerFired t" by blast
  have i: "minv {t} now A V m" using assms(1) ev by simp
  have "minv {} now A V m" if "t \<noteq> TimerACD"
    by (rule spent_timer [OF i]) (use assms(2) that in \<open>auto simp: state_sets\<close>)
  moreover have "minv {} now A V (acdTimer now rnd m)" if "t = TimerACD"
    using i that assms(3) by (intro acdTimer_inv) simp_all
  ultimately show ?thesis by (simp add: ev stepProbing_def)
next
  case False
  then have m: "minv {} now A V m" using assms(1) by simp
  have "core V m" "\<not> haveLse m" using minv_core [OF m] minv_lease [OF m] assms(2) by (simp_all add: held_states_def)
  with False m assms(3) show ?thesis
    by (cases ev) (simp_all add: stepProbing_def stop_inv release_inv onARP_inv declineAndRestart_inv
        toInitIdle_inv noteActionFailed_inv takeHostname_inv)
qed

lemma dispatch_inv:
  assumes "minv (fired ev) now A V m" "clock now"
  shows "minv {} now A V (dispatch now rnd ev m)"
  using assms
  by (cases "state m") (simp_all add: dispatch_def stepStopped_inv stepInit_inv stepSelecting_inv
      stepRequesting_inv stepBound_inv stepRenewal_inv stepRebooting_inv stepProbing_inv)

lemma Step_inv:
  assumes "minv (fired ev) now A V (m\<lparr>out := []\<rparr>)" "clock now"
  shows "minv {} now A V (Step now rnd ev m)"
  using assms dispatch_inv [OF assms] takeForcerenew_inv [of now A V "m\<lparr>out := []\<rparr>"]
  by (cases ev) (auto simp: Step_def Let_def split: option.split)

end
