(* ===== verification/Proto_Run.thy ===== *)
theory Proto_Run
  imports Proto_Safety
begin

text \<open>
  The executions of a DHCPv4 client: the machine with its clock, the timer table the runtime
  keeps for it and the caller's view of the lease, and what holds in every one of them.
\<close>

text \<open>
  One step per event, at any later instant up to \<open>2^62\<close> ns, with any random word. The event is
  any event whatever: any message, any packet, and any timer, which may fire late, early, or
  after it was cancelled; the entry of the timer that fired is then arbitrary (\<open>A0\<close>).
\<close>

inductive reachable :: "Params \<Rightarrow> Instant \<Rightarrow> timers \<Rightarrow> caller \<Rightarrow> Machine \<Rightarrow> bool" for p where
  start: "New p = Inr m \<Longrightarrow> reachable p 0 Map.empty (Holds None) m"
| step: "reachable p now A V m \<Longrightarrow> now \<le> now' \<Longrightarrow> now' \<le> 2 ^ 62 \<Longrightarrow> (\<And>t. t \<notin> fired ev \<Longrightarrow> A0 t = A t) \<Longrightarrow>
     m' = Step now' rnd ev m \<Longrightarrow>
     reachable p now' (observe (arm now') A0 m') (observe told V m') m'"

inductive_cases reachable_cases: "reachable p now A V m"

lemma New_fields:
  assumes "New p = Inr m"
  shows "state m = StateStopped" "haveLse m = False" "haveProbe m = False" "out m = []" "panicked m = False"
    "fr m = zero_key" "requestSentAt m = 0" "params m = prepared_params p" "resume m = PResume p"
    "sub m = None \<longleftrightarrow> PConflict p = ConflictOff" "restarts m = 0"
  using assms by (auto simp: New_def bind_res_def split: sum.splits if_splits)

lemma New_inv:
  assumes "New p = Inr m"
  shows "minv {} 0 Map.empty (Holds None) m"
  using New_fields [OF assms]
  by (simp add: minv_def core_def state_sets zero_key_def observe_def prepared_params_def)

text \<open>A step looks at the table and the view left by the steps before it.\<close>

lemma minv_settled:
  assumes "minv {} now A V m" "now \<le> now'" "\<And>t. t \<notin> X \<Longrightarrow> A0 t = observe (arm now) A m t"
  shows "minv X now' A0 (observe told V m) (m\<lparr>out := []\<rparr>)"
proof -
  let ?m = "m\<lparr>out := []\<rparr>"
  have o: "observe told (observe told V m) ?m = observe told V m" "observe (arm now') A0 ?m = A0"
    by (simp_all add: observe_def)
  have "core (observe told V m) ?m" using minv_core [OF assms(1)] o(1) by (simp add: core_def)
  moreover have "lease_timers X now' A0 ?m" if "haveLse m"
    using minv_timers [OF assms(1) that] assms(2,3)
    by (fastforce simp: lease_timers_def acd_active_def)
  moreover have "A0 TimerRetransmit \<noteq> None" if "state m \<in> exchange_states" "TimerRetransmit \<notin> X"
    using assms(1,3) that by (simp add: minv_def)
  moreover have "A0 TimerACD \<noteq> None" if "state m = StateProbing" "TimerACD \<notin> X"
    using assms(1,3) that by (simp add: minv_def)
  ultimately show ?thesis
    using assms(1) by (simp add: minv_def o)
qed

lemma reachable_settled:
  assumes "reachable p now A V m"
  shows "minv {} now A V (m\<lparr>out := []\<rparr>) \<and> clock now"
  using assms
proof (induction rule: reachable.induct)
  case (start m)
  have "m\<lparr>out := []\<rparr> = m" using New_fields(4) [OF start] by simp
  with New_inv [OF start] show ?case by (simp add: clock_def)
next
  case (step now A V m now' ev A0 m' rnd)
  have c: "clock now'" using step.IH step.hyps(2,3) by (simp add: clock_def)
  have "minv (fired ev) now' A0 V (m\<lparr>out := []\<rparr>)"
    using minv_settled [of now A V "m\<lparr>out := []\<rparr>" now' "fired ev" A0] step.IH step.hyps(2,4)
    by (simp add: observe_def)
  from Step_inv [OF this c] have "minv {} now' A0 V m'" by (simp add: step.hyps(5))
  from minv_settled [OF this, of now' "{}" "observe (arm now') A0 m'"] show ?case
    using c by simp
qed

end
