(* ===== verification/Proto_Course.thy ===== *)
theory Proto_Course
  imports Proto_Run
begin

text \<open>
  What a client does with a server that answers: the exchange from \<^verbatim>\<open>New\<close> to BOUND, message by
  message.
\<close>

text \<open>A reply of this exchange from a server the policy permits, of type \<open>t\<close>.\<close>

definition answers :: "Machine \<Rightarrow> byte \<Rightarrow> message \<Rightarrow> bool" where
  "answers m t x \<longleftrightarrow> Op x = BootReply \<and> Type x = Some t \<and> XID x = xid m
     \<and> permits (PServers (params m)) (Addr4_opt (Options x) OptServerID) = None \<and> CHAddr x = PCHAddr (params m)"

lemma answers_acceptable: "answers m t x \<Longrightarrow> acceptable (Some x) m = (Some x, m)"
  by (simp add: answers_def acceptable_def chaddrMatches_def slicesEqual_def)

lemma answers_type: "answers m t x \<Longrightarrow> type_of x = t"
  by (simp add: answers_def type_of_def)

definition usable_offer :: "message \<Rightarrow> bool" where
  "usable_offer x \<longleftrightarrow> Is4 (YIAddr x) \<and> \<not> IsUnspecified (YIAddr x)
     \<and> (\<exists>sid. Addr4_opt (Options x) OptServerID = Some sid \<and> \<not> IsUnspecified sid)"

lemma base_nameOnWire:
  "sendsHostname m \<Longrightarrow> nameOnWire (snd (base now t m)) = hostname m"
  by (simp add: base_def base_options_def Let_def set_option_value_def sendsHostname_def SetType_def empty_request_def)

lemma sendRequest_effect:
  assumes "offer m = Some x" "Is4 (YIAddr x)"
  shows "state (sendRequest now rnd m) = StateRequesting \<and> xid (sendRequest now rnd m) = xid m
    \<and> offer (sendRequest now rnd m) = offer m \<and> params (sendRequest now rnd m) = params m
    \<and> requestSentAt (sendRequest now rnd m) = now \<and> haveLse (sendRequest now rnd m) = haveLse m
    \<and> sub (sendRequest now rnd m) = sub m \<and> hostname (sendRequest now rnd m) = hostname m
    \<and> (sendsHostname m \<longrightarrow> nameOnWire (sendRequest now rnd m) = hostname m)"
  using assms base_nameOnWire [of m now MsgRequest]
  by (auto simp: sendRequest_def Let_def split_def split: option.splits)

lemma offer_taken:
  assumes "state m = StateSelecting" "answers m MsgOffer x" "usable_offer x" "\<not> PIPv6OnlyPreferred (params m)"
  shows "\<exists>m1. Step now rnd (EvReceived (Some x) raw dst) m = sendRequest now rnd m1 \<and> offer m1 = Some x
    \<and> xid m1 = xid m \<and> params m1 = params m \<and> sub m1 = sub m \<and> haveLse m1 = haveLse m \<and> hostname m1 = hostname m
    \<and> out m1 = []"
proof -
  let ?m0 = "m\<lparr>out := []\<rparr>"
  have "answers ?m0 MsgOffer x" using assms(2) by (simp add: answers_def)
  note acc = answers_acceptable [OF this] answers_type [OF this]
  have "Type x \<noteq> Some MsgForceRenew" using assms(2) by (simp add: answers_def)
  moreover have "v6OnlyValue (Some x) ?m0 = (None, ?m0)" using assms(4) by (simp add: v6OnlyValue_def)
  ultimately have "Step now rnd (EvReceived (Some x) raw dst) m
      = sendRequest now rnd (?m0\<lparr>offer := Some x, retransmits := 0\<rparr>)"
    using assms(1,3) acc
    by (auto simp: Step_def Let_def dispatch_def stepSelecting_def selecting_message_def usable_offer_def)
  then show ?thesis by (intro exI [of _ "?m0\<lparr>offer := Some x, retransmits := 0\<rparr>"]) simp
qed

lemma observe_nothing [simp]: "observe mon s (m\<lparr>out := []\<rparr>) = s"
  by (simp add: observe_def)

lemma leaseFromAck_key: "leaseFromAck m sentAt = Some (l, ns) \<Longrightarrow> LForcerenewNonce l = [] \<Longrightarrow> LForcerenewReplay l = 0"
  using validForcerenewNonce_len [of m]
  by (cases "validForcerenewNonce m") (auto dest!: leaseFromAck_fields simp: ack_fields_def Let_def)

lemma settle_fresh:
  assumes "leaseFromAck y t = Some (l, ns)" "settleForcerenew l False m = (l1, m1)"
  shows "l1 = l \<and> (\<exists>k. m1 = m\<lparr>fr := k\<rparr> \<and> (have_key k \<longrightarrow> l\<lparr>LForcerenewNonce := nonce k, LForcerenewReplay := floor k\<rparr> = l))"
proof (cases "length (LForcerenewNonce l) = 16")
  case True
  with assms(2) show ?thesis by (auto simp: settleForcerenew_def Let_def)
next
  case False
  then have "LForcerenewNonce l = []" using leaseFromAck_granted [OF assms(1)] by (auto simp: granted_lease_def)
  with leaseFromAck_key [OF assms(1)] assms(2) show ?thesis
    by (auto simp: settleForcerenew_def zero_key_def)
qed

lemma bind_fresh:
  assumes "leaseFromAck y t = Some (l, ns)" "bind_lease now l False m = (l', m')"
  shows "l' = l \<and> machine_Lease m' = (l, True) \<and> state m' = StateBound
    \<and> params m' = params m \<and> hostname m' = hostname m \<and> nameOnWire m' = nameOnWire m
    \<and> observe told V m' = observe told V m"
proof -
  obtain l1 m1 where st: "settleForcerenew l False (cancel TimerRetransmit m) = (l1, m1)" by fastforce
  from settle_fresh [OF assms(1) this] obtain k where
    l1: "l1 = l" and m1: "m1 = (cancel TimerRetransmit m)\<lparr>fr := k\<rparr>"
    and k: "have_key k \<longrightarrow> l\<lparr>LForcerenewNonce := nonce k, LForcerenewReplay := floor k\<rparr> = l" by blast
  have "l' = l \<and> lease m' = l \<and> haveLse m' \<and> fr m' = k \<and> state m' = StateBound
    \<and> params m' = params m \<and> hostname m' = hostname m \<and> nameOnWire m' = nameOnWire m
    \<and> observe told V m' = observe told V m"
    using assms(2) unfolding bind_lease_def by (auto simp: st Let_def m1 l1 split: if_splits)
  with k show ?thesis by (simp add: machine_Lease_def)
qed

lemma enterBound_fresh_effect:
  fixes now rnd l m
  assumes "leaseFromAck y t = Some (l, ns)" "sendsHostname m \<longrightarrow> nameOnWire m = hostname m"
  defines "m' \<equiv> enterBound_fresh now rnd l m"
  shows "state m' = StateBound \<and> machine_Lease m' = (l, True)
    \<and> (\<exists>a. observe told V m' = told (ActLeaseAcquired l a) (observe told V m))"
proof -
  obtain l1 m1 where b: "bind_lease now l False m = (l1, m1)" by fastforce
  note f = bind_fresh [OF assms(1) b, of V]
  then have "m' = stamp (ActLeaseAcquired l (requestedAddr m1)) m1"
    using assms(2) by (auto simp: m'_def enterBound_fresh_def b announceHostname_def sendsHostname_def)
  with f show ?thesis by (auto simp: machine_Lease_def)
qed

lemma ack_taken:
  assumes "state m = StateRequesting" "answers m MsgAck y" "\<not> hasRapidOption (Some y)" "offer m = Some x"
    and "(\<exists>r. ForcerenewNonceAlgorithms (Options x) = Some (Inr r)) \<longrightarrow> validForcerenewNonce y \<noteq> None"
    and "\<not> PIPv6OnlyPreferred (params m)" "leaseFromAck y (requestSentAt m) = Some (l, ns)"
  shows "Step now rnd (EvReceived (Some y) raw dst) m = afterAck now rnd l (journal_notes ns (m\<lparr>out := []\<rparr>))"
proof -
  let ?m0 = "m\<lparr>out := []\<rparr>"
  have "answers ?m0 MsgAck y" using assms(2) by (simp add: answers_def)
  note acc = answers_acceptable [OF this] answers_type [OF this]
  have "Type y \<noteq> Some MsgForceRenew" using assms(2) by (simp add: answers_def)
  moreover have "v6OnlyValue (Some y) ?m0 = (None, ?m0)" using assms(6) by (simp add: v6OnlyValue_def)
  moreover have "\<not> refusesAckWithoutNonce y ?m0"
    using assms(4,5) by (auto simp: refusesAckWithoutNonce_def offerCarried145_def split: option.splits sum.splits)
  ultimately show ?thesis
    using assms(1,3,4,7) acc
    by (simp add: Step_def Let_def dispatch_def stepRequesting_def requesting_message_def
        refusesRapidInRequesting_def noteV6OnlyKept_def)
qed

lemma afterAck_effect:
  assumes "leaseFromAck y t = Some (l, ns)" "sendsHostname m \<longrightarrow> nameOnWire m = hostname m"
    and "sub m = None \<longleftrightarrow> PConflict (params m) = ConflictOff" "observe told V m = Holds None"
  shows "if PConflict (params m) = ConflictWait
    then state (afterAck now rnd l m) = StateProbing \<and> probing (afterAck now rnd l m) = l
      \<and> machine_ACDPhase (afterAck now rnd l m) \<in> {ACDProbing, ACDSettling}
    else state (afterAck now rnd l m) = StateBound \<and> machine_Lease (afterAck now rnd l m) = (l, True)
      \<and> observe told V (afterAck now rnd l m) = Holds (Some l)"
proof (cases "PConflict (params m)")
  case ConflictOff
  then show ?thesis
    using enterBound_fresh_effect [OF assms(1,2), of now rnd V] assms(4) by (auto simp: afterAck_def enterBound_def)
next
  case ConflictAsync
  then obtain a where "sub m = Some a" using assms(3) by auto
  from startACD_effect [OF this, of now rnd "paddr (LAddr l)"] obtain a' d where
    s: "startACD now rnd (paddr (LAddr l)) m = set_timer TimerACD d (m\<lparr>sub := Some a'\<rparr>)" by blast
  let ?m = "set_timer TimerACD d (m\<lparr>sub := Some a'\<rparr>)"
  have "sendsHostname ?m \<longrightarrow> nameOnWire ?m = hostname ?m" using assms(2) by (simp add: sendsHostname_def)
  from enterBound_fresh_effect [OF assms(1) this, of now rnd V] show ?thesis
    using ConflictAsync assms(4) by (auto simp: afterAck_def enterBound_def s)
next
  case ConflictWait
  let ?k = "journal [JBound (NoteChecking (paddr (LAddr l)))] ((cancel TimerRetransmit m)\<lparr>probing := l,
    haveProbe := True, state := StateProbing, offer := None, retransmits := 0, sendFailures := 0\<rparr>)"
  from ConflictWait obtain a where "sub ?k = Some a" using assms(3) by auto
  from startACD_effect [OF this, of now rnd "paddr (LAddr l)"] show ?thesis
    using ConflictWait by (auto simp: afterAck_def enterProbing_def machine_ACDPhase_def)
qed

text \<open>
  C6: From SELECTING, a usable DHCPOFFER and the DHCPACK that follows it, both answers to
  this exchange, complete the acquisition: the client ends in BOUND with exactly the lease of
  the DHCPACK counted from the instant its DHCPREQUEST was sent, and tells its caller so; or,
  when the address is to be checked first, in PROBING with that lease as the candidate.
\<close>

theorem exchange_completes:
  assumes "reachable p now0 A V m" "state m = StateSelecting" "\<not> PIPv6OnlyPreferred (params m)"
    and "answers m MsgOffer x" "usable_offer x"
    and m2: "m2 = Step t2 r2 (EvReceived (Some x) raw2 dst2) m"
    and "answers m2 MsgAck y" "\<not> hasRapidOption (Some y)" "leaseFromAck y t2 = Some (l, ns)"
    and "(\<exists>r. ForcerenewNonceAlgorithms (Options x) = Some (Inr r)) \<longrightarrow> validForcerenewNonce y \<noteq> None"
    and m3: "m3 = Step t3 r3 (EvReceived (Some y) raw3 dst3) m2"
  shows "if PConflict (params m) = ConflictWait
    then state m3 = StateProbing \<and> probing m3 = l \<and> machine_ACDPhase m3 \<in> {ACDProbing, ACDSettling}
    else state m3 = StateBound \<and> machine_Lease m3 = (l, True) \<and> observe told (Holds None) m3 = Holds (Some l)"
proof -
  have c: "\<not> haveLse m" "sub m = None \<longleftrightarrow> PConflict (params m) = ConflictOff"
    using reachable_settled [OF assms(1)] assms(2) minv_lease [of "{}" now0 A V "m\<lparr>out := []\<rparr>"]
      minv_core [of "{}" now0 A V "m\<lparr>out := []\<rparr>"]
    by (auto simp: held_states_def core_def)
  from offer_taken [OF assms(2,4,5,3), of t2 r2 raw2 dst2] obtain m1 where
    m1: "m2 = sendRequest t2 r2 m1" "offer m1 = Some x" "params m1 = params m" "sub m1 = sub m" "\<not> haveLse m1"
    "hostname m1 = hostname m" using c(1) m2 by auto
  have "Is4 (YIAddr x)" using assms(5) by (simp add: usable_offer_def)
  from sendRequest_effect [OF m1(2) this, of t2 r2] have e: "state m2 = StateRequesting" "offer m2 = Some x"
    "params m2 = params m" "requestSentAt m2 = t2" "\<not> haveLse m2" "sub m2 = sub m"
    "sendsHostname m2 \<longrightarrow> nameOnWire m2 = hostname m2"
    by (auto simp: m1 sendsHostname_def)
  let ?n = "journal_notes ns (m2\<lparr>out := []\<rparr>)"
  have "sendsHostname ?n \<longrightarrow> nameOnWire ?n = hostname ?n" "sub ?n = None \<longleftrightarrow> PConflict (params ?n) = ConflictOff"
    using e c(2) by (simp_all add: sendsHostname_def)
  note a = afterAck_effect [OF assms(9) this, of "Holds None" t3 r3]
  have "m3 = afterAck t3 r3 l ?n"
    unfolding m3 by (rule ack_taken [OF e(1) assms(7,8) e(2) assms(10)]) (use e assms(3,9) in simp_all)
  with a show ?thesis using e(3) by (auto split: if_splits)
qed

section \<open>A run\<close>

lemma start_selects:
  assumes "New p = Inr m" "PResume p = None" "PDesyncMin p = 0" "PDesyncMax p = 0"
  shows "state (Step now rnd EvStart m) = StateSelecting \<and> params (Step now rnd EvStart m) = prepared_params p"
proof -
  note f = New_fields [OF assms(1)]
  have "desync (prepared_params p) r = 0" for r using assms(3,4) by (simp add: desync_def prepared_params_def i64_def)
  then show ?thesis
    using f assms(2)
    by (simp add: Step_def Let_def dispatch_def stepStopped_def beginAcquisition_def takeResume_def
        sendDiscover_def split_def)
qed

definition sample_params :: Params where
  "sample_params = (DefaultParams [2, 66, 172, 17, 0, 2])
     \<lparr>PConflict := ConflictOff, PDesyncMin := 0, PDesyncMax := 0\<rparr>"

lemma sample_params_valid: "validate sample_params = Inr ()"
  by (simp add: sample_params_def validate_def DefaultParams_def valid_backoff_def DefaultBackoff_def valid_acd_def
      DefaultACDParams_def ValidateHostname_def DefaultParameterList_def DefaultRestartDelay_def)

lemma sample_selecting:
  "\<exists>m. reachable sample_params 0 (observe (arm 0) Map.empty m) (observe told (Holds None) m) m
     \<and> state m = StateSelecting \<and> params m = prepared_params sample_params"
proof -
  obtain m0 where m0: "New sample_params = Inr m0"
    using sample_params_valid by (simp add: New_def bind_res_def)
  let ?m = "Step 0 7 EvStart m0"
  have "reachable sample_params 0 (observe (arm 0) Map.empty ?m) (observe told (Holds None) ?m) ?m"
    by (rule reachable.step [OF reachable.start [OF m0]]) simp_all
  moreover have "state ?m = StateSelecting \<and> params ?m = prepared_params sample_params"
    by (rule start_selects [OF m0]) (simp_all add: sample_params_def DefaultParams_def)
  ultimately show ?thesis by blast
qed

definition sample_offer :: message where
  "sample_offer = sample_ack\<lparr>Options := (Options sample_ack)(OptMessageType \<mapsto> [MsgOffer])\<rparr>"

lemma sample_answers:
  assumes "params m = prepared_params sample_params"
  shows "answers m MsgOffer (sample_offer\<lparr>XID := xid m\<rparr>)" "usable_offer (sample_offer\<lparr>XID := xid m\<rparr>)"
    "answers m MsgAck (sample_ack\<lparr>XID := xid m\<rparr>)" "\<not> hasRapidOption (Some (sample_ack\<lparr>XID := xid m\<rparr>))"
    "ForcerenewNonceAlgorithms (Options sample_offer) = None" "\<not> PIPv6OnlyPreferred (params m)"
  using assms
  by (simp_all add: answers_def usable_offer_def sample_offer_def sample_ack_def sample_params_def Type_def
      prepared_params_def DefaultParams_def permits_def Addr4_opt_def AddrFrom4_def ube32_def hasRapidOption_def
      ForcerenewNonceAlgorithms_def)

lemma leaseFromAck_xid [simp]: "leaseFromAck (m\<lparr>XID := x\<rparr>) t = leaseFromAck m t"
proof -
  have "validForcerenewNonce (m\<lparr>XID := x\<rparr>) = validForcerenewNonce m" by (simp add: validForcerenewNonce_def)
  then have "ack_fields (m\<lparr>XID := x\<rparr>) t b s = ack_fields m t b s" for b s by (simp add: ack_fields_def)
  then show ?thesis by (simp add: leaseFromAck_def Let_def split: option.split)
qed

text \<open>The instants of the run: the DHCPREQUEST goes out after two seconds, the DHCPACK comes a second later.\<close>

lemma sample_requesting:
  "\<exists>A V m. reachable sample_params (2 * Second) A V m \<and> state m = StateRequesting
     \<and> params m = prepared_params sample_params \<and> requestSentAt m = 2 * Second
     \<and> Options (the (offer m)) = Options sample_offer \<and> offer m \<noteq> None
     \<and> (sendsHostname m \<longrightarrow> nameOnWire m = hostname m)"
proof -
  obtain m A V where m: "reachable sample_params 0 A V m" "state m = StateSelecting"
    "params m = prepared_params sample_params" using sample_selecting by blast
  let ?x = "sample_offer\<lparr>XID := xid m\<rparr>"
  let ?m = "Step (2 * Second) 7 (EvReceived (Some ?x) [] NoAddr) m"
  from offer_taken [OF m(2) sample_answers(1,2,6) [OF m(3)], of "2 * Second" 7 "[]" NoAddr] obtain m1 where
    m1: "?m = sendRequest (2 * Second) 7 m1" "offer m1 = Some ?x" "params m1 = params m" by blast
  have "Is4 (YIAddr ?x)" using sample_answers(2) [OF m(3)] by (simp add: usable_offer_def)
  note e = sendRequest_effect [OF m1(2) this, of "2 * Second" 7]
  have "reachable sample_params (2 * Second) (observe (arm (2 * Second)) A ?m) (observe told V ?m) ?m"
    by (rule reachable.step [OF m(1)]) simp_all
  with e m1 m(3) show ?thesis
    by (intro exI [of _ "observe (arm (2 * Second)) A ?m"] exI [of _ "observe told V ?m"] exI [of _ ?m])
      (auto simp: sendsHostname_def)
qed

lemma sample_bound:
  "\<exists>A V m l ns. reachable sample_params (3 * Second) A V m \<and> leaseFromAck sample_ack (2 * Second) = Some (l, ns)
     \<and> state m = StateBound \<and> machine_Lease m = (l, True)"
proof -
  obtain m A V where m: "reachable sample_params (2 * Second) A V m" "state m = StateRequesting"
    "params m = prepared_params sample_params" "requestSentAt m = 2 * Second"
    "Options (the (offer m)) = Options sample_offer" "offer m \<noteq> None"
    "sendsHostname m \<longrightarrow> nameOnWire m = hostname m" using sample_requesting by blast
  obtain l ns where l: "leaseFromAck sample_ack (2 * Second) = Some (l, ns)"
    using sample_ack_grants [of "2 * Second"] by auto
  let ?y = "sample_ack\<lparr>XID := xid m\<rparr>" and ?n = "journal_notes ns (m\<lparr>out := []\<rparr>)"
  let ?m = "Step (3 * Second) 7 (EvReceived (Some ?y) [] NoAddr) m"
  have "offer m = Some (the (offer m))" using m(6) by simp
  then have eq: "?m = afterAck (3 * Second) 7 l ?n"
    using ack_taken [OF m(2) sample_answers(3,4) [OF m(3)], of "the (offer m)"] sample_answers(5,6) [OF m(3)] m(4,5) l
    by simp
  have "minv {} (2 * Second) A V (m\<lparr>out := []\<rparr>)" using reachable_settled [OF m(1)] by simp
  then have "core V (m\<lparr>out := []\<rparr>)" "\<not> haveLse (m\<lparr>out := []\<rparr>)"
    using minv_core minv_lease [of "{}" "2 * Second" A V "m\<lparr>out := []\<rparr>"] m(2) by (auto simp: held_states_def)
  then have "sub ?n = None \<longleftrightarrow> PConflict (params ?n) = ConflictOff" "observe told V ?n = Holds None"
    by (auto simp: core_def)
  moreover have "sendsHostname ?n \<longrightarrow> nameOnWire ?n = hostname ?n" using m(7) by (simp add: sendsHostname_def)
  moreover have "PConflict (params ?n) = ConflictOff" using m(3) by (simp add: sample_params_def prepared_params_def)
  ultimately have "state ?m = StateBound" "machine_Lease ?m = (l, True)"
    unfolding eq using afterAck_effect [OF l, of ?n V "3 * Second" 7] by simp_all
  moreover have "reachable sample_params (3 * Second) (observe (arm (3 * Second)) A ?m) (observe told V ?m) ?m"
    by (rule reachable.step [OF m(1)]) simp_all
  ultimately show ?thesis using l by blast
qed

lemma exchange_completes_witness:
  "\<exists>m l ns t2 t3. leaseFromAck sample_ack t2 = Some (l, ns) \<and> state m = StateSelecting
     \<and> machine_Lease (Step t3 7 (EvReceived (Some (sample_ack\<lparr>XID := xid (Step t2 7 (EvReceived (Some (sample_offer\<lparr>XID := xid m\<rparr>)) [] NoAddr) m)\<rparr>)) [] NoAddr)
         (Step t2 7 (EvReceived (Some (sample_offer\<lparr>XID := xid m\<rparr>)) [] NoAddr) m)) = (l, True)"
proof -
  obtain m A V where m: "reachable sample_params 0 A V m" "state m = StateSelecting"
    "params m = prepared_params sample_params" using sample_selecting by blast
  obtain l ns where l: "leaseFromAck sample_ack (2 * Second) = Some (l, ns)"
    using sample_ack_grants [of "2 * Second"] by auto
  note a = sample_answers [OF m(3)]
  let ?x = "sample_offer\<lparr>XID := xid m\<rparr>"
  let ?m2 = "Step (2 * Second) 7 (EvReceived (Some ?x) [] NoAddr) m"
  from offer_taken [OF m(2) a(1,2,6), of "2 * Second" 7 "[]" NoAddr] obtain m1 where
    m1: "?m2 = sendRequest (2 * Second) 7 m1" "offer m1 = Some ?x" "params m1 = params m" by blast
  have "Is4 (YIAddr ?x)" using a(2) by (simp add: usable_offer_def)
  from sendRequest_effect [OF m1(2) this, of "2 * Second" 7] m1 m(3)
  have p2: "params ?m2 = prepared_params sample_params" by simp
  have "PConflict (params m) = ConflictOff" using m(3) by (simp add: sample_params_def prepared_params_def)
  with exchange_completes [OF m(1,2) a(6,1,2) refl sample_answers(3,4) [OF p2], of l ns _ "3 * Second" 7 "[]" NoAddr]
    a(5) l m(2) show ?thesis by fastforce
qed

end
