(* ===== verification/Proto_Properties.thy ===== *)
theory Proto_Properties
  imports Proto_Course
begin

text \<open>
  What holds in every execution of a DHCPv4 client, and what single steps do and do not do.
\<close>

section \<open>Invariants\<close>

lemma reachable_facts:
  assumes "reachable p now A V m"
  shows "core V (m\<lparr>out := []\<rparr>)" "minv {} now A V (m\<lparr>out := []\<rparr>)" "clock now"
  using reachable_settled [OF assms] minv_core by blast+



text \<open>
  C3: In every execution a lease is held exactly in BOUND, RENEWING and REBINDING and a
  candidate exactly in PROBING; the held or probed lease is a granted one, its address IPv4
  and specified and its prefix length at most 32; while a candidate is probed the conflict
  detector is probing that very address.
\<close>

theorem lease_held_iff:
  assumes "reachable p now A V m"
  shows "(haveLse m \<longleftrightarrow> state m \<in> {StateBound, StateRenewing, StateRebinding})
    \<and> (haveProbe m \<longleftrightarrow> state m = StateProbing)
    \<and> (haveLse m \<longrightarrow> granted_lease (lease m)) \<and> (haveProbe m \<longrightarrow> granted_lease (probing m))
    \<and> (haveProbe m \<longrightarrow> (\<exists>a. sub m = Some a \<and> phase a \<in> {ACDProbing, ACDSettling} \<and> acdAddr a = paddr (LAddr (probing m))))"
  using reachable_facts(1,2) [OF assms] by (simp add: minv_def core_def held_ok_def held_states_def)

lemma lease_held_iff_witness:
  "\<exists>A V m. reachable sample_params (3 * Second) A V m \<and> haveLse m \<and> granted_lease (lease m)"
proof -
  obtain A V m where "reachable sample_params (3 * Second) A V m" "state m = StateBound" using sample_bound by blast
  with lease_held_iff [OF this(1)] show ?thesis by auto
qed

text \<open>
  C2: The caller's view is the machine's: following the lease actions of every execution,
  the caller is never told of an acquisition while it has a lease nor of a renewal, change or
  loss while it has none, and what it was last told is what the machine holds.
\<close>

theorem caller_view:
  assumes "reachable p now A V m"
  shows "V = Holds (if haveLse m then Some (lease m) else None)"
  using reachable_facts(1) [OF assms] by (simp add: core_def)

lemma caller_view_witness:
  "\<exists>A m. reachable sample_params (3 * Second) A (Holds (Some (lease m))) m \<and> haveLse m"
proof -
  obtain A V m l where m: "reachable sample_params (3 * Second) A V m" "machine_Lease m = (l, True)"
    using sample_bound by blast
  then have "haveLse m" by (simp add: machine_Lease_def)
  with caller_view [OF m(1)] m(1) show ?thesis by auto
qed

section \<open>Timers\<close>

lemma sendDiscover_state [simp]: "state (sendDiscover now rnd m) = StateSelecting"
  by (simp add: sendDiscover_def Let_def split_def)

lemma sendReboot_state [simp]: "state (sendReboot now rnd m) = StateRebooting"
  by (simp add: sendReboot_def Let_def split_def)

lemma takeResume_state [simp]: "state (snd (takeResume now m)) = state m"
  by (simp add: takeResume_def Let_def split: option.split)

lemma beginAcquisition_state: "state (beginAcquisition now rnd w m) \<in> {StateInit, StateSelecting, StateRebooting}"
  by (simp add: beginAcquisition_def Let_def split_def)

lemma restartPaced_state: "state (restartPaced now rnd w m) \<in> {StateInit, StateSelecting, StateRebooting}"
  using beginAcquisition_state by (simp add: restartPaced_def Let_def)

lemma stepped:
  assumes "reachable p now A V m" "now \<le> now'" "now' \<le> 2 ^ 62"
  shows "reachable p now' (observe (arm now') A (Step now' rnd ev m)) (observe told V (Step now' rnd ev m)) (Step now' rnd ev m)"
  by (rule reachable.step [OF assms]) simp_all

text \<open>
  C1: A lease with an expiry cannot be kept past it: the expiry timer is armed for that
  instant at the latest, or is due at once when that instant has passed, and when it fires,
  in whatever state, the lease is given up and the caller told so.
\<close>

theorem lease_expires:
  assumes "reachable p now A V m" "haveLse m" "HasExpire (Deadlines (lease m))"
    and "now \<le> now'" "now' \<le> 2 ^ 62"
  shows "(\<exists>d. A TimerExpire = Some d \<and> d \<le> max now (DExpire (Deadlines (lease m))))
    \<and> \<not> haveLse (Step now' rnd (EvTimerFired TimerExpire) m)
    \<and> observe told V (Step now' rnd (EvTimerFired TimerExpire) m) = Holds None"
proof -
  have "lease_timers {} now A (m\<lparr>out := []\<rparr>)"
    using minv_timers [OF reachable_facts(2) [OF assms(1)]] assms(2) by simp
  then have "\<exists>d. A TimerExpire = Some d \<and> d \<le> max now (DExpire (Deadlines (lease m)))"
    using assms(3) by (simp add: lease_timers_def)
  moreover
  let ?m' = "Step now' rnd (EvTimerFired TimerExpire) m"
  have "state m \<in> held_states" using minv_lease [OF reachable_facts(2) [OF assms(1)]] assms(2) by simp
  then have "state ?m' \<in> {StateInit, StateSelecting, StateRebooting}"
    using restartPaced_state [of now' rnd False "dropLease ReasonExpired (m\<lparr>out := []\<rparr>)"]
    by (auto simp: Step_def Let_def dispatch_def stepBound_def stepRenewal_def held_states_def)
  moreover note r = reachable_facts(1,2) [OF stepped [OF assms(1,4,5), of rnd "EvTimerFired TimerExpire"]]
  ultimately show ?thesis
    using minv_lease [OF r(2)] r(1) by (auto simp: held_states_def core_def)
qed

lemma sample_expires:
  assumes "leaseFromAck sample_ack (2 * Second) = Some (l, ns)"
  shows "HasExpire (Deadlines l) \<and> DExpire (Deadlines l) = 62 * Second"
  using finite_deadlines [OF leaseFromAck_granted [OF assms]] sample_ack_lease_time [OF assms] leaseFromAck_start [OF assms]
  by (simp add: Let_def)

lemma machine_Lease_deadlines: "machine_Lease m = (l, True) \<Longrightarrow> Deadlines (lease m) = Deadlines l \<and> haveLse m"
  by (auto simp: machine_Lease_def split: if_splits)

lemma lease_expires_witness:
  "\<exists>A V m d. reachable sample_params (3 * Second) A V m \<and> haveLse m
     \<and> A TimerExpire = Some d \<and> d \<le> 62 * Second \<and> \<not> haveLse (Step (62 * Second) 7 (EvTimerFired TimerExpire) m)"
proof -
  obtain A V m l ns where m: "reachable sample_params (3 * Second) A V m"
    "leaseFromAck sample_ack (2 * Second) = Some (l, ns)" "machine_Lease m = (l, True)"
    using sample_bound by blast
  note d = machine_Lease_deadlines [OF m(3)] sample_expires [OF m(2)]
  then show ?thesis using lease_expires [OF m(1), of "62 * Second" 7] m(1) by auto
qed

text \<open>
  C4: No exchange is ever left waiting for ever: in SELECTING, REQUESTING, REBOOTING, RENEWING and
  REBINDING the retransmission timer is armed, in PROBING and while a held address is being probed or announced the
  conflict-detection timer is, and while T2 of a held lease is ahead the rebinding timer is.
\<close>

theorem timers_armed:
  assumes "reachable p now A V m"
  shows "(state m \<in> {StateSelecting, StateRequesting, StateRebooting, StateRenewing, StateRebinding} \<longrightarrow>
      A TimerRetransmit \<noteq> None)
    \<and> (state m = StateProbing \<or> haveLse m \<and> machine_ACDPhase m \<in> {ACDProbing, ACDSettling, ACDAnnouncing} \<longrightarrow>
      A TimerACD \<noteq> None)
    \<and> (state m \<in> {StateBound, StateRenewing} \<and> HasRebind (Deadlines (lease m)) \<longrightarrow> A TimerRebind \<noteq> None)"
proof -
  note i = reachable_facts(2) [OF assms]
  have "lease_timers {} now A (m\<lparr>out := []\<rparr>)" if "haveLse m" using minv_timers [OF i] that by simp
  moreover have "state m \<in> {StateBound, StateRenewing} \<Longrightarrow> haveLse m"
    using minv_lease [OF i] by (auto simp: held_states_def)
  ultimately show ?thesis
    using i by (auto simp: minv_def exchange_states_def lease_timers_def acd_active_def machine_ACDPhase_def
        split: option.splits)
qed

lemma timers_armed_witness:
  "(\<exists>A V m. reachable sample_params (2 * Second) A V m \<and> state m = StateRequesting \<and> A TimerRetransmit \<noteq> None)
   \<and> (\<exists>A V m. reachable sample_params (3 * Second) A V m \<and> state m = StateBound \<and> A TimerRebind \<noteq> None)"
proof
  obtain A V m where "reachable sample_params (2 * Second) A V m" "state m = StateRequesting"
    using sample_requesting by blast
  with timers_armed [OF this(1)]
  show "\<exists>A V m. reachable sample_params (2 * Second) A V m \<and> state m = StateRequesting \<and> A TimerRetransmit \<noteq> None"
    by blast
next
  obtain A V m l ns where m: "reachable sample_params (3 * Second) A V m"
    "leaseFromAck sample_ack (2 * Second) = Some (l, ns)" "state m = StateBound" "machine_Lease m = (l, True)"
    using sample_bound by blast
  have "HasRebind (Deadlines (lease m))"
    using finite_deadlines [OF leaseFromAck_granted [OF m(2)]] sample_ack_lease_time [OF m(2)]
      leaseFromAck_start [OF m(2)] machine_Lease_deadlines [OF m(4)] by (simp add: Let_def)
  with timers_armed [OF m(1)] m
  show "\<exists>A V m. reachable sample_params (3 * Second) A V m \<and> state m = StateBound \<and> A TimerRebind \<noteq> None"
    by blast
qed

section \<open>Stopping\<close>

lemma halt_ends [simp]:
  "state (halt r m) = StateStopped" "\<not> haveLse (halt r m)" "\<not> haveProbe (halt r m)"
  "observe (arm now) A (halt r m) = Map.empty" "machine_ACDPhase (halt r m) = ACDIdle"
  by (simp_all add: halt_def machine_ACDPhase_def acd_stop_def split: option.split)

text \<open>
  C13: \<^verbatim>\<open>EvStop\<close> and \<^verbatim>\<open>EvRelease\<close> end the client from every running state: it is in
  STOPPED, holds and probes nothing, has no timer armed and no conflict detection in progress.
\<close>

theorem stop_ends:
  assumes "state m \<noteq> StateStopped" "ev \<in> {EvStop, EvRelease}"
  shows "let m' = Step now rnd ev m in state m' = StateStopped \<and> \<not> haveLse m' \<and> \<not> haveProbe m'
    \<and> observe (arm now) A m' = Map.empty \<and> machine_ACDPhase m' = ACDIdle"
proof -
  have "Step now rnd EvStop m = stop (m\<lparr>out := []\<rparr>)"
    using assms(1) by (cases "state m") (simp_all add: Step_def Let_def dispatch_def stepInit_def stepSelecting_def
      stepRequesting_def stepBound_def stepRenewal_def stepRebooting_def stepProbing_def)
  moreover have "Step now rnd EvRelease m \<in> {release rnd (m\<lparr>out := []\<rparr>), releaseBeforeBound (m\<lparr>out := []\<rparr>)}"
    using assms(1) by (cases "state m") (simp_all add: Step_def Let_def dispatch_def stepInit_def stepSelecting_def
      stepRequesting_def stepBound_def stepRenewal_def stepRebooting_def stepProbing_def)
  ultimately show ?thesis
    using assms(2) by (auto simp: Let_def stop_def release_def releaseBeforeBound_def)
qed

lemma stop_ends_witness:
  "\<exists>A V m. reachable sample_params (3 * Second) A V m \<and> state m = StateBound
     \<and> observe (arm (4 * Second)) A (Step (4 * Second) 7 EvRelease m) = Map.empty"
proof -
  obtain A V m where "reachable sample_params (3 * Second) A V m" "state m = StateBound" using sample_bound by blast
  with stop_ends [of m EvRelease "4 * Second" 7 A] show ?thesis by (auto simp: Let_def)
qed

section \<open>Foreign messages\<close>



section \<open>Forcerenew\<close>

text \<open>What a DHCPFORCERENEW must be to be acted on, with its authentication option \<open>a\<close>.\<close>

definition forcerenew_valid :: "Machine \<Rightarrow> message \<Rightarrow> byte list \<Rightarrow> addr \<Rightarrow> forcerenew_auth \<Rightarrow> bool" where
  "forcerenew_valid m x raw dst a \<longleftrightarrow> state m \<in> held_states \<and> raw \<noteq> [] \<and> fst (forcerenewDestinationIsUnicast dst m)
     \<and> Unmap dst = paddr (LAddr (lease m)) \<and> CIAddr x = paddr (LAddr (lease m)) \<and> Op x = BootReply
     \<and> CHAddr x = PCHAddr (params m) \<and> have_key (fr m)
     \<and> ForcerenewAuth_opt (Options x) = Some (Inr a) \<and> AType a = ForcerenewTypeDigest
     \<and> floor (fr m) < Replay a \<and> VerifyForcerenew raw (nonce (fr m)) = Inr ()
     \<and> (state m = StateBound \<longrightarrow> Is4 (LServerID (lease m)) \<and> \<not> IsUnspecified (LServerID (lease m)))"

definition refusal :: "Machine \<Rightarrow> Machine \<Rightarrow> bool" where
  "refusal m m' \<longleftrightarrow> (\<exists>why. m' = refuseForcerenew why m)"

lemma refusal_refuse [simp]: "refusal m (refuseForcerenew why m)"
  by (auto simp: refusal_def)

lemma takeForcerenew_valid:
  assumes "forcerenew_valid m x raw dst a" "snd (forcerenewDestinationIsUnicast dst m) = m"
  shows "\<exists>n c. takeForcerenew now rnd x raw dst m =
    (let m1 = journal [JExt n] (m\<lparr>fr := (fr m)\<lparr>floor := Replay a\<rparr>, frCounts := c\<rparr>)
     in if state m = StateBound then enterRenewing now rnd m1 else m1)"
proof -
  have u: "forcerenewDestinationIsUnicast dst m = (True, m)"
    using assms by (simp add: prod_eq_iff forcerenew_valid_def)
  have fresh: "\<not> Replay a \<le> floor (fr m)" using assms(1) by (simp add: forcerenew_valid_def not_le)
  show ?thesis
  proof (cases "state m = StateBound")
    case True
    then show ?thesis
      using assms(1)
      by (intro exI [of _ NoteForcerenewRenewing] exI [of _ "(frCounts m)\<lparr>Renewed := Renewed (frCounts m) + 1\<rparr>"])
        (simp add: takeForcerenew_def u forcerenew_valid_def chaddrMatches_def Let_def fresh)
  next
    case False
    then show ?thesis
      using assms(1)
      by (intro exI [of _ "NoteForcerenewAlready (state m)"]
          exI [of _ "(frCounts m)\<lparr>AlreadyRenewing := AlreadyRenewing (frCounts m) + 1\<rparr>"])
        (auto simp add: takeForcerenew_def u forcerenew_valid_def held_states_def chaddrMatches_def Let_def fresh)
  qed
qed

lemma takeForcerenew_invalid:
  assumes "\<forall>a. \<not> forcerenew_valid m x raw dst a" "snd (forcerenewDestinationIsUnicast dst m) = m"
  shows "refusal m (takeForcerenew now rnd x raw dst m)"
proof -
  obtain u where u: "forcerenewDestinationIsUnicast dst m = (u, m)" using assms(2) by (metis prod.collapse)
  show ?thesis
    using assms(1) unfolding takeForcerenew_def u forcerenew_valid_def held_states_def
    by (auto simp: chaddrMatches_def Let_def not_le split: option.split sum.split)
qed

lemma Step_forcerenew:
  assumes "Type x = Some MsgForceRenew"
  shows "Step now rnd (EvReceived (Some x) raw dst) m = takeForcerenew now rnd x raw dst (m\<lparr>out := []\<rparr>)"
  using assms by (simp add: Step_def)

lemma sendRenewal_fields [simp]:
  "state (sendRenewal now m) = state m" "fr (sendRenewal now m) = fr m" "lease (sendRenewal now m) = lease m"
  "haveLse (sendRenewal now m) = haveLse m" "params (sendRenewal now m) = params m"
  by (simp_all add: sendRenewal_def Let_def split_def)

lemma valid_update [simp]:
  "forcerenew_valid (m\<lparr>out := q\<rparr>) x raw dst a = forcerenew_valid m x raw dst a"
  by (simp add: forcerenew_valid_def forcerenewDestinationIsUnicast_def as4_def Let_def split: option.split)

lemma takeForcerenew_effect:
  assumes "forcerenew_valid m x raw dst a" "granted_lease (lease m)"
  shows "fr (takeForcerenew now rnd x raw dst m) = (fr m)\<lparr>floor := Replay a\<rparr>
    \<and> lease (takeForcerenew now rnd x raw dst m) = lease m \<and> haveLse (takeForcerenew now rnd x raw dst m) = haveLse m
    \<and> params (takeForcerenew now rnd x raw dst m) = params m
    \<and> state (takeForcerenew now rnd x raw dst m) = (if state m = StateBound then StateRenewing else state m)"
proof -
  from takeForcerenew_valid [OF assms(1) destination_pure [OF assms(2)]] obtain n c where
    t: "takeForcerenew now rnd x raw dst m =
    (let m1 = journal [JExt n] (m\<lparr>fr := (fr m)\<lparr>floor := Replay a\<rparr>, frCounts := c\<rparr>)
     in if state m = StateBound then enterRenewing now rnd m1 else m1)" by blast
  have "state m = StateBound \<Longrightarrow> Is4 (LServerID (lease m)) \<and> \<not> IsUnspecified (LServerID (lease m))"
    using assms(1) by (simp add: forcerenew_valid_def)
  then show ?thesis unfolding t by (simp add: Let_def enterRenewing_def beginRenewalTransaction_def)
qed

lemma reachable_granted: "reachable p now A V m \<Longrightarrow> haveLse m \<Longrightarrow> granted_lease (lease m)"
  using reachable_facts(1) by (fastforce simp: core_def held_ok_def)

lemma reachable_held: "reachable p now A V m \<Longrightarrow> haveLse m \<longleftrightarrow> state m \<in> held_states"
  using minv_lease [OF reachable_facts(2)] by simp

text \<open>
  C7: A DHCPFORCERENEW acts only when it is authentic and fresh: it arrives with a lease
  held, unicast to the leased address, for this client, its HMAC-MD5 verifies over the
  received octets with the nonce of the lease, and its replay counter is above the floor. Then
  the floor becomes that counter and a bound client starts to renew; otherwise nothing changes but a
  refusal counter and the journal. Delivering an accepted message again is always refused.
\<close>

theorem forcerenew_authentic:
  assumes "reachable p now0 A V m" "Type x = Some MsgForceRenew"
    and m': "m' = Step now rnd (EvReceived (Some x) raw dst) m"
  shows "(\<forall>a. forcerenew_valid m x raw dst a \<longrightarrow> haveLse m' \<and> lease m' = lease m
      \<and> fr m' = (fr m)\<lparr>floor := Replay a\<rparr> \<and> floor (fr m) < floor (fr m')
      \<and> state m' = (if state m = StateBound then StateRenewing else state m)
      \<and> (\<exists>why. Step now2 rnd2 (EvReceived (Some x) raw2 dst2) m' = refuseForcerenew why (m'\<lparr>out := []\<rparr>)))
    \<and> ((\<forall>a. \<not> forcerenew_valid m x raw dst a) \<longrightarrow> (\<exists>why. m' = refuseForcerenew why (m\<lparr>out := []\<rparr>)))"
proof (intro conjI allI impI)
  fix a assume v: "forcerenew_valid m x raw dst a"
  then have h: "haveLse m" using reachable_held [OF assms(1)] by (simp add: forcerenew_valid_def)
  note g = reachable_granted [OF assms(1) h]
  have e: "fr m' = (fr m)\<lparr>floor := Replay a\<rparr>" "lease m' = lease m" "haveLse m'"
    "state m' = (if state m = StateBound then StateRenewing else state m)"
    using takeForcerenew_effect [of "m\<lparr>out := []\<rparr>" x raw dst a now rnd] v g h
    by (simp_all add: m' Step_forcerenew [OF assms(2)])
  show "haveLse m'" "lease m' = lease m" "fr m' = (fr m)\<lparr>floor := Replay a\<rparr>"
    "state m' = (if state m = StateBound then StateRenewing else state m)" by (fact e)+
  show "floor (fr m) < floor (fr m')" using v e(1) by (simp add: forcerenew_valid_def)
  have "\<forall>b. \<not> forcerenew_valid (m'\<lparr>out := []\<rparr>) x raw2 dst2 b"
    using v e(1) by (auto simp: forcerenew_valid_def)
  with takeForcerenew_invalid [OF this destination_pure, of now2 rnd2] g e(2)
  show "\<exists>why. Step now2 rnd2 (EvReceived (Some x) raw2 dst2) m' = refuseForcerenew why (m'\<lparr>out := []\<rparr>)"
    by (simp add: refusal_def Step_forcerenew [OF assms(2)])
next
  assume n: "\<forall>a. \<not> forcerenew_valid m x raw dst a"
  show "\<exists>why. m' = refuseForcerenew why (m\<lparr>out := []\<rparr>)"
  proof (cases "haveLse m")
    case True
    then show ?thesis
      using n takeForcerenew_invalid [of "m\<lparr>out := []\<rparr>" x raw dst now rnd] reachable_granted [OF assms(1) True]
      by (simp add: destination_pure refusal_def m' Step_forcerenew [OF assms(2)])
  next
    case False
    then have "state m \<notin> held_states" using reachable_held [OF assms(1)] by simp
    then show ?thesis by (auto simp: takeForcerenew_def held_states_def m' Step_forcerenew [OF assms(2)])
  qed
qed

lemma forcerenew_authentic_witness:
  "\<exists>A V m why. reachable sample_params (3 * Second) A V m \<and> state m = StateBound
     \<and> Step (4 * Second) 7 (EvReceived (Some (SetType MsgForceRenew sample_ack)) [] NoAddr) m = refuseForcerenew why (m\<lparr>out := []\<rparr>)"
proof -
  obtain A V m where m: "reachable sample_params (3 * Second) A V m" "state m = StateBound" using sample_bound by blast
  have "Type (SetType MsgForceRenew sample_ack) = Some MsgForceRenew" by (simp add: Type_def SetType_def)
  moreover have "\<forall>a. \<not> forcerenew_valid m (SetType MsgForceRenew sample_ack) [] NoAddr a" by (simp add: forcerenew_valid_def)
  ultimately show ?thesis using forcerenew_authentic [OF m(1)] m by blast
qed

end
