(* ===== verification/Proto_Journal.thy ===== *)
theory Proto_Journal
  imports Proto_Properties
begin

text \<open>
  The journal of \<^verbatim>\<open>src/proto/journal.go\<close>: one entry per step, the event an entry stands for, and
  the replay that runs a journal through a fresh machine and compares. An entry keeps the
  actions of its step; the source keeps their texts, so the text of an action is a parameter
  of the replay and applied where it compares. The fields of the DHCPv6 events are left out: a
  DHCPv4 machine is never given one, so the octets of a Router Advertisement are always missing.
\<close>

section \<open>Entries\<close>

record JournalEntry =
  JSeq :: "64 word"
  JNow :: Instant
  JRnd :: rnd64
  JKind :: EventKind
  JRaw :: "byte list"
  JDst :: addr
  JHostname :: gostring
  JTimer :: TimerID
  JAction :: ActionID
  JReason :: gostring
  JFrom :: State
  JTo :: State
  JActions :: "Action list"

definition NewJournalEntry ::
  "64 word \<Rightarrow> Instant \<Rightarrow> rnd64 \<Rightarrow> Event \<Rightarrow> State \<Rightarrow> State \<Rightarrow> Action list \<Rightarrow> JournalEntry" where
  "NewJournalEntry seq now rnd ev frm to acts =
     \<lparr>JSeq = seq, JNow = now, JRnd = rnd, JKind = Kind ev,
      JRaw = (case ev of EvReceived _ raw _ \<Rightarrow> raw | _ \<Rightarrow> []),
      JDst = (case ev of EvReceived _ _ dst \<Rightarrow> dst | _ \<Rightarrow> NoAddr),
      JHostname = (case ev of EvSetHostname s \<Rightarrow> s | _ \<Rightarrow> []),
      JTimer = (case ev of EvTimerFired t \<Rightarrow> t | _ \<Rightarrow> TimerRetransmit),
      JAction = (case ev of EvActionFailed aid _ \<Rightarrow> aid | _ \<Rightarrow> 0),
      JReason = (case ev of EvActionFailed _ s \<Rightarrow> s | _ \<Rightarrow> []),
      JFrom = frm, JTo = to, JActions = acts\<rparr>"

datatype divergence = DivFromState | DivToState | DivActionCount | DivAction nat

datatype journal_error = JournalDecode "64 word" codec_error | ErrJournalNoRA "64 word"
  | Divergence "64 word" divergence | JournalParams params_error

text \<open>\<^verbatim>\<open>replayEvent\<close> for the kinds that do not need a decoder of their own; \<open>None\<close> asks for one.\<close>

fun replayEvent :: "JournalEntry \<Rightarrow> EventKind \<Rightarrow> (journal_error + Event) option" where
  "replayEvent e KReceived = None"
| "replayEvent e KTimerFired = Some (Inr (EvTimerFired (JTimer e)))"
| "replayEvent e KActionFailed = Some (Inr (EvActionFailed (JAction e) (JReason e)))"
| "replayEvent e KRouterAdvert = Some (Inl (ErrJournalNoRA (JSeq e)))"
| "replayEvent e KDADResult = Some (Inr EvDADResult)"
| "replayEvent e KSetHostname = Some (Inr (EvSetHostname (JHostname e)))"
| "replayEvent e KStart = Some (Inr EvStart)"
| "replayEvent e KStop = Some (Inr EvStop)"
| "replayEvent e KLinkDown = Some (Inr EvLinkDown)"
| "replayEvent e KLinkUp = Some (Inr EvLinkUp)"
| "replayEvent e KConflictDetected = Some (Inr EvConflictDetected)"
| "replayEvent e KAddressLost = Some (Inr EvAddressLost)"
| "replayEvent e KRelease = Some (Inr EvRelease)"
| "replayEvent e KARPReceived = Some (Inr (EvARPReceived None))"

definition entry_Event :: "JournalEntry \<Rightarrow> journal_error + Event" where
  "entry_Event e =
     (case replayEvent e (JKind e) of
        Some r \<Rightarrow> r
      | None \<Rightarrow> (case Decode (JRaw e) of
          Inl err \<Rightarrow> Inl (JournalDecode (JSeq e) err)
        | Inr msg \<Rightarrow> Inr (EvReceived (Some msg) (JRaw e) (JDst e))))"

section \<open>Replay\<close>

fun first_difference :: "nat \<Rightarrow> gostring list \<Rightarrow> gostring list \<Rightarrow> nat option" where
  "first_difference i (x # xs) (y # ys) = (if x \<noteq> y then Some i else first_difference (i + 1) xs ys)"
| "first_difference i _ _ = None"

definition replay_entry :: "(Action \<Rightarrow> gostring) \<Rightarrow> JournalEntry \<Rightarrow> Machine \<Rightarrow> journal_error + Machine" where
  "replay_entry render e m =
     (if state m \<noteq> JFrom e then Inl (Divergence (JSeq e) DivFromState)
      else case entry_Event e of
        Inl err \<Rightarrow> Inl err
      | Inr ev \<Rightarrow>
          let m' = Step (JNow e) (JRnd e) ev m;
              got = map render (out m');
              recorded = map render (JActions e)
          in if state m' \<noteq> JTo e then Inl (Divergence (JSeq e) DivToState)
             else if length got \<noteq> length recorded then Inl (Divergence (JSeq e) DivActionCount)
             else case first_difference 0 got recorded of
               Some i \<Rightarrow> Inl (Divergence (JSeq e) (DivAction i))
             | None \<Rightarrow> Inr m')"

fun replay_entries :: "(Action \<Rightarrow> gostring) \<Rightarrow> JournalEntry list \<Rightarrow> Machine \<Rightarrow> journal_error + Machine" where
  "replay_entries render [] m = Inr m"
| "replay_entries render (e # es) m =
     (case replay_entry render e m of Inl err \<Rightarrow> Inl err | Inr m' \<Rightarrow> replay_entries render es m')"

record ReplayResult =
  RState :: State
  RLease :: Lease
  RHeld :: bool
  RSteps :: nat

definition Replay :: "(Action \<Rightarrow> gostring) \<Rightarrow> Params \<Rightarrow> JournalEntry list \<Rightarrow> journal_error + ReplayResult" where
  "Replay render p es =
     (case New p of
        Inl err \<Rightarrow> Inl (JournalParams err)
      | Inr m0 \<Rightarrow> (case replay_entries render es m0 of
          Inl err \<Rightarrow> Inl err
        | Inr m \<Rightarrow> Inr \<lparr>RState = state m, RLease = fst (machine_Lease m), RHeld = snd (machine_Lease m),
            RSteps = length es\<rparr>))"

section \<open>Recorded runs\<close>

text \<open>A recorded step, and a run of them: what is stepped is what is written.\<close>

definition recorded_step :: "64 word \<Rightarrow> Instant \<Rightarrow> rnd64 \<Rightarrow> Event \<Rightarrow> Machine \<Rightarrow> Machine \<times> JournalEntry" where
  "recorded_step seq now rnd ev m =
     (let m' = Step now rnd ev m in (m', NewJournalEntry seq now rnd ev (state m) (state m') (out m')))"

fun recorded_run :: "64 word \<Rightarrow> (Instant \<times> rnd64 \<times> Event) list \<Rightarrow> Machine \<Rightarrow> Machine \<times> JournalEntry list" where
  "recorded_run seq [] m = (m, [])"
| "recorded_run seq ((now, rnd, ev) # ins) m =
     (let (m1, e) = recorded_step seq now rnd ev m; (m2, es) = recorded_run (seq + 1) ins m1 in (m2, e # es))"

text \<open>The events whose entry says everything: a message with the octets it was decoded from, and no ARP frame.\<close>

fun replayable :: "Event \<Rightarrow> bool" where
  "replayable (EvReceived (Some msg) raw dst) \<longleftrightarrow> Decode raw = Inr msg"
| "replayable (EvReceived None raw dst) \<longleftrightarrow> False"
| "replayable (EvARPReceived pkt) \<longleftrightarrow> pkt = None"
| "replayable EvRouterAdvert \<longleftrightarrow> False"
| "replayable _ \<longleftrightarrow> True"

lemma entry_Event_replayable:
  "replayable ev \<Longrightarrow> entry_Event (NewJournalEntry seq now rnd ev frm to acts) = Inr ev"
  by (cases ev rule: replayable.cases) (simp_all add: entry_Event_def NewJournalEntry_def)

lemma NewJournalEntry_fields [simp]:
  "JSeq (NewJournalEntry seq now rnd ev frm to acts) = seq" "JNow (NewJournalEntry seq now rnd ev frm to acts) = now"
  "JRnd (NewJournalEntry seq now rnd ev frm to acts) = rnd" "JFrom (NewJournalEntry seq now rnd ev frm to acts) = frm"
  "JTo (NewJournalEntry seq now rnd ev frm to acts) = to" "JActions (NewJournalEntry seq now rnd ev frm to acts) = acts"
  "JKind (NewJournalEntry seq now rnd ev frm to acts) = Kind ev"
  by (simp_all add: NewJournalEntry_def)

lemma first_difference_same [simp]: "first_difference i xs xs = None"
  by (induction xs arbitrary: i) simp_all

lemma replay_recorded_step:
  "replayable ev \<Longrightarrow> recorded_step seq now rnd ev m = (m', e) \<Longrightarrow> replay_entry render e m = Inr m'"
  by (auto simp: recorded_step_def replay_entry_def entry_Event_replayable Let_def)

lemma replay_recorded_run:
  assumes "recorded_run seq ins m = (m', es)" "list_all (\<lambda>(_, _, ev). replayable ev) ins"
  shows "replay_entries render es m = Inr m' \<and> length es = length ins"
  using assms
proof (induction seq ins m arbitrary: m' es rule: recorded_run.induct)
  case (2 seq now rnd ev ins m)
  obtain m1 e where s: "recorded_step seq now rnd ev m = (m1, e)" by fastforce
  obtain m2 es2 where r: "recorded_run (seq + 1) ins m1 = (m2, es2)" by fastforce
  have "replay_entries render es2 m1 = Inr m2 \<and> length es2 = length ins"
    using 2(1) [OF s [symmetric] refl r] 2(3) by simp
  then show ?case using 2(2,3) s r replay_recorded_step [OF _ s, of render] by auto
qed auto

text \<open>
  C20: Replay is exact: a journal of any run in which every message came with the octets it was
  decoded from, and no ARP frame was delivered, replays without a divergence to the state and
  the lease the run ended in, however actions are rendered.
\<close>

theorem replay_reproduces:
  assumes "New p = Inr m0" "recorded_run 0 ins m0 = (m, es)" "list_all (\<lambda>(_, _, ev). replayable ev) ins"
  shows "Replay render p es = Inr \<lparr>RState = state m, RLease = fst (machine_Lease m), RHeld = snd (machine_Lease m),
    RSteps = length ins\<rparr>"
  using replay_recorded_run [OF assms(2,3), of render] assms(1) by (simp add: Replay_def)

theorem replay_reproduces_witness:
  "\<exists>raw msg m0 m es. Decode raw = Inr msg \<and> New sample_params = Inr m0 \<and>
     recorded_run 0 [(0, 1, EvStart), (1, 2, EvReceived (Some msg) raw NoAddr), (2, 3, EvRelease)] m0 = (m, es) \<and>
     Replay (\<lambda>_. []) sample_params es = Inr \<lparr>RState = state m, RLease = fst (machine_Lease m),
       RHeld = snd (machine_Lease m), RSteps = 3\<rparr>"
proof -
  from sample_encodable obtain raw where raw: "Encode sample_message = Inr raw" using Encode_ok_iff by blast
  have d: "Decode raw = Inr (wire_form sample_message)"
    by (rule decode_of_encode [OF raw]) (simp add: sample_message_def overload_of_def)
  obtain m0 where n: "New sample_params = Inr m0" using sample_params_valid by (simp add: New_def)
  let ?ins = "[(0, 1, EvStart), (1, 2, EvReceived (Some (wire_form sample_message)) raw NoAddr), (2, 3, EvRelease)]"
  obtain m es where r: "recorded_run 0 ?ins m0 = (m, es)" by fastforce
  from replay_reproduces [OF n r] d n r show ?thesis by fastforce
qed

section \<open>ARP frames\<close>

lemma declineAndRestart_state [simp]: "state (declineAndRestart now rnd m) = StateInit"
  by (simp add: declineAndRestart_def Let_def split_def)

lemma applied_conflict:
  "state (applyACD now rnd [AcdConflict why] m) = StateInit"
  by (simp add: applyACD_def apply_acd_action_def Let_def)

text \<open>What a held lease's machine does on an ARP frame: nothing at all, or it declines.\<close>

lemma arp_step:
  assumes "state m \<in> held_states" "sub m = Some a"
  shows "state (Step now rnd (EvARPReceived (Some pkt)) m) = StateInit \<or> out (Step now rnd (EvARPReceived (Some pkt)) m) = []"
proof -
  let ?m = "m\<lparr>out := []\<rparr>"
  have "Step now rnd (EvARPReceived (Some pkt)) m = step_acd now rnd (AcdEvARP (Some pkt)) a ?m"
    using assms by (auto simp: Step_def dispatch_def held_states_def stepBound_def stepRenewal_def onARP_def)
  moreover have "snd (acd_arp (Some pkt) a) = [] \<or> (\<exists>why. snd (acd_arp (Some pkt) a) = [AcdConflict why])"
    by (auto simp: acd_arp_def split: option.splits)
  ultimately show ?thesis
    by (auto simp: step_acd_def acdStep_def split_def applied_conflict) (simp add: applyACD_def)
qed

lemma arp_none_step:
  assumes "state m \<in> held_states" "sub m = Some a"
  shows "state (Step now rnd (EvARPReceived None) m) = state m \<and> length (out (Step now rnd (EvARPReceived None) m)) = 1"
  using assms
  by (auto simp: Step_def dispatch_def held_states_def stepBound_def stepRenewal_def onARP_def journal_def stamp_def)



end
