(* ===== verification/Lease_Event.thy ===== *)
theory Lease_Event
  imports Lease_Rebuild Proto_Journal
begin

text \<open>
  The outward side of \<^verbatim>\<open>src/lease/event.go\<close>: the bridge between the monotonic clock of the
  machine and wall-clock time, the outward lease, the outward events, and \<^verbatim>\<open>EventRecord\<close> of
  \<^verbatim>\<open>rebuild.go\<close>, which turns an event into a line of the durable record. A wall-clock time is the
  number of nanoseconds since the zero \<^verbatim>\<open>time.Time\<close>; \<^verbatim>\<open>Time.Sub\<close> saturates at 64 bits.
\<close>

section \<open>The clock bridge\<close>

record clockBridge =
  bmono :: Instant
  bwall :: wall

definition TimeSub :: "wall \<Rightarrow> wall \<Rightarrow> Duration" where
  "TimeSub t u = (if t - u > max_int64 then max_int64 else if t - u < - max_int64 - 1 then - max_int64 - 1 else t - u)"

definition bridge_at :: "clockBridge \<Rightarrow> Instant \<Rightarrow> wall" where
  "bridge_at b i = bwall b + Sub i (bmono b)"

definition bridge_instant :: "clockBridge \<Rightarrow> wall \<Rightarrow> Instant" where
  "bridge_instant b t = Add (bmono b) (TimeSub t (bwall b))"

section \<open>The outward lease\<close>

definition toLease :: "Lease \<Rightarrow> clockBridge \<Rightarrow> OLease" where
  "toLease l b = zero_olease
     \<lparr>OAddr := LAddr l, ODNS := LDNS l, ODomain := LDomain l, OMTU := LMTU l, OServerID := LServerID l,
      ORoutes := LRoutes l, ODomainSearch := LDomainSearch l, OAcquired := bridge_at b (LStart l),
      OOptions := LOptions l, OForcerenewNonce := LForcerenewNonce l, OForcerenewReplay := LForcerenewReplay l,
      OGateway := (case Gateway l of Some g \<Rightarrow> g | None \<Rightarrow> NoAddr),
      OExpire := (case Expire l of Some t \<Rightarrow> bridge_at b t | None \<Rightarrow> 0),
      ORenew := (if snd (RenewAt l) then bridge_at b (fst (RenewAt l)) else 0),
      ORebind := (if snd (RebindAt l) then bridge_at b (fst (RebindAt l)) else 0)\<rparr>"

section \<open>Events\<close>

text \<open>The router observation, the configuration and the status code belong to DHCPv6.\<close>

record OEvent =
  OKind :: LeaseEventKind
  OELease :: OLease
  OReason :: Reason
  OENote :: "jnote list"
  ORequested :: addr
  OACD :: ACDPhase
  ODAD :: DADPhase
  OConfig :: Configuration
  OFamily :: Family

definition zero_config :: Configuration where
  "zero_config = \<lparr>CDNS = [], CSearch = [], CRefresh = 0\<rparr>"

definition EventRecord :: "gostring \<Rightarrow> gostring \<Rightarrow> 64 word \<Rightarrow> wall \<Rightarrow> OEvent \<Rightarrow> 'p6 RecordEvent" where
  "EventRecord rid inst seq at ev =
     (let out = \<lparr>RevID = rid, RevOp = OpReserve, RevSeq = seq, RevAt = at, RevInstance = inst, Manager = [],
            RevScope = [], RevFamily = OFamily ev, RevCHAddr = [], RevIdentity = [], RevParams = None,
            RevParams6 = None, RevDeclined6 = [], RevDeadline = 0, RevStepsRef = [], RevKind = OKind ev,
            RevLease = None, RevReason = OReason ev, RevACD = OACD ev, RevDAD = ODAD ev, RevConfig = None,
            RevStats = None, RevExtra = []\<rparr>
      in if OKind ev = KindLost then out\<lparr>RevOp := OpLost\<rparr>
         else out\<lparr>RevOp := OpLease,
                  RevLease := (if OKind ev \<noteq> KindFailed \<and> OKind ev \<noteq> KindConfigured then Some (OELease ev) else None),
                  RevConfig := (if OKind ev = KindConfigured then Some (OConfig ev) else None)\<rparr>)"

section \<open>Crossing the clocks\<close>

text \<open>Instants and the difference of the wall clocks within 146 years of each other.\<close>

definition near :: "int \<Rightarrow> int \<Rightarrow> bool" where
  "near t u \<longleftrightarrow> \<bar>t - u\<bar> \<le> 2 ^ 62"

lemma TimeSub_near: "near t u \<Longrightarrow> TimeSub t u = t - u"
  by (auto simp: TimeSub_def near_def)

lemma bridge_at_exact: "near i (bmono b) \<Longrightarrow> bridge_at b i = bwall b + (i - bmono b)"
  by (auto simp: bridge_at_def Sub_def near_def intro!: i64_id in64I)

lemma bridge_instant_exact:
  "near t (bwall b) \<Longrightarrow> \<bar>bmono b\<bar> \<le> 2 ^ 61 \<Longrightarrow> t - bwall b \<le> 2 ^ 62 \<Longrightarrow> bridge_instant b t = bmono b + (t - bwall b)"
  by (auto simp: bridge_instant_def Add_def TimeSub_near near_def intro!: i64_id in64I)

end
