(* ===== verification/Lease_Manager.thy ===== *)
theory Lease_Manager
  imports Lease_Event
begin

text \<open>
  The DHCPv4 half of the lease manager, \<^verbatim>\<open>src/lease/manager.go\<close>: the loop that feeds the machine
  and executes its actions. The ports are the surroundings: what they answer during one
  iteration of \<^verbatim>\<open>dispatch\<close> is a \<open>turn\<close>, what they are told is kept in the manager's record as a
  trace (\<open>mgSent\<close>, \<open>mgARPSent\<close>, \<open>mgTimerCalls\<close>, \<open>mgPackets\<close>, \<open>mgJournal\<close>, and in \<open>mgEvents\<close> the
  events the caller took). The counters of \<^verbatim>\<open>Stats\<close> are indexed by their field names. The mutex
  protects readers on other goroutines and has no counterpart here: everything below runs on
  the goroutine of \<^verbatim>\<open>Run\<close>.
\<close>

section \<open>Ports\<close>

text \<open>
  One iteration: the readings of the clocks and of the entropy source, the outcome of each send
  by the id of its action with the text of its error, and whether the event channel took the
  event of an action before the context ended (or, when stopping, had room for it).
\<close>

record turn =
  tNow :: Instant
  tRnd :: rnd64
  tBridge :: clockBridge
  tSendFails :: "ActionID \<Rightarrow> bool"
  tWhy :: "ActionID \<Rightarrow> gostring"
  tTaken :: "ActionID \<Rightarrow> bool"

record Inbound =
  Payload :: "byte list"
  InTo :: addr
  InErr :: "gostring option"

record ARPInbound =
  Frame :: "byte list"
  ARPErr :: "gostring option"

datatype Direction = DirIn | DirOut

datatype packet_error = PacketTransport gostring | PacketDecode codec_error

record CapturedPacket =
  CapAt :: wall
  CapDir :: Direction
  CapRaw :: "byte list"
  CapMsg :: "message option"
  CapErr :: "packet_error option"
  CapARP :: "arp_packet option"

text \<open>The configuration: which ports are there, the parameters, the lease to resume.\<close>

record Config =
  cTransport :: bool
  cClock :: bool
  cTimers :: bool
  cEntropy :: bool
  cARP :: bool
  cParams :: Params
  cResume :: "OLease option"

datatype manager_error = ErrNoTransport | ErrNoClock | ErrNoTimers | ErrNoEntropy | ErrNoARP
  | ErrResumeTwice | ErrResumeNoAddr | ErrNewMachine params_error

record Manager =
  mgCfg :: Config
  mgMachine :: Machine
  mgJournal :: "JournalEntry list"
  mgPackets :: "CapturedPacket list"
  mgEvents :: "OEvent list"
  mgRequests :: "Event list"
  mgStopping :: bool
  mgLease :: OLease
  mgHeld :: bool
  mgSeq :: "64 word"
  mgACD :: ACDPhase
  mgHostname :: gostring
  mgV6Only :: IPv6OnlyCounters
  mgRapid :: RapidCommitCounters
  mgForcerenew :: ForcerenewCounters
  mgStats :: counters
  mgSent :: "(Dest \<times> byte list) list"
  mgARPSent :: "byte list list"
  mgTimerCalls :: "(TimerID \<times> Duration option) list"

definition bump :: "string \<Rightarrow> Manager \<Rightarrow> Manager" where
  "bump f mg = mg\<lparr>mgStats := (mgStats mg)(f := mgStats mg f + 1)\<rparr>"

section \<open>Construction\<close>

definition resume_params :: "clockBridge \<Rightarrow> Config \<Rightarrow> manager_error + Params" where
  "resume_params b cfg =
     (case cResume cfg of
        None \<Rightarrow> Inr (cParams cfg)
      | Some l \<Rightarrow>
          if PResume (cParams cfg) \<noteq> None then Inl ErrResumeTwice
          else let ad = paddr (OAddr l) in
            if \<not> Is4 ad \<or> IsUnspecified ad then Inl ErrResumeNoAddr
            else Inr ((cParams cfg)\<lparr>PResume := Some
              (if OExpire l \<noteq> 0 then \<lparr>RAddr = ad, RExpire = bridge_instant b (OExpire l), RHasExpire = True\<rparr>
               else \<lparr>RAddr = ad, RExpire = 0, RHasExpire = False\<rparr>)\<rparr>))"

definition new_manager :: "Config \<Rightarrow> Machine \<Rightarrow> Manager" where
  "new_manager cfg m =
     \<lparr>mgCfg = cfg, mgMachine = m, mgJournal = [], mgPackets = [], mgEvents = [], mgRequests = [],
      mgStopping = False, mgLease = zero_olease, mgHeld = False, mgSeq = 0, mgACD = ACDIdle,
      mgHostname = hostname m, mgV6Only = \<lparr>Waited = 0, Ignored = 0, Malformed = 0\<rparr>,
      mgRapid = \<lparr>Accepted = 0, RapidRefused = 0\<rparr>,
      mgForcerenew = \<lparr>Renewed = 0, AlreadyRenewing = 0, AckRefused = 0, Refused = (\<lambda>_. 0)\<rparr>,
      mgStats = (\<lambda>_. 0), mgSent = [], mgARPSent = [], mgTimerCalls = []\<rparr>"

definition NewManager :: "clockBridge \<Rightarrow> Config \<Rightarrow> manager_error + Manager" where
  "NewManager b cfg =
     (if \<not> cTransport cfg then Inl ErrNoTransport
      else if \<not> cClock cfg then Inl ErrNoClock
      else if \<not> cTimers cfg then Inl ErrNoTimers
      else if \<not> cEntropy cfg then Inl ErrNoEntropy
      else if PConflict (cParams cfg) \<noteq> ConflictOff \<and> \<not> cARP cfg then Inl ErrNoARP
      else case resume_params b cfg of
        Inl e \<Rightarrow> Inl e
      | Inr p \<Rightarrow> (case New p of Inl e \<Rightarrow> Inl (ErrNewMachine e) | Inr m \<Rightarrow> Inr (new_manager cfg m)))"

section \<open>Executing actions\<close>

definition emit :: "bool \<Rightarrow> OEvent \<Rightarrow> Manager \<Rightarrow> Manager" where
  "emit taken e mg =
     (if taken
      then mg\<lparr>mgEvents := mgEvents mg @ [e\<lparr>OFamily := FamilyV4, OACD := machine_ACDPhase (mgMachine mg)\<rparr>]\<rparr>
      else bump ''EventsDropped'' mg)"

definition outward_event :: "LeaseEventKind \<Rightarrow> OEvent" where
  "outward_event k = \<lparr>OKind = k, OELease = zero_olease, OReason = ReasonNone, OENote = [], ORequested = NoAddr,
     OACD = ACDIdle, ODAD = DADIdle, OConfig = zero_config, OFamily = FamilyUnset\<rparr>"

definition countSent :: "message \<Rightarrow> Manager \<Rightarrow> Manager" where
  "countSent msg mg =
     (if Type msg = None then mg
      else if Type msg = Some MsgDecline then bump ''DeclinesSent'' mg
      else if Type msg = Some MsgRelease then bump ''ReleasesSent'' mg
      else if Type msg = Some MsgRequest \<and> Is4 (CIAddr msg) \<and> \<not> IsUnspecified (CIAddr msg)
      then bump ''RenewalsSent'' mg
      else mg)"

definition captured :: "CapturedPacket \<Rightarrow> Manager \<Rightarrow> Manager" where
  "captured p mg = mg\<lparr>mgPackets := mgPackets mg @ [p]\<rparr>"

text \<open>One action of \<^verbatim>\<open>drain\<close>: the manager after it, and the failures to feed back.\<close>

definition send_action :: "turn \<Rightarrow> ActionID \<Rightarrow> message \<Rightarrow> Dest \<Rightarrow> Manager \<Rightarrow> Manager \<times> Event list" where
  "send_action t aid msg dst mg =
     (case Encode msg of
        Inl _ \<Rightarrow> (bump ''SendFailures'' mg, [EvActionFailed aid (tWhy t aid)])
      | Inr raw \<Rightarrow>
          if tSendFails t aid then (bump ''SendFailures'' mg, [EvActionFailed aid (tWhy t aid)])
          else (captured \<lparr>CapAt = bwall (tBridge t), CapDir = DirOut, CapRaw = raw, CapMsg = Some msg, CapErr = None,
                  CapARP = None\<rparr>
                (countSent msg (bump ''Sent'' (mg\<lparr>mgSent := mgSent mg @ [(dst, raw)]\<rparr>))), []))"

definition send_arp_action :: "turn \<Rightarrow> ActionID \<Rightarrow> arp_packet \<Rightarrow> Manager \<Rightarrow> Manager \<times> Event list" where
  "send_arp_action t aid p mg =
     (case EncodeARP (Some p) of
        Inl _ \<Rightarrow> (bump ''ARPSendFailures'' mg, [EvActionFailed aid (tWhy t aid)])
      | Inr raw \<Rightarrow>
          if \<not> cARP (mgCfg mg) \<or> tSendFails t aid
          then (bump ''ARPSendFailures'' mg, [EvActionFailed aid (tWhy t aid)])
          else (captured \<lparr>CapAt = bwall (tBridge t), CapDir = DirOut, CapRaw = raw, CapMsg = None, CapErr = None,
                  CapARP = Some p\<rparr>
                (bump (if IsProbe p then ''ProbesSent'' else ''AnnouncementsSent'')
                  (mg\<lparr>mgARPSent := mgARPSent mg @ [raw]\<rparr>)), []))"

definition leased_action :: "turn \<Rightarrow> ActionID \<Rightarrow> LeaseEventKind \<Rightarrow> Lease \<Rightarrow> addr \<Rightarrow> string option \<Rightarrow> Manager \<Rightarrow> Manager" where
  "leased_action t aid k l req f mg =
     (let ol = toLease l (tBridge t);
          mg1 = mg\<lparr>mgLease := ol, mgHeld := True\<rparr>;
          mg2 = (case f of None \<Rightarrow> mg1 | Some x \<Rightarrow> bump x mg1)
      in emit (tTaken t aid) ((outward_event k)\<lparr>OELease := ol, ORequested := req\<rparr>) mg2)"

definition lost_action :: "turn \<Rightarrow> ActionID \<Rightarrow> Reason \<Rightarrow> Manager \<Rightarrow> Manager" where
  "lost_action t aid why mg =
     (let lost = mgLease mg;
          mg1 = bump ''LeasesLost'' (mg\<lparr>mgLease := zero_olease, mgHeld := False\<rparr>);
          mg2 = (if why = ReasonConflict then bump ''ConflictsDetected'' mg1 else mg1)
      in emit (tTaken t aid) ((outward_event KindLost)\<lparr>OELease := lost, OReason := why\<rparr>) mg2)"

definition failed_action :: "turn \<Rightarrow> ActionID \<Rightarrow> Reason \<Rightarrow> jnote list \<Rightarrow> Manager \<Rightarrow> Manager" where
  "failed_action t aid why note mg =
     (let mg1 = bump ''AcquireFailures'' mg;
          mg2 = (if why = ReasonNak then bump ''NaksAccepted'' mg1
                 else if why = ReasonConflict then bump ''ConflictsDetected'' mg1 else mg1)
      in emit (tTaken t aid) ((outward_event KindFailed)\<lparr>OReason := why, OENote := note\<rparr>) mg2)"

definition execute :: "turn \<Rightarrow> Action \<Rightarrow> Manager \<Rightarrow> Manager \<times> Event list" where
  "execute t a mg0 =
     (let mg = bump ''ActionsExecuted'' mg0 in
      case Body a of
        ActSend msg dst \<Rightarrow> send_action t (ID a) msg dst mg
      | ActSendARP p \<Rightarrow> send_arp_action t (ID a) p mg
      | ActSetTimer tm d \<Rightarrow> (mg\<lparr>mgTimerCalls := mgTimerCalls mg @ [(tm, Some d)]\<rparr>, [])
      | ActCancelTimer tm \<Rightarrow> (mg\<lparr>mgTimerCalls := mgTimerCalls mg @ [(tm, None)]\<rparr>, [])
      | ActLeaseAcquired l req \<Rightarrow> (leased_action t (ID a) KindAcquired l req (Some ''LeasesAcquired'') mg, [])
      | ActLeaseRenewed l \<Rightarrow> (leased_action t (ID a) KindRenewed l NoAddr (Some ''RenewalsCompleted'') mg, [])
      | ActLeaseChanged l \<Rightarrow> (leased_action t (ID a) KindChanged l NoAddr None mg, [])
      | ActLeaseLost why \<Rightarrow> (lost_action t (ID a) why mg, [])
      | ActFailed why note \<Rightarrow> (failed_action t (ID a) why note mg, [])
      | ActJournal _ \<Rightarrow> (mg, []))"

fun execute_all :: "turn \<Rightarrow> Action list \<Rightarrow> Manager \<Rightarrow> Manager \<times> Event list" where
  "execute_all t [] mg = (mg, [])"
| "execute_all t (a # as) mg =
     (let (mg1, fs) = execute t a mg; (mg2, fs') = execute_all t as mg1 in (mg2, fs @ fs'))"

definition drain :: "turn \<Rightarrow> Action list \<Rightarrow> Manager \<Rightarrow> Manager \<times> Event list" where
  "drain t as mg =
     (let (mg1, fs) = execute_all t as mg in
      (mg1\<lparr>mgStats := (mgStats mg1)(''ActionsFailedFed'' := mgStats mg1 ''ActionsFailedFed'' + of_nat (length fs))\<rparr>, fs))"

section \<open>Dispatch\<close>

definition AllForcerenewRefusals :: "ForcerenewRefusal list" where
  "AllForcerenewRefusals =
     [ForcerenewRefusalWrongState, ForcerenewRefusalNoRaw, ForcerenewRefusalNotUnicast,
      ForcerenewRefusalNotOurAddress, ForcerenewRefusalNotThisClient, ForcerenewRefusalNoNonce,
      ForcerenewRefusalNoAuth, ForcerenewRefusalMalformedAuth, ForcerenewRefusalReplay,
      ForcerenewRefusalBadDigest, ForcerenewRefusalNoServer]"

definition RefusedTotal :: "ForcerenewCounters \<Rightarrow> 64 word" where
  "RefusedTotal c = sum_list (map (Refused c) AllForcerenewRefusals)"

text \<open>What the manager copies from the machine after a step, before it drains.\<close>

definition mirror :: "Machine \<Rightarrow> Manager \<Rightarrow> Manager" where
  "mirror m mg =
     mg\<lparr>mgMachine := m, mgSeq := mgSeq mg + 1, mgACD := machine_ACDPhase m, mgHostname := hostname m,
        mgV6Only := v6OnlyCounts m, mgRapid := rapidCounts m, mgForcerenew := frCounts m,
        mgStats := (mgStats mg)(''Steps'' := mgStats mg ''Steps'' + 1,
          ''IPv6OnlyWaited'' := Waited (v6OnlyCounts m), ''IPv6OnlyIgnored'' := Ignored (v6OnlyCounts m),
          ''IPv6OnlyMalformed'' := Malformed (v6OnlyCounts m),
          ''RapidCommitsAccepted'' := Accepted (rapidCounts m), ''RapidCommitsRefused'' := RapidRefused (rapidCounts m),
          ''ForcerenewsRenewed'' := Renewed (frCounts m), ''ForcerenewsAlreadyRenewing'' := AlreadyRenewing (frCounts m),
          ''ForcerenewsAckRefused'' := AckRefused (frCounts m), ''ForcerenewsRefused'' := RefusedTotal (frCounts m))\<rparr>"

definition step_event :: "turn \<Rightarrow> Event \<Rightarrow> Manager \<Rightarrow> Manager \<times> Event list" where
  "step_event t ev mg =
     (let (m', entry) = recorded_step (mgSeq mg) (tNow t) (tRnd t) ev (mgMachine mg);
          mg1 = mirror m' mg
      in drain t (out m') (mg1\<lparr>mgJournal := mgJournal mg1 @ [entry]\<rparr>))"

text \<open>
  A failure that is fed back sends nothing, so it cannot fail again: this is what makes the
  queue of \<^verbatim>\<open>dispatch\<close> run empty.
\<close>

fun is_send :: "ActionBody \<Rightarrow> bool" where
  "is_send (ActSend _ _) \<longleftrightarrow> True"
| "is_send (ActSendARP _) \<longleftrightarrow> True"
| "is_send _ \<longleftrightarrow> False"

definition sends :: "Machine \<Rightarrow> Action list" where
  "sends m = filter (\<lambda>a. is_send (Body a)) (out m)"

lemma sends_stamp [simp]: "\<not> is_send b \<Longrightarrow> sends (stamp b m) = sends m"
  by (simp add: sends_def stamp_def)

lemma sends_fields [simp]:
  "sends (m\<lparr>sendFailures := n\<rparr>) = sends m" "sends (m\<lparr>haveARPAction := h\<rparr>) = sends m" "sends (m\<lparr>out := []\<rparr>) = []"
  "sends (m\<lparr>haveLse := hl, lease := l, fr := k\<rparr>) = sends m" "sends (acdIdle m) = sends m"
  "sends (m\<lparr>state := st, offer := x, retransmits := n\<rparr>) = sends m"
  by (simp_all add: sends_def acdIdle_def)

lemma sends_basic [simp]:
  "sends (journal ns m) = sends m" "sends (journal_notes ns m) = sends m" "sends (failed r ns m) = sends m"
  "sends (set_timer t d m) = sends m" "sends (cancel t m) = sends m"
  by (simp_all add: journal_def journal_notes_def failed_def set_timer_def cancel_def)

lemma sends_cancelAll [simp]: "sends (cancelAll m) = sends m"
proof -
  have "sends (fold cancel ts m) = sends m" for ts by (induction ts arbitrary: m) simp_all
  then show ?thesis by (simp add: cancelAll_def)
qed

lemma sends_lost [simp]: "sends (dropLease r m) = sends m" "sends (toInitIdle m) = sends m"
  by (simp_all add: dropLease_def toInitIdle_def)

lemma failure_sends_nothing: "sends (Step now rnd (EvActionFailed aid why) m) = []"
proof -
  have "sends (noteActionFailed now rnd aid why (m\<lparr>out := []\<rparr>)) = []"
    by (simp add: noteActionFailed_def Let_def)
  then show ?thesis
    by (cases "state m") (simp_all add: Step_def dispatch_def stepStopped_def stepInit_def stepSelecting_def
        stepRequesting_def stepBound_def stepRenewal_def stepRebooting_def stepProbing_def)
qed

lemma execute_failures:
  "\<not> is_send (Body a) \<Longrightarrow> snd (execute t a mg) = []"
  "f \<in> set (snd (execute t a mg)) \<Longrightarrow> \<exists>aid why. f = EvActionFailed aid why"
  by (auto simp: execute_def send_action_def send_arp_action_def Let_def
      split: ActionBody.splits sum.splits if_splits)

lemma execute_all_failures:
  "filter (\<lambda>a. is_send (Body a)) as = [] \<Longrightarrow> snd (execute_all t as mg) = []"
  "f \<in> set (snd (execute_all t as mg)) \<Longrightarrow> \<exists>aid why. f = EvActionFailed aid why"
  by (induction as arbitrary: mg) (auto simp: split_def Let_def execute_failures(1) dest: execute_failures(2) split: if_splits)

lemma step_event_failures:
  "snd (step_event t (EvActionFailed aid why) mg) = []"
  "f \<in> set (snd (step_event t ev mg)) \<Longrightarrow> \<exists>aid why. f = EvActionFailed aid why"
  using failure_sends_nothing execute_all_failures
  by (auto simp: step_event_def recorded_step_def drain_def Let_def split_def sends_def)

fun is_failure :: "Event \<Rightarrow> bool" where
  "is_failure (EvActionFailed _ _) \<longleftrightarrow> True"
| "is_failure _ \<longleftrightarrow> False"

lemma step_event_queue:
  assumes "(mg', fs) = step_event t e mg"
  shows "filter (\<lambda>e. \<not> is_failure e) fs = [] \<and> (is_failure e \<longrightarrow> fs = [])"
proof -
  have fs: "fs = snd (step_event t e mg)" using assms by (metis snd_conv)
  have "is_failure e \<longrightarrow> fs = []" by (cases e) (simp_all add: fs step_event_failures(1))
  then show ?thesis
    using step_event_failures(2) [of _ t e mg] by (fastforce simp: fs filter_empty_conv)
qed

text \<open>The loop of \<^verbatim>\<open>dispatch\<close>; the \<open>i\<close>-th iteration sees the surroundings of turn \<open>i\<close>.\<close>

function dispatch_queue :: "(nat \<Rightarrow> turn) \<Rightarrow> nat \<Rightarrow> Event list \<Rightarrow> Manager \<Rightarrow> Manager" where
  "dispatch_queue env i [] mg = mg"
| "dispatch_queue env i (e # queue) mg =
     (case step_event (env i) e mg of (mg', failures) \<Rightarrow> dispatch_queue env (i + 1) (queue @ failures) mg')"
  by pat_completeness auto

termination
  by (relation "measures [\<lambda>(env, i, q, mg). length (filter (\<lambda>e. \<not> is_failure e) q), \<lambda>(env, i, q, mg). length q]")
    (simp, auto dest: step_event_queue)

definition manager_dispatch :: "(nat \<Rightarrow> turn) \<Rightarrow> Event \<Rightarrow> Manager \<Rightarrow> Manager" where
  "manager_dispatch env ev mg = dispatch_queue env 0 [ev] mg"

section \<open>Inputs\<close>

definition onInbound :: "(nat \<Rightarrow> turn) \<Rightarrow> wall \<Rightarrow> Inbound \<Rightarrow> Manager \<Rightarrow> Manager" where
  "onInbound env w inb mg =
     (case InErr inb of
        Some e \<Rightarrow> captured \<lparr>CapAt = w, CapDir = DirIn, CapRaw = [], CapMsg = None, CapErr = Some (PacketTransport e),
            CapARP = None\<rparr> (bump ''TransportErrors'' mg)
      | None \<Rightarrow>
          let mg1 = bump ''Received'' mg in
          (case Decode (Payload inb) of
             Inl err \<Rightarrow> bump ''DecodeFailures''
               (captured \<lparr>CapAt = w, CapDir = DirIn, CapRaw = Payload inb, CapMsg = None,
                  CapErr = Some (PacketDecode err), CapARP = None\<rparr> mg1)
           | Inr msg \<Rightarrow>
               let mg2 = (if Type msg = Some MsgNak then bump ''NaksSeen'' mg1 else mg1);
                   mg3 = captured \<lparr>CapAt = w, CapDir = DirIn, CapRaw = Payload inb, CapMsg = Some msg,
                     CapErr = None, CapARP = None\<rparr> mg2
               in manager_dispatch env (EvReceived (Some msg) (Payload inb) (InTo inb)) mg3))"

definition manager_onARP :: "(nat \<Rightarrow> turn) \<Rightarrow> wall \<Rightarrow> ARPInbound \<Rightarrow> Manager \<Rightarrow> Manager" where
  "manager_onARP env w inb mg =
     (if ARPErr inb \<noteq> None then bump ''ARPErrors'' mg
      else case DecodeARP (Frame inb) of
        Inl _ \<Rightarrow> bump ''ARPDecodeFailures'' (bump ''ARPSeen'' mg)
      | Inr p \<Rightarrow>
          if \<not> ARPRelevant (Some p) (mgMachine mg) then bump ''ARPIgnored'' (bump ''ARPSeen'' mg)
          else manager_dispatch env (EvARPReceived (Some p))
            (captured \<lparr>CapAt = w, CapDir = DirIn, CapRaw = Frame inb, CapMsg = None, CapErr = None, CapARP = Some p\<rparr>
              (bump ''ARPSeen'' mg)))"

definition shutdown :: "(nat \<Rightarrow> turn) \<Rightarrow> Manager \<Rightarrow> Manager" where
  "shutdown env mg = manager_dispatch env EvStop (mg\<lparr>mgStopping := True\<rparr>)"

text \<open>
  The requests of other goroutines: a queue of four, and a full queue refuses.
\<close>

definition requestQueued :: "Event \<Rightarrow> Manager \<Rightarrow> bool \<times> Manager" where
  "requestQueued ev mg =
     (if length (mgRequests mg) < 4 then (True, mg\<lparr>mgRequests := mgRequests mg @ [ev]\<rparr>)
      else (False, bump ''RequestsDropped'' mg))"

definition manager_Release :: "Manager \<Rightarrow> Manager" where
  "manager_Release mg = snd (requestQueued EvRelease mg)"

definition ReportConflict :: "Manager \<Rightarrow> Manager" where
  "ReportConflict mg = snd (requestQueued EvConflictDetected mg)"

definition ReportAddressLost :: "Manager \<Rightarrow> Manager" where
  "ReportAddressLost mg = snd (requestQueued EvAddressLost mg)"

datatype hostname_error = ErrHostnameFQDN | ErrHostnameBad | ErrRequestQueueFull

definition SetHostname :: "gostring \<Rightarrow> Manager \<Rightarrow> hostname_error option \<times> Manager" where
  "SetHostname name mg =
     (if FName (PFQDN (cParams (mgCfg mg))) \<noteq> [] then (Some ErrHostnameFQDN, mg)
      else if \<not> ValidateHostname name then (Some ErrHostnameBad, mg)
      else case requestQueued (EvSetHostname name) mg of
        (True, mg1) \<Rightarrow> (None, mg1)
      | (False, mg1) \<Rightarrow> (Some ErrRequestQueueFull, mg1))"

text \<open>
  One arm of the select in \<^verbatim>\<open>Run\<close>: which channel was ready. A closed channel is \<open>None\<close>. The line the
  loop journals when the ARP socket closes is an entry with a kind and a text and nothing else.
\<close>

datatype manager_input = InRequest | InDone | InInbound "Inbound option" | InARP "ARPInbound option"
  | InFired "TimerID option"

definition arp_closed_entry :: "gostring \<Rightarrow> JournalEntry" where
  "arp_closed_entry why = \<lparr>JSeq = 0, JNow = 0, JRnd = 0, JKind = KARPReceived, JRaw = [], JDst = NoAddr, JHostname = [],
     JTimer = TimerRetransmit, JAction = 0, JReason = why, JFrom = StateStopped, JTo = StateStopped, JActions = []\<rparr>"

datatype run_end = RunContinues | RunCancelled | RunTransportClosed | RunTimersClosed

definition run_input :: "(nat \<Rightarrow> turn) \<Rightarrow> wall \<Rightarrow> gostring \<Rightarrow> manager_input \<Rightarrow> Manager \<Rightarrow> run_end \<times> Manager" where
  "run_input env w why inp mg =
     (case inp of
        InRequest \<Rightarrow> (case mgRequests mg of
            [] \<Rightarrow> (RunContinues, mg)
          | req # rest \<Rightarrow> (RunContinues, manager_dispatch env req (mg\<lparr>mgRequests := rest\<rparr>)))
      | InDone \<Rightarrow> (RunCancelled, shutdown env mg)
      | InInbound None \<Rightarrow> (RunTransportClosed, shutdown env mg)
      | InInbound (Some inb) \<Rightarrow> (RunContinues, onInbound env w inb mg)
      | InARP None \<Rightarrow> (RunContinues, mg\<lparr>mgJournal := mgJournal mg @ [arp_closed_entry why]\<rparr>)
      | InARP (Some inb) \<Rightarrow> (RunContinues, manager_onARP env w inb mg)
      | InFired None \<Rightarrow> (RunTimersClosed, shutdown env mg)
      | InFired (Some t) \<Rightarrow> (RunContinues, manager_dispatch env (EvTimerFired t) (bump ''TimerFires'' mg)))"

end
