(* ===== verification/Lease_Run.thy ===== *)
theory Lease_Run
  imports Lease_Manager
begin

text \<open>
  Executions of the lease manager: every order of the channels of \<^verbatim>\<open>Run\<close>, every answer of the
  ports. The manager's machine runs one of the executions of \<open>reachable\<close>, and what the manager
  holds, counts, reports and records follows the machine.
\<close>

section \<open>Executions\<close>

text \<open>The clock never runs backwards and stays within the bound of \<open>reachable\<close>.\<close>

definition clocked :: "Instant \<Rightarrow> (nat \<Rightarrow> turn) \<Rightarrow> Instant \<Rightarrow> bool" where
  "clocked now env now' \<longleftrightarrow> now' \<le> 2 ^ 62
     \<and> (\<forall>i. now \<le> tNow (env i) \<and> tNow (env i) \<le> tNow (env (Suc i)) \<and> tNow (env i) \<le> now')"

text \<open>A caller that takes every event.\<close>

definition attentive :: "(nat \<Rightarrow> turn) \<Rightarrow> bool" where
  "attentive env \<longleftrightarrow> (\<forall>i a. tTaken (env i) a)"

text \<open>Without an ARP port there is no ARP channel to be ready.\<close>

fun ready :: "Config \<Rightarrow> manager_input \<Rightarrow> bool" where
  "ready cfg (InARP _) \<longleftrightarrow> cARP cfg"
| "ready cfg _ \<longleftrightarrow> True"

inductive managed :: "Config \<Rightarrow> clockBridge \<Rightarrow> bool \<Rightarrow> Instant \<Rightarrow> Manager \<Rightarrow> bool" for cfg b att where
  made: "NewManager b cfg = Inr mg \<Longrightarrow> managed cfg b att 0 mg"
| run: "managed cfg b att now mg \<Longrightarrow> clocked now env now' \<Longrightarrow> (att \<Longrightarrow> attentive env) \<Longrightarrow>
     managed cfg b att now' (manager_dispatch env EvStart mg)"
| input: "managed cfg b att now mg \<Longrightarrow> clocked now env now' \<Longrightarrow> (att \<Longrightarrow> attentive env) \<Longrightarrow> ready cfg inp \<Longrightarrow>
     managed cfg b att now' (snd (run_input env w why inp mg))"
| release: "managed cfg b att now mg \<Longrightarrow> managed cfg b att now (manager_Release mg)"
| conflict: "managed cfg b att now mg \<Longrightarrow> managed cfg b att now (ReportConflict mg)"
| address: "managed cfg b att now mg \<Longrightarrow> managed cfg b att now (ReportAddressLost mg)"
| named: "managed cfg b att now mg \<Longrightarrow> managed cfg b att now (snd (SetHostname name mg))"

section \<open>One action\<close>

text \<open>The lease a caller who follows the events has.\<close>

fun heard :: "OEvent \<Rightarrow> OLease option \<Rightarrow> OLease option" where
  "heard e v = (case OKind e of
      KindLost \<Rightarrow> None
    | KindFailed \<Rightarrow> v
    | KindConfigured \<Rightarrow> v
    | KindOther _ \<Rightarrow> v
    | _ \<Rightarrow> Some (OELease e))"

definition outward_lease :: "Manager \<Rightarrow> OLease option" where
  "outward_lease mg = (if mgHeld mg then Some (mgLease mg) else None)"

definition follows :: "caller \<Rightarrow> Manager \<Rightarrow> bool" where
  "follows V mg \<longleftrightarrow>
     (case V of
        Violated \<Rightarrow> True
      | Holds None \<Rightarrow> outward_lease mg = None \<and> mgStats mg ''LeasesAcquired'' = mgStats mg ''LeasesLost''
      | Holds (Some l) \<Rightarrow> (\<exists>b. outward_lease mg = Some (toLease l b))
          \<and> mgStats mg ''LeasesAcquired'' = mgStats mg ''LeasesLost'' + 1)"

definition heard_all :: "Manager \<Rightarrow> bool" where
  "heard_all mg \<longleftrightarrow> fold heard (mgEvents mg) None = outward_lease mg"

lemma bump_fields [simp]:
  "mgMachine (bump f mg) = mgMachine mg" "mgHeld (bump f mg) = mgHeld mg" "mgLease (bump f mg) = mgLease mg"
  "mgEvents (bump f mg) = mgEvents mg" "mgJournal (bump f mg) = mgJournal mg" "mgSeq (bump f mg) = mgSeq mg"
  "mgRequests (bump f mg) = mgRequests mg" "mgCfg (bump f mg) = mgCfg mg"
  "mgStats (bump f mg) g = (if g = f then mgStats mg g + 1 else mgStats mg g)"
  by (simp_all add: bump_def)

lemma captured_fields [simp]:
  "mgMachine (captured p mg) = mgMachine mg" "mgHeld (captured p mg) = mgHeld mg" "mgLease (captured p mg) = mgLease mg"
  "mgEvents (captured p mg) = mgEvents mg" "mgJournal (captured p mg) = mgJournal mg" "mgSeq (captured p mg) = mgSeq mg"
  "mgRequests (captured p mg) = mgRequests mg" "mgCfg (captured p mg) = mgCfg mg" "mgStats (captured p mg) = mgStats mg"
  by (simp_all add: captured_def)

lemma countSent_fields [simp]:
  "mgMachine (countSent msg mg) = mgMachine mg" "mgHeld (countSent msg mg) = mgHeld mg"
  "mgLease (countSent msg mg) = mgLease mg" "mgEvents (countSent msg mg) = mgEvents mg"
  "mgJournal (countSent msg mg) = mgJournal mg" "mgSeq (countSent msg mg) = mgSeq mg"
  "mgRequests (countSent msg mg) = mgRequests mg" "mgCfg (countSent msg mg) = mgCfg mg"
  "mgStats (countSent msg mg) ''LeasesAcquired'' = mgStats mg ''LeasesAcquired''"
  "mgStats (countSent msg mg) ''LeasesLost'' = mgStats mg ''LeasesLost''"
  by (simp_all add: countSent_def)

lemma emit_fields [simp]:
  "mgMachine (emit k e mg) = mgMachine mg" "mgHeld (emit k e mg) = mgHeld mg" "mgLease (emit k e mg) = mgLease mg"
  "mgJournal (emit k e mg) = mgJournal mg" "mgSeq (emit k e mg) = mgSeq mg"
  "mgRequests (emit k e mg) = mgRequests mg" "mgCfg (emit k e mg) = mgCfg mg"
  "f \<noteq> ''EventsDropped'' \<Longrightarrow> mgStats (emit k e mg) f = mgStats mg f"
  by (simp_all add: emit_def)

lemmas action_defs = execute_def send_action_def send_arp_action_def leased_action_def lost_action_def failed_action_def Let_def

lemma execute_frame:
  "mgMachine (fst (execute t a mg)) = mgMachine mg" "mgJournal (fst (execute t a mg)) = mgJournal mg"
  "mgSeq (fst (execute t a mg)) = mgSeq mg" "mgRequests (fst (execute t a mg)) = mgRequests mg"
  "mgCfg (fst (execute t a mg)) = mgCfg mg"
  by (simp_all add: action_defs split: ActionBody.split sum.split)

lemma execute_follows: "follows V mg \<Longrightarrow> follows (told (Body a) V) (fst (execute t a mg))"
  by (cases "Body a") (auto simp: action_defs follows_def outward_lease_def
      split: sum.split caller.splits option.splits if_splits)

lemma execute_heard: "tTaken t (ID a) \<Longrightarrow> heard_all mg \<Longrightarrow> heard_all (fst (execute t a mg))"
  by (cases "Body a") (auto simp: action_defs heard_all_def outward_lease_def emit_def outward_event_def
      split: sum.split)

section \<open>A step with its actions\<close>

lemma execute_all_frame:
  "mgMachine (fst (execute_all t as mg)) = mgMachine mg" "mgJournal (fst (execute_all t as mg)) = mgJournal mg"
  "mgSeq (fst (execute_all t as mg)) = mgSeq mg" "mgRequests (fst (execute_all t as mg)) = mgRequests mg"
  "mgCfg (fst (execute_all t as mg)) = mgCfg mg"
  by (induction as arbitrary: mg) (simp_all add: split_def Let_def execute_frame)

lemma execute_all_follows: "follows V mg \<Longrightarrow> follows (fold told (map Body as) V) (fst (execute_all t as mg))"
  by (induction as arbitrary: mg V) (simp_all add: split_def Let_def execute_follows)

lemma execute_all_heard:
  "(\<And>i. tTaken t i) \<Longrightarrow> heard_all mg \<Longrightarrow> heard_all (fst (execute_all t as mg))"
  by (induction as arbitrary: mg) (simp_all add: split_def Let_def execute_heard)

lemma step_event_frame:
  "mgMachine (fst (step_event t ev mg)) = Step (tNow t) (tRnd t) ev (mgMachine mg)"
  "mgJournal (fst (step_event t ev mg))
     = mgJournal mg @ [snd (recorded_step (mgSeq mg) (tNow t) (tRnd t) ev (mgMachine mg))]"
  "mgSeq (fst (step_event t ev mg)) = mgSeq mg + 1" "mgRequests (fst (step_event t ev mg)) = mgRequests mg"
  "mgCfg (fst (step_event t ev mg)) = mgCfg mg"
  by (simp_all add: step_event_def drain_def split_def Let_def execute_all_frame mirror_def recorded_step_def)

lemma mirror_fields [simp]:
  "mgHeld (mirror m mg) = mgHeld mg" "mgLease (mirror m mg) = mgLease mg" "mgEvents (mirror m mg) = mgEvents mg"
  "mgStats (mirror m mg) ''LeasesAcquired'' = mgStats mg ''LeasesAcquired''"
  "mgStats (mirror m mg) ''LeasesLost'' = mgStats mg ''LeasesLost''"
  by (simp_all add: mirror_def)

lemma follows_same:
  assumes "follows V mg" "outward_lease mg' = outward_lease mg"
    "mgStats mg' ''LeasesAcquired'' = mgStats mg ''LeasesAcquired''" "mgStats mg' ''LeasesLost'' = mgStats mg ''LeasesLost''"
  shows "follows V mg'"
  using assms(1) unfolding follows_def assms(2-4) .

lemma step_event_follows:
  "follows V mg \<Longrightarrow> follows (observe told V (Step (tNow t) (tRnd t) ev (mgMachine mg))) (fst (step_event t ev mg))"
proof -
  assume v: "follows V mg"
  let ?m = "Step (tNow t) (tRnd t) ev (mgMachine mg)"
  let ?mg = "(mirror ?m mg)\<lparr>mgJournal := mgJournal (mirror ?m mg)
    @ [NewJournalEntry (mgSeq mg) (tNow t) (tRnd t) ev (state (mgMachine mg)) (state ?m) (out ?m)]\<rparr>"
  have "follows V ?mg" by (rule follows_same [OF v]) (simp_all add: outward_lease_def)
  from execute_all_follows [OF this, of "out ?m" t]
  have "follows (observe told V ?m) (fst (execute_all t (out ?m) ?mg))" by (simp add: observe_def)
  then show ?thesis
    by (rule follows_same) (simp_all add: step_event_def recorded_step_def drain_def split_def Let_def outward_lease_def)
qed

lemma step_event_heard:
  assumes "\<And>i. tTaken t i" "heard_all mg"
  shows "heard_all (fst (step_event t ev mg))"
proof -
  let ?m = "Step (tNow t) (tRnd t) ev (mgMachine mg)"
  let ?mg = "(mirror ?m mg)\<lparr>mgJournal := mgJournal (mirror ?m mg)
    @ [NewJournalEntry (mgSeq mg) (tNow t) (tRnd t) ev (state (mgMachine mg)) (state ?m) (out ?m)]\<rparr>"
  have "heard_all ?mg" using assms(2) by (simp add: heard_all_def outward_lease_def mirror_def)
  from execute_all_heard [OF assms(1) this, of "out ?m"] show ?thesis
    by (simp add: step_event_def recorded_step_def drain_def split_def Let_def heard_all_def outward_lease_def)
qed

section \<open>Dispatch\<close>

text \<open>An invariant of single steps that only depends on the events is one of \<^verbatim>\<open>dispatch\<close>.\<close>

lemma dispatch_queue_inv:
  assumes "\<And>i mg e. P i mg \<Longrightarrow> ok e \<Longrightarrow> P (Suc i) (fst (step_event (env i) e mg))"
    and "\<And>aid why. ok (EvActionFailed aid why)"
    and "P i mg" "list_all ok q"
  shows "\<exists>k. P k (dispatch_queue env i q mg)"
  using assms(1,3,4)
proof (induction env i q mg rule: dispatch_queue.induct)
  case (2 env' i e q mg)
  obtain mg' fs where s: "step_event (env' i) e mg = (mg', fs)" by fastforce
  have "list_all ok fs"
    using step_event_failures(2) [of _ "env' i" e mg] assms(2) by (fastforce simp: s list_all_iff)
  moreover have "P (Suc i) mg'" using 2(2) [OF 2(3), of e] 2(4) s by simp
  ultimately show ?case using 2 s by auto
qed auto

section \<open>Invariants of the manager\<close>

text \<open>Managers that differ in nothing but counters, captured packets and port traces.\<close>

definition same_core :: "Manager \<Rightarrow> Manager \<Rightarrow> bool" where
  "same_core mg mg' \<longleftrightarrow> mgMachine mg' = mgMachine mg \<and> outward_lease mg' = outward_lease mg
     \<and> mgEvents mg' = mgEvents mg \<and> mgJournal mg' = mgJournal mg \<and> mgSeq mg' = mgSeq mg
     \<and> mgStats mg' ''LeasesAcquired'' = mgStats mg ''LeasesAcquired'' \<and> mgStats mg' ''LeasesLost'' = mgStats mg ''LeasesLost''"

lemma same_core_simps [simp]:
  "same_core mg mg"
  "f \<notin> {''LeasesAcquired'', ''LeasesLost''} \<Longrightarrow> same_core mg (bump f mg') \<longleftrightarrow> same_core mg mg'"
  "same_core mg (captured c mg') \<longleftrightarrow> same_core mg mg'"
  "same_core mg (mg'\<lparr>mgRequests := q\<rparr>) \<longleftrightarrow> same_core mg mg'"
  "same_core mg (mg'\<lparr>mgStopping := st\<rparr>) \<longleftrightarrow> same_core mg mg'"
  by (auto simp: same_core_def outward_lease_def)

locale manager_invariant =
  fixes cfg :: Config and b :: clockBridge and att :: bool
    and I :: "Instant \<Rightarrow> Manager \<Rightarrow> bool" and ok :: "Event \<Rightarrow> bool"
  assumes new: "NewManager b cfg = Inr mg \<Longrightarrow> I 0 mg"
    and step: "I now mg \<Longrightarrow> now \<le> tNow t \<Longrightarrow> tNow t \<le> 2 ^ 62 \<Longrightarrow> (\<And>a. att \<Longrightarrow> tTaken t a) \<Longrightarrow> ok ev
      \<Longrightarrow> I (tNow t) (fst (step_event t ev mg))"
    and later: "I now mg \<Longrightarrow> now \<le> now' \<Longrightarrow> I now' mg"
    and quiet: "I now mg \<Longrightarrow> same_core mg mg' \<Longrightarrow> I now mg'"
    and closed: "I now mg \<Longrightarrow> cARP cfg \<Longrightarrow> I now (mg\<lparr>mgJournal := mgJournal mg @ [e]\<rparr>)"
    and ok_simple: "ok EvStart" "ok EvStop" "ok (EvTimerFired tm)" "ok EvRelease" "ok EvConflictDetected"
      "ok EvAddressLost" "ok (EvSetHostname name)" "ok (EvActionFailed aid why)"
    and ok_received: "Decode raw = Inr msg \<Longrightarrow> ok (EvReceived (Some msg) raw dst)"
    and ok_arp: "cARP cfg \<Longrightarrow> ok (EvARPReceived (Some p))"
begin

lemma dispatched:
  assumes "I now mg" "clocked now env now'" "att \<Longrightarrow> attentive env" "ok ev"
  shows "I now' (manager_dispatch env ev mg)"
proof -
  have mono: "now \<le> tNow (env i)" "tNow (env i) \<le> tNow (env (Suc i))" "tNow (env i) \<le> now'" "tNow (env i) \<le> 2 ^ 62" for i
    using assms(2) by (auto simp: clocked_def) (meson order_trans)
  have "\<exists>k. I (tNow (env k)) (dispatch_queue env 0 [ev] mg)"
  proof (rule dispatch_queue_inv)
    fix i mg e assume "I (tNow (env i)) mg" "ok e"
    then have "I (tNow (env i)) (fst (step_event (env i) e mg))"
      using mono(4) assms(3) by (intro step) (auto simp: attentive_def)
    then show "I (tNow (env (Suc i))) (fst (step_event (env i) e mg))" using mono(2) by (rule later)
  next
    show "I (tNow (env 0)) mg" using later [OF assms(1) mono(1)] .
  qed (simp_all add: ok_simple assms(4))
  then show ?thesis using later mono(3) by (auto simp: manager_dispatch_def)
qed

lemma requests_kept: "mgRequests (manager_dispatch env ev mg) = mgRequests mg"
proof -
  have "\<exists>k::nat. mgRequests (dispatch_queue env 0 [ev] mg) = mgRequests mg"
    using dispatch_queue_inv [of "\<lambda>_ x. mgRequests x = mgRequests mg" "\<lambda>_. True" env 0 mg "[ev]"]
    by (simp add: step_event_frame)
  then show ?thesis by (simp add: manager_dispatch_def)
qed

lemma requested:
  assumes "I now mg \<and> list_all ok (mgRequests mg)" "ok ev"
  shows "I now (snd (requestQueued ev mg)) \<and> list_all ok (mgRequests (snd (requestQueued ev mg)))"
  using assms quiet [of now mg] by (auto simp: requestQueued_def)

lemma inputs:
  assumes "I now mg \<and> list_all ok (mgRequests mg)" "clocked now env now'" "att \<Longrightarrow> attentive env" "ready cfg inp"
  shows "I now' (snd (run_input env w why inp mg)) \<and> list_all ok (mgRequests (snd (run_input env w why inp mg)))"
proof -
  have le: "now \<le> now'" using assms(2) unfolding clocked_def by (meson order_trans)
  have q: "I now mg'" if "same_core mg mg'" for mg' using quiet [OF _ that] assms(1) by blast
  have l: "I now' mg'" if "same_core mg mg'" for mg' using later [OF q [OF that] le] .
  have dq: "I now' (manager_dispatch env ev mg')" if "same_core mg mg'" "ok ev" for ev mg'
    using q [OF that(1)] that(2) assms(3) by (intro dispatched [OF _ assms(2)])
  have c: "I now' (mg\<lparr>mgJournal := mgJournal mg @ [e]\<rparr>)" if "cARP cfg" for e
    using later [OF closed le] assms(1) that by blast
  show ?thesis
    using assms(1,4)
    by (cases inp) (auto simp: run_input_def shutdown_def onInbound_def manager_onARP_def Let_def requests_kept
        ok_simple ok_received ok_arp dq l c split: option.split sum.split list.split)
qed

lemma managed_invariant: "managed cfg b att now mg \<Longrightarrow> I now mg \<and> list_all ok (mgRequests mg)"
proof (induction rule: managed.induct)
  case (made mg)
  then show ?case using new
    by (auto simp: NewManager_def new_manager_def split: if_splits sum.splits)
next
  case (run now mg env now')
  then show ?case using dispatched [OF _ run.hyps(2,3) ok_simple(1)] by (simp add: requests_kept)
next
  case (input now mg env now' inp w why)
  then show ?case using inputs by blast
next
  case (release now mg)
  show ?case using requested [OF release.IH ok_simple(4)] by (simp add: manager_Release_def)
next
  case (conflict now mg)
  show ?case using requested [OF conflict.IH ok_simple(5)] by (simp add: ReportConflict_def)
next
  case (address now mg)
  show ?case using requested [OF address.IH ok_simple(6)] by (simp add: ReportAddressLost_def)
next
  case (named now mg name)
  then show ?case using requested [OF named.IH ok_simple(7) [of name]]
    by (auto simp: SetHostname_def split_def split: prod.split bool.split)
qed

end

end
