(* ===== verification/Lease_Noise.thy ===== *)
theory Lease_Noise
  imports Lease_Run
begin

text \<open>
  How many events a step can deliver: the actions that become events, and the steps of an
  acquisition that emit none or one of them.
\<close>

section \<open>Actions that become events\<close>

fun loud :: "ActionBody \<Rightarrow> bool" where
  "loud (ActLeaseAcquired _ _) \<longleftrightarrow> True"
| "loud (ActLeaseChanged _) \<longleftrightarrow> True"
| "loud (ActLeaseRenewed _) \<longleftrightarrow> True"
| "loud (ActLeaseLost _) \<longleftrightarrow> True"
| "loud (ActFailed _ _) \<longleftrightarrow> True"
| "loud _ \<longleftrightarrow> False"

definition noise :: "Machine \<Rightarrow> nat" where
  "noise m = length (filter (\<lambda>a. loud (Body a)) (out m))"

lemma noise_stamp [simp]: "noise (stamp b m) = noise m + of_bool (loud b)"
  by (simp add: noise_def stamp_def)

lemma noise_updates [simp]:
  "noise (m\<lparr>state := x2\<rparr>) = noise m" "noise (m\<lparr>startedAt := x3\<rparr>) = noise m" "noise (m\<lparr>started := x4\<rparr>) = noise m"
  "noise (m\<lparr>xid := x5\<rparr>) = noise m" "noise (m\<lparr>retransmits := x6\<rparr>) = noise m" "noise (m\<lparr>sendFailures := x7\<rparr>) = noise m"
  "noise (m\<lparr>restarts := x8\<rparr>) = noise m" "noise (m\<lparr>offer := x9\<rparr>) = noise m" "noise (m\<lparr>requestSentAt := x10\<rparr>) = noise m"
  "noise (m\<lparr>fr := x14\<rparr>) = noise m" "noise (m\<lparr>lease := x15\<rparr>) = noise m" "noise (m\<lparr>haveLse := x16\<rparr>) = noise m"
  "noise (m\<lparr>resume := x17\<rparr>) = noise m" "noise (m\<lparr>rebootAddr := x18\<rparr>) = noise m" "noise (m\<lparr>sub := x19\<rparr>) = noise m"
  "noise (m\<lparr>probing := x20\<rparr>) = noise m" "noise (m\<lparr>haveProbe := x21\<rparr>) = noise m" "noise (m\<lparr>nameOnWire := x23\<rparr>) = noise m"
  "noise (m\<lparr>haveARPAction := x25\<rparr>) = noise m" "noise (m\<lparr>panicked := x26\<rparr>) = noise m" "noise (m\<lparr>out := []\<rparr>) = 0"
  by (simp_all add: noise_def)

lemma noise_basic [simp]:
  "noise (journal ns m) = noise m" "noise (journal_notes ns m) = noise m" "noise (set_timer t d m) = noise m"
  "noise (cancel t m) = noise m" "noise (send msg dst m) = noise m" "noise (snd (as4 ad m)) = noise m"
  "noise (snd (base now ty m)) = noise m" "noise (armDeadline now t ts has m) = noise m"
  "noise (snd (settleForcerenew l r m)) = noise m" "noise (beginRenewalTransaction now rnd m) = noise m"
  "noise (acdIdle m) = noise m"
  by (simp_all add: journal_def journal_notes_def set_timer_def cancel_def send_def as4_def base_def Let_def
      armDeadline_def settleForcerenew_def beginRenewalTransaction_def acdIdle_def split: option.split)

lemma noise_cancelAll [simp]: "noise (cancelAll m) = noise m"
proof -
  have "noise (fold cancel ts m) = noise m" for ts by (induction ts arbitrary: m) simp_all
  then show ?thesis by (simp add: cancelAll_def)
qed

lemma noise_sends [simp]:
  "noise (sendDiscover now rnd m) = noise m" "noise (sendReboot now rnd m) = noise m" "noise (sendRenewal now m) = noise m"
  "offer m \<noteq> None \<Longrightarrow> noise (sendRequest now rnd m) = noise m" "noise (stop m) = noise m + of_bool (haveLse m)"
  by (auto simp: sendDiscover_def sendReboot_def sendRenewal_def sendRequest_def stop_def halt_def dropLease_def Let_def
      split_def split: option.split)

lemma noise_begin: "noise (beginAcquisition now rnd w m) = noise m"
  by (simp add: beginAcquisition_def takeResume_def Let_def split_def split: option.split)

lemma noise_fresh: "noise (enterBound_fresh now rnd l m) = noise m + 1"
  by (simp add: enterBound_fresh_def bind_lease_def announceHostname_def enterRenewing_def Let_def split_def)

lemma step_noise: "length (mgEvents (fst (step_event t ev mg))) \<le> length (mgEvents mg) + noise (Step (tNow t) (tRnd t) ev (mgMachine mg))"
proof -
  have one: "length (mgEvents (fst (execute t a mg))) \<le> length (mgEvents mg) + of_bool (loud (Body a))" for a mg
    by (cases "Body a") (auto simp: action_defs emit_def split: sum.split)
  have all: "length (mgEvents (fst (execute_all t as mg))) \<le> length (mgEvents mg) + length (filter (\<lambda>a. loud (Body a)) as)" for as mg
  proof (induction as arbitrary: mg)
    case (Cons a as)
    from Cons.IH [of "fst (execute t a mg)"] one [of a mg] show ?case by (auto simp: split_def Let_def split: if_splits)
  qed simp
  let ?m = "Step (tNow t) (tRnd t) ev (mgMachine mg)"
  let ?mg = "(mirror ?m mg)\<lparr>mgJournal := mgJournal (mirror ?m mg)
    @ [NewJournalEntry (mgSeq mg) (tNow t) (tRnd t) ev (state (mgMachine mg)) (state ?m) (out ?m)]\<rparr>"
  have "length (mgEvents (fst (execute_all t (out ?m) ?mg))) \<le> length (mgEvents mg) + noise ?m"
    using all [of "out ?m" ?mg] by (simp add: noise_def)
  then show ?thesis by (simp add: step_event_def recorded_step_def drain_def split_def Let_def)
qed

lemma noise_start: "state m = StateStopped \<Longrightarrow> noise (Step now rnd EvStart m) = 0"
  by (simp add: Step_def dispatch_def stepStopped_def noise_begin)

lemma noise_offer:
  assumes "state m = StateSelecting" "answers m MsgOffer x" "usable_offer x" "\<not> PIPv6OnlyPreferred (params m)"
  shows "noise (Step now rnd (EvReceived (Some x) raw dst) m) = 0"
proof -
  obtain m1 where "Step now rnd (EvReceived (Some x) raw dst) m = sendRequest now rnd m1" "offer m1 = Some x" "out m1 = []"
    using offer_taken [OF assms, of now rnd raw dst] by blast
  then show ?thesis by (simp add: noise_def [of m1])
qed

lemma noise_ack:
  "PConflict (params m) = ConflictOff \<Longrightarrow> noise (afterAck now rnd l (journal_notes ns (m\<lparr>out := []\<rparr>))) = 1"
  by (simp add: afterAck_def enterBound_def noise_fresh)

lemma noise_exchange:
  assumes "state m = StateSelecting" "\<not> PIPv6OnlyPreferred (params m)" "answers m MsgOffer x" "usable_offer x"
    and m2: "m2 = Step t2 r2 (EvReceived (Some x) raw2 dst2) m"
    and "answers m2 MsgAck y" "\<not> hasRapidOption (Some y)" "leaseFromAck y t2 = Some (l, ns)"
    and "(\<exists>r. ForcerenewNonceAlgorithms (Options x) = Some (Inr r)) \<longrightarrow> validForcerenewNonce y \<noteq> None"
    and "PConflict (params m) = ConflictOff"
  shows "noise (Step t3 r3 (EvReceived (Some y) raw3 dst3) m2) = 1"
proof -
  from offer_taken [OF assms(1,3,4,2), of t2 r2 raw2 dst2] obtain m1 where
    m1: "m2 = sendRequest t2 r2 m1" "offer m1 = Some x" "params m1 = params m" using m2 by auto
  have "Is4 (YIAddr x)" using assms(4) by (simp add: usable_offer_def)
  from sendRequest_effect [OF m1(2) this, of t2 r2] have e: "state m2 = StateRequesting" "offer m2 = Some x"
    "params m2 = params m" "requestSentAt m2 = t2" by (auto simp: m1)
  have "Step t3 r3 (EvReceived (Some y) raw3 dst3) m2 = afterAck t3 r3 l (journal_notes ns (m2\<lparr>out := []\<rparr>))"
    by (rule ack_taken [OF e(1) assms(6,7) e(2) assms(9)]) (use e assms(2,8) in simp_all)
  with e(3) assms(10) show ?thesis by (simp add: noise_ack)
qed

end
