(* ===== verification/Proto_Legal.thy ===== *)
theory Proto_Legal
  imports Proto_Properties
begin

text \<open>
  What the client puts on the wire: every message it sends is one of the rows of RFC 2131,
  table 5, and fits the encoder. One lemma per method that sends, then the handlers.
\<close>

section \<open>Messages\<close>

text \<open>
  The columns of table 5 that name a DHCPDISCOVER, the DHCPREQUEST of SELECTING and INIT-REBOOT,
  that of RENEWING and REBINDING, a DHCPDECLINE and a DHCPRELEASE, with the destinations.
\<close>

definition has_option :: "byte \<Rightarrow> message \<Rightarrow> bool" where
  "has_option c msg \<longleftrightarrow> Options msg c \<noteq> None"

definition table5 :: "message \<Rightarrow> Dest \<Rightarrow> bool" where
  "table5 msg dst \<longleftrightarrow>
     Op msg = BootRequest \<and> YIAddr msg = NoAddr \<and> SIAddr msg = NoAddr \<and> GIAddr msg = NoAddr
     \<and> ((Type msg = Some MsgDiscover \<and> CIAddr msg = NoAddr \<and> \<not> has_option OptServerID msg \<and> Broadcast dst)
      \<or> (Type msg = Some MsgRequest \<and> CIAddr msg = NoAddr \<and> has_option OptRequestedIP msg \<and> Broadcast dst)
      \<or> (Type msg = Some MsgRequest \<and> Is4 (CIAddr msg) \<and> \<not> IsUnspecified (CIAddr msg)
          \<and> \<not> has_option OptRequestedIP msg \<and> \<not> has_option OptServerID msg
          \<and> (Broadcast dst \<or> Src dst = CIAddr msg))
      \<or> (Type msg = Some MsgDecline \<and> CIAddr msg = NoAddr \<and> has_option OptRequestedIP msg
          \<and> has_option OptServerID msg \<and> Broadcast dst
          \<and> dom (Options msg) \<subseteq> {OptMessageType, OptClientID, OptRequestedIP, OptServerID, OptMessage})
      \<or> (Type msg = Some MsgRelease \<and> Is4 (CIAddr msg) \<and> \<not> IsUnspecified (CIAddr msg)
          \<and> \<not> has_option OptRequestedIP msg \<and> has_option OptServerID msg \<and> \<not> Broadcast dst \<and> Src dst = CIAddr msg
          \<and> dom (Options msg) \<subseteq> {OptMessageType, OptClientID, OptServerID, OptMessage}))"

definition small :: "message \<Rightarrow> bool" where
  "small msg \<longleftrightarrow> length (CHAddr msg) \<le> chaddrLen \<and> (\<forall>c v. Options msg c = Some v \<longrightarrow> length v \<le> 255)"

text \<open>The parameters whose values an option can carry.\<close>

definition fits :: "Params \<Rightarrow> bool" where
  "fits p \<longleftrightarrow> length (PCHAddr p) \<le> chaddrLen \<and> length (PClientID p) \<le> 255 \<and> length (PVendorClass p) \<le> 255
     \<and> length (PuserClass p) \<le> 255 \<and> length (Pfqdn p) \<le> 255 \<and> length (parameterList p) < 255"

lemma small_encodable: "small msg \<Longrightarrow> encodable msg"
  by (simp add: small_def encodable_def)

lemma small_set [simp]: "length v \<le> 255 \<Longrightarrow> small msg \<Longrightarrow> small (set_option_value c v msg)"
  by (simp add: small_def set_option_value_def)

lemma ciaddr_update [simp]:
  "small (msg\<lparr>CIAddr := a\<rparr>) = small msg" "has_option c (msg\<lparr>CIAddr := a\<rparr>) = has_option c msg"
  "Type (msg\<lparr>CIAddr := a\<rparr>) = Type msg"
  by (simp_all add: small_def has_option_def Type_def)

lemma set_option_fields [simp]:
  "Op (set_option_value c v msg) = Op msg" "YIAddr (set_option_value c v msg) = YIAddr msg"
  "SIAddr (set_option_value c v msg) = SIAddr msg" "GIAddr (set_option_value c v msg) = GIAddr msg"
  "CIAddr (set_option_value c v msg) = CIAddr msg"
  "has_option c' (set_option_value c v msg) \<longleftrightarrow> c' = c \<or> has_option c' msg"
  "dom (Options (set_option_value c v msg)) = insert c (dom (Options msg))"
  "c \<noteq> OptMessageType \<Longrightarrow> Type (set_option_value c v msg) = Type msg"
  by (auto simp: set_option_value_def has_option_def Type_def)

lemma base_message:
  "Op (fst (base now t m)) = BootRequest" "YIAddr (fst (base now t m)) = NoAddr" "SIAddr (fst (base now t m)) = NoAddr"
  "GIAddr (fst (base now t m)) = NoAddr" "CIAddr (fst (base now t m)) = NoAddr" "Type (fst (base now t m)) = Some t"
  "\<not> has_option OptRequestedIP (fst (base now t m))" "\<not> has_option OptServerID (fst (base now t m))"
  by (simp_all add: base_def base_options_def Let_def empty_request_def SetType_def)
    (simp_all add: Type_def has_option_def)

lemma base_small:
  assumes "fits (params m)" "length (hostname m) \<le> 255"
  shows "small (fst (base now t m))"
proof -
  have "small (SetType t (empty_request (xid m) s f (PCHAddr (params m))))" for s f
    using assms(1) by (simp add: small_def fits_def SetType_def empty_request_def)
  moreover have "length (be32 w) \<le> 255" for w by simp
  ultimately show ?thesis
    using assms by (simp add: base_def base_options_def Let_def fits_def EncodeForcerenewNonceCapable_def)
qed

lemma terminal_message:
  "Op (terminalBase t x m) = BootRequest" "YIAddr (terminalBase t x m) = NoAddr" "SIAddr (terminalBase t x m) = NoAddr"
  "GIAddr (terminalBase t x m) = NoAddr" "CIAddr (terminalBase t x m) = NoAddr" "Type (terminalBase t x m) = Some t"
  "\<not> has_option OptRequestedIP (terminalBase t x m)"
  "dom (Options (terminalBase t x m)) \<subseteq> {OptMessageType, OptClientID}"
  "fits (params m) \<Longrightarrow> small (terminalBase t x m)"
  by (simp_all add: terminalBase_def Let_def empty_request_def SetType_def)
    (auto simp: Type_def has_option_def small_def fits_def set_option_value_def)

lemma as4_small [simp]: "length (fst (as4 a m)) \<le> 255"
  by (simp add: as4_def As4_def split: addr.split)

section \<open>The methods\<close>

text \<open>\<open>arp\<close> says whether the client does conflict detection, and so whether it may send ARP frames.\<close>

fun legal_action :: "bool \<Rightarrow> ActionBody \<Rightarrow> bool" where
  "legal_action arp (ActSend msg dst) \<longleftrightarrow> table5 msg dst \<and> small msg"
| "legal_action arp (ActSendARP _) \<longleftrightarrow> arp"
| "legal_action arp _ \<longleftrightarrow> True"

definition good_addr :: "Lease \<Rightarrow> bool" where
  "good_addr l \<longleftrightarrow> Is4 (paddr (LAddr l)) \<and> \<not> IsUnspecified (paddr (LAddr l))"

text \<open>
  Everything sent so far in this step is legal, what the next message takes its values from
  fits, an address under probe is one to announce, and there is no sub-machine without
  conflict detection, and the parameters are still those of \<^verbatim>\<open>New\<close>.
\<close>

definition lawful :: "Params \<Rightarrow> Machine \<Rightarrow> bool" where
  "lawful P m \<longleftrightarrow> list_all (\<lambda>a. legal_action (PConflict P \<noteq> ConflictOff) (Body a)) (out m)
     \<and> fits P \<and> length (hostname m) \<le> 255 \<and> (haveProbe m \<longrightarrow> good_addr (probing m))
     \<and> (sub m \<noteq> None \<longrightarrow> PConflict P \<noteq> ConflictOff) \<and> params m = P"

lemma granted_good: "granted_lease l \<Longrightarrow> good_addr l" "held_ok l \<Longrightarrow> good_addr l"
  by (simp_all add: granted_lease_def good_addr_def held_ok_def)

lemma lawful_fits: "lawful P m \<Longrightarrow> fits (params m)" "lawful P m \<Longrightarrow> length (hostname m) \<le> 255"
  by (simp_all add: lawful_def)

lemma lawful_stamp [simp]: "lawful P (stamp b m) \<longleftrightarrow> lawful P m \<and> legal_action (PConflict P \<noteq> ConflictOff) b"
  by (auto simp: lawful_def stamp_def)

lemma lawful_basic [simp]:
  "lawful P (journal ns m) = lawful P m" "lawful P (journal_notes ns m) = lawful P m" "lawful P (failed r ns m) = lawful P m"
  "lawful P (set_timer t d m) = lawful P m" "lawful P (cancel t m) = lawful P m"
  "lawful P (send msg dst m) \<longleftrightarrow> lawful P m \<and> table5 msg dst \<and> small msg"
  by (simp_all add: journal_def journal_notes_def failed_def set_timer_def cancel_def send_def)

lemma lawful_updates [simp]:
  "lawful P (m\<lparr>state := x2\<rparr>) = lawful P m" "lawful P (m\<lparr>startedAt := x3\<rparr>) = lawful P m" "lawful P (m\<lparr>started := x4\<rparr>) = lawful P m"
  "lawful P (m\<lparr>xid := x5\<rparr>) = lawful P m" "lawful P (m\<lparr>retransmits := x6\<rparr>) = lawful P m"
  "lawful P (m\<lparr>sendFailures := x7\<rparr>) = lawful P m" "lawful P (m\<lparr>restarts := x8\<rparr>) = lawful P m"
  "lawful P (m\<lparr>offer := x9\<rparr>) = lawful P m" "lawful P (m\<lparr>requestSentAt := x10\<rparr>) = lawful P m"
  "lawful P (m\<lparr>rapidCounts := x11\<rparr>) = lawful P m" "lawful P (m\<lparr>v6OnlyCounts := x12\<rparr>) = lawful P m"
  "lawful P (m\<lparr>frCounts := x13\<rparr>) = lawful P m" "lawful P (m\<lparr>fr := x14\<rparr>) = lawful P m" "lawful P (m\<lparr>lease := x15\<rparr>) = lawful P m"
  "lawful P (m\<lparr>haveLse := x16\<rparr>) = lawful P m" "lawful P (m\<lparr>resume := x17\<rparr>) = lawful P m"
  "lawful P (m\<lparr>rebootAddr := x18\<rparr>) = lawful P m"
  "lawful P (m\<lparr>nameOnWire := x23\<rparr>) = lawful P m" "lawful P (m\<lparr>arpAction := x24\<rparr>) = lawful P m"
  "lawful P (m\<lparr>haveARPAction := x25\<rparr>) = lawful P m" "lawful P (m\<lparr>panicked := x26\<rparr>) = lawful P m"
  by (simp_all add: lawful_def)

lemma lawful_as4 [simp]: "lawful P (snd (as4 a m)) = lawful P m"
  by (simp add: as4_def split: option.split)

lemma lawful_base [simp]: "lawful P (snd (base now t m)) = lawful P m"
  by (simp add: base_def Let_def)

lemma lawful_sendARP: "lawful P m \<Longrightarrow> sub m \<noteq> None \<Longrightarrow> lawful P (sendARP p m)"
  by (simp add: sendARP_def Let_def) (simp add: lawful_def)

lemma lawful_cancelAll [simp]: "lawful P (cancelAll m) = lawful P m"
proof -
  have "lawful P (fold cancel ts m) = lawful P m" for ts by (induction ts arbitrary: m) simp_all
  then show ?thesis by (simp add: cancelAll_def)
qed

lemma lawful_acdIdle: "lawful P m \<Longrightarrow> lawful P (acdIdle m)"
  by (simp add: acdIdle_def lawful_def)

lemma lawful_idle:
  "lawful P m \<Longrightarrow> lawful P (toInitIdle m)" "lawful P m \<Longrightarrow> lawful P (halt r m)" "lawful P m \<Longrightarrow> lawful P (stop m)"
  "lawful P m \<Longrightarrow> lawful P (releaseBeforeBound m)" "lawful P m \<Longrightarrow> lawful P (linkDown m)"
  "lawful P m \<Longrightarrow> lawful P (waitForIPv6 st s m)"
  by (simp_all add: toInitIdle_def halt_def dropLease_def stop_def releaseBeforeBound_def linkDown_def waitForIPv6_def
      Let_def lawful_acdIdle)

lemma lawful_quiet [simp]:
  "lawful P (dropLease r m) = lawful P m" "lawful P (beginRenewalTransaction now rnd m) = lawful P m"
  "lawful P (refuseRapid st why m) = lawful P m" "lawful P (refuseForcerenew why' m) = lawful P m"
  "lawful P (snd (v6OnlyValue msg m)) = lawful P m"
  "lawful P (ignored ev st m) = lawful P m" "lawful P (armDeadline now t ts has m) = lawful P m"
  by (simp_all add: dropLease_def beginRenewalTransaction_def refuseRapid_def refuseForcerenew_def v6OnlyValue_def ignored_def
      armDeadline_def Let_def split: option.split sum.split)

lemma lawful_kept [simp]: "lawful P (noteV6OnlyKept msg st m) = lawful P m"
  using noteV6OnlyKept_cases [of msg st m] by auto

lemma lawful_discover: "lawful P m \<Longrightarrow> lawful P (sendDiscover now rnd m)"
  using lawful_fits base_small
  by (simp add: sendDiscover_def Let_def split_def table5_def base_message to_broadcast_def EncodeRapidCommit_def)

lemma lawful_reboot: "lawful P m \<Longrightarrow> lawful P (sendReboot now rnd m)"
  using lawful_fits base_small
  by (simp add: sendReboot_def Let_def split_def table5_def base_message to_broadcast_def)

lemma lawful_request: "lawful P m \<Longrightarrow> lawful P (sendRequest now rnd m)"
  using lawful_fits base_small
  by (simp add: sendRequest_def Let_def split_def table5_def base_message to_broadcast_def lawful_idle
      split: option.split)

lemma lawful_renewal: "lawful P m \<Longrightarrow> good_addr (lease m) \<Longrightarrow> lawful P (sendRenewal now m)"
  using lawful_fits base_small
  by (simp add: sendRenewal_def Let_def split_def table5_def base_message to_broadcast_def good_addr_def)

lemma terminal_fields:
  "terminalFields m = (a, sid, None) \<Longrightarrow> Is4 a \<and> \<not> IsUnspecified a"
  by (auto simp: terminalFields_def Let_def split: if_splits)

lemma decline_message [simp]: "length declineMessage \<le> 255" "length releaseMessage \<le> 255"
  by (simp_all add: declineMessage_def releaseMessage_def)

lemma terminal_options:
  "Options (terminalBase t x m) c = Some v \<Longrightarrow> c = OptMessageType \<or> c = OptClientID"
  using terminal_message(8) [of t x m] by (auto simp: dom_def)

lemma lawful_decline: "lawful P m \<Longrightarrow> lawful P (sendDecline rnd m)"
  using lawful_fits(1)
  by (auto simp: sendDecline_def Let_def split_def table5_def terminal_message(1-7,9) to_broadcast_def
      dest: terminal_options split: option.split)

lemma lawful_release: "lawful P m \<Longrightarrow> lawful P (sendRelease rnd m)"
  using lawful_fits(1) terminal_fields [of m "fst (terminalFields m)" "fst (snd (terminalFields m))"]
  by (auto simp: sendRelease_def Let_def split_def table5_def terminal_message(1-7,9) prod_eq_iff
      dest: terminal_options split: option.split)

lemma lawful_resume: "lawful P m \<Longrightarrow> lawful P (snd (takeResume now m))"
  by (simp add: takeResume_def Let_def split: option.split)

lemma lawful_begin: "lawful P m \<Longrightarrow> lawful P (beginAcquisition now rnd w m)"
  by (simp add: beginAcquisition_def Let_def split_def lawful_discover lawful_reboot lawful_resume)

lemma lawful_restarts:
  "lawful P m \<Longrightarrow> lawful P (restartPaced now rnd w m)" "lawful P m \<Longrightarrow> lawful P (nak_restart now rnd msg m)"
  "lawful P m \<Longrightarrow> lawful P (declineAndRestart now rnd m)" "lawful P m \<Longrightarrow> lawful P (release rnd m)"
  by (simp_all add: restartPaced_def nak_restart_def declineAndRestart_def release_def Let_def split_def
      lawful_begin lawful_decline lawful_release lawful_idle)

lemma lawful_renewing:
  assumes "lawful P m" "good_addr (lease m)"
  shows "lawful P (enterRenewing now rnd m)" "lawful P (enterRebinding now rnd fresh m)"
  using assms by (simp_all add: enterRenewing_def enterRebinding_def beginRenewalTransaction_def Let_def lawful_renewal)

lemma lawful_announce:
  assumes "lawful P m" "state m \<in> held_states \<longrightarrow> good_addr (lease m)"
  shows "lawful P (snd (announceHostname now rnd m))"
  using assms lawful_renewing(1) [of P m now rnd] by (auto simp: announceHostname_def Let_def held_states_def lawful_renewal)

lemma lawful_hostname:
  assumes "lawful P m" "state m \<in> held_states \<longrightarrow> good_addr (lease m)"
  shows "lawful P (takeHostname now rnd name m)"
proof -
  have "lawful P (m\<lparr>hostname := name\<rparr>)" if "ValidateHostname name"
    using assms(1) that by (auto simp: lawful_def ValidateHostname_def)
  then show ?thesis
    using assms lawful_announce [of P "m\<lparr>hostname := name\<rparr>" now rnd]
    by (auto simp: takeHostname_def Let_def split_def)
qed

lemma settle_legal [simp]:
  "LAddr (fst (settleForcerenew l r m)) = LAddr l" "lawful P (snd (settleForcerenew l r m)) = lawful P m"
  by (simp_all add: settleForcerenew_def Let_def)

lemma bind_legal:
  "lawful P m \<Longrightarrow> lawful P (snd (bind_lease now l0 r m))"
  "lease (snd (bind_lease now l0 r m)) = fst (bind_lease now l0 r m)" "LAddr (fst (bind_lease now l0 r m)) = LAddr l0"
  by (simp_all add: bind_lease_def Let_def split_def)

lemma lawful_fresh: "lawful P m \<Longrightarrow> good_addr l \<Longrightarrow> lawful P (enterBound_fresh now rnd l m)"
  using bind_legal(1) [of P m now l False] bind_legal(2,3) [of now l False m]
  by (auto simp: enterBound_fresh_def Let_def split_def good_addr_def intro!: lawful_announce)

section \<open>Conflict detection\<close>

lemma lawful_ready: "lawful P m \<Longrightarrow> lawful P (acdReady now rnd m)"
  by (auto simp: acdReady_def Let_def lawful_def [of P m] intro!: lawful_fresh) (simp_all add: lawful_def)

lemma lawful_acd: "lawful P m \<Longrightarrow> lawful P (apply_acd_action now rnd a m)"
  by (cases a) (auto simp: apply_acd_action_def Let_def lawful_ready lawful_restarts
      lawful_sendARP split: option.split)

lemma lawful_step_acd: "lawful P m \<Longrightarrow> sub m \<noteq> None \<Longrightarrow> lawful P (step_acd now rnd ev a m)"
proof -
  assume m: "lawful P m" "sub m \<noteq> None"
  have "lawful P (fold (apply_acd_action now rnd) acts m)" if "lawful P m" for acts m
    using that by (induction acts arbitrary: m) (simp_all add: lawful_acd)
  moreover have "lawful P (m\<lparr>sub := Some x\<rparr>)" for x using m by (auto simp: lawful_def list_all_iff)
  ultimately show ?thesis by (simp add: step_acd_def applyACD_def split_def Let_def)
qed

lemma lawful_conflicts:
  "lawful P m \<Longrightarrow> lawful P (onARP now rnd pkt m)" "lawful P m \<Longrightarrow> lawful P (acdTimer now rnd m)"
  "lawful P m \<Longrightarrow> lawful P (startACD now rnd ad m)"
  by (simp_all add: onARP_def acdTimer_def startACD_def lawful_step_acd split: option.split)

lemma lawful_bound: "lawful P m \<Longrightarrow> good_addr l \<Longrightarrow> lawful P (enterBound now rnd l r m)"
  by (simp add: enterBound_def Let_def split_def lawful_fresh lawful_conflicts bind_legal)

lemma lawful_probing: "lawful P m \<Longrightarrow> good_addr l \<Longrightarrow> lawful P (enterProbing now rnd l m)"
proof -
  assume m: "lawful P m" and l: "good_addr l"
  have "lawful P ((cancel TimerRetransmit m)\<lparr>probing := l, haveProbe := True, state := StateProbing, offer := None,
      retransmits := 0, sendFailures := 0\<rparr>)"
    using m l by (simp add: lawful_def cancel_def stamp_def)
  then show ?thesis by (simp add: enterProbing_def lawful_conflicts)
qed

lemma lawful_ack: "lawful P m \<Longrightarrow> good_addr l \<Longrightarrow> lawful P (afterAck now rnd l m)"
  by (simp add: afterAck_def lawful_probing lawful_bound lawful_conflicts split: ConflictMode.split)

section \<open>Handlers\<close>

lemma ack_good: "leaseFromAck msg t = Some (l, ns) \<Longrightarrow> good_addr l"
  by (rule granted_good(1)) (rule leaseFromAck_granted)

lemma acceptable_lawful: "acceptable msg m = (r, m1) \<Longrightarrow> lawful P m1 = lawful P m \<and> state m1 = state m \<and> lease m1 = lease m"
  by (auto simp: acceptable_def split: option.splits if_splits)

lemma lawful_failed_action: "lawful P m \<Longrightarrow> lawful P (noteActionFailed now rnd aid why m)"
  by (simp add: noteActionFailed_def Let_def lawful_idle)

lemma lawful_rapid: "lawful P m \<Longrightarrow> lawful P (takeRapidAck now rnd msg m)"
  by (auto simp: takeRapidAck_def Let_def split: sum.split option.split intro!: lawful_ack dest: ack_good)

lemma lawful_refuses: "refusesRapidInRequesting msg m = (b, m1) \<Longrightarrow> lawful P m \<Longrightarrow> lawful P m1"
  by (auto simp: refusesRapidInRequesting_def Let_def split: if_splits option.splits)

lemma v6OnlyValue_lawful: "v6OnlyValue msg m = (r, m1) \<Longrightarrow> lawful P m \<Longrightarrow> lawful P m1"
  by (metis lawful_quiet(5) snd_conv)

lemma lawful_messages:
  assumes "lawful P m"
  shows "lawful P (selecting_message now rnd x m)" "lawful P (requesting_message now rnd x m)"
    "lawful P (rebooting_message now rnd x m)" "lawful P (renewal_message now rnd x m)"
proof -
  show "lawful P (selecting_message now rnd x m)"
    using assms by (auto simp: selecting_message_def Let_def lawful_rapid lawful_idle lawful_request
        dest: v6OnlyValue_lawful split: prod.split option.split)
  show "lawful P (requesting_message now rnd x m)"
    using assms by (auto simp: requesting_message_def Let_def lawful_restarts
        dest: lawful_refuses intro!: lawful_ack lawful_restarts(1) dest!: ack_good split: prod.split bool.split option.split)
  show "lawful P (rebooting_message now rnd x m)"
    using assms by (auto simp: rebooting_message_def Let_def lawful_restarts lawful_idle
        dest: v6OnlyValue_lawful intro!: lawful_ack dest!: ack_good split: prod.split option.split)
  show "lawful P (renewal_message now rnd x m)"
    using assms by (auto simp: renewal_message_def Let_def lawful_restarts
        intro!: lawful_bound dest!: ack_good split: option.split)
qed

lemma destination_lawful [simp]:
  "lawful P (snd (forcerenewDestinationIsUnicast dst m)) = lawful P m"
  "lease (snd (forcerenewDestinationIsUnicast dst m)) = lease m"
  "state (snd (forcerenewDestinationIsUnicast dst m)) = state m"
  by (simp_all add: forcerenewDestinationIsUnicast_def Let_def split_def)

lemma lawful_forcerenew:
  assumes "lawful P m" "state m \<in> held_states \<longrightarrow> good_addr (lease m)"
  shows "lawful P (takeForcerenew now rnd msg raw dst m)"
  using assms
  by (auto simp: takeForcerenew_def Let_def split_def held_states_def lawful_renewing split: option.split sum.split)

lemma lawful_dispatch:
  assumes "lawful P m" "state m \<in> held_states \<longrightarrow> good_addr (lease m)"
  shows "lawful P (dispatch now rnd ev m)"
proof -
  note basic = assms lawful_begin lawful_restarts lawful_idle lawful_discover lawful_failed_action lawful_conflicts
    lawful_hostname [OF assms]
  have x: "lawful P m1" if "acceptable msg m = (r, m1)" for msg r m1
    using acceptable_lawful [OF that] assms(1) by simp
  have "lawful P (stepStopped now rnd ev m)" "lawful P (stepInit now rnd ev m)" "lawful P (stepProbing now rnd ev m)"
    using basic by (simp_all add: stepStopped_def stepInit_def stepProbing_def split: Event.split)
  moreover have "lawful P (stepSelecting now rnd ev m)" "lawful P (stepRequesting now rnd ev m)"
    "lawful P (stepRebooting now rnd ev m)"
    using basic lawful_messages [OF x]
    by (auto simp: stepSelecting_def stepRequesting_def stepRebooting_def lawful_request lawful_reboot
        dest: x split: Event.split prod.split option.split)
  moreover have "lawful P (stepBound now rnd ev m)" "lawful P (stepRenewal now rnd ev m)" if "state m \<in> held_states"
    using basic that lawful_messages [OF x] lawful_renewing lawful_renewal
    by (auto simp: stepBound_def stepRenewal_def dest: x split: Event.split prod.split option.split)
  ultimately show ?thesis
    by (cases "state m") (simp_all add: dispatch_def held_states_def)
qed

lemma lawful_Step:
  assumes "lawful P m" "state m \<in> held_states \<longrightarrow> good_addr (lease m)"
  shows "lawful P (Step now rnd ev m)"
proof -
  have "lawful P (m\<lparr>out := []\<rparr>)" using assms(1) by (simp add: lawful_def)
  then show ?thesis
    using assms(2) lawful_dispatch [of P "m\<lparr>out := []\<rparr>"] lawful_forcerenew [of P "m\<lparr>out := []\<rparr>"]
    by (simp add: Step_def Let_def split: Event.split option.split)
qed

section \<open>Every execution\<close>

lemma prepared_fits:
  assumes "validate p = Inr ()" "length (PClientID p) \<le> 255" "length (PVendorClass p) \<le> 255"
    "length (parameterList p) < 255"
  shows "fits (prepared_params p)" "length (PHostname p) \<le> 255"
proof -
  have "length (case EncodeUserClass (PUserClass p) of Inl _ \<Rightarrow> [] | Inr v \<Rightarrow> v) \<le> 255"
    by (auto simp: EncodeUserClass_def encode_class_def length_concat comp_def split: sum.split)
  moreover have "length (case EncodeFQDN f n of Inl _ \<Rightarrow> [] | Inr v \<Rightarrow> v) \<le> 255" for f n
    by (auto simp: EncodeFQDN_def bind_res_eq_Inr Let_def split: sum.split if_splits)
  moreover have "length (PCHAddr p) \<le> 16 \<and> length (PHostname p) \<le> 255"
    using assms(1) by (auto simp: validate_def bind_res_eq_Inr ValidateHostname_def split: if_splits)
  moreover have "parameterList (prepared_params p) = parameterList p"
    by (simp add: prepared_params_def parameterList_def DefaultParameterList_def)
  ultimately show "fits (prepared_params p)" "length (PHostname p) \<le> 255"
    using assms(2-4) by (simp_all add: fits_def prepared_params_def)
qed

lemma reachable_lawful:
  assumes "reachable p now A V m" "length (PClientID p) \<le> 255" "length (PVendorClass p) \<le> 255"
    "length (parameterList p) < 255"
  shows "lawful (prepared_params p) m"
  using assms
proof (induction rule: reachable.induct)
  case (start m)
  then have "validate p = Inr ()" by (auto simp: New_def bind_res_def split: sum.splits if_splits)
  from prepared_fits [OF this start(2-4)] New_fields [OF start(1)] start(1) show ?case
    by (auto simp: lawful_def New_def bind_res_def split: sum.splits) (simp_all add: prepared_params_def)
next
  case (step now A V m now' ev A0 m' rnd)
  have "state m \<in> held_states \<longrightarrow> good_addr (lease m)"
    using reachable_granted [OF step.hyps(1)] reachable_held [OF step.hyps(1)] granted_good(1) by blast
  from lawful_Step [OF step.IH [OF step.prems] this] show ?case by (simp add: step.hyps(5))
qed

lemma reachable_params:
  assumes "reachable p now A V m" "length (PClientID p) \<le> 255" "length (PVendorClass p) \<le> 255"
    "length (parameterList p) < 255"
  shows "params m = prepared_params p"
  using reachable_lawful [OF assms] by (simp add: lawful_def)

lemma sent_legal:
  assumes "reachable p now A V m" "length (PClientID p) \<le> 255" "length (PVendorClass p) \<le> 255"
    "length (parameterList p) < 255" "b \<in> set (map Body (out m))"
  shows "legal_action (PConflict (params m) \<noteq> ConflictOff) b"
proof -
  have "\<forall>b \<in> set (map Body (out m)). legal_action (PConflict (params m) \<noteq> ConflictOff) b"
    using reachable_lawful [OF assms(1-4)] by (auto simp: lawful_def list_all_iff)
  with assms(5) show ?thesis by blast
qed


lemma start_sends:
  assumes "New p = Inr m" "PResume p = None" "PDesyncMin p = 0" "PDesyncMax p = 0"
  shows "\<exists>msg dst. ActSend msg dst \<in> set (map Body (out (Step now rnd EvStart m)))"
proof -
  note f = New_fields [OF assms(1)]
  have "desync (prepared_params p) r = 0" for r using assms(3,4) by (simp add: desync_def prepared_params_def i64_def)
  then show ?thesis
    using f assms(2)
    by (auto simp: Step_def Let_def dispatch_def stepStopped_def beginAcquisition_def takeResume_def
        sendDiscover_def split_def set_timer_def send_def stamp_def)
qed


end
