(* ===== verification/Lease_Manager_Properties.thy ===== *)
theory Lease_Manager_Properties
  imports Lease_Noise Proto_Legal
begin

text \<open>
  What holds of every execution of the lease manager: it holds, counts and reports what its
  machine holds, its journal replays, failures are fed back once and in order, and the durable
  record written from its events carries a lease over a restart.
\<close>

section \<open>The manager follows its machine\<close>

definition viewed :: "Config \<Rightarrow> clockBridge \<Rightarrow> bool \<Rightarrow> Instant \<Rightarrow> Manager \<Rightarrow> bool" where
  "viewed cfg b att now mg \<longleftrightarrow>
     (\<exists>p n A V. resume_params b cfg = Inr p \<and> reachable p n A V (mgMachine mg) \<and> n \<le> now \<and> follows V mg
       \<and> (att \<longrightarrow> heard_all mg))"

lemma NewManager_ok:
  assumes "NewManager b cfg = Inr mg"
  obtains p m where "resume_params b cfg = Inr p" "New p = Inr m" "mg = new_manager cfg m"
  using assms by (auto simp: NewManager_def split: if_splits sum.splits)

lemma viewed_step:
  assumes "viewed cfg b att now mg" "now \<le> tNow t" "tNow t \<le> 2 ^ 62" "\<And>a. att \<Longrightarrow> tTaken t a"
  shows "viewed cfg b att (tNow t) (fst (step_event t ev mg))"
proof -
  obtain p n A V where r: "resume_params b cfg = Inr p" "reachable p n A V (mgMachine mg)" "n \<le> now" "follows V mg"
    "att \<longrightarrow> heard_all mg" using assms(1) unfolding viewed_def by blast
  have "n \<le> tNow t" using r(3) assms(2) by simp
  from stepped [OF r(2) this assms(3)] r(1) step_event_follows [OF r(4)] r(5) assms(4) show ?thesis
    unfolding viewed_def step_event_frame(1) by (blast intro: step_event_heard)
qed

lemma viewed_later: "viewed cfg b att now mg \<Longrightarrow> now \<le> now' \<Longrightarrow> viewed cfg b att now' mg"
  unfolding viewed_def by (meson order_trans)

lemma viewed_core:
  assumes "viewed cfg b att now mg" "mgMachine mg' = mgMachine mg" "outward_lease mg' = outward_lease mg"
    "mgEvents mg' = mgEvents mg"
    "mgStats mg' ''LeasesAcquired'' = mgStats mg ''LeasesAcquired''" "mgStats mg' ''LeasesLost'' = mgStats mg ''LeasesLost''"
  shows "viewed cfg b att now mg'"
  using assms(1) unfolding viewed_def assms(2) heard_all_def assms(3,4)
  by (blast intro: follows_same [OF _ assms(3,5,6)])

interpretation view: manager_invariant cfg b att "viewed cfg b att" "\<lambda>_. True" for cfg b att
proof
  fix mg assume "NewManager b cfg = Inr mg"
  then obtain p m where m: "resume_params b cfg = Inr p" "New p = Inr m" "mg = new_manager cfg m" by (rule NewManager_ok)
  then have "follows (Holds None) mg" "heard_all mg" "mgMachine mg = m"
    by (simp_all add: follows_def heard_all_def outward_lease_def new_manager_def)
  with m(1) reachable.start [OF m(2)] show "viewed cfg b att 0 mg" unfolding viewed_def by blast
next
  fix now mg e assume "viewed cfg b att now mg"
  then show "viewed cfg b att now (mg\<lparr>mgJournal := mgJournal mg @ [e]\<rparr>)"
    by (rule viewed_core) (simp_all add: outward_lease_def)
next
  fix now mg mg' assume "viewed cfg b att now mg" "same_core mg mg'"
  then show "viewed cfg b att now mg'" unfolding same_core_def by (blast intro: viewed_core)
qed (simp_all add: viewed_step viewed_later)

text \<open>
  C16: The lease a manager reports is its machine's: in every execution, whatever fails and in
  whatever order the channels are ready, \<^verbatim>\<open>Lease\<close> answers a lease exactly when the machine holds one, and then
  the outward form of that lease; \<^verbatim>\<open>LeasesAcquired\<close> exceeds \<^verbatim>\<open>LeasesLost\<close> by one exactly then; and
  a caller who took every event has been told the same lease.
\<close>

theorem manager_follows_machine:
  assumes "managed cfg b att now mg"
  shows "mgHeld mg = haveLse (mgMachine mg)
    \<and> (mgHeld mg \<longrightarrow> (\<exists>br. mgLease mg = toLease (lease (mgMachine mg)) br))
    \<and> mgStats mg ''LeasesAcquired'' = mgStats mg ''LeasesLost'' + of_bool (mgHeld mg)
    \<and> (att \<longrightarrow> fold heard (mgEvents mg) None = (if mgHeld mg then Some (mgLease mg) else None))"
proof -
  obtain p n A V where r: "reachable p n A V (mgMachine mg)" "follows V mg" "att \<longrightarrow> heard_all mg"
    using view.managed_invariant [OF assms] unfolding viewed_def by blast
  have "V = Holds (if haveLse (mgMachine mg) then Some (lease (mgMachine mg)) else None)"
    using reachable_facts(1) [OF r(1)] by (simp add: core_def)
  with r(2,3) show ?thesis
    by (auto simp: follows_def heard_all_def outward_lease_def split: if_splits)
qed

section \<open>The journal\<close>

lemma recorded_run_append:
  assumes "recorded_run seq ins m = (m1, es)" "recorded_step (seq + of_nat (length ins)) now rnd ev m1 = (m2, e)"
  shows "recorded_run seq (ins @ [(now, rnd, ev)]) m = (m2, es @ [e])"
  using assms
proof (induction ins arbitrary: seq m es)
  case (Cons i ins)
  obtain n r v where i: "i = (n, r, v)" by (cases i)
  obtain m' e' where s: "recorded_step seq n r v m = (m', e')" by fastforce
  obtain es' where r: "recorded_run (seq + 1) ins m' = (m1, es')" "es = e' # es'"
    using Cons.prems(1) s by (auto simp: i Let_def split: prod.splits)
  have "recorded_run (seq + 1) (ins @ [(now, rnd, ev)]) m' = (m2, es' @ [e])"
    using Cons.IH [OF r(1)] Cons.prems(2) by (simp add: add.assoc)
  then show ?case by (simp add: i s r(2))
qed simp

definition logged :: "Config \<Rightarrow> clockBridge \<Rightarrow> Manager \<Rightarrow> bool" where
  "logged cfg b mg \<longleftrightarrow> cARP cfg \<or>
     (\<exists>p m0 ins. resume_params b cfg = Inr p \<and> New p = Inr m0 \<and> recorded_run 0 ins m0 = (mgMachine mg, mgJournal mg)
       \<and> list_all (\<lambda>(_, _, ev). replayable ev) ins \<and> mgSeq mg = of_nat (length ins))"

interpretation log: manager_invariant cfg b att "\<lambda>_. logged cfg b" "\<lambda>ev. cARP cfg \<or> replayable ev" for cfg b att
proof
  fix mg assume "NewManager b cfg = Inr mg"
  then obtain p m where m: "resume_params b cfg = Inr p" "New p = Inr m" "mg = new_manager cfg m" by (rule NewManager_ok)
  then have "recorded_run 0 [] m = (mgMachine mg, mgJournal mg)" "mgSeq mg = of_nat (length [])"
    by (simp_all add: new_manager_def)
  with m(1,2) show "logged cfg b mg" unfolding logged_def by fastforce
next
  fix now t ev mg assume "logged cfg b mg" "cARP cfg \<or> replayable ev"
  then show "logged cfg b (fst (step_event t ev mg))"
  proof (cases "cARP cfg")
    case False
    with \<open>logged cfg b mg\<close> obtain p m0 ins where i: "resume_params b cfg = Inr p" "New p = Inr m0"
      "recorded_run 0 ins m0 = (mgMachine mg, mgJournal mg)" "list_all (\<lambda>(_, _, ev). replayable ev) ins"
      "mgSeq mg = of_nat (length ins)" unfolding logged_def by blast
    have "recorded_run 0 (ins @ [(tNow t, tRnd t, ev)]) m0
      = (mgMachine (fst (step_event t ev mg)), mgJournal (fst (step_event t ev mg)))"
      using recorded_run_append [OF i(3), of "tNow t" "tRnd t" ev]
      by (simp add: step_event_frame i(5) recorded_step_def Let_def)
    moreover have "list_all (\<lambda>(_, _, ev). replayable ev) (ins @ [(tNow t, tRnd t, ev)])"
      using i(4) False \<open>cARP cfg \<or> replayable ev\<close> by simp
    ultimately show ?thesis
      using i(1,2,5) unfolding logged_def step_event_frame(3) by (fastforce simp: algebra_simps)
  qed (simp add: logged_def)
qed (auto simp: logged_def same_core_def)

text \<open>
  C19: The journal of a manager replays: for a manager without an ARP port, in every execution,
  \<^verbatim>\<open>Replay\<close> of its journal with the parameters its machine was made with ends without a divergence in
  the machine's state with the machine's lease.
\<close>

theorem manager_journal_replays:
  assumes "managed cfg b att now mg" "\<not> cARP cfg"
  shows "\<exists>p. resume_params b cfg = Inr p \<and>
    Replay render p (mgJournal mg) = Inr \<lparr>RState = state (mgMachine mg), RLease = fst (machine_Lease (mgMachine mg)),
      RHeld = snd (machine_Lease (mgMachine mg)), RSteps = length (mgJournal mg)\<rparr>"
proof -
  obtain p m0 ins where i: "resume_params b cfg = Inr p" "New p = Inr m0"
    "recorded_run 0 ins m0 = (mgMachine mg, mgJournal mg)" "list_all (\<lambda>(_, _, ev). replayable ev) ins"
    using log.managed_invariant [OF assms(1)] assms(2) unfolding logged_def by blast
  from replay_recorded_run [OF i(3,4), of render] i(1,2) show ?thesis by (simp add: Replay_def)
qed

section \<open>A run\<close>

text \<open>With a transport that works and parameters that fit, dispatching an event is a single step.\<close>

lemma execute_all_sends:
  assumes "\<And>msg dst. ActSend msg dst \<in> set (map Body as) \<Longrightarrow> \<exists>raw. Encode msg = Inr raw"
    and "\<And>pkt. ActSendARP pkt \<notin> set (map Body as)" "\<And>i. \<not> tSendFails t i"
  shows "snd (execute_all t as mg) = []"
  using assms
proof (induction as arbitrary: mg)
  case (Cons a as)
  have "snd (execute t a mg) = []"
  proof (cases "Body a")
    case (ActSend msg dst)
    then obtain raw where "Encode msg = Inr raw" using Cons.prems(1) [of msg dst] by auto
    with ActSend Cons.prems(3) show ?thesis by (simp add: execute_def send_action_def Let_def)
  next
    case (ActSendARP pkt)
    with Cons.prems(2) [of pkt] show ?thesis by simp
  qed (simp_all add: execute_failures(1))
  moreover have "snd (execute_all t as mg') = []" for mg'
    by (rule Cons.IH) (use Cons.prems in auto)
  ultimately show ?case by (simp add: split_def Let_def)
qed simp

lemma dispatch_single:
  assumes r: "reachable p n A V (mgMachine mg)" "n \<le> tNow (env 0)" "tNow (env 0) \<le> 2 ^ 62"
    and p: "length (PClientID p) \<le> 255" "length (PVendorClass p) \<le> 255" "length (parameterList p) < 255"
    and "PConflict p = ConflictOff"
    and t: "\<And>i. \<not> tSendFails (env 0) i"
  shows "manager_dispatch env ev mg = fst (step_event (env 0) ev mg)"
proof -
  let ?m = "Step (tNow (env 0)) (tRnd (env 0)) ev (mgMachine mg)"
  note reach = stepped [OF r, of "tRnd (env 0)" ev]
  have off: "PConflict (params ?m) = ConflictOff"
    using reachable_params [OF reach p] assms(7) by (simp add: prepared_params_def)
  note l = sent_legal [OF reach p, unfolded off]
  have "snd (execute_all (env 0) (out ?m) mg') = []" for mg'
  proof (rule execute_all_sends)
    fix msg dst assume "ActSend msg dst \<in> set (map Body (out ?m))"
    from l [OF this] show "\<exists>raw. Encode msg = Inr raw" using small_encodable Encode_ok_iff by simp
  next
    fix pkt show "ActSendARP pkt \<notin> set (map Body (out ?m))" using l [of "ActSendARP pkt"] by auto
  qed (rule t)
  then have "snd (step_event (env 0) ev mg) = []"
    by (simp add: step_event_def recorded_step_def drain_def Let_def split_def)
  then show ?thesis by (simp add: manager_dispatch_def split_def)
qed

definition sample_config :: Config where
  "sample_config = \<lparr>cTransport = True, cClock = True, cTimers = True, cEntropy = True, cARP = False,
     cParams = sample_params, cResume = None\<rparr>"

definition sample_bridge :: clockBridge where
  "sample_bridge = \<lparr>bmono = 0, bwall = 10 ^ 18\<rparr>"

definition sample_turn :: "Instant \<Rightarrow> nat \<Rightarrow> turn" where
  "sample_turn now i = \<lparr>tNow = now, tRnd = 7, tBridge = \<lparr>bmono = now, bwall = 10 ^ 18 + now\<rparr>,
     tSendFails = (\<lambda>_. False), tWhy = (\<lambda>_. []), tTaken = (\<lambda>_. True)\<rparr>"

lemma sample_clocked: "now \<le> now' \<Longrightarrow> now' \<le> 2 ^ 62 \<Longrightarrow> clocked now (sample_turn now') now'"
  by (simp add: clocked_def sample_turn_def)

lemma sample_attentive: "attentive (sample_turn now)"
  by (simp add: attentive_def sample_turn_def)

lemma sample_wire: "\<exists>raw. Decode raw = Inr (sample_offer\<lparr>XID := i\<rparr>)" "\<exists>raw. Decode raw = Inr (sample_ack\<lparr>XID := i\<rparr>)"
proof -
  have *: "\<exists>raw. Decode raw = Inr x" if "encodable x" "overload_of (Options x) AND 3 = 0" "wire_form x = x" for x
    using that Encode_ok_iff decode_of_encode by metis
  have "wire_form (sample_offer\<lparr>XID := i\<rparr>) = sample_offer\<lparr>XID := i\<rparr>" "wire_form (sample_ack\<lparr>XID := i\<rparr>) = sample_ack\<lparr>XID := i\<rparr>"
    by (simp_all add: sample_offer_def sample_ack_def wire_form_def wire_addr_def trimNul_def content_codes_def
        restrict_map_def fun_eq_iff)
  moreover have "encodable (sample_offer\<lparr>XID := i\<rparr>)" "encodable (sample_ack\<lparr>XID := i\<rparr>)"
    by (auto simp: sample_offer_def sample_ack_def encodable_def split: if_splits)
  moreover have "overload_of (Options (sample_offer\<lparr>XID := i\<rparr>)) AND 3 = 0" "overload_of (Options (sample_ack\<lparr>XID := i\<rparr>)) AND 3 = 0"
    by (simp_all add: sample_offer_def sample_ack_def overload_of_def)
  ultimately show "\<exists>raw. Decode raw = Inr (sample_offer\<lparr>XID := i\<rparr>)" "\<exists>raw. Decode raw = Inr (sample_ack\<lparr>XID := i\<rparr>)"
    by (auto intro: *)
qed

lemma sample_fits:
  "length (PClientID sample_params) \<le> 255" "length (PVendorClass sample_params) \<le> 255"
  "length (parameterList sample_params) < 255" "PConflict sample_params = ConflictOff"
  "PResume sample_params = None" "PDesyncMin sample_params = 0" "PDesyncMax sample_params = 0"
  by (simp_all add: sample_params_def DefaultParams_def parameterList_def DefaultParameterList_def)

lemma sample_turn_fields [simp]:
  "tNow (sample_turn now i) = now" "tRnd (sample_turn now i) = 7" "tSendFails (sample_turn now i) a = False"
  by (simp_all add: sample_turn_def)

lemma sample_step:
  assumes "reachable sample_params n A V (mgMachine mg)" "n \<le> now" "now \<le> 2 ^ 62"
  shows "mgMachine (manager_dispatch (sample_turn now) ev mg) = Step now 7 ev (mgMachine mg)
    \<and> length (mgEvents (manager_dispatch (sample_turn now) ev mg)) \<le> length (mgEvents mg) + noise (Step now 7 ev (mgMachine mg))"
proof -
  have "manager_dispatch (sample_turn now) ev mg = fst (step_event (sample_turn now 0) ev mg)"
    using dispatch_single [OF assms(1), of "sample_turn now" ev] assms(2,3) sample_fits(1-4) by simp
  then show ?thesis using step_noise [of "sample_turn now 0" ev mg] by (simp add: step_event_frame(1))
qed

text \<open>A received message of the run: the manager after it is the manager after the machine's step.\<close>

lemma sample_received:
  assumes "managed sample_config sample_bridge True now mg" "reachable sample_params now A V (mgMachine mg)"
    and "now \<le> now'" "now' \<le> 2 ^ 62" "Decode raw = Inr msg"
  shows "\<exists>mg'. managed sample_config sample_bridge True now' mg'
    \<and> mgMachine mg' = Step now' 7 (EvReceived (Some msg) raw NoAddr) (mgMachine mg)
    \<and> length (mgEvents mg') \<le> length (mgEvents mg) + noise (mgMachine mg')"
proof -
  let ?inp = "InInbound (Some \<lparr>Payload = raw, InTo = NoAddr, InErr = None\<rparr>)"
  let ?mg = "snd (run_input (sample_turn now') 0 [] ?inp mg)"
  have "managed sample_config sample_bridge True now' ?mg"
    using assms(1) sample_clocked [OF assms(3,4)] sample_attentive by (rule managed.input) simp
  moreover have "mgMachine (manager_dispatch (sample_turn now') ev mg') = Step now' 7 ev (mgMachine mg)
      \<and> length (mgEvents (manager_dispatch (sample_turn now') ev mg')) \<le> length (mgEvents mg) + noise (Step now' 7 ev (mgMachine mg))"
    if "mgMachine mg' = mgMachine mg" "mgEvents mg' = mgEvents mg" for ev mg'
    using sample_step [of now A V mg' now' ev] assms(2-4) that by simp
  ultimately show ?thesis
    using assms(5) by (intro exI [of _ ?mg]) (simp add: run_input_def onInbound_def Let_def)
qed

lemma sample_managed:
  "\<exists>mg l ns. managed sample_config sample_bridge True (3 * Second) mg \<and> state (mgMachine mg) = StateBound
     \<and> leaseFromAck sample_ack (2 * Second) = Some (l, ns) \<and> machine_Lease (mgMachine mg) = (l, True)
     \<and> length (mgEvents mg) \<le> 1"
proof -
  obtain m0 where m0: "New sample_params = Inr m0"
    using sample_params_valid by (simp add: New_def bind_res_def)
  let ?mg0 = "new_manager sample_config m0"
  have mg0: "managed sample_config sample_bridge True 0 ?mg0"
    by (rule managed.made) (simp add: NewManager_def resume_params_def sample_config_def m0 sample_fits(4))
  let ?mg1 = "manager_dispatch (sample_turn 0) EvStart ?mg0" and ?m1 = "Step 0 7 EvStart m0"
  have mg1: "managed sample_config sample_bridge True 0 ?mg1"
    using managed.run [OF mg0 sample_clocked [of 0 0]] sample_attentive by simp
  have "noise ?m1 = 0" using New_fields(1) [OF m0] noise_start by simp
  then have m1: "mgMachine ?mg1 = ?m1" "mgEvents ?mg1 = []"
    using sample_step [of 0 _ _ ?mg0 0 EvStart] reachable.start [OF m0] by (auto simp: new_manager_def)
  have r1: "reachable sample_params 0 (observe (arm 0) Map.empty ?m1) (observe told (Holds None) ?m1) ?m1"
    by (rule reachable.step [OF reachable.start [OF m0]]) simp_all
  note s1 = start_selects [OF m0 sample_fits(5-7), of 0 7]
  note a1 = sample_answers [OF conjunct2 [OF s1]]
  let ?x = "sample_offer\<lparr>XID := xid ?m1\<rparr>"
  obtain raw where raw: "Decode raw = Inr ?x" using sample_wire(1) by blast
  let ?m2 = "Step (2 * Second) 7 (EvReceived (Some ?x) raw NoAddr) ?m1"
  have n2: "noise ?m2 = 0" by (rule noise_offer [OF conjunct1 [OF s1] a1(1,2,6)])
  have "\<exists>mg2. managed sample_config sample_bridge True (2 * Second) mg2 \<and> mgMachine mg2 = ?m2
    \<and> length (mgEvents mg2) \<le> length (mgEvents ?mg1) + noise (mgMachine mg2)"
    using sample_received [OF mg1, of "observe (arm 0) Map.empty ?m1" "observe told (Holds None) ?m1" "2 * Second"]
      r1 raw by (simp add: m1(1))
  with n2 m1(2) obtain mg2 where mg2: "managed sample_config sample_bridge True (2 * Second) mg2" "mgMachine mg2 = ?m2" "mgEvents mg2 = []" by auto
  have r2: "reachable sample_params (2 * Second) (observe (arm (2 * Second)) (observe (arm 0) Map.empty ?m1) ?m2)
      (observe told (observe told (Holds None) ?m1) ?m2) ?m2"
    by (rule stepped [OF r1]) simp_all
  have p2: "params ?m2 = prepared_params sample_params" using reachable_params [OF r2 sample_fits(1-3)] .
  let ?y = "sample_ack\<lparr>XID := xid ?m2\<rparr>"
  obtain raw' where raw': "Decode raw' = Inr ?y" using sample_wire(2) by blast
  obtain l ns where l: "leaseFromAck sample_ack (2 * Second) = Some (l, ns)"
    using sample_ack_grants [of "2 * Second"] by auto
  have off: "PConflict (params ?m1) = ConflictOff" using s1 sample_fits(4) by (simp add: prepared_params_def)
  have n3: "noise (Step (3 * Second) 7 (EvReceived (Some ?y) raw' NoAddr) ?m2) = 1"
    using noise_exchange [OF conjunct1 [OF s1] a1(6,1,2) refl sample_answers(3,4) [OF p2], of l ns] a1(5) l off by simp
  have "\<exists>mg3. managed sample_config sample_bridge True (3 * Second) mg3
    \<and> mgMachine mg3 = Step (3 * Second) 7 (EvReceived (Some ?y) raw' NoAddr) ?m2
    \<and> length (mgEvents mg3) \<le> length (mgEvents mg2) + noise (mgMachine mg3)"
    using sample_received [OF mg2(1) r2 [folded mg2(2)] _ _ raw', of "3 * Second"] by (simp add: mg2(2))
  with n3 mg2(3) obtain mg3 where mg3: "managed sample_config sample_bridge True (3 * Second) mg3"
    "mgMachine mg3 = Step (3 * Second) 7 (EvReceived (Some ?y) raw' NoAddr) ?m2" "length (mgEvents mg3) \<le> 1" by auto
  with exchange_completes [OF r1 conjunct1 [OF s1] a1(6,1,2) refl sample_answers(3,4) [OF p2], of l ns _ "3 * Second" 7 raw' NoAddr]
    off a1(5) l mg3 show ?thesis by fastforce
qed

theorem manager_follows_machine_witness:
  "\<exists>mg br. managed sample_config sample_bridge True (3 * Second) mg \<and> mgHeld mg
     \<and> mgLease mg = toLease (lease (mgMachine mg)) br
     \<and> fold heard (mgEvents mg) None = Some (mgLease mg)"
proof -
  obtain mg l where mg: "managed sample_config sample_bridge True (3 * Second) mg" "machine_Lease (mgMachine mg) = (l, True)"
    using sample_managed by blast
  then have "haveLse (mgMachine mg)" by (simp add: machine_Lease_def)
  with manager_follows_machine [OF mg(1)] mg(1) show ?thesis by auto
qed

theorem manager_journal_replays_witness:
  "\<exists>mg p. managed sample_config sample_bridge True (3 * Second) mg \<and>
    Replay (\<lambda>_. []) p (mgJournal mg) = Inr \<lparr>RState = StateBound, RLease = fst (machine_Lease (mgMachine mg)), RHeld = True,
      RSteps = length (mgJournal mg)\<rparr>"
proof -
  obtain mg l where mg: "managed sample_config sample_bridge True (3 * Second) mg" "state (mgMachine mg) = StateBound"
    "machine_Lease (mgMachine mg) = (l, True)" using sample_managed by blast
  have "\<not> cARP sample_config" by (simp add: sample_config_def)
  from manager_journal_replays [OF mg(1) this, of "\<lambda>_. []"] mg show ?thesis by (intro exI [of _ mg]) auto
qed

end
