(* ===== verification/Lease_Restart.thy ===== *)
theory Lease_Restart
  imports Lease_Manager_Properties
begin

text \<open>
  Failures, the durable record and the restart: how \<^verbatim>\<open>dispatch\<close> feeds failures back, that a record
  written from a manager's events holds what the manager held when it was stopped, and that
  the next manager asks the server for that address exactly as long as the lease is live.
\<close>

section \<open>Failures\<close>

definition feed :: "(nat \<Rightarrow> turn) \<Rightarrow> Manager \<times> nat \<Rightarrow> Event \<Rightarrow> Manager \<times> nat" where
  "feed env x f = (fst (step_event (env (snd x)) f (fst x)), Suc (snd x))"

lemma dispatch_failures:
  assumes "list_all is_failure q"
  shows "dispatch_queue env i q mg = fst (foldl (feed env) (mg, i) q)
    \<and> mgSeq (fst (foldl (feed env) (mg, i) q)) = mgSeq mg + of_nat (length q)"
  using assms
proof (induction q arbitrary: mg i)
  case (Cons f q)
  obtain aid why where f: "f = EvActionFailed aid why" using Cons.prems by (cases f) simp_all
  obtain mg1 where s: "step_event (env i) f mg = (mg1, [])"
    using step_event_failures(1) [of "env i" aid why mg] by (metis f prod.collapse)
  have "mgSeq mg1 = mgSeq mg + 1" using step_event_frame(3) [of "env i" f mg] s by simp
  with Cons s show ?case by (simp add: feed_def add.assoc)
qed simp


section \<open>The record of a manager's events\<close>

definition v4_event :: "OEvent \<Rightarrow> bool" where
  "v4_event e \<longleftrightarrow> OKind e \<in> {KindAcquired, KindChanged, KindRenewed, KindLost, KindFailed} \<and> OFamily e = FamilyV4"

lemma execute_events: "list_all v4_event (mgEvents mg) \<Longrightarrow> list_all v4_event (mgEvents (fst (execute t a mg)))"
  by (cases "Body a") (auto simp: action_defs emit_def outward_event_def v4_event_def split: sum.split)

lemma step_events: "list_all v4_event (mgEvents mg) \<Longrightarrow> list_all v4_event (mgEvents (fst (step_event t ev mg)))"
proof -
  have "list_all v4_event (mgEvents mg) \<Longrightarrow> list_all v4_event (mgEvents (fst (execute_all t as mg)))" for as mg
    by (induction as arbitrary: mg) (simp_all add: split_def Let_def execute_events)
  then show "list_all v4_event (mgEvents mg) \<Longrightarrow> ?thesis"
    by (simp add: step_event_def drain_def split_def Let_def)
qed

interpretation events: manager_invariant cfg b att "\<lambda>_ mg. list_all v4_event (mgEvents mg)" "\<lambda>_. True" for cfg b att
  by unfold_locales (auto simp: NewManager_def new_manager_def same_core_def intro: step_events split: if_splits sum.splits)

text \<open>A line per event, numbered on from the record's sequence.\<close>

fun record_events :: "gostring \<Rightarrow> gostring \<Rightarrow> wall \<Rightarrow> OEvent list \<Rightarrow> 'p6 Record \<Rightarrow> 'p6 Record" where
  "record_events rid inst at [] r = r"
| "record_events rid inst at (e # es) r =
     record_events rid inst at es (fst (Fold r (EventRecord rid inst (RecSeq r + 1) at e)))"

text \<open>The lease the record is to hold: like what the caller hears, but stopping keeps it.\<close>

fun recalled :: "OEvent \<Rightarrow> OLease option \<Rightarrow> OLease option" where
  "recalled e v = (if OKind e = KindLost \<and> OReason e = ReasonStopped then v else heard e v)"

definition recordable :: "gostring \<Rightarrow> 'p6 Record \<Rightarrow> bool" where
  "recordable rid r \<longleftrightarrow> RecID r = rid \<and> rid \<noteq> [] \<and> holdsAnAddress (RecPhase r) \<and> RecFamily r \<in> {FamilyUnset, FamilyV4}"

definition recorded_lease :: "'p6 Record \<Rightarrow> OLease option" where
  "recorded_lease r = (if Held r then Some (RecLease r) else None)"

lemma record_event:
  assumes "recordable rid r" "v4_event e" "unat (RecSeq r) + 1 < 2 ^ 64"
  shows "\<exists>r'. Fold r (EventRecord rid inst (RecSeq r + 1) at e) = (r', None) \<and> recordable rid r'
    \<and> RecPhase r' = RecPhase r \<and> RecSeq r' = RecSeq r + 1 \<and> recorded_lease r' = recalled e (recorded_lease r)"
proof -
  have "RecSeq r < RecSeq r + 1" using assms(3) by (simp add: word_less_nat_alt unat_word_ariths)
  moreover have "RecPhase r \<noteq> PhaseUnset" using assms(1) by (auto simp: recordable_def holdsAnAddress_def)
  ultimately have g: "guards r (EventRecord rid inst (RecSeq r + 1) at e) = None"
    using assms(1,2) by (auto simp: guards_def EventRecord_def Let_def recordable_def v4_event_def creating_def familyOf_def)
  let ?ev = "EventRecord rid inst (RecSeq r + 1) at e"
  have "\<exists>n. apply_op r ?ev = Inr n \<and> RecPhase n = RecPhase r \<and> RecFamily n = RecFamily r
      \<and> recorded_lease n = recalled e (recorded_lease r)"
  proof (cases "OKind e = KindLost")
    case True
    then show ?thesis
      using assms(1) by (simp add: EventRecord_def Let_def recordable_def apply_op_def foldLost_def count_def recorded_lease_def)
  next
    case False
    with assms(2) have "OKind e \<in> {KindAcquired, KindChanged, KindRenewed, KindFailed}" by (simp add: v4_event_def)
    then show ?thesis
      using assms(1) by (elim insertE emptyE)
        (simp_all add: EventRecord_def Let_def recordable_def apply_op_def foldLease_def count_def recorded_lease_def)
  qed
  then obtain n where n: "apply_op r ?ev = Inr n" "RecPhase n = RecPhase r" "RecFamily n = RecFamily r"
    "recorded_lease n = recalled e (recorded_lease r)" by blast
  have ev: "RevID ?ev = rid" "RevSeq ?ev = RecSeq r + 1" "RevFamily ?ev = FamilyV4"
    using assms(2) by (simp_all add: EventRecord_def Let_def v4_event_def)
  have "Fold r ?ev = (write_fields ?ev n, None)" using g n(1) by (simp add: Fold_def)
  moreover have "recordable rid (write_fields ?ev n)" "RecSeq (write_fields ?ev n) = RecSeq r + 1"
    "recorded_lease (write_fields ?ev n) = recorded_lease n"
    using assms(1) n(2) ev by (auto simp: recordable_def recorded_lease_def write_fields_def)
  ultimately show ?thesis using n by auto
qed

lemma record_events_follow:
  assumes "recordable rid r" "list_all v4_event es" "unat (RecSeq r) + length es < 2 ^ 64"
  shows "recorded_lease (record_events rid inst at es r) = fold recalled es (recorded_lease r)
    \<and> RecPhase (record_events rid inst at es r) = RecPhase r \<and> recordable rid (record_events rid inst at es r)"
  using assms
proof (induction es arbitrary: r)
  case (Cons e es)
  have "unat (RecSeq r) + 1 < 2 ^ 64" using Cons.prems(3) by simp
  with record_event [of rid r e inst at] Cons.prems obtain r' where
    r': "Fold r (EventRecord rid inst (RecSeq r + 1) at e) = (r', None)" "recordable rid r'"
    "RecPhase r' = RecPhase r" "RecSeq r' = RecSeq r + 1" "recorded_lease r' = recalled e (recorded_lease r)" by auto
  have "unat (RecSeq r + 1) = unat (RecSeq r) + 1"
    using \<open>unat (RecSeq r) + 1 < 2 ^ 64\<close> by (simp add: unat_word_ariths)
  with Cons.IH [of r'] r' Cons.prems show ?case by simp
qed simp

section \<open>Stopping\<close>

text \<open>Actions that a record is not moved by.\<close>

fun unrecalled :: "ActionBody \<Rightarrow> bool" where
  "unrecalled (ActLeaseAcquired _ _) \<longleftrightarrow> False"
| "unrecalled (ActLeaseChanged _) \<longleftrightarrow> False"
| "unrecalled (ActLeaseRenewed _) \<longleftrightarrow> False"
| "unrecalled (ActLeaseLost why) \<longleftrightarrow> why = ReasonStopped"
| "unrecalled _ \<longleftrightarrow> True"

definition stops :: "Machine \<Rightarrow> bool" where
  "stops m \<longleftrightarrow> list_all (\<lambda>a. unrecalled (Body a)) (out m)"

lemma stops_basic [simp]:
  "stops (stamp b m) \<longleftrightarrow> stops m \<and> unrecalled b" "stops (m\<lparr>out := []\<rparr>)" "stops (acdIdle m) = stops m"
  "stops (m\<lparr>haveLse := hl, lease := l, fr := k\<rparr>) = stops m"
  "stops (m\<lparr>state := st, started := sd, offer := x, retransmits := n, sendFailures := sf, restarts := rs\<rparr>) = stops m"
  by (auto simp: stops_def stamp_def acdIdle_def)

lemma stops_stop: "stops m \<Longrightarrow> stops (stop m)"
proof -
  have c: "stops (fold cancel ts m) = stops m" for ts m by (induction ts arbitrary: m) (simp_all add: cancel_def)
  then show "stops m \<Longrightarrow> stops (stop m)"
    by (simp add: stop_def halt_def dropLease_def cancelAll_def) (simp add: cancel_def)
qed

lemma stopped_step: "state m \<in> held_states \<Longrightarrow> Step now rnd EvStop m = stop (m\<lparr>out := []\<rparr>)"
  by (auto simp: Step_def dispatch_def held_states_def stepBound_def stepRenewal_def)

lemma execute_recalled:
  "unrecalled (Body a) \<Longrightarrow> tTaken t (ID a) \<Longrightarrow>
    fold recalled (mgEvents (fst (execute t a mg))) None = fold recalled (mgEvents mg) None"
  by (cases "Body a") (auto simp: action_defs emit_def outward_event_def split: sum.split)

lemma execute_all_recalled:
  assumes "list_all (\<lambda>a. unrecalled (Body a)) as" "\<And>i. tTaken t i"
  shows "fold recalled (mgEvents (fst (execute_all t as mg))) None = fold recalled (mgEvents mg) None"
  using assms(1) by (induction as arbitrary: mg) (simp_all add: split_def Let_def execute_recalled assms(2))

lemma sends_stop: "sends (stop (m\<lparr>out := []\<rparr>)) = []"
proof -
  have "sends (x\<lparr>state := st, started := sd, offer := y, retransmits := n, sendFailures := sf, restarts := rs\<rparr>) = sends x"
    for x st sd y n sf rs by (simp add: sends_def)
  then show ?thesis by (simp add: stop_def halt_def)
qed

text \<open>A shutdown of a manager that holds a lease is the one step of \<^verbatim>\<open>EvStop\<close>.\<close>

lemma shutdown_step:
  assumes "state (mgMachine mg) \<in> held_states"
  shows "shutdown env mg = fst (step_event (env 0) EvStop (mg\<lparr>mgStopping := True\<rparr>))"
proof -
  have m: "Step (tNow (env 0)) (tRnd (env 0)) EvStop (mgMachine mg) = stop ((mgMachine mg)\<lparr>out := []\<rparr>)"
    using stopped_step assms by simp
  have "snd (execute_all (env 0) (out (stop ((mgMachine mg)\<lparr>out := []\<rparr>))) mg') = []" for mg'
    using execute_all_failures(1) sends_stop [of "mgMachine mg"] by (simp add: sends_def)
  then show ?thesis
    by (simp add: shutdown_def manager_dispatch_def split_def) (simp add: step_event_def recorded_step_def drain_def Let_def split_def m)
qed

lemma shutdown_recalled:
  assumes "state (mgMachine mg) \<in> held_states" "attentive env"
  shows "fold recalled (mgEvents (shutdown env mg)) None = fold recalled (mgEvents mg) None"
proof -
  let ?m = "stop ((mgMachine mg)\<lparr>out := []\<rparr>)"
  have "list_all (\<lambda>a. unrecalled (Body a)) (out ?m)"
    using stops_stop [of "(mgMachine mg)\<lparr>out := []\<rparr>"] by (simp add: stops_def)
  then show ?thesis
    using execute_all_recalled [of "out ?m" "env 0"] assms(2) stopped_step [OF assms(1)]
    by (simp add: shutdown_step [OF assms(1)] step_event_def recorded_step_def drain_def Let_def split_def attentive_def)
qed

lemma recalled_heard: "fold heard es None = Some l \<Longrightarrow> fold recalled es None = Some l"
proof (induction es arbitrary: l rule: rev_induct)
  case (snoc e es)
  then show ?case by (auto split: LeaseEventKind.splits)
qed simp

text \<open>
  C17: A lease survives the process that held it: when a manager that holds a lease is shut down, the
  durable record written from the events it delivered still holds exactly that lease, and \<^verbatim>\<open>Resume\<close>
  answers it for as long as it has not expired.
\<close>

theorem stopped_lease_is_recorded:
  assumes "managed cfg b True now mg" "mgHeld mg" "clocked now env now'" "attentive env"
    and "recordable rid r0" "\<not> Held r0" "unat (RecSeq r0) + length (mgEvents (shutdown env mg)) < 2 ^ 64"
    and r: "r = record_events rid inst at (mgEvents (shutdown env mg)) r0"
    and "OExpire (mgLease mg) = 0 \<or> OExpire (mgLease mg) > w"
  shows "recorded_lease r = Some (mgLease mg) \<and> record_Resume w r = Some (mgLease mg)"
proof -
  note f = manager_follows_machine [OF assms(1)]
  have held: "haveLse (mgMachine mg)" using f assms(2) by simp
  obtain p n A V where reach: "reachable p n A V (mgMachine mg)"
    using view.managed_invariant [OF assms(1)] unfolding viewed_def by blast
  have "managed cfg b True now' (shutdown env mg)"
    using managed.input [OF assms(1,3) assms(4), of InDone] by (simp add: run_input_def)
  then have "list_all v4_event (mgEvents (shutdown env mg))" using events.managed_invariant by blast
  from record_events_follow [OF assms(5) this assms(7), of inst at] assms(6)
  have r1: "recorded_lease r = fold recalled (mgEvents (shutdown env mg)) None" "holdsAnAddress (RecPhase r)"
    unfolding r by (auto simp: recorded_lease_def [of r0] recordable_def)
  have "state (mgMachine mg) \<in> held_states" using held reachable_held [OF reach] by simp
  then have "recorded_lease r = fold recalled (mgEvents mg) None"
    using shutdown_recalled assms(4) r1(1) by simp
  also have "\<dots> = Some (mgLease mg)" by (rule recalled_heard) (use f assms(2) in simp)
  finally have r2: "recorded_lease r = Some (mgLease mg)" .
  have "granted_lease (lease (mgMachine mg))" by (rule reachable_granted [OF reach held])
  moreover obtain br where "mgLease mg = toLease (lease (mgMachine mg)) br" using f assms(2) by blast
  ultimately have "PrefixIsValid (OAddr (mgLease mg))"
    by (simp add: granted_lease_def PrefixIsValid_def toLease_def)
  with r1(2) r2 assms(9) show ?thesis
    by (auto simp: record_Resume_def recorded_lease_def holdsAnAddress_def split: if_splits)
qed

lemma shutdown_length:
  assumes "state (mgMachine mg) \<in> held_states"
  shows "length (mgEvents (shutdown env mg)) \<le> length (mgEvents mg) + 1"
proof -
  have "noise (stop ((mgMachine mg)\<lparr>out := []\<rparr>)) \<le> 1" by simp
  then show ?thesis
    using step_noise [of "env 0" EvStop "mg\<lparr>mgStopping := True\<rparr>"] stopped_step [OF assms]
    by (simp add: shutdown_step [OF assms])
qed

theorem stopped_lease_is_recorded_witness:
  "\<exists>mg r. managed sample_config sample_bridge True (3 * Second) mg
     \<and> r = record_events [1] [] 0 (mgEvents (shutdown (sample_turn (4 * Second)) mg))
         (zero_record\<lparr>RecID := [1], RecPhase := PhaseJoined\<rparr>)
     \<and> recorded_lease (r :: unit Record) = Some (mgLease mg)"
proof -
  obtain mg l where mg: "managed sample_config sample_bridge True (3 * Second) mg" "state (mgMachine mg) = StateBound"
    "machine_Lease (mgMachine mg) = (l, True)" "length (mgEvents mg) \<le> 1" using sample_managed by blast
  then have h: "mgHeld mg" using manager_follows_machine [OF mg(1)] by (simp add: machine_Lease_def)
  let ?r0 = "(zero_record\<lparr>RecID := [1], RecPhase := PhaseJoined\<rparr>) :: unit Record"
  let ?mg = "shutdown (sample_turn (4 * Second)) mg"
  have "recordable [1] ?r0" "\<not> Held ?r0"
    by (simp_all add: recordable_def zero_record_def holdsAnAddress_def)
  moreover have "unat (RecSeq ?r0) + length (mgEvents ?mg) < 2 ^ 64"
    using shutdown_length [of mg "sample_turn (4 * Second)"] mg(2,4) by (simp add: held_states_def zero_record_def)
  moreover have "clocked (3 * Second) (sample_turn (4 * Second)) (4 * Second)" by (rule sample_clocked) simp_all
  ultimately show ?thesis
    using stopped_lease_is_recorded [OF mg(1) h _ sample_attentive, of _ "4 * Second" "[1]" ?r0 _ "[]" 0 "OExpire (mgLease mg) - 1"] mg(1)
    by (intro exI [of _ mg] exI) (auto)
qed

section \<open>Starting again\<close>

lemma resume_params_fields:
  assumes "resume_params b cfg = Inr p" "cResume cfg = Some l"
  shows "Is4 (paddr (OAddr l)) \<and> \<not> IsUnspecified (paddr (OAddr l)) \<and> PDesyncMax p = PDesyncMax (cParams cfg)
    \<and> PResume p = Some (if OExpire l \<noteq> 0
        then \<lparr>RAddr = paddr (OAddr l), RExpire = bridge_instant b (OExpire l), RHasExpire = True\<rparr>
        else \<lparr>RAddr = paddr (OAddr l), RExpire = 0, RHasExpire = False\<rparr>)"
  using assms by (auto simp: resume_params_def Let_def split: if_splits)



end
