(* ===== verification/Proto6_Iid.thy ===== *)
theory Proto6_Iid
  imports Netip6
begin

text \<open>
  Interface identifiers: SHA-256 as written out in \<^verbatim>\<open>src/proto/sha256.go\<close>, and the stable privacy
  identifier of RFC 7217 and the modified EUI-64 of RFC 4291, \<^verbatim>\<open>iid6.go\<close> and \<^verbatim>\<open>slaac6.go\<close>.
\<close>

section \<open>SHA-256\<close>

definition sha256K :: "32 word list" where
  "sha256K = concat
    [[0x428a2f98, 0x71374491, 0xb5c0fbcf, 0xe9b5dba5], [0x3956c25b, 0x59f111f1, 0x923f82a4, 0xab1c5ed5],
     [0xd807aa98, 0x12835b01, 0x243185be, 0x550c7dc3], [0x72be5d74, 0x80deb1fe, 0x9bdc06a7, 0xc19bf174],
     [0xe49b69c1, 0xefbe4786, 0x0fc19dc6, 0x240ca1cc], [0x2de92c6f, 0x4a7484aa, 0x5cb0a9dc, 0x76f988da],
     [0x983e5152, 0xa831c66d, 0xb00327c8, 0xbf597fc7], [0xc6e00bf3, 0xd5a79147, 0x06ca6351, 0x14292967],
     [0x27b70a85, 0x2e1b2138, 0x4d2c6dfc, 0x53380d13], [0x650a7354, 0x766a0abb, 0x81c2c92e, 0x92722c85],
     [0xa2bfe8a1, 0xa81a664b, 0xc24b8b70, 0xc76c51a3], [0xd192e819, 0xd6990624, 0xf40e3585, 0x106aa070],
     [0x19a4c116, 0x1e376c08, 0x2748774c, 0x34b0bcb5], [0x391c0cb3, 0x4ed8aa4a, 0x5b9cca4f, 0x682e6ff3],
     [0x748f82ee, 0x78a5636f, 0x84c87814, 0x8cc70208], [0x90befffa, 0xa4506ceb, 0xbef9a3f7, 0xc67178f2]]"

definition rotr32 :: "nat \<Rightarrow> 32 word \<Rightarrow> 32 word" where
  "rotr32 n x = drop_bit n x OR push_bit (32 - n) x"

text \<open>The loop that appends zeroes until the length is 56 modulo 64, and the length in bits.\<close>

function sha256_fill :: "byte list \<Rightarrow> byte list" where
  "sha256_fill padded = (if length padded mod 64 = 56 then padded else sha256_fill (padded @ [0]))"
  by pat_completeness auto
termination
  by (relation "measure (\<lambda>padded. let m = length padded mod 64 in if m \<le> 56 then 56 - m else 120 - m)")
    (auto simp: Let_def mod_Suc)

declare sha256_fill.simps [simp del]

definition sha256_padded :: "byte list \<Rightarrow> byte list" where
  "sha256_padded msg = sha256_fill (msg @ [0x80]) @ be64 (of_nat (length msg) * 8)"

text \<open>The message schedule: sixteen words of the block, then forty-eight computed ones.\<close>

definition sha256_words :: "byte list \<Rightarrow> 32 word list" where
  "sha256_words blk = map (\<lambda>t. ube32 (octets (4 * t) 4 blk)) [0..<16]"

definition sha256_extend :: "32 word list \<Rightarrow> nat \<Rightarrow> 32 word list" where
  "sha256_extend w t =
     (let x = w ! (t - 15); y = w ! (t - 2);
          s0 = rotr32 7 x XOR rotr32 18 x XOR drop_bit 3 x;
          s1 = rotr32 17 y XOR rotr32 19 y XOR drop_bit 10 y
      in w @ [w ! (t - 16) + s0 + w ! (t - 7) + s1])"

definition sha256_schedule :: "byte list \<Rightarrow> 32 word list" where
  "sha256_schedule blk = foldl sha256_extend (sha256_words blk) [16..<64]"

type_synonym sha256_state = "32 word \<times> 32 word \<times> 32 word \<times> 32 word \<times> 32 word \<times> 32 word \<times> 32 word \<times> 32 word"

definition sha256_round :: "32 word list \<Rightarrow> sha256_state \<Rightarrow> nat \<Rightarrow> sha256_state" where
  "sha256_round w st t = (case st of (a, b, c, d, e, f, g, hh) \<Rightarrow>
     let t1 = hh + (rotr32 6 e XOR rotr32 11 e XOR rotr32 25 e) + ((e AND f) XOR (NOT e AND g)) + sha256K ! t + w ! t;
         t2 = (rotr32 2 a XOR rotr32 13 a XOR rotr32 22 a) + ((a AND b) XOR (a AND c) XOR (b AND c))
     in (t1 + t2, a, b, c, d + t1, e, f, g))"

definition sha256_block :: "sha256_state \<Rightarrow> byte list \<Rightarrow> sha256_state" where
  "sha256_block h blk =
     (case (h, foldl (sha256_round (sha256_schedule blk)) h [0..<64]) of
        ((h0, h1, h2, h3, h4, h5, h6, h7), (a, b, c, d, e, f, g, hh)) \<Rightarrow>
          (h0 + a, h1 + b, h2 + c, h3 + d, h4 + e, h5 + f, h6 + g, h7 + hh))"

function sha256_blocks :: "sha256_state \<Rightarrow> byte list \<Rightarrow> sha256_state" where
  "sha256_blocks h padded =
     (if padded = [] then h else sha256_blocks (sha256_block h (take 64 padded)) (drop 64 padded))"
  by pat_completeness auto
termination by (relation "measure (\<lambda>(h, padded). length padded)") auto

declare sha256_blocks.simps [simp del]

definition sha256Sum :: "byte list \<Rightarrow> byte list" where
  "sha256Sum msg =
     (case sha256_blocks (0x6a09e667, 0xbb67ae85, 0x3c6ef372, 0xa54ff53a, 0x510e527f, 0x9b05688c, 0x1f83d9ab, 0x5be0cd19)
        (sha256_padded msg) of
        (a, b, c, d, e, f, g, hh) \<Rightarrow> be32 a @ be32 b @ be32 c @ be32 d @ be32 e @ be32 f @ be32 g @ be32 hh)"

lemma length_sha256Sum [simp]: "length (sha256Sum msg) = 32"
  by (simp add: sha256Sum_def split: prod.split)

section \<open>Interface identifiers\<close>

datatype IIDMode = IIDModeEUI64 | IIDModeStablePrivacy | IIDModeOther byte

abbreviation (input) MinIIDSecretLen :: nat where "MinIIDSecretLen \<equiv> 16"
abbreviation (input) IDGenRetries :: byte where "IDGenRetries \<equiv> 3"

datatype iid_error = ErrLinkAddrLen | ErrBadIIDMode | ErrNotIPv6Prefix | ErrIIDLength

definition ModifiedEUI64 :: "byte list \<Rightarrow> iid_error + byte list" where
  "ModifiedEUI64 hw =
     (if length hw = 6 then Inr ([hw ! 0 XOR 0x02, hw ! 1, hw ! 2, 0xFF, 0xFE] @ drop 3 hw)
      else if length hw = 8 then Inr ((hw ! 0 XOR 0x02) # drop 1 hw)
      else Inl ErrLinkAddrLen)"

text \<open>\<^verbatim>\<open>binary.AppendUvarint\<close>: seven bits an octet, the least significant first.\<close>

function uvarint :: "nat \<Rightarrow> byte list" where
  "uvarint n = (if n < 128 then [of_nat n] else of_nat (n mod 128 + 128) # uvarint (n div 128))"
  by pat_completeness auto
termination by (relation "measure id") auto

declare uvarint.simps [simp del]

text \<open>What RFC 7217's function F is computed over.\<close>

definition iid_input :: "prefix \<Rightarrow> byte list \<Rightarrow> byte list \<Rightarrow> byte \<Rightarrow> byte list \<Rightarrow> byte list" where
  "iid_input p netIface networkID dadCounter secret =
     (let p = Masked p in
      As16 (paddr p) @ [word_of_int (pbits p)] @ uvarint (length netIface) @ netIface
        @ uvarint (length networkID) @ networkID @ [dadCounter] @ secret)"

definition StablePrivacyIID :: "prefix \<Rightarrow> byte list \<Rightarrow> byte list \<Rightarrow> byte \<Rightarrow> byte list \<Rightarrow> byte list" where
  "StablePrivacyIID p netIface networkID dadCounter secret =
     drop 24 (sha256Sum (iid_input p netIface networkID dadCounter secret))"

record iidSource =
  iidMode :: IIDMode
  iidHw :: "byte list"
  iidNetIface :: "byte list"
  iidNetworkID :: "byte list"
  iidSecret :: "byte list"

definition iid :: "iidSource \<Rightarrow> prefix \<Rightarrow> byte \<Rightarrow> iid_error + byte list" where
  "iid s p counter =
     (case iidMode s of
        IIDModeEUI64 \<Rightarrow> ModifiedEUI64 (iidHw s)
      | IIDModeStablePrivacy \<Rightarrow> Inr (StablePrivacyIID p (iidNetIface s) (iidNetworkID s) counter (iidSecret s))
      | IIDModeOther _ \<Rightarrow> Inl ErrBadIIDMode)"

definition retries :: "iidSource \<Rightarrow> byte" where
  "retries s = (if iidMode s = IIDModeStablePrivacy then IDGenRetries else 0)"

section \<open>Properties\<close>

lemma iid_length: "iid s p counter = Inr b \<Longrightarrow> length b = 8"
  by (auto simp: iid_def ModifiedEUI64_def StablePrivacyIID_def split: IIDMode.splits if_splits)

lemma uvarint_prefix_free: "uvarint a @ x = uvarint b @ y \<Longrightarrow> a = b \<and> x = y"
proof (induction a arbitrary: b rule: uvarint.induct)
  case (1 a)
  have small: "(of_nat n :: byte) = of_nat k \<longleftrightarrow> n = k" if "n < 256" "k < 256" for n k
    using that by (metis unat_of_nat_byte)
  show ?case
  proof (cases "a < 128")
    case True
    with "1.prems" show ?thesis
      by (cases "b < 128") (auto simp: uvarint.simps [of a] uvarint.simps [of b] small simp del: of_nat_add)
  next
    case False
    then have nb: "\<not> b < 128" using "1.prems"
      by (auto simp: uvarint.simps [of a] uvarint.simps [of b] small simp del: of_nat_add)
    have eq: "(of_nat (a mod 128 + 128) :: byte) = of_nat (b mod 128 + 128)" "uvarint (a div 128) @ x = uvarint (b div 128) @ y"
      using "1.prems" False nb by (auto simp: uvarint.simps [of a] uvarint.simps [of b] simp del: of_nat_add)
    have "a mod 128 < 128" "b mod 128 < 128" by simp_all
    then have "a mod 128 = b mod 128" using eq(1) small [of "a mod 128 + 128" "b mod 128 + 128"] by linarith
    moreover have "a div 128 = b div 128 \<and> x = y" using "1.IH" [OF False] eq(2) by blast
    ultimately show ?thesis by (metis div_mult_mod_eq)
  qed
qed

lemma Masked_bits: "Is6 (paddr p) \<Longrightarrow> PrefixIsValid p \<Longrightarrow> pbits (Masked p) = pbits p \<and> Is6 (paddr (Masked p))"
  by (cases "paddr p") (auto simp: Masked_def PrefixIsValid_def)

text \<open>
  No two requests for an identifier share what the hash is taken over: the octets determine the
  network part of the prefix, its length, the interface, the network, the DAD counter and the secret,
  so a different network always hashes different octets, as RFC 7217 needs.
\<close>

theorem iid_input_injective:
  assumes "iid_input p n w c s = iid_input q n' w' c' s'"
    and "Is6 (paddr p)" "Is6 (paddr q)" "0 \<le> pbits p" "pbits p \<le> 128" "0 \<le> pbits q" "pbits q \<le> 128"
  shows "Masked p = Masked q \<and> n = n' \<and> w = w' \<and> c = c' \<and> s = s'"
proof -
  have m: "pbits (Masked p) = pbits p" "Is6 (paddr (Masked p))" "pbits (Masked q) = pbits q" "Is6 (paddr (Masked q))"
    using Masked_bits assms by (auto simp: PrefixIsValid_def)
  let ?r = "\<lambda>n w c s. uvarint (length n) @ n @ uvarint (length w) @ w @ c # s"
  have "As16 (paddr (Masked p)) @ word_of_int (pbits p) # ?r n w c s
      = As16 (paddr (Masked q)) @ word_of_int (pbits q) # ?r n' w' c' s'"
    using assms(1) by (simp add: iid_input_def Let_def m)
  then have eq: "As16 (paddr (Masked p)) = As16 (paddr (Masked q))" "(word_of_int (pbits p) :: byte) = word_of_int (pbits q)"
    "?r n w c s = ?r n' w' c' s'" by simp_all
  have "paddr (Masked p) = paddr (Masked q)" using eq(1) m AddrFrom16_As16 by metis
  moreover have "pbits p = pbits q"
  proof -
    have "uint (word_of_int k :: byte) = k" if "0 \<le> k" "k \<le> 128" for k :: int
      using that by (simp add: uint_word_of_int)
    then show ?thesis using eq(2) assms by metis
  qed
  ultimately have pq: "Masked p = Masked q" using m by simp
  from uvarint_prefix_free [OF eq(3)] have n: "n = n'" "uvarint (length w) @ w @ c # s = uvarint (length w') @ w' @ c' # s'" by auto
  from uvarint_prefix_free [OF n(2)] have "w = w'" "c # s = c' # s'" by auto
  with pq n(1) show ?thesis by simp
qed

lemma iid_input_injective_witness:
  "iid_input \<lparr>paddr = Addr6 0x20010DB8000000000000000000000005, pbits = 64\<rparr> [101] [] 0 [1]
   = iid_input \<lparr>paddr = Addr6 0x20010DB8000000000000000000000009, pbits = 64\<rparr> [101] [] 0 [1]
   \<and> Masked \<lparr>paddr = Addr6 0x20010DB8000000000000000000000005, pbits = 64\<rparr>
     = Masked \<lparr>paddr = Addr6 0x20010DB8000000000000000000000009, pbits = 64\<rparr>"
proof -
  let ?p = "\<lparr>paddr = Addr6 0x20010DB8000000000000000000000005, pbits = 64\<rparr>"
  let ?q = "\<lparr>paddr = Addr6 0x20010DB8000000000000000000000009, pbits = 64\<rparr>"
  have e: "iid_input ?p [101] [] 0 [1] = iid_input ?q [101] [] 0 [1]" by code_simp
  from iid_input_injective [OF e] e show ?thesis by simp
qed

end
