(* ===== verification/Proto6_Sha_Vectors.thy ===== *)
theory Proto6_Sha_Vectors
  imports Proto6_Iid
begin

text \<open>The published test vector of FIPS 180-4, evaluated in the kernel.\<close>

theorem sha256_vector:
  "sha256Sum [97, 98, 99] =
     [0xba, 0x78, 0x16, 0xbf, 0x8f, 0x01, 0xcf, 0xea, 0x41, 0x41, 0x40, 0xde, 0x5d, 0xae, 0x22, 0x23,
      0xb0, 0x03, 0x61, 0xa3, 0x96, 0x17, 0x7a, 0x9c, 0xb4, 0x10, 0xff, 0x61, 0xf2, 0x00, 0x15, 0xad]"
  by code_simp

end
