(* ===== verification/Proto6_Backoff.thy ===== *)
theory Proto6_Backoff
  imports Proto_Time
begin

text \<open>
  The retransmission of RFC 9915 section 15 as \<^verbatim>\<open>src/proto/backoff6.go\<close> computes it: a random
  factor of a tenth either way in fixed point, the first and the next timeout, and the limits
  on transmissions and duration. A \<open>Retransmit\<close> is one row of the parameter table.
\<close>

record Retransmit =
  IRT :: Duration
  MRT :: Duration
  MRC :: int
  MRD :: Duration

abbreviation (input) randScale :: int where "randScale \<equiv> 1000000"
abbreviation (input) randDenom :: int where "randDenom \<equiv> 10000000"

definition randFactor :: "rnd64 \<Rightarrow> int" where
  "randFactor rnd = uint rnd mod (2 * randScale + 1) - randScale"

definition nonNegative :: "Duration \<Rightarrow> Duration" where
  "nonNegative d = (if d < 0 then 0 else d)"

text \<open>
  \<^verbatim>\<open>bits.Mul64\<close> and \<^verbatim>\<open>bits.Div64\<close> are the 128-bit product and its quotient; the first branch is the
  one the source takes when the quotient would not fit 64 bits.
\<close>

definition scaleRand :: "Duration \<Rightarrow> int \<Rightarrow> Duration" where
  "scaleRand d n =
     (if d = 0 \<or> n = 0 then 0
      else let neg = ((d < 0) \<noteq> (n < 0)); p = \<bar>d\<bar> * \<bar>n\<bar>;
        q = i64 (if p div 2 ^ 64 \<ge> randDenom then \<bar>d\<bar> div 10 else p div randDenom)
      in if neg then i64 (- q) else q)"

definition First_rt :: "Retransmit \<Rightarrow> rnd64 \<Rightarrow> Duration" where
  "First_rt r rnd = nonNegative (i64 (IRT r + scaleRand (IRT r) (randFactor rnd)))"

definition Next_rt :: "Retransmit \<Rightarrow> Duration \<Rightarrow> rnd64 \<Rightarrow> Duration" where
  "Next_rt r prev rnd =
     (let n = randFactor rnd;
          rt = i64 (i64 (2 * prev) + scaleRand prev n);
          rt = (if MRT r > 0 \<and> rt > MRT r then i64 (MRT r + scaleRand (MRT r) n) else rt)
      in nonNegative rt)"

definition Exhausted_rt :: "Retransmit \<Rightarrow> int \<Rightarrow> Duration \<Rightarrow> bool" where
  "Exhausted_rt r count elapsed \<longleftrightarrow> MRC r > 0 \<and> count \<ge> MRC r \<or> MRD r > 0 \<and> elapsed \<ge> MRD r"

section \<open>Properties\<close>

lemma randFactor_bounds: "- randScale \<le> randFactor rnd \<and> randFactor rnd \<le> randScale"
  using pos_mod_bound [of "2 * randScale + 1" "uint rnd"] pos_mod_sign [of "2 * randScale + 1" "uint rnd"]
  by (simp add: randFactor_def)

text \<open>Within \<open>2^62\<close> the scaled factor is the exact product truncated towards zero.\<close>

lemma scaleRand_exact:
  assumes "0 \<le> d" "d \<le> 2 ^ 62" "- randScale \<le> n" "n \<le> randScale"
  shows "scaleRand d n = (if n < 0 then - (d * - n div randDenom) else d * n div randDenom)"
proof -
  have n: "\<bar>n\<bar> \<le> randScale" using assms by simp
  have p: "d * \<bar>n\<bar> \<le> 2 ^ 62 * randScale" using mult_mono [OF assms(2) n] assms(1) by simp
  have p0: "0 \<le> d * \<bar>n\<bar>" using assms(1) by simp
  have "d * \<bar>n\<bar> div 2 ^ 64 < randDenom" using p by simp
  moreover have "i64 (d * \<bar>n\<bar> div randDenom) = d * \<bar>n\<bar> div randDenom"
    "i64 (- (d * \<bar>n\<bar> div randDenom)) = - (d * \<bar>n\<bar> div randDenom)"
    using p p0 by (intro i64_id in64I; simp)+
  ultimately show ?thesis using assms(1) by (cases "n < 0") (auto simp: scaleRand_def Let_def)
qed

lemma scaleRand_bounds:
  assumes "0 \<le> d" "d \<le> 2 ^ 62"
  shows "- d \<le> 10 * scaleRand d (randFactor rnd) \<and> 10 * scaleRand d (randFactor rnd) \<le> d"
proof -
  let ?n = "randFactor rnd"
  have n: "- randScale \<le> ?n" "?n \<le> randScale" using randFactor_bounds by simp_all
  have q: "0 \<le> d * k div randDenom \<and> 10 * (d * k div randDenom) \<le> d" if "0 \<le> k" "k \<le> randScale" for k
  proof -
    have "d * k \<le> d * randScale" using that assms(1) by (simp add: mult_left_mono)
    then have "d * k div randDenom \<le> d * randScale div randDenom" by (rule zdiv_mono1) simp
    moreover have "d * randScale div randDenom = d div 10" using div_mult_mult2 [of randScale d 10] by simp
    moreover have "10 * (d div 10) \<le> d" by simp
    moreover have "0 \<le> d * k div randDenom" using that assms(1) by (simp add: pos_imp_zdiv_nonneg_iff)
    ultimately show ?thesis by linarith
  qed
  from q [of ?n] q [of "- ?n"] n scaleRand_exact [OF assms n] show ?thesis
    by (auto split: if_splits)
qed

lemma First_rt_bounds:
  assumes "0 \<le> IRT r" "IRT r \<le> 2 ^ 62"
  shows "9 * IRT r \<le> 10 * First_rt r rnd \<and> 10 * First_rt r rnd \<le> 11 * IRT r"
proof -
  have b: "- IRT r \<le> 10 * scaleRand (IRT r) (randFactor rnd)" "10 * scaleRand (IRT r) (randFactor rnd) \<le> IRT r"
    using scaleRand_bounds [OF assms] by simp_all
  moreover have "IRT r \<le> 4611686018427387904" using assms by simp
  ultimately have "i64 (IRT r + scaleRand (IRT r) (randFactor rnd)) = IRT r + scaleRand (IRT r) (randFactor rnd)"
    using assms by (intro i64_id in64I) linarith+
  with b assms show ?thesis by (auto simp: First_rt_def nonNegative_def)
qed

lemma Next_rt_bounds:
  assumes "0 \<le> prev" "prev \<le> 2 ^ 61" "0 \<le> MRT r" "MRT r \<le> 2 ^ 61"
  shows "(MRT r = 0 \<longrightarrow> 19 * prev \<le> 10 * Next_rt r prev rnd \<and> 10 * Next_rt r prev rnd \<le> 21 * prev)
    \<and> (MRT r > 0 \<longrightarrow> min (19 * prev) (9 * MRT r) \<le> 10 * Next_rt r prev rnd \<and> 10 * Next_rt r prev rnd \<le> 11 * MRT r)"
proof -
  let ?s = "scaleRand prev (randFactor rnd)" and ?t = "scaleRand (MRT r) (randFactor rnd)"
  have s: "- prev \<le> 10 * ?s" "10 * ?s \<le> prev" using scaleRand_bounds [of prev rnd] assms by simp_all
  have t: "- MRT r \<le> 10 * ?t" "10 * ?t \<le> MRT r" using scaleRand_bounds [of "MRT r" rnd] assms by simp_all
  have m: "prev \<le> 2305843009213693952" "MRT r \<le> 2305843009213693952" using assms by simp_all
  have "i64 (2 * prev) = 2 * prev" using assms m by (intro i64_id in64I) linarith+
  moreover have "i64 (2 * prev + ?s) = 2 * prev + ?s" using assms m s by (intro i64_id in64I) linarith+
  moreover have "i64 (MRT r + ?t) = MRT r + ?t" using assms m t by (intro i64_id in64I) linarith+
  ultimately show ?thesis using s t assms
    by (auto simp: Next_rt_def Let_def nonNegative_def min_def split: if_splits)
qed

text \<open>The timeouts of an exchange: the first, then one per retransmission.\<close>

fun timeouts :: "Retransmit \<Rightarrow> rnd64 \<Rightarrow> rnd64 list \<Rightarrow> Duration list" where
  "timeouts r rnd [] = [First_rt r rnd]"
| "timeouts r rnd (x # xs) = (case timeouts r rnd xs of [] \<Rightarrow> [] | p # ps \<Rightarrow> Next_rt r p x # p # ps)"

lemma timeouts_nonempty: "timeouts r rnd xs \<noteq> []"
  by (induction xs) (auto split: list.splits)



end
