(* ===== verification/Proto6_Lease.thy ===== *)
theory Proto6_Lease
  imports Wire_V6 Proto_Lease
begin

text \<open>
  What a DHCPv6 client holds: the lease of \<^verbatim>\<open>src/proto/lease6.go\<close> with its deadlines, the lifetimes of
  \<^verbatim>\<open>temporary6.go\<close> and \<^verbatim>\<open>prefix6.go\<close>, and the readers of the identity associations of a Reply. A
  lifetime counts from the start of its lease; carrying it into another lease keeps its end.
\<close>

section \<open>Lines of the journal\<close>

datatype ia_kind = InNA | InTA | InPD

datatype ia_note =
    NoteIAError ia_kind v6_error
  | NoteForeignIAID ia_kind "32 word"
  | NoteSecondIA ia_kind "32 word"
  | NoteT1AboveT2 ia_kind Duration Duration
  | NoteIAStatusError ia_kind v6_error
  | NoteNoIA ia_kind "32 word"
  | NoteNotOurs ia_kind "16 word" nat
  | NoteAddrsError ia_kind v6_error
  | NoteAddrLifetimes addr "32 word" "32 word"
  | NoteAddrZero addr
  | NoteAddrUnusable addr
  | NotePrefixesError v6_error
  | NotePrefixLifetimes prefix "32 word" "32 word"
  | NotePrefixZero prefix
  | NotePrefixUnusable prefix
  | NoteTopLevelAddrs nat
  | NoteDNSError v6_error
  | NoteSearch6Error v6_error
  | NoteFQDN ClientFQDN
  | NoteFQDNError v6_error
  | NoteAlsoStable addr
  | NoteT2Late Duration Duration Duration
  | NoteT1Late Duration Duration Duration

section \<open>The lease\<close>

text \<open>The struct \<^verbatim>\<open>Addr6\<close>; the name is a constructor of \<open>addr\<close> here.\<close>

record AddrV6 =
  a6Addr :: addr
  a6Preferred :: Duration
  a6Valid :: Duration
  a6PrefixLen :: int

record Prefix6 =
  p6Prefix :: prefix
  p6Preferred :: Duration
  p6Valid :: Duration

record Lease6 =
  l6IAID :: "32 word"
  l6Addrs :: "AddrV6 list"
  l6TempAddrs :: "AddrV6 list"
  l6Prefixes :: "Prefix6 list"
  l6ServerDUID :: "byte list"
  l6PrefixServerDUID :: "byte list"
  l6pdT1 :: Duration
  l6pdT2 :: Duration
  l6pdStart :: Instant
  l6pdTimed :: bool
  l6T1 :: Duration
  l6T2 :: Duration
  l6Start :: Instant
  l6DNS :: "addr list"
  l6Search :: "gostring list"
  l6Options :: OptionsV6
  l6FQDN :: ClientFQDN
  l6HasFQDN :: bool
  l6SLAAC :: bool
  l6ReconfigureKey :: "byte list"
  l6ReconfigureReplay :: "64 word"
  l6ReconfigureReplaySeen :: bool

definition zero_lease6 :: Lease6 where
  "zero_lease6 = \<lparr>l6IAID = 0, l6Addrs = [], l6TempAddrs = [], l6Prefixes = [], l6ServerDUID = [],
     l6PrefixServerDUID = [], l6pdT1 = 0, l6pdT2 = 0, l6pdStart = 0, l6pdTimed = False, l6T1 = 0, l6T2 = 0,
     l6Start = 0, l6DNS = [], l6Search = [], l6Options = [], l6FQDN = \<lparr>FqFlags = 0, FqName = []\<rparr>,
     l6HasFQDN = False, l6SLAAC = False, l6ReconfigureKey = [], l6ReconfigureReplay = 0,
     l6ReconfigureReplaySeen = False\<rparr>"

definition Lease6_Addr :: "Lease6 \<Rightarrow> addr option" where
  "Lease6_Addr l = (case l6Addrs l of [] \<Rightarrow> None | a # _ \<Rightarrow> Some (a6Addr a))"

definition Lease6_Prefix :: "Lease6 \<Rightarrow> prefix option" where
  "Lease6_Prefix l =
     (case l6Addrs l of
        [] \<Rightarrow> None
      | a # _ \<Rightarrow> Some (PrefixFrom (a6Addr a) (if a6PrefixLen a > 0 then a6PrefixLen a else 128)))"

section \<open>Ends of lifetimes\<close>

text \<open>The first of the least, as the loops with a \<^verbatim>\<open>first\<close> or \<^verbatim>\<open>found\<close> flag compute it.\<close>

definition least :: "int list \<Rightarrow> int option" where
  "least ds = foldl (\<lambda>acc d. case acc of None \<Rightarrow> Some d | Some b \<Rightarrow> Some (if d < b then d else b)) None ds"

definition expiry :: "Instant \<Rightarrow> Duration \<Rightarrow> Instant option" where
  "expiry start d = (if IsInfinite d then None else Some (Add start d))"

definition shortestPreferred :: "Lease6 \<Rightarrow> Duration" where
  "shortestPreferred l =
     (case least (filter (\<lambda>d. \<not> IsInfinite d) (map a6Preferred (l6Addrs l))) of
        Some d \<Rightarrow> d
      | None \<Rightarrow> if l6Addrs l = [] then 0 else Infinite)"

definition renewPreferred :: "Lease6 \<Rightarrow> Duration" where
  "renewPreferred l =
     (let ps = map a6Preferred (l6Addrs l) in
      case least (filter (\<lambda>d. \<not> IsInfinite d \<and> d > 0) ps) of
        Some d \<Rightarrow> d
      | None \<Rightarrow> if list_ex IsInfinite ps then Infinite else 0)"

definition longestValid :: "Lease6 \<Rightarrow> Duration" where
  "longestValid l =
     (let vs = map a6Valid (l6Addrs l) in
      if list_ex IsInfinite vs then Infinite else foldl (\<lambda>b v. if v > b then v else b) 0 vs)"

definition lifetimes :: "Lease6 \<Rightarrow> Duration list" where
  "lifetimes l = map a6Valid (l6Addrs l) @ map a6Valid (l6TempAddrs l) @ map p6Valid (l6Prefixes l)"

definition nextEnd :: "Lease6 \<Rightarrow> Instant option" where
  "nextEnd l = least (List.map_filter (expiry (l6Start l)) (lifetimes l))"

definition ended :: "Instant \<Rightarrow> Instant \<Rightarrow> Duration \<Rightarrow> bool" where
  "ended start now d = (case expiry start d of None \<Rightarrow> False | Some e \<Rightarrow> \<not> now < e)"

definition withoutEnded :: "Instant \<Rightarrow> Lease6 \<Rightarrow> Lease6 \<times> nat" where
  "withoutEnded now l =
     (let gone = ended (l6Start l) now in
      (l\<lparr>l6Addrs := filter (\<lambda>a. \<not> gone (a6Valid a)) (l6Addrs l),
         l6TempAddrs := filter (\<lambda>a. \<not> gone (a6Valid a)) (l6TempAddrs l),
         l6Prefixes := filter (\<lambda>p. \<not> gone (p6Valid p)) (l6Prefixes l)\<rparr>,
       length (filter gone (lifetimes l))))"

definition PreferredUntil :: "Lease6 \<Rightarrow> Instant option" where
  "PreferredUntil l =
     (if l6Addrs l = [] then None
      else let p = shortestPreferred l in
        if IsInfinite p \<or> p \<le> 0 then None else Some (Add (l6Start l) p))"

section \<open>Deadlines\<close>

record deadlines6 =
  d6Renew :: Instant
  d6Rebind :: Instant
  d6Expire :: Instant
  d6HasRenew :: bool
  d6HasRebind :: bool
  d6HasExpire :: bool
  d6Note :: "ia_note list"

definition no_deadlines :: deadlines6 where
  "no_deadlines = \<lparr>d6Renew = 0, d6Rebind = 0, d6Expire = 0, d6HasRenew = False, d6HasRebind = False,
     d6HasExpire = False, d6Note = []\<rparr>"

definition chosenTime :: "Duration \<Rightarrow> Duration \<Rightarrow> Duration \<Rightarrow> Duration" where
  "chosenTime base den num = (if IsInfinite base then Infinite else i64 (quot64 base den * num))"

definition unset_time :: "Duration \<Rightarrow> bool" where
  "unset_time t \<longleftrightarrow> t = 0 \<or> t < 0 \<and> \<not> IsInfinite t"

text \<open>The two intervals \<^verbatim>\<open>renewTimes\<close> settles on, with the lines its clamps leave.\<close>

definition renew_times :: "Duration \<Rightarrow> Duration \<Rightarrow> Duration \<Rightarrow> Duration \<Rightarrow> Duration \<times> Duration \<times> ia_note list" where
  "renew_times t1 t2 pref valid =
     (let base = (if \<not> IsInfinite pref \<and> pref \<le> 0 then valid else pref);
          renew = (if unset_time t1 then chosenTime base 2 1 else t1);
          rebind0 = (if unset_time t2 then chosenTime base 5 4 else t2);
          late2 = (\<not> IsInfinite rebind0 \<and> \<not> IsInfinite valid \<and> rebind0 \<ge> valid);
          rebind = (if late2 then (if IsInfinite base then valid else i64 (quot64 base 5 * 4)) else rebind0);
          late1 = (\<not> IsInfinite renew \<and> \<not> IsInfinite rebind \<and> renew \<ge> rebind)
      in (if late1 then quot64 rebind 2 else renew, rebind,
          (if late2 then [NoteT2Late rebind0 valid rebind] else [])
          @ (if late1 then [NoteT1Late renew rebind (quot64 rebind 2)] else [])))"

definition renewTimes :: "Duration \<Rightarrow> Duration \<Rightarrow> Instant \<Rightarrow> Duration \<Rightarrow> Duration \<Rightarrow> deadlines6" where
  "renewTimes t1 t2 start pref valid =
     (case renew_times t1 t2 pref valid of (renew, rebind, note) \<Rightarrow>
        no_deadlines\<lparr>d6Renew := (if renew > 0 then Add start renew else 0), d6HasRenew := renew > 0,
          d6Rebind := (if rebind > 0 then Add start rebind else 0), d6HasRebind := rebind > 0, d6Note := note\<rparr>)"

definition prefixesPreferForever :: "Lease6 \<Rightarrow> bool" where
  "prefixesPreferForever l \<longleftrightarrow> list_all (\<lambda>p. expiry (l6Start l) (p6Preferred p) = None) (l6Prefixes l)"

text \<open>The loop of \<^verbatim>\<open>groupDeadlines\<close> over the prefixes: shortest live preferred and longest valid time.\<close>

definition pd_lifetime :: "Instant \<Rightarrow> Instant \<Rightarrow> Duration \<times> Duration \<times> bool \<Rightarrow> Prefix6 \<Rightarrow> Duration \<times> Duration \<times> bool" where
  "pd_lifetime start pdStart acc p =
     (case acc of (pref, pvalid, live) \<Rightarrow>
        let (pref, live) = (case expiry start (p6Preferred p) of
              None \<Rightarrow> (pref, live)
            | Some e \<Rightarrow> if Sub e pdStart > 0 \<and> (\<not> live \<or> Sub e pdStart < pref) then (Sub e pdStart, True) else (pref, live));
          pvalid = (case expiry start (p6Valid p) of
              None \<Rightarrow> Infinite
            | Some e \<Rightarrow> if \<not> IsInfinite pvalid \<and> Sub e pdStart > pvalid then Sub e pdStart else pvalid)
        in (pref, pvalid, live))"

definition groupDeadlines :: "Lease6 \<Rightarrow> deadlines6 \<times> deadlines6" where
  "groupDeadlines l =
     (let na = renewTimes (l6T1 l) (l6T2 l) (l6Start l) (renewPreferred l) (longestValid l) in
      if \<not> l6pdTimed l then (na, na)
      else case foldl (pd_lifetime (l6Start l) (l6pdStart l)) (0, 0, False) (l6Prefixes l) of
        (pref, pvalid, live) \<Rightarrow>
          let pref = (if \<not> live \<and> prefixesPreferForever l then Infinite else pref)
          in (na, renewTimes (l6pdT1 l) (l6pdT2 l) (l6pdStart l) pref pvalid))"

definition earliestDeadline :: "Instant \<Rightarrow> bool \<Rightarrow> Instant \<Rightarrow> bool \<Rightarrow> Instant \<times> bool" where
  "earliestDeadline a hasA b hasB = (if \<not> hasA \<or> hasB \<and> b < a then (b, hasB) else (a, True))"

definition merge_deadlines :: "deadlines6 \<Rightarrow> deadlines6 \<Rightarrow> deadlines6 \<Rightarrow> deadlines6" where
  "merge_deadlines na pd d =
     (case (earliestDeadline (d6Renew na) (d6HasRenew na) (d6Renew pd) (d6HasRenew pd),
            earliestDeadline (d6Rebind na) (d6HasRebind na) (d6Rebind pd) (d6HasRebind pd)) of
        ((renew, hasRenew), (rebind, hasRebind)) \<Rightarrow>
          d\<lparr>d6Renew := renew, d6HasRenew := hasRenew, d6Rebind := rebind, d6HasRebind := hasRebind\<rparr>)"

definition Deadlines6 :: "Lease6 \<Rightarrow> deadlines6" where
  "Deadlines6 l =
     (let valid = longestValid l;
          d = (if IsInfinite valid then no_deadlines
               else no_deadlines\<lparr>d6Expire := Add (l6Start l) valid, d6HasExpire := True\<rparr>)
      in if l6Addrs l = [] \<or> \<not> IsInfinite valid \<and> valid \<le> 0 then d
         else if l6SLAAC l then d
         else if l6pdTimed l \<and> l6Prefixes l \<noteq> [] then
           (case groupDeadlines l of (na, pd) \<Rightarrow> merge_deadlines na pd (d\<lparr>d6Note := d6Note na\<rparr>))
         else
           let r = renewTimes (l6T1 l) (l6T2 l) (l6Start l) (renewPreferred l) valid
           in d\<lparr>d6Renew := d6Renew r, d6HasRenew := d6HasRenew r, d6Rebind := d6Rebind r,
                d6HasRebind := d6HasRebind r, d6Note := d6Note r\<rparr>)"

section \<open>Servers of a lease\<close>

definition prefixServer :: "Lease6 \<Rightarrow> byte list" where
  "prefixServer l = (if length (l6PrefixServerDUID l) > 0 then l6PrefixServerDUID l else l6ServerDUID l)"

definition split6 :: "Lease6 \<Rightarrow> bool" where
  "split6 l \<longleftrightarrow> length (l6PrefixServerDUID l) > 0"

definition canonPD :: "Lease6 \<Rightarrow> Lease6" where
  "canonPD l =
     (if l6Prefixes l = [] then l\<lparr>l6PrefixServerDUID := [], l6pdT1 := 0, l6pdT2 := 0, l6pdStart := 0, l6pdTimed := False\<rparr>
      else if l6PrefixServerDUID l = l6ServerDUID l then l\<lparr>l6PrefixServerDUID := []\<rparr>
      else l)"

definition pdOrigin :: "Lease6 \<Rightarrow> Instant" where
  "pdOrigin l = (if l6pdTimed l then l6pdStart l else l6Start l)"

section \<open>Equality of leases\<close>

definition sameT :: "Instant \<Rightarrow> Duration \<Rightarrow> Instant \<Rightarrow> Duration \<Rightarrow> bool" where
  "sameT s1 a s2 b \<longleftrightarrow> a = b \<or> a > 0 \<and> b > 0 \<and> Add s1 a = Add s2 b"

definition sameEnd :: "Instant \<Rightarrow> Duration \<Rightarrow> Instant \<Rightarrow> Duration \<Rightarrow> bool" where
  "sameEnd s1 d1 s2 d2 \<longleftrightarrow> expiry s1 d1 = expiry s2 d2"

text \<open>Two ends both already past count as the same.\<close>

definition samePreferred :: "Instant \<Rightarrow> Duration \<Rightarrow> Instant \<Rightarrow> Duration \<Rightarrow> bool" where
  "samePreferred s1 d1 s2 d2 =
     (case (expiry s1 d1, expiry s2 d2) of
        (None, None) \<Rightarrow> True
      | (Some e1, Some e2) \<Rightarrow>
          let later = (if s2 > s1 then s2 else s1) in \<not> e1 > later \<and> \<not> e2 > later \<or> e1 = e2
      | _ \<Rightarrow> False)"

definition sameLifetimes :: "Instant \<Rightarrow> Duration \<Rightarrow> Duration \<Rightarrow> Instant \<Rightarrow> Duration \<Rightarrow> Duration \<Rightarrow> bool" where
  "sameLifetimes s1 p1 v1 s2 p2 v2 \<longleftrightarrow>
     p1 = p2 \<and> v1 = v2 \<or> sameEnd s1 v1 s2 v2 \<and> samePreferred s1 p1 s2 p2"

definition tempEqual :: "Lease6 \<Rightarrow> Lease6 \<Rightarrow> bool" where
  "tempEqual a b \<longleftrightarrow>
     list_all2 (\<lambda>x y. a6Addr x = a6Addr y \<and> a6PrefixLen x = a6PrefixLen y
        \<and> sameEnd (l6Start a) (a6Valid x) (l6Start b) (a6Valid y)
        \<and> samePreferred (l6Start a) (a6Preferred x) (l6Start b) (a6Preferred y)) (l6TempAddrs a) (l6TempAddrs b)"

definition Equal6 :: "Lease6 \<Rightarrow> Lease6 \<Rightarrow> bool" where
  "Equal6 l u \<longleftrightarrow>
     l6IAID l = l6IAID u \<and> l6SLAAC l = l6SLAAC u
     \<and> list_all2 (\<lambda>x y. a6Addr x = a6Addr y \<and> a6PrefixLen x = a6PrefixLen y
          \<and> sameLifetimes (l6Start l) (a6Preferred x) (a6Valid x) (l6Start u) (a6Preferred y) (a6Valid y)) (l6Addrs l) (l6Addrs u)
     \<and> tempEqual l u
     \<and> list_all2 (\<lambda>x y. p6Prefix x = p6Prefix y
          \<and> sameLifetimes (l6Start l) (p6Preferred x) (p6Valid x) (l6Start u) (p6Preferred y) (p6Valid y)) (l6Prefixes l) (l6Prefixes u)
     \<and> l6ServerDUID l = l6ServerDUID u \<and> prefixServer l = prefixServer u
     \<and> (l6pdTimed l \<or> l6pdTimed u \<longrightarrow>
          sameT (pdOrigin l) (l6pdT1 l) (pdOrigin u) (l6pdT1 u) \<and> sameT (pdOrigin l) (l6pdT2 l) (pdOrigin u) (l6pdT2 u))
     \<and> l6T1 l = l6T1 u \<and> l6T2 l = l6T2 u \<and> slicesEqual (l6DNS l) (l6DNS u) \<and> slicesEqual (l6Search l) (l6Search u)"

section \<open>Carrying lifetimes into a new lease\<close>

definition carryLifetimes :: "Duration \<Rightarrow> Duration \<Rightarrow> Instant \<Rightarrow> Instant \<Rightarrow> Instant \<Rightarrow> (Duration \<times> Duration) option" where
  "carryLifetimes pref valid prevStart newStart now =
     (let pref' = (case expiry prevStart pref of None \<Rightarrow> pref
                   | Some e \<Rightarrow> if Sub e newStart < 0 then 0 else Sub e newStart) in
      case expiry prevStart valid of
        None \<Rightarrow> Some (pref', valid)
      | Some e \<Rightarrow> if \<not> e > now then None else Some (pref', Sub e newStart))"

definition carry_addr :: "Instant \<Rightarrow> Instant \<Rightarrow> Instant \<Rightarrow> AddrV6 \<Rightarrow> AddrV6 option" where
  "carry_addr prevStart newStart now a =
     map_option (\<lambda>(pref, valid). a\<lparr>a6Preferred := pref, a6Valid := valid\<rparr>)
       (carryLifetimes (a6Preferred a) (a6Valid a) prevStart newStart now)"

definition carry_prefix :: "Instant \<Rightarrow> Instant \<Rightarrow> Instant \<Rightarrow> Prefix6 \<Rightarrow> Prefix6 option" where
  "carry_prefix prevStart newStart now p =
     map_option (\<lambda>(pref, valid). p\<lparr>p6Preferred := pref, p6Valid := valid\<rparr>)
       (carryLifetimes (p6Preferred p) (p6Valid p) prevStart newStart now)"

definition carryTemp :: "AddrV6 list \<Rightarrow> Instant \<Rightarrow> Instant \<Rightarrow> Instant \<Rightarrow> AddrV6 list" where
  "carryTemp prev prevStart newStart now = List.map_filter (carry_addr prevStart newStart now) prev"

definition rebasePrefixes :: "Prefix6 list \<Rightarrow> Instant \<Rightarrow> Instant \<Rightarrow> Instant \<Rightarrow> Prefix6 list" where
  "rebasePrefixes ps from to now = List.map_filter (carry_prefix from to now) ps"

definition addrIndex :: "AddrV6 list \<Rightarrow> addr \<Rightarrow> AddrV6 option" where
  "addrIndex as a = find (\<lambda>x. a6Addr x = a) as"

definition renewedAddrs :: "AddrV6 list \<Rightarrow> Instant \<Rightarrow> AddrV6 list \<Rightarrow> addr list \<Rightarrow> Instant \<Rightarrow> Instant \<Rightarrow> AddrV6 list" where
  "renewedAddrs held heldStart got zeroed newStart now =
     List.map_filter (\<lambda>h. case addrIndex got (a6Addr h) of
         Some g \<Rightarrow> Some g
       | None \<Rightarrow> if a6Addr h \<in> set zeroed then None else carry_addr heldStart newStart now h) held
     @ filter (\<lambda>a. addrIndex held (a6Addr a) = None) got"

definition withoutTemp :: "Lease6 \<Rightarrow> addr list \<Rightarrow> Lease6" where
  "withoutTemp l gone = l\<lparr>l6TempAddrs := filter (\<lambda>a. a6Addr a \<notin> set gone) (l6TempAddrs l)\<rparr>"

definition isTemp :: "Lease6 \<Rightarrow> addr \<Rightarrow> bool" where
  "isTemp l a \<longleftrightarrow> list_ex (\<lambda>t. a6Addr t = a) (l6TempAddrs l)"

definition usable6 :: "addr \<Rightarrow> bool" where
  "usable6 a \<longleftrightarrow> \<not> (\<not> Is6 a \<or> Is4In6 a \<or> IsUnspecified a)"

definition releaseTemps :: "AddrV6 list \<Rightarrow> AddrV6 list" where
  "releaseTemps held =
     map (\<lambda>a. \<lparr>a6Addr = a6Addr a, a6Preferred = 0, a6Valid = 0, a6PrefixLen = 0\<rparr>)
       (filter (\<lambda>a. usable6 (a6Addr a)) held)"

definition addrsOf :: "Lease6 \<Rightarrow> addr list" where
  "addrsOf l = map a6Addr (l6Addrs l)"

section \<open>Reading a Reply\<close>

definition read_addr :: "AddrV6 list \<times> addr list \<times> ia_note list \<Rightarrow> IAAddr \<Rightarrow> AddrV6 list \<times> addr list \<times> ia_note list" where
  "read_addr acc a =
     (case acc of (got, zeroed, notes) \<Rightarrow>
        if \<not> IAAddr_Valid a then (got, zeroed, notes @ [NoteAddrLifetimes (iaAddr a) (iaPreferred a) (iaValid a)])
        else if iaValid a = 0 then (got, zeroed @ [iaAddr a], notes @ [NoteAddrZero (iaAddr a)])
        else if \<not> usable6 (iaAddr a) then (got, zeroed, notes @ [NoteAddrUnusable (iaAddr a)])
        else (got @ [\<lparr>a6Addr = iaAddr a, a6Preferred = SecondsToDuration (iaPreferred a),
                      a6Valid = SecondsToDuration (iaValid a), a6PrefixLen = 0\<rparr>], zeroed, notes))"

definition iaAddrs :: "OptionsV6 \<Rightarrow> ia_kind \<Rightarrow> AddrV6 list \<times> addr list \<times> ia_note list" where
  "iaAddrs opts k =
     (case Addrs opts of
        Inl e \<Rightarrow> ([], [], [NoteAddrsError k e])
      | Inr as \<Rightarrow> foldl read_addr ([], [], []) as)"

definition read_prefix :: "Prefix6 list \<times> prefix list \<times> ia_note list \<Rightarrow> IAPrefix \<Rightarrow> Prefix6 list \<times> prefix list \<times> ia_note list" where
  "read_prefix acc p =
     (case acc of (got, zeroed, notes) \<Rightarrow>
        if \<not> IAPrefix_Valid p then (got, zeroed, notes @ [NotePrefixLifetimes (ipPrefix p) (ipPreferred p) (ipValid p)])
        else if ipValid p = 0 then (got, zeroed @ [Masked (ipPrefix p)], notes @ [NotePrefixZero (ipPrefix p)])
        else if \<not> PrefixIsValid (ipPrefix p) \<or> \<not> Is6 (paddr (ipPrefix p)) \<or> Is4In6 (paddr (ipPrefix p)) \<or> pbits (ipPrefix p) < 1
          then (got, zeroed, notes @ [NotePrefixUnusable (ipPrefix p)])
        else (got @ [\<lparr>p6Prefix = Masked (ipPrefix p), p6Preferred = SecondsToDuration (ipPreferred p),
                      p6Valid = SecondsToDuration (ipValid p)\<rparr>], zeroed, notes))"

definition iaPrefixes :: "OptionsV6 \<Rightarrow> Prefix6 list \<times> prefix list \<times> ia_note list" where
  "iaPrefixes opts =
     (case Prefixes opts of
        Inl e \<Rightarrow> ([], [], [NotePrefixesError e])
      | Inr ps \<Rightarrow> foldl read_prefix ([], [], []) ps)"

text \<open>The status code of an association: a malformed option has a code of its own.\<close>

definition ia_status :: "ia_kind \<Rightarrow> OptionsV6 \<Rightarrow> 16 word \<times> ia_note list" where
  "ia_status k opts =
     (case Status_of opts of
        (st, ok, Some e) \<Rightarrow> (StatusMalformed, [NoteIAStatusError k e])
      | (st, ok, None) \<Rightarrow> (if ok then StCode st else StatusSuccess, []))"

record iaResult =
  irAddrs :: "AddrV6 list"
  irT1 :: Duration
  irT2 :: Duration
  irStatus :: "16 word"
  irFound :: bool
  irZeroed :: "addr list"

definition no_ia :: iaResult where
  "no_ia = \<lparr>irAddrs = [], irT1 = 0, irT2 = 0, irStatus = StatusSuccess, irFound = False, irZeroed = []\<rparr>"

definition read_na :: "32 word \<Rightarrow> iaResult \<times> ia_note list \<Rightarrow> IANA \<Rightarrow> iaResult \<times> ia_note list" where
  "read_na iaid acc ia =
     (case acc of (res, notes) \<Rightarrow>
        if naIAID ia \<noteq> iaid then (res, notes @ [NoteForeignIAID InNA (naIAID ia)])
        else if irFound res then (res, notes @ [NoteSecondIA InNA iaid])
        else if naT1 ia > 0 \<and> naT2 ia > 0 \<and> naT1 ia > naT2 ia
          then (res, notes @ [NoteT1AboveT2 InNA (SecondsToDuration (naT1 ia)) (SecondsToDuration (naT2 ia))])
        else case (ia_status InNA (naOptions ia), iaAddrs (naOptions ia) InNA) of
          ((code, sn), (as, zs, an)) \<Rightarrow>
            (res\<lparr>irFound := True, irT1 := SecondsToDuration (naT1 ia), irT2 := SecondsToDuration (naT2 ia),
                 irStatus := code, irAddrs := irAddrs res @ as, irZeroed := irZeroed res @ zs\<rparr>, notes @ sn @ an))"

definition readIA :: "OptionsV6 \<Rightarrow> 32 word \<Rightarrow> iaResult \<times> ia_note list" where
  "readIA opts iaid =
     (case IANAs opts of
        Inl e \<Rightarrow> (no_ia, [NoteIAError InNA e])
      | Inr ias \<Rightarrow>
          case foldl (read_na iaid) (no_ia, []) ias of (res, notes) \<Rightarrow>
            (res, if \<not> irFound res \<and> ias \<noteq> [] then notes @ [NoteNoIA InNA iaid] else notes))"

record taResult =
  trFound :: bool
  trStatus :: "16 word"
  trAddrs :: "AddrV6 list"

definition read_ta :: "32 word \<Rightarrow> taResult \<times> ia_note list \<Rightarrow> IATA \<Rightarrow> taResult \<times> ia_note list" where
  "read_ta iaid acc ia =
     (case acc of (res, notes) \<Rightarrow>
        if taIAID ia \<noteq> iaid then (res, notes @ [NoteForeignIAID InTA (taIAID ia)])
        else if trFound res then (res, notes @ [NoteSecondIA InTA iaid])
        else case (ia_status InTA (taOptions ia), iaAddrs (taOptions ia) InTA) of
          ((code, sn), (as, _, an)) \<Rightarrow>
            (res\<lparr>trFound := True, trStatus := code, trAddrs := trAddrs res @ as\<rparr>, notes @ sn @ an))"

definition readIATA :: "OptionsV6 \<Rightarrow> 32 word \<Rightarrow> taResult \<times> ia_note list" where
  "readIATA opts iaid =
     (let zero = \<lparr>trFound = False, trStatus = StatusSuccess, trAddrs = []\<rparr> in
      case IATAs opts of
        Inl e \<Rightarrow> (zero, [NoteIAError InTA e])
      | Inr ias \<Rightarrow>
          case foldl (read_ta iaid) (zero, []) ias of (res, notes) \<Rightarrow>
            let notes = (if ias \<noteq> [] \<and> \<not> trFound res then notes @ [NoteNoIA InTA iaid] else notes) in
            if trStatus res \<noteq> StatusSuccess \<and> trAddrs res \<noteq> []
            then (res\<lparr>trAddrs := []\<rparr>, notes @ [NoteNotOurs InTA (trStatus res) (length (trAddrs res))])
            else (res, notes))"

record pdResult =
  prFound :: bool
  prStatus :: "16 word"
  prT1 :: Duration
  prT2 :: Duration
  prPrefixes :: "Prefix6 list"
  prZeroed :: "prefix list"

definition no_pd :: pdResult where
  "no_pd = \<lparr>prFound = False, prStatus = StatusSuccess, prT1 = 0, prT2 = 0, prPrefixes = [], prZeroed = []\<rparr>"

definition read_pd :: "32 word \<Rightarrow> pdResult \<times> ia_note list \<Rightarrow> IAPD \<Rightarrow> pdResult \<times> ia_note list" where
  "read_pd iaid acc ia =
     (case acc of (res, notes) \<Rightarrow>
        if pdIAID ia \<noteq> iaid then (res, notes @ [NoteForeignIAID InPD (pdIAID ia)])
        else if prFound res then (res, notes @ [NoteSecondIA InPD iaid])
        else if pdT1 ia > 0 \<and> pdT2 ia > 0 \<and> pdT1 ia > pdT2 ia
          then (res, notes @ [NoteT1AboveT2 InPD (SecondsToDuration (pdT1 ia)) (SecondsToDuration (pdT2 ia))])
        else case (ia_status InPD (pdOptions ia), iaPrefixes (pdOptions ia)) of
          ((code, sn), (ps, zs, pn)) \<Rightarrow>
            (res\<lparr>prFound := True, prT1 := SecondsToDuration (pdT1 ia), prT2 := SecondsToDuration (pdT2 ia),
                 prStatus := code, prPrefixes := prPrefixes res @ ps, prZeroed := prZeroed res @ zs\<rparr>, notes @ sn @ pn))"

definition readIAPD :: "OptionsV6 \<Rightarrow> 32 word \<Rightarrow> pdResult \<times> ia_note list" where
  "readIAPD opts iaid =
     (case IAPDs opts of
        Inl e \<Rightarrow> (no_pd, [NoteIAError InPD e])
      | Inr ias \<Rightarrow>
          case foldl (read_pd iaid) (no_pd, []) ias of (res, notes) \<Rightarrow>
            let notes = (if ias \<noteq> [] \<and> \<not> prFound res then notes @ [NoteNoIA InPD iaid] else notes) in
            if prStatus res \<noteq> StatusSuccess \<and> prPrefixes res \<noteq> []
            then (res\<lparr>prPrefixes := []\<rparr>, notes @ [NoteNotOurs InPD (prStatus res) (length (prPrefixes res))])
            else (res, notes))"

definition prefixIndex :: "Prefix6 list \<Rightarrow> prefix \<Rightarrow> Prefix6 option" where
  "prefixIndex ps p = find (\<lambda>x. p6Prefix x = p) ps"

definition renewedPrefixes :: "Prefix6 list \<Rightarrow> Instant \<Rightarrow> pdResult \<Rightarrow> Instant \<Rightarrow> Instant \<Rightarrow> Prefix6 list" where
  "renewedPrefixes held heldStart res newStart now =
     (if prFound res \<and> prStatus res \<noteq> StatusSuccess then prPrefixes res
      else List.map_filter (\<lambda>h. case prefixIndex (prPrefixes res) (p6Prefix h) of
             Some g \<Rightarrow> Some g
           | None \<Rightarrow> if p6Prefix h \<in> set (prZeroed res) then None else carry_prefix heldStart newStart now h) held
        @ filter (\<lambda>p. prefixIndex held (p6Prefix p) = None) (prPrefixes res))"

definition samePrefixes :: "Prefix6 list \<Rightarrow> Prefix6 list \<Rightarrow> bool" where
  "samePrefixes a b \<longleftrightarrow> list_all2 (\<lambda>x y. p6Prefix x = p6Prefix y) a b"

definition earliestT :: "Duration \<Rightarrow> Duration \<Rightarrow> Duration" where
  "earliestT a b =
     (if a = 0 then b else if b = 0 then a else if IsInfinite a then b else if IsInfinite b then a
      else if b < a then b else a)"

definition dropStable :: "AddrV6 list \<Rightarrow> AddrV6 list \<Rightarrow> AddrV6 list \<times> ia_note list" where
  "dropStable temp perm =
     (let dup = (\<lambda>t. list_ex (\<lambda>s. a6Addr s = a6Addr t) perm) in
      (filter (\<lambda>t. \<not> dup t) temp, map (\<lambda>t. NoteAlsoStable (a6Addr t)) (filter dup temp)))"

definition serverFQDN :: "OptionsV6 \<Rightarrow> ClientFQDN \<times> bool \<times> ia_note list" where
  "serverFQDN opts =
     (case ClientFQDN_opt opts of
        Some (Inl e) \<Rightarrow> (\<lparr>FqFlags = 0, FqName = []\<rparr>, False, [NoteFQDNError e])
      | None \<Rightarrow> (\<lparr>FqFlags = 0, FqName = []\<rparr>, False, [])
      | Some (Inr f) \<Rightarrow> (f, True, [NoteFQDN f]))"

text \<open>The lease, the addresses the server withdrew, the lines, the status of the IA and whether there is a lease.\<close>

definition leaseFromReply :: "MessageV6 \<Rightarrow> 32 word \<Rightarrow> Instant \<Rightarrow> Lease6 \<times> addr list \<times> ia_note list \<times> 16 word \<times> bool" where
  "leaseFromReply m iaid sentAt =
     (let opts = Options6 m;
          l0 = zero_lease6\<lparr>l6IAID := iaid, l6Start := sentAt, l6Options := opts,
                 l6ServerDUID := (case First opts OptV6ServerID of None \<Rightarrow> [] | Some sid \<Rightarrow> sid)\<rparr>;
          n0 = (let n = Count6 opts OptV6IAAddr in if n > 0 then [NoteTopLevelAddrs n] else []);
          (res, ns) = readIA opts iaid
      in if \<not> irFound res then (zero_lease6, [], n0 @ ns, StatusSuccess, False)
         else
           let refused = (irStatus res = StatusNoAddrsAvail \<and> irAddrs res \<noteq> []);
               n1 = (if refused then [NoteNotOurs InNA StatusNoAddrsAvail (length (irAddrs res))] else []);
               as = (if refused then [] else irAddrs res);
               (dns, n2) = (case DNSServers6 opts of Inl e \<Rightarrow> ([], [NoteDNSError e]) | Inr d \<Rightarrow> (d, []));
               (search, n3) = (case DomainSearch6 opts of Inl e \<Rightarrow> ([], [NoteSearch6Error e]) | Inr s \<Rightarrow> (s, []));
               (f, ok, n4) = serverFQDN opts
           in (l0\<lparr>l6T1 := irT1 res, l6T2 := irT2 res, l6Addrs := as, l6DNS := dns, l6Search := search,
                  l6FQDN := f, l6HasFQDN := ok\<rparr>,
               irZeroed res, n0 @ ns @ n1 @ n2 @ n3 @ n4, irStatus res, as \<noteq> []))"

end
