(* ===== verification/Proto6_Lease_Properties.thy ===== *)
theory Proto6_Lease_Properties
  imports Proto6_Lease
begin

text \<open>
  What the lifetimes of a DHCPv6 lease come to: deadlines in order, bindings that leave at their end
  and not before, and ends that a renewal does not move.
\<close>

section \<open>The least element\<close>

lemma set_map_filter: "b \<in> set (List.map_filter f xs) \<longleftrightarrow> (\<exists>x \<in> set xs. f x = Some b)"
  by (induction xs) (auto simp: List.map_filter_simps split: option.splits)

lemma least_Cons: "least (d # ds) = (case least ds of None \<Rightarrow> Some d | Some b \<Rightarrow> Some (min d b))"
proof -
  have "foldl (\<lambda>acc d. case acc of None \<Rightarrow> Some d | Some b \<Rightarrow> Some (if d < b then d else b)) (Some c) es
      = Some (case least es of None \<Rightarrow> c | Some b \<Rightarrow> min c b)" for c :: int and es
  proof (induction es rule: rev_induct)
    case (snoc e es)
    then show ?case by (auto simp: least_def split: option.splits)
  qed (simp add: least_def)
  from this [of d ds] show ?thesis by (simp add: least_def [of "d # ds"] split: option.splits)
qed

lemma least_Nil [simp]: "least [] = None"
  by (simp add: least_def)

lemma least_None [simp]: "least ds = None \<longleftrightarrow> ds = []"
  by (cases ds) (auto simp: least_Cons split: option.splits)

lemma least_Some: "least ds = Some b \<longleftrightarrow> b \<in> set ds \<and> (\<forall>d \<in> set ds. b \<le> d)"
proof (induction ds arbitrary: b)
  case (Cons d ds)
  show ?case
  proof (cases "least ds")
    case None
    then show ?thesis by (auto simp: least_Cons)
  next
    case (Some c)
    with Cons have "c \<in> set ds" "\<forall>d \<in> set ds. c \<le> d" by blast+
    moreover have "least (d # ds) = Some b \<longleftrightarrow> b = min d c" using Some by (auto simp: least_Cons)
    moreover have "b = min d c" if "b = d \<or> b \<in> set ds" "b \<le> d" "\<forall>x \<in> set ds. b \<le> x"
    proof -
      have "b \<le> c" using that(3) calculation by blast
      moreover have "b = d \<or> c \<le> b" using that(1) \<open>\<forall>d \<in> set ds. c \<le> d\<close> by blast
      ultimately show ?thesis using that(2) by (auto simp: min_def)
    qed
    ultimately show ?thesis by (auto simp: min_def)
  qed
qed simp

lemma longestValid_Max:
  "longestValid l = (if Infinite \<in> set (map a6Valid (l6Addrs l)) then Infinite else Max (insert 0 (set (map a6Valid (l6Addrs l)))))"
proof -
  have "foldl (\<lambda>b v. if v > b then v else b) c vs = Max (insert c (set vs))" for c :: int and vs
    by (induction vs rule: rev_induct) (simp_all add: max_def insert_commute [of c] del: Max_less_iff Max_ge_iff)
  then show ?thesis by (auto simp: longestValid_def Let_def list_ex_iff IsInfinite_def)
qed

section \<open>Renewal times\<close>

definition wire_time :: "Duration \<Rightarrow> bool" where
  "wire_time d \<longleftrightarrow> d = Infinite \<or> 0 \<le> d \<and> d < 2 ^ 62"

lemma wire_time_seconds: "wire_time (SecondsToDuration s)"
  using SecondsToDuration_range [of s] by (auto simp: wire_time_def)

lemma quarter: "0 \<le> b \<Longrightarrow> b < 2 ^ 62 \<Longrightarrow> i64 (quot64 b 5 * 4) = b div 5 * 4 \<and> i64 (quot64 b 2 * 1) = b div 2"
proof -
  assume b: "0 \<le> b" "b < 2 ^ 62"
  then have "b < 4611686018427387904" by simp
  with b have "in64 (b div 5 * 4)" "in64 (b div 2)" by (auto intro!: in64I)
  with b show ?thesis by (simp add: quot64_nonneg i64_id)
qed

text \<open>
  The intervals \<^verbatim>\<open>renewTimes\<close> settles on: a finite T2 is before the end of the longest valid lifetime,
  and a finite T1 before a finite T2.
\<close>

lemma renew_times_ordered:
  assumes "wire_time t1" "wire_time t2" "wire_time pref" "wire_time valid" "valid = Infinite \<or> 0 < valid"
    and "valid = Infinite \<or> pref \<noteq> Infinite \<and> pref \<le> valid"
    and "renew_times t1 t2 pref valid = (renew, rebind, notes)"
  shows "wire_time renew \<and> wire_time rebind
    \<and> (valid \<noteq> Infinite \<and> rebind \<noteq> Infinite \<longrightarrow> rebind < valid)
    \<and> (0 < renew \<and> 0 < rebind \<longrightarrow> renew < rebind)"
proof -
  define base where "base = (if pref \<noteq> Infinite \<and> pref \<le> 0 then valid else pref)"
  have base: "base = Infinite \<or> 0 < base \<and> base < 2 ^ 62" "valid = Infinite \<or> base \<noteq> Infinite \<and> base \<le> valid"
    using assms(3-6) by (auto simp: base_def wire_time_def Infinite_def)
  have q: "base = Infinite \<or> i64 (quot64 base 5 * 4) = base div 5 * 4 \<and> i64 (quot64 base 2 * 1) = base div 2"
    using base quarter by force
  have lt: "base = Infinite \<or> 0 \<le> base div 5 * 4 \<and> base div 5 * 4 < base \<and> 0 \<le> base div 2 \<and> base div 2 < base"
    using base by auto
  have un: "unset_time t \<longleftrightarrow> t = 0" if "wire_time t" for t
    using that by (auto simp: unset_time_def wire_time_def IsInfinite_def Infinite_def)
  define renew0 where "renew0 = (if t1 = 0 then chosenTime base 2 1 else t1)"
  define rebind0 where "rebind0 = (if t2 = 0 then chosenTime base 5 4 else t2)"
  have r0: "wire_time renew0" "wire_time rebind0"
  proof -
    have "wire_time (chosenTime base 2 1) \<and> wire_time (chosenTime base 5 4)"
    proof (cases "base = Infinite")
      case False
      then show ?thesis using base(1) q lt by (simp add: chosenTime_def wire_time_def IsInfinite_def)
    qed (simp add: chosenTime_def wire_time_def IsInfinite_def)
    then show "wire_time renew0" "wire_time rebind0" using assms(1,2) by (simp_all add: renew0_def rebind0_def)
  qed
  define reb where "reb = (if rebind0 \<noteq> Infinite \<and> valid \<noteq> Infinite \<and> rebind0 \<ge> valid then
      (if base = Infinite then valid else i64 (quot64 base 5 * 4)) else rebind0)"
  have reb: "wire_time reb" "valid \<noteq> Infinite \<and> reb \<noteq> Infinite \<longrightarrow> reb < valid"
  proof -
    have "wire_time reb \<and> (valid \<noteq> Infinite \<and> reb \<noteq> Infinite \<longrightarrow> reb < valid)"
    proof (cases "rebind0 \<noteq> Infinite \<and> valid \<noteq> Infinite \<and> rebind0 \<ge> valid")
      case False
      then show ?thesis using r0(2) by (simp add: reb_def; linarith)
    next
      case True
      then have "base \<noteq> Infinite" using base(2) by simp
      then have "reb = base div 5 * 4" "0 \<le> base div 5 * 4" "base div 5 * 4 < base" "base < 2 ^ 62" "base \<le> valid"
        using True q lt base by (simp_all add: reb_def)
      then show ?thesis by (simp add: wire_time_def)
    qed
    then show "wire_time reb" "valid \<noteq> Infinite \<and> reb \<noteq> Infinite \<longrightarrow> reb < valid" by simp_all
  qed
  have out: "rebind = reb" "renew = (if renew0 \<noteq> Infinite \<and> reb \<noteq> Infinite \<and> renew0 \<ge> reb then quot64 reb 2 else renew0)"
  proof -
    have "fst (renew_times t1 t2 pref valid) = (if renew0 \<noteq> Infinite \<and> reb \<noteq> Infinite \<and> renew0 \<ge> reb then quot64 reb 2 else renew0)"
      "fst (snd (renew_times t1 t2 pref valid)) = reb"
      by (simp_all only: renew_times_def Let_def IsInfinite_def un [OF assms(1)] un [OF assms(2)] fst_conv snd_conv
          base_def renew0_def rebind0_def reb_def)
    then show "rebind = reb" "renew = (if renew0 \<noteq> Infinite \<and> reb \<noteq> Infinite \<and> renew0 \<ge> reb then quot64 reb 2 else renew0)"
      by (simp_all add: assms(7))
  qed
  have "wire_time renew" "0 < renew \<and> 0 < reb \<longrightarrow> renew < reb"
    using r0 reb(1) by (auto simp: out(2) wire_time_def quot64_def Infinite_def)
  with reb show ?thesis by (simp add: out(1))
qed

definition wire_lease6 :: "Lease6 \<Rightarrow> bool" where
  "wire_lease6 l \<longleftrightarrow> wire_time (l6T1 l) \<and> wire_time (l6T2 l) \<and> 0 \<le> l6Start l \<and> l6Start l \<le> 2 ^ 62
     \<and> list_all (\<lambda>a. wire_time (a6Valid a) \<and> wire_time (a6Preferred a) \<and> a6Valid a \<noteq> 0
          \<and> (a6Valid a = Infinite \<or> a6Preferred a \<noteq> Infinite \<and> a6Preferred a \<le> a6Valid a)) (l6Addrs l)"

lemma renewPreferred_cases:
  "renewPreferred l = 0 \<or> renewPreferred l \<in> a6Preferred ` set (l6Addrs l)"
proof (cases "least (filter (\<lambda>d. \<not> IsInfinite d \<and> d > 0) (map a6Preferred (l6Addrs l)))")
  case None
  then show ?thesis by (auto simp: renewPreferred_def Let_def list_ex_iff IsInfinite_def simp del: least_None)
next
  case (Some d)
  then have "d \<in> a6Preferred ` set (l6Addrs l)" by (auto simp: least_Some)
  with Some show ?thesis by (simp add: renewPreferred_def Let_def)
qed

lemma wire_lease6_lifetimes:
  assumes "wire_lease6 l" "l6Addrs l \<noteq> []"
  shows "wire_time (renewPreferred l) \<and> wire_time (longestValid l) \<and> (longestValid l = Infinite \<or> 0 < longestValid l)
    \<and> (longestValid l = Infinite \<or> renewPreferred l \<noteq> Infinite \<and> renewPreferred l \<le> longestValid l)"
proof -
  let ?V = "set (map a6Valid (l6Addrs l))"
  have as: "wire_time (a6Valid a)" "wire_time (a6Preferred a)" "a6Valid a \<noteq> 0"
    "a6Valid a = Infinite \<or> a6Preferred a \<noteq> Infinite \<and> a6Preferred a \<le> a6Valid a" if "a \<in> set (l6Addrs l)" for a
    using assms(1) that by (auto simp: wire_lease6_def list_all_iff)
  have rp: "wire_time (renewPreferred l)"
    using renewPreferred_cases [of l]
  proof
    assume "renewPreferred l \<in> a6Preferred ` set (l6Addrs l)"
    then show ?thesis using as(2) by auto
  qed (simp add: wire_time_def)
  show ?thesis
  proof (cases "Infinite \<in> ?V")
    case True
    then have "longestValid l = Infinite" by (simp add: longestValid_Max)
    with rp show ?thesis by (simp add: wire_time_def)
  next
    case False
    let ?m = "Max (insert 0 ?V)"
    have lv: "longestValid l = ?m" using False by (simp add: longestValid_Max)
    have le: "a6Valid a \<le> ?m" if "a \<in> set (l6Addrs l)" for a using that by auto
    have m: "?m \<in> insert 0 ?V" by (rule Max_in) simp_all
    obtain a where a: "a \<in> set (l6Addrs l)" using assms(2) by (cases "l6Addrs l") auto
    have pos: "0 < a6Valid b" if "b \<in> set (l6Addrs l)" for b
      using as(1,3) [OF that] False that by (force simp: wire_time_def)
    have "0 < ?m" using pos [OF a] le [OF a] by linarith
    moreover have "?m < 2 ^ 62" using m as(1) False by (force simp: wire_time_def)
    moreover have "renewPreferred l \<noteq> Infinite \<and> renewPreferred l \<le> ?m"
    proof (cases "renewPreferred l = 0")
      case True
      then show ?thesis using \<open>0 < ?m\<close> by (simp add: Infinite_def)
    next
      case nz: False
      then obtain b where b: "b \<in> set (l6Addrs l)" "renewPreferred l = a6Preferred b"
        using renewPreferred_cases [of l] by auto
      have "a6Valid b \<noteq> Infinite" using False b(1) by force
      then show ?thesis using as(4) [OF b(1)] le [OF b(1)] b(2) by auto
    qed
    ultimately show ?thesis using rp by (auto simp: lv wire_time_def)
  qed
qed

lemma Deadlines6_ordered:
  assumes "wire_lease6 l" "l6Addrs l \<noteq> []" "\<not> l6pdTimed l" "\<not> l6SLAAC l"
  shows "(d6HasRenew (Deadlines6 l) \<longrightarrow> l6Start l < d6Renew (Deadlines6 l))
    \<and> (d6HasRebind (Deadlines6 l) \<longrightarrow> l6Start l < d6Rebind (Deadlines6 l))
    \<and> (d6HasRenew (Deadlines6 l) \<and> d6HasRebind (Deadlines6 l) \<longrightarrow> d6Renew (Deadlines6 l) < d6Rebind (Deadlines6 l))
    \<and> (d6HasRebind (Deadlines6 l) \<and> d6HasExpire (Deadlines6 l) \<longrightarrow> d6Rebind (Deadlines6 l) < d6Expire (Deadlines6 l))
    \<and> (d6HasExpire (Deadlines6 l) \<longleftrightarrow> longestValid l \<noteq> Infinite)"
proof -
  let ?v = "longestValid l"
  note lf = wire_lease6_lifetimes [OF assms(1,2)]
  obtain renew rebind ns where r: "renew_times (l6T1 l) (l6T2 l) (renewPreferred l) ?v = (renew, rebind, ns)"
    by (cases "renew_times (l6T1 l) (l6T2 l) (renewPreferred l) ?v") auto
  have w: "wire_time (l6T1 l)" "wire_time (l6T2 l)" "0 \<le> l6Start l" "l6Start l \<le> 2 ^ 62" using assms(1) by (auto simp: wire_lease6_def)
  have o: "wire_time renew \<and> wire_time rebind \<and> (?v \<noteq> Infinite \<and> rebind \<noteq> Infinite \<longrightarrow> rebind < ?v)
      \<and> (0 < renew \<and> 0 < rebind \<longrightarrow> renew < rebind)"
    by (rule renew_times_ordered [OF w(1,2) _ _ _ _ r]) (use lf in auto)
  have add: "Add (l6Start l) d = l6Start l + d" if "0 \<le> d" "d < 2 ^ 62" for d
  proof -
    have "d < 4611686018427387904" "l6Start l \<le> 4611686018427387904" using that w by simp_all
    then show ?thesis using that w(3) by (simp add: Add_def i64_id in64_def)
  qed
  have i: "\<not> 0 < Infinite" by (simp add: Infinite_def)
  have b: "0 < renew \<Longrightarrow> renew < 2 ^ 62" "0 < rebind \<Longrightarrow> rebind < 2 ^ 62" "?v \<noteq> Infinite \<Longrightarrow> 0 < ?v \<and> ?v < 2 ^ 62"
    using o lf i by (auto simp: wire_time_def)
  have D: "Deadlines6 l = (if ?v = Infinite then no_deadlines else no_deadlines\<lparr>d6Expire := Add (l6Start l) ?v, d6HasExpire := True\<rparr>)
      \<lparr>d6Renew := (if renew > 0 then Add (l6Start l) renew else 0), d6HasRenew := renew > 0,
       d6Rebind := (if rebind > 0 then Add (l6Start l) rebind else 0), d6HasRebind := rebind > 0, d6Note := ns\<rparr>"
  proof -
    have R: "renewTimes (l6T1 l) (l6T2 l) (l6Start l) (renewPreferred l) ?v =
        no_deadlines\<lparr>d6Renew := (if renew > 0 then Add (l6Start l) renew else 0), d6HasRenew := renew > 0,
          d6Rebind := (if rebind > 0 then Add (l6Start l) rebind else 0), d6HasRebind := rebind > 0, d6Note := ns\<rparr>"
      by (simp add: renewTimes_def r)
    have nv: "\<not> (?v \<noteq> Infinite \<and> ?v \<le> 0)" using lf by auto
    show ?thesis unfolding Deadlines6_def Let_def R using assms(2-4) nv by (auto simp: IsInfinite_def no_deadlines_def)
  qed
  show ?thesis
    using o b add i by (auto simp: D no_deadlines_def)
qed

section \<open>A granted lease\<close>

lemma iaAddrs_granted:
  assumes "iaAddrs opts k = (as, zs, ns)"
  shows "list_all (\<lambda>a. usable6 (a6Addr a) \<and> a6PrefixLen a = 0 \<and> wire_time (a6Valid a) \<and> wire_time (a6Preferred a)
    \<and> a6Valid a \<noteq> 0 \<and> (a6Valid a = Infinite \<or> a6Preferred a \<noteq> Infinite \<and> a6Preferred a \<le> a6Valid a)) as"
proof -
  have sd: "SecondsToDuration p \<noteq> Infinite \<and> SecondsToDuration p \<le> SecondsToDuration v"
    if "p \<le> v" "SecondsToDuration v \<noteq> Infinite" for p v :: "32 word"
  proof -
    have v: "v \<noteq> InfiniteSeconds" using that(2) by (auto simp: SecondsToDuration_def)
    have b: "i64 (uint w * 1000000000) = uint w * 1000000000" for w :: "32 word"
    proof -
      have "uint w < 4294967296" using uint_lt2p [of w] by simp
      then show ?thesis using uint_ge_0 [of w] by (intro i64_id in64I) linarith+
    qed
    have up: "uint p \<le> uint v" using that(1) by (simp add: word_le_def)
    have "uint v < 4294967296" using uint_lt2p [of v] by simp
    then have "v \<le> InfiniteSeconds" by (simp add: InfiniteSeconds_def word_le_def)
    with that(1) v have "p \<noteq> InfiniteSeconds" by auto
    moreover have "uint v < 4294967296" using uint_lt2p [of v] by simp
    moreover have "uint p * 1000000000 \<noteq> - 1" using uint_ge_0 [of p] by linarith
    ultimately show ?thesis using v up by (simp add: SecondsToDuration_def b Infinite_def)
  qed
  have nz: "SecondsToDuration v \<noteq> 0" if "v \<noteq> 0" for v :: "32 word"
  proof -
    have "uint v < 4294967296" using uint_lt2p [of v] by simp
    moreover have "uint v > 0" using that uint_ge_0 [of v] by (metis order_less_le unsigned_eq_0_iff)
    ultimately show ?thesis by (auto simp: SecondsToDuration_def i64_id in64_def Infinite_def)
  qed
  let ?P = "\<lambda>a. usable6 (a6Addr a) \<and> a6PrefixLen a = 0 \<and> wire_time (a6Valid a) \<and> wire_time (a6Preferred a)
    \<and> a6Valid a \<noteq> 0 \<and> (a6Valid a = Infinite \<or> a6Preferred a \<noteq> Infinite \<and> a6Preferred a \<le> a6Valid a)"
  have "list_all ?P (fst (read_addr acc a))" if "list_all ?P (fst acc)" for acc a
    using that by (auto simp: read_addr_def wire_time_seconds IAAddr_Valid_def nz dest: sd split: prod.splits)
  then have "list_all ?P (fst (foldl read_addr ([], [], []) xs))" for xs
    by (induction xs rule: rev_induct) simp_all
  from this [of "case Addrs opts of Inl _ \<Rightarrow> [] | Inr xs \<Rightarrow> xs"] assms show ?thesis
    by (auto simp: iaAddrs_def split: sum.splits)
qed

lemma readIA_granted:
  assumes "readIA opts iaid = (res, ns)"
  shows "wire_time (irT1 res) \<and> wire_time (irT2 res) \<and>
    list_all (\<lambda>a. usable6 (a6Addr a) \<and> a6PrefixLen a = 0 \<and> wire_time (a6Valid a) \<and> wire_time (a6Preferred a)
      \<and> a6Valid a \<noteq> 0 \<and> (a6Valid a = Infinite \<or> a6Preferred a \<noteq> Infinite \<and> a6Preferred a \<le> a6Valid a)) (irAddrs res)"
    (is "?P res")
proof -
  have fold: "?P (fst (foldl (read_na iaid) (no_ia, []) ias))" for ias
  proof (induction ias rule: rev_induct)
    case (snoc ia ias)
    obtain r n where rn: "foldl (read_na iaid) (no_ia, []) ias = (r, n)" by fastforce
    obtain as zs an where an: "iaAddrs (naOptions ia) InNA = (as, zs, an)" by (metis prod_cases3)
    obtain code sn where sn: "ia_status InNA (naOptions ia) = (code, sn)" by fastforce
    have "?P r" using snoc rn by simp
    with iaAddrs_granted [OF an] have "?P (fst (read_na iaid (r, n) ia))"
      by (auto simp: an sn read_na_def wire_time_seconds)
    then show ?case by (simp only: foldl_append foldl_Cons foldl_Nil rn)
  qed (simp add: no_ia_def wire_time_def)
  moreover have "?P no_ia" by (simp add: no_ia_def wire_time_def)
  ultimately show ?thesis
  proof (cases "IANAs opts")
    case (Inr ias)
    obtain q n where q: "foldl (read_na iaid) (no_ia, []) ias = (q, n)" by fastforce
    have "res = q" using assms Inr by (simp add: readIA_def q)
    with fold [of ias] show ?thesis by (simp add: q)
  qed (use assms in \<open>simp add: readIA_def\<close>)
qed

lemma leaseFromReply_granted:
  assumes "leaseFromReply m iaid sentAt = (l, zs, ns, st, True)"
  shows "l6Addrs l \<noteq> [] \<and> l6Start l = sentAt \<and> \<not> l6pdTimed l \<and> \<not> l6SLAAC l
    \<and> wire_time (l6T1 l) \<and> wire_time (l6T2 l)
    \<and> list_all (\<lambda>a. usable6 (a6Addr a) \<and> a6PrefixLen a = 0 \<and> wire_time (a6Valid a) \<and> wire_time (a6Preferred a)
        \<and> a6Valid a \<noteq> 0 \<and> (a6Valid a = Infinite \<or> a6Preferred a \<noteq> Infinite \<and> a6Preferred a \<le> a6Valid a)) (l6Addrs l)"
proof -
  obtain res n where r: "readIA (Options6 m) iaid = (res, n)" by fastforce
  from readIA_granted [OF r] assms show ?thesis
    by (auto simp: leaseFromReply_def Let_def r zero_lease6_def split: if_splits sum.splits prod.splits)
qed

text \<open>
  C36: The deadlines of the lease a Reply gives are in order, whatever its lifetimes and T1 and T2: every
  address is a usable IPv6 address, T1 comes before T2 and T2 before the end of the longest valid
  lifetime, all after the request, and the lease ends exactly when that lifetime is finite.
\<close>

theorem reply_deadlines_ordered:
  assumes "leaseFromReply m iaid sentAt = (l, zs, ns, st, True)" "0 \<le> sentAt" "sentAt \<le> 2 ^ 62"
  shows "list_all (\<lambda>a. usable6 (a6Addr a)) (l6Addrs l)
    \<and> (d6HasRenew (Deadlines6 l) \<longrightarrow> sentAt < d6Renew (Deadlines6 l))
    \<and> (d6HasRebind (Deadlines6 l) \<longrightarrow> sentAt < d6Rebind (Deadlines6 l))
    \<and> (d6HasRenew (Deadlines6 l) \<and> d6HasRebind (Deadlines6 l) \<longrightarrow> d6Renew (Deadlines6 l) < d6Rebind (Deadlines6 l))
    \<and> (d6HasRebind (Deadlines6 l) \<and> d6HasExpire (Deadlines6 l) \<longrightarrow> d6Rebind (Deadlines6 l) < d6Expire (Deadlines6 l))
    \<and> (d6HasExpire (Deadlines6 l) \<longleftrightarrow> longestValid l \<noteq> Infinite)"
proof -
  note g = leaseFromReply_granted [OF assms(1)]
  then have "wire_lease6 l" using assms(2,3) by (auto simp: wire_lease6_def list_all_iff)
  with Deadlines6_ordered [of l] g show ?thesis by (auto simp: list_all_iff)
qed

section \<open>Bindings that end\<close>

lemma ended_iff: "ended start now d \<longleftrightarrow> (\<exists>e. expiry start d = Some e \<and> e \<le> now)"
  by (auto simp: ended_def split: option.splits)

lemma nextEnd_Some: "nextEnd l = Some e \<longleftrightarrow> (\<exists>d \<in> set (lifetimes l). expiry (l6Start l) d = Some e)
   \<and> (\<forall>d \<in> set (lifetimes l). \<forall>e'. expiry (l6Start l) d = Some e' \<longrightarrow> e \<le> e')"
  by (force simp: nextEnd_def least_Some List.map_filter_def)

lemma lifetimes_withoutEnded:
  "lifetimes (fst (withoutEnded now l)) = filter (\<lambda>d. \<not> ended (l6Start l) now d) (lifetimes l)"
  by (simp add: withoutEnded_def Let_def lifetimes_def filter_map comp_def)

text \<open>
  At the expiry timer a lease loses exactly the addresses, temporary addresses and prefixes whose
  valid lifetime has ended, each counted once and the rest of the lease untouched; no end is left at or
  before that instant, and before the next end nothing is lost.
\<close>

theorem bindings_end_in_time:
  "set (l6Addrs (fst (withoutEnded now l))) = {a \<in> set (l6Addrs l). \<not> ended (l6Start l) now (a6Valid a)}
   \<and> set (l6TempAddrs (fst (withoutEnded now l))) = {a \<in> set (l6TempAddrs l). \<not> ended (l6Start l) now (a6Valid a)}
   \<and> set (l6Prefixes (fst (withoutEnded now l))) = {p \<in> set (l6Prefixes l). \<not> ended (l6Start l) now (p6Valid p)}
   \<and> length (lifetimes l) = length (lifetimes (fst (withoutEnded now l))) + snd (withoutEnded now l)
   \<and> (\<forall>e. nextEnd (fst (withoutEnded now l)) = Some e \<longrightarrow> now < e)
   \<and> (snd (withoutEnded now l) = 0 \<longleftrightarrow> (\<forall>e. nextEnd l = Some e \<longrightarrow> now < e))
   \<and> (snd (withoutEnded now l) = 0 \<longrightarrow> fst (withoutEnded now l) = l)"
proof -
  let ?w = "fst (withoutEnded now l)" and ?gone = "ended (l6Start l) now"
  have start: "l6Start ?w = l6Start l" by (simp add: withoutEnded_def Let_def)
  have n: "snd (withoutEnded now l) = length (filter ?gone (lifetimes l))"
    by (simp add: withoutEnded_def Let_def)
  have sets: "set (l6Addrs ?w) = {a \<in> set (l6Addrs l). \<not> ?gone (a6Valid a)}"
    "set (l6TempAddrs ?w) = {a \<in> set (l6TempAddrs l). \<not> ?gone (a6Valid a)}"
    "set (l6Prefixes ?w) = {p \<in> set (l6Prefixes l). \<not> ?gone (p6Valid p)}"
    by (auto simp: withoutEnded_def Let_def)
  have len: "length (lifetimes l) = length (lifetimes ?w) + snd (withoutEnded now l)"
    using sum_length_filter_compl [of "\<lambda>d. \<not> ?gone d" "lifetimes l"] by (simp add: n lifetimes_withoutEnded)
  have later: "now < e" if e: "nextEnd ?w = Some e" for e
  proof -
    obtain d where "d \<in> set (lifetimes l)" "\<not> ?gone d" "expiry (l6Start l) d = Some e"
      using e unfolding nextEnd_Some lifetimes_withoutEnded start by auto
    then show ?thesis by (auto simp: ended_iff)
  qed
  have z: "snd (withoutEnded now l) = 0 \<longleftrightarrow> (\<forall>d \<in> set (lifetimes l). \<not> ?gone d)"
    by (simp add: n filter_empty_conv)
  have next_iff: "(\<forall>d \<in> set (lifetimes l). \<not> ?gone d) \<longleftrightarrow> (\<forall>e. nextEnd l = Some e \<longrightarrow> now < e)"
  proof (cases "nextEnd l")
    case None
    then have "filter (\<lambda>x. x \<noteq> None) (map (expiry (l6Start l)) (lifetimes l)) = []"
      by (simp add: nextEnd_def List.map_filter_def filter_map comp_def)
    then have "expiry (l6Start l) d = None" if "d \<in> set (lifetimes l)" for d using that by (auto simp: filter_empty_conv)
    with None show ?thesis by (simp add: ended_iff)
  next
    case (Some e)
    then have e: "\<exists>d \<in> set (lifetimes l). expiry (l6Start l) d = Some e"
      "\<And>d e'. d \<in> set (lifetimes l) \<Longrightarrow> expiry (l6Start l) d = Some e' \<Longrightarrow> e \<le> e'" by (auto simp: nextEnd_Some)
    show ?thesis
    proof
      assume "\<forall>d \<in> set (lifetimes l). \<not> ?gone d"
      then show "\<forall>e. nextEnd l = Some e \<longrightarrow> now < e" using e(1) Some by (auto simp: ended_iff)
    next
      assume "\<forall>e. nextEnd l = Some e \<longrightarrow> now < e"
      then have "now < e" using Some by simp
      then show "\<forall>d \<in> set (lifetimes l). \<not> ?gone d" using e(2) by (fastforce simp: ended_iff)
    qed
  qed
  have same: "?w = l" if "\<forall>d \<in> set (lifetimes l). \<not> ?gone d"
    using that by (simp add: withoutEnded_def Let_def lifetimes_def filter_True ball_Un)
  show ?thesis using sets len later z next_iff same by blast
qed

section \<open>Renewal keeps ends\<close>

definition in_clock :: "Instant \<Rightarrow> bool" where
  "in_clock t \<longleftrightarrow> 0 \<le> t \<and> t \<le> 2 ^ 62"

lemma carryLifetimes_end:
  assumes "carryLifetimes pref valid s s' now = Some (pref', valid')" "in_clock s" "in_clock s'" "in_clock now" "s' \<le> now"
    and "wire_time valid"
  shows "expiry s' valid' = expiry s valid \<and> \<not> ended s now valid"
proof (cases "valid = Infinite")
  case True
  with assms(1) show ?thesis by (auto simp: carryLifetimes_def Let_def expiry_def IsInfinite_def ended_def)
next
  case False
  then have v: "0 \<le> valid" "valid < 4611686018427387904" using assms(6) by (auto simp: wire_time_def)
  have c: "0 \<le> s" "s \<le> 4611686018427387904" "0 \<le> s'" "s' \<le> 4611686018427387904" "0 \<le> now" "now \<le> 4611686018427387904"
    using assms(2-4) by (auto simp: in_clock_def)
  have a: "Add s valid = s + valid" using c v by (simp add: Add_def i64_id in64_def)
  have "s + valid > now" "valid' = Sub (s + valid) s'"
    using assms(1) False by (auto simp: carryLifetimes_def Let_def expiry_def IsInfinite_def a split: if_splits)
  moreover have "Sub (s + valid) s' = s + valid - s'" using c v by (simp add: Sub_def i64_id in64_def)
  ultimately have e: "valid' = s + valid - s'" "now < s + valid" by simp_all
  have "Add s' valid' = s + valid" using c v e by (simp add: Add_def i64_id in64_def)
  moreover have "valid' \<noteq> Infinite" using e assms(5) c by (simp add: Infinite_def)
  ultimately show ?thesis using False e by (simp add: expiry_def IsInfinite_def a ended_def)
qed

text \<open>
  C37: After a renewal, each address of the lease is one the Reply gave, with the lifetimes it gave, or a
  held address the Reply neither named nor withdrew, whose valid lifetime still ends at the very
  instant it did before and has not ended yet; and no held address that is still valid goes missing
  without the Reply withdrawing it.
\<close>

theorem renewal_keeps_ends:
  assumes "in_clock s" "in_clock s'" "in_clock now" "s' \<le> now" "list_all (\<lambda>h. wire_time (a6Valid h)) held"
  shows "(\<forall>a \<in> set (renewedAddrs held s got zeroed s' now). a \<in> set got \<or>
      (\<exists>h \<in> set held. a6Addr a = a6Addr h \<and> a6Addr h \<notin> a6Addr ` set got \<and> a6Addr h \<notin> set zeroed
         \<and> expiry s' (a6Valid a) = expiry s (a6Valid h) \<and> \<not> ended s now (a6Valid h)))
    \<and> a6Addr ` set (renewedAddrs held s got zeroed s' now) =
        a6Addr ` set got \<union> {a6Addr h |h. h \<in> set held \<and> a6Addr h \<notin> set zeroed \<and> \<not> ended s now (a6Valid h)}"
proof -
  have find: "addrIndex got a = None \<longleftrightarrow> a \<notin> a6Addr ` set got" for a
    by (auto simp: addrIndex_def find_None_iff)
  have found: "addrIndex got a = Some g \<Longrightarrow> g \<in> set got \<and> a6Addr g = a" for a g
    by (auto simp: addrIndex_def find_Some_iff)
  have foundh: "addrIndex held a = Some g \<Longrightarrow> g \<in> set held \<and> a6Addr g = a" for a g
    by (auto simp: addrIndex_def find_Some_iff)
  have carried: "a6Addr a = a6Addr h \<and> expiry s' (a6Valid a) = expiry s (a6Valid h) \<and> \<not> ended s now (a6Valid h)"
    if c: "carry_addr s s' now h = Some a" and hh: "h \<in> set held" for a h
  proof -
    obtain p v where pv: "carryLifetimes (a6Preferred h) (a6Valid h) s s' now = Some (p, v)" "a = h\<lparr>a6Preferred := p, a6Valid := v\<rparr>"
      using c by (cases "carryLifetimes (a6Preferred h) (a6Valid h) s s' now") (auto simp: carry_addr_def)
    have "wire_time (a6Valid h)" using assms(5) hh by (auto simp: list_all_iff)
    from carryLifetimes_end [OF pv(1) assms(1-4) this] pv(2) show ?thesis by simp
  qed
  have lost: "carry_addr s s' now h = None \<longleftrightarrow> ended s now (a6Valid h)" for h
    by (auto simp: carry_addr_def carryLifetimes_def Let_def ended_iff split: option.splits if_splits)
  let ?f = "\<lambda>h. case addrIndex got (a6Addr h) of Some g \<Rightarrow> Some g
     | None \<Rightarrow> if a6Addr h \<in> set zeroed then None else carry_addr s s' now h"
  let ?R = "renewedAddrs held s got zeroed s' now"
  have in_R: "a \<in> set ?R \<longleftrightarrow> (\<exists>h \<in> set held. ?f h = Some a) \<or> a \<in> set got \<and> addrIndex held (a6Addr a) = None" for a
    by (simp add: renewedAddrs_def set_map_filter)
  have f: "?f h = Some a \<longleftrightarrow> addrIndex got (a6Addr h) = Some a
      \<or> addrIndex got (a6Addr h) = None \<and> a6Addr h \<notin> set zeroed \<and> carry_addr s s' now h = Some a" for h a
    by (auto split: option.splits)
  have one: "a \<in> set got \<or> (\<exists>h \<in> set held. a6Addr a = a6Addr h \<and> a6Addr h \<notin> a6Addr ` set got \<and> a6Addr h \<notin> set zeroed
         \<and> expiry s' (a6Valid a) = expiry s (a6Valid h) \<and> \<not> ended s now (a6Valid h))" if "a \<in> set ?R" for a
  proof -
    from that in_R consider (new) "a \<in> set got" | (kept) h where "h \<in> set held" "?f h = Some a" by blast
    then show ?thesis
    proof cases
      case kept
      from f [THEN iffD1, OF kept(2)] consider "addrIndex got (a6Addr h) = Some a"
        | "addrIndex got (a6Addr h) = None" "a6Addr h \<notin> set zeroed" "carry_addr s s' now h = Some a" by (elim disjE conjE)
      then show ?thesis
      proof cases
        case 2
        with carried [OF 2(3) kept(1)] kept(1) find show ?thesis by blast
      qed (use found in blast)
    qed blast
  qed
  have got_in: "a6Addr a \<in> a6Addr ` set ?R" if "a \<in> set got" for a
  proof (cases "addrIndex held (a6Addr a)")
    case None
    with that have "a \<in> set ?R" by (intro iffD2 [OF in_R] disjI2) simp
    then show ?thesis by (rule imageI)
  next
    case (Some h)
    then have h: "h \<in> set held" "a6Addr h = a6Addr a" using foundh by auto
    have "a6Addr h \<in> a6Addr ` set got" unfolding h(2) using that by (rule imageI)
    then obtain g where g: "addrIndex got (a6Addr h) = Some g" using find [of "a6Addr h"] by auto
    then have "g \<in> set ?R" using h(1) by (intro iffD2 [OF in_R] disjI1 bexI [of _ h]) simp_all
    then have "a6Addr g \<in> a6Addr ` set ?R" by (rule imageI)
    then show ?thesis by (simp add: found [OF g] h(2))
  qed
  have held_in: "a6Addr h \<in> a6Addr ` set ?R" if hh: "h \<in> set held" "a6Addr h \<notin> set zeroed" "\<not> ended s now (a6Valid h)" for h
  proof (cases "addrIndex got (a6Addr h)")
    case None
    obtain c where c: "carry_addr s s' now h = Some c" using lost [of h] hh(3) by auto
    then have "c \<in> set ?R" using None hh by (intro iffD2 [OF in_R] disjI1 bexI [of _ h]) simp_all
    then have "a6Addr c \<in> a6Addr ` set ?R" by (rule imageI)
    then show ?thesis by (simp add: carried [OF c hh(1)])
  next
    case (Some g)
    then have "g \<in> set ?R" using hh(1) by (intro iffD2 [OF in_R] disjI1 bexI [of _ h]) simp_all
    then have "a6Addr g \<in> a6Addr ` set ?R" by (rule imageI)
    then show ?thesis by (simp add: found [OF Some])
  qed
  let ?A = "a6Addr ` set got \<union> {a6Addr h |h. h \<in> set held \<and> a6Addr h \<notin> set zeroed \<and> \<not> ended s now (a6Valid h)}"
  have "a6Addr a \<in> ?A" if "a \<in> set ?R" for a
    using one [OF that]
  proof
    assume "\<exists>h \<in> set held. a6Addr a = a6Addr h \<and> a6Addr h \<notin> a6Addr ` set got \<and> a6Addr h \<notin> set zeroed
         \<and> expiry s' (a6Valid a) = expiry s (a6Valid h) \<and> \<not> ended s now (a6Valid h)"
    then show ?thesis by auto
  qed simp
  then have "a6Addr ` set ?R \<subseteq> ?A" by (rule image_subsetI)
  moreover have "?A \<subseteq> a6Addr ` set ?R" using got_in held_in by auto
  ultimately have "a6Addr ` set ?R = ?A" by (rule subset_antisym)
  with one show ?thesis by simp
qed

definition sample_reply6 :: MessageV6 where
  "sample_reply6 = \<lparr>Type6 = MsgReply, XID6 = 5, Options6 =
     [\<lparr>Code6 = OptV6ServerID, Data6 = [0, 3, 0, 1, 2]\<rparr>,
      \<lparr>Code6 = OptV6IANA, Data6 = [0, 0, 0, 7, 0, 0, 0, 0, 0, 0, 0, 0, 0, 5, 0, 24,
         0x20, 1, 0x0D, 0xB8, 0, 0, 0, 0, 0, 0, 0, 0, 0, 0, 0, 9, 0, 0, 0, 100, 0, 0, 0, 200]\<rparr>]\<rparr>"

lemma reply_deadlines_ordered_witness:
  "case leaseFromReply sample_reply6 7 1000 of (l, _) \<Rightarrow>
     l6Addrs l \<noteq> [] \<and> d6HasRebind (Deadlines6 l) \<and> d6HasExpire (Deadlines6 l) \<and> d6Rebind (Deadlines6 l) < d6Expire (Deadlines6 l)"
proof -
  have c: "case leaseFromReply sample_reply6 7 1000 of (l, _, _, _, ok) \<Rightarrow>
      ok \<and> l6Addrs l \<noteq> [] \<and> d6HasRebind (Deadlines6 l) \<and> d6HasExpire (Deadlines6 l)" by code_simp
  obtain l zs ns st ok where l: "leaseFromReply sample_reply6 7 1000 = (l, zs, ns, st, ok)" by (metis prod_cases5)
  with c have "leaseFromReply sample_reply6 7 1000 = (l, zs, ns, st, True)" by simp
  from reply_deadlines_ordered [OF this] c l show ?thesis by simp
qed

lemma renewal_keeps_ends_witness:
  "let h = \<lparr>a6Addr = Addr6 9, a6Preferred = 50, a6Valid = 100, a6PrefixLen = 0\<rparr> in
   a6Addr ` set (renewedAddrs [h] 10 [] [] 40 50) = {Addr6 9}"
proof -
  let ?h = "\<lparr>a6Addr = Addr6 9, a6Preferred = 50, a6Valid = 100, a6PrefixLen = 0\<rparr>"
  have "in_clock 10" "in_clock 40" "in_clock 50" "(40 :: int) \<le> 50" "list_all (\<lambda>h. wire_time (a6Valid h)) [?h]"
    by (simp_all add: in_clock_def wire_time_def)
  from conjunct2 [OF renewal_keeps_ends [OF this, of "[]" "[]"]] show ?thesis
    by (simp add: ended_def expiry_def Add_def IsInfinite_def Infinite_def i64_def)
qed

lemma bindings_end_in_time_witness:
  "let l = zero_lease6\<lparr>l6Addrs := [\<lparr>a6Addr = Addr6 1, a6Preferred = 50, a6Valid = 100, a6PrefixLen = 0\<rparr>,
       \<lparr>a6Addr = Addr6 2, a6Preferred = 50, a6Valid = 200, a6PrefixLen = 0\<rparr>]\<rparr>
   in nextEnd (fst (withoutEnded 150 l)) = Some 200 \<and> (150::int) < 200"
proof -
  let ?l = "zero_lease6\<lparr>l6Addrs := [\<lparr>a6Addr = Addr6 1, a6Preferred = 50, a6Valid = 100, a6PrefixLen = 0\<rparr>,
       \<lparr>a6Addr = Addr6 2, a6Preferred = 50, a6Valid = 200, a6PrefixLen = 0\<rparr>]\<rparr>"
  have n: "nextEnd (fst (withoutEnded 150 ?l)) = Some 200" by code_simp
  with bindings_end_in_time [of 150 ?l] show ?thesis by (simp add: Let_def)
qed

end
