(* ===== verification/Proto6_Params.thy ===== *)
theory Proto6_Params
  imports Proto6_Backoff Proto6_Iid Proto6_Lease Proto_Params
begin

text \<open>
  The parameters of a DHCPv6 machine: \<^verbatim>\<open>src/proto/params6.go\<close> and the parameter half of
  \<^verbatim>\<open>backoff6.go\<close>, with the modes of \<^verbatim>\<open>slaac6.go\<close> and the held lease a client resumes.
\<close>

abbreviation (input) RtrSolicitationInterval :: Duration where "RtrSolicitationInterval \<equiv> 4 * Second"
abbreviation (input) MaxRtrSolicitations :: int where "MaxRtrSolicitations \<equiv> 3"
abbreviation (input) MaxRtrSolicitationDelay :: Duration where "MaxRtrSolicitationDelay \<equiv> 1 * Second"
abbreviation (input) MaxMulticastSolicit :: int where "MaxMulticastSolicit \<equiv> 3"
abbreviation (input) RetransTimer :: Duration where "RetransTimer \<equiv> Second"
abbreviation (input) DupAddrDetectTransmits :: int where "DupAddrDetectTransmits \<equiv> 1"
abbreviation (input) DefaultDADTimeout :: Duration where
  "DefaultDADTimeout \<equiv> (DupAddrDetectTransmits + MaxMulticastSolicit) * RetransTimer"
abbreviation (input) DefaultAutoFallback :: Duration where
  "DefaultAutoFallback \<equiv> MaxRtrSolicitations * RtrSolicitationInterval div 2"
abbreviation (input) DefaultMaxSendFailures6 :: int where "DefaultMaxSendFailures6 \<equiv> 5"

datatype Mode6 = Mode6DHCP | Mode6SLAAC | Mode6Auto | Mode6Off | Mode6Other byte

definition formsAddresses :: "Mode6 \<Rightarrow> bool" where
  "formsAddresses m \<longleftrightarrow> m = Mode6SLAAC \<or> m = Mode6Auto"

record Resume6 =
  r6Addrs :: "AddrV6 list"
  r6ServerDUID :: "byte list"
  r6PrefixServerDUID :: "byte list"
  r6T1 :: Duration
  r6T2 :: Duration
  r6DNS :: "addr list"
  r6Search :: "gostring list"
  r6Prefixes :: "Prefix6 list"
  r6ReconfigureKey :: "byte list"
  r6ReconfigureReplay :: "64 word"
  r6ReconfigureReplaySeen :: bool

text \<open>A nil pointer is \<open>None\<close>.\<close>

definition live6 :: "Resume6 option \<Rightarrow> bool" where
  "live6 r = (case r of None \<Rightarrow> False
     | Some r \<Rightarrow> list_ex (\<lambda>a. Is6 (a6Addr a) \<and> \<not> Is4In6 (a6Addr a) \<and> \<not> IsUnspecified (a6Addr a)) (r6Addrs r))"

definition usablePrefixes :: "Resume6 option \<Rightarrow> Prefix6 list" where
  "usablePrefixes r = (case r of None \<Rightarrow> []
     | Some r \<Rightarrow> filter (\<lambda>p. PrefixIsValid (p6Prefix p) \<and> Is6 (paddr (p6Prefix p))
          \<and> \<not> Is4In6 (paddr (p6Prefix p)) \<and> pbits (p6Prefix p) \<ge> 1) (r6Prefixes r))"

record Params6 =
  SolMaxDelay :: Duration
  SolTimeout :: Duration
  SolMaxRT :: Duration
  ReqTimeout :: Duration
  ReqMaxRT :: Duration
  ReqMaxRC :: int
  CnfMaxDelay :: Duration
  CnfTimeout :: Duration
  CnfMaxRT :: Duration
  CnfMaxRD :: Duration
  RenTimeout :: Duration
  RenMaxRT :: Duration
  RebTimeout :: Duration
  RebMaxRT :: Duration
  InfMaxDelay :: Duration
  InfTimeout :: Duration
  InfMaxRT :: Duration
  RelTimeout :: Duration
  RelMaxRC :: int
  DecTimeout :: Duration
  DecMaxRC :: int
  IRTDefault :: Duration
  IRTMinimum :: Duration
  MaxWaitTime :: Duration
  P6DUID :: "byte list"
  P6IAID :: "32 word"
  P6Hint :: addr
  P6Declined :: "addr list"
  P6ORO :: "16 word list"
  P6Hostname :: gostring
  P6Resume :: "Resume6 option"
  DADTimeout :: Duration
  RouterSolicitations :: int
  RouterSolicitInterval :: Duration
  AcceptReconfigure :: bool
  P6RapidCommit :: bool
  Temporary :: bool
  PrefixHint :: int
  MaxSendFailures :: int
  P6Mode :: Mode6
  LinkAddr :: "byte list"
  P6IID :: IIDMode
  IIDSecret :: "byte list"
  IIDNetIface :: "byte list"
  IIDNetworkID :: "byte list"
  AutoFallback :: Duration

definition DefaultParams6 :: Params6 where
  "DefaultParams6 = \<lparr>SolMaxDelay = 1 * Second, SolTimeout = 1 * Second, SolMaxRT = 3600 * Second,
     ReqTimeout = 1 * Second, ReqMaxRT = 30 * Second, ReqMaxRC = 10,
     CnfMaxDelay = 1 * Second, CnfTimeout = 1 * Second, CnfMaxRT = 4 * Second, CnfMaxRD = 10 * Second,
     RenTimeout = 10 * Second, RenMaxRT = 600 * Second, RebTimeout = 10 * Second, RebMaxRT = 600 * Second,
     InfMaxDelay = 1 * Second, InfTimeout = 1 * Second, InfMaxRT = 3600 * Second,
     RelTimeout = 1 * Second, RelMaxRC = 4, DecTimeout = 1 * Second, DecMaxRC = 4,
     IRTDefault = 86400 * Second, IRTMinimum = 600 * Second, MaxWaitTime = 60 * Second,
     P6DUID = [], P6IAID = 0, P6Hint = NoAddr, P6Declined = [], P6ORO = [], P6Hostname = [], P6Resume = None,
     DADTimeout = DefaultDADTimeout, RouterSolicitations = MaxRtrSolicitations,
     RouterSolicitInterval = RtrSolicitationInterval, AcceptReconfigure = True, P6RapidCommit = False,
     Temporary = False, PrefixHint = 0, MaxSendFailures = DefaultMaxSendFailures6, P6Mode = Mode6DHCP,
     LinkAddr = [], P6IID = IIDModeEUI64, IIDSecret = [], IIDNetIface = [], IIDNetworkID = [], AutoFallback = 0\<rparr>"

section \<open>Timeouts a server may move\<close>

abbreviation (input) MaxRTOptionMinSeconds :: "32 word" where "MaxRTOptionMinSeconds \<equiv> 60"
abbreviation (input) MaxRTOptionMaxSeconds :: "32 word" where "MaxRTOptionMaxSeconds \<equiv> 86400"

definition maxRTInRange :: "32 word \<Rightarrow> bool" where
  "maxRTInRange secs \<longleftrightarrow> secs \<ge> MaxRTOptionMinSeconds \<and> secs \<le> MaxRTOptionMaxSeconds"

definition ApplySolMaxRT :: "32 word \<Rightarrow> Params6 \<Rightarrow> Params6 \<times> bool" where
  "ApplySolMaxRT secs p =
     (if \<not> maxRTInRange secs then (p, False) else (p\<lparr>SolMaxRT := i64 (uint secs * Second)\<rparr>, True))"

definition ApplyInfMaxRT :: "32 word \<Rightarrow> Params6 \<Rightarrow> Params6 \<times> bool" where
  "ApplyInfMaxRT secs p =
     (if \<not> maxRTInRange secs then (p, False) else (p\<lparr>InfMaxRT := i64 (uint secs * Second)\<rparr>, True))"

text \<open>One round of the loop of \<^verbatim>\<open>ApplyOptions\<close>: the codes applied, the codes ignored, the error that ends it.\<close>

definition apply_option :: "OptionsV6 \<Rightarrow> 16 word \<Rightarrow> Params6 \<times> 16 word list \<times> 16 word list \<times> v6_error option
    \<Rightarrow> Params6 \<times> 16 word list \<times> 16 word list \<times> v6_error option" where
  "apply_option opts c st =
     (case st of
        (p, applied, ignored, Some e) \<Rightarrow> st
      | (p, applied, ignored, None) \<Rightarrow>
          (case Uint32V6 opts c of
             None \<Rightarrow> st
           | Some (Inl e) \<Rightarrow> (p, applied, ignored, Some e)
           | Some (Inr v) \<Rightarrow>
               (case if c = OptV6SolMaxRTCode then ApplySolMaxRT v p else ApplyInfMaxRT v p of
                  (p, took) \<Rightarrow> if took then (p, applied @ [c], ignored, None) else (p, applied, ignored @ [c], None))))"

definition ApplyOptions :: "OptionsV6 \<Rightarrow> Params6 \<Rightarrow> Params6 \<times> 16 word list \<times> 16 word list \<times> v6_error option" where
  "ApplyOptions opts p = fold (apply_option opts) [OptV6SolMaxRTCode, OptV6InfMaxRTCode] (p, [], [], None)"

section \<open>The rows of the parameter table\<close>

definition SolicitRT :: "Params6 \<Rightarrow> Retransmit" where
  "SolicitRT p = \<lparr>IRT = SolTimeout p, MRT = SolMaxRT p, MRC = 0, MRD = 0\<rparr>"

definition RequestRT :: "Params6 \<Rightarrow> Retransmit" where
  "RequestRT p = \<lparr>IRT = ReqTimeout p, MRT = ReqMaxRT p, MRC = ReqMaxRC p, MRD = 0\<rparr>"

definition ConfirmRT :: "Params6 \<Rightarrow> Retransmit" where
  "ConfirmRT p = \<lparr>IRT = CnfTimeout p, MRT = CnfMaxRT p, MRC = 0, MRD = CnfMaxRD p\<rparr>"

definition RenewRT :: "Params6 \<Rightarrow> Retransmit" where
  "RenewRT p = \<lparr>IRT = RenTimeout p, MRT = RenMaxRT p, MRC = 0, MRD = 0\<rparr>"

definition RebindRT :: "Params6 \<Rightarrow> Retransmit" where
  "RebindRT p = \<lparr>IRT = RebTimeout p, MRT = RebMaxRT p, MRC = 0, MRD = 0\<rparr>"

definition InfoRequestRT :: "Params6 \<Rightarrow> Retransmit" where
  "InfoRequestRT p = \<lparr>IRT = InfTimeout p, MRT = InfMaxRT p, MRC = 0, MRD = 0\<rparr>"

definition ReleaseRT :: "Params6 \<Rightarrow> Retransmit" where
  "ReleaseRT p = \<lparr>IRT = RelTimeout p, MRT = 0, MRC = RelMaxRC p, MRD = 0\<rparr>"

definition DeclineRT :: "Params6 \<Rightarrow> Retransmit" where
  "DeclineRT p = \<lparr>IRT = DecTimeout p, MRT = 0, MRC = DecMaxRC p, MRD = 0\<rparr>"

section \<open>Validation\<close>

text \<open>\<^verbatim>\<open>ValidateHostname6\<close>: true when no error is returned.\<close>

definition ValidateHostname6 :: "gostring \<Rightarrow> bool" where
  "ValidateHostname6 name \<longleftrightarrow>
     name = [] \<or> ValidateHostname name \<and> (case EncodeClientFQDN ClientFQDNFlagS name of Inl _ \<Rightarrow> False | Inr _ \<Rightarrow> True)"

datatype params6_error = ErrMode6Off | ErrBadMode6 | ErrParamsIIDMode | ErrShortIIDSecret | ErrNoIIDNetIface
  | ErrNoLinkAddr | ErrNoDUID | ErrBadHostname6 | ErrBadHint | ErrBadResume6 | ErrBadPrefixHint
  | ErrBadDADTimeout | ErrBadRetransmit6

definition retransmits6 :: "Params6 \<Rightarrow> Duration list" where
  "retransmits6 p = [SolTimeout p, SolMaxRT p, ReqTimeout p, ReqMaxRT p, CnfTimeout p, CnfMaxRT p, RenTimeout p,
     RenMaxRT p, RebTimeout p, RebMaxRT p, InfTimeout p, InfMaxRT p, RelTimeout p, DecTimeout p]"

definition validate_iid :: "Params6 \<Rightarrow> params6_error + unit" where
  "validate_iid p =
     (if \<not> formsAddresses (P6Mode p) then Inr ()
      else if P6IID p = IIDModeStablePrivacy then
        (if length (IIDSecret p) < MinIIDSecretLen then Inl ErrShortIIDSecret
         else if length (IIDNetIface p) = 0 then Inl ErrNoIIDNetIface else Inr ())
      else (case ModifiedEUI64 (LinkAddr p) of Inl _ \<Rightarrow> Inl ErrNoLinkAddr | Inr _ \<Rightarrow> Inr ()))"

definition validate6 :: "Params6 \<Rightarrow> params6_error + unit" where
  "validate6 p =
     (case P6Mode p of
        Mode6Off \<Rightarrow> Inl ErrMode6Off
      | Mode6Other _ \<Rightarrow> Inl ErrBadMode6
      | _ \<Rightarrow>
        if P6IID p \<noteq> IIDModeEUI64 \<and> P6IID p \<noteq> IIDModeStablePrivacy then Inl ErrParamsIIDMode
        else bind_res (validate_iid p) (\<lambda>_.
          if length (P6DUID p) = 0 then Inl ErrNoDUID
          else if \<not> ValidateHostname6 (P6Hostname p) then Inl ErrBadHostname6
          else if IsValid (P6Hint p) \<and> (\<not> Is6 (P6Hint p) \<or> Is4In6 (P6Hint p)) then Inl ErrBadHint
          else if P6Resume p \<noteq> None \<and> \<not> live6 (P6Resume p) then Inl ErrBadResume6
          else if PrefixHint p < 0 \<or> PrefixHint p > 128 then Inl ErrBadPrefixHint
          else if DADTimeout p < 0 then Inl ErrBadDADTimeout
          else if list_ex (\<lambda>d. d \<le> 0) (retransmits6 p) then Inl ErrBadRetransmit6
          else Inr ()))"

section \<open>Values derived from the parameters\<close>

definition dadTimeout :: "Params6 \<Rightarrow> Duration" where
  "dadTimeout p = (if DADTimeout p \<le> 0 then DefaultDADTimeout else DADTimeout p)"

definition routerSolicitations :: "Params6 \<Rightarrow> int" where
  "routerSolicitations p =
     (if RouterSolicitations p = 0 then MaxRtrSolicitations
      else if RouterSolicitations p < 0 then 0 else RouterSolicitations p)"

definition routerSolicitInterval :: "Params6 \<Rightarrow> Duration" where
  "routerSolicitInterval p =
     (if RouterSolicitInterval p \<le> 0 then RtrSolicitationInterval else RouterSolicitInterval p)"

definition autoFallback :: "Params6 \<Rightarrow> Duration option" where
  "autoFallback p =
     (if AutoFallback p < 0 then None
      else if AutoFallback p = 0 then
        (let w = quot64 (i64 (routerSolicitations p * routerSolicitInterval p)) 2 in
         if w > 0 then Some w else Some DefaultAutoFallback)
      else Some (AutoFallback p))"

definition maxSendFailures :: "Params6 \<Rightarrow> int" where
  "maxSendFailures p = (if MaxSendFailures p \<le> 0 then DefaultMaxSendFailures6 else MaxSendFailures p)"

definition add_code :: "16 word \<Rightarrow> 16 word list \<Rightarrow> 16 word list" where
  "add_code c cs = (if c \<in> set cs then cs else cs @ [c])"

definition oro :: "Params6 \<Rightarrow> byte \<Rightarrow> 16 word list" where
  "oro p t = fold add_code (P6ORO p)
     (if t = MsgSolicit then [OptV6SolMaxRTCode]
      else if t = MsgInformationRequest then [OptV6InfMaxRTCode, OptV6InfoRefresh]
      else if t = MsgRenew \<or> t = MsgRebind then [OptV6SolMaxRTCode]
      else [])"

definition DefaultORO :: "16 word list" where
  "DefaultORO = [OptV6DNSServers, OptV6DomainList, OptV6VendorOpts, OptV6PosixTimezone, OptV6TZDatabase, OptV6NTPServer]"

definition hintAddr :: "Params6 \<Rightarrow> addr" where
  "hintAddr p = (if usable6 (P6Hint p) then P6Hint p else NoAddr)"

definition params_iidSource :: "Params6 \<Rightarrow> iidSource" where
  "params_iidSource p = \<lparr>iidMode = P6IID p, iidHw = LinkAddr p, iidNetIface = IIDNetIface p,
     iidNetworkID = IIDNetworkID p, iidSecret = IIDSecret p\<rparr>"

section \<open>Properties\<close>

lemma DefaultParams6_valid: "validate6 (DefaultParams6\<lparr>P6DUID := [0, 1]\<rparr>) = Inr ()"
  by code_simp

text \<open>Only the two maxima ever move, and only to between one minute and one day.\<close>

lemma ApplyOptions_range:
  assumes "ApplyOptions opts p = (p', applied, ignored, e)"
  shows "p'\<lparr>SolMaxRT := SolMaxRT p, InfMaxRT := InfMaxRT p\<rparr> = p
    \<and> (SolMaxRT p' = SolMaxRT p \<or> 60 * Second \<le> SolMaxRT p' \<and> SolMaxRT p' \<le> 86400 * Second)
    \<and> (InfMaxRT p' = InfMaxRT p \<or> 60 * Second \<le> InfMaxRT p' \<and> InfMaxRT p' \<le> 86400 * Second)"
proof -
  have r: "60 * Second \<le> i64 (uint v * Second) \<and> i64 (uint v * Second) \<le> 86400 * Second" if "maxRTInRange v" for v
  proof -
    have "60 \<le> uint v" "uint v \<le> 86400" using that by (simp_all add: maxRTInRange_def word_le_def)
    then show ?thesis by (simp add: i64_id in64I)
  qed
  show ?thesis using assms r
    by (auto simp: ApplyOptions_def apply_option_def ApplySolMaxRT_def ApplyInfMaxRT_def
        split: option.splits sum.splits if_splits prod.splits)
qed

end
