(* ===== verification/Proto6_Slaac.thy ===== *)
theory Proto6_Slaac
  imports Proto6_Params Wire_Icmp6 "HOL-Library.AList"
begin

text \<open>
  Stateless address autoconfiguration, the table of \<^verbatim>\<open>src/proto/slaac6.go\<close>: the rules of RFC 4862
  section 5.5.3 for a Prefix Information option, the addresses formed from accepted prefixes, their
  lifetimes, and the addresses duplicate detection refused. The map of refused addresses is the list
  of its keys, the count of retries per prefix a function that is 0 where the Go map has no key.
\<close>

abbreviation (input) TwoHours :: Duration where "TwoHours \<equiv> 7200 * Second"
abbreviation (input) MaxSLAACAddresses :: nat where "MaxSLAACAddresses \<equiv> 8"
abbreviation (input) IIDBits :: int where "IIDBits \<equiv> 64"

definition lengthsSumTo128 :: "int \<Rightarrow> int \<Rightarrow> bool" where
  "lengthsSumTo128 prefixLen iidBits \<longleftrightarrow> prefixLen + iidBits = 128"

datatype SLAACIgnore = SLAACIgnoreNone | SLAACIgnoreNotAutonomous | SLAACIgnoreLinkLocal
  | SLAACIgnorePreferredOverValid | SLAACIgnoreBadLength | SLAACIgnoreValidZero | SLAACIgnoreCapReached
  | SLAACIgnoreLinkAddr | SLAACIgnoreModeDHCP | SLAACIgnoreDuplicate

definition AllSLAACIgnores :: "SLAACIgnore list" where
  "AllSLAACIgnores = [SLAACIgnoreNotAutonomous, SLAACIgnoreLinkLocal, SLAACIgnorePreferredOverValid,
     SLAACIgnoreBadLength, SLAACIgnoreValidZero, SLAACIgnoreCapReached, SLAACIgnoreLinkAddr,
     SLAACIgnoreModeDHCP, SLAACIgnoreDuplicate]"

record SLAACCounters =
  scFormed :: "64 word"
  scRefreshed :: "64 word"
  scDeprecated :: "64 word"
  scExpired :: "64 word"
  scConflicts :: "64 word"
  scFallbacks :: "64 word"
  scIgnored :: "SLAACIgnore \<Rightarrow> 64 word"

definition IgnoredTotal :: "SLAACCounters \<Rightarrow> 64 word" where
  "IgnoredTotal c = foldl (\<lambda>n r. n + scIgnored c r) 0 AllSLAACIgnores"

section \<open>Forming an address\<close>

definition formSLAAC :: "addr \<Rightarrow> byte \<Rightarrow> iidSource \<Rightarrow> byte \<Rightarrow> iid_error + addr" where
  "formSLAAC p plen src counter =
     (if \<not> Is6 p \<or> Is4In6 p then Inl ErrNotIPv6Prefix
      else if \<not> lengthsSumTo128 (uint plen) IIDBits then Inl ErrIIDLength
      else bind_res (iid src (PrefixFrom p (uint plen)) counter) (\<lambda>id.
        Inr (AddrFrom16 (take 8 (As16 p) @ id))))"

definition SLAACAddress :: "addr \<Rightarrow> byte \<Rightarrow> byte list \<Rightarrow> iid_error + addr" where
  "SLAACAddress p plen hw =
     formSLAAC p plen \<lparr>iidMode = IIDModeEUI64, iidHw = hw, iidNetIface = [], iidNetworkID = [], iidSecret = []\<rparr> 0"

text \<open>\<^verbatim>\<open>fe80::/10\<close> and its \<^verbatim>\<open>Contains\<close>.\<close>

definition linkLocalPrefix :: "addr \<Rightarrow> bool" where
  "linkLocalPrefix a = (case a of Addr6 w \<Rightarrow> drop_bit 118 w = 0x3FA | _ \<Rightarrow> False)"

section \<open>The entries\<close>

record slaacEntry =
  sePrefix :: prefix
  seAddr :: addr
  seStart :: Instant
  sePreferred :: Duration
  seValid :: Duration
  seCharged :: bool
  seTentative :: bool

definition remaining :: "slaacEntry \<Rightarrow> Instant \<Rightarrow> Duration" where
  "remaining e now =
     (if IsInfinite (seValid e) then Infinite
      else let d = Sub (Add (seStart e) (seValid e)) now in if d < 0 then 0 else d)"

definition remainingPreferred :: "slaacEntry \<Rightarrow> Instant \<Rightarrow> Duration" where
  "remainingPreferred e now =
     (if IsInfinite (sePreferred e) then Infinite
      else let d = Sub (Add (seStart e) (sePreferred e)) now in if d < 0 then 0 else d)"

definition deprecated :: "slaacEntry \<Rightarrow> Instant \<Rightarrow> bool" where
  "deprecated e now \<longleftrightarrow> \<not> IsInfinite (sePreferred e) \<and> Add (seStart e) (sePreferred e) \<le> now"

definition expired :: "slaacEntry \<Rightarrow> Instant \<Rightarrow> bool" where
  "expired e now \<longleftrightarrow> \<not> IsInfinite (seValid e) \<and> Add (seStart e) (seValid e) \<le> now"

definition durGreater :: "Duration \<Rightarrow> Duration \<Rightarrow> bool" where
  "durGreater a b =
     (if IsInfinite a \<and> IsInfinite b then False
      else if IsInfinite a then True
      else if IsInfinite b then False
      else a > b)"

record slaacTable =
  stEntries :: "slaacEntry list"
  stCounts :: SLAACCounters
  stRefused :: "addr list"
  stDadCount :: "prefix \<Rightarrow> byte"

definition zero_table :: slaacTable where
  "zero_table = \<lparr>stEntries = [],
     stCounts = \<lparr>scFormed = 0, scRefreshed = 0, scDeprecated = 0, scExpired = 0, scConflicts = 0, scFallbacks = 0, scIgnored = \<lambda>_. 0\<rparr>,
     stRefused = [], stDadCount = \<lambda>_. 0\<rparr>"

definition refuse :: "addr \<Rightarrow> slaacTable \<Rightarrow> slaacTable" where
  "refuse a t = t\<lparr>stRefused := List.insert a (stRefused t)\<rparr>"

definition find_prefix :: "slaacTable \<Rightarrow> prefix \<Rightarrow> nat option" where
  "find_prefix t p = (let p = Masked p in find (\<lambda>i. sePrefix (stEntries t ! i) = p) [0..<length (stEntries t)])"

definition find_addr :: "slaacTable \<Rightarrow> addr \<Rightarrow> nat option" where
  "find_addr t a = find (\<lambda>i. seAddr (stEntries t ! i) = a) [0..<length (stEntries t)]"

section \<open>A Prefix Information option\<close>

definition slaacOptionRules :: "PrefixInfo \<Rightarrow> SLAACIgnore + prefix" where
  "slaacOptionRules pi =
     (if \<not> piAutonomous pi then Inl SLAACIgnoreNotAutonomous
      else if \<not> Is6 (piPrefix pi) \<or> Is4In6 (piPrefix pi) then Inl SLAACIgnoreBadLength
      else if linkLocalPrefix (piPrefix pi) then Inl SLAACIgnoreLinkLocal
      else if durGreater (SecondsToDuration (piPreferred pi)) (SecondsToDuration (piValid pi)) then Inl SLAACIgnorePreferredOverValid
      else let p = PrefixFrom (piPrefix pi) (uint (piLen pi)) in
        if \<not> PrefixIsValid p then Inl SLAACIgnoreBadLength else Inr (Masked p))"

definition slaacFormRules :: "PrefixInfo \<Rightarrow> iidSource \<Rightarrow> byte \<Rightarrow> SLAACIgnore + addr" where
  "slaacFormRules pi src counter =
     (if \<not> lengthsSumTo128 (uint (piLen pi)) IIDBits then Inl SLAACIgnoreBadLength
      else if SecondsToDuration (piValid pi) = 0 then Inl SLAACIgnoreValidZero
      else case formSLAAC (piPrefix pi) (piLen pi) src counter of
        Inl _ \<Rightarrow> Inl SLAACIgnoreLinkAddr
      | Inr a \<Rightarrow> Inr a)"

text \<open>The valid lifetime of RFC 4862 section 5.5.3 e.\<close>

definition refreshed_valid :: "Duration \<Rightarrow> Duration \<Rightarrow> Duration" where
  "refreshed_valid valid rest =
     (if durGreater valid TwoHours \<or> durGreater valid rest then valid
      else if \<not> durGreater rest TwoHours then rest
      else TwoHours)"

definition refresh_entry :: "Instant \<Rightarrow> Duration \<Rightarrow> Duration \<Rightarrow> slaacEntry \<Rightarrow> slaacEntry" where
  "refresh_entry now preferred valid e =
     (let e' = e\<lparr>sePreferred := preferred, seValid := refreshed_valid valid (remaining e now), seStart := now\<rparr>
      in if deprecated e' now then e' else e'\<lparr>seCharged := False\<rparr>)"

definition refresh :: "Instant \<Rightarrow> nat \<Rightarrow> Duration \<Rightarrow> Duration \<Rightarrow> slaacTable \<Rightarrow> slaacTable \<times> bool" where
  "refresh now i preferred valid t =
     (let b = stEntries t ! i; e = refresh_entry now preferred valid b
      in (t\<lparr>stEntries := (stEntries t)[i := e], stCounts := (stCounts t)\<lparr>scRefreshed := scRefreshed (stCounts t) + 1\<rparr>\<rparr>,
          Add (seStart b) (sePreferred b) \<noteq> Add (seStart e) (sePreferred e)
          \<or> Add (seStart b) (seValid b) \<noteq> Add (seStart e) (seValid e)
          \<or> IsInfinite (sePreferred b) \<noteq> IsInfinite (sePreferred e)
          \<or> IsInfinite (seValid b) \<noteq> IsInfinite (seValid e)))"

text \<open>The table, whether an address was formed, whether anything changed, and why the option was ignored.\<close>

definition applyPIO :: "Instant \<Rightarrow> PrefixInfo \<Rightarrow> iidSource \<Rightarrow> slaacTable \<Rightarrow> slaacTable \<times> bool \<times> bool \<times> SLAACIgnore" where
  "applyPIO now pi src t =
     (case slaacOptionRules pi of
        Inl why \<Rightarrow> (t, False, False, why)
      | Inr p \<Rightarrow>
          (case find_prefix t p of
             Some i \<Rightarrow>
               (case refresh now i (SecondsToDuration (piPreferred pi)) (SecondsToDuration (piValid pi)) t of
                  (t, changed) \<Rightarrow> (t, False, changed, SLAACIgnoreNone))
           | None \<Rightarrow>
               (case slaacFormRules pi src (stDadCount t p) of
                  Inl why \<Rightarrow> (t, False, False, why)
                | Inr a \<Rightarrow>
                    if length (stEntries t) \<ge> MaxSLAACAddresses then (t, False, False, SLAACIgnoreCapReached)
                    else if a \<in> set (stRefused t) then (t, False, False, SLAACIgnoreDuplicate)
                    else
                      (t\<lparr>stEntries := stEntries t @ [\<lparr>sePrefix = p, seAddr = a, seStart = now,
                            sePreferred = SecondsToDuration (piPreferred pi), seValid = SecondsToDuration (piValid pi),
                            seCharged = False, seTentative = True\<rparr>],
                         stCounts := (stCounts t)\<lparr>scFormed := scFormed (stCounts t) + 1\<rparr>\<rparr>,
                       True, True, SLAACIgnoreNone))))"

section \<open>Time and duplicates\<close>

definition next_change :: "Instant \<Rightarrow> slaacTable \<Rightarrow> Instant option" where
  "next_change now t =
     least (filter (\<lambda>ts. \<not> ts \<le> now)
       (List.map_filter (\<lambda>(origin, d). if IsInfinite d then None else Some (Add origin d))
         (concat (map (\<lambda>e. [(seStart e, sePreferred e), (seStart e, seValid e)]) (stEntries t)))))"

definition expire_entries :: "Instant \<Rightarrow> slaacTable \<Rightarrow> slaacTable \<times> addr list" where
  "expire_entries now t =
     (let gone = filter (\<lambda>e. expired e now) (stEntries t) in
      (t\<lparr>stEntries := filter (\<lambda>e. \<not> expired e now) (stEntries t),
         stCounts := (stCounts t)\<lparr>scExpired := scExpired (stCounts t) + of_nat (length gone)\<rparr>\<rparr>,
       map seAddr gone))"

definition drop_addr :: "addr \<Rightarrow> slaacTable \<Rightarrow> slaacTable \<times> bool" where
  "drop_addr a t =
     (case find_addr t a of
        None \<Rightarrow> (t, False)
      | Some i \<Rightarrow> (t\<lparr>stEntries := take i (stEntries t) @ drop (i + 1) (stEntries t)\<rparr>, True))"

text \<open>The loop of \<^verbatim>\<open>retry\<close>: the count it ends at and the next address nothing refused.\<close>

function retry_loop :: "addr list \<Rightarrow> iidSource \<Rightarrow> prefix \<Rightarrow> byte \<Rightarrow> byte \<times> addr option" where
  "retry_loop refused src p c =
     (if c < retries src then
        case formSLAAC (paddr p) (word_of_int (pbits p)) src (c + 1) of
          Inl _ \<Rightarrow> (c + 1, None)
        | Inr a \<Rightarrow> if a \<in> set refused then retry_loop refused src p (c + 1) else (c + 1, Some a)
      else (c, None))"
  by pat_completeness auto
termination
proof (relation "measure (\<lambda>(_, src, _, c). unat (retries src) - unat c)")
  fix refused src p a and c :: byte
  assume c: "c < retries src"
  then have "unat c < unat (retries src)" by (simp add: word_less_nat_alt)
  moreover have "unat (c + 1) = unat c + 1"
  proof -
    have "Suc (unat c) < 256" using calculation unat_byte_less [of "retries src"] by linarith
    then show ?thesis by (simp add: unat_word_ariths(1))
  qed
  ultimately show "((refused, src, p, c + 1), (refused, src, p, c)) \<in> measure (\<lambda>(_, src, _, c). unat (retries src) - unat c)"
    by simp
qed simp

declare retry_loop.simps [simp del]

definition retry :: "addr \<Rightarrow> iidSource \<Rightarrow> slaacTable \<Rightarrow> slaacTable \<times> (addr \<times> byte) option" where
  "retry a src t =
     (case find_addr t a of
        None \<Rightarrow> (t, None)
      | Some i \<Rightarrow>
          let e = stEntries t ! i; p = sePrefix e in
          (case retry_loop (stRefused t) src p (stDadCount t p) of
             (c, None) \<Rightarrow> (t\<lparr>stDadCount := (stDadCount t)(p := c)\<rparr>, None)
           | (c, Some b) \<Rightarrow>
               (t\<lparr>stDadCount := (stDadCount t)(p := c),
                  stEntries := (stEntries t)[i := e\<lparr>seAddr := b, seTentative := True\<rparr>]\<rparr>, Some (b, c))))"

definition settle :: "addr \<Rightarrow> slaacTable \<Rightarrow> slaacTable" where
  "settle a t =
     (case find_addr t a of
        None \<Rightarrow> t
      | Some i \<Rightarrow> t\<lparr>stEntries := (stEntries t)[i := (stEntries t ! i)\<lparr>seTentative := False\<rparr>]\<rparr>)"

definition tentativeAddrs :: "slaacTable \<Rightarrow> addr list" where
  "tentativeAddrs t = map seAddr (filter seTentative (stEntries t))"

definition slaac_lease :: "Instant \<Rightarrow> 32 word \<Rightarrow> slaacTable \<Rightarrow> Lease6" where
  "slaac_lease now iaid t = zero_lease6\<lparr>l6IAID := iaid, l6Start := now, l6SLAAC := True,
     l6Addrs := map (\<lambda>e. \<lparr>a6Addr = seAddr e, a6Preferred = remainingPreferred e now,
        a6Valid = remaining e now, a6PrefixLen = pbits (sePrefix e)\<rparr>) (stEntries t)\<rparr>"

definition phases :: "Instant \<Rightarrow> slaacTable \<Rightarrow> (addr \<times> bool) list" where
  "phases now t = fold (\<lambda>e. AList.update (seAddr e) (deprecated e now)) (stEntries t) []"

definition phasesDiffer :: "(addr \<times> bool) list \<Rightarrow> (addr \<times> bool) list \<Rightarrow> bool" where
  "phasesDiffer a b \<longleftrightarrow> length a \<noteq> length b \<or> list_ex (\<lambda>(k, v). map_of b k \<noteq> Some v) a"

end
