(* ===== verification/Proto6_Router.thy ===== *)
theory Proto6_Router
  imports Proto_Lease Wire_Icmp6 "HOL-Library.Product_Lexorder"
begin

text \<open>
  What the Router Advertisements of a link left behind, the table of \<^verbatim>\<open>src/proto/router6.go\<close>: routers,
  resolvers, search domains, routes and NAT64 prefixes, each for its lifetime and each list up to a
  cap. A full list of routers or routes refuses the newcomer, a full list of the other three evicts
  the entry that ends first, the newest of those that end together.
\<close>

abbreviation (input) maxRouters :: nat where "maxRouters \<equiv> 8"
abbreviation (input) maxRouterDNS :: nat where "maxRouterDNS \<equiv> 8"
abbreviation (input) maxRouterSearch :: nat where "maxRouterSearch \<equiv> 8"
abbreviation (input) maxRouterRoutes :: nat where "maxRouterRoutes \<equiv> 16"
abbreviation (input) maxRouterPref64 :: nat where "maxRouterPref64 \<equiv> 4"
abbreviation (input) minLinkMTU :: "32 word" where "minLinkMTU \<equiv> 1280"
abbreviation (input) maxReportableMTU :: "32 word" where "maxReportableMTU \<equiv> 2147483647"

section \<open>Lifetimes\<close>

record timedEntry =
  teUntil :: Instant
  teForever :: bool

definition entryUntil :: "Instant \<Rightarrow> 32 word \<Rightarrow> timedEntry" where
  "entryUntil now secs =
     (if IsInfinite (SecondsToDuration secs) then \<lparr>teUntil = 0, teForever = True\<rparr>
      else \<lparr>teUntil = Add now (i64 (uint secs * Second)), teForever = False\<rparr>)"

definition routerLifetimeUntil :: "Instant \<Rightarrow> 16 word \<Rightarrow> timedEntry" where
  "routerLifetimeUntil now secs = \<lparr>teUntil = Add now (i64 (uint secs * Second)), teForever = False\<rparr>"

definition expiresBefore :: "timedEntry \<Rightarrow> timedEntry \<Rightarrow> bool" where
  "expiresBefore a b = (if teForever a then False else if teForever b then True else teUntil a < teUntil b)"

definition timed_live :: "Instant \<Rightarrow> timedEntry \<Rightarrow> bool" where
  "timed_live now e \<longleftrightarrow> teForever e \<or> now < teUntil e"

text \<open>
  \<^verbatim>\<open>evictShortest\<close>: the index the loop settles on, from the second element on (the first round compares
  the first element with itself).
\<close>

definition worse :: "timedEntry \<times> int \<Rightarrow> timedEntry \<times> int \<Rightarrow> bool" where
  "worse i b \<longleftrightarrow> \<not> expiresBefore (fst b) (fst i) \<and> (expiresBefore (fst i) (fst b) \<or> snd i > snd b)"

definition shortest :: "('a \<Rightarrow> timedEntry \<times> int) \<Rightarrow> 'a list \<Rightarrow> nat" where
  "shortest key xs = foldl (\<lambda>idx i. if worse (key (xs ! i)) (key (xs ! idx)) then i else idx) 0 [0..<length xs]"

definition evictShortest :: "('a \<Rightarrow> timedEntry \<times> int) \<Rightarrow> 'a list \<Rightarrow> 'a list" where
  "evictShortest key xs = (let idx = shortest key xs in take idx xs @ drop (idx + 1) xs)"

section \<open>The table\<close>

record routerEntry =
  reAddr :: addr
  reDeflt :: timedEntry
  reIsDeflt :: bool
  rePref :: RoutePreference
  reSeq :: int

text \<open>An entry of the lists of resolvers, search domains and prefixes: what it names, its lifetime, its age.\<close>

record 'a heldEntry =
  heValue :: 'a
  heLife :: timedEntry
  heSeq :: int

record routeEntry =
  rtPrefix :: prefix
  rtVia :: addr
  rtPref :: RoutePreference
  rtLife :: timedEntry
  rtSeq :: int

record routerTable =
  tRouters :: "routerEntry list"
  tDNS :: "addr heldEntry list"
  tSearch :: "gostring heldEntry list"
  tRoutes :: "routeEntry list"
  tPref64 :: "prefix heldEntry list"
  tMTU :: "32 word"
  tRefused :: "64 word"
  tEvicted :: "64 word"
  tOptIgnored :: "64 word"
  tSeq :: int

definition zero_timed :: timedEntry where
  "zero_timed = \<lparr>teUntil = 0, teForever = False\<rparr>"

definition zero_routers :: routerTable where
  "zero_routers = \<lparr>tRouters = [], tDNS = [], tSearch = [], tRoutes = [], tPref64 = [], tMTU = 0,
     tRefused = 0, tEvicted = 0, tOptIgnored = 0, tSeq = 0\<rparr>"

definition holdsSomethingOf :: "routerTable \<Rightarrow> addr \<Rightarrow> bool" where
  "holdsSomethingOf t a \<longleftrightarrow> list_ex (\<lambda>r. rtVia r = a) (tRoutes t)"

definition prune :: "Instant \<Rightarrow> routerTable \<Rightarrow> routerTable" where
  "prune now t =
     (let rs = map (\<lambda>r. if reIsDeflt r \<and> \<not> timed_live now (reDeflt r) then r\<lparr>reIsDeflt := False\<rparr> else r) (tRouters t);
          t = t\<lparr>tDNS := filter (\<lambda>e. timed_live now (heLife e)) (tDNS t),
                tSearch := filter (\<lambda>e. timed_live now (heLife e)) (tSearch t),
                tRoutes := filter (\<lambda>e. timed_live now (rtLife e)) (tRoutes t),
                tPref64 := filter (\<lambda>e. timed_live now (heLife e)) (tPref64 t)\<rparr>
      in t\<lparr>tRouters := filter (\<lambda>e. reIsDeflt e \<or> holdsSomethingOf t (reAddr e)) rs\<rparr>)"

section \<open>Observing an advertisement\<close>

definition find_index :: "('a \<Rightarrow> bool) \<Rightarrow> 'a list \<Rightarrow> nat option" where
  "find_index P xs = find (\<lambda>i. P (xs ! i)) [0..<length xs]"

definition next_seq :: "routerTable \<Rightarrow> int" where
  "next_seq t = i64 (tSeq t + 1)"

definition observeRouterLifetime :: "Instant \<Rightarrow> RouterAdvert \<Rightarrow> routerTable \<Rightarrow> routerTable" where
  "observeRouterLifetime now ra t =
     (case find_index (\<lambda>r. reAddr r = raRouter ra) (tRouters t) of
        Some i \<Rightarrow>
          (let r = tRouters t ! i in
           if raLifetime ra = 0 then t\<lparr>tRouters := (tRouters t)[i := r\<lparr>reIsDeflt := False\<rparr>]\<rparr>
           else t\<lparr>tRouters := (tRouters t)[i := r\<lparr>reIsDeflt := True,
                  reDeflt := routerLifetimeUntil now (raLifetime ra), rePref := raPreference ra\<rparr>]\<rparr>)
      | None \<Rightarrow>
          if length (tRouters t) \<ge> maxRouters then t\<lparr>tRefused := tRefused t + 1\<rparr>
          else
            let e = \<lparr>reAddr = raRouter ra, reDeflt = zero_timed, reIsDeflt = False, rePref = RoutePrefMedium, reSeq = next_seq t\<rparr>;
                e = (if raLifetime ra \<noteq> 0
                     then e\<lparr>reIsDeflt := True, reDeflt := routerLifetimeUntil now (raLifetime ra), rePref := raPreference ra\<rparr>
                     else e)
            in t\<lparr>tSeq := next_seq t, tRouters := tRouters t @ [e]\<rparr>)"

definition observeMTU :: "RouterAdvert \<Rightarrow> routerTable \<Rightarrow> routerTable" where
  "observeMTU ra t =
     (if raMTU ra = 0 then t
      else if raMTU ra < minLinkMTU \<or> raMTU ra > maxReportableMTU then t\<lparr>tOptIgnored := tOptIgnored t + 1\<rparr>
      else t\<lparr>tMTU := raMTU ra\<rparr>)"

text \<open>
  What an advertised value does to a list: a zero lifetime removes it, a known value has its lifetime
  set, a new one is appended, over a full list after an eviction. The three loops of the source
  are one function here; it returns the list, whether it evicted and whether it used up a number.
\<close>

definition hold_entry :: "Instant \<Rightarrow> nat \<Rightarrow> 32 word \<Rightarrow> int \<Rightarrow> 'a \<Rightarrow> 'a heldEntry list \<Rightarrow> 'a heldEntry list \<times> bool \<times> bool" where
  "hold_entry now cap secs seq v es =
     (case (find_index (\<lambda>e. heValue e = v) es, secs = 0) of
        (Some i, True) \<Rightarrow> (take i es @ drop (i + 1) es, False, False)
      | (None, True) \<Rightarrow> (es, False, False)
      | (Some i, False) \<Rightarrow> (es[i := (es ! i)\<lparr>heLife := entryUntil now secs\<rparr>], False, False)
      | (None, False) \<Rightarrow>
          let full = length es \<ge> cap;
              es = (if full then evictShortest (\<lambda>e. (heLife e, heSeq e)) es else es)
          in (es @ [\<lparr>heValue = v, heLife = entryUntil now secs, heSeq = seq\<rparr>], full, True))"

definition count_hold :: "bool \<times> bool \<Rightarrow> routerTable \<Rightarrow> routerTable" where
  "count_hold c t = (case c of (evicted, used) \<Rightarrow>
     t\<lparr>tEvicted := (if evicted then tEvicted t + 1 else tEvicted t), tSeq := (if used then next_seq t else tSeq t)\<rparr>)"

definition observe_dns :: "Instant \<Rightarrow> 32 word \<Rightarrow> addr \<Rightarrow> routerTable \<Rightarrow> routerTable" where
  "observe_dns now secs a t =
     (case hold_entry now maxRouterDNS secs (next_seq t) a (tDNS t) of (es, c) \<Rightarrow> count_hold c (t\<lparr>tDNS := es\<rparr>))"

definition observeRDNSS :: "Instant \<Rightarrow> RDNSS \<Rightarrow> routerTable \<Rightarrow> routerTable" where
  "observeRDNSS now r t = fold (observe_dns now (rdLifetime r)) (rdAddrs r) t"

definition observe_search :: "Instant \<Rightarrow> 32 word \<Rightarrow> gostring \<Rightarrow> routerTable \<Rightarrow> routerTable" where
  "observe_search now secs n t =
     (case hold_entry now maxRouterSearch secs (next_seq t) n (tSearch t) of (es, c) \<Rightarrow> count_hold c (t\<lparr>tSearch := es\<rparr>))"

definition observeDNSSL :: "Instant \<Rightarrow> DNSSL \<Rightarrow> routerTable \<Rightarrow> routerTable" where
  "observeDNSSL now d t = fold (observe_search now (dlLifetime d)) (dlNames d) t"

definition observeRoute :: "Instant \<Rightarrow> addr \<Rightarrow> RouteInfo \<Rightarrow> routerTable \<Rightarrow> routerTable" where
  "observeRoute now via ri t =
     (case (find_index (\<lambda>r. rtVia r = via \<and> rtPrefix r = riPrefix ri) (tRoutes t), riLifetime ri = 0) of
        (Some i, True) \<Rightarrow> t\<lparr>tRoutes := take i (tRoutes t) @ drop (i + 1) (tRoutes t)\<rparr>
      | (None, True) \<Rightarrow> t
      | (Some i, False) \<Rightarrow> t\<lparr>tRoutes := (tRoutes t)[i := (tRoutes t ! i)\<lparr>rtPref := riPref ri, rtLife := entryUntil now (riLifetime ri)\<rparr>]\<rparr>
      | (None, False) \<Rightarrow>
          if length (tRoutes t) \<ge> maxRouterRoutes then t\<lparr>tRefused := tRefused t + 1\<rparr>
          else t\<lparr>tSeq := next_seq t, tRoutes := tRoutes t @ [\<lparr>rtPrefix = riPrefix ri, rtVia = via, rtPref = riPref ri,
                   rtLife = entryUntil now (riLifetime ri), rtSeq = next_seq t\<rparr>]\<rparr>)"

definition observePREF64 :: "Instant \<Rightarrow> PREF64 \<Rightarrow> routerTable \<Rightarrow> routerTable" where
  "observePREF64 now p t =
     (if \<not> PrefixIsValid (p64Prefix p) then t\<lparr>tOptIgnored := tOptIgnored t + 1\<rparr>
      else case hold_entry now maxRouterPref64 (p64Lifetime p) (next_seq t) (Masked (p64Prefix p)) (tPref64 t) of
        (es, c) \<Rightarrow> count_hold c (t\<lparr>tPref64 := es\<rparr>))"

definition observe_advert :: "Instant \<Rightarrow> RouterAdvert \<Rightarrow> routerTable \<Rightarrow> routerTable \<times> bool" where
  "observe_advert now ra t =
     (if \<not> IsValid (raRouter ra) then (t, False)
      else
        let t = observeMTU ra (observeRouterLifetime now ra (prune now t));
            t = fold (observeRDNSS now) (raRDNSS ra) t;
            t = fold (observeDNSSL now) (raDNSSL ra) t;
            t = fold (observeRoute now (raRouter ra)) (raRoutes ra) t;
            t = fold (observePREF64 now) (raPREF64 ra) t
        in (prune now t, True))"

section \<open>Reporting the table\<close>

record RouterObservation =
  roSeen :: bool
  roManaged :: bool
  roOther :: bool
  roRouter :: addr
  roPrefixes :: "PrefixInfo list"
  roRouters :: "addr list"
  roMTU :: "32 word"
  roDNS :: "addr list"
  roSearch :: "gostring list"
  roRoutes :: "route list"
  roPREF64 :: "prefix list"

text \<open>The preference as the source numbers it, and the order in which \<^verbatim>\<open>fill\<close> sorts.\<close>

definition pref_rank :: "RoutePreference \<Rightarrow> int" where
  "pref_rank p = (case p of RoutePrefLow \<Rightarrow> - 1 | RoutePrefMedium \<Rightarrow> 0 | RoutePrefHigh \<Rightarrow> 1)"

definition addr_value :: "addr \<Rightarrow> int" where
  "addr_value a = (case a of NoAddr \<Rightarrow> 0 | Addr4 w \<Rightarrow> uint w | Addr6 w \<Rightarrow> uint w)"

definition prefix_key :: "prefix \<Rightarrow> int \<times> int \<times> int" where
  "prefix_key p = (BitLen (paddr p), addr_value (paddr p), pbits p)"

definition fill_routers :: "Instant \<Rightarrow> routerTable \<Rightarrow> RouterObservation \<Rightarrow> routerTable \<times> RouterObservation" where
  "fill_routers now t out =
     (let t = prune now t in
      (t, out\<lparr>roRouters := map reAddr (sort_key (\<lambda>r. (- pref_rank (rePref r), reSeq r)) (filter reIsDeflt (tRouters t))),
         roMTU := tMTU t, roDNS := map heValue (tDNS t), roSearch := map heValue (tSearch t),
         roRoutes := map (\<lambda>e. \<lparr>Dest = rtPrefix e, Router = rtVia e\<rparr>) (sort_key (\<lambda>r. (- pref_rank (rtPref r), rtSeq r)) (tRoutes t)),
         roPREF64 := sort_key prefix_key (map heValue (tPref64 t))\<rparr>))"

end
