(* ===== verification/Proto6_State.thy ===== *)
theory Proto6_State
  imports Proto6_Slaac Proto6_Router Wire_Rkap
begin

text \<open>
  The vocabulary of the DHCPv6 machine: the states of \<^verbatim>\<open>src/proto/state6.go\<close>, the DHCPv6 fields of
  \<^verbatim>\<open>event.go\<close> and \<^verbatim>\<open>action.go\<close>, the refusals of \<^verbatim>\<open>machine6_reconfigure.go\<close>, and the lines of the
  journal, one constructor per line of the source with the values it prints.
\<close>

datatype State6 = State6Stopped | State6Init | State6Selecting | State6Requesting | State6Confirming
  | State6InfoRequesting | State6DAD | State6Discovering | State6Bound | State6Renewing | State6Rebinding

definition AllStates6 :: "State6 list" where
  "AllStates6 = [State6Stopped, State6Init, State6Selecting, State6Requesting, State6Confirming,
     State6InfoRequesting, State6DAD, State6Discovering, State6Bound, State6Renewing, State6Rebinding]"

definition AllDHCPRelayAgentsAndServers :: addr where
  "AllDHCPRelayAgentsAndServers = Addr6 0xFF020000000000000000000000010002"

record DADOutcome =
  dadAddr :: addr
  dadDuplicate :: bool

record Config6 =
  c6DNS :: "addr list"
  c6Search :: "gostring list"
  c6RefreshTime :: Duration

datatype ReconfigureRefusal = ReconfigureRefusalNone | ReconfigureRefusalUnwilling
  | ReconfigureRefusalExchangeInFlight | ReconfigureRefusalNotUnicast | ReconfigureRefusalNoServerID
  | ReconfigureRefusalAmbiguousServerID | ReconfigureRefusalNoClientID | ReconfigureRefusalForeignClientID
  | ReconfigureRefusalNoReconfigureMessage | ReconfigureRefusalBadReconfigureMessage | ReconfigureRefusalNoAuth
  | ReconfigureRefusalUnreadableAuth | ReconfigureRefusalNotRKAP | ReconfigureRefusalNoKey
  | ReconfigureRefusalBadDigest | ReconfigureRefusalReplay | ReconfigureRefusalNoLease
  | ReconfigureRefusalNoConfiguration | ReconfigureRefusalUndefinedMessage

definition AllReconfigureRefusals :: "ReconfigureRefusal list" where
  "AllReconfigureRefusals = [ReconfigureRefusalUnwilling, ReconfigureRefusalExchangeInFlight,
     ReconfigureRefusalNotUnicast, ReconfigureRefusalNoServerID, ReconfigureRefusalAmbiguousServerID,
     ReconfigureRefusalNoClientID, ReconfigureRefusalForeignClientID, ReconfigureRefusalNoReconfigureMessage,
     ReconfigureRefusalBadReconfigureMessage, ReconfigureRefusalNoAuth, ReconfigureRefusalUnreadableAuth,
     ReconfigureRefusalNotRKAP, ReconfigureRefusalNoKey, ReconfigureRefusalBadDigest, ReconfigureRefusalReplay,
     ReconfigureRefusalNoLease, ReconfigureRefusalNoConfiguration, ReconfigureRefusalUndefinedMessage]"

record ReconfigureCounters =
  rcAccepted :: "64 word"
  rcRefused :: "ReconfigureRefusal \<Rightarrow> 64 word"

definition ReconfigureRefusedTotal :: "ReconfigureCounters \<Rightarrow> 64 word" where
  "ReconfigureRefusedTotal c = foldl (\<lambda>n r. n + rcRefused c r) 0 AllReconfigureRefusals"

section \<open>Journal lines\<close>

datatype router_note = RNil | RNoSource | RIgnored nat | RManaged | ROtherSwitch | ROtherNoted State6
  | RNoInformation | RTimerAfter | RFinished | RDiscoveryConfig | RNoPrefix "64 word" | RNoRouter int

datatype slaac1_note = SRemembered AddrV6 | SContinuing nat | SWaiting | SOffersConfig
  | SFormedNothing PrefixInfo SLAACIgnore | SFormed addr PrefixInfo | SDadRunning
  | STrying addr addr byte | SAlsoChecking "addr list" | SDropped "addr list" nat
  | SAllInUse "addr list" | SInvalid addr

datatype slaac2_note = SDeprecated addr | SAutoManaged | SFirstSolicit Duration | SWillForm Duration
  | SNoFallback | SAutoUnmanaged | SDeadlineHeld | SLateValid addr | SNoPrefixForms | SFallback
  | SNotKept PrefixInfo SLAACIgnore | SUnused nat

datatype drop6_note = DNil | DNoExchange byte | DXID byte "32 word" "32 word" | DNoServerID byte
  | DManyServerIDs byte nat | DNoClientID byte | DForeignClientID byte | DMessageIn byte State6
  | DMessageIgnored State6 | DTimerIgnored TimerID State6 | DEventIgnored EventKind State6 | DV4Event EventKind State6
  | DAlready State6 | DActionFailed ActionID gostring int | DNoExchangeTimer | DAlreadyRenewTimer

datatype exch1_note = XReleaseDone | XReleaseExhausted | XWindow nat | XWindowEmpty
  | XRequestPDExhausted | XRequestNext | XRequestRestart | XConfirmStatus v6_error
  | XConfirmNotOnLink | XConfirmSays "16 word" | XConfirmExhausted | XInfoStatus

datatype exch2_note = XInfoSays "16 word" | XRefreshElapsed Duration | XRenewPrecedes
  | XRebindPrecedes | XScopedRebind | XDeclineExhausted | XDeclineDone | XStarting byte Duration
  | XUnbounded byte | XCannotBuild byte v6_error | XNoServerDUID byte
  | XMaxRT "16 word" byte Duration

datatype exch3_note = XMaxRTIgnored "16 word" byte | XMaxRTError v6_error
  | XSendFailures int gostring | XRefused "16 word" | XAdvStatus | XAdvSays "16 word"
  | XAdvIASays "16 word" | XAdvEmpty | XAdvPreference v6_error | XAdvCollected byte nat
  | XAdvFQDN "ia_note list" | XAdvNow

datatype exch4_note = XAdvLate | XSelected byte nat nat | XSoliciting | XRapidMalformed State6
  | XRapidNotAsked State6 | XReplyWhileSoliciting | XReplyWithoutRapid | XRapidTaken | XRapidNothing
  | XResumedExhausted

datatype bound61_note = BReplyStatus | BUnspecFail | BNotOnLinkHeld | BNotOnLink | BResumedNoBinding
  | BNoBinding ia_kind | BNoAddrsAvail | BSolicitingOn | BTryNext | BNoAddressRestart
  | BCarriedAddrs nat | BTempEnded nat | BCarriedPrefixes nat | BPrefixesChanged nat nat

datatype bound62_note = BDADLost | BDADUnknown DADOutcome | BDADReported DADOutcome
  | BDADIncomplete "addr list" Duration | BDeclining nat nat | BDecliningTemp nat
  | BDADForBound DADOutcome bool | BWithdrawn State6 | BNothingToDecline | BNoServerToDecline
  | BNoServerToRelease | BNothingToRelease | BReleaseDelegated | BDeadlineNote "ia_note list"

datatype bound63_note = BRenewing | BRebinding | BNoServerRebinding | BNothingRemembered
  | BContinuing bool | BNoTemporary | BRefreshOwed Duration | BDelayDropped | BExpired State6
  | BExpiryNoLease | BExpiryEarly | BEnded nat | BOmitted Duration | BTempAbsent

datatype bound64_note = BTempRefused "16 word" | BTempGiven nat | BTempIgnored nat | BPDAbsent
  | BPDRefused "16 word" | BPDGiven nat | BPDIgnored nat | BRefreshInfinite
  | BRefreshDefault Duration | BRefreshMinimum Duration Duration | BConfigDNS v6_error
  | BConfigSearch v6_error | BConfigRefresh v6_error

datatype reconf_note = CAuthError byte v6_error | CKeyOtherType byte byte | CKeyNoServer byte | CKeyRecorded byte nat
  | CRefused ReconfigureRefusal | CFirst | CAsksRenew | CAsksRebind | CAsksInfo | CDetourDone
  | CHostnameRefused | CHostnameRecorded gostring State6 gostring | CNameRenew | CNameRestart State6

datatype note6 = JIA ia_note | JRouter router_note | JSlaac1 slaac1_note | JSlaac2 slaac2_note
  | JDrop6 drop6_note | JX1 exch1_note | JX2 exch2_note | JX3 exch3_note | JX4 exch4_note
  | JB1 bound61_note | JB2 bound62_note | JB3 bound63_note | JB4 bound64_note | JReconf reconf_note

section \<open>Events and actions\<close>

datatype Event6 =
    Ev6Start
  | Ev6Stop
  | Ev6Received "MessageV6 option" "byte list" addr
  | Ev6TimerFired TimerID
  | Ev6LinkDown
  | Ev6LinkUp
  | Ev6ConflictDetected
  | Ev6AddressLost
  | Ev6ActionFailed ActionID gostring
  | Ev6Release
  | Ev6ARPReceived
  | Ev6RouterAdvert "RouterAdvert option"
  | Ev6DADResult DADOutcome
  | Ev6SetHostname gostring

fun Kind6 :: "Event6 \<Rightarrow> EventKind" where
  "Kind6 Ev6Start = KStart"
| "Kind6 Ev6Stop = KStop"
| "Kind6 (Ev6Received _ _ _) = KReceived"
| "Kind6 (Ev6TimerFired _) = KTimerFired"
| "Kind6 Ev6LinkDown = KLinkDown"
| "Kind6 Ev6LinkUp = KLinkUp"
| "Kind6 Ev6ConflictDetected = KConflictDetected"
| "Kind6 Ev6AddressLost = KAddressLost"
| "Kind6 (Ev6ActionFailed _ _) = KActionFailed"
| "Kind6 Ev6Release = KRelease"
| "Kind6 Ev6ARPReceived = KARPReceived"
| "Kind6 (Ev6RouterAdvert _) = KRouterAdvert"
| "Kind6 (Ev6DADResult _) = KDADResult"
| "Kind6 (Ev6SetHostname _) = KSetHostname"

text \<open>The kinds of action a DHCPv6 machine emits, each with the fields that kind sets.\<close>

datatype Action6Body =
    Act6Send MessageV6 addr
  | Act6SetTimer TimerID Duration
  | Act6CancelTimer TimerID
  | Act6LeaseAcquired Lease6 addr
  | Act6LeaseChanged Lease6
  | Act6LeaseRenewed Lease6
  | Act6LeaseLost Reason Lease6
  | Act6Failed Reason "16 word" note6
  | Act6Journal note6
  | Act6StartDAD addr
  | Act6SendRouterSolicit
  | Act6RouterObserved RouterObservation
  | Act6Configured Config6

record Action6 =
  ID6 :: ActionID
  Body6 :: Action6Body

end
