(* ===== verification/Proto6_Machine.thy ===== *)
theory Proto6_Machine
  imports Proto6_State
begin

text \<open>
  The DHCPv6 client machine, first part: the record of \<^verbatim>\<open>src/proto/machine6.go\<close>, the messages it
  builds, the exchanges it starts and ends, and how a lease is taken, renewed and lost. A method of
  \<^verbatim>\<open>*Machine6\<close> is a function from \<open>Machine6\<close> to \<open>Machine6\<close>; \<open>out6\<close> is the \<^verbatim>\<open>actions\<close> accumulator
  of the step in progress. The map \<^verbatim>\<open>reconf\<close> is a function from DUIDs, the closure \<^verbatim>\<open>afterDecline\<close>
  one of the two things the source ever stores there.
\<close>

section \<open>State\<close>

record RapidCommit6Counters =
  rk6Accepted :: "64 word"
  rk6Refused :: "64 word"

record Temporary6Counters =
  tp6Granted :: "64 word"
  tp6Refused :: "64 word"
  tp6Absent :: "64 word"
  tp6Conflicted :: "64 word"

record Prefix6Counters =
  pd6Granted :: "64 word"
  pd6Refused :: "64 word"
  pd6Absent :: "64 word"
  pd6Changed :: "64 word"

record advert6 =
  adServer :: "byte list"
  adPref :: byte
  adAddrs :: "AddrV6 list"
  adTemp :: "AddrV6 list"
  adPrefixes :: "Prefix6 list"
  adT1 :: Duration
  adT2 :: Duration
  adSeq :: nat

datatype iaScope = scopeAll | scopeNA | scopePD

record reconfServer =
  rsKey :: "byte list"
  rsReplay :: "64 word"
  rsSeen :: bool

record deferredPIO =
  dfAt :: Instant
  dfPrefix :: prefix
  dfInfo :: PrefixInfo

text \<open>What follows a Decline: discovery again, or the bound lease less the declined temporary addresses.\<close>

datatype after_decline = AfterRestart | AfterKeep

record Machine6 =
  params6 :: Params6
  hostname6 :: gostring
  exchangeName :: gostring
  nameOnWire6 :: gostring
  state6 :: State6
  nextAction6 :: ActionID
  msgType :: byte
  xid6 :: "32 word"
  sched :: Retransmit
  exchangeStart :: Instant
  rt :: Duration
  transmits :: int
  sendFailures6 :: int
  pendingType :: byte
  adverts :: "advert6 list"
  windowDone :: bool
  tried :: "byte list list"
  server6 :: "byte list"
  lease6 :: Lease6
  haveLse6 :: bool
  pending :: Lease6
  havePending :: bool
  pendingRenewal :: bool
  dadWait :: "addr list"
  dadBad :: "addr list"
  carried :: "addr list"
  declining :: "addr list"
  decliningTA :: "addr list"
  releasing :: "AddrV6 list"
  releasingPrefixes :: "Prefix6 list"
  releasingTA :: "AddrV6 list"
  releasePD :: "Prefix6 list"
  releasePDServer :: "byte list"
  afterDecline :: "after_decline option"
  declined :: "addr list"
  resume6 :: "Resume6 option"
  router :: RouterObservation
  routers :: routerTable
  rsCount :: int
  config :: Config6
  refresh6 :: Duration
  reconf :: "byte list \<Rightarrow> reconfServer option"
  reconfCounts :: ReconfigureCounters
  rapidCounts6 :: RapidCommit6Counters
  tempCounts :: Temporary6Counters
  pdCounts :: Prefix6Counters
  resumeRebind :: bool
  rebindOwed :: bool
  pdSent :: bool
  naSent :: bool
  scope :: iaScope
  nextScope :: iaScope
  holdoff :: Instant
  omitRT :: Duration
  resumeAt :: Instant
  hintOffLink :: addr
  reconfDetour :: bool
  reconfServerID :: "byte list"
  refreshOwed :: bool
  slaac :: slaacTable
  slaacPhases :: "(addr \<times> bool) list"
  autoDecided :: bool
  dhcpCommitted :: bool
  deferredPrefixes :: "deferredPIO list"
  wantConfig :: bool
  askedConfig :: bool
  out6 :: "Action6 list"

section \<open>Actions\<close>

definition stamp6 :: "Action6Body \<Rightarrow> Machine6 \<Rightarrow> Machine6" where
  "stamp6 b m = m\<lparr>nextAction6 := nextAction6 m + 1, out6 := out6 m @ [\<lparr>ID6 = nextAction6 m, Body6 = b\<rparr>]\<rparr>"

definition sendV6 :: "MessageV6 \<Rightarrow> addr \<Rightarrow> Machine6 \<Rightarrow> Machine6" where
  "sendV6 msg dst = stamp6 (Act6Send msg dst)"

definition set6 :: "TimerID \<Rightarrow> Duration \<Rightarrow> Machine6 \<Rightarrow> Machine6" where
  "set6 t d = stamp6 (Act6SetTimer t d)"

definition cancel6 :: "TimerID \<Rightarrow> Machine6 \<Rightarrow> Machine6" where
  "cancel6 t = stamp6 (Act6CancelTimer t)"

definition cancelAll6 :: "Machine6 \<Rightarrow> Machine6" where
  "cancelAll6 m = fold cancel6 AllTimerIDs m"

definition journal6 :: "note6 \<Rightarrow> Machine6 \<Rightarrow> Machine6" where
  "journal6 n = stamp6 (Act6Journal n)"

definition journal_all :: "ia_note list \<Rightarrow> Machine6 \<Rightarrow> Machine6" where
  "journal_all ns m = fold (\<lambda>n. journal6 (JIA n)) ns m"

definition failed6 :: "Reason \<Rightarrow> note6 \<Rightarrow> Machine6 \<Rightarrow> Machine6" where
  "failed6 r n = stamp6 (Act6Failed r StatusSuccess n)"

definition refused6 :: "16 word \<Rightarrow> Machine6 \<Rightarrow> Machine6" where
  "refused6 st = stamp6 (Act6Failed ReasonNak st (JX3 (XRefused st)))"

section \<open>Values of the machine\<close>

definition durationToSeconds :: "Duration \<Rightarrow> 32 word" where
  "durationToSeconds d =
     (if IsInfinite d then InfiniteSeconds
      else if d \<le> 0 then 0
      else if Seconds d > uint (InfiniteSeconds - 1) then InfiniteSeconds - 1
      else word_of_int (Seconds d))"

definition randomDelay :: "Duration \<Rightarrow> rnd64 \<Rightarrow> Duration" where
  "randomDelay mx rnd = (if mx \<le> 0 then 0 else i64 (uint rnd mod u64 (i64 (mx + 1))))"

definition laterOf :: "Instant \<Rightarrow> Instant \<Rightarrow> Instant" where
  "laterOf at hold = (if After hold at then hold else at)"

fun refusalCode :: "16 word list \<Rightarrow> 16 word" where
  "refusalCode [] = StatusSuccess"
| "refusalCode (c # cs) = (if c = StatusSuccess \<or> c = StatusMalformed then refusalCode cs else c)"

definition awaitingAddress :: "Machine6 \<Rightarrow> bool" where
  "awaitingAddress m =
     (if \<not> formsAddresses (P6Mode (params6 m)) \<or> dhcpCommitted m then False
      else \<not> haveLse6 m \<and> stEntries (slaac m) = [])"

definition solicitHint :: "Machine6 \<Rightarrow> addr" where
  "solicitHint m =
     (let h = hintAddr (params6 m) in
      if IsValid h \<and> (h \<in> set (declined m) \<or> h = hintOffLink m) then NoAddr else h)"

definition rejectRapidHint :: "Machine6 \<Rightarrow> Machine6" where
  "rejectRapidHint m = (let h = solicitHint m in if IsValid h then m\<lparr>hintOffLink := h\<rparr> else m)"

definition alreadyTried :: "Machine6 \<Rightarrow> byte list \<Rightarrow> bool" where
  "alreadyTried m sid \<longleftrightarrow> sid \<in> set (tried m)"

definition rememberDeclined :: "addr list \<Rightarrow> Machine6 \<Rightarrow> Machine6" where
  "rememberDeclined as m = m\<lparr>declined := fold (\<lambda>a ds. if a \<in> set ds then ds else ds @ [a]) as (declined m)\<rparr>"

definition unchecked6 :: "Machine6 \<Rightarrow> Lease6 \<Rightarrow> addr list" where
  "unchecked6 m l = filter (\<lambda>a. \<not> list_ex (\<lambda>h. a6Addr h = a) (l6Addrs (lease6 m))) (map a6Addr (l6Addrs l))"

definition freshTemp :: "Machine6 \<Rightarrow> Lease6 \<Rightarrow> addr list" where
  "freshTemp m l = filter (\<lambda>a. \<not> list_ex (\<lambda>h. a6Addr h = a) (l6TempAddrs (lease6 m))) (map a6Addr (l6TempAddrs l))"

definition SLAACAddrs :: "Machine6 \<Rightarrow> addr list" where
  "SLAACAddrs m = map seAddr (stEntries (slaac m))"

definition dropPending :: "Machine6 \<Rightarrow> Machine6" where
  "dropPending m = m\<lparr>pending := zero_lease6, havePending := False, pendingRenewal := False,
     dadWait := [], dadBad := [], carried := []\<rparr>"

section \<open>What the client holds of delegated prefixes\<close>

definition pdOwed :: "Machine6 \<Rightarrow> bool \<Rightarrow> bool" where
  "pdOwed m renewal =
     (if \<not> renewal \<and> scope m = scopeAll then PrefixHint (params6 m) > 0 \<or> l6Prefixes (pending m) \<noteq> [] else pdSent m)"

definition heldPrefixes :: "Machine6 \<Rightarrow> Prefix6 list" where
  "heldPrefixes m =
     (if haveLse6 m then l6Prefixes (lease6 m)
      else if resumeRebind m \<and> resume6 m \<noteq> None then usablePrefixes (resume6 m)
      else [])"

definition heldStart :: "Machine6 \<Rightarrow> Instant" where
  "heldStart m = (if haveLse6 m then l6Start (lease6 m) else exchangeStart m)"

definition heldIAs :: "Machine6 \<Rightarrow> Lease6" where
  "heldIAs m =
     (let l = zero_lease6\<lparr>l6IAID := P6IAID (params6 m), l6Prefixes := heldPrefixes m\<rparr> in
      if haveLse6 m then l\<lparr>l6Addrs := l6Addrs (lease6 m), l6TempAddrs := l6TempAddrs (lease6 m)\<rparr>
      else case (resumeRebind m, resume6 m) of
        (True, Some r) \<Rightarrow> l\<lparr>l6Addrs := r6Addrs r\<rparr>
      | _ \<Rightarrow> l)"

text \<open>The server, T1, T2 and origin of the prefixes held.\<close>

definition heldPD :: "Machine6 \<Rightarrow> byte list \<times> Duration \<times> Duration \<times> Instant" where
  "heldPD m =
     (if haveLse6 m then (prefixServer (lease6 m), l6pdT1 (lease6 m), l6pdT2 (lease6 m), pdOrigin (lease6 m))
      else case (resumeRebind m, resume6 m) of
        (True, Some r) \<Rightarrow>
          (if length (r6PrefixServerDUID r) = 0 then r6ServerDUID r else r6PrefixServerDUID r, r6T1 r, r6T2 r, resumeAt m)
      | _ \<Rightarrow> ([], 0, 0, 0))"

definition keepHeldPD :: "Machine6 \<Rightarrow> Lease6 \<Rightarrow> Lease6" where
  "keepHeldPD m l =
     (case heldPD m of (srv, t1, t2, start) \<Rightarrow>
        l\<lparr>l6PrefixServerDUID := srv, l6pdT1 := t1, l6pdT2 := t2, l6pdStart := start, l6pdTimed := True\<rparr>)"

definition renewalGroups :: "Machine6 \<Rightarrow> deadlines6 \<times> deadlines6" where
  "renewalGroups m =
     (case groupDeadlines (lease6 m) of (na, pd) \<Rightarrow>
        (na, pd\<lparr>d6Renew := laterOf (d6Renew pd) (holdoff m), d6Rebind := laterOf (d6Rebind pd) (holdoff m)\<rparr>))"

section \<open>Building a message\<close>

definition addr_option :: "bool \<Rightarrow> AddrV6 \<Rightarrow> v6_error + OptionV6" where
  "addr_option zero a =
     bind_res (EncodeIAAddr \<lparr>iaAddr = a6Addr a,
         iaPreferred = (if zero then 0 else durationToSeconds (a6Preferred a)),
         iaValid = (if zero then 0 else durationToSeconds (a6Valid a)), iaOptions = []\<rparr>)
       (\<lambda>v. Inr \<lparr>Code6 = OptV6IAAddr, Data6 = v\<rparr>)"

text \<open>The options of an association, with the addresses that cannot go on the wire left out.\<close>

fun addr_options :: "bool \<Rightarrow> AddrV6 list \<Rightarrow> v6_error + OptionV6 list" where
  "addr_options zero [] = Inr []"
| "addr_options zero (a # as) =
     (if \<not> usable6 (a6Addr a) then addr_options zero as
      else bind_res (addr_option zero a) (\<lambda>v. bind_res (addr_options zero as) (\<lambda>vs. Inr (v # vs))))"

definition bare_addr :: "addr \<Rightarrow> AddrV6" where
  "bare_addr a = \<lparr>a6Addr = a, a6Preferred = 0, a6Valid = 0, a6PrefixLen = 0\<rparr>"

text \<open>Whether the message carries an IA_NA, its addresses, and whether their lifetimes are zeroed.\<close>

definition na_content :: "byte \<Rightarrow> Machine6 \<Rightarrow> (AddrV6 list \<times> bool) option" where
  "na_content t m =
     (if t = MsgSolicit then Some (if IsValid (solicitHint m) then [bare_addr (solicitHint m)] else [], True)
      else if t = MsgRequest6 then (if scope m = scopePD then None else Some (l6Addrs (pending m), False))
      else if t = MsgConfirm then Some (case resume6 m of None \<Rightarrow> [] | Some r \<Rightarrow> r6Addrs r, True)
      else if t = MsgRenew \<or> t = MsgRebind then
        (if scope m = scopePD then None
         else case (t = MsgRebind \<and> resumeRebind m, resume6 m) of
           (True, Some r) \<Rightarrow> Some (r6Addrs r, True)
         | _ \<Rightarrow> Some (l6Addrs (lease6 m), False))
      else if t = MsgRelease6 then (if releasing m = [] then None else Some (releasing m, False))
      else if t = MsgDecline6 then (if declining m = [] then None else Some (map bare_addr (declining m), True))
      else None)"

definition buildIA :: "byte \<Rightarrow> Machine6 \<Rightarrow> v6_error + OptionV6 list" where
  "buildIA t m =
     (case na_content t m of
        None \<Rightarrow> Inr []
      | Some (as, zero) \<Rightarrow>
          bind_res (addr_options zero as) (\<lambda>os.
          bind_res (EncodeIANA \<lparr>naIAID = P6IAID (params6 m), naT1 = 0, naT2 = 0, naOptions = os\<rparr>) (\<lambda>v.
          Inr [\<lparr>Code6 = OptV6IANA, Data6 = v\<rparr>])))"

definition buildTA :: "AddrV6 list \<Rightarrow> Machine6 \<Rightarrow> v6_error + OptionV6" where
  "buildTA as m =
     bind_res (addr_options False as) (\<lambda>os.
     bind_res (EncodeIATA \<lparr>taIAID = P6IAID (params6 m), taOptions = os\<rparr>) (\<lambda>v.
     Inr \<lparr>Code6 = OptV6IATA, Data6 = v\<rparr>))"

definition prefix_option :: "prefix \<Rightarrow> 32 word \<Rightarrow> 32 word \<Rightarrow> v6_error + OptionV6" where
  "prefix_option p pref valid =
     bind_res (EncodeIAPrefix \<lparr>ipPrefix = p, ipPreferred = pref, ipValid = valid, ipOptions = []\<rparr>)
       (\<lambda>v. Inr \<lparr>Code6 = OptV6IAPrefix, Data6 = v\<rparr>)"

fun prefix_options :: "bool \<Rightarrow> Prefix6 list \<Rightarrow> v6_error + OptionV6 list" where
  "prefix_options zero [] = Inr []"
| "prefix_options zero (p # ps) =
     bind_res (prefix_option (p6Prefix p) (if zero then 0 else durationToSeconds (p6Preferred p))
         (if zero then 0 else durationToSeconds (p6Valid p))) (\<lambda>v.
     bind_res (prefix_options zero ps) (\<lambda>vs. Inr (v # vs)))"

definition buildPD :: "Prefix6 list \<Rightarrow> int \<Rightarrow> bool \<Rightarrow> Machine6 \<Rightarrow> v6_error + OptionV6" where
  "buildPD ps hint zero m =
     bind_res (prefix_options zero ps) (\<lambda>os.
     bind_res (if ps = [] \<and> hint > 0
       then bind_res (prefix_option (PrefixFrom (Addr6 0) hint) 0 0) (\<lambda>v. Inr (os @ [v])) else Inr os) (\<lambda>os.
     bind_res (EncodeIAPD \<lparr>pdIAID = P6IAID (params6 m), pdT1 = 0, pdT2 = 0, pdOptions = os\<rparr>) (\<lambda>v.
     Inr \<lparr>Code6 = OptV6IAPD, Data6 = v\<rparr>)))"

text \<open>The prefixes, the hint and whether lifetimes are zeroed, for the messages that may carry an IA_PD.\<close>

definition pd_content :: "byte \<Rightarrow> Machine6 \<Rightarrow> (Prefix6 list \<times> int \<times> bool) option" where
  "pd_content t m =
     (if t = MsgSolicit then Some ([], PrefixHint (params6 m), False)
      else if t = MsgRequest6 then
        (if scope m = scopeNA then None else Some (l6Prefixes (pending m), PrefixHint (params6 m), False))
      else if t = MsgRenew then (if scope m = scopeNA then None else Some (l6Prefixes (lease6 m), 0, False))
      else if t = MsgRebind then
        (if resumeRebind m \<and> resume6 m \<noteq> None then Some (usablePrefixes (resume6 m), 0, True)
         else Some (l6Prefixes (lease6 m), 0, False))
      else if t = MsgRelease6 then Some (releasingPrefixes m, 0, False)
      else None)"

definition buildPDFor :: "byte \<Rightarrow> Machine6 \<Rightarrow> v6_error + OptionV6 list" where
  "buildPDFor t m =
     (case pd_content t m of
        None \<Rightarrow> Inr []
      | Some (ps, hint, zero) \<Rightarrow>
          if ps = [] \<and> hint \<le> 0 then Inr [] else bind_res (buildPD ps hint zero m) (\<lambda>v. Inr [v]))"

definition ta_content :: "byte \<Rightarrow> Machine6 \<Rightarrow> AddrV6 list option" where
  "ta_content t m =
     (if t = MsgSolicit \<and> Temporary (params6 m) then Some []
      else if t = MsgRequest6 \<and> Temporary (params6 m) \<and> scope m \<noteq> scopePD then Some (l6TempAddrs (pending m))
      else if t = MsgDecline6 \<and> decliningTA m \<noteq> [] then Some (map bare_addr (decliningTA m))
      else if t = MsgRelease6 \<and> releasingTA m \<noteq> [] then Some (releasingTA m)
      else None)"

definition buildIAs :: "byte \<Rightarrow> Machine6 \<Rightarrow> v6_error + OptionV6 list" where
  "buildIAs t m =
     bind_res (buildIA t m) (\<lambda>na.
     bind_res (buildPDFor t m) (\<lambda>pd.
     case ta_content t m of
       None \<Rightarrow> Inr (na @ pd)
     | Some as \<Rightarrow> bind_res (buildTA as m) (\<lambda>v. Inr (if t = MsgRelease6 then na @ [v] @ pd else na @ pd @ [v]))))"

text \<open>
  The name in option 39, or none: a message that may carry it records what it carried, which is the
  one effect \<^verbatim>\<open>build\<close> has on the machine.
\<close>

definition carries_name :: "byte \<Rightarrow> bool" where
  "carries_name t \<longleftrightarrow> t = MsgSolicit \<or> t = MsgRequest6 \<or> t = MsgRenew \<or> t = MsgRebind"

definition fqdnOption :: "byte \<Rightarrow> Machine6 \<Rightarrow> (v6_error + byte list option) \<times> Machine6" where
  "fqdnOption t m =
     (if \<not> carries_name t then (Inr None, m)
      else
        (if exchangeName m = [] then Inr None
         else bind_res (EncodeClientFQDN ClientFQDNFlagS (exchangeName m)) (\<lambda>v. Inr (Some v)),
         m\<lparr>nameOnWire6 := exchangeName m\<rparr>))"

definition names_server :: "byte \<Rightarrow> bool" where
  "names_server t \<longleftrightarrow> t = MsgRequest6 \<or> t = MsgRenew \<or> t = MsgRelease6 \<or> t = MsgDecline6"

text \<open>The options of a message before its associations; \<open>None\<close> where a server must be named and none is known.\<close>

definition build_head :: "byte \<Rightarrow> Machine6 \<Rightarrow> OptionV6 list option" where
  "build_head t m =
     (if names_server t \<and> length (server6 m) = 0 then None
      else Some
        ([\<lparr>Code6 = OptV6ClientID, Data6 = P6DUID (params6 m)\<rparr>]
         @ (if names_server t then [\<lparr>Code6 = OptV6ServerID, Data6 = server6 m\<rparr>]
            else if t = MsgInformationRequest \<and> length (reconfServerID m) > 0
            then [\<lparr>Code6 = OptV6ServerID, Data6 = reconfServerID m\<rparr>] else [])
         @ (if AcceptReconfigure (params6 m) \<and> (t = MsgSolicit \<or> t = MsgRequest6 \<or> t = MsgInformationRequest)
            then [\<lparr>Code6 = OptV6ReconfAccept, Data6 = []\<rparr>] else [])
         @ (if P6RapidCommit (params6 m) \<and> t = MsgSolicit then [RapidCommitOption] else [])))"

definition build_tail :: "Instant \<Rightarrow> byte \<Rightarrow> byte list option \<Rightarrow> Machine6 \<Rightarrow> OptionV6 list" where
  "build_tail now t fqdn m =
     (let codes = (case fqdn of None \<Rightarrow> oro (params6 m) t | Some _ \<Rightarrow> add_code OptV6ClientFQDN (oro (params6 m) t));
          el = ElapsedHundredths (word_of_int (quot64 (nonNegative (Sub now (exchangeStart m))) 10000000))
      in (case fqdn of None \<Rightarrow> [] | Some v \<Rightarrow> [\<lparr>Code6 = OptV6ClientFQDN, Data6 = v\<rparr>])
         @ (if codes \<noteq> [] then [\<lparr>Code6 = OptV6ORO, Data6 = concat (map be16 codes)\<rparr>] else [])
         @ [\<lparr>Code6 = OptV6ElapsedTime, Data6 = be16 el\<rparr>])"

text \<open>\<^verbatim>\<open>Inl\<close> is the line of the failure.\<close>

definition build :: "Instant \<Rightarrow> byte \<Rightarrow> Machine6 \<Rightarrow> (exch2_note + MessageV6) \<times> Machine6" where
  "build now t m =
     (case build_head t m of
        None \<Rightarrow> (Inl (XNoServerDUID t), m)
      | Some hs \<Rightarrow>
          (case buildIAs t m of
             Inl e \<Rightarrow> (Inl (XCannotBuild t e), m)
           | Inr ias \<Rightarrow>
               (case fqdnOption t m of
                  (Inl e, m) \<Rightarrow> (Inl (XCannotBuild t e), m)
                | (Inr fqdn, m) \<Rightarrow>
                    (Inr \<lparr>Type6 = t, XID6 = xid6 m, Options6 = hs @ ias @ build_tail now t fqdn m\<rparr>, m))))"

end
