(* ===== verification/Proto6_Exchange.thy ===== *)
theory Proto6_Exchange
  imports Proto6_Machine
begin

text \<open>
  The exchanges of the DHCPv6 machine and the life of its lease: sending and retransmitting, binding,
  renewing, rebinding and losing a lease, the deadlines armed for it, the addresses formed from
  advertised prefixes, and the beginning and the end of an acquisition.
\<close>

section \<open>Exchanges\<close>

definition transmit :: "Instant \<Rightarrow> Machine6 \<Rightarrow> Machine6" where
  "transmit now m =
     (case build now (msgType m) m of
        (Inl why, m) \<Rightarrow> failed6 ReasonTransport (JX2 why) m
      | (Inr msg, m) \<Rightarrow>
          let m = m\<lparr>transmits := transmits m + 1, pdSent := (pdSent m \<or> Count6 (Options6 msg) OptV6IAPD > 0),
                naSent := (naSent m \<or> Count6 (Options6 msg) OptV6IANA > 0)\<rparr>
          in set6 Timer6Retransmit (rt m) (sendV6 msg AllDHCPRelayAgentsAndServers m))"

definition schedule :: "byte \<Rightarrow> Machine6 \<Rightarrow> Retransmit" where
  "schedule t m =
     (let p = params6 m in
      if t = MsgSolicit then SolicitRT p
      else if t = MsgRequest6 then RequestRT p
      else if t = MsgConfirm then ConfirmRT p
      else if t = MsgRenew then RenewRT p
      else if t = MsgRebind then (if resumeRebind m then ConfirmRT p else RebindRT p)
      else if t = MsgInformationRequest then InfoRequestRT p
      else if t = MsgRelease6 then ReleaseRT p
      else if t = MsgDecline6 then DeclineRT p
      else SolicitRT p)"

text \<open>The state an exchange runs in, and what a Solicit clears.\<close>

definition exchange_state :: "byte \<Rightarrow> Machine6 \<Rightarrow> Machine6" where
  "exchange_state t m =
     (if t = MsgSolicit then
        m\<lparr>rt := (if rt m \<le> IRT (sched m) then i64 (IRT (sched m) + 1) else rt m),
          state6 := State6Selecting, windowDone := False, adverts := []\<rparr>
      else if t = MsgRequest6 then m\<lparr>state6 := State6Requesting\<rparr>
      else if t = MsgConfirm then m\<lparr>state6 := State6Confirming\<rparr>
      else if t = MsgInformationRequest then m\<lparr>state6 := State6InfoRequesting\<rparr>
      else if t = MsgRenew then m\<lparr>state6 := State6Renewing\<rparr>
      else if t = MsgRebind then m\<lparr>state6 := State6Rebinding\<rparr>
      else m)"

definition startExchangeAnswering :: "Instant \<Rightarrow> rnd64 \<Rightarrow> byte \<Rightarrow> byte list \<Rightarrow> Machine6 \<Rightarrow> Machine6" where
  "startExchangeAnswering now rnd t sid m =
     (let m = m\<lparr>reconfServerID := sid, msgType := t, exchangeName := hostname6 m,
            xid6 := ucast rnd AND 0x00FFFFFF, exchangeStart := now, transmits := 0,
            pdSent := False, naSent := False, scope := nextScope m, nextScope := scopeAll\<rparr>;
          m = m\<lparr>sched := schedule t m\<rparr>;
          m = m\<lparr>rt := First_rt (sched m) rnd\<rparr>
      in transmit now (exchange_state t m))"

definition startExchange :: "Instant \<Rightarrow> rnd64 \<Rightarrow> byte \<Rightarrow> Machine6 \<Rightarrow> Machine6" where
  "startExchange now rnd t = startExchangeAnswering now rnd t []"

definition startExchangeFor :: "Instant \<Rightarrow> rnd64 \<Rightarrow> byte \<Rightarrow> iaScope \<Rightarrow> Machine6 \<Rightarrow> Machine6" where
  "startExchangeFor now rnd t sc m = startExchangeAnswering now rnd t [] (m\<lparr>nextScope := sc\<rparr>)"

definition retransmit :: "Instant \<Rightarrow> rnd64 \<Rightarrow> (Machine6 \<Rightarrow> Machine6) option \<Rightarrow> Machine6 \<Rightarrow> Machine6" where
  "retransmit now rnd exhausted m =
     (case (Exhausted_rt (sched m) (transmits m) (Sub now (exchangeStart m)), exhausted) of
        (True, Some f) \<Rightarrow> f m
      | (ex, _) \<Rightarrow>
          let m = (if ex then journal6 (JX2 (XUnbounded (msgType m))) m else m);
              m = m\<lparr>rt := Next_rt (sched m) (rt m) rnd\<rparr>
          in transmit now m)"

definition endExchange :: "Machine6 \<Rightarrow> Machine6" where
  "endExchange m = cancel6 Timer6Retransmit (m\<lparr>msgType := 0, declining := [], decliningTA := [], afterDecline := None\<rparr>)"

section \<open>Deadlines of the lease\<close>

definition armDeadline6 :: "Instant \<Rightarrow> TimerID \<Rightarrow> Instant \<Rightarrow> bool \<Rightarrow> Machine6 \<Rightarrow> Machine6" where
  "armDeadline6 now t ts has m =
     (if \<not> has then cancel6 t m else let d = Sub ts now in set6 t (if d < 0 then 0 else d) m)"

text \<open>The instant \<^verbatim>\<open>armExpiry\<close> arms for: the earlier of the end of the lease and the next end in it.\<close>

definition expiry_at :: "Lease6 \<Rightarrow> Instant \<times> bool" where
  "expiry_at l =
     (let d = Deadlines6 l in
      case nextEnd l of
        Some e \<Rightarrow> if \<not> d6HasExpire d \<or> e < d6Expire d then (e, True) else (d6Expire d, d6HasExpire d)
      | None \<Rightarrow> (d6Expire d, d6HasExpire d))"

definition armExpiry :: "Instant \<Rightarrow> Machine6 \<Rightarrow> Machine6" where
  "armExpiry now m = (case expiry_at (lease6 m) of (at, has) \<Rightarrow> armDeadline6 now Timer6Expire at has m)"

definition renewal_deadlines :: "Machine6 \<Rightarrow> deadlines6" where
  "renewal_deadlines m =
     (let d = Deadlines6 (lease6 m) in
      if l6pdTimed (lease6 m) then
        (case renewalGroups m of (na, pd) \<Rightarrow>
           let d = merge_deadlines na pd d in
           if d6HasRebind d \<and> \<not> After (d6Rebind d) (d6Renew d) then d\<lparr>d6HasRenew := False\<rparr> else d)
      else d)"

definition armRenewal :: "Instant \<Rightarrow> Machine6 \<Rightarrow> Machine6" where
  "armRenewal now m =
     (let d = renewal_deadlines m in
      armDeadline6 now Timer6Rebind (d6Rebind d) (d6HasRebind d)
        (armDeadline6 now Timer6Renew (d6Renew d) (d6HasRenew d) m))"

definition armOwedRefresh :: "rnd64 \<Rightarrow> Machine6 \<Rightarrow> Machine6" where
  "armOwedRefresh rnd m =
     (if refreshOwed m then
        let d = randomDelay (InfMaxDelay (params6 m)) rnd in
        set6 Timer6Delay d (journal6 (JB3 (BRefreshOwed d)) m\<lparr>reconfDetour := True, pendingType := MsgInformationRequest\<rparr>)
      else m)"

definition loseLease :: "Reason \<Rightarrow> Machine6 \<Rightarrow> Machine6" where
  "loseLease r m =
     (if \<not> haveLse6 m then m
      else stamp6 (Act6LeaseLost r (lease6 m)) (m\<lparr>haveLse6 := False, lease6 := zero_lease6\<rparr>))"

text \<open>True where the expiry timer left a lease behind.\<close>

definition dropEnded :: "Instant \<Rightarrow> Machine6 \<Rightarrow> Machine6 \<times> bool" where
  "dropEnded now m =
     (let d = Deadlines6 (lease6 m) in
      if l6SLAAC (lease6 m) \<or> d6HasExpire d \<and> \<not> now < d6Expire d then (m, False)
      else case withoutEnded now (lease6 m) of (l, n) \<Rightarrow>
        if n = 0 then (armExpiry now (journal6 (JB3 BExpiryEarly) m), True)
        else
          let m = (if length (l6Prefixes l) < length (l6Prefixes (lease6 m))
                   then m\<lparr>pdCounts := (pdCounts m)\<lparr>pd6Changed := pd6Changed (pdCounts m) + 1\<rparr>\<rparr> else m);
              l = canonPD l;
              m = armExpiry now ((journal6 (JB3 (BEnded n)) m)\<lparr>lease6 := l\<rparr>)
          in (stamp6 (Act6LeaseChanged l) m, True))"

section \<open>Renewing and rebinding\<close>

definition abandonRefreshDelay :: "Machine6 \<Rightarrow> Machine6" where
  "abandonRefreshDelay m =
     (if \<not> refreshOwed m \<or> state6 m \<noteq> State6Bound then m
      else journal6 (JB3 BDelayDropped) (cancel6 Timer6Delay (m\<lparr>reconfDetour := False\<rparr>)))"

definition enterRebinding6 :: "Instant \<Rightarrow> rnd64 \<Rightarrow> Machine6 \<Rightarrow> Machine6" where
  "enterRebinding6 now rnd m =
     startExchange now rnd MsgRebind (journal6 (JB3 BRebinding) ((abandonRefreshDelay m)\<lparr>server6 := []\<rparr>))"

text \<open>The associations a Renew is for and the server it goes to, where they have two servers.\<close>

definition renew_scope :: "Machine6 \<Rightarrow> iaScope \<times> byte list" where
  "renew_scope m =
     (if split6 (lease6 m) then
        (case renewalGroups m of (na, pd) \<Rightarrow>
           if d6HasRenew pd \<and> (\<not> d6HasRenew na \<or> d6Renew pd < d6Renew na)
           then (scopePD, l6PrefixServerDUID (lease6 m)) else (scopeNA, l6ServerDUID (lease6 m)))
      else (scopeAll, l6ServerDUID (lease6 m)))"

definition enterRenewing6 :: "Instant \<Rightarrow> rnd64 \<Rightarrow> Machine6 \<Rightarrow> Machine6" where
  "enterRenewing6 now rnd m =
     (let m = abandonRefreshDelay m in
      if length (l6ServerDUID (lease6 m)) = 0 then enterRebinding6 now rnd (journal6 (JB3 BNoServerRebinding) m)
      else case renew_scope m of (sc, srv) \<Rightarrow>
        startExchangeFor now rnd MsgRenew sc (journal6 (JB3 BRenewing) (m\<lparr>server6 := srv\<rparr>)))"

definition announceHostname6 :: "Instant \<Rightarrow> rnd64 \<Rightarrow> Machine6 \<Rightarrow> Machine6 \<times> bool" where
  "announceHostname6 now rnd m =
     (if hostname6 m = [] \<or> hostname6 m = nameOnWire6 m then (m, False)
      else case state6 m of
        State6Bound \<Rightarrow>
          if \<not> haveLse6 m \<or> l6SLAAC (lease6 m) then (m, False)
          else let m = enterRenewing6 now rnd (journal6 (JReconf CNameRenew) m) in (m, nameOnWire6 m = hostname6 m)
      | State6Renewing \<Rightarrow>
          let m = startExchange now rnd MsgRenew (journal6 (JReconf (CNameRestart State6Renewing)) m)
          in (m, nameOnWire6 m = hostname6 m)
      | State6Rebinding \<Rightarrow>
          let m = startExchange now rnd MsgRebind (journal6 (JReconf (CNameRestart State6Rebinding)) m)
          in (m, nameOnWire6 m = hostname6 m)
      | _ \<Rightarrow> (m, False))"

definition withReconfigure :: "Machine6 \<Rightarrow> Lease6 \<Rightarrow> Lease6" where
  "withReconfigure m l =
     (case reconf m (l6ServerDUID l) of
        None \<Rightarrow> l
      | Some s \<Rightarrow> l\<lparr>l6ReconfigureKey := rsKey s, l6ReconfigureReplay := rsReplay s, l6ReconfigureReplaySeen := rsSeen s\<rparr>)"

text \<open>The report of a lease taken: acquired, or renewed and changed where it differs from the one before.\<close>

definition report_lease :: "bool \<Rightarrow> Lease6 \<Rightarrow> Lease6 \<Rightarrow> Machine6 \<Rightarrow> Machine6" where
  "report_lease had prev l m =
     (if \<not> had then stamp6 (Act6LeaseAcquired l (solicitHint m)) m
      else
        let m = stamp6 (Act6LeaseRenewed l) m in
        if Equal6 prev l then m else stamp6 (Act6LeaseChanged l) m)"

definition enterBound6 :: "Instant \<Rightarrow> rnd64 \<Rightarrow> Lease6 \<Rightarrow> Machine6 \<Rightarrow> Machine6" where
  "enterBound6 now rnd l m =
     (let m = (cancel6 Timer6Retransmit (m\<lparr>msgType := 0\<rparr>))\<lparr>sendFailures6 := 0\<rparr>;
          had = haveLse6 m; prev = lease6 m;
          l = withReconfigure m l;
          m = m\<lparr>lease6 := l, haveLse6 := True, state6 := State6Bound, resume6 := None\<rparr>;
          note = d6Note (Deadlines6 l);
          m = (if note \<noteq> [] then journal6 (JB2 (BDeadlineNote note)) m else m);
          m = report_lease had prev l m;
          m = armOwedRefresh rnd (armExpiry now (armRenewal now m))
      in fst (announceHostname6 now rnd m))"

definition startDAD :: "addr list \<Rightarrow> Machine6 \<Rightarrow> Machine6" where
  "startDAD as m =
     set6 Timer6DAD (dadTimeout (params6 m))
       (fold (\<lambda>a. stamp6 (Act6StartDAD a)) as (m\<lparr>dadWait := as, dadBad := [], state6 := State6DAD\<rparr>))"

section \<open>Addresses formed from advertised prefixes\<close>

definition solicitRouter :: "Machine6 \<Rightarrow> Machine6" where
  "solicitRouter m =
     (if rsCount m \<ge> routerSolicitations (params6 m) then m
      else
        let m = stamp6 Act6SendRouterSolicit (m\<lparr>rsCount := rsCount m + 1\<rparr>) in
        if rsCount m < routerSolicitations (params6 m) then set6 Timer6RouterSolicit (routerSolicitInterval (params6 m)) m
        else if awaitingAddress m then set6 Timer6RouterSolicit MaxRtrSolicitationDelay m
        else cancel6 Timer6RouterSolicit m)"

definition startRouterDiscovery :: "Machine6 \<Rightarrow> Machine6" where
  "startRouterDiscovery m = (if roSeen (router m) \<and> \<not> awaitingAddress m then m else solicitRouter m)"

definition maybeInfoRequest :: "Instant \<Rightarrow> rnd64 \<Rightarrow> Machine6 \<Rightarrow> Machine6" where
  "maybeInfoRequest now rnd m =
     (if \<not> wantConfig m \<or> askedConfig m \<or> msgType m \<noteq> 0 then m
      else if state6 m \<noteq> State6Bound then m
      else startExchange now rnd MsgInformationRequest (journal6 (JSlaac1 SOffersConfig) (m\<lparr>askedConfig := True\<rparr>)))"

definition armSLAAC :: "Instant \<Rightarrow> Machine6 \<Rightarrow> Machine6" where
  "armSLAAC now m =
     (case next_change now (slaac m) of
        None \<Rightarrow> cancel6 Timer6SLAAC m
      | Some ts \<Rightarrow> let d = Sub ts now in set6 Timer6SLAAC (if d < 0 then 0 else d) m)"

definition enterBoundSLAAC :: "Instant \<Rightarrow> rnd64 \<Rightarrow> Machine6 \<Rightarrow> Machine6" where
  "enterBoundSLAAC now rnd m =
     (if stEntries (slaac m) = [] then m
      else
        let l = slaac_lease now (P6IAID (params6 m)) (slaac m);
            phs = phases now (slaac m);
            had = haveLse6 m; was = slaacPhases m;
            m = m\<lparr>msgType := 0, sendFailures6 := 0, lease6 := l, haveLse6 := True, state6 := State6Bound,
                  resume6 := None, dhcpCommitted := False\<rparr>;
            m = cancel6 Timer6AutoFallback (cancel6 Timer6Expire (cancel6 Timer6Rebind
                  (cancel6 Timer6Renew (cancel6 Timer6Retransmit m))));
            m = armSLAAC now m;
            m = (if \<not> had then stamp6 (Act6LeaseAcquired l NoAddr) m
                 else let m = stamp6 (Act6LeaseRenewed l) m in
                   if phasesDiffer was phs then stamp6 (Act6LeaseChanged l) m else m)
        in maybeInfoRequest now rnd (m\<lparr>slaacPhases := phs\<rparr>))"

definition start_slaac_dad :: "Instant \<Rightarrow> addr list \<Rightarrow> Machine6 \<Rightarrow> Machine6" where
  "start_slaac_dad now as m =
     startDAD as (m\<lparr>pending := slaac_lease now (P6IAID (params6 m)) (slaac m), havePending := True, pendingRenewal := False\<rparr>)"

definition reportSLAAC :: "Instant \<Rightarrow> rnd64 \<Rightarrow> Machine6 \<Rightarrow> Machine6" where
  "reportSLAAC now rnd m =
     (let fresh = tentativeAddrs (slaac m) in
      if fresh = [] then enterBoundSLAAC now rnd m
      else if state6 m = State6DAD then journal6 (JSlaac1 SDadRunning) m
      else start_slaac_dad now fresh m)"

definition ignore_prefix :: "SLAACIgnore \<Rightarrow> Machine6 \<Rightarrow> Machine6" where
  "ignore_prefix why m =
     (let t = slaac m; c = stCounts t in
      m\<lparr>slaac := t\<lparr>stCounts := c\<lparr>scIgnored := (scIgnored c)(why := scIgnored c why + 1)\<rparr>\<rparr>\<rparr>)"

definition seed_address :: "Instant \<Rightarrow> AddrV6 \<Rightarrow> Machine6 \<Rightarrow> Machine6" where
  "seed_address now a m =
     (if \<not> usable6 (a6Addr a) then m
      else if length (stEntries (slaac m)) \<ge> MaxSLAACAddresses then ignore_prefix SLAACIgnoreCapReached m
      else
        let p = Masked (PrefixFrom (a6Addr a) (128 - IIDBits)) in
        if find_prefix (slaac m) p \<noteq> None then m
        else journal6 (JSlaac1 (SRemembered a))
          (m\<lparr>slaac := (slaac m)\<lparr>stEntries := stEntries (slaac m) @ [\<lparr>sePrefix = p, seAddr = a6Addr a, seStart = now,
              sePreferred = a6Preferred a, seValid = a6Valid a, seCharged = False, seTentative = True\<rparr>]\<rparr>\<rparr>))"

definition seedFromResume :: "Instant \<Rightarrow> Resume6 \<Rightarrow> Machine6 \<Rightarrow> Machine6" where
  "seedFromResume now r m = fold (seed_address now) (r6Addrs r) m"

definition beginSLAAC :: "Instant \<Rightarrow> rnd64 \<Rightarrow> Machine6 \<Rightarrow> Machine6" where
  "beginSLAAC now rnd m =
     (let m = m\<lparr>adverts := [], windowDone := False, tried := [], sendFailures6 := 0, rsCount := 0, state6 := State6Discovering\<rparr> in
      case (live6 (resume6 m), resume6 m) of
        (True, Some r) \<Rightarrow>
          let m = (seedFromResume now r m)\<lparr>resume6 := None\<rparr>;
              m = journal6 (JSlaac1 (SContinuing (length (stEntries (slaac m))))) m
          in reportSLAAC now rnd (startRouterDiscovery m)
      | _ \<Rightarrow> startRouterDiscovery (journal6 (JSlaac1 SWaiting) m))"

section \<open>Beginning and ending an acquisition\<close>

definition begin6 :: "Instant \<Rightarrow> rnd64 \<Rightarrow> Machine6 \<Rightarrow> Machine6" where
  "begin6 now rnd m =
     (if formsAddresses (P6Mode (params6 m)) \<and> \<not> dhcpCommitted m then beginSLAAC now rnd m
      else
        let m = startRouterDiscovery (m\<lparr>adverts := [], windowDone := False, tried := [], sendFailures6 := 0, rsCount := 0\<rparr>);
            (t, delay, m) =
              (if live6 (resume6 m) \<and> usablePrefixes (resume6 m) \<noteq> []
               then (MsgRebind, CnfMaxDelay (params6 m), m\<lparr>resumeRebind := True, rebindOwed := False, resumeAt := now\<rparr>)
               else if live6 (resume6 m) then (MsgConfirm, CnfMaxDelay (params6 m), m)
               else (MsgSolicit, SolMaxDelay (params6 m), m));
            d = randomDelay delay rnd
        in set6 Timer6Delay d (journal6 (JX2 (XStarting t d)) (m\<lparr>pendingType := t, state6 := State6Init\<rparr>)))"

definition restartDiscovery :: "Instant \<Rightarrow> rnd64 \<Rightarrow> Machine6 \<Rightarrow> Machine6" where
  "restartDiscovery now rnd m =
     (let m = cancel6 Timer6Rebind (cancel6 Timer6Renew (m\<lparr>resume6 := None, resumeRebind := False, rebindOwed := False\<rparr>));
          m = (if \<not> haveLse6 m then cancel6 Timer6Expire m else m)
      in begin6 now rnd m)"

definition halt6 :: "Reason \<Rightarrow> Machine6 \<Rightarrow> Machine6" where
  "halt6 r m =
     (let m = (if haveLse6 m then loseLease r m else m);
          m = dropPending (m\<lparr>slaac := zero_table\<lparr>stCounts := stCounts (slaac m)\<rparr>, slaacPhases := [], deferredPrefixes := [],
                autoDecided := False, dhcpCommitted := False, wantConfig := False, askedConfig := False,
                resumeRebind := False, rebindOwed := False\<rparr>)
      in cancelAll6 (m\<lparr>msgType := 0, declining := [], decliningTA := [], afterDecline := None, state6 := State6Stopped\<rparr>))"

definition expireLease :: "Instant \<Rightarrow> rnd64 \<Rightarrow> Machine6 \<Rightarrow> Machine6" where
  "expireLease now rnd m =
     (if \<not> haveLse6 m then journal6 (JB3 BExpiryNoLease) (cancel6 Timer6Expire m)
      else case dropEnded now m of
        (m, True) \<Rightarrow> m
      | (m, False) \<Rightarrow>
          let m = loseLease ReasonExpired (journal6 (JB3 (BExpired (state6 m))) (cancel6 Timer6Expire m)) in
          if state6 m \<in> {State6Bound, State6Renewing, State6Rebinding} \<or> state6 m = State6Requesting \<and> scope m \<noteq> scopeAll
          then restartDiscovery now rnd m else m)"

definition noteActionFailed6 :: "ActionID \<Rightarrow> gostring \<Rightarrow> Machine6 \<Rightarrow> Machine6" where
  "noteActionFailed6 a why m =
     (let m = m\<lparr>sendFailures6 := sendFailures6 m + 1\<rparr>;
          m = journal6 (JDrop6 (DActionFailed a why (sendFailures6 m))) m
      in if state6 m \<in> {State6Renewing, State6Rebinding, State6Bound} then m
         else if sendFailures6 m \<ge> maxSendFailures (params6 m)
         then halt6 ReasonTransport (failed6 ReasonTransport (JX3 (XSendFailures (sendFailures6 m) why)) m)
         else m)"

text \<open>The lease as it stands, after an exchange for the delegated prefixes alone came to nothing.\<close>

definition resumeBound :: "Instant \<Rightarrow> rnd64 \<Rightarrow> Machine6 \<Rightarrow> Machine6" where
  "resumeBound now rnd m =
     (let m = (dropPending (cancel6 Timer6Retransmit (m\<lparr>msgType := 0\<rparr>)))\<lparr>state6 := State6Bound\<rparr>
      in armOwedRefresh rnd (armExpiry now (armRenewal now m)))"

end
