(* ===== verification/Proto6_Message.thy ===== *)
theory Proto6_Message
  imports Proto6_Exchange
begin

text \<open>
  What the DHCPv6 machine reads from a message: which messages it admits, the timeouts a server moves,
  temporary addresses and prefixes, the selection of an Advertise, and reconfigure keys.
\<close>

section \<open>Messages\<close>

definition hasRapidOption6 :: "MessageV6 option \<Rightarrow> bool" where
  "hasRapidOption6 msg = (case msg of None \<Rightarrow> False
     | Some m \<Rightarrow> Type6 m = MsgReply \<and> Count6 (Options6 m) OptV6RapidCommit > 0)"

definition count_rapid_refused :: "Machine6 \<Rightarrow> Machine6" where
  "count_rapid_refused m = m\<lparr>rapidCounts6 := (rapidCounts6 m)\<lparr>rk6Refused := rk6Refused (rapidCounts6 m) + 1\<rparr>\<rparr>"

definition countRapidDiscard :: "MessageV6 option \<Rightarrow> Machine6 \<Rightarrow> Machine6" where
  "countRapidDiscard msg m = (if hasRapidOption6 msg then count_rapid_refused m else m)"

definition refuseRapid6 :: "exch4_note \<Rightarrow> Machine6 \<Rightarrow> Machine6" where
  "refuseRapid6 why m = journal6 (JX4 why) (count_rapid_refused m)"

text \<open>The line of \<^verbatim>\<open>admitMsg\<close> that refuses a message, or the message.\<close>

definition admission :: "MessageV6 option \<Rightarrow> Machine6 \<Rightarrow> drop6_note + MessageV6" where
  "admission ev m =
     (case ev of
        None \<Rightarrow> Inl DNil
      | Some msg \<Rightarrow>
          let t = Type6 msg; sids = Count6 (Options6 msg) OptV6ServerID in
          if msgType m = 0 then Inl (DNoExchange t)
          else if XID6 msg \<noteq> xid6 m then Inl (DXID t (XID6 msg) (xid6 m))
          else if sids = 0 then Inl (DNoServerID t)
          else if sids > 1 then Inl (DManyServerIDs t sids)
          else (case First (Options6 msg) OptV6ClientID of
              None \<Rightarrow> Inl (DNoClientID t)
            | Some cid \<Rightarrow> if cid \<noteq> P6DUID (params6 m) then Inl (DForeignClientID t) else Inr msg))"

definition admit :: "MessageV6 option \<Rightarrow> Machine6 \<Rightarrow> Machine6 \<times> MessageV6 option" where
  "admit ev m =
     (case admission ev m of
        Inl why \<Rightarrow> (countRapidDiscard ev (journal6 (JDrop6 why) m), None)
      | Inr msg \<Rightarrow> (m, Some msg))"

definition maxrt_notes :: "byte \<Rightarrow> 16 word list \<Rightarrow> 16 word list \<Rightarrow> Machine6 \<Rightarrow> Machine6" where
  "maxrt_notes t applied ignored m =
     fold (\<lambda>c. journal6 (JX3 (XMaxRTIgnored c t))) ignored
       (fold (\<lambda>c m. journal6 (JX2 (XMaxRT c t (if c = OptV6SolMaxRTCode then SolMaxRT (params6 m) else InfMaxRT (params6 m)))) m) applied m)"

definition applyMaxRT :: "MessageV6 \<Rightarrow> Machine6 \<Rightarrow> Machine6" where
  "applyMaxRT msg m =
     (case ApplyOptions (Options6 msg) (params6 m) of
        (p, applied, ignored, Some e) \<Rightarrow> journal6 (JX3 (XMaxRTError e)) (m\<lparr>params6 := p\<rparr>)
      | (p, applied, ignored, None) \<Rightarrow> maxrt_notes (Type6 msg) applied ignored (m\<lparr>params6 := p\<rparr>))"

text \<open>The server a message names, empty where it names none.\<close>

definition server_of :: "MessageV6 \<Rightarrow> byte list" where
  "server_of msg = (case First (Options6 msg) OptV6ServerID of None \<Rightarrow> [] | Some s \<Rightarrow> s)"

section \<open>Temporary addresses and prefixes in a message\<close>

definition readTemporary :: "OptionsV6 \<Rightarrow> AddrV6 list \<Rightarrow> bool \<Rightarrow> Machine6 \<Rightarrow> Machine6 \<times> AddrV6 list" where
  "readTemporary opts perm reply m =
     (case readIATA opts (P6IAID (params6 m)) of (res, notes) \<Rightarrow>
      case dropStable (trAddrs res) perm of (kept, ns) \<Rightarrow>
        let m = journal_all ns (journal_all notes m); c = tempCounts m;
            m = (if \<not> trFound res then journal6 (JB3 BTempAbsent) (m\<lparr>tempCounts := c\<lparr>tp6Absent := tp6Absent c + 1\<rparr>\<rparr>)
                 else if kept = [] then journal6 (JB4 (BTempRefused (trStatus res))) (m\<lparr>tempCounts := c\<lparr>tp6Refused := tp6Refused c + 1\<rparr>\<rparr>)
                 else if reply then journal6 (JB4 (BTempGiven (length kept))) (m\<lparr>tempCounts := c\<lparr>tp6Granted := tp6Granted c + 1\<rparr>\<rparr>)
                 else m)
        in (m, kept))"

definition ignoreTemporary :: "OptionsV6 \<Rightarrow> Machine6 \<Rightarrow> Machine6" where
  "ignoreTemporary opts m =
     (let n = Count6 opts OptV6IATA in if n > 0 then journal6 (JB4 (BTempIgnored n)) m else m)"

definition countPrefixes :: "pdResult \<Rightarrow> ia_note list \<Rightarrow> bool \<Rightarrow> Machine6 \<Rightarrow> Machine6" where
  "countPrefixes res notes grant m =
     (let m = journal_all notes m; c = pdCounts m in
      if \<not> prFound res then journal6 (JB4 BPDAbsent) (m\<lparr>pdCounts := c\<lparr>pd6Absent := pd6Absent c + 1\<rparr>\<rparr>)
      else if prPrefixes res = [] then journal6 (JB4 (BPDRefused (prStatus res))) (m\<lparr>pdCounts := c\<lparr>pd6Refused := pd6Refused c + 1\<rparr>\<rparr>)
      else if grant then journal6 (JB4 (BPDGiven (length (prPrefixes res)))) (m\<lparr>pdCounts := c\<lparr>pd6Granted := pd6Granted c + 1\<rparr>\<rparr>)
      else m)"

definition readPrefixes :: "OptionsV6 \<Rightarrow> bool \<Rightarrow> Machine6 \<Rightarrow> Machine6 \<times> pdResult" where
  "readPrefixes opts grant m =
     (case readIAPD opts (P6IAID (params6 m)) of (res, notes) \<Rightarrow> (countPrefixes res notes grant m, res))"

definition ignorePrefixes :: "OptionsV6 \<Rightarrow> Machine6 \<Rightarrow> Machine6" where
  "ignorePrefixes opts m =
     (let n = Count6 opts OptV6IAPD in if n > 0 then journal6 (JB4 (BPDIgnored n)) m else m)"

definition paceOmission :: "Instant \<Rightarrow> rnd64 \<Rightarrow> bool \<Rightarrow> Lease6 \<Rightarrow> Machine6 \<Rightarrow> Machine6" where
  "paceOmission now rnd found l m =
     (if found \<or> l6Prefixes l = [] then m\<lparr>holdoff := 0, omitRT := 0\<rparr>
      else if \<not> pdSent m then m
      else let pd = snd (groupDeadlines l) in
        if \<not> d6HasRenew pd \<or> After (d6Renew pd) now then m
        else
          let m = m\<lparr>omitRT := (if omitRT m = 0 then rt m else Next_rt (sched m) (omitRT m) rnd)\<rparr>;
              m = m\<lparr>holdoff := Add now (omitRT m)\<rparr>
          in journal6 (JB3 (BOmitted (omitRT m))) m)"

section \<open>Selecting a server\<close>

definition better_advert :: "advert6 \<Rightarrow> advert6 \<Rightarrow> bool" where
  "better_advert a b \<longleftrightarrow> adPref a > adPref b \<or> adPref a = adPref b \<and> adSeq a < adSeq b"

definition best_advert :: "Machine6 \<Rightarrow> advert6 option" where
  "best_advert m =
     foldl (\<lambda>best a. if alreadyTried m (adServer a) then best
        else case best of None \<Rightarrow> Some a | Some b \<Rightarrow> if better_advert a b then Some a else best) None (adverts m)"

definition selectAndRequest :: "Instant \<Rightarrow> rnd64 \<Rightarrow> Machine6 \<Rightarrow> Machine6 \<times> bool" where
  "selectAndRequest now rnd m =
     (case best_advert m of
        None \<Rightarrow> (m, False)
      | Some a \<Rightarrow>
          let m = m\<lparr>server6 := adServer a,
                pending := zero_lease6\<lparr>l6IAID := P6IAID (params6 m), l6Addrs := adAddrs a, l6TempAddrs := adTemp a,
                  l6Prefixes := adPrefixes a, l6ServerDUID := adServer a, l6T1 := adT1 a, l6T2 := adT2 a\<rparr>\<rparr>
          in (startExchange now rnd MsgRequest6
                (journal6 (JX4 (XSelected (adPref a) (adSeq a + 1) (length (adverts m)))) m), True))"

text \<open>The Advertise that is kept, read from the message once its IA_NA offers an address.\<close>

definition collect_advert :: "MessageV6 \<Rightarrow> iaResult \<Rightarrow> Machine6 \<Rightarrow> Machine6 \<times> byte" where
  "collect_advert msg res m =
     (let opts = Options6 msg;
          (pref, m) = (case Preference opts of
              None \<Rightarrow> (0, m)
            | Some (Inl e) \<Rightarrow> (0, journal6 (JX3 (XAdvPreference e)) m)
            | Some (Inr p) \<Rightarrow> (p, m));
          seq = length (adverts m);
          (m, temp) = (if Temporary (params6 m) then readTemporary opts (irAddrs res) False m else (m, []));
          (m, ps) = (if PrefixHint (params6 m) > 0
             then (case readPrefixes opts False m of (m, pd) \<Rightarrow> (m, prPrefixes pd)) else (ignorePrefixes opts m, []));
          a = \<lparr>adServer = server_of msg, adPref = pref, adAddrs = irAddrs res, adTemp = temp, adPrefixes = ps,
               adT1 = irT1 res, adT2 = irT2 res, adSeq = seq\<rparr>;
          m = journal6 (JX3 (XAdvCollected pref (length (irAddrs res)))) (m\<lparr>adverts := adverts m @ [a]\<rparr>);
          (_, _, note) = serverFQDN opts
      in (if note \<noteq> [] then journal6 (JX3 (XAdvFQDN note)) m else m, pref))"

definition takeAdvertise :: "Instant \<Rightarrow> rnd64 \<Rightarrow> MessageV6 \<Rightarrow> Machine6 \<Rightarrow> Machine6" where
  "takeAdvertise now rnd msg m =
     (let m = applyMaxRT msg m in
      case Status_of (Options6 msg) of
        (_, _, Some e) \<Rightarrow> journal6 (JX3 XAdvStatus) m
      | (st, _, None) \<Rightarrow>
          if StCode st \<noteq> StatusSuccess then
            let m = journal6 (JX3 (XAdvSays (StCode st))) m; code = refusalCode [StCode st] in
            if code \<noteq> StatusSuccess then refused6 code m else m
          else case readIA (Options6 msg) (P6IAID (params6 m)) of (res, notes) \<Rightarrow>
            let m = journal_all notes m; code = refusalCode [irStatus res] in
            if code \<noteq> StatusSuccess then refused6 code (journal6 (JX3 (XAdvIASays code)) m)
            else if irAddrs res = [] then journal6 (JX3 XAdvEmpty) m
            else case collect_advert msg res m of (m, pref) \<Rightarrow>
              if pref = 255 then fst (selectAndRequest now rnd ((journal6 (JX3 XAdvNow) m)\<lparr>windowDone := True\<rparr>))
              else if windowDone m then fst (selectAndRequest now rnd (journal6 (JX4 XAdvLate) m))
              else m)"

section \<open>Reconfigure keys\<close>

definition noteReconfigureKey :: "MessageV6 \<Rightarrow> Machine6 \<Rightarrow> Machine6" where
  "noteReconfigureKey msg m =
     (let t = Type6 msg in
      case Auth_opt6 (Options6 msg) of
        None \<Rightarrow> m
      | Some (Inl e) \<Rightarrow> journal6 (JReconf (CAuthError t e)) m
      | Some (Inr a) \<Rightarrow>
          (case RKAP a of
             Inl e \<Rightarrow> journal6 (JReconf (CAuthError t e)) m
           | Inr (typ, val) \<Rightarrow>
               if typ \<noteq> RKAPTypeKey then journal6 (JReconf (CKeyOtherType t typ)) m
               else let sid = server_of msg in
                 if sid = [] then journal6 (JReconf (CKeyNoServer t)) m
                 else
                   let s = (case reconf m sid of None \<Rightarrow> \<lparr>rsKey = [], rsReplay = 0, rsSeen = False\<rparr> | Some s \<Rightarrow> s)
                   in journal6 (JReconf (CKeyRecorded t (length val))) (m\<lparr>reconf := (reconf m)(sid \<mapsto> s\<lparr>rsKey := val\<rparr>)\<rparr>)))"

definition seedReconfigure :: "Resume6 option \<Rightarrow> Machine6 \<Rightarrow> Machine6" where
  "seedReconfigure r m =
     (case r of
        None \<Rightarrow> m
      | Some r \<Rightarrow>
          if length (r6ReconfigureKey r) = 0 then m
          else m\<lparr>reconf := [r6ServerDUID r \<mapsto> \<lparr>rsKey = r6ReconfigureKey r, rsReplay = r6ReconfigureReplay r,
                 rsSeen = r6ReconfigureReplaySeen r \<or> r6ReconfigureReplay r \<noteq> 0\<rparr>]\<rparr>)"

end
