(* ===== verification/Proto6_Step.thy ===== *)
theory Proto6_Step
  imports Proto6_Message
begin

text \<open>
  What the DHCPv6 machine does with each event: Reply, duplicate address detection, Decline and
  Release, Router Advertisements, Reconfigure, the handlers of the eleven states, and \<open>Step6\<close>.
\<close>

section \<open>Decline\<close>

definition after_decline :: "Instant \<Rightarrow> rnd64 \<Rightarrow> after_decline \<Rightarrow> Machine6 \<Rightarrow> Machine6" where
  "after_decline now rnd w m =
     (case w of
        AfterRestart \<Rightarrow> restartDiscovery now rnd m
      | AfterKeep \<Rightarrow> enterBound6 now rnd (pending m) (dropPending m))"

definition declineSet :: "Instant \<Rightarrow> rnd64 \<Rightarrow> byte list \<Rightarrow> addr list \<Rightarrow> addr list \<Rightarrow> after_decline \<Rightarrow> Machine6 \<Rightarrow> Machine6" where
  "declineSet now rnd srv as temp w m =
     (if length as + length temp = 0 then after_decline now rnd w (journal6 (JB2 BNothingToDecline) m)
      else
        let m = rememberDeclined as m in
        if length srv = 0 then after_decline now rnd w (journal6 (JB2 BNoServerToDecline) m)
        else
          let m = cancel6 Timer6DAD (m\<lparr>server6 := srv, declining := as, decliningTA := temp, afterDecline := Some w, state6 := State6DAD\<rparr>)
          in (startExchange now rnd MsgDecline6 m)\<lparr>state6 := State6DAD\<rparr>)"

definition declineAll :: "Instant \<Rightarrow> rnd64 \<Rightarrow> Lease6 \<Rightarrow> Machine6 \<Rightarrow> Machine6" where
  "declineAll now rnd l = declineSet now rnd (l6ServerDUID l) (addrsOf l) [] AfterRestart"

definition finishDecline :: "Instant \<Rightarrow> rnd64 \<Rightarrow> Machine6 \<Rightarrow> Machine6" where
  "finishDecline now rnd m =
     (let w = afterDecline m; m = endExchange m in
      case w of None \<Rightarrow> restartDiscovery now rnd m | Some w \<Rightarrow> after_decline now rnd w m)"

definition declineTemporary :: "Instant \<Rightarrow> rnd64 \<Rightarrow> addr list \<Rightarrow> Machine6 \<Rightarrow> Machine6" where
  "declineTemporary now rnd bad m =
     (let l = pending m;
          m = (journal6 (JB2 (BDecliningTemp (length bad))) m)\<lparr>pending := withoutTemp l bad, dadWait := [], dadBad := []\<rparr>
      in declineSet now rnd (l6ServerDUID l) [] bad AfterKeep m)"

section \<open>Duplicate address detection\<close>

text \<open>One address of the loop of \<^verbatim>\<open>finishSLAACDAD\<close>: refused, then replaced or dropped.\<close>

definition resolve_duplicate :: "addr \<Rightarrow> Machine6 \<times> bool \<Rightarrow> Machine6 \<times> bool" where
  "resolve_duplicate a st =
     (case st of (m, retried) \<Rightarrow>
        let conflict = (\<lambda>t. t\<lparr>stCounts := (stCounts t)\<lparr>scConflicts := scConflicts (stCounts t) + 1\<rparr>\<rparr>) in
        (case retry a (params_iidSource (params6 m)) (refuse a (slaac m)) of
           (t, Some (b, n)) \<Rightarrow> (journal6 (JSlaac1 (STrying a b n)) (m\<lparr>slaac := conflict t\<rparr>), True)
         | (t, None) \<Rightarrow>
             (case drop_addr a t of (t, dropped) \<Rightarrow> (m\<lparr>slaac := (if dropped then conflict t else t)\<rparr>, retried))))"

definition finishSLAACDAD :: "Instant \<Rightarrow> rnd64 \<Rightarrow> Machine6 \<Rightarrow> Machine6" where
  "finishSLAACDAD now rnd m =
     (let m = cancel6 Timer6DAD m; bad = dadBad m;
          (m, retried) = fold resolve_duplicate bad (m, False);
          asked = l6Addrs (pending m);
          m = dropPending m;
          m = m\<lparr>slaac := fold (\<lambda>a. settle (a6Addr a)) asked (slaac m)\<rparr>;
          rest = tentativeAddrs (slaac m)
      in if rest \<noteq> [] then
           start_slaac_dad now rest (if retried then m else journal6 (JSlaac1 (SAlsoChecking rest)) m)
         else if stEntries (slaac m) \<noteq> [] then
           enterBoundSLAAC now rnd
             (if bad \<noteq> [] then journal6 (JSlaac1 (SDropped bad (length (stEntries (slaac m))))) m else m)
         else
           let m = journal6 (JSlaac1 (SAllInUse bad)) m;
               m = (if haveLse6 m then loseLease ReasonConflict m else failed6 ReasonConflict (JSlaac1 (SAllInUse bad)) m)
           in beginSLAAC now rnd ((cancel6 Timer6SLAAC m)\<lparr>slaacPhases := []\<rparr>))"

text \<open>The verdict on the lease of a Reply, once every address has been answered for.\<close>

definition bind_checked :: "Instant \<Rightarrow> rnd64 \<Rightarrow> Machine6 \<Rightarrow> Machine6" where
  "bind_checked now rnd m =
     (let m = enterBound6 now rnd (pending m) (dropPending m) in
      if rebindOwed m then enterRebinding6 now rnd (m\<lparr>rebindOwed := False\<rparr>) else m)"

definition decline_conflicts :: "Instant \<Rightarrow> rnd64 \<Rightarrow> Machine6 \<Rightarrow> Machine6" where
  "decline_conflicts now rnd m =
     (let tempBad = filter (isTemp (pending m)) (dadBad m);
          stableBad = list_ex (\<lambda>a. \<not> isTemp (pending m) a) (dadBad m);
          c = tempCounts m;
          m = m\<lparr>tempCounts := c\<lparr>tp6Conflicted := tp6Conflicted c + of_nat (length tempBad)\<rparr>\<rparr>
      in if \<not> stableBad then declineTemporary now rnd tempBad m
         else
           let bad = (pending m)\<lparr>l6Addrs := filter (\<lambda>a. a6Addr a \<notin> set (carried m)) (l6Addrs (pending m))\<rparr>;
               granted = freshTemp m bad;
               note = JB2 (BDeclining (length (dadBad m)) (length (l6Addrs bad) + length (l6TempAddrs bad)));
               m = dropPending (journal6 note m);
               m = (if haveLse6 m then m else failed6 ReasonConflict note m)
           in declineSet now rnd (l6ServerDUID bad) (addrsOf bad) granted AfterRestart m)"

definition takeDADResult :: "Instant \<Rightarrow> rnd64 \<Rightarrow> DADOutcome \<Rightarrow> Machine6 \<Rightarrow> Machine6" where
  "takeDADResult now rnd d m =
     (if dadAddr d \<notin> set (dadWait m) then journal6 (JB2 (BDADUnknown d)) m
      else
        let m = m\<lparr>dadWait := remove1 (dadAddr d) (dadWait m),
              dadBad := (if dadDuplicate d then dadBad m @ [dadAddr d] else dadBad m)\<rparr>;
            m = journal6 (JB2 (BDADReported d)) m
        in if dadWait m \<noteq> [] then m
           else if l6SLAAC (pending m) then finishSLAACDAD now rnd m
           else
             let m = cancel6 Timer6DAD m in
             if dadBad m = [] then bind_checked now rnd m else decline_conflicts now rnd m)"

section \<open>Reply\<close>

text \<open>The addresses of a renewed lease: those granted, and those held the Reply did not name.\<close>

definition renew_addresses :: "Instant \<Rightarrow> addr list \<Rightarrow> Lease6 \<Rightarrow> Machine6 \<Rightarrow> Machine6 \<times> Lease6" where
  "renew_addresses now zeroed l m =
     (if \<not> haveLse6 m then (m, l)
      else
        let held = lease6 m; got = l6Addrs l;
            l = l\<lparr>l6Addrs := renewedAddrs (l6Addrs held) (l6Start held) got zeroed (l6Start l) now\<rparr>;
            n = length (l6Addrs l) - length got;
            m = (if n > 0 then
                   (journal6 (JB1 (BCarriedAddrs n)) m)\<lparr>carried := carried m @ filter (\<lambda>a. addrIndex got a = None \<and> addrIndex (l6Addrs l) a \<noteq> None)
                     (map a6Addr (l6Addrs held))\<rparr>
                 else m);
            l = l\<lparr>l6TempAddrs := carryTemp (l6TempAddrs held) (l6Start held) (l6Start l) now\<rparr>;
            n = length (l6TempAddrs held) - length (l6TempAddrs l)
        in (if n > 0 then journal6 (JB1 (BTempEnded n)) m else m, l))"

definition reply_addresses :: "Instant \<Rightarrow> bool \<Rightarrow> bool \<Rightarrow> OptionsV6 \<Rightarrow> addr list \<Rightarrow> Lease6 \<Rightarrow> Machine6 \<Rightarrow> Machine6 \<times> Lease6" where
  "reply_addresses now naCarried renewal opts zeroed l m =
     (let m = m\<lparr>carried := []\<rparr> in
      if naCarried then (ignoreTemporary opts m, l)
      else if renewal then renew_addresses now zeroed l (ignoreTemporary opts m)
      else if Temporary (params6 m) then
        (case readTemporary opts (l6Addrs l) True m of (m, ta) \<Rightarrow> (m, l\<lparr>l6TempAddrs := ta\<rparr>))
      else (ignoreTemporary opts m, l))"

text \<open>The delegated prefixes of the lease, where the Reply owed them.\<close>

definition owed_prefixes :: "Instant \<Rightarrow> bool \<Rightarrow> bool \<Rightarrow> byte list \<Rightarrow> pdResult \<Rightarrow> ia_note list \<Rightarrow> Lease6 \<Rightarrow> Machine6 \<Rightarrow> Machine6 \<times> Lease6" where
  "owed_prefixes now naCarried renewal srv pd pdNotes l m =
     (let held = heldPrefixes m;
          m = countPrefixes pd pdNotes (\<not> renewal) m;
          ps = (if naCarried then rebasePrefixes (prPrefixes pd) (exchangeStart m) (l6Start l) now else prPrefixes pd);
          ps' = (if renewal then renewedPrefixes held (heldStart m) (pd\<lparr>prPrefixes := ps\<rparr>) (l6Start l) now else ps);
          n = length ps' - length (prPrefixes pd);
          m = (if renewal \<and> n > 0 then journal6 (JB1 (BCarriedPrefixes n)) m else m);
          l = l\<lparr>l6Prefixes := ps'\<rparr>;
          l = (if prPrefixes pd \<noteq> [] \<and> naCarried then
                 l\<lparr>l6PrefixServerDUID := srv, l6pdT1 := prT1 pd, l6pdT2 := prT2 pd, l6pdStart := exchangeStart m, l6pdTimed := True\<rparr>
               else if prPrefixes pd \<noteq> [] then
                 l\<lparr>l6T1 := earliestT (l6T1 l) (prT1 pd), l6T2 := earliestT (l6T2 l) (prT2 pd), l6pdT1 := prT1 pd, l6pdT2 := prT2 pd\<rparr>
               else if renewal then keepHeldPD m l
               else l);
          m = (if renewal \<and> \<not> samePrefixes held ps' then
                 journal6 (JB1 (BPrefixesChanged (length held) (length ps')))
                   (m\<lparr>pdCounts := (pdCounts m)\<lparr>pd6Changed := pd6Changed (pdCounts m) + 1\<rparr>\<rparr>)
               else m)
      in (m, l))"

definition reply_prefixes :: "Instant \<Rightarrow> bool \<Rightarrow> bool \<Rightarrow> bool \<Rightarrow> MessageV6 \<Rightarrow> pdResult \<Rightarrow> ia_note list \<Rightarrow> Lease6 \<Rightarrow> Machine6 \<Rightarrow> Machine6 \<times> Lease6" where
  "reply_prefixes now owed naCarried renewal msg pd pdNotes l m =
     (if owed then owed_prefixes now naCarried renewal (server_of msg) pd pdNotes l m
      else
        let m = ignorePrefixes (Options6 msg) m in
        (m, if scope m = scopeNA \<and> haveLse6 m then
              keepHeldPD m (l\<lparr>l6Prefixes := rebasePrefixes (l6Prefixes (lease6 m)) (l6Start (lease6 m)) (l6Start l) now\<rparr>)
            else l))"

text \<open>The lease a Reply grants is checked for duplicates, or bound at once where nothing in it is new.\<close>

definition take_granted :: "Instant \<Rightarrow> rnd64 \<Rightarrow> bool \<Rightarrow> MessageV6 \<Rightarrow> Lease6 \<Rightarrow> Machine6 \<Rightarrow> Machine6" where
  "take_granted now rnd renewal msg l m =
     (let m = m\<lparr>resumeRebind := False, server6 := l6ServerDUID l, pending := l, havePending := True, pendingRenewal := renewal\<rparr>;
          m = noteReconfigureKey msg ((cancel6 Timer6Retransmit m)\<lparr>msgType := 0\<rparr>);
          fresh = unchecked6 m l @ freshTemp m l
      in if fresh = [] then enterBound6 now rnd l m else startDAD fresh m)"

text \<open>A Reply without a usable address.\<close>

definition no_address :: "Instant \<Rightarrow> rnd64 \<Rightarrow> bool \<Rightarrow> 16 word \<Rightarrow> 16 word \<Rightarrow> Machine6 \<Rightarrow> Machine6" where
  "no_address now rnd renewal iaStatus st m =
     (let m = (if iaStatus = StatusNoAddrsAvail then journal6 (JB1 BNoAddrsAvail) m else m);
          code = refusalCode [iaStatus, st];
          m = (if code \<noteq> StatusSuccess then refused6 code m else m)
      in if state6 m = State6Selecting then journal6 (JB1 BSolicitingOn) m
         else
           let (m, next) = (if renewal then (m, False) else selectAndRequest now rnd (m\<lparr>tried := tried m @ [server6 m]\<rparr>))
           in if next then journal6 (JB1 BTryNext) m
              else restartDiscovery now rnd (journal6 (JB1 BNoAddressRestart) m))"

text \<open>What a Reply with a good status does, from its associations.\<close>

definition take_associations :: "Instant \<Rightarrow> rnd64 \<Rightarrow> bool \<Rightarrow> MessageV6 \<Rightarrow> 16 word \<Rightarrow> Machine6 \<Rightarrow> Machine6" where
  "take_associations now rnd renewal msg st m =
     (case leaseFromReply msg (P6IAID (params6 m)) (exchangeStart m) of
        (l, zeroed, notes, iaStatus, ok) \<Rightarrow>
        let m = journal_all notes m;
            owed = pdOwed m renewal;
            (pd, pdNotes) = (if owed then readIAPD (Options6 msg) (P6IAID (params6 m)) else (no_pd, []))
        in if iaStatus = StatusNoBinding \<and> renewal \<and> resumeRebind m \<and> \<not> haveLse6 m then
             restartDiscovery now rnd (journal6 (JB1 BResumedNoBinding) m)
           else if renewal \<and> (iaStatus = StatusNoBinding \<or> prFound pd \<and> prStatus pd = StatusNoBinding) then
             let m = journal6 (JB1 (BNoBinding (if iaStatus \<noteq> StatusNoBinding then InPD else InNA))) (journal_all pdNotes m);
                 m = m\<lparr>server6 := server_of msg, pending := heldIAs m\<rparr>
             in startExchangeFor now rnd MsgRequest6 (scope m) m
           else
             let naCarried = ((renewal \<or> scope m = scopePD) \<and> \<not> naSent m \<and> haveLse6 m);
                 (l, ok) = (if naCarried then (lease6 m, True) else (l, ok))
             in if \<not> ok then no_address now rnd renewal iaStatus st m
                else case reply_addresses now naCarried renewal (Options6 msg) zeroed l m of (m, l) \<Rightarrow>
                  case reply_prefixes now owed naCarried renewal msg pd pdNotes l m of (m, l) \<Rightarrow>
                    let l = canonPD l in
                    take_granted now rnd renewal msg l (paceOmission now rnd (prFound pd) l m))"

definition takeReply :: "Instant \<Rightarrow> rnd64 \<Rightarrow> MessageV6 \<Rightarrow> Machine6 \<Rightarrow> Machine6" where
  "takeReply now rnd msg m =
     (let m = applyMaxRT msg m;
          renewal = (state6 m = State6Renewing \<or> state6 m = State6Rebinding)
      in case Status_of (Options6 msg) of
           (_, _, Some _) \<Rightarrow> journal6 (JB1 BReplyStatus) m
         | (st, _, None) \<Rightarrow>
             if StCode st = StatusUnspecFail then refused6 (StCode st) (journal6 (JB1 BUnspecFail) m)
             else if StCode st = StatusNotOnLink then
               let m = (if haveLse6 m then loseLease ReasonNak (journal6 (JB1 BNotOnLinkHeld) m) else m);
                   m = (if state6 m = State6Selecting then rejectRapidHint m else m)
               in restartDiscovery now rnd (refused6 (StCode st) (journal6 (JB1 BNotOnLink) m))
             else take_associations now rnd renewal msg (StCode st) m)"

definition takeRapidReply :: "Instant \<Rightarrow> rnd64 \<Rightarrow> MessageV6 \<Rightarrow> Machine6 \<Rightarrow> Machine6" where
  "takeRapidReply now rnd msg m =
     (case RapidCommit6 (Options6 msg) of
        Inl _ \<Rightarrow> refuseRapid6 (XRapidMalformed (state6 m)) m
      | Inr has \<Rightarrow>
          if \<not> has \<and> \<not> P6RapidCommit (params6 m) then journal6 (JX4 XReplyWhileSoliciting) m
          else if \<not> has then journal6 (JX4 XReplyWithoutRapid) m
          else if \<not> P6RapidCommit (params6 m) then refuseRapid6 (XRapidNotAsked (state6 m)) m
          else
            let m = takeReply now rnd msg m in
            if state6 m = State6DAD \<or> state6 m = State6Bound then
              journal6 (JX4 XRapidTaken) (m\<lparr>rapidCounts6 := (rapidCounts6 m)\<lparr>rk6Accepted := rk6Accepted (rapidCounts6 m) + 1\<rparr>\<rparr>)
            else refuseRapid6 XRapidNothing m)"

section \<open>Resuming and releasing\<close>

definition resumed_lease :: "Instant \<Rightarrow> Resume6 \<Rightarrow> Machine6 \<Rightarrow> Lease6" where
  "resumed_lease now r m =
     canonPD (zero_lease6\<lparr>l6IAID := P6IAID (params6 m), l6Addrs := r6Addrs r, l6Prefixes := usablePrefixes (Some r),
       l6ServerDUID := r6ServerDUID r, l6T1 := r6T1 r, l6T2 := r6T2 r, l6Start := now, l6pdT1 := r6T1 r, l6pdT2 := r6T2 r,
       l6PrefixServerDUID := r6PrefixServerDUID r, l6DNS := r6DNS r, l6Search := r6Search r\<rparr>)"

definition continueFromResume :: "Instant \<Rightarrow> rnd64 \<Rightarrow> bool \<Rightarrow> Machine6 \<Rightarrow> Machine6" where
  "continueFromResume now rnd confirmed m =
     (case (live6 (resume6 m), resume6 m) of
        (True, Some r) \<Rightarrow>
          let l = resumed_lease now r m;
              m = cancel6 Timer6Retransmit (m\<lparr>pending := l, havePending := True, pendingRenewal := False, msgType := 0\<rparr>);
              m = journal6 (JB3 (BContinuing confirmed)) m;
              m = (if resumeRebind m then m\<lparr>resumeRebind := False, rebindOwed := True\<rparr> else m);
              m = (if Temporary (params6 m) then journal6 (JB3 BNoTemporary) m else m)
          in startDAD (addrsOf l) m
      | _ \<Rightarrow> restartDiscovery now rnd (journal6 (JB3 BNothingRemembered) m))"

definition release6 :: "Instant \<Rightarrow> rnd64 \<Rightarrow> Machine6 \<Rightarrow> Machine6" where
  "release6 now rnd m =
     (if \<not> haveLse6 m then halt6 ReasonReleased (journal6 (JB2 BNothingToRelease) m)
      else
        let l = lease6 m;
            m = loseLease ReasonReleased (m\<lparr>server6 := l6ServerDUID l\<rparr>);
            m = cancel6 Timer6Expire (cancel6 Timer6Rebind (cancel6 Timer6Renew m));
            m = m\<lparr>releasing := l6Addrs l,
                  releasingPrefixes := (if split6 l then [] else l6Prefixes l),
                  releasePD := (if split6 l then l6Prefixes l else []),
                  releasePDServer := (if split6 l then l6PrefixServerDUID l else []),
                  releasingTA := releaseTemps (l6TempAddrs l), state6 := State6Stopped\<rparr>
        in if length (server6 m) = 0 then cancelAll6 (journal6 (JB2 BNoServerToRelease) m)
           else startExchange now rnd MsgRelease6 m)"

definition releaseDelegated :: "Instant \<Rightarrow> rnd64 \<Rightarrow> Machine6 \<Rightarrow> Machine6" where
  "releaseDelegated now rnd m =
     (if releasePD m = [] then m
      else
        let m = m\<lparr>server6 := releasePDServer m, releasing := [], releasingTA := [], releasingPrefixes := releasePD m,
              releasePD := [], releasePDServer := []\<rparr>
        in startExchange now rnd MsgRelease6 (journal6 (JB2 BReleaseDelegated) m))"

section \<open>Configuration without addresses\<close>

definition refreshTime :: "Duration \<Rightarrow> bool \<Rightarrow> Machine6 \<Rightarrow> Machine6 \<times> Duration" where
  "refreshTime v present m =
     (if \<not> present then (journal6 (JB4 (BRefreshDefault (IRTDefault (params6 m)))) m, IRTDefault (params6 m))
      else if IsInfinite v then (m, Infinite)
      else if v < IRTMinimum (params6 m) then
        (journal6 (JB4 (BRefreshMinimum v (IRTMinimum (params6 m)))) m, IRTMinimum (params6 m))
      else (m, v))"

definition endReconfigureDetour :: "Machine6 \<Rightarrow> Machine6" where
  "endReconfigureDetour m =
     (let m = m\<lparr>reconfServerID := []\<rparr> in
      if \<not> reconfDetour m then m
      else journal6 (JReconf CDetourDone) (m\<lparr>reconfDetour := False, state6 := State6Bound\<rparr>))"

text \<open>The configuration a Reply carries, whether the refresh time is in it, and the machine with the lines.\<close>

definition read_config :: "OptionsV6 \<Rightarrow> Machine6 \<Rightarrow> Machine6 \<times> Config6 \<times> bool" where
  "read_config opts m =
     (let (m, dns) = (case DNSServers6 opts of Inl e \<Rightarrow> (journal6 (JB4 (BConfigDNS e)) m, []) | Inr d \<Rightarrow> (m, d));
          (m, search) = (case DomainSearch6 opts of Inl e \<Rightarrow> (journal6 (JB4 (BConfigSearch e)) m, []) | Inr s \<Rightarrow> (m, s));
          (m, secs, ok) = (case Uint32V6 opts OptV6InfoRefresh of
              None \<Rightarrow> (m, 0, False)
            | Some (Inl e) \<Rightarrow> (journal6 (JB4 (BConfigRefresh e)) m, 0, True)
            | Some (Inr v) \<Rightarrow> (m, SecondsToDuration v, True))
      in (m, \<lparr>c6DNS = dns, c6Search = search, c6RefreshTime = secs\<rparr>, ok))"

definition takeConfig :: "Instant \<Rightarrow> MessageV6 \<Rightarrow> Machine6 \<Rightarrow> Machine6" where
  "takeConfig now msg m =
     (case read_config (Options6 msg) m of (m, c, present) \<Rightarrow>
      case refreshTime (c6RefreshTime c) present m of (m, d) \<Rightarrow>
        let c = c\<lparr>c6RefreshTime := d\<rparr>;
            m = m\<lparr>config := c, refresh6 := d, refreshOwed := False, msgType := 0\<rparr>;
            m = endReconfigureDetour (noteReconfigureKey msg (cancel6 Timer6Retransmit m));
            m = stamp6 (Act6Configured c) m
        in if IsInfinite (refresh6 m) then cancel6 Timer6Refresh (journal6 (JB4 BRefreshInfinite) m)
           else set6 Timer6Refresh (refresh6 m) m)"

section \<open>Router Advertisements\<close>

definition apply_pio :: "Instant \<Rightarrow> PrefixInfo \<Rightarrow> Machine6 \<times> bool \<Rightarrow> Machine6 \<times> bool" where
  "apply_pio now pi st =
     (case st of (m, changed) \<Rightarrow>
      case applyPIO now pi (params_iidSource (params6 m)) (slaac m) of (t, formed, moved, why) \<Rightarrow>
        let m = m\<lparr>slaac := t\<rparr> in
        if why \<noteq> SLAACIgnoreNone then (journal6 (JSlaac1 (SFormedNothing pi why)) (ignore_prefix why m), changed)
        else (if formed then journal6 (JSlaac1 (SFormed (seAddr (last (stEntries t))) pi)) m else m, changed \<or> moved))"

definition applyAdvert :: "Instant \<Rightarrow> RouterAdvert \<Rightarrow> Machine6 \<Rightarrow> Machine6 \<times> bool" where
  "applyAdvert now ra m = fold (apply_pio now) (raPrefixes ra) (m, False)"

definition observeSLAAC :: "Instant \<Rightarrow> rnd64 \<Rightarrow> RouterAdvert \<Rightarrow> Machine6 \<Rightarrow> Machine6" where
  "observeSLAAC now rnd ra m =
     (case applyAdvert now ra m of (m, changed) \<Rightarrow>
        let m = (if raManaged ra \<or> raOther ra then m\<lparr>wantConfig := True\<rparr> else m)
        in maybeInfoRequest now rnd (if changed then reportSLAAC now rnd m else m))"

definition countUnusedPrefixes :: "RouterAdvert \<Rightarrow> Machine6 \<Rightarrow> Machine6" where
  "countUnusedPrefixes ra m =
     (let n = length (filter piAutonomous (raPrefixes ra));
          m = (ignore_prefix SLAACIgnoreModeDHCP ^^ n) m
      in if n > 0 then journal6 (JSlaac2 (SUnused n)) m else m)"

definition replaceDeferred :: "Instant \<Rightarrow> prefix \<Rightarrow> PrefixInfo \<Rightarrow> deferredPIO list \<Rightarrow> deferredPIO list option" where
  "replaceDeferred now p pi ds =
     (case find_index (\<lambda>d. dfPrefix d = p) ds of
        None \<Rightarrow> None
      | Some i \<Rightarrow> Some (ds[i := (ds ! i)\<lparr>dfAt := now, dfInfo := pi\<rparr>]))"

text \<open>Why an option is not kept for the fallback, or the list with it.\<close>

definition defer_prefix :: "Instant \<Rightarrow> PrefixInfo \<Rightarrow> Machine6 \<Rightarrow> SLAACIgnore + deferredPIO list" where
  "defer_prefix now pi m =
     bind_res (slaacOptionRules pi) (\<lambda>p.
       case replaceDeferred now p pi (deferredPrefixes m) of
         Some ds \<Rightarrow> Inr ds
       | None \<Rightarrow>
           bind_res (slaacFormRules pi (params_iidSource (params6 m)) (stDadCount (slaac m) p)) (\<lambda>_.
             if length (deferredPrefixes m) \<ge> MaxSLAACAddresses then Inl SLAACIgnoreCapReached
             else Inr (deferredPrefixes m @ [\<lparr>dfAt = now, dfPrefix = p, dfInfo = pi\<rparr>])))"

definition defer_one :: "Instant \<Rightarrow> PrefixInfo \<Rightarrow> Machine6 \<Rightarrow> Machine6" where
  "defer_one now pi m =
     (case defer_prefix now pi m of
        Inl why \<Rightarrow> journal6 (JSlaac2 (SNotKept pi why)) (ignore_prefix why m)
      | Inr ds \<Rightarrow> m\<lparr>deferredPrefixes := ds\<rparr>)"

definition deferPrefixes :: "Instant \<Rightarrow> RouterAdvert \<Rightarrow> Machine6 \<Rightarrow> Machine6" where
  "deferPrefixes now ra m = fold (defer_one now) (raPrefixes ra) m"

text \<open>The first advertisement of auto mode says that addresses come from DHCPv6.\<close>

definition commit_dhcp :: "Instant \<Rightarrow> rnd64 \<Rightarrow> RouterAdvert \<Rightarrow> Machine6 \<Rightarrow> Machine6" where
  "commit_dhcp now rnd ra m =
     (let d = autoFallback (params6 m); sd = randomDelay (SolMaxDelay (params6 m)) rnd;
          m = journal6 (JSlaac2 SAutoManaged) (m\<lparr>dhcpCommitted := True\<rparr>);
          m = (cancel6 Timer6RouterSolicit m)\<lparr>pendingType := MsgSolicit, state6 := State6Init\<rparr>;
          m = set6 Timer6Delay sd (journal6 (JSlaac2 (SFirstSolicit sd)) m);
          m = deferPrefixes now ra (countUnusedPrefixes ra m)
      in case d of
           Some d \<Rightarrow> set6 Timer6AutoFallback (i64 (sd + d)) (journal6 (JSlaac2 (SWillForm d)) m)
         | None \<Rightarrow> journal6 (JSlaac2 SNoFallback) m)"

definition observeAuto :: "Instant \<Rightarrow> rnd64 \<Rightarrow> RouterAdvert \<Rightarrow> Machine6 \<Rightarrow> Machine6" where
  "observeAuto now rnd ra m =
     (if \<not> autoDecided m \<and> raManaged ra then commit_dhcp now rnd ra (m\<lparr>autoDecided := True\<rparr>)
      else
        let m = (if \<not> autoDecided m then journal6 (JSlaac2 SAutoUnmanaged) (m\<lparr>autoDecided := True\<rparr>) else m) in
        if dhcpCommitted m then deferPrefixes now ra (countUnusedPrefixes ra m)
        else observeSLAAC now rnd ra m)"

definition form_deferred :: "Instant \<Rightarrow> deferredPIO \<Rightarrow> Machine6 \<times> bool \<Rightarrow> Machine6 \<times> bool" where
  "form_deferred now d st =
     (case st of (m, changed) \<Rightarrow>
        let valid = SecondsToDuration (piValid (dfInfo d)) in
        if \<not> IsInfinite valid \<and> Add (dfAt d) valid \<le> now
        then (journal6 (JSlaac2 (SLateValid (piPrefix (dfInfo d)))) (ignore_prefix SLAACIgnoreValidZero m), changed)
        else case applyPIO (dfAt d) (dfInfo d) (params_iidSource (params6 m)) (slaac m) of (t, formed, moved, why) \<Rightarrow>
          let m = m\<lparr>slaac := t\<rparr> in
          if why \<noteq> SLAACIgnoreNone then (ignore_prefix why m, changed) else (m, changed \<or> formed \<or> moved))"

definition autoFallbackFired :: "Instant \<Rightarrow> rnd64 \<Rightarrow> Machine6 \<Rightarrow> Machine6" where
  "autoFallbackFired now rnd m =
     (let m = cancel6 Timer6AutoFallback m in
      if haveLse6 m then journal6 (JSlaac2 SDeadlineHeld) m
      else case fold (form_deferred now) (deferredPrefixes m) (m\<lparr>dhcpCommitted := False\<rparr>, False) of
        (m, changed) \<Rightarrow>
          let m = m\<lparr>deferredPrefixes := []\<rparr> in
          if \<not> changed \<or> stEntries (slaac m) = [] then
            (endExchange (failed6 ReasonNoPrefix (JSlaac2 SNoPrefixForms) (journal6 (JSlaac2 SNoPrefixForms) m)))\<lparr>state6 := State6Discovering\<rparr>
          else
            let t = slaac m;
                m = m\<lparr>slaac := t\<lparr>stCounts := (stCounts t)\<lparr>scFallbacks := scFallbacks (stCounts t) + 1\<rparr>\<rparr>\<rparr>;
                m = (endExchange (journal6 (JSlaac2 SFallback) m))\<lparr>adverts := [], windowDone := False\<rparr>
            in reportSLAAC now rnd m)"

definition charge_deprecation :: "Instant \<Rightarrow> nat \<Rightarrow> Machine6 \<Rightarrow> Machine6" where
  "charge_deprecation now i m =
     (let t = slaac m; e = stEntries t ! i in
      if deprecated e now \<and> \<not> seCharged e then
        journal6 (JSlaac2 (SDeprecated (seAddr e)))
          (m\<lparr>slaac := t\<lparr>stEntries := (stEntries t)[i := e\<lparr>seCharged := True\<rparr>],
             stCounts := (stCounts t)\<lparr>scDeprecated := scDeprecated (stCounts t) + 1\<rparr>\<rparr>\<rparr>)
      else m)"

definition slaacTick :: "Instant \<Rightarrow> rnd64 \<Rightarrow> Machine6 \<Rightarrow> Machine6" where
  "slaacTick now rnd m =
     (case expire_entries now (slaac m) of (t, gone) \<Rightarrow>
        let m = fold (\<lambda>a. journal6 (JSlaac1 (SInvalid a))) gone (m\<lparr>slaac := t\<rparr>);
            m = fold (charge_deprecation now) [0..<length (stEntries t)] m
        in if stEntries (slaac m) = [] then
             let m = (cancel6 Timer6SLAAC m)\<lparr>slaacPhases := []\<rparr>
             in beginSLAAC now rnd (if haveLse6 m then loseLease ReasonExpired m else m)
           else if tentativeAddrs (slaac m) \<noteq> [] then armSLAAC now m
           else if \<not> haveLse6 m then armSLAAC now m
           else enterBoundSLAAC now rnd m)"

definition routerSolicitTick :: "Instant \<Rightarrow> rnd64 \<Rightarrow> Machine6 \<Rightarrow> Machine6" where
  "routerSolicitTick now rnd m =
     (if rsCount m < routerSolicitations (params6 m) then
        (if roSeen (router m) \<and> \<not> awaitingAddress m then cancel6 Timer6RouterSolicit (journal6 (JRouter RTimerAfter) m)
         else solicitRouter m)
      else
        let m = cancel6 Timer6RouterSolicit m in
        if \<not> awaitingAddress m then journal6 (JRouter RFinished) m
        else if roSeen (router m) then
          (if P6Mode (params6 m) = Mode6Auto \<and> wantConfig m \<and> \<not> askedConfig m \<and> msgType m = 0
           then startExchange now rnd MsgInformationRequest (journal6 (JRouter RDiscoveryConfig) (m\<lparr>askedConfig := True\<rparr>))
           else failed6 ReasonNoPrefix (JRouter (RNoPrefix (IgnoredTotal (stCounts (slaac m))))) m)
        else failed6 ReasonNoRouter (JRouter (RNoRouter (rsCount m))) m)"

text \<open>What the flags of an advertisement mean to a client that asks for its addresses.\<close>

definition observe_flags :: "Instant \<Rightarrow> rnd64 \<Rightarrow> RouterAdvert \<Rightarrow> Machine6 \<Rightarrow> Machine6" where
  "observe_flags now rnd ra m =
     (if raManaged ra then journal6 (JRouter RManaged) m
      else if raOther ra \<and> state6 m = State6Selecting then
        startExchange now rnd MsgInformationRequest
          ((cancel6 Timer6Retransmit (journal6 (JRouter ROtherSwitch) m))\<lparr>adverts := [], windowDone := False\<rparr>)
      else if raOther ra then journal6 (JRouter (ROtherNoted (state6 m))) m
      else journal6 (JRouter RNoInformation) m)"

definition observeRouter :: "Instant \<Rightarrow> rnd64 \<Rightarrow> RouterAdvert option \<Rightarrow> Machine6 \<Rightarrow> Machine6" where
  "observeRouter now rnd ev m =
     (case ev of
        None \<Rightarrow> journal6 (JRouter RNil) m
      | Some ra \<Rightarrow>
          let first = (\<not> roSeen (router m));
              obs = \<lparr>roSeen = True, roManaged = raManaged ra, roOther = raOther ra, roRouter = raRouter ra,
                roPrefixes = raPrefixes ra, roRouters = [], roMTU = 0, roDNS = [], roSearch = [], roRoutes = [], roPREF64 = []\<rparr>;
              (t, ok) = observe_advert now ra (routers m);
              m = (if ok then m else journal6 (JRouter RNoSource) m);
              (t, obs) = fill_routers now t obs;
              m = m\<lparr>routers := t, router := obs\<rparr>;
              m = (if raIgnored ra > 0 then journal6 (JRouter (RIgnored (raIgnored ra))) m else m);
              m = stamp6 (Act6RouterObserved obs) m;
              m = (if first \<and> \<not> awaitingAddress m then cancel6 Timer6RouterSolicit m else m)
          in (case P6Mode (params6 m) of
                Mode6SLAAC \<Rightarrow> observeSLAAC now rnd ra m
              | Mode6Auto \<Rightarrow> observeAuto now rnd ra m
              | _ \<Rightarrow> observe_flags now rnd ra (countUnusedPrefixes ra m)))"

section \<open>Reconfigure\<close>

definition refuseReconfigure :: "ReconfigureRefusal \<Rightarrow> Machine6 \<Rightarrow> Machine6" where
  "refuseReconfigure why m =
     (let c = reconfCounts m in
      journal6 (JReconf (CRefused why)) (m\<lparr>reconfCounts := c\<lparr>rcRefused := (rcRefused c)(why := rcRefused c why + 1)\<rparr>\<rparr>))"

text \<open>Why a Reconfigure is refused before its authentication, or the message type it asks for.\<close>

definition reconfigure_asks :: "MessageV6 \<Rightarrow> addr \<Rightarrow> Machine6 \<Rightarrow> ReconfigureRefusal + byte" where
  "reconfigure_asks msg dst m =
     (let opts = Options6 msg; sids = Count6 opts OptV6ServerID in
      if \<not> AcceptReconfigure (params6 m) then Inl ReconfigureRefusalUnwilling
      else if msgType m \<noteq> 0 then Inl ReconfigureRefusalExchangeInFlight
      else if \<not> IsValid dst \<or> IsMulticast dst \<or> IsUnspecified dst then Inl ReconfigureRefusalNotUnicast
      else if sids = 0 then Inl ReconfigureRefusalNoServerID
      else if sids > 1 then Inl ReconfigureRefusalAmbiguousServerID
      else (case First opts OptV6ClientID of
          None \<Rightarrow> Inl ReconfigureRefusalNoClientID
        | Some cid \<Rightarrow>
            if cid \<noteq> P6DUID (params6 m) then Inl ReconfigureRefusalForeignClientID
            else (case ReconfigureMessage opts of
                None \<Rightarrow> Inl ReconfigureRefusalNoReconfigureMessage
              | Some (Inl _) \<Rightarrow> Inl ReconfigureRefusalBadReconfigureMessage
              | Some (Inr kind) \<Rightarrow> Inr kind)))"

text \<open>Why it does not authenticate, or the replay detection value it raises the server's to.\<close>

definition authenticateReconfigure :: "MessageV6 \<Rightarrow> byte list \<Rightarrow> Machine6 \<Rightarrow> ReconfigureRefusal + 64 word" where
  "authenticateReconfigure msg raw m =
     (case Auth_opt6 (Options6 msg) of
        None \<Rightarrow> Inl ReconfigureRefusalNoAuth
      | Some (Inl _) \<Rightarrow> Inl ReconfigureRefusalUnreadableAuth
      | Some (Inr a) \<Rightarrow>
          (case RKAP a of
             Inl _ \<Rightarrow> Inl ReconfigureRefusalNotRKAP
           | Inr _ \<Rightarrow>
               (case reconf m (server_of msg) of
                  None \<Rightarrow> Inl ReconfigureRefusalNoKey
                | Some s \<Rightarrow>
                    if length (rsKey s) = 0 then Inl ReconfigureRefusalNoKey
                    else (case RKAPVerify raw (rsKey s) of
                        Inl _ \<Rightarrow> Inl ReconfigureRefusalBadDigest
                      | Inr _ \<Rightarrow>
                          if rsSeen s \<and> AuReplay a \<le> rsReplay s then Inl ReconfigureRefusalReplay
                          else Inr (AuReplay a)))))"

definition respondToReconfigure :: "Instant \<Rightarrow> rnd64 \<Rightarrow> byte \<Rightarrow> byte list \<Rightarrow> Machine6 \<Rightarrow> Machine6 \<times> bool" where
  "respondToReconfigure now rnd kind sid m =
     (if kind = MsgRenew \<or> kind = MsgRebind then
        (if state6 m \<noteq> State6Bound then (refuseReconfigure ReconfigureRefusalNoLease m, False)
         else if kind = MsgRenew then (enterRenewing6 now rnd (journal6 (JReconf CAsksRenew) m), True)
         else (enterRebinding6 now rnd (journal6 (JReconf CAsksRebind) m), True))
      else if kind = MsgInformationRequest then
        (if state6 m \<noteq> State6Bound \<and> state6 m \<noteq> State6InfoRequesting
         then (refuseReconfigure ReconfigureRefusalNoConfiguration m, False)
         else
           let m = (if state6 m = State6Bound then m\<lparr>reconfDetour := True\<rparr> else m)
           in (startExchangeAnswering now rnd MsgInformationRequest sid (journal6 (JReconf CAsksInfo) m), True))
      else (refuseReconfigure ReconfigureRefusalUndefinedMessage m, False))"

text \<open>What the entry of the server becomes once its Reconfigure was acted on.\<close>

definition raise_replay :: "byte list \<Rightarrow> 64 word \<Rightarrow> Machine6 \<Rightarrow> Machine6" where
  "raise_replay sid r m =
     (case reconf m sid of
        None \<Rightarrow> m
      | Some s \<Rightarrow>
          let m = (if \<not> rsSeen s then journal6 (JReconf CFirst) m else m); c = reconfCounts m
          in m\<lparr>reconf := (reconf m)(sid \<mapsto> s\<lparr>rsReplay := r, rsSeen := True\<rparr>),
               reconfCounts := c\<lparr>rcAccepted := rcAccepted c + 1\<rparr>\<rparr>)"

definition takeReconfigure :: "Instant \<Rightarrow> rnd64 \<Rightarrow> MessageV6 \<Rightarrow> byte list \<Rightarrow> addr \<Rightarrow> Machine6 \<Rightarrow> Machine6" where
  "takeReconfigure now rnd msg raw dst m =
     (case reconfigure_asks msg dst m of
        Inl why \<Rightarrow> refuseReconfigure why m
      | Inr kind \<Rightarrow>
          (case authenticateReconfigure msg raw m of
             Inl why \<Rightarrow> refuseReconfigure why m
           | Inr r \<Rightarrow>
               (case respondToReconfigure now rnd kind (server_of msg) m of
                  (m, False) \<Rightarrow> m
                | (m, True) \<Rightarrow> raise_replay (server_of msg) r m)))"

section \<open>The hostname\<close>

definition takeHostname6 :: "Instant \<Rightarrow> rnd64 \<Rightarrow> gostring \<Rightarrow> Machine6 \<Rightarrow> Machine6" where
  "takeHostname6 now rnd name m =
     (if \<not> ValidateHostname6 name then journal6 (JReconf CHostnameRefused) m
      else case announceHostname6 now rnd (m\<lparr>hostname6 := name\<rparr>) of
        (m, told) \<Rightarrow>
          if told then m
          else journal6 (JReconf (CHostnameRecorded (hostname6 m) (state6 m) (nameOnWire6 m))) m)"

section \<open>The states\<close>

text \<open>The arms most states share: stopping, and events that do nothing.\<close>

definition ignore_timer :: "TimerID \<Rightarrow> Machine6 \<Rightarrow> Machine6" where
  "ignore_timer t m = journal6 (JDrop6 (DTimerIgnored t (state6 m))) m"

definition ignore_event :: "Event6 \<Rightarrow> Machine6 \<Rightarrow> Machine6" where
  "ignore_event ev m = journal6 (JDrop6 (DEventIgnored (Kind6 ev) (state6 m))) m"

definition common_event :: "Event6 \<Rightarrow> Machine6 \<Rightarrow> Machine6" where
  "common_event ev m =
     (case ev of
        Ev6Stop \<Rightarrow> halt6 ReasonStopped m
      | Ev6LinkDown \<Rightarrow> halt6 ReasonLinkDown m
      | _ \<Rightarrow> ignore_event ev m)"

definition already :: "Machine6 \<Rightarrow> Machine6" where
  "already m = journal6 (JDrop6 (DAlready (state6 m))) m"

text \<open>The message of an exchange: only the type the state waits for goes further.\<close>

definition on_reply :: "MessageV6 option \<Rightarrow> (MessageV6 \<Rightarrow> Machine6 \<Rightarrow> Machine6) \<Rightarrow> Machine6 \<Rightarrow> Machine6" where
  "on_reply msg f m =
     (case admit msg m of
        (m, None) \<Rightarrow> m
      | (m, Some msg) \<Rightarrow> if Type6 msg \<noteq> MsgReply then journal6 (JDrop6 (DMessageIn (Type6 msg) (state6 m))) m else f msg m)"

definition stepStopped6 :: "Instant \<Rightarrow> rnd64 \<Rightarrow> Event6 \<Rightarrow> Machine6 \<Rightarrow> Machine6" where
  "stepStopped6 now rnd ev m =
     (case ev of
        Ev6Start \<Rightarrow> begin6 now rnd m
      | Ev6Received msg _ _ \<Rightarrow>
          if msgType m = MsgRelease6 then
            (case admit msg m of
               (m, None) \<Rightarrow> m
             | (m, Some _) \<Rightarrow> releaseDelegated now rnd (endExchange (journal6 (JX1 XReleaseDone) m)))
          else journal6 (JDrop6 (DMessageIgnored (state6 m))) m
      | Ev6TimerFired t \<Rightarrow>
          if t = Timer6Retransmit \<and> msgType m = MsgRelease6 then
            retransmit now rnd (Some (\<lambda>m. releaseDelegated now rnd (endExchange (journal6 (JX1 XReleaseExhausted) m)))) m
          else ignore_timer t m
      | Ev6Stop \<Rightarrow> already m
      | _ \<Rightarrow> ignore_event ev m)"

definition stepInit6 :: "Instant \<Rightarrow> rnd64 \<Rightarrow> Event6 \<Rightarrow> Machine6 \<Rightarrow> Machine6" where
  "stepInit6 now rnd ev m =
     (case ev of
        Ev6TimerFired t \<Rightarrow> if t \<noteq> Timer6Delay then ignore_timer t m else startExchange now rnd (pendingType m) m
      | Ev6Start \<Rightarrow> already m
      | Ev6Release \<Rightarrow> halt6 ReasonReleased m
      | _ \<Rightarrow> common_event ev m)"

definition stepSelecting6 :: "Instant \<Rightarrow> rnd64 \<Rightarrow> Event6 \<Rightarrow> Machine6 \<Rightarrow> Machine6" where
  "stepSelecting6 now rnd ev m =
     (case ev of
        Ev6Received msg _ _ \<Rightarrow>
          (case admit msg m of
             (m, None) \<Rightarrow> m
           | (m, Some msg) \<Rightarrow>
               if Type6 msg = MsgAdvertise then takeAdvertise now rnd msg m
               else if Type6 msg = MsgReply then takeRapidReply now rnd msg m
               else journal6 (JDrop6 (DMessageIn (Type6 msg) (state6 m))) m)
      | Ev6TimerFired t \<Rightarrow>
          if t \<noteq> Timer6Retransmit then ignore_timer t m
          else if \<not> windowDone m then
            let m = m\<lparr>windowDone := True\<rparr> in
            if adverts m \<noteq> [] then fst (selectAndRequest now rnd (journal6 (JX1 (XWindow (length (adverts m)))) m))
            else retransmit now rnd None (journal6 (JX1 XWindowEmpty) m)
          else retransmit now rnd None m
      | Ev6Start \<Rightarrow> already m
      | Ev6Release \<Rightarrow> halt6 ReasonReleased m
      | _ \<Rightarrow> common_event ev m)"

text \<open>What follows a Request no server answered.\<close>

definition request_exhausted :: "Instant \<Rightarrow> rnd64 \<Rightarrow> Machine6 \<Rightarrow> Machine6" where
  "request_exhausted now rnd m =
     (if scope m = scopePD then resumeBound now rnd (journal6 (JX1 XRequestPDExhausted) m)
      else case selectAndRequest now rnd (m\<lparr>tried := tried m @ [server6 m]\<rparr>) of
        (m, next) \<Rightarrow>
          if next then journal6 (JX1 XRequestNext) m
          else restartDiscovery now rnd (journal6 (JX1 XRequestRestart) m))"

definition stepRequesting6 :: "Instant \<Rightarrow> rnd64 \<Rightarrow> Event6 \<Rightarrow> Machine6 \<Rightarrow> Machine6" where
  "stepRequesting6 now rnd ev m =
     (case ev of
        Ev6Received msg _ _ \<Rightarrow> on_reply msg (takeReply now rnd) m
      | Ev6TimerFired t \<Rightarrow>
          if t = Timer6Rebind \<and> scope m \<noteq> scopeAll then
            enterRebinding6 now rnd (dropPending (journal6 (JX2 XScopedRebind) m))
          else if t \<noteq> Timer6Retransmit then ignore_timer t m
          else retransmit now rnd (Some (request_exhausted now rnd)) m
      | Ev6Release \<Rightarrow> halt6 ReasonReleased m
      | _ \<Rightarrow> common_event ev m)"

definition take_confirmed :: "Instant \<Rightarrow> rnd64 \<Rightarrow> MessageV6 \<Rightarrow> Machine6 \<Rightarrow> Machine6" where
  "take_confirmed now rnd msg m =
     (let m = applyMaxRT msg m in
      case Status_of (Options6 msg) of
        (_, _, Some e) \<Rightarrow> journal6 (JX1 (XConfirmStatus e)) m
      | (st, _, None) \<Rightarrow>
          if StCode st = StatusNotOnLink then
            restartDiscovery now rnd ((refused6 (StCode st) (journal6 (JX1 XConfirmNotOnLink) m))\<lparr>resume6 := None\<rparr>)
          else continueFromResume now rnd True (journal6 (JX1 (XConfirmSays (StCode st))) m))"

definition stepConfirming6 :: "Instant \<Rightarrow> rnd64 \<Rightarrow> Event6 \<Rightarrow> Machine6 \<Rightarrow> Machine6" where
  "stepConfirming6 now rnd ev m =
     (case ev of
        Ev6Received msg _ _ \<Rightarrow> on_reply msg (take_confirmed now rnd) m
      | Ev6TimerFired t \<Rightarrow>
          if t \<noteq> Timer6Retransmit then ignore_timer t m
          else retransmit now rnd (Some (\<lambda>m. continueFromResume now rnd False (journal6 (JX1 XConfirmExhausted) m))) m
      | Ev6Release \<Rightarrow> halt6 ReasonReleased m
      | _ \<Rightarrow> common_event ev m)"

definition take_information :: "Instant \<Rightarrow> rnd64 \<Rightarrow> MessageV6 \<Rightarrow> Machine6 \<Rightarrow> Machine6" where
  "take_information now rnd msg m =
     (let m = applyMaxRT msg m in
      case Status_of (Options6 msg) of
        (_, _, Some e) \<Rightarrow> journal6 (JX1 XInfoStatus) m
      | (st, _, None) \<Rightarrow>
          let code = refusalCode [StCode st] in
          if code \<noteq> StatusSuccess then refused6 code (journal6 (JX2 (XInfoSays code)) m)
          else fst (announceHostname6 now rnd (takeConfig now msg m)))"

definition stepInfoRequesting6 :: "Instant \<Rightarrow> rnd64 \<Rightarrow> Event6 \<Rightarrow> Machine6 \<Rightarrow> Machine6" where
  "stepInfoRequesting6 now rnd ev m =
     (case ev of
        Ev6Received msg _ _ \<Rightarrow> on_reply msg (take_information now rnd) m
      | Ev6TimerFired t \<Rightarrow>
          if t = Timer6Retransmit then retransmit now rnd None m
          else if t = Timer6Refresh then
            let d = randomDelay (InfMaxDelay (params6 m)) rnd
            in set6 Timer6Delay d ((journal6 (JX2 (XRefreshElapsed d)) m)\<lparr>pendingType := MsgInformationRequest\<rparr>)
          else if t = Timer6Delay then startExchange now rnd MsgInformationRequest m
          else if t = Timer6Renew \<or> t = Timer6Rebind then
            (if \<not> haveLse6 m then ignore_timer t m
             else
               let m = m\<lparr>reconfDetour := False\<rparr> in
               if t = Timer6Renew then enterRenewing6 now rnd (journal6 (JX2 XRenewPrecedes) m)
               else enterRebinding6 now rnd (journal6 (JX2 XRebindPrecedes) m))
          else ignore_timer t m
      | Ev6Release \<Rightarrow> halt6 ReasonReleased m
      | _ \<Rightarrow> common_event ev m)"

definition stepDAD6 :: "Instant \<Rightarrow> rnd64 \<Rightarrow> Event6 \<Rightarrow> Machine6 \<Rightarrow> Machine6" where
  "stepDAD6 now rnd ev m =
     (case ev of
        Ev6DADResult d \<Rightarrow> takeDADResult now rnd d m
      | Ev6TimerFired t \<Rightarrow>
          if t = Timer6DAD then
            restartDiscovery now rnd (dropPending
              (failed6 ReasonDADIncomplete (JB2 (BDADIncomplete (dadWait m) (dadTimeout (params6 m)))) (cancel6 Timer6DAD m)))
          else if t = Timer6Retransmit then
            (if msgType m = MsgDecline6
             then retransmit now rnd (Some (\<lambda>m. finishDecline now rnd (journal6 (JX2 XDeclineExhausted) m))) m
             else journal6 (JDrop6 DNoExchangeTimer) m)
          else ignore_timer t m
      | Ev6Received msg _ _ \<Rightarrow>
          if msgType m \<noteq> MsgDecline6 then journal6 (JDrop6 (DMessageIgnored (state6 m))) (countRapidDiscard msg m)
          else on_reply msg (\<lambda>_ m. finishDecline now rnd (journal6 (JX2 XDeclineDone) m)) m
      | Ev6AddressLost \<Rightarrow> restartDiscovery now rnd (dropPending (journal6 (JB2 BDADLost) m))
      | Ev6Release \<Rightarrow> halt6 ReasonReleased m
      | _ \<Rightarrow> common_event ev m)"

definition stepDiscovering6 :: "Instant \<Rightarrow> rnd64 \<Rightarrow> Event6 \<Rightarrow> Machine6 \<Rightarrow> Machine6" where
  "stepDiscovering6 now rnd ev m =
     (case ev of
        Ev6TimerFired t \<Rightarrow> if t = Timer6Delay then startExchange now rnd (pendingType m) m else ignore_timer t m
      | Ev6Start \<Rightarrow> already m
      | Ev6Release \<Rightarrow> halt6 ReasonReleased m
      | _ \<Rightarrow> common_event ev m)"

text \<open>A bound address that is gone or taken: the lease is lost and declined.\<close>

definition lose_to_conflict :: "Instant \<Rightarrow> rnd64 \<Rightarrow> bound62_note \<Rightarrow> Machine6 \<Rightarrow> Machine6" where
  "lose_to_conflict now rnd why m = declineAll now rnd (lease6 m) (loseLease ReasonConflict (journal6 (JB2 why) m))"

definition stepBound6 :: "Instant \<Rightarrow> rnd64 \<Rightarrow> Event6 \<Rightarrow> Machine6 \<Rightarrow> Machine6" where
  "stepBound6 now rnd ev m =
     (case ev of
        Ev6TimerFired t \<Rightarrow>
          if t = Timer6Renew then enterRenewing6 now rnd m
          else if t = Timer6Rebind then enterRebinding6 now rnd m
          else if t = Timer6Refresh then
            let d = randomDelay (InfMaxDelay (params6 m)) rnd
            in set6 Timer6Delay d ((journal6 (JX2 (XRefreshElapsed d)) m)
                 \<lparr>refreshOwed := True, reconfDetour := True, pendingType := MsgInformationRequest\<rparr>)
          else if t = Timer6Delay then startExchange now rnd MsgInformationRequest m
          else ignore_timer t m
      | Ev6AddressLost \<Rightarrow> lose_to_conflict now rnd (BWithdrawn State6Bound) m
      | Ev6DADResult d \<Rightarrow>
          if \<not> dadDuplicate d then journal6 (JB2 (BDADForBound d False)) m
          else lose_to_conflict now rnd (BDADForBound d True) m
      | Ev6Release \<Rightarrow> release6 now rnd m
      | Ev6Received msg _ _ \<Rightarrow> journal6 (JDrop6 (DMessageIgnored (state6 m))) (countRapidDiscard msg m)
      | Ev6Start \<Rightarrow> already m
      | _ \<Rightarrow> common_event ev m)"

definition stepRenewal6 :: "Instant \<Rightarrow> rnd64 \<Rightarrow> Event6 \<Rightarrow> Machine6 \<Rightarrow> Machine6" where
  "stepRenewal6 now rnd ev m =
     (case ev of
        Ev6Received msg _ _ \<Rightarrow> on_reply msg (takeReply now rnd) m
      | Ev6TimerFired t \<Rightarrow>
          if t = Timer6Retransmit then
            retransmit now rnd
              (if resumeRebind m then Some (\<lambda>m. continueFromResume now rnd False (journal6 (JX4 XResumedExhausted) m)) else None) m
          else if t = Timer6Rebind then
            (if state6 m = State6Renewing then enterRebinding6 now rnd m else journal6 (JDrop6 DAlreadyRenewTimer) m)
          else if t = Timer6Renew then journal6 (JDrop6 DAlreadyRenewTimer) m
          else ignore_timer t m
      | Ev6AddressLost \<Rightarrow> lose_to_conflict now rnd (BWithdrawn (state6 m)) m
      | Ev6Release \<Rightarrow> release6 now rnd m
      | _ \<Rightarrow> common_event ev m)"

section \<open>Step\<close>

definition step_state6 :: "Instant \<Rightarrow> rnd64 \<Rightarrow> Event6 \<Rightarrow> Machine6 \<Rightarrow> Machine6" where
  "step_state6 now rnd ev m =
     (case state6 m of
        State6Stopped \<Rightarrow> stepStopped6 now rnd ev m
      | State6Init \<Rightarrow> stepInit6 now rnd ev m
      | State6Selecting \<Rightarrow> stepSelecting6 now rnd ev m
      | State6Requesting \<Rightarrow> stepRequesting6 now rnd ev m
      | State6Confirming \<Rightarrow> stepConfirming6 now rnd ev m
      | State6InfoRequesting \<Rightarrow> stepInfoRequesting6 now rnd ev m
      | State6DAD \<Rightarrow> stepDAD6 now rnd ev m
      | State6Discovering \<Rightarrow> stepDiscovering6 now rnd ev m
      | State6Bound \<Rightarrow> stepBound6 now rnd ev m
      | State6Renewing \<Rightarrow> stepRenewal6 now rnd ev m
      | State6Rebinding \<Rightarrow> stepRenewal6 now rnd ev m)"

definition dispatch6 :: "Instant \<Rightarrow> rnd64 \<Rightarrow> Event6 \<Rightarrow> Machine6 \<Rightarrow> Machine6" where
  "dispatch6 now rnd ev m =
     (case ev of
        Ev6RouterAdvert ra \<Rightarrow> observeRouter now rnd ra m
      | Ev6TimerFired t \<Rightarrow>
          if t = Timer6RouterSolicit then routerSolicitTick now rnd m
          else if t = Timer6SLAAC then slaacTick now rnd m
          else if t = Timer6AutoFallback then autoFallbackFired now rnd m
          else if t = Timer6Expire then expireLease now rnd m
          else step_state6 now rnd ev m
      | Ev6SetHostname name \<Rightarrow> takeHostname6 now rnd name m
      | Ev6ActionFailed a why \<Rightarrow> noteActionFailed6 a why m
      | Ev6Received msg raw dst \<Rightarrow>
          (case msg of
             Some msg' \<Rightarrow> if Type6 msg' = MsgReconfigure then takeReconfigure now rnd msg' raw dst m else step_state6 now rnd ev m
           | None \<Rightarrow> step_state6 now rnd ev m)
      | Ev6ARPReceived \<Rightarrow> journal6 (JDrop6 (DV4Event KARPReceived (state6 m))) m
      | Ev6ConflictDetected \<Rightarrow> journal6 (JDrop6 (DV4Event KConflictDetected (state6 m))) m
      | _ \<Rightarrow> step_state6 now rnd ev m)"

definition Step6 :: "Instant \<Rightarrow> rnd64 \<Rightarrow> Event6 \<Rightarrow> Machine6 \<Rightarrow> Machine6" where
  "Step6 now rnd ev m =
     (let m = m\<lparr>out6 := []\<rparr>;
          m = (if roSeen (router m)
               then case fill_routers now (routers m) (router m) of (t, obs) \<Rightarrow> m\<lparr>routers := t, router := obs\<rparr> else m)
      in dispatch6 now rnd ev m)"

definition zero_machine6 :: "Params6 \<Rightarrow> Machine6" where
  "zero_machine6 p = \<lparr>params6 = p, hostname6 = P6Hostname p, exchangeName = [], nameOnWire6 = [], state6 = State6Stopped,
     nextAction6 = 0, msgType = 0, xid6 = 0, sched = \<lparr>IRT = 0, MRT = 0, MRC = 0, MRD = 0\<rparr>, exchangeStart = 0, rt = 0,
     transmits = 0, sendFailures6 = 0, pendingType = 0, adverts = [], windowDone = False, tried = [], server6 = [],
     lease6 = zero_lease6, haveLse6 = False, pending = zero_lease6, havePending = False, pendingRenewal = False,
     dadWait = [], dadBad = [], carried = [], declining = [], decliningTA = [], releasing = [], releasingPrefixes = [],
     releasingTA = [], releasePD = [], releasePDServer = [], afterDecline = None, declined = [], resume6 = P6Resume p,
     router = \<lparr>roSeen = False, roManaged = False, roOther = False, roRouter = NoAddr, roPrefixes = [], roRouters = [],
       roMTU = 0, roDNS = [], roSearch = [], roRoutes = [], roPREF64 = []\<rparr>,
     routers = zero_routers, rsCount = 0, config = \<lparr>c6DNS = [], c6Search = [], c6RefreshTime = 0\<rparr>, refresh6 = 0,
     reconf = Map.empty, reconfCounts = \<lparr>rcAccepted = 0, rcRefused = \<lambda>_. 0\<rparr>,
     rapidCounts6 = \<lparr>rk6Accepted = 0, rk6Refused = 0\<rparr>,
     tempCounts = \<lparr>tp6Granted = 0, tp6Refused = 0, tp6Absent = 0, tp6Conflicted = 0\<rparr>,
     pdCounts = \<lparr>pd6Granted = 0, pd6Refused = 0, pd6Absent = 0, pd6Changed = 0\<rparr>,
     resumeRebind = False, rebindOwed = False, pdSent = False, naSent = False, scope = scopeAll, nextScope = scopeAll,
     holdoff = 0, omitRT = 0, resumeAt = 0, hintOffLink = NoAddr, reconfDetour = False, reconfServerID = [],
     refreshOwed = False, slaac = zero_table, slaacPhases = [], autoDecided = False, dhcpCommitted = False,
     deferredPrefixes = [], wantConfig = False, askedConfig = False, out6 = []\<rparr>"

definition New6 :: "Params6 \<Rightarrow> params6_error + Machine6" where
  "New6 p = bind_res (validate6 p) (\<lambda>_. Inr (seedReconfigure (P6Resume p) (rememberDeclined (P6Declined p) (zero_machine6 p))))"

end
