(* ===== verification/Proto6_Slaac_Properties.thy ===== *)
theory Proto6_Slaac_Properties
  imports Proto6_Slaac Proto6_Lease_Properties
begin

text \<open>
  What holds of the table of formed addresses whatever routers advertise: each address lies in the
  prefix it was formed from, no prefix has two, and there are at most eight; and no advertisement ends
  an address early, the two hour rule of RFC 4862 section 5.5.3 e.
\<close>

section \<open>The shape of the table\<close>

text \<open>The network an address was formed from.\<close>

definition network64 :: "addr \<Rightarrow> prefix" where
  "network64 a = Masked (PrefixFrom a 64)"

definition entry_ok :: "slaacEntry \<Rightarrow> bool" where
  "entry_ok e \<longleftrightarrow> Is6 (seAddr e) \<and> sePrefix e = network64 (seAddr e)"

definition table_ok :: "slaacTable \<Rightarrow> bool" where
  "table_ok t \<longleftrightarrow> length (stEntries t) \<le> MaxSLAACAddresses \<and> distinct (map sePrefix (stEntries t))
     \<and> list_all entry_ok (stEntries t)"

lemma network64_Addr6: "network64 (Addr6 w) = \<lparr>paddr = Addr6 (w AND NOT (mask 64)), pbits = 64\<rparr>"
  by (simp add: network64_def Masked_def PrefixFrom_def)

lemma network64_paddr: "Is6 a \<Longrightarrow> network64 (paddr (network64 a)) = network64 a"
  by (cases a) (simp_all add: network64_Addr6 and.assoc)

lemma upper_octets:
  assumes "length xs = 8" "length ys = 8" "length zs = 8"
  shows "ube128 (xs @ ys) AND NOT (mask 64) = ube128 (xs @ zs) AND NOT (mask 64)"
proof (rule bit_word_eqI)
  fix n assume "n < LENGTH(128)"
  then have n: "n < 128" by simp
  show "bit (ube128 (xs @ ys) AND NOT (mask 64)) n = bit (ube128 (xs @ zs) AND NOT (mask 64)) n"
  proof (cases "n < 64")
    case False
    then have "15 - n div 8 < 8" using n by presburger
    then show ?thesis using assms n by (simp add: ube128_def bit_from_octets bit_simps nth_append)
  qed (simp add: bit_simps)
qed

lemma formed_in_network:
  assumes "formSLAAC p n src c = Inr a"
  shows "Is6 a" "network64 a = network64 p" "uint n = 64"
proof -
  obtain w id where p: "p = Addr6 w" and n: "uint n = 64" and id: "iid src (PrefixFrom p (uint n)) c = Inr id"
    and a: "a = AddrFrom16 (take 8 (As16 p) @ id)"
    using assms by (cases p) (auto simp: formSLAAC_def lengthsSumTo128_def bind_res_eq_Inr split: if_splits)
  have "length id = 8" by (rule iid_length [OF id])
  then have "ube128 (take 8 (be128 w) @ id) AND NOT (mask 64) = ube128 (take 8 (be128 w) @ drop 8 (be128 w)) AND NOT (mask 64)"
    by (intro upper_octets) simp_all
  then show "Is6 a" "network64 a = network64 p" "uint n = 64"
    using p n a by (simp_all add: AddrFrom16_def network64_Addr6)
qed

lemma find_prefix_None: "find_prefix t p = None \<Longrightarrow> Masked p \<notin> sePrefix ` set (stEntries t)"
  by (auto simp: find_prefix_def find_None_iff in_set_conv_nth)

lemma find_prefix_Some:
  assumes "find_prefix t p = Some i"
  shows "i < length (stEntries t)" "sePrefix (stEntries t ! i) = Masked p"
  using assms by (auto simp: find_prefix_def find_Some_iff)

lemma find_addr_Some:
  assumes "find_addr t a = Some i"
  shows "i < length (stEntries t)" "seAddr (stEntries t ! i) = a"
  using assms by (auto simp: find_addr_def find_Some_iff)

text \<open>Replacing an entry by one of the same prefix.\<close>

lemma table_ok_update:
  assumes "table_ok t" "i < length (stEntries t)" "entry_ok e" "sePrefix e = sePrefix (stEntries t ! i)"
  shows "table_ok (t\<lparr>stEntries := (stEntries t)[i := e]\<rparr>)"
proof -
  have "map sePrefix ((stEntries t)[i := e]) = map sePrefix (stEntries t)"
    using assms(4) by (simp add: map_update) (metis assms(2) list_update_id nth_map)
  then show ?thesis
    using assms by (auto simp: table_ok_def list_all_iff dest!: set_update_subset_insert [THEN subsetD])
qed

lemma table_ok_append:
  assumes "table_ok t" "length (stEntries t) < 8" "entry_ok e" "sePrefix e \<notin> sePrefix ` set (stEntries t)"
  shows "table_ok (t\<lparr>stEntries := stEntries t @ [e]\<rparr>)"
  using assms by (simp add: table_ok_def)

text \<open>Fields the predicate does not read.\<close>

lemma table_ok_other [simp]:
  "table_ok (t\<lparr>stCounts := c\<rparr>) = table_ok t"
  "table_ok (t\<lparr>stRefused := r\<rparr>) = table_ok t"
  "table_ok (t\<lparr>stDadCount := d\<rparr>) = table_ok t"
  by (simp_all add: table_ok_def)

lemma table_ok_zero [simp]: "table_ok zero_table"
  by (simp add: table_ok_def zero_table_def)

lemma table_ok_nth: "table_ok t \<Longrightarrow> i < length (stEntries t) \<Longrightarrow> entry_ok (stEntries t ! i)"
  by (simp add: table_ok_def list_all_length)

lemma refresh_entry_fields [simp]:
  "sePrefix (refresh_entry now p v e) = sePrefix e"
  "seAddr (refresh_entry now p v e) = seAddr e"
  "entry_ok (refresh_entry now p v e) = entry_ok e"
  by (simp_all add: refresh_entry_def entry_ok_def Let_def)

lemma slaacOptionRules_Inr:
  assumes "slaacOptionRules pi = Inr p"
  shows "Is6 (piPrefix pi)" "p = Masked (PrefixFrom (piPrefix pi) (uint (piLen pi)))"
  using assms by (auto simp: slaacOptionRules_def Let_def split: if_splits)

lemma applyPIO_ok: "table_ok t \<Longrightarrow> table_ok (fst (applyPIO now pi src t))"
proof (cases "slaacOptionRules pi")
  case (Inr p)
  assume t: "table_ok t"
  note p = slaacOptionRules_Inr [OF Inr]
  show ?thesis
  proof (cases "find_prefix t p")
    case None
    show ?thesis
    proof (cases "slaacFormRules pi src (stDadCount t p)")
      case (Inr a)
      then have f: "formSLAAC (piPrefix pi) (piLen pi) src (stDadCount t p) = Inr a"
        by (auto simp: slaacFormRules_def split: if_splits sum.splits)
      note a = formed_in_network [OF f]
      have "p = network64 a" using a p by (simp add: network64_def)
      moreover have "Masked p = p" using p by simp
      ultimately show ?thesis
        using t None \<open>slaacOptionRules pi = Inr p\<close> Inr a(1) find_prefix_None [OF None]
        by (auto simp: applyPIO_def entry_ok_def intro!: table_ok_append)
    qed (use t None Inr in \<open>simp add: applyPIO_def\<close>)
  next
    case (Some i)
    then show ?thesis
      using t Inr find_prefix_Some [OF Some] table_ok_nth [OF t]
      by (auto simp: applyPIO_def refresh_def Let_def intro!: table_ok_update)
  qed
qed (simp add: applyPIO_def)

lemma retry_loop_forms:
  assumes "retry_loop refused src p c = (d, Some a)"
  shows "\<exists>c'. formSLAAC (paddr p) (word_of_int (pbits p)) src c' = Inr a \<and> a \<notin> set refused"
  using assms
proof (induction refused src p c rule: retry_loop.induct)
  case (1 refused src p c)
  show ?case
    using "1.prems" "1.IH" by (subst (asm) (1) retry_loop.simps) (auto split: if_splits sum.splits)
qed

lemma retry_ok: "table_ok t \<Longrightarrow> table_ok (fst (retry a src t))"
proof (cases "find_addr t a")
  case (Some i)
  assume t: "table_ok t"
  let ?e = "stEntries t ! i"
  have i: "i < length (stEntries t)" by (rule find_addr_Some(1) [OF Some])
  have e: "entry_ok ?e" by (rule table_ok_nth [OF t i])
  obtain c r where l: "retry_loop (stRefused t) src (sePrefix ?e) (stDadCount t (sePrefix ?e)) = (c, r)" by fastforce
  show ?thesis
  proof (cases r)
    case (Some b)
    obtain c' where f: "formSLAAC (paddr (sePrefix ?e)) (word_of_int (pbits (sePrefix ?e))) src c' = Inr b"
      using retry_loop_forms l Some by blast
    have "network64 b = sePrefix ?e" "Is6 b"
      using formed_in_network [OF f] e network64_paddr by (auto simp: entry_ok_def)
    then have "table_ok (t\<lparr>stEntries := (stEntries t)[i := ?e\<lparr>seAddr := b, seTentative := True\<rparr>]\<rparr>)"
      using t i e by (intro table_ok_update) (auto simp: entry_ok_def)
    then show ?thesis using \<open>find_addr t a = Some i\<close> l Some by (simp add: retry_def Let_def table_ok_def)
  qed (use t \<open>find_addr t a = Some i\<close> l in \<open>simp add: retry_def Let_def\<close>)
qed (simp add: retry_def)

lemma drop_addr_ok: "table_ok t \<Longrightarrow> table_ok (fst (drop_addr a t))"
proof (cases "find_addr t a")
  case (Some i)
  assume t: "table_ok t"
  have i: "i < length (stEntries t)" by (rule find_addr_Some(1) [OF Some])
  then have es: "stEntries t = take i (stEntries t) @ stEntries t ! i # drop (i + 1) (stEntries t)"
    by (simp add: id_take_nth_drop)
  have "table_ok (t\<lparr>stEntries := xs @ ys\<rparr>)" if "stEntries t = xs @ x # ys" for xs x ys
    using t that by (simp add: table_ok_def)
  from this [OF es] show ?thesis using Some by (simp add: drop_addr_def)
qed (simp add: drop_addr_def)

lemma settle_ok: "table_ok t \<Longrightarrow> table_ok (settle a t)"
proof (cases "find_addr t a")
  case (Some i)
  assume t: "table_ok t"
  show ?thesis
    using find_addr_Some [OF Some] table_ok_nth [OF t] t Some
    by (auto simp: settle_def entry_ok_def intro!: table_ok_update)
qed (simp add: settle_def)

lemma expire_ok: "table_ok t \<Longrightarrow> table_ok (fst (expire_entries now t))"
proof -
  assume t: "table_ok t"
  have "length (filter (\<lambda>e. \<not> expired e now) (stEntries t)) \<le> 8"
    using t le_trans [OF length_filter_le] by (auto simp: table_ok_def)
  then show ?thesis
    using t by (simp add: expire_entries_def table_ok_def Let_def list_all_iff distinct_map_filter)
qed

lemma refuse_ok [simp]: "table_ok (refuse a t) = table_ok t"
  by (simp add: refuse_def)

section \<open>The two hour rule\<close>

text \<open>An entry whose lifetimes came off the wire and count from an instant up to \<open>u\<close>.\<close>

definition dated :: "Instant \<Rightarrow> slaacEntry \<Rightarrow> bool" where
  "dated u e \<longleftrightarrow> 0 \<le> seStart e \<and> seStart e \<le> u \<and> u \<le> 2 ^ 62 \<and> wire_time (seValid e)"

lemma dated_later: "dated u e \<Longrightarrow> u \<le> u' \<Longrightarrow> u' \<le> 2 ^ 62 \<Longrightarrow> dated u' e"
  by (simp add: dated_def)

lemma expired_iff: "dated u e \<Longrightarrow> expired e now \<longleftrightarrow> seValid e \<noteq> Infinite \<and> seStart e + seValid e \<le> now"
  by (auto simp: dated_def expired_def IsInfinite_def Add_def wire_time_def i64_id in64_def)

lemma remaining_value:
  assumes "dated u e"
  shows "remaining e u = (if seValid e = Infinite then Infinite else max 0 (seStart e + seValid e - u))"
  using assms by (auto simp: dated_def remaining_def IsInfinite_def Add_def Sub_def wire_time_def i64_id in64_def Let_def)

text \<open>One refresh leaves the entry its end, or two hours from now.\<close>

lemma refresh_entry_end:
  assumes "dated u e" "wire_time v"
  shows "dated u (refresh_entry u p v e)"
    and "expired (refresh_entry u p v e) now \<Longrightarrow> expired e now \<or> u + TwoHours \<le> now"
proof -
  let ?e = "refresh_entry u p v e"
  have f: "seStart ?e = u" "seValid ?e = refreshed_valid v (remaining e u)"
    by (simp_all add: refresh_entry_def Let_def)
  have w: "wire_time (refreshed_valid v (remaining e u))"
    using assms by (auto simp: refreshed_valid_def remaining_value wire_time_def dated_def)
  then show d: "dated u ?e" using assms f by (auto simp: dated_def)
  have neg: "Infinite < 0" by (simp add: Infinite_def)
  show "expired e now \<or> u + TwoHours \<le> now" if "expired ?e now"
    using that assms neg
    by (auto simp: expired_iff [OF d] expired_iff [OF assms(1)] f remaining_value refreshed_valid_def durGreater_def IsInfinite_def
        max_def split: if_splits)
qed

text \<open>The entry an entry becomes, with its end or two hours from \<open>u\<close> on.\<close>

definition outlives :: "Instant \<Rightarrow> slaacEntry \<Rightarrow> slaacEntry \<Rightarrow> bool" where
  "outlives u e e' \<longleftrightarrow> sePrefix e' = sePrefix e \<and> seAddr e' = seAddr e
     \<and> (\<forall>now. expired e' now \<longrightarrow> expired e now \<or> u + TwoHours \<le> now)"

lemma applyPIO_outlives:
  assumes "e \<in> set (stEntries t)" "dated u e"
  shows "\<exists>e'\<in>set (stEntries (fst (applyPIO u pi src t))). outlives u e e' \<and> dated u e'"
proof (cases "slaacOptionRules pi")
  case (Inr p)
  have self: "outlives u e e" by (simp add: outlives_def)
  show ?thesis
  proof (cases "find_prefix t p")
    case (Some i)
    let ?n = "refresh_entry u (SecondsToDuration (piPreferred pi)) (SecondsToDuration (piValid pi)) (stEntries t ! i)"
    have i: "i < length (stEntries t)" by (rule find_prefix_Some(1) [OF Some])
    have es: "stEntries (fst (applyPIO u pi src t)) = (stEntries t)[i := ?n]"
      using Inr Some by (simp add: applyPIO_def refresh_def Let_def)
    obtain j where j: "j < length (stEntries t)" "stEntries t ! j = e" using assms(1) by (auto simp: in_set_conv_nth)
    show ?thesis
    proof (cases "j = i")
      case True
      then have "outlives u e ?n \<and> dated u ?n"
        using j refresh_entry_end [OF assms(2) wire_time_seconds] by (auto simp: outlives_def)
      then show ?thesis using es i set_update_memI by metis
    next
      case False
      then have "(stEntries t)[i := ?n] ! j = e" using j by simp
      then have "e \<in> set ((stEntries t)[i := ?n])" using j by (metis length_list_update nth_mem)
      then show ?thesis using es self assms(2) by auto
    qed
  next
    case None
    then show ?thesis
      using assms Inr self by (auto simp: applyPIO_def split: sum.split)
  qed
qed (use assms in \<open>auto simp: applyPIO_def outlives_def\<close>)

definition advertised :: "iidSource \<Rightarrow> (Instant \<times> PrefixInfo) list \<Rightarrow> slaacTable \<Rightarrow> slaacTable" where
  "advertised src ads t = fold (\<lambda>(u, pi) t. fst (applyPIO u pi src t)) ads t"

lemma outlives_trans:
  assumes "outlives u e f" "outlives u' f g" "u \<le> u'"
  shows "outlives u e g"
proof -
  have "u + TwoHours \<le> now" if "u' + TwoHours \<le> now" for now using that assms(3) by linarith
  then show ?thesis using assms(1,2) by (auto simp: outlives_def)
qed



end
