(* ===== verification/Proto6_Router_Properties.thy ===== *)
theory Proto6_Router_Properties
  imports Proto6_Router
begin

text \<open>
  What holds of the router table whatever is advertised: every list stays within its cap and names
  nothing twice, and a full list of resolvers, search domains or prefixes gives up the entry that
  ends first.
\<close>

section \<open>Which entry is evicted\<close>

lemma expiresBefore_trans: "expiresBefore a b \<Longrightarrow> expiresBefore b c \<Longrightarrow> expiresBefore a c"
  by (auto simp: expiresBefore_def split: if_splits)

lemma expiresBefore_weak: "expiresBefore a c \<Longrightarrow> expiresBefore a b \<or> expiresBefore b c"
  by (auto simp: expiresBefore_def split: if_splits)

lemma expiresBefore_asym: "expiresBefore a b \<Longrightarrow> \<not> expiresBefore b a"
  by (auto simp: expiresBefore_def split: if_splits)

text \<open>One element goes at least as early as another: it ends first, or they end together and it is the newer.\<close>

definition goes_first :: "timedEntry \<times> int \<Rightarrow> timedEntry \<times> int \<Rightarrow> bool" where
  "goes_first a b \<longleftrightarrow> expiresBefore (fst a) (fst b) \<or> \<not> expiresBefore (fst b) (fst a) \<and> snd b \<le> snd a"

lemma goes_first_worse: "\<not> worse i b \<Longrightarrow> goes_first b i"
  by (auto simp: worse_def goes_first_def)

lemma worse_goes_first: "worse i b \<Longrightarrow> goes_first i b"
  by (auto simp: worse_def goes_first_def)

lemma goes_first_trans: "goes_first a b \<Longrightarrow> goes_first b c \<Longrightarrow> goes_first a c"
  unfolding goes_first_def
  by (meson expiresBefore_trans expiresBefore_weak order_trans)

lemma goes_first_refl: "goes_first a a"
  by (auto simp: goes_first_def expiresBefore_def)

lemma shortest_first:
  assumes "xs \<noteq> []"
  shows "shortest key xs < length xs" "\<And>j. j < length xs \<Longrightarrow> goes_first (key (xs ! shortest key xs)) (key (xs ! j))"
proof -
  let ?f = "\<lambda>idx i. if worse (key (xs ! i)) (key (xs ! idx)) then i else idx"
  have "foldl ?f 0 [0..<n] < length xs \<and> (\<forall>j<n. goes_first (key (xs ! foldl ?f 0 [0..<n])) (key (xs ! j)))"
    if "n \<le> length xs" for n
    using that
  proof (induction n)
    case (Suc n)
    let ?k = "foldl ?f 0 [0..<n]"
    have IH: "?k < length xs" "\<forall>j<n. goes_first (key (xs ! ?k)) (key (xs ! j))" using Suc by auto
    show ?case
    proof (cases "worse (key (xs ! n)) (key (xs ! ?k))")
      case True
      then have "goes_first (key (xs ! n)) (key (xs ! j))" if "j < Suc n" for j
        using that IH(2) goes_first_trans [OF worse_goes_first [OF True]] goes_first_refl
        by (cases "j = n") auto
      then show ?thesis using True Suc.prems by simp
    next
      case False
      then show ?thesis using IH goes_first_worse [OF False] by (auto simp: less_Suc_eq)
    qed
  qed (use assms in simp)
  from this [of "length xs"] show "shortest key xs < length xs"
    "\<And>j. j < length xs \<Longrightarrow> goes_first (key (xs ! shortest key xs)) (key (xs ! j))"
    by (auto simp: shortest_def)
qed

lemma evictShortest_split:
  assumes "xs \<noteq> []"
  obtains ys x zs where "xs = ys @ x # zs" "evictShortest key xs = ys @ zs" "\<forall>y\<in>set xs. goes_first (key x) (key y)"
proof -
  let ?k = "shortest key xs"
  have k: "?k < length xs" by (rule shortest_first(1) [OF assms])
  show thesis
  proof (rule that)
    show "xs = take ?k xs @ xs ! ?k # drop (?k + 1) xs" using k by (simp add: id_take_nth_drop)
    show "evictShortest key xs = take ?k xs @ drop (?k + 1) xs" by (simp add: evictShortest_def Let_def)
    show "\<forall>y\<in>set xs. goes_first (key (xs ! ?k)) (key y)"
      using shortest_first(2) [OF assms] by (auto simp: in_set_conv_nth)
  qed
qed

section \<open>Lists without doubles, within a cap\<close>

definition capped :: "nat \<Rightarrow> ('a \<Rightarrow> 'k) \<Rightarrow> 'a list \<Rightarrow> bool" where
  "capped n key xs \<longleftrightarrow> length xs \<le> n \<and> distinct (map key xs)"

lemma capped_filter: "capped n key xs \<Longrightarrow> capped n key (filter P xs)"
  by (auto simp: capped_def distinct_map_filter intro: le_trans [OF length_filter_le])

lemma capped_remove: "capped n key xs \<Longrightarrow> i < length xs \<Longrightarrow> capped n key (take i xs @ drop (i + 1) xs)"
proof -
  assume c: "capped n key xs" and i: "i < length xs"
  have "capped n key (ys @ zs)" if "xs = ys @ y # zs" for ys y zs
    using c that by (auto simp: capped_def)
  then show ?thesis using id_take_nth_drop [OF i] by simp
qed

lemma capped_update: "capped n key xs \<Longrightarrow> i < length xs \<Longrightarrow> key x = key (xs ! i) \<Longrightarrow> capped n key (xs[i := x])"
  by (simp add: capped_def map_update) (metis list_update_id nth_map)

lemma capped_append: "capped n key xs \<Longrightarrow> length xs < n \<Longrightarrow> key x \<notin> key ` set xs \<Longrightarrow> capped n key (xs @ [x])"
  by (simp add: capped_def)

lemma capped_map: "capped n key xs \<Longrightarrow> (\<And>x. key (f x) = key x) \<Longrightarrow> capped n key (map f xs)"
  by (simp add: capped_def comp_def)

lemma find_index_Some: "find_index P xs = Some i \<Longrightarrow> i < length xs \<and> P (xs ! i)"
  by (auto simp: find_index_def find_Some_iff)

lemma find_index_None: "find_index P xs = None \<Longrightarrow> \<forall>x\<in>set xs. \<not> P x"
  by (auto simp: find_index_def find_None_iff in_set_conv_nth)

lemma hold_entry_capped:
  assumes "capped n heValue es" "0 < n"
  shows "capped n heValue (fst (hold_entry now n secs seq v es))"
proof (cases "find_index (\<lambda>e. heValue e = v) es")
  case None
  note new = find_index_None [OF None]
  consider "secs = 0" | "secs \<noteq> 0" "length es < n" | "secs \<noteq> 0" "length es \<ge> n" by linarith
  then show ?thesis
  proof cases
    case 1
    then show ?thesis using assms None by (simp add: hold_entry_def)
  next
    case 2
    then show ?thesis using assms None new by (auto simp: hold_entry_def Let_def intro!: capped_append)
  next
    case 3
    then have ne: "es \<noteq> []" "length es = n" using 3 assms by (auto simp: capped_def)
    obtain ys x zs where es: "es = ys @ x # zs" "evictShortest (\<lambda>e. (heLife e, heSeq e)) es = ys @ zs"
      by (rule evictShortest_split [OF ne(1), of "\<lambda>e. (heLife e, heSeq e)"])
    have h: "fst (hold_entry now n secs seq v es) = ys @ zs @ [\<lparr>heValue = v, heLife = entryUntil now secs, heSeq = seq\<rparr>]"
      using 3 None es(2) by (simp add: hold_entry_def Let_def)
    show ?thesis unfolding h using assms(1) new unfolding es(1) by (auto simp: capped_def)
  qed
next
  case (Some i)
  then show ?thesis
    using find_index_Some [OF Some] assms
    by (cases "secs = 0") (auto simp: hold_entry_def intro: capped_remove [simplified] capped_update)
qed



section \<open>The table\<close>

definition routers_ok :: "routerTable \<Rightarrow> bool" where
  "routers_ok t \<longleftrightarrow> capped maxRouters reAddr (tRouters t) \<and> capped maxRouterDNS heValue (tDNS t)
     \<and> capped maxRouterSearch heValue (tSearch t) \<and> capped maxRouterRoutes (\<lambda>r. (rtVia r, rtPrefix r)) (tRoutes t)
     \<and> capped maxRouterPref64 heValue (tPref64 t)"

lemma routers_ok_zero [simp]: "routers_ok zero_routers"
  by (simp add: routers_ok_def zero_routers_def capped_def)

lemma prune_ok: "routers_ok t \<Longrightarrow> routers_ok (prune now t)"
  by (auto simp: routers_ok_def prune_def Let_def intro!: capped_filter capped_map)

lemma observeRouterLifetime_ok: "routers_ok t \<Longrightarrow> routers_ok (observeRouterLifetime now ra t)"
proof (cases "find_index (\<lambda>r. reAddr r = raRouter ra) (tRouters t)")
  case None
  assume "routers_ok t"
  then show ?thesis
    using find_index_None [OF None] None
    by (auto simp: observeRouterLifetime_def routers_ok_def Let_def intro!: capped_append)
next
  case (Some i)
  assume "routers_ok t"
  then show ?thesis
    using find_index_Some [OF Some] Some
    by (auto simp: observeRouterLifetime_def routers_ok_def Let_def intro!: capped_update)
qed

lemma observeMTU_ok: "routers_ok t \<Longrightarrow> routers_ok (observeMTU ra t)"
  by (simp add: observeMTU_def routers_ok_def)

lemma count_hold_lists [simp]:
  "tRouters (count_hold c t) = tRouters t" "tDNS (count_hold c t) = tDNS t" "tSearch (count_hold c t) = tSearch t"
  "tRoutes (count_hold c t) = tRoutes t" "tPref64 (count_hold c t) = tPref64 t"
  by (simp_all add: count_hold_def split: prod.split)

lemma observe_dns_ok: "routers_ok t \<Longrightarrow> routers_ok (observe_dns now secs a t)"
  using hold_entry_capped [of 8 "tDNS t" now secs "next_seq t" a]
  by (auto simp: observe_dns_def routers_ok_def split: prod.split)

lemma observe_search_ok: "routers_ok t \<Longrightarrow> routers_ok (observe_search now secs n t)"
  using hold_entry_capped [of 8 "tSearch t" now secs "next_seq t" n]
  by (auto simp: observe_search_def routers_ok_def split: prod.split)

lemma observePREF64_ok: "routers_ok t \<Longrightarrow> routers_ok (observePREF64 now p t)"
  using hold_entry_capped [of 4 "tPref64 t" now "p64Lifetime p" "next_seq t" "Masked (p64Prefix p)"]
  by (auto simp: observePREF64_def routers_ok_def split: prod.split)

lemma observeRoute_ok: "routers_ok t \<Longrightarrow> routers_ok (observeRoute now via ri t)"
proof (cases "find_index (\<lambda>r. rtVia r = via \<and> rtPrefix r = riPrefix ri) (tRoutes t)")
  case None
  assume "routers_ok t"
  then show ?thesis
    using find_index_None [OF None] None
    by (cases "riLifetime ri = 0") (auto simp: observeRoute_def routers_ok_def intro!: capped_append)
next
  case (Some i)
  assume "routers_ok t"
  then show ?thesis
    using find_index_Some [OF Some] Some
    by (cases "riLifetime ri = 0") (auto simp: observeRoute_def routers_ok_def intro!: capped_update capped_remove [simplified])
qed

lemma fold_ok: "(\<And>x t. routers_ok t \<Longrightarrow> routers_ok (f x t)) \<Longrightarrow> routers_ok t \<Longrightarrow> routers_ok (fold f xs t)"
  by (induction xs arbitrary: t) auto

lemma observe_advert_ok: "routers_ok t \<Longrightarrow> routers_ok (fst (observe_advert now ra t))"
  unfolding observe_advert_def observeRDNSS_def observeDNSSL_def
  by (auto simp: Let_def intro!: fold_ok prune_ok observeMTU_ok observeRouterLifetime_ok observe_dns_ok observe_search_ok
      observeRoute_ok observePREF64_ok)

lemma fill_routers_ok: "routers_ok t \<Longrightarrow> routers_ok (fst (fill_routers now t obs))"
  by (simp add: fill_routers_def prune_ok Let_def)

end
