(* ===== verification/Proto6_Moves.thy ===== *)
theory Proto6_Moves
  imports Proto6_Step Proto6_Slaac_Properties Proto6_Router_Properties
begin

named_theorems calls6 \<open>methods of the machine that preserve a predicate\<close>

text \<open>
  The DHCPv6 machine as a composition of moves. A method of \<^verbatim>\<open>*Machine6\<close> assigns fields, emits
  actions, sends a message it built, and takes, changes or loses the lease. The locale \<open>moves6\<close>
  names the moves that leave the lease and the reconfigure keys alone, and proves once that every
  method made of them preserves a predicate those moves preserve; \<open>lease_moves6\<close> adds the others, up
  to \<open>Step6\<close>. Each property of every execution is an interpretation.
\<close>

section \<open>What a move may change\<close>

text \<open>Parameters that differ in the two timeouts a server moves, within the range it may, and in nothing else.\<close>

definition moved_rt :: "Duration \<Rightarrow> Duration \<Rightarrow> bool" where
  "moved_rt d d' \<longleftrightarrow> d' = d \<or> 60 * Second \<le> d' \<and> d' \<le> 86400 * Second"

definition same_client :: "Params6 \<Rightarrow> Params6 \<Rightarrow> bool" where
  "same_client p q \<longleftrightarrow> q\<lparr>SolMaxRT := SolMaxRT p, InfMaxRT := InfMaxRT p\<rparr> = p
     \<and> moved_rt (SolMaxRT p) (SolMaxRT q) \<and> moved_rt (InfMaxRT p) (InfMaxRT q)"

lemma same_client_refl [simp]: "same_client p p"
  by (simp add: same_client_def moved_rt_def)

lemma same_client_trans:
  assumes "same_client p q" "same_client q r"
  shows "same_client p r"
proof -
  have "moved_rt (SolMaxRT p) (SolMaxRT r)" "moved_rt (InfMaxRT p) (InfMaxRT r)"
    using assms by (auto simp: same_client_def moved_rt_def)
  moreover have "r\<lparr>SolMaxRT := SolMaxRT p, InfMaxRT := InfMaxRT p\<rparr> = p"
  proof -
    have "r\<lparr>SolMaxRT := SolMaxRT p, InfMaxRT := InfMaxRT p\<rparr>
      = (r\<lparr>SolMaxRT := SolMaxRT q, InfMaxRT := InfMaxRT q\<rparr>)\<lparr>SolMaxRT := SolMaxRT p, InfMaxRT := InfMaxRT p\<rparr>" by simp
    also have "\<dots> = q\<lparr>SolMaxRT := SolMaxRT p, InfMaxRT := InfMaxRT p\<rparr>" using assms(2) by (simp only: same_client_def)
    finally show ?thesis using assms(1) by (simp only: same_client_def)
  qed
  ultimately show ?thesis by (simp add: same_client_def)
qed

lemma same_client_fields:
  assumes "same_client p q"
  shows "P6DUID q = P6DUID p" "P6IAID q = P6IAID p" "P6Mode q = P6Mode p" "AcceptReconfigure q = AcceptReconfigure p"
    "P6RapidCommit q = P6RapidCommit p" "hintAddr q = hintAddr p" "P6Hostname q = P6Hostname p"
proof -
  have q: "q\<lparr>SolMaxRT := SolMaxRT p, InfMaxRT := InfMaxRT p\<rparr> = p" using assms by (simp add: same_client_def)
  have "f q = f p" if "\<And>x y. f (q\<lparr>SolMaxRT := x, InfMaxRT := y\<rparr>) = f q" for f :: "Params6 \<Rightarrow> 'x"
    by (metis q that)
  from this [of P6DUID] this [of P6IAID] this [of P6Mode] this [of AcceptReconfigure] this [of P6RapidCommit]
    this [of hintAddr] this [of P6Hostname]
  show "P6DUID q = P6DUID p" "P6IAID q = P6IAID p" "P6Mode q = P6Mode p" "AcceptReconfigure q = AcceptReconfigure p"
    "P6RapidCommit q = P6RapidCommit p" "hintAddr q = hintAddr p" "P6Hostname q = P6Hostname p"
    by (simp_all add: hintAddr_def)
qed

lemma same_client_options: "same_client p (fst (ApplyOptions opts p))"
proof -
  obtain q a i e where o: "ApplyOptions opts p = (q, a, i, e)" by (cases "ApplyOptions opts p")
  show ?thesis using ApplyOptions_range [OF o] o by (simp add: same_client_def moved_rt_def)
qed

text \<open>The machine but for the fields a silent assignment must respect.\<close>

definition agree :: "Machine6 \<Rightarrow> Machine6 \<Rightarrow> bool" where
  "agree m n \<longleftrightarrow> out6 n = out6 m \<and> nextAction6 n = nextAction6 m \<and> haveLse6 n = haveLse6 m \<and> lease6 n = lease6 m
     \<and> reconf n = reconf m \<and> rcAccepted (reconfCounts n) = rcAccepted (reconfCounts m) \<and> slaac n = slaac m \<and> routers n = routers m
     \<and> (xid6 n = xid6 m \<or> xid6 n \<le> 0xFFFFFF)
     \<and> same_client (params6 m) (params6 n) \<and> set (declined m) \<subseteq> set (declined n)"

lemma agree_refl [simp]: "agree m m"
  by (simp add: agree_def)

fun quiet :: "Action6Body \<Rightarrow> bool" where
  "quiet (Act6Send _ _) = False"
| "quiet (Act6LeaseAcquired _ _) = False"
| "quiet (Act6LeaseChanged _) = False"
| "quiet (Act6LeaseRenewed _) = False"
| "quiet (Act6LeaseLost _ _) = False"
| "quiet _ = True"

section \<open>Moves that leave the lease alone\<close>

text \<open>The free relation of these moves: what can come of a machine without touching the lease.\<close>

inductive calm :: "Machine6 \<Rightarrow> Machine6 \<Rightarrow> bool" for m where
  calm_refl: "calm m m"
| calm_assign: "calm m n \<Longrightarrow> agree n k \<Longrightarrow> calm m k"
| calm_emit: "calm m n \<Longrightarrow> quiet b \<Longrightarrow> calm m (stamp6 b n)"
| calm_say: "calm m n \<Longrightarrow> fst (build now (msgType n) n) = Inr msg \<Longrightarrow> agree n k
    \<Longrightarrow> calm m (stamp6 (Act6Send msg AllDHCPRelayAgentsAndServers) k)"

locale moves6 =
  fixes P :: "Machine6 \<Rightarrow> bool"
  assumes assign: "P m \<Longrightarrow> agree m n \<Longrightarrow> P n"
    and emit: "P m \<Longrightarrow> quiet b \<Longrightarrow> P (stamp6 b m)"
    and say: "P m \<Longrightarrow> fst (build now (msgType m) m) = Inr msg \<Longrightarrow> agree m n
      \<Longrightarrow> P (stamp6 (Act6Send msg AllDHCPRelayAgentsAndServers) n)"
begin

lemma calm_keeps: "calm m n \<Longrightarrow> P m \<Longrightarrow> P n"
  by (induction rule: calm.induct) (auto intro: assign emit say)

text \<open>
  Control: the rules below are applied by the shape of the code. A value bound on the way is
  forgotten, but for the table of addresses, a pair is taken apart.
\<close>

lemma flow_let:
  "P (case_prod f q) \<Longrightarrow> P (Let q (case_prod f))"
  "P (fst (case_prod g q)) \<Longrightarrow> P (fst (Let q (case_prod g)))"
  "P (h (slaac n)) \<Longrightarrow> P (Let (slaac n) h)"
  by simp_all

lemma flow:
  "P a \<Longrightarrow> (\<And>n. P n \<Longrightarrow> P (f n)) \<Longrightarrow> P (Let a f)"
  "(\<And>x. P (g x)) \<Longrightarrow> P (Let v g)"
  "P a \<Longrightarrow> P b \<Longrightarrow> P (if c then a else b)"
  "P a \<Longrightarrow> (\<And>x. P (h x)) \<Longrightarrow> P (case_option a h v')"
  "(\<And>x. P (k x)) \<Longrightarrow> (\<And>x. P (l x)) \<Longrightarrow> P (case_sum k l s)"
  "P a \<Longrightarrow> P b \<Longrightarrow> P (case_bool a b c)"
  by (auto simp: Let_def split: option.split sum.split bool.split)

lemma flow_fst:
  "P a \<Longrightarrow> P (fst (a, x))"
  "P (fst p) \<Longrightarrow> P (fst q) \<Longrightarrow> P (fst (if c then p else q))"
  "P a \<Longrightarrow> (\<And>n. P n \<Longrightarrow> P (fst (f n))) \<Longrightarrow> P (fst (Let a f))"
  "(\<And>x. P (fst (g x))) \<Longrightarrow> P (fst (Let v g))"
  "P (fst p) \<Longrightarrow> (\<And>x. P (fst (h x))) \<Longrightarrow> P (fst (case_option p h v'))"
  "(\<And>x. P (fst (k x))) \<Longrightarrow> (\<And>x. P (fst (l x))) \<Longrightarrow> P (fst (case_sum k l s))"
  by (auto simp: Let_def split: option.split sum.split)

lemma flow_pair:
  "P (fst p) \<Longrightarrow> (\<And>n x. P n \<Longrightarrow> P (f n x)) \<Longrightarrow> P (case_prod f p)"
  "P (fst p) \<Longrightarrow> (\<And>n x. P n \<Longrightarrow> P (fst (g n x))) \<Longrightarrow> P (fst (case_prod g p))"
  by (auto split: prod.split)

lemma flow_snd:
  "P (snd q) \<Longrightarrow> (\<And>x n. P n \<Longrightarrow> P (f' x n)) \<Longrightarrow> P (case_prod f' q)"
  "P (snd q) \<Longrightarrow> (\<And>x n. P n \<Longrightarrow> P (fst (g' x n))) \<Longrightarrow> P (fst (case_prod g' q))"
  "P a \<Longrightarrow> P (snd (x, a))"
  "P (snd p) \<Longrightarrow> P (snd q') \<Longrightarrow> P (snd (if c then p else q'))"
  "P (snd p) \<Longrightarrow> (\<And>x. P (snd (h x))) \<Longrightarrow> P (snd (case_option p h v'))"
  "(\<And>x. P (snd (k x))) \<Longrightarrow> (\<And>x. P (snd (l x))) \<Longrightarrow> P (snd (case_sum k l s))"
  by (auto split: prod.split option.split sum.split)

lemma flow_power: "P m \<Longrightarrow> (\<And>n. P n \<Longrightarrow> P (f n)) \<Longrightarrow> P ((f ^^ i) m)"
  by (induction i) auto

text \<open>A pair whose first part is not a machine, as a reader of options returns it.\<close>

lemma flow_data:
  "(\<And>x y. P (f x y)) \<Longrightarrow> P (case_prod f q)"
  "(\<And>x y. P (fst (g x y))) \<Longrightarrow> P (fst (case_prod g q))"
  by (auto split: prod.split)

lemma flow_fold: "P m \<Longrightarrow> (\<And>x n. P n \<Longrightarrow> P (f x n)) \<Longrightarrow> P (fold f xs m)"
  by (induction xs arbitrary: m) auto

lemma flow_fold_fst: "P (fst st) \<Longrightarrow> (\<And>x s. P (fst s) \<Longrightarrow> P (fst (f x s))) \<Longrightarrow> P (fst (fold f xs st))"
  by (induction xs arbitrary: st) auto

text \<open>Assignments, one per field.\<close>

lemma assigns:
  "P m \<Longrightarrow> P (hostname6_update (\<lambda>_. a1) m)"
  "P m \<Longrightarrow> P (exchangeName_update (\<lambda>_. a2) m)"
  "P m \<Longrightarrow> P (nameOnWire6_update (\<lambda>_. a3) m)"
  "P m \<Longrightarrow> P (state6_update (\<lambda>_. a4) m)"
  "P m \<Longrightarrow> P (msgType_update (\<lambda>_. a5) m)"
  "P m \<Longrightarrow> P (sched_update (\<lambda>_. a6) m)"
  "P m \<Longrightarrow> P (exchangeStart_update (\<lambda>_. a7) m)"
  "P m \<Longrightarrow> P (rt_update (\<lambda>_. a8) m)"
  "P m \<Longrightarrow> P (transmits_update (\<lambda>_. a9) m)"
  "P m \<Longrightarrow> P (sendFailures6_update (\<lambda>_. b1) m)"
  "P m \<Longrightarrow> P (pendingType_update (\<lambda>_. b2) m)"
  "P m \<Longrightarrow> P (adverts_update (\<lambda>_. b3) m)"
  "P m \<Longrightarrow> P (windowDone_update (\<lambda>_. b4) m)"
  "P m \<Longrightarrow> P (tried_update (\<lambda>_. b5) m)"
  "P m \<Longrightarrow> P (server6_update (\<lambda>_. b6) m)"
  "P m \<Longrightarrow> P (pending_update (\<lambda>_. b7) m)"
  "P m \<Longrightarrow> P (havePending_update (\<lambda>_. b8) m)"
  "P m \<Longrightarrow> P (pendingRenewal_update (\<lambda>_. b9) m)"
  "P m \<Longrightarrow> P (dadWait_update (\<lambda>_. c1) m)"
  "P m \<Longrightarrow> P (dadBad_update (\<lambda>_. c2) m)"
  "P m \<Longrightarrow> P (carried_update (\<lambda>_. c3) m)"
  "P m \<Longrightarrow> P (declining_update (\<lambda>_. c4) m)"
  "P m \<Longrightarrow> P (decliningTA_update (\<lambda>_. c5) m)"
  "P m \<Longrightarrow> P (releasing_update (\<lambda>_. c6) m)"
  "P m \<Longrightarrow> P (releasingPrefixes_update (\<lambda>_. c7) m)"
  "P m \<Longrightarrow> P (releasingTA_update (\<lambda>_. c8) m)"
  "P m \<Longrightarrow> P (releasePD_update (\<lambda>_. c9) m)"
  "P m \<Longrightarrow> P (releasePDServer_update (\<lambda>_. d1) m)"
  "P m \<Longrightarrow> P (afterDecline_update (\<lambda>_. d2) m)"
  by (rule assign, assumption, simp add: agree_def)+

lemma more_assigns:
  "P m \<Longrightarrow> P (resume6_update (\<lambda>_. d3) m)"
  "P m \<Longrightarrow> P (router_update (\<lambda>_. d4) m)"
  "P m \<Longrightarrow> P (rsCount_update (\<lambda>_. d5) m)"
  "P m \<Longrightarrow> P (config_update (\<lambda>_. d6) m)"
  "P m \<Longrightarrow> P (refresh6_update (\<lambda>_. d7) m)"
  "P m \<Longrightarrow> P (rapidCounts6_update (\<lambda>_. d8) m)"
  "P m \<Longrightarrow> P (tempCounts_update (\<lambda>_. d9) m)"
  "P m \<Longrightarrow> P (pdCounts_update (\<lambda>_. e1) m)"
  "P m \<Longrightarrow> P (resumeRebind_update (\<lambda>_. e2) m)"
  "P m \<Longrightarrow> P (rebindOwed_update (\<lambda>_. e3) m)"
  "P m \<Longrightarrow> P (pdSent_update (\<lambda>_. e4) m)"
  "P m \<Longrightarrow> P (naSent_update (\<lambda>_. e5) m)"
  "P m \<Longrightarrow> P (scope_update (\<lambda>_. e6) m)"
  "P m \<Longrightarrow> P (nextScope_update (\<lambda>_. e7) m)"
  "P m \<Longrightarrow> P (holdoff_update (\<lambda>_. e8) m)"
  "P m \<Longrightarrow> P (omitRT_update (\<lambda>_. e9) m)"
  "P m \<Longrightarrow> P (resumeAt_update (\<lambda>_. f1) m)"
  "P m \<Longrightarrow> P (hintOffLink_update (\<lambda>_. f2) m)"
  "P m \<Longrightarrow> P (reconfDetour_update (\<lambda>_. f3) m)"
  "P m \<Longrightarrow> P (reconfServerID_update (\<lambda>_. f4) m)"
  "P m \<Longrightarrow> P (refreshOwed_update (\<lambda>_. f5) m)"
  "P m \<Longrightarrow> P (slaacPhases_update (\<lambda>_. f6) m)"
  "P m \<Longrightarrow> P (autoDecided_update (\<lambda>_. f7) m)"
  "P m \<Longrightarrow> P (dhcpCommitted_update (\<lambda>_. f8) m)"
  "P m \<Longrightarrow> P (deferredPrefixes_update (\<lambda>_. f9) m)"
  "P m \<Longrightarrow> P (wantConfig_update (\<lambda>_. g1) m)"
  "P m \<Longrightarrow> P (askedConfig_update (\<lambda>_. g2) m)"
  by (rule assign, assumption, simp add: agree_def)+

lemmas control = assigns more_assigns flow_let flow flow_fst flow_pair flow_snd flow_data flow_fold flow_fold_fst flow_power

text \<open>Actions.\<close>

lemma actions6 [calls6]:
  "P m \<Longrightarrow> P (set6 t d m)"
  "P m \<Longrightarrow> P (cancel6 t m)"
  "P m \<Longrightarrow> P (journal6 note m)"
  "P m \<Longrightarrow> P (failed6 r note m)"
  "P m \<Longrightarrow> P (refused6 st m)"
  "P m \<Longrightarrow> P (stamp6 (Act6StartDAD a) m)"
  "P m \<Longrightarrow> P (stamp6 Act6SendRouterSolicit m)"
  "P m \<Longrightarrow> P (stamp6 (Act6RouterObserved obs) m)"
  "P m \<Longrightarrow> P (stamp6 (Act6Configured c) m)"
  by (simp_all add: set6_def cancel6_def journal6_def failed6_def refused6_def emit)

lemma cancelAll6_keeps [calls6]: "P m \<Longrightarrow> P (cancelAll6 m)"
  unfolding cancelAll6_def by (intro control calls6)

lemma journal_all_keeps [calls6]: "P m \<Longrightarrow> P (journal_all ns m)"
  unfolding journal_all_def by (intro control calls6)

lemma dropPending_keeps [calls6]: "P m \<Longrightarrow> P (dropPending m)"
  unfolding dropPending_def by (intro control calls6)

lemma rejectRapidHint_keeps [calls6]: "P m \<Longrightarrow> P (rejectRapidHint m)"
  unfolding rejectRapidHint_def by (intro control calls6)

lemma rememberDeclined_keeps [calls6]: "P m \<Longrightarrow> P (rememberDeclined as m)"
proof (rule assign)
  have "set ds \<subseteq> set (fold (\<lambda>a ds. if a \<in> set ds then ds else ds @ [a]) as ds)" for ds :: "addr list"
  proof (induction as arbitrary: ds)
    case (Cons a as)
    show ?case using Cons.IH [of "if a \<in> set ds then ds else ds @ [a]"] by (auto split: if_splits)
  qed simp
  then show "agree m (rememberDeclined as m)" by (simp add: agree_def rememberDeclined_def)
qed

text \<open>Sending: what \<open>build\<close> returns is what goes out.\<close>

lemma build_name: "snd (build now t m) = m \<or> snd (build now t m) = m\<lparr>nameOnWire6 := exchangeName m\<rparr>"
  by (auto simp: build_def fqdnOption_def split: option.split sum.split prod.split)

lemma agree_build: "agree m (snd (build now t m))"
  using build_name [of now t m] by (auto simp: agree_def)

lemma transmit_keeps [calls6]:
  assumes "P m"
  shows "P (transmit now m)"
proof (cases "build now (msgType m) m")
  case (Pair r n)
  with agree_build [of m now "msgType m"] have a: "agree m n" by simp
  show ?thesis
  proof (cases r)
    case (Inl why)
    then show ?thesis using Pair assign [OF assms a] by (simp add: transmit_def actions6)
  next
    case (Inr msg)
    let ?n = "n\<lparr>transmits := transmits n + 1, pdSent := (pdSent n \<or> Count6 (Options6 msg) OptV6IAPD > 0),
                naSent := (naSent n \<or> Count6 (Options6 msg) OptV6IANA > 0)\<rparr>"
    have "agree m ?n" using a by (simp add: agree_def)
    then have "P (stamp6 (Act6Send msg AllDHCPRelayAgentsAndServers) ?n)"
      using say [OF assms, of now msg ?n] Pair Inr by simp
    then show ?thesis using Pair Inr by (simp add: transmit_def sendV6_def actions6)
  qed
qed

lemma exchange_state_keeps [calls6]: "P m \<Longrightarrow> P (exchange_state t m)"
  unfolding exchange_state_def by (intro control calls6)

lemma xid_keeps [calls6]: "P m \<Longrightarrow> P (m\<lparr>xid6 := ucast (rnd :: rnd64) AND 0x00FFFFFF\<rparr>)"
  by (rule assign, assumption) (simp add: agree_def word_and_le1)

lemma startExchangeAnswering_keeps [calls6]: "P m \<Longrightarrow> P (startExchangeAnswering now rnd t sid m)"
  unfolding startExchangeAnswering_def by (intro control calls6)

lemma startExchange_keeps [calls6]: "P m \<Longrightarrow> P (startExchange now rnd t m)"
  unfolding startExchange_def by (intro control calls6)

lemma startExchangeFor_keeps [calls6]: "P m \<Longrightarrow> P (startExchangeFor now rnd t sc m)"
  unfolding startExchangeFor_def by (intro control calls6)

lemma retransmit_keeps: "P m \<Longrightarrow> (\<And>f n. ex = Some f \<Longrightarrow> P n \<Longrightarrow> P (f n)) \<Longrightarrow> P (retransmit now rnd ex m)"
  by (auto simp: retransmit_def Let_def intro!: control calls6 split: option.split bool.split)

lemma retransmits6_keep [calls6]:
  "P m \<Longrightarrow> P (retransmit now rnd None m)"
  "P m \<Longrightarrow> (\<And>n. P n \<Longrightarrow> P (f n)) \<Longrightarrow> P (retransmit now rnd (Some f) m)"
  "P m \<Longrightarrow> (\<And>n. P n \<Longrightarrow> P (f n)) \<Longrightarrow> P (retransmit now rnd (if c then Some f else None) m)"
  by (auto intro: retransmit_keeps)

lemma endExchange_keeps [calls6]: "P m \<Longrightarrow> P (endExchange m)"
  unfolding endExchange_def by (intro control calls6)

lemma armDeadline6_keeps [calls6]: "P m \<Longrightarrow> P (armDeadline6 now t ts has m)"
  unfolding armDeadline6_def by (intro control calls6)

lemma armExpiry_keeps [calls6]: "P m \<Longrightarrow> P (armExpiry now m)"
  unfolding armExpiry_def by (intro control calls6)

lemma armRenewal_keeps [calls6]: "P m \<Longrightarrow> P (armRenewal now m)"
  unfolding armRenewal_def by (intro control calls6)

lemma armOwedRefresh_keeps [calls6]: "P m \<Longrightarrow> P (armOwedRefresh rnd m)"
  unfolding armOwedRefresh_def by (intro control calls6)

lemma abandonRefreshDelay_keeps [calls6]: "P m \<Longrightarrow> P (abandonRefreshDelay m)"
  unfolding abandonRefreshDelay_def by (intro control calls6)

lemma enterRebinding6_keeps [calls6]: "P m \<Longrightarrow> P (enterRebinding6 now rnd m)"
  unfolding enterRebinding6_def by (intro control calls6)

lemma enterRenewing6_keeps [calls6]: "P m \<Longrightarrow> P (enterRenewing6 now rnd m)"
  unfolding enterRenewing6_def by (intro control calls6)

lemma announceHostname6_keeps [calls6]: "P m \<Longrightarrow> P (fst (announceHostname6 now rnd m))"
  unfolding announceHostname6_def by (cases "state6 m") (simp_all only: State6.case, (intro control calls6; assumption)+)

lemma startDAD_keeps [calls6]: "P m \<Longrightarrow> P (startDAD as m)"
  unfolding startDAD_def by (intro control calls6)

lemma solicitRouter_keeps [calls6]: "P m \<Longrightarrow> P (solicitRouter m)"
  unfolding solicitRouter_def by (intro control calls6)

lemma startRouterDiscovery_keeps [calls6]: "P m \<Longrightarrow> P (startRouterDiscovery m)"
  unfolding startRouterDiscovery_def by (intro control calls6)

lemma maybeInfoRequest_keeps [calls6]: "P m \<Longrightarrow> P (maybeInfoRequest now rnd m)"
  unfolding maybeInfoRequest_def by (intro control calls6)

lemma armSLAAC_keeps [calls6]: "P m \<Longrightarrow> P (armSLAAC now m)"
  unfolding armSLAAC_def by (intro control calls6)

end

interpretation calm: moves6 "calm m" for m
  by unfold_locales (auto intro: calm.intros)

lemma agree_trans: "agree a b \<Longrightarrow> agree b c \<Longrightarrow> agree a c"
  by (auto simp: agree_def intro: same_client_trans)

lemma calm_lease: "calm m n \<Longrightarrow> haveLse6 n = haveLse6 m \<and> lease6 n = lease6 m \<and> reconf n = reconf m
    \<and> rcAccepted (reconfCounts n) = rcAccepted (reconfCounts m) \<and> slaac n = slaac m \<and> routers n = routers m"
  by (induction rule: calm.induct) (auto simp: agree_def stamp6_def)

section \<open>Moves of the lease and the keys\<close>

locale lease_moves6 = moves6 +
  assumes take: "P m \<Longrightarrow> calm (m\<lparr>lease6 := l, haveLse6 := True\<rparr>) n
      \<Longrightarrow> P (stamp6 (if haveLse6 m then Act6LeaseRenewed l else Act6LeaseAcquired l h) n)"
    and change: "P m \<Longrightarrow> haveLse6 m \<Longrightarrow> calm (m\<lparr>lease6 := l\<rparr>) n \<Longrightarrow> P (stamp6 (Act6LeaseChanged l) n)"
    and lose: "P m \<Longrightarrow> haveLse6 m \<Longrightarrow> P (stamp6 (Act6LeaseLost r (lease6 m)) (m\<lparr>haveLse6 := False, lease6 := zero_lease6\<rparr>))"
    and form: "P m \<Longrightarrow> (table_ok (slaac m) \<Longrightarrow> table_ok t) \<Longrightarrow> P (m\<lparr>slaac := t\<rparr>)"
    and observe: "P m \<Longrightarrow> (routers_ok (routers m) \<Longrightarrow> routers_ok rs) \<Longrightarrow> P (m\<lparr>routers := rs\<rparr>)"
    and key: "P m \<Longrightarrow> reconf m sid = Some s \<or> reconf m sid = None \<and> s = \<lparr>rsKey = [], rsReplay = 0, rsSeen = False\<rparr>
      \<Longrightarrow> P (m\<lparr>reconf := (reconf m)(sid \<mapsto> s\<lparr>rsKey := k\<rparr>)\<rparr>)"
begin

lemma loseLease_keeps [calls6]: "P m \<Longrightarrow> P (loseLease r m)"
  by (simp add: loseLease_def lose)

lemma dropEnded_keeps [calls6]:
  assumes "P m" "haveLse6 m"
  shows "P (fst (dropEnded now m))"
proof (cases "withoutEnded now (lease6 m)")
  case (Pair l n)
  let ?m = "if length (l6Prefixes l) < length (l6Prefixes (lease6 m))
    then m\<lparr>pdCounts := (pdCounts m)\<lparr>pd6Changed := pd6Changed (pdCounts m) + 1\<rparr>\<rparr> else m"
  have m: "P ?m" "haveLse6 ?m" using assms by (auto intro: more_assigns)
  have j: "(journal6 nt k)\<lparr>lease6 := l'\<rparr> = journal6 nt (k\<lparr>lease6 := l'\<rparr>)" for nt k l'
    by (simp add: journal6_def stamp6_def)
  have "calm (?m\<lparr>lease6 := canonPD l\<rparr>) (armExpiry now ((journal6 (JB3 (BEnded n)) ?m)\<lparr>lease6 := canonPD l\<rparr>))"
    unfolding j by (intro control calls6 calm.calm_refl calm_refl)
  from change [OF m this] show ?thesis
    using assms Pair by (auto simp: dropEnded_def Let_def intro!: control calls6)
qed

lemma report_lease_keeps:
  assumes "P m" "calm (m\<lparr>lease6 := l, haveLse6 := True\<rparr>) n"
  shows "P (report_lease (haveLse6 m) prev l n)"
proof (cases "haveLse6 m")
  case True
  let ?n = "stamp6 (Act6LeaseRenewed l) n"
  have P: "P ?n" using take [OF assms] True by simp
  have l: "lease6 n = l" "haveLse6 n" using calm_lease [OF assms(2)] by simp_all
  then have "?n\<lparr>lease6 := l\<rparr> = ?n" "haveLse6 ?n" by (simp_all add: stamp6_def)
  then have "P (stamp6 (Act6LeaseChanged l) ?n)" using change [OF P, of l ?n] calm_refl [of ?n] by simp
  then show ?thesis using True P by (simp add: report_lease_def Let_def)
next
  case False
  then show ?thesis using take [OF assms, of "solicitHint n"] by (simp add: report_lease_def)
qed

lemma enterBound6_keeps [calls6]:
  assumes "P m"
  shows "P (enterBound6 now rnd l m)"
proof -
  let ?n = "(cancel6 Timer6Retransmit (m\<lparr>msgType := 0\<rparr>))\<lparr>sendFailures6 := 0\<rparr>"
  let ?l = "withReconfigure ?n l"
  let ?b = "?n\<lparr>lease6 := ?l, haveLse6 := True, state6 := State6Bound, resume6 := None\<rparr>"
  let ?note = "d6Note (Deadlines6 ?l)"
  let ?j = "if ?note \<noteq> [] then journal6 (JB2 (BDeadlineNote ?note)) ?b else ?b"
  have n: "P ?n" by (intro control calls6 assms)
  have "calm (?n\<lparr>lease6 := ?l, haveLse6 := True\<rparr>) ?j"
    by (intro calm.control calls6 calm_refl)
  then have "P (report_lease (haveLse6 ?n) (lease6 ?n) ?l ?j)" by (rule report_lease_keeps [OF n])
  then show ?thesis unfolding enterBound6_def Let_def by (intro control calls6)
qed

lemma enterBoundSLAAC_keeps [calls6]:
  assumes "P m"
  shows "P (enterBoundSLAAC now rnd m)"
proof (cases "stEntries (slaac m) = []")
  case False
  let ?l = "slaac_lease now (P6IAID (params6 m)) (slaac m)"
  let ?b = "m\<lparr>msgType := 0, sendFailures6 := 0, lease6 := ?l, haveLse6 := True, state6 := State6Bound,
                  resume6 := None, dhcpCommitted := False\<rparr>"
  let ?c = "armSLAAC now (cancel6 Timer6AutoFallback (cancel6 Timer6Expire (cancel6 Timer6Rebind
                  (cancel6 Timer6Renew (cancel6 Timer6Retransmit ?b)))))"
  let ?n = "m\<lparr>msgType := 0, sendFailures6 := 0\<rparr>"
  have n: "P ?n" by (intro control assms)
  have c: "calm (?n\<lparr>lease6 := ?l, haveLse6 := True\<rparr>) ?c"
    by (intro calm.control calls6 calm_refl)
  have k: "haveLse6 ?c" "lease6 ?c = ?l" using calm_lease [OF c] by simp_all
  let ?r = "stamp6 (Act6LeaseRenewed ?l) ?c"
  have r: "P ?r" if "haveLse6 m" using take [OF n c] that by simp
  have a: "P (stamp6 (Act6LeaseAcquired ?l NoAddr) ?c)" if "\<not> haveLse6 m" using take [OF n c, of NoAddr] that by simp
  have "?r\<lparr>lease6 := ?l\<rparr> = ?r" "haveLse6 ?r" using k by (simp_all add: stamp6_def)
  then have "P (stamp6 (Act6LeaseChanged ?l) ?r)" if "haveLse6 m"
    using change [OF r [OF that], of ?l ?r] calm_refl [of ?r] by simp
  then show ?thesis
    using False r a unfolding enterBoundSLAAC_def Let_def
    by (auto intro!: maybeInfoRequest_keeps more_assigns)
qed (use assms in \<open>simp add: enterBoundSLAAC_def\<close>)

lemma start_slaac_dad_keeps [calls6]: "P m \<Longrightarrow> P (start_slaac_dad now as m)"
  unfolding start_slaac_dad_def by (intro control calls6)

lemma reportSLAAC_keeps [calls6]: "P m \<Longrightarrow> P (reportSLAAC now rnd m)"
  unfolding reportSLAAC_def by (intro control calls6)

lemma ignore_prefix_keeps [calls6]: "P m \<Longrightarrow> P (ignore_prefix why m)"
  unfolding ignore_prefix_def Let_def by (rule form) simp_all

lemma seed_address_keeps [calls6]: "P m \<Longrightarrow> P (seed_address now a m)"
proof -
  assume m: "P m"
  let ?e = "\<lparr>sePrefix = Masked (PrefixFrom (a6Addr a) (128 - IIDBits)), seAddr = a6Addr a, seStart = now,
              sePreferred = a6Preferred a, seValid = a6Valid a, seCharged = False, seTentative = True\<rparr>"
  have "P (m\<lparr>slaac := (slaac m)\<lparr>stEntries := stEntries (slaac m) @ [?e]\<rparr>\<rparr>)"
    if "usable6 (a6Addr a)" "length (stEntries (slaac m)) < 8"
      "find_prefix (slaac m) (Masked (PrefixFrom (a6Addr a) (128 - IIDBits))) = None"
    using that find_prefix_None [OF that(3)]
    by (intro form [OF m] table_ok_append) (auto simp: entry_ok_def usable6_def network64_def)
  then show ?thesis
    using m by (auto simp: seed_address_def Let_def intro!: actions6 ignore_prefix_keeps)
qed

lemma seedFromResume_keeps [calls6]: "P m \<Longrightarrow> P (seedFromResume now r m)"
  unfolding seedFromResume_def by (intro control calls6)

lemma beginSLAAC_keeps [calls6]: "P m \<Longrightarrow> P (beginSLAAC now rnd m)"
  unfolding beginSLAAC_def by (intro control calls6)

lemma begin6_keeps [calls6]: "P m \<Longrightarrow> P (begin6 now rnd m)"
proof -
  assume m: "P m"
  have "P n \<Longrightarrow> P (snd (snd (if live6 (resume6 n) \<and> usablePrefixes (resume6 n) \<noteq> []
               then (MsgRebind, CnfMaxDelay (params6 n), n\<lparr>resumeRebind := True, rebindOwed := False, resumeAt := now\<rparr>)
               else if live6 (resume6 n) then (MsgConfirm, CnfMaxDelay (params6 n), n)
               else (MsgSolicit, SolMaxDelay (params6 n), n))))" for n
    by (auto intro!: more_assigns)
  then show ?thesis
    unfolding begin6_def by (auto simp: Let_def split: prod.split intro!: control calls6 m)
qed

lemma restartDiscovery_keeps [calls6]: "P m \<Longrightarrow> P (restartDiscovery now rnd m)"
  unfolding restartDiscovery_def by (intro control calls6)

lemma halt6_keeps [calls6]: "P m \<Longrightarrow> P (halt6 r m)"
  unfolding halt6_def by (intro control calls6 form) simp_all

lemma expireLease_keeps [calls6]: "P m \<Longrightarrow> P (expireLease now rnd m)"
proof (cases "haveLse6 m")
  case True
  assume m: "P m"
  obtain n b where d: "dropEnded now m = (n, b)" by fastforce
  have "P n" using dropEnded_keeps [OF m True, of now] d by simp
  then show ?thesis using True d by (cases b) (auto simp: expireLease_def Let_def intro!: control calls6)
qed (auto simp: expireLease_def intro!: calls6)

lemma noteActionFailed6_keeps [calls6]: "P m \<Longrightarrow> P (noteActionFailed6 a why m)"
  unfolding noteActionFailed6_def by (intro control calls6)

lemma resumeBound_keeps [calls6]: "P m \<Longrightarrow> P (resumeBound now rnd m)"
  unfolding resumeBound_def by (intro control calls6)

end

end
