(* ===== verification/Proto6_Moves_Step.thy ===== *)
theory Proto6_Moves_Step
  imports Proto6_Moves
begin

text \<open>
  The rest of the methods as compositions of moves: reading messages, duplicate address detection,
  Router Advertisements, Reconfigure, the handlers of the states, and \<open>Step6\<close>.
\<close>

text \<open>The ageing of the router table before each event.\<close>

definition aged6 :: "Instant \<Rightarrow> Machine6 \<Rightarrow> Machine6" where
  "aged6 now m = (let m = m\<lparr>out6 := []\<rparr> in
     if roSeen (router m) then case fill_routers now (routers m) (router m) of (t, obs) \<Rightarrow> m\<lparr>routers := t, router := obs\<rparr> else m)"

lemma Step6_aged: "Step6 now rnd ev m = dispatch6 now rnd ev (aged6 now m)"
  by (simp add: Step6_def aged6_def Let_def)

context moves6
begin

lemma count_rapid_refused_keeps [calls6]: "P m \<Longrightarrow> P (count_rapid_refused m)"
  unfolding count_rapid_refused_def by (intro control calls6)

lemma countRapidDiscard_keeps [calls6]: "P m \<Longrightarrow> P (countRapidDiscard msg m)"
  unfolding countRapidDiscard_def by (intro control calls6)

lemma refuseRapid6_keeps [calls6]: "P m \<Longrightarrow> P (refuseRapid6 why m)"
  unfolding refuseRapid6_def by (intro control calls6)

lemma admit_keeps [calls6]: "P m \<Longrightarrow> P (fst (admit ev m))"
  unfolding admit_def by (intro control calls6)

lemma maxrt_notes_keeps [calls6]: "P m \<Longrightarrow> P (maxrt_notes t applied ignored m)"
  unfolding maxrt_notes_def by (intro control calls6)

lemma applyMaxRT_keeps [calls6]:
  assumes "P m"
  shows "P (applyMaxRT msg m)"
proof -
  obtain q a i e where o: "ApplyOptions (Options6 msg) (params6 m) = (q, a, i, e)" by (cases "ApplyOptions (Options6 msg) (params6 m)")
  have "same_client (params6 m) q" using same_client_options [of "params6 m" "Options6 msg"] o by simp
  then have "P (m\<lparr>params6 := q\<rparr>)" by (intro assign [OF assms]) (simp add: agree_def)
  then show ?thesis using o by (cases e) (simp_all add: applyMaxRT_def actions6 maxrt_notes_keeps)
qed

lemma readTemporary_keeps [calls6]: "P m \<Longrightarrow> P (fst (readTemporary opts perm reply m))"
  unfolding readTemporary_def by (intro control calls6)

lemma ignoreTemporary_keeps [calls6]: "P m \<Longrightarrow> P (ignoreTemporary opts m)"
  unfolding ignoreTemporary_def by (intro control calls6)

lemma countPrefixes_keeps [calls6]: "P m \<Longrightarrow> P (countPrefixes res notes grant m)"
  unfolding countPrefixes_def by (intro control calls6)

lemma readPrefixes_keeps [calls6]: "P m \<Longrightarrow> P (fst (readPrefixes opts grant m))"
  unfolding readPrefixes_def by (intro control calls6)

lemma ignorePrefixes_keeps [calls6]: "P m \<Longrightarrow> P (ignorePrefixes opts m)"
  unfolding ignorePrefixes_def by (intro control calls6)

lemma paceOmission_keeps [calls6]: "P m \<Longrightarrow> P (paceOmission now rnd found l m)"
  unfolding paceOmission_def by (intro control calls6)

lemma selectAndRequest_keeps [calls6]: "P m \<Longrightarrow> P (fst (selectAndRequest now rnd m))"
  unfolding selectAndRequest_def by (intro control calls6)

lemma collect_advert_keeps [calls6]: "P m \<Longrightarrow> P (fst (collect_advert msg res m))"
  unfolding collect_advert_def by (intro control calls6)

lemma takeAdvertise_keeps [calls6]: "P m \<Longrightarrow> P (takeAdvertise now rnd msg m)"
  unfolding takeAdvertise_def by (intro control calls6)

lemma on_reply_keeps [calls6]: "P m \<Longrightarrow> (\<And>msg n. P n \<Longrightarrow> P (f msg n)) \<Longrightarrow> P (on_reply ev f m)"
  unfolding on_reply_def by (intro control calls6)

lemma refuseReconfigure_keeps [calls6]: "P m \<Longrightarrow> P (refuseReconfigure why m)"
  unfolding refuseReconfigure_def Let_def by (intro calls6, rule assign, assumption, simp add: agree_def)

lemma respondToReconfigure_keeps [calls6]: "P m \<Longrightarrow> P (fst (respondToReconfigure now rnd kind sid m))"
  unfolding respondToReconfigure_def by (intro control calls6)

lemma refreshTime_keeps [calls6]: "P m \<Longrightarrow> P (fst (refreshTime v present m))"
  unfolding refreshTime_def by (intro control calls6)

lemma endReconfigureDetour_keeps [calls6]: "P m \<Longrightarrow> P (endReconfigureDetour m)"
  unfolding endReconfigureDetour_def by (intro control calls6)

lemma read_config_keeps [calls6]: "P m \<Longrightarrow> P (fst (read_config opts m))"
  unfolding read_config_def by (intro control calls6)

lemma ignore_timer_keeps [calls6]: "P m \<Longrightarrow> P (ignore_timer t m)"
  unfolding ignore_timer_def by (intro control calls6)

lemma ignore_event_keeps [calls6]: "P m \<Longrightarrow> P (ignore_event ev m)"
  unfolding ignore_event_def by (intro control calls6)

lemma already_keeps [calls6]: "P m \<Longrightarrow> P (already m)"
  unfolding already_def by (intro control calls6)

lemma observe_flags_keeps [calls6]: "P m \<Longrightarrow> P (observe_flags now rnd ra m)"
  unfolding observe_flags_def by (intro control calls6)

lemma routerSolicitTick_keeps [calls6]: "P m \<Longrightarrow> P (routerSolicitTick now rnd m)"
  unfolding routerSolicitTick_def by (intro control calls6)

lemma releaseDelegated_keeps [calls6]: "P m \<Longrightarrow> P (releaseDelegated now rnd m)"
  unfolding releaseDelegated_def by (intro control calls6)

end

context lease_moves6
begin

lemma noteReconfigureKey_keeps [calls6]:
  assumes "P m"
  shows "P (noteReconfigureKey msg m)"
proof -
  have "P (m\<lparr>reconf := (reconf m)(sid \<mapsto> (case reconf m sid of None \<Rightarrow> \<lparr>rsKey = [], rsReplay = 0, rsSeen = False\<rparr> | Some s \<Rightarrow> s)
      \<lparr>rsKey := val\<rparr>)\<rparr>)" for sid val
    by (rule key [OF assms]) (simp split: option.split)
  then show ?thesis
    unfolding noteReconfigureKey_def Let_def by (intro control calls6 assms)
qed

lemma after_decline_keeps [calls6]: "P m \<Longrightarrow> P (after_decline now rnd w m)"
  by (cases w) (auto simp: after_decline_def intro!: calls6)

lemma declineSet_keeps [calls6]: "P m \<Longrightarrow> P (declineSet now rnd srv as temp w m)"
  unfolding declineSet_def by (intro control calls6)

lemma declineAll_keeps [calls6]: "P m \<Longrightarrow> P (declineAll now rnd l m)"
  unfolding declineAll_def by (intro control calls6)

lemma finishDecline_keeps [calls6]: "P m \<Longrightarrow> P (finishDecline now rnd m)"
  unfolding finishDecline_def by (intro control calls6)

lemma declineTemporary_keeps [calls6]: "P m \<Longrightarrow> P (declineTemporary now rnd bad m)"
  unfolding declineTemporary_def by (intro control calls6)

lemma resolve_duplicate_keeps [calls6]:
  assumes "P (fst st)"
  shows "P (fst (resolve_duplicate a st))"
proof -
  obtain m b where st: "st = (m, b)" by fastforce
  then have m: "P m" using assms by simp
  obtain t r where r: "retry a (params_iidSource (params6 m)) (refuse a (slaac m)) = (t, r)" by fastforce
  then have t: "table_ok (slaac m) \<Longrightarrow> table_ok t" using retry_ok [of "refuse a (slaac m)" a "params_iidSource (params6 m)"] by simp
  obtain u d where u: "drop_addr a t = (u, d)" by fastforce
  then have "table_ok (slaac m) \<Longrightarrow> table_ok u" using drop_addr_ok [of t a] t by simp
  then show ?thesis
    using st m r t u by (auto simp: resolve_duplicate_def Let_def split: option.split intro!: form actions6)
qed

lemma fold_settle_ok: "table_ok t \<Longrightarrow> table_ok (fold (\<lambda>a. settle (a6Addr a)) as t)"
  by (induction as arbitrary: t) (auto intro: settle_ok)

lemma finishSLAACDAD_keeps [calls6]: "P m \<Longrightarrow> P (finishSLAACDAD now rnd m)"
  unfolding finishSLAACDAD_def by (intro control calls6 form) (simp_all add: fold_settle_ok)

lemma bind_checked_keeps [calls6]: "P m \<Longrightarrow> P (bind_checked now rnd m)"
  unfolding bind_checked_def by (intro control calls6)

lemma decline_conflicts_keeps [calls6]: "P m \<Longrightarrow> P (decline_conflicts now rnd m)"
  unfolding decline_conflicts_def by (intro control calls6)

lemma takeDADResult_keeps [calls6]: "P m \<Longrightarrow> P (takeDADResult now rnd d m)"
  unfolding takeDADResult_def by (intro control calls6)

lemma renew_addresses_keeps [calls6]: "P m \<Longrightarrow> P (fst (renew_addresses now zeroed l m))"
  unfolding renew_addresses_def by (intro control calls6)

lemma reply_addresses_keeps [calls6]: "P m \<Longrightarrow> P (fst (reply_addresses now naCarried renewal opts zeroed l m))"
  unfolding reply_addresses_def by (intro control calls6)

lemma owed_prefixes_keeps [calls6]: "P m \<Longrightarrow> P (fst (owed_prefixes now naCarried renewal srv pd pdNotes l m))"
  unfolding owed_prefixes_def by (intro control calls6)

lemma reply_prefixes_keeps [calls6]: "P m \<Longrightarrow> P (fst (reply_prefixes now owed naCarried renewal msg pd pdNotes l m))"
  unfolding reply_prefixes_def by (intro control calls6)

lemma take_granted_keeps [calls6]: "P m \<Longrightarrow> P (take_granted now rnd renewal msg l m)"
  unfolding take_granted_def by (intro control calls6)

lemma no_address_keeps [calls6]: "P m \<Longrightarrow> P (no_address now rnd renewal iaStatus st m)"
  unfolding no_address_def by (intro control calls6)

lemma take_associations_keeps [calls6]: "P m \<Longrightarrow> P (take_associations now rnd renewal msg st m)"
  unfolding take_associations_def by (intro control calls6)

lemma takeReply_keeps [calls6]: "P m \<Longrightarrow> P (takeReply now rnd msg m)"
  unfolding takeReply_def by (intro control calls6)

lemma takeRapidReply_keeps [calls6]: "P m \<Longrightarrow> P (takeRapidReply now rnd msg m)"
  unfolding takeRapidReply_def by (intro control calls6)

lemma continueFromResume_keeps [calls6]: "P m \<Longrightarrow> P (continueFromResume now rnd confirmed m)"
  unfolding continueFromResume_def by (intro control calls6)

lemma release6_keeps [calls6]: "P m \<Longrightarrow> P (release6 now rnd m)"
  unfolding release6_def by (intro control calls6)

lemma takeConfig_keeps [calls6]: "P m \<Longrightarrow> P (takeConfig now msg m)"
  unfolding takeConfig_def by (intro control calls6)

lemma apply_pio_keeps [calls6]:
  assumes "P (fst st)"
  shows "P (fst (apply_pio now pi st))"
proof -
  obtain m b where st: "st = (m, b)" by fastforce
  obtain t f c w where a: "applyPIO now pi (params_iidSource (params6 m)) (slaac m) = (t, f, c, w)"
    by (cases "applyPIO now pi (params_iidSource (params6 m)) (slaac m)")
  then have "table_ok (slaac m) \<Longrightarrow> table_ok t" using applyPIO_ok [of "slaac m" now pi] by (metis fst_conv)
  then have "P (m\<lparr>slaac := t\<rparr>)" using assms st by (intro form) simp_all
  then show ?thesis using a st by (auto simp: apply_pio_def Let_def intro!: calls6)
qed

lemma applyAdvert_keeps [calls6]: "P m \<Longrightarrow> P (fst (applyAdvert now ra m))"
  unfolding applyAdvert_def by (intro control calls6)

lemma observeSLAAC_keeps [calls6]: "P m \<Longrightarrow> P (observeSLAAC now rnd ra m)"
  unfolding observeSLAAC_def by (intro control calls6)

lemma countUnusedPrefixes_keeps [calls6]: "P m \<Longrightarrow> P (countUnusedPrefixes ra m)"
  unfolding countUnusedPrefixes_def by (intro control calls6)

lemma defer_one_keeps [calls6]: "P m \<Longrightarrow> P (defer_one now pi m)"
  unfolding defer_one_def by (intro control calls6)

lemma deferPrefixes_keeps [calls6]: "P m \<Longrightarrow> P (deferPrefixes now ra m)"
  unfolding deferPrefixes_def by (intro control calls6)

lemma commit_dhcp_keeps [calls6]: "P m \<Longrightarrow> P (commit_dhcp now rnd ra m)"
  unfolding commit_dhcp_def by (intro control calls6)

lemma observeAuto_keeps [calls6]: "P m \<Longrightarrow> P (observeAuto now rnd ra m)"
  unfolding observeAuto_def by (intro control calls6)

lemma form_deferred_keeps [calls6]:
  assumes "P (fst st)"
  shows "P (fst (form_deferred now d st))"
proof -
  obtain m b where st: "st = (m, b)" by fastforce
  obtain t f c w where a: "applyPIO (dfAt d) (dfInfo d) (params_iidSource (params6 m)) (slaac m) = (t, f, c, w)"
    by (cases "applyPIO (dfAt d) (dfInfo d) (params_iidSource (params6 m)) (slaac m)")
  then have "table_ok (slaac m) \<Longrightarrow> table_ok t" using applyPIO_ok [of "slaac m" "dfAt d" "dfInfo d"] by (metis fst_conv)
  then have "P (m\<lparr>slaac := t\<rparr>)" using assms st by (intro form) simp_all
  then show ?thesis using a st assms by (auto simp: form_deferred_def Let_def intro!: calls6)
qed

lemma autoFallbackFired_keeps [calls6]: "P m \<Longrightarrow> P (autoFallbackFired now rnd m)"
  unfolding autoFallbackFired_def by (intro control calls6 form) simp_all

lemma charge_deprecation_keeps [calls6]: "P m \<Longrightarrow> P (charge_deprecation now i m)"
proof -
  assume m: "P m"
  let ?e = "stEntries (slaac m) ! i"
  have "table_ok ((slaac m)\<lparr>stEntries := (stEntries (slaac m))[i := ?e\<lparr>seCharged := True\<rparr>]\<rparr>)" if "table_ok (slaac m)"
  proof (cases "i < length (stEntries (slaac m))")
    case True
    then show ?thesis using that table_ok_nth [OF that True] by (intro table_ok_update) (auto simp: entry_ok_def)
  next
    case False
    then show ?thesis using that by (simp add: list_update_beyond)
  qed
  then show ?thesis
    using m unfolding charge_deprecation_def Let_def by (auto simp: table_ok_def intro!: actions6 form)
qed

lemma slaacTick_keeps [calls6]: "P m \<Longrightarrow> P (slaacTick now rnd m)"
proof -
  assume m: "P m"
  obtain t g where e: "expire_entries now (slaac m) = (t, g)" by fastforce
  then have "table_ok (slaac m) \<Longrightarrow> table_ok t" using expire_ok [of "slaac m" now] by simp
  then have "P (m\<lparr>slaac := t\<rparr>)" by (intro form [OF m])
  then show ?thesis unfolding slaacTick_def e prod.case by (intro control calls6)
qed

text \<open>The bindings of \<^verbatim>\<open>observeRouter\<close> whose values matter.\<close>

lemma flow_observe:
  "(\<And>t ok. (routers_ok rs \<Longrightarrow> routers_ok t) \<Longrightarrow> P (f t ok)) \<Longrightarrow> P (Let (observe_advert now ra rs) (case_prod f))"
  "(\<And>t' obs'. (routers_ok t \<Longrightarrow> routers_ok t') \<Longrightarrow> P (g t' obs')) \<Longrightarrow> P (Let (fill_routers now t obs) (case_prod g))"
  "P (h m) \<Longrightarrow> P (h (journal6 nt m)) \<Longrightarrow> P (Let (if ok then m else journal6 nt m) h)"
  using observe_advert_ok [of rs now ra] fill_routers_ok [of t now obs] by (auto split: prod.split)

lemma flow_mode: "P a \<Longrightarrow> P b \<Longrightarrow> P c \<Longrightarrow> P d \<Longrightarrow> (\<And>x. P (e x)) \<Longrightarrow> P (case_Mode6 a b c d e md)"
  by (cases md) auto

lemma observeRouter_keeps [calls6]: "P m \<Longrightarrow> P (observeRouter now rnd ev m)"
proof (cases ev)
  case (Some ra)
  assume m: "P m"
  show ?thesis
    unfolding observeRouter_def Some option.case
    by (intro flow_observe flow_mode control calls6 observe m) (simp_all add: journal6_def stamp6_def)
qed (auto simp: observeRouter_def intro!: calls6)

lemma takeHostname6_keeps [calls6]: "P m \<Longrightarrow> P (takeHostname6 now rnd name m)"
  unfolding takeHostname6_def by (intro control calls6)

lemma common_event_keeps [calls6]: "P m \<Longrightarrow> P (common_event ev m)"
  unfolding common_event_def by (cases ev) (simp_all only: Event6.case, (intro control calls6; assumption)+)

lemma request_exhausted_keeps [calls6]: "P m \<Longrightarrow> P (request_exhausted now rnd m)"
  unfolding request_exhausted_def by (intro control calls6)

lemma take_confirmed_keeps [calls6]: "P m \<Longrightarrow> P (take_confirmed now rnd msg m)"
  unfolding take_confirmed_def by (intro control calls6)

lemma take_information_keeps [calls6]: "P m \<Longrightarrow> P (take_information now rnd msg m)"
  unfolding take_information_def by (intro control calls6)

lemma lose_to_conflict_keeps [calls6]: "P m \<Longrightarrow> P (lose_to_conflict now rnd why m)"
  unfolding lose_to_conflict_def by (intro control calls6)

lemma stepStopped6_keeps [calls6]: "P m \<Longrightarrow> P (stepStopped6 now rnd ev m)"
  unfolding stepStopped6_def by (cases ev) (simp_all only: Event6.case, (intro control calls6; assumption)+)

lemma stepInit6_keeps [calls6]: "P m \<Longrightarrow> P (stepInit6 now rnd ev m)"
  unfolding stepInit6_def by (cases ev) (simp_all only: Event6.case, (intro control calls6; assumption)+)

lemma stepSelecting6_keeps [calls6]: "P m \<Longrightarrow> P (stepSelecting6 now rnd ev m)"
  unfolding stepSelecting6_def by (cases ev) (simp_all only: Event6.case, (intro control calls6; assumption)+)

lemma stepRequesting6_keeps [calls6]: "P m \<Longrightarrow> P (stepRequesting6 now rnd ev m)"
  unfolding stepRequesting6_def by (cases ev) (simp_all only: Event6.case, (intro control calls6; assumption)+)

lemma stepConfirming6_keeps [calls6]: "P m \<Longrightarrow> P (stepConfirming6 now rnd ev m)"
  unfolding stepConfirming6_def by (cases ev) (simp_all only: Event6.case, (intro control calls6; assumption)+)

lemma stepInfoRequesting6_keeps [calls6]: "P m \<Longrightarrow> P (stepInfoRequesting6 now rnd ev m)"
  unfolding stepInfoRequesting6_def by (cases ev) (simp_all only: Event6.case, (intro control calls6; assumption)+)

lemma stepDAD6_keeps [calls6]: "P m \<Longrightarrow> P (stepDAD6 now rnd ev m)"
  unfolding stepDAD6_def by (cases ev) (simp_all only: Event6.case, (intro control calls6; assumption)+)

lemma stepDiscovering6_keeps [calls6]: "P m \<Longrightarrow> P (stepDiscovering6 now rnd ev m)"
  unfolding stepDiscovering6_def by (cases ev) (simp_all only: Event6.case, (intro control calls6; assumption)+)

lemma stepBound6_keeps [calls6]: "P m \<Longrightarrow> P (stepBound6 now rnd ev m)"
  unfolding stepBound6_def by (cases ev) (simp_all only: Event6.case, (intro control calls6; assumption)+)

lemma stepRenewal6_keeps [calls6]: "P m \<Longrightarrow> P (stepRenewal6 now rnd ev m)"
  unfolding stepRenewal6_def by (cases ev) (simp_all only: Event6.case, (intro control calls6; assumption)+)

lemma step_state6_keeps [calls6]: "P m \<Longrightarrow> P (step_state6 now rnd ev m)"
  unfolding step_state6_def by (cases "state6 m") (simp_all only: State6.case, (intro calls6; assumption)+)

text \<open>Every event but a Reconfigure.\<close>

lemma dispatch6_other_keeps:
  assumes "P m" "\<And>msg raw dst. ev = Ev6Received (Some msg) raw dst \<Longrightarrow> Type6 msg \<noteq> MsgReconfigure"
  shows "P (dispatch6 now rnd ev m)"
proof (cases ev)
  case (Ev6Received msg raw dst)
  then have "dispatch6 now rnd ev m = step_state6 now rnd ev m"
    using assms(2) by (cases msg) (simp_all add: dispatch6_def)
  then show ?thesis using assms(1) by (simp add: step_state6_keeps)
qed (simp_all only: dispatch6_def Event6.case, (intro control calls6 assms(1))+)

lemma aged6_keeps:
  assumes "P (m\<lparr>out6 := []\<rparr>)"
  shows "P (aged6 now m)"
proof (cases "roSeen (router m)")
  case True
  obtain t obs where f: "fill_routers now (routers m) (router m) = (t, obs)" by fastforce
  have "P ((m\<lparr>out6 := []\<rparr>)\<lparr>routers := t\<rparr>)"
    using observe [OF assms, of t] fill_routers_ok [of "routers m" now "router m"] f by simp
  then have "P ((m\<lparr>out6 := []\<rparr>)\<lparr>routers := t, router := obs\<rparr>)" by (intro control) simp
  then show ?thesis using True f by (simp add: aged6_def Let_def)
qed (use assms in \<open>simp add: aged6_def Let_def\<close>)

end

text \<open>With the one move a Reconfigure makes more.\<close>

locale all_moves6 = lease_moves6 +
  assumes obeyed: "P m \<Longrightarrow> reconf m sid = Some s \<Longrightarrow> \<not> (rsSeen s \<and> v \<le> rsReplay s)
      \<Longrightarrow> P (m\<lparr>reconf := (reconf m)(sid \<mapsto> s\<lparr>rsReplay := v, rsSeen := True\<rparr>),
              reconfCounts := (reconfCounts m)\<lparr>rcAccepted := rcAccepted (reconfCounts m) + 1\<rparr>\<rparr>)"
begin

lemma takeReconfigure_keeps [calls6]:
  assumes "P m"
  shows "P (takeReconfigure now rnd msg raw dst m)"
proof (cases "reconfigure_asks msg dst m")
  case (Inr kind)
  show ?thesis
  proof (cases "authenticateReconfigure msg raw m")
    case (Inr v)
    obtain s where s: "reconf m (server_of msg) = Some s" "\<not> (rsSeen s \<and> v \<le> rsReplay s)"
      using Inr by (auto simp: authenticateReconfigure_def split: option.splits sum.splits prod.splits if_splits)
    obtain n b where n: "respondToReconfigure now rnd kind (server_of msg) m = (n, b)" by fastforce
    have P: "P n" using respondToReconfigure_keeps [OF assms, of now rnd kind "server_of msg"] n by simp
    have "calm m n" using calm.respondToReconfigure_keeps [OF calm_refl [of m]] n by (metis fst_conv)
    then have "reconf n (server_of msg) = Some s" using calm_lease s(1) by simp
    moreover from this have "reconf (journal6 nt n) (server_of msg) = Some s" for nt by (simp add: journal6_def stamp6_def)
    ultimately show ?thesis
      using \<open>reconfigure_asks msg dst m = Inr kind\<close> Inr n P s(2)
      by (cases b) (auto simp: takeReconfigure_def raise_replay_def Let_def intro!: obeyed actions6)
  qed (use Inr assms in \<open>simp add: takeReconfigure_def refuseReconfigure_keeps\<close>)
qed (use assms in \<open>simp add: takeReconfigure_def refuseReconfigure_keeps\<close>)

lemma dispatch6_keeps: "P m \<Longrightarrow> P (dispatch6 now rnd ev m)"
proof (cases "\<exists>msg raw dst. ev = Ev6Received (Some msg) raw dst \<and> Type6 msg = MsgReconfigure")
  case False
  assume "P m"
  then show ?thesis using False by (intro dispatch6_other_keeps) auto
qed (auto simp: dispatch6_def intro: takeReconfigure_keeps)

theorem Step6_keeps: "P (m\<lparr>out6 := []\<rparr>) \<Longrightarrow> P (Step6 now rnd ev m)"
  unfolding Step6_aged by (intro dispatch6_keeps aged6_keeps)

end

end
