(* ===== verification/Proto6_Run.thy ===== *)
theory Proto6_Run
  imports Proto6_Moves_Step
begin

text \<open>
  The executions of a DHCPv6 client, events in any order at any time, and what holds of all of them:
  the caller's idea of the lease, the tables, the messages, and the authentication of Reconfigure.
\<close>

section \<open>Executions\<close>

text \<open>The machine a client has reached, with everything it told the runtime on the way.\<close>

inductive exec6 :: "Params6 \<Rightarrow> Action6Body list \<Rightarrow> Machine6 \<Rightarrow> bool" for p where
  exec6_new: "New6 p = Inr m \<Longrightarrow> exec6 p [] m"
| exec6_step: "exec6 p acts m \<Longrightarrow> exec6 p (acts @ map Body6 (out6 (Step6 now rnd ev m))) (Step6 now rnd ev m)"

inductive later6 :: "Machine6 \<Rightarrow> Machine6 \<Rightarrow> bool" for m where
  later6_refl: "later6 m m"
| later6_step: "later6 m n \<Longrightarrow> later6 m (Step6 now rnd ev n)"

lemma later6_trans: "later6 m n \<Longrightarrow> later6 n k \<Longrightarrow> later6 m k"
  by (rotate_tac, induction rule: later6.induct) (auto intro: later6.intros)

lemma New6_fields:
  assumes "New6 p = Inr m"
  shows "params6 m = p" "state6 m = State6Stopped" "haveLse6 m = False" "xid6 m = 0" "out6 m = []" "slaac m = zero_table"
    "routers m = zero_routers" "reconfCounts m = \<lparr>rcAccepted = 0, rcRefused = \<lambda>_. 0\<rparr>" "msgType m = 0"
proof -
  obtain k where k: "m = seedReconfigure (P6Resume p) k" "k = rememberDeclined (P6Declined p) (zero_machine6 p)"
    using assms by (auto simp: New6_def bind_res_eq_Inr)
  have f: "f m = f k" if "\<And>x r. f (x\<lparr>reconf := r\<rparr>) = f x" for f :: "Machine6 \<Rightarrow> 'x"
    using that k(1) by (simp add: seedReconfigure_def split: option.split)
  have g: "f m = f (zero_machine6 p)" if "\<And>x r. f (x\<lparr>reconf := r\<rparr>) = f x" "\<And>x d. f (x\<lparr>declined := d\<rparr>) = f x"
    for f :: "Machine6 \<Rightarrow> 'x"
    using f [of f] that k(2) by (simp add: rememberDeclined_def)
  show "params6 m = p" "state6 m = State6Stopped" "haveLse6 m = False" "xid6 m = 0" "out6 m = []" "slaac m = zero_table"
    "routers m = zero_routers" "reconfCounts m = \<lparr>rcAccepted = 0, rcRefused = \<lambda>_. 0\<rparr>" "msgType m = 0"
    by (subst g; simp add: zero_machine6_def)+
qed

lemma stamp6_fields [simp]:
  "haveLse6 (stamp6 b m) = haveLse6 m" "lease6 (stamp6 b m) = lease6 m" "slaac (stamp6 b m) = slaac m"
  "routers (stamp6 b m) = routers m" "reconf (stamp6 b m) = reconf m" "reconfCounts (stamp6 b m) = reconfCounts m"
  "xid6 (stamp6 b m) = xid6 m" "params6 (stamp6 b m) = params6 m" "state6 (stamp6 b m) = state6 m"
  "msgType (stamp6 b m) = msgType m" "declined (stamp6 b m) = declined m"
  by (simp_all add: stamp6_def)

section \<open>The caller's idea of the lease\<close>

definition held6 :: "Machine6 \<Rightarrow> Lease6 option" where
  "held6 m = (if haveLse6 m then Some (lease6 m) else None)"

text \<open>
  What the caller makes of an action: \<open>Some v\<close> is a lease held or none, \<open>None\<close> that it was told
  something that does not fit what it was told before.
\<close>

fun hear :: "Action6Body \<Rightarrow> Lease6 option option \<Rightarrow> Lease6 option option" where
  "hear (Act6LeaseAcquired l _) v = (if v = Some None then Some (Some l) else None)"
| "hear (Act6LeaseRenewed l) v = (case v of Some (Some _) \<Rightarrow> Some (Some l) | _ \<Rightarrow> None)"
| "hear (Act6LeaseChanged l) v = (case v of Some (Some _) \<Rightarrow> Some (Some l) | _ \<Rightarrow> None)"
| "hear (Act6LeaseLost _ l) v = (if v = Some (Some l) then Some None else None)"
| "hear _ v = v"

lemma hear_quiet: "quiet b \<Longrightarrow> hear b v = v"
  by (cases b) auto

definition heard :: "Lease6 option option \<Rightarrow> Machine6 \<Rightarrow> Lease6 option option" where
  "heard v m = fold hear (map Body6 (out6 m)) v"

lemma heard_stamp [simp]: "heard v (stamp6 b m) = hear b (heard v m)"
  by (simp add: heard_def stamp6_def)

lemma held6_stamp [simp]: "held6 (stamp6 b m) = held6 m"
  by (simp add: held6_def stamp6_def)

lemma heard_fields [simp]:
  "heard v (m\<lparr>lease6 := l\<rparr>) = heard v m" "heard v (m\<lparr>haveLse6 := b\<rparr>) = heard v m" "heard v (m\<lparr>slaac := t\<rparr>) = heard v m"
  "heard v (m\<lparr>routers := rs\<rparr>) = heard v m" "heard v (m\<lparr>reconf := f\<rparr>) = heard v m" "heard v (m\<lparr>reconfCounts := c\<rparr>) = heard v m"
  by (simp_all add: heard_def)

lemma heard_agree: "agree m n \<Longrightarrow> heard v n = heard v m \<and> held6 n = held6 m"
  by (auto simp: agree_def heard_def held6_def)

lemma heard_calm: "calm m n \<Longrightarrow> heard v n = heard v m \<and> held6 n = held6 m"
  by (induction rule: calm.induct) (auto simp: hear_quiet heard_agree)

interpretation caller: all_moves6 "\<lambda>m. heard v m = Some (held6 m)" for v
proof unfold_locales
  fix m n l h
  assume "heard v m = Some (held6 m)" "calm (m\<lparr>lease6 := l, haveLse6 := True\<rparr>) n"
  then show "heard v (stamp6 (if haveLse6 m then Act6LeaseRenewed l else Act6LeaseAcquired l h) n)
      = Some (held6 (stamp6 (if haveLse6 m then Act6LeaseRenewed l else Act6LeaseAcquired l h) n))"
    using heard_calm [of "m\<lparr>lease6 := l, haveLse6 := True\<rparr>" n v]
    by (simp add: held6_def split: if_splits)
next
  fix m n l
  assume "heard v m = Some (held6 m)" "haveLse6 m" "calm (m\<lparr>lease6 := l\<rparr>) n"
  then show "heard v (stamp6 (Act6LeaseChanged l) n) = Some (held6 (stamp6 (Act6LeaseChanged l) n))"
    using heard_calm [of "m\<lparr>lease6 := l\<rparr>" n v] by (simp add: held6_def split: if_splits)
qed (auto simp: hear_quiet held6_def dest: heard_agree [where v = v])

text \<open>
  C8: Following the lease actions of any execution, the caller holds exactly the lease the machine
  holds: a lease is acquired only where none is held, renewed, changed and lost only where it is, and
  what is lost is what was last told.
\<close>

theorem caller_view6:
  assumes "exec6 p acts m"
  shows "fold hear acts (Some None) = Some (if haveLse6 m then Some (lease6 m) else None)"
  using assms
proof induction
  case (exec6_new m)
  then show ?case by (simp add: New6_fields)
next
  case (exec6_step acts m now rnd ev)
  have "heard (Some (held6 m)) (Step6 now rnd ev m) = Some (held6 (Step6 now rnd ev m))"
    by (rule caller.Step6_keeps) (simp add: heard_def held6_def)
  then show ?case using exec6_step.IH by (simp add: heard_def held6_def)
qed

section \<open>The tables\<close>

interpretation tables: all_moves6 "\<lambda>m. table_ok (slaac m) \<and> routers_ok (routers m)"
  by unfold_locales (auto simp: agree_def dest!: calm_lease)

text \<open>
  C9: In every execution, whatever routers advertise and whatever a resumed lease names, the client
  holds at most eight formed addresses, each inside the /64 it was formed from and no two in one, and
  the lists of routers, resolvers, search domains, routes and NAT64 prefixes stay within their caps
  and name nothing twice.
\<close>

theorem tables_sound:
  assumes "exec6 p acts m"
  shows "table_ok (slaac m) \<and> routers_ok (routers m)"
  using assms
proof induction
  case (exec6_new m)
  then show ?case by (simp add: New6_fields)
next
  case (exec6_step acts m now rnd ev)
  then show ?case by (intro tables.Step6_keeps) simp
qed

end
