(* ===== verification/Proto6_Messages.thy ===== *)
theory Proto6_Messages
  imports Proto6_Run
begin

text \<open>
  Every message of every execution: where it goes, the transaction identifier, and which options it
  carries.
\<close>

section \<open>What \<open>build\<close> puts into a message\<close>

lemma Count6_simps [simp]:
  "Count6 [] k = 0"
  "Count6 (o1 # os) k = (if Code6 o1 = k then 1 else 0) + Count6 os k"
  "Count6 (xs @ ys) k = Count6 xs k + Count6 ys k"
  by (simp_all add: Count6_def)

lemma buildIA_count: "buildIA t m = Inr os \<Longrightarrow> Count6 os k \<le> (if k = OptV6IANA then 1 else 0)"
  by (auto simp: buildIA_def bind_res_eq_Inr split: option.splits prod.splits)

lemma buildPDFor_count: "buildPDFor t m = Inr os \<Longrightarrow> Count6 os k \<le> (if k = OptV6IAPD then 1 else 0)"
  by (auto simp: buildPDFor_def buildPD_def bind_res_eq_Inr split: option.splits prod.splits if_splits)

lemma buildTA_code: "buildTA as m = Inr v \<Longrightarrow> Code6 v = OptV6IATA"
  by (auto simp: buildTA_def bind_res_eq_Inr)

lemma buildIAs_count:
  assumes "buildIAs t m = Inr os"
  shows "Count6 os k \<le> (if k \<in> {OptV6IANA, OptV6IATA, OptV6IAPD} then 1 else 0)"
proof -
  obtain na pd where n: "buildIA t m = Inr na" "buildPDFor t m = Inr pd"
    and r: "(case ta_content t m of None \<Rightarrow> Inr (na @ pd)
      | Some as \<Rightarrow> bind_res (buildTA as m) (\<lambda>v. Inr (if t = MsgRelease6 then na @ [v] @ pd else na @ pd @ [v]))) = Inr os"
    using assms by (auto simp: buildIAs_def bind_res_eq_Inr)
  have "Count6 os k \<le> Count6 na k + Count6 pd k + (if k = OptV6IATA then 1 else 0)"
    using r by (auto simp: bind_res_eq_Inr dest: buildTA_code split: option.splits if_splits)
  then show ?thesis
    using buildIA_count [OF n(1), of k] buildPDFor_count [OF n(2), of k] by (auto split: if_splits)
qed

lemma build_parts:
  assumes "fst (build now t m) = Inr msg"
  obtains hs ias fq n where "build_head t m = Some hs" "buildIAs t m = Inr ias" "Type6 msg = t" "XID6 msg = xid6 m"
    "Options6 msg = hs @ ias @ build_tail now t fq n"
proof -
  obtain hs ias where h: "build_head t m = Some hs" "buildIAs t m = Inr ias"
    using assms by (auto simp: build_def split: option.splits sum.splits)
  obtain r n where f: "fqdnOption t m = (r, n)" by fastforce
  have x: "xid6 n = xid6 m" using f by (auto simp: fqdnOption_def split: if_splits)
  show thesis
    using assms h f x that by (cases r) (auto simp: build_def)
qed

lemma build_head_count:
  assumes "build_head t m = Some hs"
  shows "Count6 hs k = (if k = OptV6ClientID then 1 else 0)
      + (if k = OptV6ServerID \<and> (names_server t \<or> t = MsgInformationRequest \<and> reconfServerID m \<noteq> []) then 1 else 0)
      + (if k = OptV6ReconfAccept \<and> AcceptReconfigure (params6 m) \<and> (t = MsgSolicit \<or> t = MsgRequest6 \<or> t = MsgInformationRequest)
         then 1 else 0)
      + (if k = OptV6RapidCommit \<and> P6RapidCommit (params6 m) \<and> t = MsgSolicit then 1 else 0)"
    and "hd hs = \<lparr>Code6 = OptV6ClientID, Data6 = P6DUID (params6 m)\<rparr>" "hs \<noteq> []"
    and "names_server t \<Longrightarrow> First hs OptV6ServerID = Some (server6 m) \<and> server6 m \<noteq> []"
proof -
  have hs: "hs = [\<lparr>Code6 = OptV6ClientID, Data6 = P6DUID (params6 m)\<rparr>]
         @ (if names_server t then [\<lparr>Code6 = OptV6ServerID, Data6 = server6 m\<rparr>]
            else if t = MsgInformationRequest \<and> length (reconfServerID m) > 0
            then [\<lparr>Code6 = OptV6ServerID, Data6 = reconfServerID m\<rparr>] else [])
         @ (if AcceptReconfigure (params6 m) \<and> (t = MsgSolicit \<or> t = MsgRequest6 \<or> t = MsgInformationRequest)
            then [\<lparr>Code6 = OptV6ReconfAccept, Data6 = []\<rparr>] else [])
         @ (if P6RapidCommit (params6 m) \<and> t = MsgSolicit then [RapidCommitOption] else [])"
    and sv: "names_server t \<Longrightarrow> server6 m \<noteq> []"
    using assms by (auto simp: build_head_def split: if_split_asm)
  have one: "Count6 (if c then [o1] else []) k = (if Code6 o1 = k \<and> c then 1 else 0)" for c o1 by simp
  have two: "Count6 (if c then [o1] else if d then [o2] else []) k
      = (if c then if Code6 o1 = k then 1 else 0 else if Code6 o2 = k \<and> d then 1 else 0)" for c d o1 o2 by simp
  show "Count6 hs k = (if k = OptV6ClientID then 1 else 0)
      + (if k = OptV6ServerID \<and> (names_server t \<or> t = MsgInformationRequest \<and> reconfServerID m \<noteq> []) then 1 else 0)
      + (if k = OptV6ReconfAccept \<and> AcceptReconfigure (params6 m) \<and> (t = MsgSolicit \<or> t = MsgRequest6 \<or> t = MsgInformationRequest)
         then 1 else 0)
      + (if k = OptV6RapidCommit \<and> P6RapidCommit (params6 m) \<and> t = MsgSolicit then 1 else 0)"
    unfolding hs Count6_simps(3) one two by (simp add: RapidCommitOption_def)
  show "hd hs = \<lparr>Code6 = OptV6ClientID, Data6 = P6DUID (params6 m)\<rparr>" "hs \<noteq> []" unfolding hs by simp_all
  show "First hs OptV6ServerID = Some (server6 m) \<and> server6 m \<noteq> []" if "names_server t"
    using sv [OF that] that unfolding hs by simp
qed

lemma build_tail_count:
  "Count6 (build_tail now t fq m) k \<le> (if k \<in> {OptV6ClientFQDN, OptV6ORO, OptV6ElapsedTime} then 1 else 0)"
  "Count6 (build_tail now t fq m) OptV6ElapsedTime = 1"
  "build_tail now t fq m \<noteq> []" "Code6 (last (build_tail now t fq m)) = OptV6ElapsedTime"
  by (cases fq; simp add: build_tail_def Let_def)+

section \<open>Every message\<close>

text \<open>A message of the client with these parameters.\<close>

definition message_ok :: "Params6 \<Rightarrow> MessageV6 \<Rightarrow> bool" where
  "message_ok p msg \<longleftrightarrow>
     (let os = Options6 msg; t = Type6 msg in
      XID6 msg \<le> 0xFFFFFF
      \<and> hd os = \<lparr>Code6 = OptV6ClientID, Data6 = P6DUID p\<rparr> \<and> Count6 os OptV6ClientID = 1
      \<and> Code6 (last os) = OptV6ElapsedTime \<and> Count6 os OptV6ElapsedTime = 1
      \<and> (if names_server t then Count6 os OptV6ServerID = 1 \<and> First os OptV6ServerID \<noteq> Some []
         else if t = MsgInformationRequest then Count6 os OptV6ServerID \<le> 1 else Count6 os OptV6ServerID = 0)
      \<and> Count6 os OptV6IANA \<le> 1 \<and> Count6 os OptV6IATA \<le> 1 \<and> Count6 os OptV6IAPD \<le> 1
      \<and> (Count6 os OptV6ReconfAccept = 0 \<or> AcceptReconfigure p \<and> t \<in> {MsgSolicit, MsgRequest6, MsgInformationRequest})
      \<and> (Count6 os OptV6RapidCommit = 0 \<or> P6RapidCommit p \<and> t = MsgSolicit))"

lemma First_append: "First (xs @ ys) c = (case First xs c of None \<Rightarrow> First ys c | Some v \<Rightarrow> Some v)"
  by (induction xs) auto

lemma build_ok:
  assumes "fst (build now t m) = Inr msg" "xid6 m \<le> 0xFFFFFF" "same_client p (params6 m)"
  shows "message_ok p msg"
proof -
  obtain hs ias fq n where parts: "build_head t m = Some hs" "buildIAs t m = Inr ias" "Type6 msg = t" "XID6 msg = xid6 m"
    "Options6 msg = hs @ ias @ build_tail now t fq n"
    by (rule build_parts [OF assms(1)])
  note same = same_client_fields [OF assms(3)]
  have cnt: "Count6 (Options6 msg) k = Count6 hs k + Count6 ias k + Count6 (build_tail now t fq n) k" for k
    unfolding parts(5) by simp
  note head = build_head_count [OF parts(1)] and ias = buildIAs_count [OF parts(2)] and tail = build_tail_count [of now t fq n]
  have ids: "Count6 (Options6 msg) OptV6ClientID = 1" "Count6 (Options6 msg) OptV6ElapsedTime = 1"
    "Count6 (Options6 msg) OptV6IANA \<le> 1" "Count6 (Options6 msg) OptV6IATA \<le> 1" "Count6 (Options6 msg) OptV6IAPD \<le> 1"
    using ias [of OptV6ClientID] ias [of OptV6ElapsedTime] ias [of OptV6IANA] ias [of OptV6IATA] ias [of OptV6IAPD]
      tail(1) [of OptV6ClientID] tail(1) [of OptV6IANA] tail(1) [of OptV6IATA] tail(1) [of OptV6IAPD] tail(2)
    by (simp_all add: cnt head(1))
  have sid: "Count6 (Options6 msg) OptV6ServerID = (if names_server t \<or> t = MsgInformationRequest \<and> reconfServerID m \<noteq> [] then 1 else 0)"
    using ias [of OptV6ServerID] tail(1) [of OptV6ServerID] by (simp add: cnt head(1))
  have rest: "Count6 (Options6 msg) OptV6ReconfAccept
      = (if AcceptReconfigure p \<and> (t = MsgSolicit \<or> t = MsgRequest6 \<or> t = MsgInformationRequest) then 1 else 0)"
    "Count6 (Options6 msg) OptV6RapidCommit = (if P6RapidCommit p \<and> t = MsgSolicit then 1 else 0)"
    using ias [of OptV6ReconfAccept] tail(1) [of OptV6ReconfAccept] ias [of OptV6RapidCommit] tail(1) [of OptV6RapidCommit] same
    by (simp_all add: cnt head(1))
  have hd: "hd (Options6 msg) = \<lparr>Code6 = OptV6ClientID, Data6 = P6DUID p\<rparr>"
    using parts(5) head(2,3) same by (simp add: hd_append)
  have last: "Code6 (last (Options6 msg)) = OptV6ElapsedTime"
    using parts(5) tail(3,4) by (simp add: last_append)
  have first: "First (Options6 msg) OptV6ServerID \<noteq> Some []" if "names_server t"
    using parts(5) head(4) that by (simp add: First_append)
  have nm: "names_server t \<Longrightarrow> t \<noteq> MsgInformationRequest" by (auto simp: names_server_def)
  show ?thesis
    unfolding message_ok_def Let_def parts(3,4) sid rest
    using assms(2) hd last first ids nm by simp
qed

fun sent_ok :: "Params6 \<Rightarrow> Action6Body \<Rightarrow> bool" where
  "sent_ok p (Act6Send msg dst) = (message_ok p msg \<and> dst = AllDHCPRelayAgentsAndServers)"
| "sent_ok p _ = True"

lemma sent_quiet: "quiet b \<Longrightarrow> sent_ok p b"
  by (cases b) auto

definition speaks :: "Params6 \<Rightarrow> Machine6 \<Rightarrow> bool" where
  "speaks p m \<longleftrightarrow> xid6 m \<le> 0xFFFFFF \<and> same_client p (params6 m) \<and> list_all (sent_ok p) (map Body6 (out6 m))"

lemma speaks_stamp [simp]: "speaks p (stamp6 b m) \<longleftrightarrow> speaks p m \<and> sent_ok p b"
  by (auto simp: speaks_def stamp6_def)

lemma speaks_fields [simp]:
  "speaks p (m\<lparr>lease6 := l\<rparr>) = speaks p m" "speaks p (m\<lparr>haveLse6 := b\<rparr>) = speaks p m" "speaks p (m\<lparr>slaac := t\<rparr>) = speaks p m"
  "speaks p (m\<lparr>routers := rs\<rparr>) = speaks p m" "speaks p (m\<lparr>reconf := f\<rparr>) = speaks p m" "speaks p (m\<lparr>reconfCounts := c\<rparr>) = speaks p m"
  by (simp_all add: speaks_def)

lemma speaks_agree: "agree m n \<Longrightarrow> speaks p m \<Longrightarrow> speaks p n"
  by (auto simp: speaks_def agree_def intro: same_client_trans)

interpretation speaks: moves6 "speaks p" for p
proof unfold_locales
  fix m now msg n
  assume m: "speaks p m" "fst (build now (msgType m) m) = Inr msg" "agree m n"
  then have "message_ok p msg" by (intro build_ok) (auto simp: speaks_def)
  then show "speaks p (stamp6 (Act6Send msg AllDHCPRelayAgentsAndServers) n)"
    using speaks_agree [OF m(3,1)] by simp
qed (auto simp: sent_quiet intro: speaks_agree)

interpretation speaks: all_moves6 "speaks p" for p
  by unfold_locales (auto dest: speaks.calm_keeps)


end
