(* ===== verification/Proto6_Reconfigure.thy ===== *)
theory Proto6_Reconfigure
  imports Proto6_Run
begin

text \<open>
  Reconfigure, the one message a server sends unasked (RFC 9915 section 16.11 and 20.4): acted on only
  when authenticated, and never twice.
\<close>

section \<open>The replay floor only rises\<close>

definition floor_le :: "(byte list \<Rightarrow> reconfServer option) \<Rightarrow> (byte list \<Rightarrow> reconfServer option) \<Rightarrow> bool" where
  "floor_le f g \<longleftrightarrow> (\<forall>sid s. f sid = Some s \<longrightarrow> rsSeen s \<longrightarrow>
     (\<exists>s'. g sid = Some s' \<and> rsSeen s' \<and> rsReplay s \<le> rsReplay s'))"

lemma floor_le_refl [simp]: "floor_le f f"
  by (auto simp: floor_le_def)

lemma floor_le_trans: "floor_le f g \<Longrightarrow> floor_le g h \<Longrightarrow> floor_le f h"
  unfolding floor_le_def by (meson order_trans)

lemma floor_le_update:
  assumes "floor_le f g" "\<And>s. g sid = Some s \<Longrightarrow> rsSeen s \<Longrightarrow> rsSeen s' \<and> rsReplay s \<le> rsReplay s'"
  shows "floor_le f (g(sid \<mapsto> s'))"
  using assms unfolding floor_le_def by (metis (no_types, lifting) fun_upd_apply order_trans option.inject)

interpretation floor: all_moves6 "\<lambda>m. floor_le f (reconf m)" for f
  by unfold_locales (auto simp: agree_def dest!: calm_lease intro!: floor_le_update)

lemma later6_floor: "later6 m n \<Longrightarrow> floor_le (reconf m) (reconf n)"
proof (induction rule: later6.induct)
  case (later6_step n now rnd ev)
  have "floor_le (reconf n) (reconf (Step6 now rnd ev n))" by (rule floor.Step6_keeps) simp
  then show ?case using later6_step.IH floor_le_trans by blast
qed simp

section \<open>Only a Reconfigure is counted as accepted\<close>

interpretation uncounted: lease_moves6 "\<lambda>m. rcAccepted (reconfCounts m) = c" for c
  by unfold_locales (auto simp: agree_def dest!: calm_lease)

lemma uncounted_refuse [simp]: "rcAccepted (reconfCounts (refuseReconfigure why m)) = rcAccepted (reconfCounts m)"
  by (rule uncounted.refuseReconfigure_keeps) simp

lemma aged6_fields [simp]:
  "reconf (aged6 now m) = reconf m" "reconfCounts (aged6 now m) = reconfCounts m" "params6 (aged6 now m) = params6 m"
  "msgType (aged6 now m) = msgType m"
  by (simp_all add: aged6_def Let_def split: prod.split)

text \<open>The replay detection value a message carries.\<close>

definition replay_value :: "MessageV6 \<Rightarrow> 64 word option" where
  "replay_value msg = (case Auth_opt6 (Options6 msg) of Some (Inr a) \<Rightarrow> Some (AuReplay a) | _ \<Rightarrow> None)"

lemma authenticated:
  assumes "authenticateReconfigure msg raw m = Inr v"
  obtains s where "reconf m (server_of msg) = Some s" "rsKey s \<noteq> []" "RKAPVerify raw (rsKey s) = Inr ()"
    "rsSeen s \<longrightarrow> rsReplay s < v" "replay_value msg = Some v"
  using assms by (auto simp: authenticateReconfigure_def replay_value_def not_le split: option.splits sum.splits prod.splits if_splits)

text \<open>A server whose floor the message does not pass refuses it.\<close>

lemma replayed:
  assumes "reconf m (server_of msg) = Some s" "rsSeen s" "replay_value msg = Some v" "v \<le> rsReplay s"
  shows "\<exists>why. authenticateReconfigure msg raw m = Inl why"
  using assms by (auto simp: authenticateReconfigure_def replay_value_def split: option.splits sum.splits prod.splits)

lemma takeReconfigure_refuses:
  assumes "\<exists>why. authenticateReconfigure msg raw m = Inl why"
  shows "rcAccepted (reconfCounts (takeReconfigure now rnd msg raw dst m)) = rcAccepted (reconfCounts m)"
  using assms by (auto simp: takeReconfigure_def split: sum.split)

lemma takeReconfigure_accepts:
  assumes "rcAccepted (reconfCounts (takeReconfigure now rnd msg raw dst m)) \<noteq> rcAccepted (reconfCounts m)"
  obtains kind v s where "reconfigure_asks msg dst m = Inr kind" "authenticateReconfigure msg raw m = Inr v"
    "reconf (takeReconfigure now rnd msg raw dst m) (server_of msg) = Some s" "rsSeen s" "rsReplay s = v"
proof -
  obtain kind where k: "reconfigure_asks msg dst m = Inr kind"
    using assms by (cases "reconfigure_asks msg dst m") (auto simp: takeReconfigure_def)
  obtain v where v: "authenticateReconfigure msg raw m = Inr v"
    using assms takeReconfigure_refuses [of msg raw m now rnd dst] by (cases "authenticateReconfigure msg raw m") auto
  obtain s0 where s0: "reconf m (server_of msg) = Some s0" by (rule authenticated [OF v])
  obtain n b where n: "respondToReconfigure now rnd kind (server_of msg) m = (n, b)" by fastforce
  have "calm m (fst (respondToReconfigure now rnd kind (server_of msg) m))"
    by (rule calm.respondToReconfigure_keeps [OF calm_refl])
  then have same: "reconf n = reconf m" "rcAccepted (reconfCounts n) = rcAccepted (reconfCounts m)"
    using n calm_lease by auto
  have "b" using assms k v n same by (cases b) (auto simp: takeReconfigure_def)
  then have "takeReconfigure now rnd msg raw dst m = raise_replay (server_of msg) v n"
    using k v n by (simp add: takeReconfigure_def)
  then have "reconf (takeReconfigure now rnd msg raw dst m) (server_of msg) = Some (s0\<lparr>rsReplay := v, rsSeen := True\<rparr>)"
    using same s0 by (simp add: raise_replay_def Let_def)
  from that [OF k v this] show thesis by simp
qed

lemma takeReconfigure_acts:
  assumes "reconfigure_asks msg dst m = Inr MsgRenew" "authenticateReconfigure msg raw m = Inr v" "state6 m = State6Bound"
  shows "rcAccepted (reconfCounts (takeReconfigure now rnd msg raw dst m)) = rcAccepted (reconfCounts m) + 1"
proof -
  obtain s where s: "reconf m (server_of msg) = Some s" by (rule authenticated [OF assms(2)])
  let ?n = "enterRenewing6 now rnd (journal6 (JReconf CAsksRenew) m)"
  have t: "takeReconfigure now rnd msg raw dst m = raise_replay (server_of msg) v ?n"
    using assms by (simp add: takeReconfigure_def respondToReconfigure_def)
  have "calm m (fst (respondToReconfigure now rnd MsgRenew (server_of msg) m))"
    by (rule calm.respondToReconfigure_keeps [OF calm_refl])
  then have "calm m ?n" using assms(3) by (simp add: respondToReconfigure_def)
  then have "reconf ?n = reconf m" "rcAccepted (reconfCounts ?n) = rcAccepted (reconfCounts m)"
    using calm_lease by auto
  then show ?thesis unfolding t using s by (simp add: raise_replay_def Let_def journal6_def)
qed


end
