(* ===== verification/Proto6_Samples.thy ===== *)
theory Proto6_Samples
  imports Proto6_Messages Proto6_Reconfigure
begin

text \<open>
  Concrete clients: one that asks a server, one that forms its address from a prefix a router
  advertises. The properties of every execution are applied to what they do.
\<close>

section \<open>Runs\<close>

definition asking6 :: Params6 where
  "asking6 = DefaultParams6\<lparr>P6DUID := [0, 3, 0, 1, 2, 0, 0, 0, 0, 1], P6IAID := 7\<rparr>"

definition forming6 :: Params6 where
  "forming6 = asking6\<lparr>P6Mode := Mode6SLAAC, LinkAddr := [2, 0, 0, 0, 0, 1]\<rparr>"

text \<open>A router that advertises 2001:db8::/64, with or without other configuration.\<close>

definition advert6_of :: "bool \<Rightarrow> 32 word \<Rightarrow> Event6" where
  "advert6_of oth valid = Ev6RouterAdvert (Some \<lparr>raHopLimit = 64, raManaged = False, raOther = oth,
     raLifetime = 1800, raPreference = RoutePrefMedium, raReachable = 0, raRetrans = 0,
     raPrefixes = [\<lparr>piLen = 64, piOnLink = True, piAutonomous = True, piValid = valid, piPreferred = valid,
       piPrefix = Addr6 0x20010DB8000000000000000000000000\<rparr>],
     raRouter = Addr6 0xFE800000000000000000000000000001, raMTU = 0, raRoutes = [], raRDNSS = [], raDNSSL = [],
     raPREF64 = [], raIgnored = 0\<rparr>)"

definition formed_addr :: addr where
  "formed_addr = Addr6 0x20010DB800000000000000FFFE000001"

text \<open>The machine after a list of events, and all it said on the way.\<close>

definition steps6 :: "(Instant \<times> rnd64 \<times> Event6) list \<Rightarrow> Machine6 \<Rightarrow> Machine6" where
  "steps6 evs m = fold (\<lambda>(now, rnd, ev) m. Step6 now rnd ev m) evs m"

fun said6 :: "(Instant \<times> rnd64 \<times> Event6) list \<Rightarrow> Machine6 \<Rightarrow> Action6Body list" where
  "said6 [] m = []"
| "said6 ((now, rnd, ev) # evs) m = map Body6 (out6 (Step6 now rnd ev m)) @ said6 evs (Step6 now rnd ev m)"

lemma exec6_said: "exec6 p acts m \<Longrightarrow> exec6 p (acts @ said6 evs m) (steps6 evs m)"
proof (induction evs arbitrary: m acts)
  case (Cons e evs)
  obtain now rnd ev where e: "e = (now, rnd, ev)" by (cases e)
  have "exec6 p (acts @ map Body6 (out6 (Step6 now rnd ev m))) (Step6 now rnd ev m)"
    by (rule exec6_step [OF Cons.prems])
  from Cons.IH [OF this] show ?case by (simp add: steps6_def e)
qed (simp add: steps6_def)

lemma said6_last: "set (map Body6 (out6 (Step6 now rnd ev (steps6 evs m)))) \<subseteq> set (said6 (evs @ [(now, rnd, ev)]) m)"
proof (induction evs arbitrary: m)
  case (Cons e evs)
  show ?case using Cons.IH [of "Step6 (fst e) (fst (snd e)) (snd (snd e)) m"] by (cases e) (simp add: steps6_def le_supI2)
qed (simp add: steps6_def)

definition fresh6 :: "Params6 \<Rightarrow> Machine6" where
  "fresh6 p = (case New6 p of Inr m \<Rightarrow> m | Inl _ \<Rightarrow> zero_machine6 p)"

lemma exec6_fresh:
  assumes "validate6 p = Inr ()"
  shows "exec6 p (said6 evs (fresh6 p)) (steps6 evs (fresh6 p))"
proof -
  obtain m where m: "New6 p = Inr m" using assms by (auto simp: New6_def)
  show ?thesis using exec6_said [OF exec6_new [OF m], of evs] m by (simp add: fresh6_def)
qed

lemma asking6_valid: "validate6 asking6 = Inr ()"
  by code_simp

lemma forming6_valid: "validate6 forming6 = Inr ()"
  by code_simp

section \<open>A formed address\<close>

definition forming_events :: "(Instant \<times> rnd64 \<times> Event6) list" where
  "forming_events = [(0, 1, Ev6Start), (1, 1, advert6_of False 200), (2, 1, Ev6DADResult \<lparr>dadAddr = formed_addr, dadDuplicate = False\<rparr>)]"

lemma forming_run:
  "let m = steps6 forming_events (fresh6 forming6) in
     haveLse6 m \<and> map a6Addr (l6Addrs (lease6 m)) = [formed_addr] \<and> map seAddr (stEntries (slaac m)) = [formed_addr]"
  by code_simp

lemmas forming_facts = forming_run [unfolded Let_def]

lemma caller_view6_witness:
  "fold hear (said6 forming_events (fresh6 forming6)) (Some None) = Some (Some (lease6 (steps6 forming_events (fresh6 forming6))))
   \<and> map a6Addr (l6Addrs (lease6 (steps6 forming_events (fresh6 forming6)))) = [formed_addr]"
  using caller_view6 [OF exec6_fresh [OF forming6_valid, of forming_events]] forming_facts by simp

lemma tables_sound_witness:
  "table_ok (slaac (steps6 forming_events (fresh6 forming6))) \<and> routers_ok (routers (steps6 forming_events (fresh6 forming6)))
   \<and> map seAddr (stEntries (slaac (steps6 forming_events (fresh6 forming6)))) = [formed_addr]"
  using tables_sound [OF exec6_fresh [OF forming6_valid, of forming_events]] forming_facts by simp

section \<open>A message\<close>

definition started6 :: Machine6 where
  "started6 = steps6 [(0, 1, Ev6Start)] (fresh6 asking6)"

fun solicits :: "Action6Body \<Rightarrow> bool" where
  "solicits (Act6Send msg dst) = (Type6 msg = MsgSolicit)"
| "solicits _ = False"

lemma solicits_iff: "solicits b \<longleftrightarrow> (\<exists>msg dst. b = Act6Send msg dst \<and> Type6 msg = MsgSolicit)"
  by (cases b) auto

lemma soliciting_run:
  "list_ex solicits
     (map Body6 (out6 (Step6 10 5 (Ev6TimerFired Timer6Delay) started6)))"
  by code_simp


section \<open>A Reconfigure\<close>

text \<open>A bound client that holds a key of its server, and the octets of a Reconfigure signed with it.\<close>

definition server_key :: "byte list" where
  "server_key = map of_nat [1..<17]"

definition keyed6 :: Machine6 where
  "keyed6 = (zero_machine6 asking6)\<lparr>state6 := State6Bound,
     reconf := [[0, 3, 0, 1, 2] \<mapsto> \<lparr>rsKey = server_key, rsReplay = 4, rsSeen = True\<rparr>]\<rparr>"

text \<open>What precedes the digest: both identifiers, "renew", and an Authentication option with replay 5.\<close>

definition before_digest :: "byte list" where
  "before_digest = [10, 0, 0, 0, 0, 1, 0, 10, 0, 3, 0, 1, 2, 0, 0, 0, 0, 1, 0, 2, 0, 5, 0, 3,
     0, 1, 2, 0, 19, 0, 1, 5, 0, 11, 0, 28, 3, 1, 0, 0, 0, 0, 0, 0, 0, 0, 5, 2]"

definition reconfigure_octets :: "byte list" where
  "reconfigure_octets = before_digest @ hmacMD5 server_key (before_digest @ replicate 16 0)"

definition reconfigure_event :: Event6 where
  "reconfigure_event = Ev6Received (case DecodeV6 reconfigure_octets of Inr msg \<Rightarrow> Some msg | Inl _ \<Rightarrow> None) reconfigure_octets (Addr6 9)"

definition authentic_message :: "byte list \<Rightarrow> MessageV6" where
  "authentic_message d = \<lparr>Type6 = MsgReconfigure, XID6 = 0, Options6 =
     [\<lparr>Code6 = OptV6ClientID, Data6 = [0, 3, 0, 1, 2, 0, 0, 0, 0, 1]\<rparr>, \<lparr>Code6 = OptV6ServerID, Data6 = [0, 3, 0, 1, 2]\<rparr>,
      \<lparr>Code6 = OptV6ReconfMsg, Data6 = [5]\<rparr>, \<lparr>Code6 = OptV6Auth, Data6 = [3, 1, 0, 0, 0, 0, 0, 0, 0, 0, 5, 2] @ d\<rparr>]\<rparr>"

lemma list16:
  assumes "length d = 16"
  obtains a b c e f g h i j k l m n p q r where "d = [a, b, c, e, f, g, h, i, j, k, l, m, n, p, q, r]"
  using assms by (auto simp: numeral_eq_Suc length_Suc_conv)

lemma authentic_octets:
  assumes "length d = 16"
  shows "DecodeV6 (before_digest @ d) = Inr (authentic_message d) \<and> rkapDigestSpan (before_digest @ d) = Inr 48"
  by (rule list16 [OF assms], simp only:, code_simp)

lemma authentic_signed:
  "DecodeV6 reconfigure_octets = Inr (authentic_message (hmacMD5 server_key (before_digest @ replicate 16 0)))"
  "RKAPVerify reconfigure_octets server_key = Inr ()"
proof -
  let ?d = "hmacMD5 server_key (before_digest @ replicate 16 0)"
  have l: "length ?d = 16" "length before_digest = 48" "length server_key = 16"
    by (simp_all add: before_digest_def server_key_def)
  show "DecodeV6 reconfigure_octets = Inr (authentic_message ?d)"
    using authentic_octets [OF l(1)] by (simp add: reconfigure_octets_def)
  have "octets 48 16 reconfigure_octets = ?d" "clear_range 48 64 reconfigure_octets = before_digest @ replicate 16 0"
    using l by (simp_all add: reconfigure_octets_def octets_def clear_range_def)
  then show "RKAPVerify reconfigure_octets server_key = Inr ()"
    using authentic_octets [OF l(1)] l(3)
    by (simp add: RKAPVerify_def reconfigure_octets_def equal_constant_time_iff)
qed

lemma authentic_fields:
  assumes "length d = 16"
  shows "reconfigure_asks (authentic_message d) (Addr6 9) (aged6 1 keyed6) = Inr MsgRenew
    \<and> reconf (aged6 1 keyed6) (server_of (authentic_message d)) = Some \<lparr>rsKey = server_key, rsReplay = 4, rsSeen = True\<rparr>
    \<and> state6 (aged6 1 keyed6) = State6Bound
    \<and> (case Auth_opt6 (Options6 (authentic_message d)) of Some (Inr a) \<Rightarrow> AuReplay a = 5 \<and> RKAP a = Inr (2, d) | _ \<Rightarrow> False)"
  by (rule list16 [OF assms], simp only:, code_simp)

lemma reconfigure_run: "rcAccepted (reconfCounts (Step6 1 1 reconfigure_event keyed6)) = 1"
proof -
  let ?d = "hmacMD5 server_key (before_digest @ replicate 16 0)"
  have l: "length ?d = 16" by simp
  note f = authentic_fields [OF l]
  have "authenticateReconfigure (authentic_message ?d) reconfigure_octets (aged6 1 keyed6) = Inr 5"
    using f authentic_signed(2)
    by (auto simp: authenticateReconfigure_def server_key_def split: option.splits sum.splits)
  moreover have "rcAccepted (reconfCounts keyed6) = 0" by (simp add: keyed6_def zero_machine6_def)
  ultimately show ?thesis
    using takeReconfigure_acts [of "authentic_message ?d" "Addr6 9" "aged6 1 keyed6" reconfigure_octets 5 1 1] f
    by (simp add: Step6_aged reconfigure_event_def authentic_signed(1) dispatch6_def authentic_message_def)
qed


end
