(* ===== verification/Spec2Isabelle.thy ===== *)
theory Spec2Isabelle
  imports Wire_Md5_Vectors Wire_Rkap Wire_Icmp6_Properties Lease_Ratelimit Lease_Restart
    Proto6_Sha_Vectors Proto6_Backoff Proto6_Lease_Properties
    Proto6_Samples
begin

text \<open>
  A verification library for a DHCP client library in Go. The sources are layered in rings:
  \<^verbatim>\<open>src/wire\<close> (codecs, no state), \<^verbatim>\<open>src/proto\<close> (pure state machines that take a clock value, a
  random word and an event and return actions), \<^verbatim>\<open>src/lease\<close> (a manager that drives a machine
  and persists leases) and \<^verbatim>\<open>src/runtime\<close> (sockets, timers, files). The library models the
  codecs, the DHCPv4 and the DHCPv6 machine, and the manager of the DHCPv4 machine: it drives the
  machine, feeds failed actions back to it, journals every step and tells its caller of the lease in
  events, from which the durable records are written; a restarted client resumes the lease a record
  holds.

  \<^bold>\<open>Conventions.\<close> Octets are 8-bit words, wire integers words of their width, Go's \<^verbatim>\<open>int64\<close>
  times are integers wrapped by \<open>i64\<close>; a Go error is the left of a sum, an absent value
  \<open>None\<close>; a method that changes its receiver is a function from state to state. Constants of
  the sources are input abbreviations. The text of a journal note is a constructor of
  \<open>jnote\<close> carrying the values the Go code prints.

  \<^bold>\<open>Theories.\<close>

  \<^item> \<open>Dhcp_Prelude\<close>: octets, big-endian integers, error results, 64-bit signed wrap-around.
  \<^item> \<open>Netip\<close>: the part of Go's \<^verbatim>\<open>net/netip\<close> the sources use.
  \<^item> \<open>Wire_Codec\<close>: \<^verbatim>\<open>wire/message.go\<close>, \<^verbatim>\<open>option.go\<close>, \<^verbatim>\<open>codec.go\<close>: \<open>Encode\<close>, \<open>Decode\<close>; round
    trip, classification of refusals, RFC 3396 concatenation.
  \<^item> \<open>Wire_Values\<close>: \<^verbatim>\<open>wire/values.go\<close> and the option encoders: routes, names, search lists,
    vendor data, user class; each reader against its encoder.
  \<^item> \<open>Wire_Arp\<close>: \<^verbatim>\<open>wire/arp.go\<close>.
  \<^item> \<open>Wire_Md5\<close>, \<open>Wire_Md5_Vectors\<close>: \<^verbatim>\<open>wire/hmacmd5.go\<close> with the RFC test vectors.
  \<^item> \<open>Wire_Auth\<close>: \<^verbatim>\<open>wire/option_auth.go\<close>: the Authentication option and \<open>VerifyForcerenew\<close>.
  \<^item> \<open>Netip6\<close>: IPv6 addresses as sixteen octets.
  \<^item> \<open>Wire_V6\<close>, \<open>Wire_V6_Properties\<close>: \<^verbatim>\<open>wire/dhcpv6.go\<close>: messages, identity associations and option
    values. A locale of item lists gives the exactness of the option area (every accepted octet
    string is the encoding of what was read), a locale of value codecs that of the associations.
  \<^item> \<open>Wire_Rkap\<close>: \<^verbatim>\<open>wire/dhcpv6_reconfigure.go\<close>: the reconfigure key authentication protocol.
  \<^item> \<open>Wire_Icmp6\<close>, \<open>Wire_Icmp6_Properties\<close>: \<^verbatim>\<open>wire/icmpv6.go\<close>: the ICMPv6 checksum and neighbor
    discovery; the checksum against RFC 1071, and what a decoded Router Advertisement holds.
  \<^item> \<open>Proto_Time\<close>, \<open>Proto_State\<close>, \<open>Proto_Lease\<close>, \<open>Proto_Acd\<close>, \<open>Proto_Params\<close>: \<^verbatim>\<open>time.go\<close>,
    \<^verbatim>\<open>backoff.go\<close>, \<^verbatim>\<open>state.go\<close>, \<^verbatim>\<open>lease.go\<close>, \<^verbatim>\<open>acd.go\<close>, \<^verbatim>\<open>params.go\<close> of \<^verbatim>\<open>src/proto\<close>.
  \<^item> \<open>Proto_Machine\<close>, \<open>Proto_Step\<close>: \<^verbatim>\<open>machine.go\<close>, \<^verbatim>\<open>machine_acd.go\<close>, \<^verbatim>\<open>machine_hostname.go\<close>,
    \<^verbatim>\<open>machine_forcerenew.go\<close>, \<^verbatim>\<open>rapidcommit.go\<close>, \<^verbatim>\<open>ipv6only.go\<close>: the machine's record, every
    method, and \<open>Step\<close>.
  \<^item> \<open>Proto_Observe\<close>: what surrounds the machine: a locale of observers that fold the
    emitted actions, interpreted for the runtime's timer table (\<open>timers\<close>) and for the caller's
    idea of the lease (\<open>callers\<close>).
  \<^item> \<open>Proto_Invariant\<close>, \<open>Proto_Safety\<close>: the invariant \<open>minv\<close> and one preservation lemma per
    method and handler, up to \<open>Step\<close>.
  \<^item> \<open>Proto_Run\<close>: \<open>reachable\<close>, the executions of a client, and the invariant by rule induction.
  \<^item> \<open>Proto_Course\<close>, \<open>Proto_Properties\<close>: what a server's answers lead to, and the properties
    of every execution: no panic, state and lease agree, the caller's view is the machine's,
    expiry, armed timers, stopping, foreign messages, Forcerenew.
  \<^item> \<open>Proto_Legal\<close>: every message of every execution is a row of RFC 2131 table 5 and encodes.
  \<^item> \<open>Proto_Journal\<close>: \<^verbatim>\<open>proto/journal.go\<close>: journal entries and their replay.
  \<^item> \<open>Proto6_Backoff\<close>: \<^verbatim>\<open>proto/backoff6.go\<close>: the retransmission timeouts of DHCPv6, against the
    bounds of RFC 9915 section 15.
  \<^item> \<open>Proto6_Iid\<close>, \<open>Proto6_Sha_Vectors\<close>: \<^verbatim>\<open>sha256.go\<close>, \<^verbatim>\<open>iid6.go\<close>: interface identifiers.
  \<^item> \<open>Proto6_Lease\<close>, \<open>Proto6_Lease_Properties\<close>: \<^verbatim>\<open>lease6.go\<close>, \<^verbatim>\<open>temporary6.go\<close>, \<^verbatim>\<open>prefix6.go\<close>: the
    DHCPv6 lease, the reading of a Reply, lifetimes carried from lease to lease; the order of the
    deadlines, and that renewing moves no end it was not told to.
  \<^item> \<open>Proto6_Params\<close>: \<^verbatim>\<open>params6.go\<close> and the rows of \<^verbatim>\<open>backoff6.go\<close>: what a client is given.
  \<^item> \<open>Proto6_Slaac\<close>, \<open>Proto6_Router\<close>: \<^verbatim>\<open>slaac6.go\<close> and \<^verbatim>\<open>router6.go\<close>: the table of formed addresses and
    the lists learned from Router Advertisements. \<open>Proto6_Slaac_Properties\<close>,
    \<open>Proto6_Router_Properties\<close>: their invariants \<open>table_ok\<close> and \<open>routers_ok\<close>, the two hour rule of
    RFC 4862 section 5.5.3, and what a full list gives up.
  \<^item> \<open>Proto6_State\<close>, \<open>Proto6_Machine\<close>, \<open>Proto6_Exchange\<close>, \<open>Proto6_Message\<close>, \<open>Proto6_Step\<close>:
    \<^verbatim>\<open>state6.go\<close>, \<^verbatim>\<open>machine6.go\<close>, \<^verbatim>\<open>machine6_slaac.go\<close>, \<^verbatim>\<open>machine6_reconfigure.go\<close>,
    \<^verbatim>\<open>machine6_hostname.go\<close>, \<^verbatim>\<open>rapidcommit6.go\<close>: the record \<open>Machine6\<close>, the actions it emits, the exchanges,
    the messages and \<open>Step6\<close> with the handlers of the eleven states.
  \<^item> \<open>Proto6_Moves\<close>, \<open>Proto6_Moves_Step\<close>: the moves every handler is made of, as locales: \<open>moves6\<close>
    (fields, quiet actions, messages), \<open>lease_moves6\<close> (what changes the lease, the tables and the
    keys) and \<open>all_moves6\<close> (an accepted Reconfigure). A predicate that every move keeps is kept by
    every handler and by \<open>Step6\<close>; it is proved once, there.
  \<^item> \<open>Proto6_Run\<close>, \<open>Proto6_Messages\<close>, \<open>Proto6_Reconfigure\<close>: \<open>exec6\<close>, the executions of a DHCPv6 client,
    and the interpretations of these locales: the caller's view of the lease (\<open>caller\<close>), the
    tables (\<open>tables\<close>), what is sent (\<open>speaks\<close>), the replay floor (\<open>floor\<close>) and the count of
    accepted Reconfigures (\<open>uncounted\<close>). \<open>Proto6_Samples\<close>: concrete clients.
  \<^item> \<open>Lease_Ratelimit\<close>: \<^verbatim>\<open>lease/ratelimit.go\<close>: the token bucket against the limit it implements.
  \<^item> \<open>Lease_Record\<close>, \<open>Lease_Rebuild\<close>: \<^verbatim>\<open>lease/record.go\<close>, \<^verbatim>\<open>rebuild.go\<close>: the fold of a record's
    events, its life, and the rebuild of a journal as a keyed store with one fold per record.
  \<^item> \<open>Lease_Event\<close>: \<^verbatim>\<open>lease/event.go\<close> and \<^verbatim>\<open>EventRecord\<close>: the clock bridge, the outward lease and events.
  \<^item> \<open>Lease_Manager\<close>: the DHCPv4 manager of \<^verbatim>\<open>lease/manager.go\<close>: \<open>NewManager\<close>, the actions of
    \<^verbatim>\<open>drain\<close> (\<open>execute\<close>), the queue of \<^verbatim>\<open>dispatch\<close>, the arms of the select in \<^verbatim>\<open>Run\<close> (\<open>run_input\<close>)
    and the calls of other goroutines. What the ports answer is an argument (\<open>turn\<close>), what
    they are told is a trace in the record.
  \<^item> \<open>Lease_Run\<close>, \<open>Lease_Noise\<close>: \<open>managed\<close>, the executions of a manager over every order of its
    channels; a locale that turns an invariant of single steps into one of executions.
  \<^item> \<open>Lease_Manager_Properties\<close>, \<open>Lease_Restart\<close>: its interpretations: the manager follows its
    machine, its journal replays, a stopped lease is in the record and is asked for again.

  \<^bold>\<open>Bounds.\<close> DHCPv4 executions run on a clock from 0 to \<open>2^62\<close> ns (146 years), so that the sum of
  an instant and a lease time does not leave 64 bits; what is shown of DHCPv6 executions holds at any clock. Nothing else is bounded: events,
  messages and random words are arbitrary, and a timer may fire late, early or after it was
  cancelled. No definition uses fuel: loops recurse on their data or carry a termination proof.

  The journal and the packet trace of a manager are unbounded here; the rings of the runtime
  keep a last part of them.

  \<^bold>\<open>Not modelled.\<close> The DHCPv6 arms of the manager, the
  release of a recorded lease and the fault injector of \<^verbatim>\<open>src/lease\<close>, the runtime's I/O, the
  repository's own tools, and the \<^verbatim>\<open>String\<close> methods.
\<close>

end
